(* ===== verification/Prelude.thy ===== *)
theory Prelude
  imports Main "HOL-Library.Word" "HOL-Library.Char_ord" "HOL-Library.List_Lexorder"
begin

text \<open>
  Shared vocabulary of the development: the machine-integer types of the Rust sources, the
  \<open>Result\<close> type with its \<open>?\<close> operator, loops over slices that may return early, and the
  slice rotation used by the router.  The lemmas collected in \<open>result_simps\<close> turn a statement
  \<open>computation = Inr r\<close> into the values every step of the computation produced.
\<close>

named_theorems result_simps "equations that decompose successful and failing results"

type_synonym u8 = "8 word"
type_synonym u16 = "16 word"
type_synonym u32 = "32 word"
type_synonym u64 = "64 word"
type_synonym u128 = "128 word"

section \<open>Results and the question-mark operator\<close>

text \<open>\<open>Result<T, E>\<close> is the sum \<open>'e + 't\<close>, \<open>Inl\<close> the error.\<close>

definition bind_res :: "'e + 'a \<Rightarrow> ('a \<Rightarrow> 'e + 'b) \<Rightarrow> 'e + 'b" where
  "bind_res m f = (case m of Inl e \<Rightarrow> Inl e | Inr x \<Rightarrow> f x)"

definition ok_or :: "'a option \<Rightarrow> 'e \<Rightarrow> 'e + 'a" where
  "ok_or m e = (case m of None \<Rightarrow> Inl e | Some x \<Rightarrow> Inr x)"

definition is_ok :: "'e + 'a \<Rightarrow> bool" where
  "is_ok m = (case m of Inl _ \<Rightarrow> False | Inr _ \<Rightarrow> True)"

definition guard_res :: "bool \<Rightarrow> 'e \<Rightarrow> 'e + unit" where
  "guard_res b e = (if b then Inr () else Inl e)"

lemma bind_res_simps [simp]:
  "bind_res (Inl e) f = Inl e" "bind_res (Inr x) f = f x"
  by (simp_all add: bind_res_def)

lemma ok_or_simps [simp]: "ok_or None e = Inl e" "ok_or (Some x) e = Inr x"
  by (simp_all add: ok_or_def)

lemma is_ok_simps [simp]: "\<not> is_ok (Inl e)" "is_ok (Inr x)"
  by (simp_all add: is_ok_def)

lemma guard_res_simps [simp]: "guard_res True e = Inr ()" "guard_res False e = Inl e"
  by (simp_all add: guard_res_def)

lemma bind_res_Inr_iff [result_simps]:
  "bind_res m f = Inr y \<longleftrightarrow> (\<exists>x. m = Inr x \<and> f x = Inr y)"
  by (cases m) auto

lemma bind_res_Inl_iff [result_simps]:
  "bind_res m f = Inl e \<longleftrightarrow> m = Inl e \<or> (\<exists>x. m = Inr x \<and> f x = Inl e)"
  by (cases m) auto

lemma ok_or_Inr_iff [result_simps]: "ok_or m e = Inr x \<longleftrightarrow> m = Some x"
  by (cases m) auto

lemma ok_or_Inl_iff [result_simps]: "ok_or m e = Inl e' \<longleftrightarrow> m = None \<and> e' = e"
  by (cases m) auto

lemma guard_res_Inr_iff [result_simps]: "guard_res b e = Inr u \<longleftrightarrow> b"
  by (cases b) auto

lemma guard_res_Inl_iff [result_simps]: "guard_res b e = Inl e' \<longleftrightarrow> \<not> b \<and> e' = e"
  by (cases b) auto

lemma is_ok_iff: "is_ok m \<longleftrightarrow> (\<exists>x. m = Inr x)"
  by (cases m) auto

lemma bind_res_cong [fundef_cong]:
  "m = m' \<Longrightarrow> (\<And>x. m' = Inr x \<Longrightarrow> f x = g x) \<Longrightarrow> bind_res m f = bind_res m' g"
  by (cases m') auto

section \<open>Loops with early return\<close>

text \<open>
  \<open>for x in xs { body(x, &mut s)? }\<close>: the accumulator is threaded through and the first error
  leaves the loop.  \<open>map_res\<close> is the special case that pushes one result per element.
\<close>

fun fold_res :: "('a \<Rightarrow> 's \<Rightarrow> 'e + 's) \<Rightarrow> 'a list \<Rightarrow> 's \<Rightarrow> 'e + 's" where
  "fold_res f [] s = Inr s"
| "fold_res f (x # xs) s = bind_res (f x s) (fold_res f xs)"

fun map_res :: "('a \<Rightarrow> 'e + 'b) \<Rightarrow> 'a list \<Rightarrow> 'e + 'b list" where
  "map_res f [] = Inr []"
| "map_res f (x # xs) = bind_res (f x) (\<lambda>y. bind_res (map_res f xs) (\<lambda>ys. Inr (y # ys)))"

lemma fold_res_invariant:
  assumes "fold_res f xs s = Inr t" and "I s"
    and "\<And>x s t. x \<in> set xs \<Longrightarrow> I s \<Longrightarrow> f x s = Inr t \<Longrightarrow> I t"
  shows "I t"
  using assms
proof (induction xs arbitrary: s)
  case Nil
  then show ?case by simp
next
  case (Cons x xs)
  from Cons.prems(1) obtain u where u: "f x s = Inr u" "fold_res f xs u = Inr t"
    by (auto simp: result_simps)
  have "I u" using Cons.prems(2,3) u(1) by auto
  then show ?case using Cons.IH [OF u(2)] Cons.prems(3) by auto
qed

lemma fold_res_append:
  "fold_res f (xs @ ys) s = bind_res (fold_res f xs s) (fold_res f ys)"
  by (induction xs arbitrary: s) (auto simp: bind_res_def split: sum.splits)

lemma map_res_Inr_iff [result_simps]:
  "map_res f xs = Inr ys \<longleftrightarrow> list_all2 (\<lambda>x y. f x = Inr y) xs ys"
proof (induction xs arbitrary: ys)
  case Nil
  then show ?case by auto
next
  case (Cons x xs)
  show ?case by (cases ys) (auto simp: result_simps Cons)
qed

lemma map_res_set:
  assumes "map_res f xs = Inr ys" and "y \<in> set ys"
  shows "\<exists>x \<in> set xs. f x = Inr y"
proof -
  obtain i where i: "i < length ys" "ys ! i = y"
    using assms(2) by (auto simp: in_set_conv_nth)
  have "list_all2 (\<lambda>x y. f x = Inr y) xs ys"
    using assms(1) by (simp add: result_simps)
  then have "i < length xs" "f (xs ! i) = Inr (ys ! i)"
    using i(1) by (auto simp: list_all2_conv_all_nth)
  then show ?thesis using i(2) nth_mem by blast
qed

lemma map_res_length: "map_res f xs = Inr ys \<Longrightarrow> length ys = length xs"
  by (auto simp: result_simps dest: list_all2_lengthD)

lemma find_SomeD: "find P xs = Some x \<Longrightarrow> x \<in> set xs \<and> P x"
  by (auto simp: find_Some_iff)

lemma find_eq_None: "find P xs = None \<longleftrightarrow> list_all (\<lambda>x. \<not> P x) xs"
  by (auto simp: find_None_iff list_all_iff)

section \<open>Slices\<close>

text \<open>\<open>slice::rotate_left(mid)\<close> for \<open>mid \<le> len\<close> (the only case the router uses).\<close>

definition rotate_left :: "nat \<Rightarrow> 'a list \<Rightarrow> 'a list" where
  "rotate_left i xs = drop i xs @ take i xs"

lemma rotate_left_0 [simp]: "rotate_left 0 xs = xs"
  by (simp add: rotate_left_def)

lemma length_rotate_left [simp]: "length (rotate_left i xs) = length xs"
  by (simp add: rotate_left_def)

lemma set_rotate_left [simp]: "set (rotate_left i xs) = set xs"
proof -
  have "set (take i xs) \<union> set (drop i xs) = set xs"
    by (metis append_take_drop_id set_append)
  then show ?thesis by (simp add: rotate_left_def Un_commute)
qed

lemma rotate_left_eq_Nil [simp]: "rotate_left i xs = [] \<longleftrightarrow> xs = []"
  by (auto simp: rotate_left_def)

lemma hd_rotate_left: "i < length xs \<Longrightarrow> hd (rotate_left i xs) = xs ! i"
  by (simp add: rotate_left_def hd_append hd_drop_conv_nth)

lemma rotate_left_rotate: "i \<le> length xs \<Longrightarrow> rotate_left i xs = rotate i xs"
  by (cases "i = length xs") (auto simp: rotate_left_def rotate_drop_take)

section \<open>Saturating arithmetic\<close>

definition saturating_add :: "u64 \<Rightarrow> u64 \<Rightarrow> u64" where
  "saturating_add a b = (if a + b < a then - 1 else a + b)"

definition saturating_sub :: "u64 \<Rightarrow> u64 \<Rightarrow> u64" where
  "saturating_sub a b = (if a < b then 0 else a - b)"

text \<open>\<open>try_into().unwrap_or(u64::MAX)\<close> of a wider number.\<close>

definition saturating_u64 :: "nat \<Rightarrow> u64" where
  "saturating_u64 n = (if n < 2 ^ 64 then of_nat n else - 1)"

lemma unat_saturating_u64: "unat (saturating_u64 n) = min n (2 ^ 64 - 1)"
proof (cases "n < 2 ^ 64")
  case True
  then show ?thesis by (simp add: saturating_u64_def unat_of_nat)
next
  case False
  moreover have "unat (- 1 :: u64) = 2 ^ 64 - 1" by (simp add: unsigned_minus_1_eq_mask mask_eq_exp_minus_1)
  ultimately show ?thesis by (simp add: saturating_u64_def)
qed

lemma saturating_add_le: "a \<le> saturating_add a b"
  by (auto simp: saturating_add_def not_less)

lemma saturating_sub_le: "saturating_sub a b \<le> a"
  by (auto simp: saturating_sub_def word_le_nat_alt word_less_nat_alt unat_sub)

end
