(* ===== verification/Ordered_Map.thy ===== *)
theory Ordered_Map
  imports Prelude
begin

text \<open>
  \<open>BTreeMap\<close> and \<open>BTreeSet\<close>: association lists and lists sorted strictly by key, the order in
  which Rust iterates them.  The interface a client relies on is the locale \<open>keyed_map\<close>; the
  facts every client needs (what is left of a map after a sequence of insertions, which keys a
  guarded loop of insertions cannot touch) are proved there once and used through the
  interpretation \<open>bt\<close>.
\<close>

section \<open>The interface\<close>

locale keyed_map =
  fixes get :: "'m \<Rightarrow> 'k \<Rightarrow> 'v option"
    and put :: "'k \<Rightarrow> 'v \<Rightarrow> 'm \<Rightarrow> 'm"
    and del :: "'k \<Rightarrow> 'm \<Rightarrow> 'm"
    and wf :: "'m \<Rightarrow> bool"
  assumes get_put: "get (put k v m) = (get m)(k \<mapsto> v)"
    and get_del: "get (del k m) = (get m)(k := None)"
    and wf_put: "wf m \<Longrightarrow> wf (put k v m)"
    and wf_del: "wf m \<Longrightarrow> wf (del k m)"
begin

lemma get_put_same [simp]: "get (put k v m) k = Some v"
  by (simp add: get_put)

lemma get_put_other [simp]: "k' \<noteq> k \<Longrightarrow> get (put k v m) k' = get m k'"
  by (simp add: get_put)

lemma get_fold_put:
  "get (fold (\<lambda>(k, v). put k v) kvs m) = get m ++ map_of (rev kvs)"
proof (induction kvs arbitrary: m)
  case Nil
  then show ?case by simp
next
  case (Cons kv kvs)
  then show ?case by (cases kv) (simp add: get_put map_add_upd_left map_add_def fun_eq_iff split: option.splits)
qed

lemma get_fold_put_other:
  "k \<notin> fst ` set kvs \<Longrightarrow> get (fold (\<lambda>(k, v). put k v) kvs m) k = get m k"
  by (induction kvs arbitrary: m) (auto simp: get_put)

lemma wf_fold_put: "wf m \<Longrightarrow> wf (fold (\<lambda>(k, v). put k v) kvs m)"
  by (induction kvs arbitrary: m) (auto simp: wf_put)

text \<open>A loop that skips the keys a guard protects leaves those keys alone.\<close>

lemma get_fold_guarded_protected:
  "G k \<Longrightarrow> get (fold (\<lambda>(k, v) m. if G k then m else put k (f v) m) kvs m) k = get m k"
  by (induction kvs arbitrary: m) (auto simp: get_put)

lemma get_fold_guarded_absent:
  "k \<notin> fst ` set kvs \<Longrightarrow>
     get (fold (\<lambda>(k, v) m. if G k then m else put k (f v) m) kvs m) k = get m k"
  by (induction kvs arbitrary: m) (auto simp: get_put)

lemma get_fold_guarded_free:
  assumes "\<not> G k" and "(k, v) \<in> set kvs" and "distinct (map fst kvs)"
  shows "get (fold (\<lambda>(k, v) m. if G k then m else put k (f v) m) kvs m) k = Some (f v)"
  using assms
proof (induction kvs arbitrary: m)
  case Nil
  then show ?case by simp
next
  case (Cons kv kvs)
  show ?case
  proof (cases "kv = (k, v)")
    case True
    then have "k \<notin> fst ` set kvs" using Cons.prems(3) by auto
    then show ?thesis using True Cons.prems(1) by (simp add: get_fold_guarded_absent)
  next
    case False
    then show ?thesis using Cons by (cases kv) auto
  qed
qed

lemma wf_fold_guarded:
  "wf m \<Longrightarrow> wf (fold (\<lambda>(k, v) m. if G k then m else put k (f v) m) kvs m)"
  by (induction kvs arbitrary: m) (auto simp: wf_put)

end

section \<open>Sorted association lists\<close>

definition bt_wf :: "('k::linorder \<times> 'v) list \<Rightarrow> bool" where
  "bt_wf m \<longleftrightarrow> sorted_wrt (<) (map fst m)"

definition bt_get :: "('k \<times> 'v) list \<Rightarrow> 'k \<Rightarrow> 'v option" where
  "bt_get m k = map_of m k"

definition bt_contains :: "('k \<times> 'v) list \<Rightarrow> 'k \<Rightarrow> bool" where
  "bt_contains m k \<longleftrightarrow> bt_get m k \<noteq> None"

fun bt_insert :: "'k::linorder \<Rightarrow> 'v \<Rightarrow> ('k \<times> 'v) list \<Rightarrow> ('k \<times> 'v) list" where
  "bt_insert k v [] = [(k, v)]"
| "bt_insert k v (e # m) =
     (if fst e < k then e # bt_insert k v m
      else if k = fst e then (k, v) # m
      else (k, v) # e # m)"

definition bt_remove :: "'k \<Rightarrow> ('k \<times> 'v) list \<Rightarrow> ('k \<times> 'v) list" where
  "bt_remove k m = filter (\<lambda>e. fst e \<noteq> k) m"

text \<open>\<open>map.entry(k).or_insert(v)\<close>.\<close>

definition bt_or_insert :: "'k::linorder \<Rightarrow> 'v \<Rightarrow> ('k \<times> 'v) list \<Rightarrow> ('k \<times> 'v) list" where
  "bt_or_insert k v m = (if bt_contains m k then m else bt_insert k v m)"

definition bt_of_list :: "('k::linorder \<times> 'v) list \<Rightarrow> ('k \<times> 'v) list" where
  "bt_of_list kvs = fold (\<lambda>(k, v). bt_insert k v) kvs []"

lemma bt_get_insert: "bt_get (bt_insert k v m) = (bt_get m)(k \<mapsto> v)"
  unfolding bt_get_def by (induction m) (auto simp: fun_eq_iff)

lemma bt_get_remove: "bt_get (bt_remove k m) = (bt_get m)(k := None)"
  unfolding bt_get_def bt_remove_def by (induction m) (auto simp: fun_eq_iff)

lemma keys_bt_insert: "fst ` set (bt_insert k v m) = insert k (fst ` set m)"
  by (induction m) auto

lemma bt_wf_Cons:
  "bt_wf (e # m) \<longleftrightarrow> (\<forall>k \<in> fst ` set m. fst e < k) \<and> bt_wf m"
  by (auto simp: bt_wf_def)

lemma bt_wf_insert: "bt_wf m \<Longrightarrow> bt_wf (bt_insert k v m)"
proof (induction m)
  case Nil
  then show ?case by (simp add: bt_wf_def)
next
  case (Cons e m)
  then have e: "\<forall>k \<in> fst ` set m. fst e < k" "bt_wf m" by (auto simp: bt_wf_Cons)
  consider "fst e < k" | "k = fst e" | "k < fst e" using linorder_less_linear by blast
  then show ?case
  proof cases
    case 1
    then show ?thesis using Cons e keys_bt_insert [of k v m] by (auto simp: bt_wf_Cons)
  next
    case 2
    then show ?thesis using e by (auto simp: bt_wf_Cons)
  next
    case 3
    then have "\<forall>k' \<in> fst ` set m. k < k'" using e(1) by (metis less_trans)
    then show ?thesis using 3 e by (auto simp: bt_wf_Cons)
  qed
qed

lemma bt_wf_remove: "bt_wf m \<Longrightarrow> bt_wf (bt_remove k m)"
  unfolding bt_wf_def bt_remove_def by (induction m) auto

interpretation bt: keyed_map bt_get bt_insert bt_remove bt_wf
  by unfold_locales (simp_all add: bt_get_insert bt_get_remove bt_wf_insert bt_wf_remove)

lemma bt_get_Nil [simp]: "bt_get [] k = None"
  by (simp add: bt_get_def)

lemma bt_wf_Nil [simp]: "bt_wf []"
  by (simp add: bt_wf_def)

lemma bt_get_or_insert:
  "bt_get (bt_or_insert k v m) =
     (bt_get m)(k := (case bt_get m k of None \<Rightarrow> Some v | Some w \<Rightarrow> Some w))"
  by (auto simp: bt_or_insert_def bt_contains_def bt_get_insert fun_eq_iff)

lemma bt_wf_or_insert: "bt_wf m \<Longrightarrow> bt_wf (bt_or_insert k v m)"
  by (simp add: bt_or_insert_def bt_wf_insert)

lemma bt_wf_of_list: "bt_wf (bt_of_list kvs)"
  by (simp add: bt_of_list_def bt.wf_fold_put)

lemma bt_get_of_list: "bt_get (bt_of_list kvs) = map_of (rev kvs)"
proof -
  have "bt_get [] = Map.empty" by (simp add: fun_eq_iff)
  then show ?thesis by (simp add: bt_of_list_def bt.get_fold_put map_add_def fun_eq_iff split: option.splits)
qed

lemma bt_wf_distinct: "bt_wf m \<Longrightarrow> distinct (map fst m)"
  by (simp add: bt_wf_def strict_sorted_iff)

lemma bt_get_Some_mem: "bt_get m k = Some v \<Longrightarrow> (k, v) \<in> set m"
  by (simp add: bt_get_def map_of_SomeD)

lemma bt_get_mem: "bt_wf m \<Longrightarrow> (k, v) \<in> set m \<Longrightarrow> bt_get m k = Some v"
  by (simp add: bt_get_def bt_wf_distinct)

lemma bt_get_None_iff: "bt_get m k = None \<longleftrightarrow> k \<notin> fst ` set m"
  by (simp add: bt_get_def map_of_eq_None_iff)

text \<open>A strictly sorted association list is determined by its lookups.\<close>

lemma bt_ext:
  assumes "bt_wf m" and "bt_wf n" and "bt_get m = bt_get n"
  shows "m = n"
proof -
  have "set m = set n"
    using assms by (metis bt_get_Some_mem bt_get_mem subrelI subset_antisym)
  moreover have "sorted (map fst m)" "sorted (map fst n)"
    using assms(1,2) by (auto simp: bt_wf_def strict_sorted_iff)
  ultimately show ?thesis
    using assms(1,2) map_sorted_distinct_set_unique [of fst m n]
    by (metis bt_wf_distinct distinct_map Un_absorb)
qed

text \<open>Replacing every value keeps the keys and their order.\<close>

definition bt_map :: "('v \<Rightarrow> 'w) \<Rightarrow> ('k \<times> 'v) list \<Rightarrow> ('k \<times> 'w) list" where
  "bt_map f m = map (\<lambda>(k, v). (k, f v)) m"

lemma bt_get_map: "bt_get (bt_map f m) k = map_option f (bt_get m k)"
  unfolding bt_get_def bt_map_def by (induction m) auto

lemma map_fst_bt_map [simp]: "map fst (map (\<lambda>(k, v). (k, g k v)) m) = map fst m"
  by (induction m) auto

section \<open>Sorted lists as sets\<close>

definition bs_wf :: "'k::linorder list \<Rightarrow> bool" where
  "bs_wf s \<longleftrightarrow> sorted_wrt (<) s"

fun bs_insert :: "'k::linorder \<Rightarrow> 'k list \<Rightarrow> 'k list" where
  "bs_insert k [] = [k]"
| "bs_insert k (x # s) =
     (if x < k then x # bs_insert k s else if k = x then x # s else k # x # s)"

definition bs_remove :: "'k \<Rightarrow> 'k list \<Rightarrow> 'k list" where
  "bs_remove k s = filter (\<lambda>x. x \<noteq> k) s"

definition bs_extend :: "'k::linorder list \<Rightarrow> 'k list \<Rightarrow> 'k list" where
  "bs_extend xs s = fold bs_insert xs s"

lemma set_bs_insert [simp]: "set (bs_insert k s) = insert k (set s)"
  by (induction s) auto

lemma set_bs_remove [simp]: "set (bs_remove k s) = set s - {k}"
  by (auto simp: bs_remove_def)

lemma set_bs_extend [simp]: "set (bs_extend xs s) = set xs \<union> set s"
  unfolding bs_extend_def by (induction xs arbitrary: s) auto

lemma bs_wf_insert: "bs_wf s \<Longrightarrow> bs_wf (bs_insert k s)"
proof (induction s)
  case Nil
  then show ?case by (simp add: bs_wf_def)
next
  case (Cons x s)
  then show ?case by (auto simp: bs_wf_def)
qed

lemma bs_wf_remove: "bs_wf s \<Longrightarrow> bs_wf (bs_remove k s)"
  unfolding bs_wf_def bs_remove_def by (simp add: sorted_wrt_filter)

lemma bs_wf_extend: "bs_wf s \<Longrightarrow> bs_wf (bs_extend xs s)"
  unfolding bs_extend_def by (induction xs arbitrary: s) (auto simp: bs_wf_insert)

end
