(* ===== verification/Json_Value.thy ===== *)
theory Json_Value
  imports Ordered_Map Rust_Str
begin

text \<open>
  The data model of \<open>serde_json::Value\<close> (built without \<open>preserve_order\<close>, so objects are
  \<open>BTreeMap\<close>s) and of \<open>toml::Value\<close>, with the accessors the sources use.  The parser and the
  printer of the two crates are not part of the repository: they are the fields of the record
  \<open>serde\<close>, an argument of every definition that reads or writes bytes.
\<close>

section \<open>Values\<close>

text \<open>
  \<open>serde_json::Number\<close>: a non-negative integer, a negative integer or a finite float.  Floats are
  kept as their IEEE 754 bit pattern; nothing in the sources computes with them.
\<close>

datatype number = PosInt u64 | NegInt int | Float u64

datatype json =
    JNull
  | JBool bool
  | JNumber number
  | JString string
  | JArray "json list"
  | JObject "(string \<times> json) list"

type_synonym json_map = "(string \<times> json) list"

datatype toml =
    TString string
  | TInteger int
  | TFloat u64
  | TBoolean bool
  | TDatetime string
  | TArray "toml list"
  | TTable "(string \<times> toml) list"

record serde =
  from_slice :: "string \<Rightarrow> json option"
  to_vec :: "json \<Rightarrow> string option"
  to_string :: "json \<Rightarrow> string"

section \<open>Accessors\<close>

fun is_null :: "json \<Rightarrow> bool" where
  "is_null JNull = True"
| "is_null _ = False"

fun as_str :: "json \<Rightarrow> string option" where
  "as_str (JString s) = Some s"
| "as_str _ = None"

fun as_bool :: "json \<Rightarrow> bool option" where
  "as_bool (JBool b) = Some b"
| "as_bool _ = None"

fun as_u64 :: "json \<Rightarrow> u64 option" where
  "as_u64 (JNumber (PosInt n)) = Some n"
| "as_u64 _ = None"

fun as_array :: "json \<Rightarrow> json list option" where
  "as_array (JArray xs) = Some xs"
| "as_array _ = None"

fun as_object :: "json \<Rightarrow> json_map option" where
  "as_object (JObject m) = Some m"
| "as_object _ = None"

text \<open>\<open>Value::get\<close> with a string index: only objects have fields.\<close>

fun jget :: "json \<Rightarrow> string \<Rightarrow> json option" where
  "jget (JObject m) k = bt_get m k"
| "jget _ k = None"

text \<open>The \<open>json!({...})\<close> macro: the fields are inserted into an empty map one after the other.\<close>

definition jobj :: "(string \<times> json) list \<Rightarrow> json" where
  "jobj kvs = JObject (bt_of_list kvs)"

definition jnat :: "u64 \<Rightarrow> json" where
  "jnat n = JNumber (PosInt n)"

definition obj_str :: "json_map \<Rightarrow> string \<Rightarrow> string option" where
  "obj_str m k = Option.bind (bt_get m k) as_str"

definition get_str :: "json \<Rightarrow> string \<Rightarrow> string option" where
  "get_str v k = Option.bind (jget v k) as_str"

section \<open>Quantifying over the objects inside a value\<close>

fun all_objects :: "(json_map \<Rightarrow> bool) \<Rightarrow> json \<Rightarrow> bool" where
  "all_objects P (JObject m) = (P m \<and> list_all (\<lambda>e. all_objects P (snd e)) m)"
| "all_objects P (JArray xs) = list_all (all_objects P) xs"
| "all_objects P _ = True"

text \<open>A value serde can build: every object in it is sorted strictly by key.\<close>

definition json_wf :: "json \<Rightarrow> bool" where
  "json_wf v = all_objects bt_wf v"

lemma json_wf_simps [simp]:
  "json_wf (JObject m) = (bt_wf m \<and> (\<forall>e \<in> set m. json_wf (snd e)))"
  "json_wf (JArray xs) = (\<forall>x \<in> set xs. json_wf x)"
  "json_wf JNull" "json_wf (JBool b)" "json_wf (JNumber n)" "json_wf (JString s)"
  by (auto simp: json_wf_def list_all_iff)

lemma mem_bt_insert:
  "e \<in> set (bt_insert k v m) \<Longrightarrow> e = (k, v) \<or> e \<in> set m"
  by (induction m) (auto split: if_splits)

lemma json_wf_insert:
  "json_wf (JObject m) \<Longrightarrow> json_wf v \<Longrightarrow> json_wf (JObject (bt_insert k v m))"
  by (auto simp: bt_wf_insert dest!: mem_bt_insert)

lemma json_wf_remove: "json_wf (JObject m) \<Longrightarrow> json_wf (JObject (bt_remove k m))"
  by (auto simp: bt_wf_remove) (auto simp: bt_remove_def)

lemma json_wf_or_insert:
  "json_wf (JObject m) \<Longrightarrow> json_wf v \<Longrightarrow> json_wf (JObject (bt_or_insert k v m))"
  unfolding bt_or_insert_def using json_wf_insert by simp

lemma json_wf_bt_get: "json_wf (JObject m) \<Longrightarrow> bt_get m k = Some v \<Longrightarrow> json_wf v"
  by (auto dest!: bt_get_Some_mem)

lemma json_wf_jget: "json_wf v \<Longrightarrow> jget v k = Some w \<Longrightarrow> json_wf w"
  by (cases v) (auto intro: json_wf_bt_get)

lemma json_wf_fold_insert:
  "json_wf (JObject m) \<Longrightarrow> \<forall>e \<in> set kvs. json_wf (snd e) \<Longrightarrow>
     json_wf (JObject (fold (\<lambda>(k, v). bt_insert k v) kvs m))"
proof (induction kvs arbitrary: m)
  case Nil
  then show ?case by simp
next
  case (Cons e kvs)
  have "json_wf (JObject (bt_insert (fst e) (snd e) m))"
    using Cons.prems by (intro json_wf_insert) auto
  then show ?case using Cons.IH Cons.prems(2) by (cases e) simp
qed

lemma json_wf_jobj: "\<forall>e \<in> set kvs. json_wf (snd e) \<Longrightarrow> json_wf (jobj kvs)"
  using json_wf_fold_insert [of "[]" kvs] by (simp add: jobj_def bt_of_list_def)

lemma jget_jobj [simp]: "jget (jobj kvs) k = map_of (rev kvs) k"
  by (simp add: jobj_def bt_get_of_list)

lemma as_object_jobj: "as_object (jobj kvs) = Some (bt_of_list kvs)"
  by (simp add: jobj_def)

end
