(* ===== verification/Endpoints.thy ===== *)
theory Endpoints
  imports Json_Value
begin

text \<open>
  Names shared by the configuration layer and the router: the compatibility markers
  (\<open>onair-core/src/compat.rs\<close>), the recognised markers (\<open>routing_markers.rs\<close>), the endpoint
  paths (\<open>openai/paths.rs\<close>), the model listing objects (\<open>openai/models.rs\<close>) and the
  storage-shape sanitiser (\<open>sanitize.rs\<close>).
\<close>

section \<open>Markers\<close>

definition RESPONSES_VIA_CHAT_COMPLETIONS :: string where
  "RESPONSES_VIA_CHAT_COMPLETIONS = ''responses_via_chat_completions''"

definition CHAT_COMPLETIONS_VIA_RESPONSES :: string where
  "CHAT_COMPLETIONS_VIA_RESPONSES = ''chat_completions_via_responses''"

definition CHAT_COMPLETIONS_VIA_MESSAGES :: string where
  "CHAT_COMPLETIONS_VIA_MESSAGES = ''chat_completions_via_messages''"

definition KNOWN_MARKERS :: "string list" where
  "KNOWN_MARKERS =
     [''all'', ''streaming'', ''chat'', ''chat_completions'', ''completions'', ''messages'',
      ''responses'', ''response'', ''tools'', ''tool_calls'', ''function_calling'', ''functions'',
      ''responses_via_chat_completions'', ''chat_completions_via_responses'',
      ''chat_completions_via_messages'', ''embeddings'', ''embedding'', ''images'', ''image'',
      ''audio'', ''files'', ''file'', ''models'', ''model'', ''batches'', ''batch'',
      ''fine_tuning'', ''assistants'', ''assistant'', ''threads'', ''thread'',
      ''vector_stores'', ''vector_store'', ''uploads'', ''upload'']"

definition is_known_marker :: "string \<Rightarrow> bool" where
  "is_known_marker v \<longleftrightarrow> v \<in> set KNOWN_MARKERS"

section \<open>Endpoint paths\<close>

definition RESPONSES_PATH :: string where "RESPONSES_PATH = ''/v1/responses''"

definition CHAT_COMPLETIONS_PATH :: string where
  "CHAT_COMPLETIONS_PATH = ''/v1/chat/completions''"

definition MESSAGES_PATH :: string where "MESSAGES_PATH = ''/v1/messages''"

lemmas path_defs = RESPONSES_PATH_def CHAT_COMPLETIONS_PATH_def MESSAGES_PATH_def

definition normalize_path :: "string \<Rightarrow> string" where
  "normalize_path p = trim_end_matches CHR ''/'' p"

datatype endpoint_kind = EkResponses | EkChatCompletions | EkMessages | EkOther

definition endpoint_kind :: "string \<Rightarrow> endpoint_kind" where
  "endpoint_kind path =
     (let normalized = normalize_path path
      in if normalized = RESPONSES_PATH then EkResponses
         else if normalized = CHAT_COMPLETIONS_PATH then EkChatCompletions
         else if normalized = MESSAGES_PATH then EkMessages
         else EkOther)"

definition is_native_responses :: "endpoint_kind \<Rightarrow> bool" where
  "is_native_responses k \<longleftrightarrow> k = EkResponses"

definition is_chat_completions :: "endpoint_kind \<Rightarrow> bool" where
  "is_chat_completions k \<longleftrightarrow> k = EkChatCompletions"

definition is_messages :: "endpoint_kind \<Rightarrow> bool" where
  "is_messages k \<longleftrightarrow> k = EkMessages"

lemmas kind_defs = is_native_responses_def is_chat_completions_def is_messages_def

section \<open>Request modes and upstream paths\<close>

text \<open>\<open>RequestMode\<close> and \<open>upstream_path_for_mode\<close> of \<open>openai/request.rs\<close>.\<close>

datatype request_mode =
    Native
  | ResponsesViaChatCompletions
  | ChatCompletionsViaResponses
  | ChatCompletionsViaMessages
  | AnthropicMessagesNative

definition upstream_path_for_mode :: "string \<Rightarrow> request_mode \<Rightarrow> string" where
  "upstream_path_for_mode path mode =
     (let kind = endpoint_kind path
      in if mode = ResponsesViaChatCompletions \<and> is_native_responses kind then CHAT_COMPLETIONS_PATH
         else if mode = ChatCompletionsViaResponses \<and> is_chat_completions kind then RESPONSES_PATH
         else if mode = ChatCompletionsViaMessages \<and> is_chat_completions kind then MESSAGES_PATH
         else path)"

text \<open>\<open>upstream_path\<close> of \<open>proxy/upstream.rs\<close>: the typo-compatible alias.\<close>

definition upstream_path :: "string \<Rightarrow> string" where
  "upstream_path path =
     (if path = ''/v1/chat/completion'' then ''/v1/chat/completions'' else path)"

section \<open>Model listing\<close>

record model_meta =
  n_ctx :: u64
  n_ctx_train :: "u64 option"

record model_object =
  mo_id :: string
  mo_object :: string
  mo_created :: u64
  mo_owned_by :: string
  mo_meta :: "model_meta option"

definition model_object_new :: "string \<Rightarrow> u64 option \<Rightarrow> model_object" where
  "model_object_new i context_length =
     \<lparr>mo_id = i, mo_object = ''model'', mo_created = 0, mo_owned_by = ''onair'',
      mo_meta = map_option (\<lambda>n. \<lparr>n_ctx = n, n_ctx_train = None\<rparr>) context_length\<rparr>"

definition model_object_new_static :: "string \<Rightarrow> u64 \<Rightarrow> model_object" where
  "model_object_new_static i context_length =
     \<lparr>mo_id = i, mo_object = ''model'', mo_created = 0, mo_owned_by = ''onair'',
      mo_meta = Some \<lparr>n_ctx = context_length, n_ctx_train = Some context_length\<rparr>\<rparr>"

record models_response =
  mr_object :: string
  mr_data :: "model_object list"

text \<open>\<open>sort_by\<close> is a stable sort; so is \<open>sort_key\<close>.\<close>

definition models_response :: "model_object list \<Rightarrow> models_response" where
  "models_response models = \<lparr>mr_object = ''list'', mr_data = sort_key mo_id models\<rparr>"

section \<open>Storage-shape sanitiser\<close>

definition STORAGE_SEGMENT_MAX_CHARS :: nat where "STORAGE_SEGMENT_MAX_CHARS = 160"

definition DISPLAY_SEGMENT_MAX_CHARS :: nat where "DISPLAY_SEGMENT_MAX_CHARS = 512"

text \<open>
  A byte above 127 belongs to a non-ASCII code point, all of whose bytes are dropped; what is kept
  is ASCII, so counting bytes counts code points.
\<close>

definition sanitize_char :: "char \<Rightarrow> char option" where
  "sanitize_char c =
     (if is_ascii_alphanumeric c \<or> c \<in> {CHR ''-'', CHR ''_'', CHR ''.''} then Some c
      else if is_ascii c \<and> \<not> is_ascii_control c then Some CHR ''_''
      else None)"

definition sanitize_for_storage :: "string \<Rightarrow> nat \<Rightarrow> string option" where
  "sanitize_for_storage v max_chars =
     (let segment = take max_chars (List.map_filter sanitize_char v)
      in if segment = [] then None else Some segment)"

definition storage_safe :: "char \<Rightarrow> bool" where
  "storage_safe c \<longleftrightarrow> is_ascii_alphanumeric c \<or> c \<in> {CHR ''-'', CHR ''_'', CHR ''.''}"

lemma sanitize_char_safe: "sanitize_char c = Some d \<Longrightarrow> storage_safe d"
  by (auto simp: sanitize_char_def storage_safe_def split: if_splits)

lemma sanitize_char_fixed: "storage_safe c \<Longrightarrow> sanitize_char c = Some c"
  by (auto simp: sanitize_char_def storage_safe_def)

lemma map_filter_fixed:
  "list_all storage_safe s \<Longrightarrow> List.map_filter sanitize_char s = s"
  by (induction s) (auto simp: sanitize_char_fixed)

lemma map_filter_sanitize_safe:
  "list_all storage_safe (List.map_filter sanitize_char v)"
  by (auto simp: list_all_iff List.map_filter_def dest: sanitize_char_safe)

text \<open>
  A sanitised segment is non-empty, at most the requested length, made of ASCII letters,
  digits, dashes, underscores and dots only (so no path separator survives), and sanitising it
  again with the same bound changes nothing.
\<close>

theorem sanitize_for_storage_safe:
  assumes "sanitize_for_storage v n = Some s"
  shows "s \<noteq> [] \<and> length s \<le> n \<and> list_all storage_safe s \<and> CHR ''/'' \<notin> set s
    \<and> sanitize_for_storage s n = Some s"
proof -
  have s: "s = take n (List.map_filter sanitize_char v)" "s \<noteq> []"
    using assms by (auto simp: sanitize_for_storage_def Let_def split: if_splits)
  have safe: "list_all storage_safe s"
    using map_filter_sanitize_safe [of v] unfolding s(1)
    by (auto simp: list_all_iff dest: in_set_takeD)
  have "\<not> storage_safe CHR ''/''" by code_simp
  then have slash: "CHR ''/'' \<notin> set s" using safe by (auto simp: list_all_iff)
  have len: "length s \<le> n" by (simp add: s(1))
  have "sanitize_for_storage s n = Some s"
    using s(2) len by (simp add: sanitize_for_storage_def map_filter_fixed [OF safe])
  then show ?thesis using s(2) len safe slash by blast
qed

theorem sanitize_for_storage_safe_witness:
  "sanitize_for_storage ''req/test value'' 8 = Some ''req_test'' \<and> CHR ''/'' \<notin> set ''req_test''"
proof -
  have h: "sanitize_for_storage ''req/test value'' 8 = Some ''req_test''" by code_simp
  show ?thesis using h sanitize_for_storage_safe [OF h] by blast
qed

end
