(* ===== verification/Ip_Cidr.thy ===== *)
theory Ip_Cidr
  imports Rust_Str
begin

unbundle bit_operations_syntax

text \<open>
  \<open>onair-core/src/ip_cidr.rs\<close>: parsing and matching of the CIDR blocks that name trusted proxies,
  together with the textual address parser of Rust's standard library that it calls.
  An IPv4 address is its 32-bit value, an IPv6 address its 128-bit value.
\<close>

section \<open>Addresses and their text\<close>

datatype ip_addr = V4 u32 | V6 u128

fun digit_value :: "nat \<Rightarrow> char \<Rightarrow> nat option" where
  "digit_value radix c =
     (let b = byte c;
          d = (if 48 \<le> b \<and> b \<le> 57 then Some (b - 48)
               else if 97 \<le> b \<and> b \<le> 122 then Some (b - 87)
               else if 65 \<le> b \<and> b \<le> 90 then Some (b - 55)
               else None)
      in case d of None \<Rightarrow> None | Some v \<Rightarrow> if v < radix then Some v else None)"

definition number_value :: "nat \<Rightarrow> string \<Rightarrow> nat" where
  "number_value radix ds =
     fold (\<lambda>c acc. acc * radix + (case digit_value radix c of None \<Rightarrow> 0 | Some v \<Rightarrow> v)) ds 0"

text \<open>\<open>Parser::read_number\<close> of \<open>core::net\<close>, for a bounded number of digits.\<close>

definition read_number ::
  "nat \<Rightarrow> nat \<Rightarrow> bool \<Rightarrow> nat \<Rightarrow> string \<Rightarrow> (nat \<times> string) option" where
  "read_number radix max_digits allow_zero_prefix max_value s =
     (let ds = takeWhile (\<lambda>c. digit_value radix c \<noteq> None) s;
          rest = dropWhile (\<lambda>c. digit_value radix c \<noteq> None) s;
          v = number_value radix ds
      in if ds = [] \<or> max_digits < length ds then None
         else if \<not> allow_zero_prefix \<and> hd ds = CHR ''0'' \<and> 1 < length ds then None
         else if max_value < v then None
         else Some (v, rest))"

definition read_separator ::
  "char \<Rightarrow> nat \<Rightarrow> (string \<Rightarrow> ('a \<times> string) option) \<Rightarrow> string \<Rightarrow> ('a \<times> string) option" where
  "read_separator sep i inner s =
     (if i = 0 then inner s
      else case s of [] \<Rightarrow> None | c # t \<Rightarrow> if c = sep then inner t else None)"

fun read_octets :: "nat \<Rightarrow> nat \<Rightarrow> string \<Rightarrow> (nat list \<times> string) option" where
  "read_octets 0 i s = Some ([], s)"
| "read_octets (Suc k) i s =
     (case read_separator CHR ''.'' i (read_number 10 3 False 255) s of
        None \<Rightarrow> None
      | Some (v, rest) \<Rightarrow>
          (case read_octets k (Suc i) rest of
             None \<Rightarrow> None
           | Some (vs, rest') \<Rightarrow> Some (v # vs, rest')))"

definition read_ipv4_addr :: "string \<Rightarrow> (nat list \<times> string) option" where
  "read_ipv4_addr s = read_octets 4 0 s"

text \<open>
  \<open>read_groups\<close>: \<open>k\<close> groups are still free, \<open>i\<close> have been read.  The result holds the groups read,
  whether the last two came from an embedded IPv4 address, and the rest of the text.
\<close>

fun read_groups :: "nat \<Rightarrow> nat \<Rightarrow> string \<Rightarrow> nat list \<times> bool \<times> string" where
  "read_groups 0 i s = ([], False, s)"
| "read_groups (Suc k) i s =
     (case (if 1 \<le> k then read_separator CHR '':'' i read_ipv4_addr s else None) of
        Some ([a, b, c, d], rest) \<Rightarrow> ([a * 256 + b, c * 256 + d], True, rest)
      | _ \<Rightarrow>
         (case read_separator CHR '':'' i (read_number 16 4 True 65535) s of
            None \<Rightarrow> ([], False, s)
          | Some (g, rest) \<Rightarrow>
              (let (gs, v4, rest') = read_groups k (Suc i) rest in (g # gs, v4, rest'))))"

definition read_ipv6_addr :: "string \<Rightarrow> (nat list \<times> string) option" where
  "read_ipv6_addr s =
     (let (head, head_v4, rest) = read_groups 8 0 s
      in if length head = 8 then Some (head, rest)
         else if head_v4 then None
         else case strip_prefix ''::'' rest of
           None \<Rightarrow> None
         | Some rest' \<Rightarrow>
             (let (tail, _, rest'') = read_groups (8 - (length head + 1)) 0 rest'
              in Some (head @ replicate (8 - length head - length tail) 0 @ tail, rest'')))"

definition groups_value :: "nat \<Rightarrow> nat list \<Rightarrow> nat" where
  "groups_value base gs = fold (\<lambda>g acc. acc * base + g) gs 0"

definition parse_ip_addr :: "string \<Rightarrow> ip_addr option" where
  "parse_ip_addr s =
     (case read_ipv4_addr s of
        Some (os, rest) \<Rightarrow> if rest = [] then Some (V4 (of_nat (groups_value 256 os))) else None
      | None \<Rightarrow>
          (case read_ipv6_addr s of
             Some (gs, rest) \<Rightarrow>
               if rest = [] then Some (V6 (of_nat (groups_value 65536 gs))) else None
           | None \<Rightarrow> None))"

text \<open>\<open>str::parse::<u8>\<close>: an optional plus sign and decimal digits, at most 255.\<close>

definition parse_u8 :: "string \<Rightarrow> nat option" where
  "parse_u8 s =
     (let ds = (case s of c # t \<Rightarrow> if c = CHR ''+'' then t else s | [] \<Rightarrow> [])
      in if ds = [] \<or> \<not> list_all is_ascii_digit ds then None
         else if 255 < number_value 10 ds then None
         else Some (number_value 10 ds))"

section \<open>CIDR blocks\<close>

record ip_cidr =
  network :: ip_addr
  prefix_len :: nat

datatype cidr_error =
    CidrEmpty
  | CidrInvalidAddress
  | CidrInvalidPrefix
  | CidrPrefixExceeds nat nat
  | CidrPrefixZero

definition ipv4_mask :: "nat \<Rightarrow> u32" where
  "ipv4_mask p = (if p = 0 then 0 else push_bit (32 - p) (- 1))"

definition ipv6_mask :: "nat \<Rightarrow> u128" where
  "ipv6_mask p = (if p = 0 then 0 else push_bit (128 - p) (- 1))"

definition V4_MAPPED_PREFIX :: u128 where
  "V4_MAPPED_PREFIX = push_bit 32 0xFFFF"

fun contains :: "ip_cidr \<Rightarrow> ip_addr \<Rightarrow> bool" where
  "contains c address =
     (case (network c, address) of
        (V4 n, V4 a) \<Rightarrow>
          prefix_len c \<le> 32 \<and> n AND ipv4_mask (prefix_len c) = a AND ipv4_mask (prefix_len c)
      | (V6 n, V6 a) \<Rightarrow>
          prefix_len c \<le> 128 \<and> n AND ipv6_mask (prefix_len c) = a AND ipv6_mask (prefix_len c)
      | (V6 n, V4 a) \<Rightarrow>
          prefix_len c \<le> 128 \<and>
          (let mapped = ucast a OR V4_MAPPED_PREFIX
           in n AND ipv6_mask (prefix_len c) = mapped AND ipv6_mask (prefix_len c))
      | _ \<Rightarrow> False)"

definition max_prefix :: "ip_addr \<Rightarrow> nat" where
  "max_prefix a = (case a of V4 _ \<Rightarrow> 32 | V6 _ \<Rightarrow> 128)"

definition cidr_from_str :: "string \<Rightarrow> cidr_error + ip_cidr" where
  "cidr_from_str text =
     (let v = trim text
      in if v = [] then Inl CidrEmpty
         else bind_res
           (case split_once CHR ''/'' v of
              Some (address, p) \<Rightarrow>
                bind_res (ok_or (parse_ip_addr address) CidrInvalidAddress) (\<lambda>n.
                bind_res (ok_or (parse_u8 p) CidrInvalidPrefix) (\<lambda>q. Inr (n, q)))
            | None \<Rightarrow>
                bind_res (ok_or (parse_ip_addr v) CidrInvalidAddress) (\<lambda>n. Inr (n, max_prefix n)))
           (\<lambda>(n, p).
             if max_prefix n < p then Inl (CidrPrefixExceeds p (max_prefix n))
             else if p = 0 then Inl CidrPrefixZero
             else Inr \<lparr>network = n, prefix_len = p\<rparr>))"

section \<open>Properties\<close>

text \<open>Masking with the top \<open>p\<close> of \<open>w\<close> bits compares those bits.\<close>

lemma mask_eq_iff:
  fixes a b :: "'a::len word"
  assumes "p \<le> LENGTH('a)"
  shows "a AND push_bit (LENGTH('a) - p) (- 1) = b AND push_bit (LENGTH('a) - p) (- 1)
    \<longleftrightarrow> drop_bit (LENGTH('a) - p) a = drop_bit (LENGTH('a) - p) b"
proof -
  let ?d = "LENGTH('a) - p"
  have "a AND push_bit ?d (- 1) = b AND push_bit ?d (- 1)
    \<longleftrightarrow> (\<forall>n < LENGTH('a). ?d \<le> n \<longrightarrow> bit a n = bit b n)"
    by (auto simp: bit_eq_iff bit_and_iff bit_not_iff bit_mask_iff)
  also have "\<dots> \<longleftrightarrow> (\<forall>n. ?d + n < LENGTH('a) \<longrightarrow> bit a (?d + n) = bit b (?d + n))"
    by (auto simp: le_iff_add)
  also have "\<dots> \<longleftrightarrow> drop_bit ?d a = drop_bit ?d b"
    by (auto simp: bit_eq_iff bit_drop_bit_eq dest: bit_imp_le_length)
  finally show ?thesis .
qed

lemma ipv4_mask_eq_iff:
  assumes "0 < p" and "p \<le> 32"
  shows "a AND ipv4_mask p = b AND ipv4_mask p \<longleftrightarrow> drop_bit (32 - p) a = drop_bit (32 - p) b"
  using mask_eq_iff [of p a b] assms by (simp add: ipv4_mask_def)

lemma ipv6_mask_eq_iff:
  assumes "0 < p" and "p \<le> 128"
  shows "a AND ipv6_mask p = b AND ipv6_mask p \<longleftrightarrow> drop_bit (128 - p) a = drop_bit (128 - p) b"
  using mask_eq_iff [of p a b] assms by (simp add: ipv6_mask_def)

text \<open>The prefixes the parser lets through.\<close>

definition cidr_wf :: "ip_cidr \<Rightarrow> bool" where
  "cidr_wf c \<longleftrightarrow> 0 < prefix_len c \<and> prefix_len c \<le> max_prefix (network c)"

text \<open>
  Every block the parser accepts has a prefix length between 1 and the width of its address
  family, so no configured block matches every address and no mask shift can overflow.
\<close>

theorem cidr_from_str_wf:
  assumes "cidr_from_str text = Inr c"
  shows "cidr_wf c"
  using assms unfolding cidr_from_str_def cidr_wf_def Let_def
  by (auto simp: result_simps split: if_splits prod.splits option.splits)

lemma parse_private_net: "parse_ip_addr ''10.0.0.0'' = Some (V4 0x0A000000)"
proof -
  have r: "read_ipv4_addr ''10.0.0.0'' = Some ([10, 0, 0, 0], [])" by code_simp
  show ?thesis by (simp add: parse_ip_addr_def r groups_value_def)
qed

theorem cidr_from_str_wf_witness:
  "cidr_from_str '' 10.0.0.0/8'' = Inr \<lparr>network = V4 0x0A000000, prefix_len = 8\<rparr> \<and>
   cidr_wf \<lparr>network = V4 0x0A000000, prefix_len = 8\<rparr>"
proof -
  have "trim '' 10.0.0.0/8'' = ''10.0.0.0/8''"
    and "split_once CHR ''/'' ''10.0.0.0/8'' = Some (''10.0.0.0'', ''8'')"
    and "parse_u8 ''8'' = Some 8"
    by code_simp+
  then have h: "cidr_from_str '' 10.0.0.0/8'' = Inr \<lparr>network = V4 0x0A000000, prefix_len = 8\<rparr>"
    by (simp add: cidr_from_str_def parse_private_net max_prefix_def)
  show ?thesis using h cidr_from_str_wf [OF h] by blast
qed

text \<open>
  Membership in a parsed block is agreement on the leading \<open>prefix_len\<close> bits, within the same
  address family; an IPv4 address belongs to an IPv6 block exactly when its IPv4-mapped IPv6
  address does; an IPv6 address never belongs to an IPv4 block.
\<close>

theorem contains_spec:
  assumes "cidr_wf c"
  shows "contains c address \<longleftrightarrow>
    (case (network c, address) of
       (V4 n, V4 a) \<Rightarrow> drop_bit (32 - prefix_len c) n = drop_bit (32 - prefix_len c) a
     | (V6 n, V6 a) \<Rightarrow> drop_bit (128 - prefix_len c) n = drop_bit (128 - prefix_len c) a
     | (V6 n, V4 a) \<Rightarrow> contains c (V6 (ucast a OR V4_MAPPED_PREFIX))
     | (V4 n, V6 a) \<Rightarrow> False)"
  using assms
  by (auto simp: cidr_wf_def max_prefix_def ipv4_mask_eq_iff ipv6_mask_eq_iff Let_def
      split: ip_addr.splits)

theorem contains_spec_witness:
  "cidr_wf \<lparr>network = V6 0xFFFF7F000000, prefix_len = 104\<rparr> \<and>
   contains \<lparr>network = V6 0xFFFF7F000000, prefix_len = 104\<rparr> (V4 0x7F000001) \<and>
   contains \<lparr>network = V6 0xFFFF7F000000, prefix_len = 104\<rparr> (V6 0xFFFF7F000001) \<and>
   \<not> contains \<lparr>network = V6 0xFFFF7F000000, prefix_len = 104\<rparr> (V4 0x80000001)"
proof -
  let ?c = "\<lparr>network = V6 0xFFFF7F000000, prefix_len = 104\<rparr>"
  have h: "cidr_wf ?c" by (simp add: cidr_wf_def max_prefix_def)
  show ?thesis
    using h contains_spec [OF h, of "V4 0x7F000001"] contains_spec [OF h, of "V4 0x80000001"]
      contains_spec [OF h, of "V6 0xFFFF7F000001"]
      contains_spec [OF h, of "V6 0xFFFF80000001"]
    by (simp add: V4_MAPPED_PREFIX_def del: contains.simps)
qed

end
