(* ===== verification/Api_Error.thy ===== *)
theory Api_Error
  imports Json_Value
begin

text \<open>
  \<open>onair-core/src/error.rs\<close>: configuration errors, the API error with its constructors, and the
  two client-visible envelopes (OpenAI and Anthropic).  HTTP status codes are their numbers.
\<close>

section \<open>Errors of the configuration layer\<close>

datatype error =
    ConfigRead string
  | ConfigParse string
  | ConfigMsg string
  | MissingEnv string
  | ConfigWatch string
  | HttpClient string
  | InspectorPersistence string
  | Io string
  | Server string
  | Telemetry string

section \<open>API errors\<close>

type_synonym status_code = nat

record api_error =
  err_status :: status_code
  err_message :: string
  err_kind :: string
  err_code :: "string option"
  err_param :: "string option"

definition authentication :: "string \<Rightarrow> api_error" where
  "authentication msg =
     \<lparr>err_status = 401, err_message = msg, err_kind = ''authentication_error'',
      err_code = Some ''invalid_api_key'', err_param = None\<rparr>"

definition bad_request :: "string \<Rightarrow> string option \<Rightarrow> api_error" where
  "bad_request msg p =
     \<lparr>err_status = 400, err_message = msg, err_kind = ''invalid_request_error'',
      err_code = None, err_param = p\<rparr>"

definition model_not_found :: "string \<Rightarrow> api_error" where
  "model_not_found model =
     \<lparr>err_status = 404,
      err_message = ''The model '' @ quoted model @ '' does not exist or is not available.'',
      err_kind = ''invalid_request_error'',
      err_code = Some ''model_not_found'', err_param = Some ''model''\<rparr>"

definition endpoint_unavailable :: "string \<Rightarrow> string option \<Rightarrow> api_error" where
  "endpoint_unavailable path model =
     \<lparr>err_status = 404,
      err_message =
        (case model of
           Some m \<Rightarrow> ''The model '' @ quoted m @ '' is configured but does not serve endpoint ''
             @ quoted path @ ''.''
         | None \<Rightarrow> ''The requested endpoint '' @ quoted path @ '' is unavailable.''),
      err_kind = ''invalid_request_error'',
      err_code = Some ''endpoint_unavailable'', err_param = Some ''endpoint''\<rparr>"

definition not_found :: "string \<Rightarrow> api_error" where
  "not_found msg =
     \<lparr>err_status = 404, err_message = msg, err_kind = ''invalid_request_error'',
      err_code = Some ''not_found'', err_param = None\<rparr>"

definition map_upstream_status :: "status_code \<Rightarrow> status_code" where
  "map_upstream_status s = (if s \<in> {400, 422, 429, 408} then s else 502)"

definition upstream :: "status_code \<Rightarrow> api_error" where
  "upstream s =
     (if s = 400 \<or> s = 422 then
        \<lparr>err_status = s,
         err_message = ''The request could not be completed by the selected model.'',
         err_kind = ''invalid_request_error'', err_code = None, err_param = None\<rparr>
      else if s = 429 then
        \<lparr>err_status = 429,
         err_message = ''The selected model is temporarily rate limited.'',
         err_kind = ''rate_limit_error'', err_code = Some ''rate_limit_exceeded'', err_param = None\<rparr>
      else if s = 408 then
        \<lparr>err_status = 408,
         err_message = ''The selected model did not respond in time.'',
         err_kind = ''server_error'', err_code = Some ''request_timeout'', err_param = None\<rparr>
      else
        \<lparr>err_status = map_upstream_status s,
         err_message = ''The selected model could not complete the request.'',
         err_kind = ''server_error'', err_code = Some ''upstream_error'', err_param = None\<rparr>)"

definition timeout_error :: api_error where
  "timeout_error =
     \<lparr>err_status = 504, err_message = ''The selected model did not respond in time.'',
      err_kind = ''server_error'', err_code = Some ''request_timeout'', err_param = None\<rparr>"

definition internal_error :: api_error where
  "internal_error =
     \<lparr>err_status = 500, err_message = ''The request could not be completed.'',
      err_kind = ''server_error'', err_code = Some ''internal_error'', err_param = None\<rparr>"

section \<open>Envelopes\<close>

text \<open>The serialised form of \<open>Option<String>\<close>.\<close>

definition opt_string :: "string option \<Rightarrow> json" where
  "opt_string m = (case m of None \<Rightarrow> JNull | Some s \<Rightarrow> JString s)"

definition into_parts :: "api_error \<Rightarrow> status_code \<times> json" where
  "into_parts e =
     (err_status e,
      jobj [(''error'', jobj
        [(''message'', JString (err_message e)), (''type'', JString (err_kind e)),
         (''param'', opt_string (err_param e)), (''code'', opt_string (err_code e))])])"

definition anthropic_kind :: "api_error \<Rightarrow> string" where
  "anthropic_kind e =
     (if err_status e = 404 then ''not_found_error''
      else if err_kind e = ''invalid_request_error'' then ''invalid_request_error''
      else if err_kind e = ''authentication_error'' then ''authentication_error''
      else if err_kind e = ''rate_limit_error'' then ''rate_limit_error''
      else if err_kind e = ''server_error'' then ''api_error''
      else ''api_error'')"

definition into_anthropic_parts :: "api_error \<Rightarrow> status_code \<times> json" where
  "into_anthropic_parts e =
     (err_status e,
      jobj [(''error'', jobj
              [(''message'', JString (err_message e)), (''type'', JString (anthropic_kind e))]),
            (''type'', JString ''error'')])"

section \<open>Properties\<close>

text \<open>
  The two ways of reporting an upstream failure agree and reveal nothing of the upstream.
  For every upstream status, the sanitised error carries the status that the
  \<open>expose_backend_errors\<close> path maps to, that status is one of five, and the message is one of four
  fixed texts: it depends on the class of the status only.
\<close>

theorem upstream_sanitised:
  "err_status (upstream s) = map_upstream_status s \<and>
   err_status (upstream s) \<in> {400, 422, 429, 408, 502} \<and>
   (\<forall>t. map_upstream_status s = map_upstream_status t \<longleftrightarrow> upstream s = upstream t)"
proof -
  have "map_upstream_status s = map_upstream_status t \<longleftrightarrow> upstream s = upstream t" for t
    by (simp add: upstream_def map_upstream_status_def)
  then show ?thesis by (simp add: upstream_def map_upstream_status_def)
qed

end
