(* ===== verification/Config_Types.thy ===== *)
theory Config_Types
  imports Endpoints Ip_Cidr Api_Error
begin

text \<open>
  The data of \<open>onair-core/src/config.rs\<close>: the raw configuration file, the configuration the server
  runs with, the defaults and the errors of the validators.  What lies outside the
  repository (environment variables, the URL parser, header syntax of the \<open>http\<close> crate) is the
  record \<open>host\<close>, an argument of the operations that use it.  Each constructor of
  \<open>config_error\<close> stands for one message of the source.
\<close>

section \<open>The configuration file\<close>

datatype telemetry_exporter = ExporterNone | ExporterOtlp
datatype debug_capture_mode = CaptureAll | CaptureFailures
datatype routing_strategy = Priority | Sticky | RoundRobin | WeightedRandom
datatype unknown_marker_policy = PolicyWarn | PolicyError
datatype tool_schema_mode = SchemaPreserve | LlamacppCompat
datatype responses_store_policy = StorePreserve | ForceFalse
datatype responses_max_output_tokens_policy =
  MotPreserve | MotDrop | RenameToMaxTokens | RenameToMaxCompletionTokens
datatype chat_stream_usage_policy = UsagePreserve | UsageInsert | UsageForceTrue
datatype route_key = Public string | Path string
datatype context_length_mode = ModeNone | ModeUpstream
datatype context_length_config = CtxValue u64 | CtxMode context_length_mode
datatype context_length_spec =
  SpecNone | SpecStatic u64 | SpecUpstream string string "u64 option"

record server_config =
  bind_addr :: "ip_addr \<times> u16"
  request_body_limit_bytes :: nat
  trusted_proxy_cidrs :: "ip_cidr list"

record telemetry_config =
  service_name :: string
  exporter :: telemetry_exporter
  otlp_endpoint :: "string option"
  export_interval_ms :: u64

record debug_capture_config =
  dc_enabled :: bool
  dc_mode :: debug_capture_mode
  dc_directory :: string

record inspector_persistence_config =
  ip_enabled :: bool
  ip_path :: "string option"
  ip_drain_timeout_ms :: u64

record inspector_config =
  ic_enabled :: bool
  ic_retention_requests :: nat
  ic_allow_remote :: bool
  ic_persistence :: inspector_persistence_config

record health_config =
  hc_active :: bool
  hc_interval_ms :: u64
  hc_timeout_ms :: u64
  hc_path :: string

record routing_config =
  rc_strategy :: routing_strategy
  rc_fallback_attempts :: nat
  rc_unknown_capability_policy :: unknown_marker_policy
  rc_unknown_endpoint_policy :: unknown_marker_policy

record access_config =
  default_models :: "string list"

record client_config =
  cc_id :: string
  cc_api_key :: "string option"
  cc_api_key_env :: "string option"
  cc_models :: "string list"

record resolved_client =
  cl_id :: string
  cl_api_key :: string
  cl_models :: "string list"

type_synonym toml_map = "(string \<times> toml) list"

record backend_config =
  bc_id :: string
  bc_base_url :: string
  bc_api_key :: "string option"
  bc_api_key_env :: "string option"
  bc_timeout_ms :: u64
  bc_tool_schema_mode :: tool_schema_mode
  bc_responses_store :: responses_store_policy
  bc_responses_max_output_tokens :: responses_max_output_tokens_policy
  bc_chat_stream_usage :: chat_stream_usage_policy
  bc_supports :: "string list"
  bc_weight :: u32
  bc_extra_body :: toml_map
  bc_expose_backend_errors :: bool
  bc_stream_capture :: bool

record route_config =
  rcf_public :: "string option"
  rcf_path :: "string option"
  rcf_expose :: "string list"
  rcf_backends :: "string list"
  rcf_context_length :: context_length_config
  rcf_tool_schema_mode :: "tool_schema_mode option"
  rcf_responses_store :: "responses_store_policy option"
  rcf_responses_max_output_tokens :: "responses_max_output_tokens_policy option"
  rcf_chat_stream_usage :: "chat_stream_usage_policy option"
  rcf_extra_body :: toml_map
  rcf_expose_backend_errors :: "bool option"
  rcf_stream_capture :: "bool option"
  rcf_request_headers :: "(string \<times> string) list"
  rcf_anthropic_max_tokens :: "u32 option"

record config_file =
  cf_server :: server_config
  cf_telemetry :: telemetry_config
  cf_debug_capture :: debug_capture_config
  cf_inspector :: inspector_config
  cf_health :: health_config
  cf_routing :: routing_config
  cf_access :: access_config
  cf_clients :: "client_config list"
  cf_backends :: "backend_config list"
  cf_routes :: "route_config list"

section \<open>The resolved configuration\<close>

text \<open>\<open>Duration::from_millis\<close> is kept as its number of milliseconds.\<close>

record resolved_backend =
  be_id :: string
  be_base_url :: string
  be_api_key :: "string option"
  be_timeout :: u64
  be_supports :: "string list"
  be_tool_schema_mode :: tool_schema_mode
  be_responses_store :: responses_store_policy
  be_responses_max_output_tokens :: responses_max_output_tokens_policy
  be_chat_stream_usage :: chat_stream_usage_policy
  be_weight :: u32
  be_extra_body :: toml_map
  be_expose_backend_errors :: bool
  be_stream_capture :: bool

record route_backend_binding =
  rb_backend_id :: string
  rb_backend_model :: string

record resolved_route =
  rt_key :: route_key
  rt_expose :: "string list"
  rt_context_length :: context_length_spec
  rt_tool_schema_mode :: tool_schema_mode
  rt_responses_store :: responses_store_policy
  rt_responses_max_output_tokens :: responses_max_output_tokens_policy
  rt_chat_stream_usage :: chat_stream_usage_policy
  rt_backends :: "route_backend_binding list"
  rt_extra_body :: toml_map
  rt_expose_backend_errors :: bool
  rt_stream_capture :: bool
  rt_request_headers :: "(string \<times> string) list"
  rt_anthropic_max_tokens :: "u32 option"

record config =
  cfg_server :: server_config
  cfg_telemetry :: telemetry_config
  cfg_debug_capture :: debug_capture_config
  cfg_inspector :: inspector_config
  cfg_health :: health_config
  cfg_routing :: routing_config
  cfg_clients :: "resolved_client list"
  cfg_backends :: "resolved_backend list"
  cfg_routes :: "resolved_route list"

section \<open>Defaults\<close>

definition default_server_config :: server_config where
  "default_server_config =
     \<lparr>bind_addr = (V4 0x7F000001, 8080), request_body_limit_bytes = 2 * 1024 * 1024,
      trusted_proxy_cidrs = []\<rparr>"

definition default_telemetry_config :: telemetry_config where
  "default_telemetry_config =
     \<lparr>service_name = ''onair'', exporter = ExporterNone, otlp_endpoint = None,
      export_interval_ms = 30000\<rparr>"

definition default_debug_capture_config :: debug_capture_config where
  "default_debug_capture_config =
     \<lparr>dc_enabled = False, dc_mode = CaptureAll, dc_directory = ''onair-debug-captures''\<rparr>"

definition default_inspector_persistence_config :: inspector_persistence_config where
  "default_inspector_persistence_config =
     \<lparr>ip_enabled = False, ip_path = None, ip_drain_timeout_ms = 500\<rparr>"

definition default_inspector_config :: inspector_config where
  "default_inspector_config =
     \<lparr>ic_enabled = False, ic_retention_requests = 10000, ic_allow_remote = False,
      ic_persistence = default_inspector_persistence_config\<rparr>"

definition default_health_config :: health_config where
  "default_health_config =
     \<lparr>hc_active = False, hc_interval_ms = 30000, hc_timeout_ms = 2000, hc_path = ''/v1/models''\<rparr>"

definition default_routing_config :: routing_config where
  "default_routing_config =
     \<lparr>rc_strategy = Priority, rc_fallback_attempts = 1,
      rc_unknown_capability_policy = PolicyWarn, rc_unknown_endpoint_policy = PolicyWarn\<rparr>"

definition default_backend_config :: backend_config where
  "default_backend_config =
     \<lparr>bc_id = [], bc_base_url = [], bc_api_key = None, bc_api_key_env = None,
      bc_timeout_ms = 120000, bc_tool_schema_mode = SchemaPreserve,
      bc_responses_store = StorePreserve, bc_responses_max_output_tokens = MotPreserve,
      bc_chat_stream_usage = UsagePreserve, bc_supports = [], bc_weight = 1,
      bc_extra_body = [], bc_expose_backend_errors = False, bc_stream_capture = False\<rparr>"

lemmas config_defaults =
  default_server_config_def default_telemetry_config_def default_debug_capture_config_def
  default_inspector_persistence_config_def default_inspector_config_def
  default_health_config_def default_routing_config_def default_backend_config_def

section \<open>Errors and the host environment\<close>

datatype marker_kind = MarkerCapability | MarkerEndpoint

datatype config_error =
    ClientIdEmpty
  | DuplicateClientId string
  | NoClients
  | SecretBoth string
  | SecretRequired string
  | BackendSecretBoth
  | BackendIdEmpty
  | BackendIdContainsAt string
  | DuplicateBackendId string
  | WeightZero string
  | NoBackends
  | BaseUrlEmpty string
  | BaseUrlInvalid string
  | BaseUrlScheme string
  | BaseUrlNoHost string
  | BaseUrlCredentials string
  | BaseUrlQueryOrFragment string
  | UnknownMarker string marker_kind string
  | RouteKeyNotUnique "string option" "string option"
  | DuplicateRoute string
  | InvalidHeaderName string string
  | InvalidHeaderValue string string
  | UnknownBackend string string
  | MissingBackendId string
  | EmptyModelPart string
  | NoRouteForModel string string
  | HealthInterval | HealthTimeout | HealthPathRelative | HealthPathAbsolute | HealthPathControl
  | RetentionZero | RetentionTooLarge | PersistencePathMissing | PersistencePathEmpty
  | DrainZero | DrainTooLarge
  | CaptureDirEmpty | CaptureDirParent | CaptureDirNoName
  | FallbackTooLarge
  | EnvMissing string

record url =
  url_scheme :: string
  url_host :: "string option"
  url_username :: string
  url_password :: "string option"
  url_query :: "string option"
  url_fragment :: "string option"

record host =
  env_var :: "string \<Rightarrow> string option"
  url_parse :: "string \<Rightarrow> url option"
  header_name_ok :: "string \<Rightarrow> bool"
  header_value_ok :: "string \<Rightarrow> bool"

end
