(* ===== verification/Config.thy ===== *)
theory Config
  imports Config_Types
begin

text \<open>
  The operations of \<open>onair-core/src/config.rs\<close>: validation of every section, resolution of
  clients, backends and routes, the configuration store and its reload.  The main result is the
  invariant \<open>config_wf\<close> that every successful resolution establishes; the router relies on it
  through the theorems of the root theory.  Log output is not part of the model, except for the
  unreachable-backend warning, whose list of warned bindings is computed.
\<close>

section \<open>Markers and route keys\<close>

definition CHAT_VIA_MESSAGES_ALIAS :: string where
  "CHAT_VIA_MESSAGES_ALIAS = ''chat_via_messages''"

definition canonicalize_marker_set :: "string list \<Rightarrow> string list" where
  "canonicalize_marker_set markers =
     (if CHAT_VIA_MESSAGES_ALIAS \<in> set markers
      then bs_insert CHAT_COMPLETIONS_VIA_MESSAGES (bs_remove CHAT_VIA_MESSAGES_ALIAS markers)
      else markers)"

fun validate_markers ::
  "string list \<Rightarrow> unknown_marker_policy \<Rightarrow> marker_kind \<Rightarrow> string \<Rightarrow> config_error + unit" where
  "validate_markers [] policy kind location = Inr ()"
| "validate_markers (v # vs) policy kind location =
     (if is_known_marker v \<or> v = CHAT_VIA_MESSAGES_ALIAS then validate_markers vs policy kind location
      else case policy of
        PolicyWarn \<Rightarrow> validate_markers vs policy kind location
      | PolicyError \<Rightarrow> Inl (UnknownMarker location kind v))"

definition route_key_of :: "route_config \<Rightarrow> route_key option" where
  "route_key_of r =
     (case (rcf_public r, rcf_path r) of
        (Some public, None) \<Rightarrow> Some (Public public)
      | (None, Some path) \<Rightarrow> Some (Path path)
      | _ \<Rightarrow> None)"

definition format_route_key :: "route_key \<Rightarrow> string" where
  "format_route_key key =
     (case key of Public p \<Rightarrow> ''public='' @ p | Path p \<Rightarrow> ''path='' @ p)"

definition parse_route_backend :: "string \<Rightarrow> config_error + string option \<times> string" where
  "parse_route_backend entry =
     (case rsplit_once CHR ''@'' entry of
        Some (model, backend_id) \<Rightarrow>
          if backend_id = [] then Inl (MissingBackendId entry)
          else if model = [] then Inl (EmptyModelPart entry)
          else Inr (Some model, backend_id)
      | None \<Rightarrow> Inr (None, entry))"

section \<open>Section validators\<close>

definition validate_health_config :: "health_config \<Rightarrow> config_error + unit" where
  "validate_health_config c =
     (if hc_interval_ms c = 0 then Inl HealthInterval
      else if hc_timeout_ms c = 0 then Inl HealthTimeout
      else if \<not> starts_with ''/'' (hc_path c) then Inl HealthPathRelative
      else if starts_with ''//'' (hc_path c) \<or> str_contains ''://'' (hc_path c)
        then Inl HealthPathAbsolute
      else if list_ex is_ascii_control (hc_path c) \<or>
              list_ex (\<lambda>n. str_contains [CHR 0xC2, char_of n] (hc_path c)) [128..<160]
        then Inl HealthPathControl
      else Inr ())"

definition validate_inspector_config :: "inspector_config \<Rightarrow> config_error + unit" where
  "validate_inspector_config c =
     (if ic_retention_requests c = 0 then Inl RetentionZero
      else if 1000000 < ic_retention_requests c then Inl RetentionTooLarge
      else bind_res
        (if ip_enabled (ic_persistence c)
         then case ip_path (ic_persistence c) of
             None \<Rightarrow> Inl PersistencePathMissing
           | Some path \<Rightarrow> if path = [] then Inl PersistencePathEmpty else Inr ()
         else Inr ())
        (\<lambda>_. if ip_drain_timeout_ms (ic_persistence c) = 0 then Inl DrainZero
             else if 60000 < ip_drain_timeout_ms (ic_persistence c) then Inl DrainTooLarge
             else Inr ()))"

text \<open>\<open>Path::components\<close> on Unix.\<close>

datatype path_component = RootDir | CurDir | ParentDir | Normal string

definition path_components :: "string \<Rightarrow> path_component list" where
  "path_components p =
     (if starts_with ''/'' p then [RootDir]
      else if hd (split_char CHR ''/'' p) = ''.'' then [CurDir] else []) @
     map (\<lambda>s. if s = ''..'' then ParentDir else Normal s)
       (filter (\<lambda>s. s \<noteq> [] \<and> s \<noteq> ''.'') (split_char CHR ''/'' p))"

definition validate_debug_capture_config :: "debug_capture_config \<Rightarrow> config_error + unit" where
  "validate_debug_capture_config c =
     (if \<not> dc_enabled c then Inr ()
      else if dc_directory c = [] then Inl CaptureDirEmpty
      else if ParentDir \<in> set (path_components (dc_directory c)) then Inl CaptureDirParent
      else if \<not> list_ex (\<lambda>x. case x of Normal _ \<Rightarrow> True | _ \<Rightarrow> False)
               (path_components (dc_directory c)) then Inl CaptureDirNoName
      else Inr ())"

definition MAX_FALLBACK_ATTEMPTS :: nat where "MAX_FALLBACK_ATTEMPTS = 16"

definition validate_routing_config :: "routing_config \<Rightarrow> config_error + unit" where
  "validate_routing_config c =
     (if MAX_FALLBACK_ATTEMPTS < rc_fallback_attempts c then Inl FallbackTooLarge else Inr ())"

definition validate_top_level :: "config_file \<Rightarrow> config_error + unit" where
  "validate_top_level f =
     bind_res (validate_debug_capture_config (cf_debug_capture f)) (\<lambda>_.
     bind_res (validate_inspector_config (cf_inspector f)) (\<lambda>_.
     bind_res (validate_health_config (cf_health f)) (\<lambda>_.
     bind_res (validate_routing_config (cf_routing f)) (\<lambda>_.
     Inr ()))))"

section \<open>Secrets and base URLs\<close>

definition resolve_secret ::
  "host \<Rightarrow> string option \<Rightarrow> string option \<Rightarrow> string \<Rightarrow> config_error + string" where
  "resolve_secret h api_key api_key_env label =
     (case (api_key, api_key_env) of
        (Some _, Some _) \<Rightarrow> Inl (SecretBoth label)
      | (Some v, None) \<Rightarrow> if \<not> is_blank v then Inr v else Inl (SecretRequired label)
      | (None, Some name) \<Rightarrow>
          if \<not> is_blank name then ok_or (env_var h name) (EnvMissing name)
          else Inl (SecretRequired label)
      | (None, None) \<Rightarrow> Inl (SecretRequired label))"

definition resolve_optional_secret ::
  "host \<Rightarrow> string option \<Rightarrow> string option \<Rightarrow> config_error + string option" where
  "resolve_optional_secret h api_key api_key_env =
     (case (api_key, api_key_env) of
        (Some _, Some _) \<Rightarrow> Inl BackendSecretBoth
      | (Some v, None) \<Rightarrow> if \<not> is_blank v then Inr (Some v) else Inr None
      | (None, Some name) \<Rightarrow>
          if \<not> is_blank name then bind_res (ok_or (env_var h name) (EnvMissing name)) (\<lambda>v. Inr (Some v))
          else Inr None
      | (None, None) \<Rightarrow> Inr None)"

definition normalize_backend_base_url :: "host \<Rightarrow> string \<Rightarrow> string \<Rightarrow> config_error + string" where
  "normalize_backend_base_url h base_url backend_id =
     (let trimmed = trim_end_matches CHR ''/'' (trim base_url)
      in if trimmed = [] then Inl (BaseUrlEmpty backend_id)
         else bind_res (ok_or (url_parse h trimmed) (BaseUrlInvalid backend_id)) (\<lambda>parsed.
           if url_scheme parsed \<noteq> ''http'' \<and> url_scheme parsed \<noteq> ''https'' then Inl (BaseUrlScheme backend_id)
           else if url_host parsed = None then Inl (BaseUrlNoHost backend_id)
           else if url_username parsed \<noteq> [] \<or> url_password parsed \<noteq> None
             then Inl (BaseUrlCredentials backend_id)
           else if url_query parsed \<noteq> None \<or> url_fragment parsed \<noteq> None
             then Inl (BaseUrlQueryOrFragment backend_id)
           else Inr trimmed))"

section \<open>Clients and backends\<close>

definition resolve_client_step ::
  "host \<Rightarrow> access_config \<Rightarrow> client_config \<Rightarrow> string list \<times> resolved_client list \<Rightarrow>
     config_error + string list \<times> resolved_client list" where
  "resolve_client_step h access client s =
     (let (client_ids, clients) = s
      in if is_blank (cc_id client) then Inl ClientIdEmpty
         else if cc_id client \<in> set client_ids then Inl (DuplicateClientId (cc_id client))
         else bind_res
           (resolve_secret h (cc_api_key client) (cc_api_key_env client)
              (''client '' @ quoted (cc_id client) @ '' api key''))
           (\<lambda>api_key. Inr (bs_insert (cc_id client) client_ids,
              clients @ [\<lparr>cl_id = cc_id client, cl_api_key = api_key,
                cl_models = bs_extend (cc_models client) (bs_extend (default_models access) [])\<rparr>])))"

definition resolve_clients ::
  "host \<Rightarrow> client_config list \<Rightarrow> access_config \<Rightarrow> config_error + resolved_client list" where
  "resolve_clients h raw_clients access =
     bind_res (fold_res (resolve_client_step h access) raw_clients ([], [])) (\<lambda>(client_ids, clients).
       if clients = [] then Inl NoClients else Inr clients)"

definition resolve_backend_step ::
  "host \<Rightarrow> unknown_marker_policy \<Rightarrow> backend_config \<Rightarrow> string list \<times> resolved_backend list \<Rightarrow>
     config_error + string list \<times> resolved_backend list" where
  "resolve_backend_step h policy b s =
     (let (backend_ids, backends) = s
      in if is_blank (bc_id b) then Inl BackendIdEmpty
         else if CHR ''@'' \<in> set (bc_id b) then Inl (BackendIdContainsAt (bc_id b))
         else if bc_id b \<in> set backend_ids then Inl (DuplicateBackendId (bc_id b))
         else if bc_weight b = 0 then Inl (WeightZero (bc_id b))
         else
           bind_res (normalize_backend_base_url h (bc_base_url b) (bc_id b)) (\<lambda>base_url.
           bind_res (resolve_optional_secret h (bc_api_key b) (bc_api_key_env b)) (\<lambda>api_key.
           let supports = canonicalize_marker_set (bc_supports b)
           in bind_res
                (validate_markers supports policy MarkerCapability (''backend '' @ quoted (bc_id b)))
                (\<lambda>_. Inr (bs_insert (bc_id b) backend_ids, backends @
                  [\<lparr>be_id = bc_id b, be_base_url = base_url, be_api_key = api_key,
                    be_timeout = bc_timeout_ms b, be_supports = supports,
                    be_tool_schema_mode = bc_tool_schema_mode b,
                    be_responses_store = bc_responses_store b,
                    be_responses_max_output_tokens = bc_responses_max_output_tokens b,
                    be_chat_stream_usage = bc_chat_stream_usage b, be_weight = bc_weight b,
                    be_extra_body = bc_extra_body b,
                    be_expose_backend_errors = bc_expose_backend_errors b,
                    be_stream_capture = bc_stream_capture b\<rparr>])))))"

definition resolve_backends ::
  "host \<Rightarrow> backend_config list \<Rightarrow> unknown_marker_policy \<Rightarrow> config_error + resolved_backend list" where
  "resolve_backends h raw_backends policy =
     bind_res (fold_res (resolve_backend_step h policy) raw_backends ([], [])) (\<lambda>(backend_ids, backends).
       if backends = [] then Inl NoBackends else Inr backends)"

section \<open>Routes\<close>

fun validate_request_headers ::
  "host \<Rightarrow> (string \<times> string) list \<Rightarrow> route_key \<Rightarrow> config_error + unit" where
  "validate_request_headers h [] key = Inr ()"
| "validate_request_headers h ((name, v) # rest) key =
     (if \<not> header_name_ok h name then Inl (InvalidHeaderName (format_route_key key) name)
      else if \<not> header_value_ok h v then Inl (InvalidHeaderValue (format_route_key key) name)
      else validate_request_headers h rest key)"

definition validate_route_step ::
  "host \<Rightarrow> routing_config \<Rightarrow> route_config \<Rightarrow> route_key set \<times> (route_key \<times> route_config) list \<Rightarrow>
     config_error + route_key set \<times> (route_key \<times> route_config) list" where
  "validate_route_step h routing r s =
     (let (seen_keys, validated) = s
      in bind_res (ok_or (route_key_of r) (RouteKeyNotUnique (rcf_public r) (rcf_path r))) (\<lambda>key.
         if key \<in> seen_keys then Inl (DuplicateRoute (format_route_key key))
         else
           let expose = canonicalize_marker_set (rcf_expose r)
           in bind_res
                (validate_markers expose (rc_unknown_endpoint_policy routing) MarkerEndpoint
                  (''route '' @ quoted (format_route_key key))) (\<lambda>_.
              bind_res (validate_request_headers h (rcf_request_headers r) key) (\<lambda>_.
              Inr (insert key seen_keys, validated @ [(key, r\<lparr>rcf_expose := expose\<rparr>)])))))"

definition validate_routes ::
  "host \<Rightarrow> route_config list \<Rightarrow> routing_config \<Rightarrow> config_error + (route_key \<times> route_config) list" where
  "validate_routes h routes routing =
     bind_res (fold_res (validate_route_step h routing) routes ({}, [])) (\<lambda>(seen_keys, validated).
       Inr validated)"

definition find_backend :: "resolved_backend list \<Rightarrow> string \<Rightarrow> resolved_backend option" where
  "find_backend backends i = find (\<lambda>b. be_id b = i) backends"

definition bind_route ::
  "route_key \<Rightarrow> resolved_backend list \<Rightarrow> string \<Rightarrow> config_error + route_backend_binding" where
  "bind_route key backends entry =
     bind_res (parse_route_backend entry) (\<lambda>(model, backend_id).
     bind_res (ok_or (find_backend backends backend_id)
                (UnknownBackend (format_route_key key) backend_id)) (\<lambda>backend.
     Inr \<lparr>rb_backend_id = be_id backend,
          rb_backend_model =
            (case model of
               Some m \<Rightarrow> m
             | None \<Rightarrow> (case key of Public public \<Rightarrow> public | Path _ \<Rightarrow> backend_id))\<rparr>))"

definition bind_routes ::
  "route_key \<Rightarrow> string list \<Rightarrow> resolved_backend list \<Rightarrow> config_error + route_backend_binding list" where
  "bind_routes key entries backends = map_res (bind_route key backends) entries"

definition has_marker :: "string list \<Rightarrow> string \<Rightarrow> bool" where
  "has_marker markers marker \<longleftrightarrow> marker \<in> set markers \<or> ''all'' \<in> set markers"

definition is_compat_marker_pair :: "string \<Rightarrow> string list \<Rightarrow> bool" where
  "is_compat_marker_pair marker supports =
     (if marker = RESPONSES_VIA_CHAT_COMPLETIONS then
        has_marker supports ''chat'' \<or> has_marker supports ''chat_completions''
          \<or> has_marker supports ''completions''
      else if marker = CHAT_COMPLETIONS_VIA_RESPONSES then
        has_marker supports ''responses'' \<or> has_marker supports ''response''
      else if marker = CHAT_COMPLETIONS_VIA_MESSAGES then has_marker supports ''messages''
      else False)"

definition route_can_serve :: "string list \<Rightarrow> resolved_backend \<Rightarrow> bool" where
  "route_can_serve expose backend =
     list_ex (\<lambda>marker. marker \<in> set (be_supports backend)
                 \<or> is_compat_marker_pair marker (be_supports backend)) expose"

text \<open>The backends named in the warning \<open>it will never be selected\<close>.\<close>

fun warn_about_unreachable_backends ::
  "string list \<Rightarrow> route_backend_binding list \<Rightarrow> resolved_backend list \<Rightarrow> string list" where
  "warn_about_unreachable_backends expose [] backends = []"
| "warn_about_unreachable_backends expose (b # bs) backends =
     (case find_backend backends (rb_backend_id b) of
        None \<Rightarrow> []
      | Some backend \<Rightarrow>
          (if \<not> route_can_serve expose backend then [be_id backend] else []) @
          warn_about_unreachable_backends expose bs backends)"

definition resolve_context_length_policy ::
  "context_length_config \<Rightarrow> string \<Rightarrow> string \<Rightarrow> context_length_spec" where
  "resolve_context_length_policy c backend_id backend_model =
     (case c of
        CtxValue v \<Rightarrow> SpecStatic v
      | CtxMode ModeNone \<Rightarrow> SpecNone
      | CtxMode ModeUpstream \<Rightarrow> SpecUpstream backend_id backend_model None)"

definition first_binding :: "route_backend_binding list \<Rightarrow> route_backend_binding option" where
  "first_binding bindings = (case bindings of [] \<Rightarrow> None | b # _ \<Rightarrow> Some b)"

definition resolve_context_lengths ::
  "route_key \<Rightarrow> context_length_config \<Rightarrow> route_backend_binding list \<Rightarrow> context_length_spec" where
  "resolve_context_lengths key c bindings =
     (case key of
        Path _ \<Rightarrow> SpecNone
      | Public public \<Rightarrow>
          (let first = first_binding bindings;
               backend_id = (case first of None \<Rightarrow> [] | Some b \<Rightarrow> rb_backend_id b);
               model = (case first of None \<Rightarrow> public | Some b \<Rightarrow> rb_backend_model b)
           in resolve_context_length_policy c backend_id model))"

definition first_backend ::
  "route_backend_binding list \<Rightarrow> resolved_backend list \<Rightarrow> resolved_backend option" where
  "first_backend bindings backends =
     Option.bind (first_binding bindings) (\<lambda>first. find_backend backends (rb_backend_id first))"

definition resolve_expose_backend_errors ::
  "bool option \<Rightarrow> route_backend_binding list \<Rightarrow> resolved_backend list \<Rightarrow> bool" where
  "resolve_expose_backend_errors route_value bindings backends =
     (case route_value of
        Some v \<Rightarrow> v
      | None \<Rightarrow> (case first_backend bindings backends of
                   None \<Rightarrow> False | Some b \<Rightarrow> be_expose_backend_errors b))"

definition resolve_stream_capture ::
  "bool option \<Rightarrow> route_backend_binding list \<Rightarrow> resolved_backend list \<Rightarrow> bool" where
  "resolve_stream_capture route_value bindings backends =
     (case route_value of
        Some v \<Rightarrow> v
      | None \<Rightarrow> (case first_backend bindings backends of
                   None \<Rightarrow> False | Some b \<Rightarrow> be_stream_capture b))"

definition merge_extra_body ::
  "route_backend_binding list \<Rightarrow> resolved_backend list \<Rightarrow> toml_map \<Rightarrow> toml_map" where
  "merge_extra_body bindings backends route_extra_body =
     fold (\<lambda>(k, v). bt_insert k v) route_extra_body
       (case first_backend bindings backends of
          None \<Rightarrow> []
        | Some b \<Rightarrow> fold (\<lambda>(k, v). bt_insert k v) (be_extra_body b) [])"

definition or_default :: "'a option \<Rightarrow> 'a \<Rightarrow> 'a" where
  "or_default m d = (case m of None \<Rightarrow> d | Some x \<Rightarrow> x)"

definition resolve_route ::
  "resolved_backend list \<Rightarrow> route_key \<times> route_config \<Rightarrow> config_error + resolved_route" where
  "resolve_route backends kr =
     (let (key, r) = kr
      in bind_res (bind_routes key (rcf_backends r) backends) (\<lambda>bindings.
         Inr \<lparr>rt_key = key,
              rt_expose = canonicalize_marker_set (rcf_expose r),
              rt_context_length = resolve_context_lengths key (rcf_context_length r) bindings,
              rt_tool_schema_mode = or_default (rcf_tool_schema_mode r) SchemaPreserve,
              rt_responses_store = or_default (rcf_responses_store r) StorePreserve,
              rt_responses_max_output_tokens =
                or_default (rcf_responses_max_output_tokens r) MotPreserve,
              rt_chat_stream_usage = or_default (rcf_chat_stream_usage r) UsagePreserve,
              rt_backends = bindings,
              rt_extra_body = merge_extra_body bindings backends (rcf_extra_body r),
              rt_expose_backend_errors =
                resolve_expose_backend_errors (rcf_expose_backend_errors r) bindings backends,
              rt_stream_capture =
                resolve_stream_capture (rcf_stream_capture r) bindings backends,
              rt_request_headers = rcf_request_headers r,
              rt_anthropic_max_tokens = rcf_anthropic_max_tokens r\<rparr>))"

definition resolve_routes ::
  "host \<Rightarrow> route_config list \<Rightarrow> resolved_backend list \<Rightarrow> routing_config \<Rightarrow>
     config_error + resolved_route list" where
  "resolve_routes h routes backends routing =
     bind_res (validate_routes h routes routing) (map_res (resolve_route backends))"

definition has_public_route :: "resolved_route list \<Rightarrow> string \<Rightarrow> bool" where
  "has_public_route routes model = list_ex (\<lambda>r. rt_key r = Public model) routes"

definition validate_allowed_client ::
  "resolved_route list \<Rightarrow> resolved_client \<Rightarrow> config_error + unit" where
  "validate_allowed_client routes client =
     bind_res (map_res (\<lambda>model. guard_res (has_public_route routes model)
                          (NoRouteForModel (cl_id client) model)) (cl_models client)) (\<lambda>_. Inr ())"

definition validate_allowed_routes ::
  "resolved_client list \<Rightarrow> resolved_route list \<Rightarrow> config_error + unit" where
  "validate_allowed_routes clients routes =
     bind_res (map_res (validate_allowed_client routes) clients) (\<lambda>_. Inr ())"

definition resolve :: "host \<Rightarrow> config_file \<Rightarrow> config_error + config" where
  "resolve h f =
     bind_res (validate_top_level f) (\<lambda>_.
     bind_res (resolve_clients h (cf_clients f) (cf_access f)) (\<lambda>clients.
     bind_res (resolve_backends h (cf_backends f)
                (rc_unknown_capability_policy (cf_routing f))) (\<lambda>backends.
     bind_res (resolve_routes h (cf_routes f) backends (cf_routing f)) (\<lambda>routes.
     bind_res (validate_allowed_routes clients routes) (\<lambda>_.
     Inr \<lparr>cfg_server = cf_server f, cfg_telemetry = cf_telemetry f,
          cfg_debug_capture = cf_debug_capture f, cfg_inspector = cf_inspector f,
          cfg_health = cf_health f, cfg_routing = cf_routing f,
          cfg_clients = clients, cfg_backends = backends, cfg_routes = routes\<rparr>)))))"

section \<open>Loading, the store and reloading\<close>

record file_system =
  read_to_string :: "string \<Rightarrow> string option"
  toml_from_str :: "string \<Rightarrow> config_file option"

datatype load_error = ReadFailed string | ParseFailed string | Invalid config_error

definition load :: "host \<Rightarrow> file_system \<Rightarrow> string \<Rightarrow> load_error + config" where
  "load h fs path =
     bind_res (ok_or (read_to_string fs path) (ReadFailed path)) (\<lambda>raw.
     bind_res (ok_or (toml_from_str fs raw) (ParseFailed path)) (\<lambda>f.
     case resolve h f of Inl e \<Rightarrow> Inl (Invalid e) | Inr c \<Rightarrow> Inr c))"

text \<open>
  A \<open>ConfigStore\<close> holds one configuration; a snapshot is its current value.  Applying a reloaded
  configuration replaces it and names the changed settings that only a restart applies.
\<close>

datatype restart_warning = WarnBind | WarnBodyLimit | WarnTelemetry | WarnPersistence

definition store_replace :: "config \<Rightarrow> config \<Rightarrow> config" where
  "store_replace store c = c"

definition apply_reloaded_config :: "config \<Rightarrow> config \<Rightarrow> config \<times> restart_warning list" where
  "apply_reloaded_config c store =
     (let previous = store; next = store_replace store c
      in (next,
          (if bind_addr (cfg_server previous) \<noteq> bind_addr (cfg_server next) then [WarnBind] else []) @
          (if request_body_limit_bytes (cfg_server previous)
              \<noteq> request_body_limit_bytes (cfg_server next) then [WarnBodyLimit] else []) @
          (if exporter (cfg_telemetry previous) \<noteq> exporter (cfg_telemetry next)
              \<or> otlp_endpoint (cfg_telemetry previous) \<noteq> otlp_endpoint (cfg_telemetry next)
              \<or> service_name (cfg_telemetry previous) \<noteq> service_name (cfg_telemetry next)
              \<or> export_interval_ms (cfg_telemetry previous) \<noteq> export_interval_ms (cfg_telemetry next)
           then [WarnTelemetry] else []) @
          (if ic_persistence (cfg_inspector previous) \<noteq> ic_persistence (cfg_inspector next)
           then [WarnPersistence] else [])))"

definition try_reload_config ::
  "host \<Rightarrow> file_system \<Rightarrow> string \<Rightarrow> config \<Rightarrow> load_error + config" where
  "try_reload_config h fs path store =
     bind_res (load h fs path) (\<lambda>c. Inr (fst (apply_reloaded_config c store)))"

definition CONFIG_RELOAD_MAX_ATTEMPTS :: nat where "CONFIG_RELOAD_MAX_ATTEMPTS = 5"

text \<open>
  The retry loop.  The file may change between two attempts, so each attempt has its own view of
  the file system; the list has one view per attempt left.
\<close>

fun reload_attempts :: "host \<Rightarrow> file_system list \<Rightarrow> string \<Rightarrow> config \<Rightarrow> config" where
  "reload_attempts h [] path store = store"
| "reload_attempts h (fs # rest) path store =
     (case try_reload_config h fs path store of
        Inr store' \<Rightarrow> store'
      | Inl _ \<Rightarrow> reload_attempts h rest path store)"

definition reload_config_with_retries ::
  "host \<Rightarrow> (nat \<Rightarrow> file_system) \<Rightarrow> string \<Rightarrow> config \<Rightarrow> config" where
  "reload_config_with_retries h view path store =
     reload_attempts h (map view [1 ..< CONFIG_RELOAD_MAX_ATTEMPTS + 1]) path store"

section \<open>Properties of the parsers and markers\<close>

text \<open>
  The \<open>model@backend\<close> syntax is unambiguous.  An entry denotes a model and a backend exactly
  when it is the model, an at sign and the backend id, both non-empty and the id free of at signs;
  so model names may contain at signs, and printing and parsing an entry are inverse.
\<close>

theorem parse_route_backend_iff:
  "parse_route_backend entry = Inr (Some model, backend_id) \<longleftrightarrow>
     entry = model @ CHR ''@'' # backend_id \<and> CHR ''@'' \<notin> set backend_id
     \<and> model \<noteq> [] \<and> backend_id \<noteq> []"
proof (cases "rsplit_once CHR ''@'' entry")
  case None
  then have "CHR ''@'' \<notin> set entry" by (simp add: rsplit_once_None_iff)
  then show ?thesis using None by (auto simp: parse_route_backend_def)
next
  case (Some mb)
  then obtain m b where mb: "rsplit_once CHR ''@'' entry = Some (m, b)" by (cases mb) auto
  then have "entry = model @ CHR ''@'' # backend_id \<and> CHR ''@'' \<notin> set backend_id
      \<longleftrightarrow> m = model \<and> b = backend_id"
    by (metis rsplit_once_Some_iff option.inject prod.inject)
  then show ?thesis using mb by (auto simp: parse_route_backend_def)
qed

lemma alias_neq: "CHAT_COMPLETIONS_VIA_MESSAGES \<noteq> CHAT_VIA_MESSAGES_ALIAS"
  by (simp add: CHAT_COMPLETIONS_VIA_MESSAGES_def CHAT_VIA_MESSAGES_ALIAS_def)

lemma set_canonicalize:
  "set (canonicalize_marker_set ms) =
     (\<lambda>m. if m = CHAT_VIA_MESSAGES_ALIAS then CHAT_COMPLETIONS_VIA_MESSAGES else m) ` set ms"
  by (auto simp: canonicalize_marker_set_def)

lemma alias_not_in_canonical: "CHAT_VIA_MESSAGES_ALIAS \<notin> set (canonicalize_marker_set ms)"
  using alias_neq by (auto simp: set_canonicalize)

lemma canonicalize_idem [simp]:
  "canonicalize_marker_set (canonicalize_marker_set ms) = canonicalize_marker_set ms"
  using alias_not_in_canonical [of ms] by (subst canonicalize_marker_set_def) simp

lemma canonicalize_wf: "bs_wf ms \<Longrightarrow> bs_wf (canonicalize_marker_set ms)"
  by (simp add: canonicalize_marker_set_def bs_wf_insert bs_wf_remove)

lemma canonicalize_empty_iff [simp]: "canonicalize_marker_set ms = [] \<longleftrightarrow> ms = []"
proof -
  have "set (canonicalize_marker_set ms) = {} \<longleftrightarrow> set ms = {}"
    unfolding set_canonicalize by (rule image_is_empty)
  then show ?thesis by (simp only: set_empty)
qed

section \<open>The invariant of a resolved configuration\<close>

definition clients_wf :: "resolved_client list \<Rightarrow> bool" where
  "clients_wf cs \<longleftrightarrow> cs \<noteq> [] \<and> distinct (map cl_id cs)"

definition backend_wf :: "resolved_backend \<Rightarrow> bool" where
  "backend_wf b \<longleftrightarrow> be_id b \<noteq> [] \<and> CHR ''@'' \<notin> set (be_id b) \<and> 0 < be_weight b
     \<and> be_base_url b \<noteq> [] \<and> last (be_base_url b) \<noteq> CHR ''/''"

definition backends_wf :: "resolved_backend list \<Rightarrow> bool" where
  "backends_wf bs \<longleftrightarrow> bs \<noteq> [] \<and> distinct (map be_id bs) \<and> list_all backend_wf bs"

definition routes_wf :: "resolved_backend list \<Rightarrow> resolved_route list \<Rightarrow> bool" where
  "routes_wf bs rs \<longleftrightarrow> distinct (map rt_key rs) \<and>
     list_all (\<lambda>r. list_all (\<lambda>b. rb_backend_id b \<in> be_id ` set bs) (rt_backends r)
       \<and> CHAT_VIA_MESSAGES_ALIAS \<notin> set (rt_expose r)) rs"

definition config_wf :: "config \<Rightarrow> bool" where
  "config_wf c \<longleftrightarrow>
     clients_wf (cfg_clients c) \<and> backends_wf (cfg_backends c) \<and>
     routes_wf (cfg_backends c) (cfg_routes c) \<and>
     list_all (\<lambda>cl. list_all (has_public_route (cfg_routes c)) (cl_models cl)) (cfg_clients c) \<and>
     rc_fallback_attempts (cfg_routing c) \<le> MAX_FALLBACK_ATTEMPTS \<and>
     0 < ic_retention_requests (cfg_inspector c) \<and> ic_retention_requests (cfg_inspector c) \<le> 1000000 \<and>
     0 < hc_interval_ms (cfg_health c) \<and> 0 < hc_timeout_ms (cfg_health c) \<and>
     starts_with ''/'' (hc_path (cfg_health c))"

lemma resolve_clients_wf:
  assumes "resolve_clients h raw access = Inr cs"
  shows "clients_wf cs"
proof -
  obtain ids where f: "fold_res (resolve_client_step h access) raw ([], []) = Inr (ids, cs)"
    and "cs \<noteq> []"
    using assms by (auto simp: resolve_clients_def result_simps split: if_splits)
  moreover have "(case (ids, cs) of (ids, cs) \<Rightarrow> set ids = cl_id ` set cs \<and> distinct (map cl_id cs))"
    by (rule fold_res_invariant [OF f])
      (auto simp: resolve_client_step_def Let_def result_simps split: if_splits)
  ultimately show ?thesis by (simp add: clients_wf_def)
qed

lemma normalize_backend_base_url_ok:
  assumes "normalize_backend_base_url h u i = Inr t"
  shows "t \<noteq> [] \<and> last t \<noteq> CHR ''/''"
proof -
  have t: "t = trim_end_matches CHR ''/'' (trim u)" "t \<noteq> []"
    using assms by (auto simp: normalize_backend_base_url_def Let_def result_simps split: if_splits)
  let ?d = "dropWhile (\<lambda>x. x = CHR ''/'') (rev (trim u))"
  have "?d \<noteq> []" using t by (auto simp: trim_end_matches_def)
  then have "hd ?d \<noteq> CHR ''/''" by (rule hd_dropWhile)
  then show ?thesis using t by (simp add: trim_end_matches_def last_rev)
qed

lemma resolve_backend_step_wf:
  assumes "resolve_backend_step h pol b (ids, bs) = Inr (ids', bs')"
  shows "\<exists>x. bs' = bs @ [x] \<and> backend_wf x \<and> be_id x \<notin> set ids \<and> set ids' = insert (be_id x) (set ids)"
proof -
  have nb: "\<not> is_blank (bc_id b)" using assms by (auto simp: resolve_backend_step_def split: if_splits)
  then have ne: "bc_id b \<noteq> []" by auto
  show ?thesis
    using assms ne normalize_backend_base_url_ok [of h "bc_base_url b" "bc_id b"]
    by (auto simp: resolve_backend_step_def Let_def result_simps backend_wf_def word_neq_0_conv
        split: if_splits)
qed

lemma resolve_backends_wf:
  assumes "resolve_backends h raw pol = Inr bs"
  shows "backends_wf bs"
proof -
  obtain ids where f: "fold_res (resolve_backend_step h pol) raw ([], []) = Inr (ids, bs)"
    and "bs \<noteq> []"
    using assms by (auto simp: resolve_backends_def result_simps split: if_splits)
  moreover have "(case (ids, bs) of (ids, bs) \<Rightarrow>
      set ids = be_id ` set bs \<and> distinct (map be_id bs) \<and> list_all backend_wf bs)"
    by (rule fold_res_invariant [OF f]) (auto dest!: resolve_backend_step_wf)
  ultimately show ?thesis by (simp add: backends_wf_def)
qed

lemma validate_route_step_adds:
  assumes "validate_route_step h routing r (seen, vs) = Inr (seen', vs')"
  shows "\<exists>k r'. vs' = vs @ [(k, r')] \<and> k \<notin> seen \<and> seen' = insert k seen"
  using assms by (auto simp: validate_route_step_def Let_def result_simps split: if_splits)

lemma validate_routes_distinct:
  assumes "validate_routes h rs routing = Inr vs"
  shows "distinct (map fst vs)"
proof -
  obtain seen where f: "fold_res (validate_route_step h routing) rs ({}, []) = Inr (seen, vs)"
    using assms by (auto simp: validate_routes_def result_simps)
  have "(case (seen, vs) of (seen, vs) \<Rightarrow> seen = fst ` set vs \<and> distinct (map fst vs))"
    by (rule fold_res_invariant [OF f]) (auto dest!: validate_route_step_adds)
  then show ?thesis by simp
qed

lemma bind_route_backend:
  "bind_route key bs entry = Inr b \<Longrightarrow> rb_backend_id b \<in> be_id ` set bs"
  by (auto simp: bind_route_def result_simps find_backend_def find_Some_iff)

lemma resolve_route_wf:
  assumes "resolve_route bs kr = Inr r"
  shows "rt_key r = fst kr \<and> list_all (\<lambda>b. rb_backend_id b \<in> be_id ` set bs) (rt_backends r)
    \<and> CHAT_VIA_MESSAGES_ALIAS \<notin> set (rt_expose r)"
proof -
  obtain bindings where b: "bind_routes (fst kr) (rcf_backends (snd kr)) bs = Inr bindings"
    and r: "rt_backends r = bindings" "rt_key r = fst kr"
      "rt_expose r = canonicalize_marker_set (rcf_expose (snd kr))"
    using assms by (auto simp: resolve_route_def Let_def result_simps split: prod.splits)
  have "list_all (\<lambda>b. rb_backend_id b \<in> be_id ` set bs) bindings"
    using map_res_set [OF b [unfolded bind_routes_def]] bind_route_backend
    by (fastforce simp: list_all_iff)
  then show ?thesis using r alias_not_in_canonical by simp
qed

lemma resolve_routes_wf:
  assumes "resolve_routes h rs bs routing = Inr out"
  shows "routes_wf bs out"
proof -
  obtain vs where v: "validate_routes h rs routing = Inr vs"
    and m: "map_res (resolve_route bs) vs = Inr out"
    using assms unfolding resolve_routes_def bind_res_Inr_iff by auto
  have "list_all2 (\<lambda>x y. resolve_route bs x = Inr y) vs out" using m by (simp add: result_simps)
  then have "map rt_key out = map fst vs"
    by (induction rule: list_all2_induct) (auto dest: resolve_route_wf)
  then have "distinct (map rt_key out)" using validate_routes_distinct [OF v] by simp
  then show ?thesis
    using map_res_set [OF m] resolve_route_wf by (fastforce simp: routes_wf_def list_all_iff)
qed

lemma validate_allowed_routes_ok:
  assumes "validate_allowed_routes cs rs = Inr u"
  shows "list_all (\<lambda>cl. list_all (has_public_route rs) (cl_models cl)) cs"
  using assms
  unfolding validate_allowed_routes_def validate_allowed_client_def
  by (auto simp: result_simps list_all_iff list_all2_conv_all_nth all_set_conv_all_nth in_set_conv_nth)

lemma resolve_establishes_wf:
  assumes "resolve h f = Inr c"
  shows "config_wf c"
proof -
  obtain cs bs rs where
      top: "validate_top_level f = Inr ()"
    and cs: "resolve_clients h (cf_clients f) (cf_access f) = Inr cs"
    and bs: "resolve_backends h (cf_backends f) (rc_unknown_capability_policy (cf_routing f)) = Inr bs"
    and rs: "resolve_routes h (cf_routes f) bs (cf_routing f) = Inr rs"
    and al: "validate_allowed_routes cs rs = Inr ()"
    and c: "cfg_clients c = cs" "cfg_backends c = bs" "cfg_routes c = rs"
      "cfg_routing c = cf_routing f" "cfg_inspector c = cf_inspector f" "cfg_health c = cf_health f"
    using assms by (auto simp: resolve_def result_simps)
  have "rc_fallback_attempts (cf_routing f) \<le> MAX_FALLBACK_ATTEMPTS"
    and "0 < ic_retention_requests (cf_inspector f)" "ic_retention_requests (cf_inspector f) \<le> 1000000"
    and "0 < hc_interval_ms (cf_health f)" "0 < hc_timeout_ms (cf_health f)"
    and "starts_with ''/'' (hc_path (cf_health f))"
    using top
    by (auto simp: validate_top_level_def result_simps validate_routing_config_def
        validate_inspector_config_def validate_health_config_def word_neq_0_conv split: if_splits)
  then show ?thesis
    unfolding config_wf_def c
    using resolve_clients_wf [OF cs] resolve_backends_wf [OF bs] resolve_routes_wf [OF rs]
      validate_allowed_routes_ok [OF al] by blast
qed

text \<open>
  C12: every configuration that loads satisfies the invariant: client ids, backend ids and route
  keys are unique, there is at least one client and one backend, backend ids are non-empty and
  free of at signs, weights are positive, base URLs are non-empty and end without a slash, every
  route binding names a configured backend, the marker alias is gone, every model a client may use
  has a public route, and the numeric settings are within their bounds.
\<close>

theorem resolve_config_wf:
  assumes "resolve h f = Inr c"
  shows "config_wf c"
  using assms by (rule resolve_establishes_wf)

section \<open>An example configuration\<close>

text \<open>
  A host whose URL parser knows \<open>http\<close> URLs and a file with one client, one backend and one
  route, on which the witnesses of this theory and of the router are evaluated.
\<close>

definition example_host :: host where
  "example_host =
     \<lparr>env_var = (\<lambda>_. None),
      url_parse = (\<lambda>s. case strip_prefix ''http://'' s of
          None \<Rightarrow> None
        | Some r \<Rightarrow> Some \<lparr>url_scheme = ''http'', url_host = Some r, url_username = [],
            url_password = None, url_query = None, url_fragment = None\<rparr>),
      header_name_ok = (\<lambda>_. True), header_value_ok = (\<lambda>_. True)\<rparr>"

definition example_backend :: backend_config where
  "example_backend =
     default_backend_config\<lparr>bc_id := ''b'', bc_base_url := ''http://h/'',
       bc_tool_schema_mode := LlamacppCompat, bc_supports := [''all'']\<rparr>"

definition example_route :: route_config where
  "example_route =
     \<lparr>rcf_public = Some ''gpt'', rcf_path = None, rcf_expose = [], rcf_backends = [''m@b''],
      rcf_context_length = CtxMode ModeNone, rcf_tool_schema_mode = None,
      rcf_responses_store = None, rcf_responses_max_output_tokens = None,
      rcf_chat_stream_usage = None, rcf_extra_body = [], rcf_expose_backend_errors = None,
      rcf_stream_capture = None, rcf_request_headers = [], rcf_anthropic_max_tokens = None\<rparr>"

definition example_file :: config_file where
  "example_file =
     \<lparr>cf_server = default_server_config, cf_telemetry = default_telemetry_config,
      cf_debug_capture = default_debug_capture_config, cf_inspector = default_inspector_config,
      cf_health = default_health_config, cf_routing = default_routing_config,
      cf_access = \<lparr>default_models = [''gpt'']\<rparr>,
      cf_clients =
        [\<lparr>cc_id = ''a'', cc_api_key = Some ''k'', cc_api_key_env = None, cc_models = []\<rparr>],
      cf_backends = [example_backend],
      cf_routes = [example_route]\<rparr>"

definition example_config :: config where
  "example_config =
     \<lparr>cfg_server = default_server_config, cfg_telemetry = default_telemetry_config,
      cfg_debug_capture = default_debug_capture_config, cfg_inspector = default_inspector_config,
      cfg_health = default_health_config, cfg_routing = default_routing_config,
      cfg_clients = [\<lparr>cl_id = ''a'', cl_api_key = ''k'', cl_models = [''gpt'']\<rparr>],
      cfg_backends =
        [\<lparr>be_id = ''b'', be_base_url = ''http://h'', be_api_key = None, be_timeout = 120000,
          be_supports = [''all''], be_tool_schema_mode = LlamacppCompat,
          be_responses_store = StorePreserve, be_responses_max_output_tokens = MotPreserve,
          be_chat_stream_usage = UsagePreserve, be_weight = 1, be_extra_body = [],
          be_expose_backend_errors = False, be_stream_capture = False\<rparr>],
      cfg_routes =
        [\<lparr>rt_key = Public ''gpt'', rt_expose = [], rt_context_length = SpecNone,
          rt_tool_schema_mode = SchemaPreserve, rt_responses_store = StorePreserve,
          rt_responses_max_output_tokens = MotPreserve, rt_chat_stream_usage = UsagePreserve,
          rt_backends = [\<lparr>rb_backend_id = ''b'', rb_backend_model = ''m''\<rparr>],
          rt_extra_body = [], rt_expose_backend_errors = False, rt_stream_capture = False,
          rt_request_headers = [], rt_anthropic_max_tokens = None\<rparr>]\<rparr>"

lemmas example_defs = example_host_def example_backend_def example_route_def example_file_def

lemma example_text:
  "\<not> is_blank ''a''" "\<not> is_blank ''b''" "\<not> is_blank ''k''"
  "trim_end_matches CHR ''/'' (trim ''http://h/'') = ''http://h''"
  "strip_prefix ''http://'' ''http://h'' = Some ''h''"
  "starts_with ''/'' ''/v1/models''" "\<not> starts_with ''//'' ''/v1/models''"
  "\<not> str_contains ''://'' ''/v1/models''" "\<not> list_ex is_ascii_control ''/v1/models''"
  "is_known_marker ''all''"
  "parse_route_backend ''m@b'' = Inr (Some ''m'', ''b'')"
  by code_simp+

lemma example_no_c1:
  "\<not> list_ex (\<lambda>n. str_contains [CHR 0xC2, char_of n] ''/v1/models'') [128..<160]"
  using str_contains_hd [of "CHR 0xC2" "''/v1/models''"] by (auto simp: list_ex_iff)

lemma example_health: "validate_health_config default_health_config = Inr ()"
proof -
  have n: "(30000 :: u64) \<noteq> 0" "(2000 :: u64) \<noteq> 0" by simp_all
  show ?thesis
    by (simp only: validate_health_config_def default_health_config_def health_config.simps
        example_text example_no_c1 n if_False if_True simp_thms)
qed

lemma example_resolve: "resolve example_host example_file = Inr example_config"
proof -
  have "validate_top_level example_file = Inr ()"
    by (simp add: validate_top_level_def example_file_def config_defaults
        validate_debug_capture_config_def validate_inspector_config_def
        validate_routing_config_def MAX_FALLBACK_ATTEMPTS_def
        example_health [unfolded default_health_config_def])
  moreover have "resolve_clients example_host (cf_clients example_file) (cf_access example_file)
      = Inr (cfg_clients example_config)"
    by (simp add: resolve_clients_def resolve_client_step_def resolve_secret_def example_file_def
        example_config_def example_text bs_extend_def)
  moreover have b: "resolve_backends example_host (cf_backends example_file) PolicyWarn
      = Inr (cfg_backends example_config)"
    by (simp add: resolve_backends_def resolve_backend_step_def normalize_backend_base_url_def
        resolve_optional_secret_def example_defs config_defaults example_config_def example_text
        canonicalize_marker_set_def CHAT_VIA_MESSAGES_ALIAS_def)
  moreover have "resolve_routes example_host (cf_routes example_file)
      (cfg_backends example_config) (cf_routing example_file) = Inr (cfg_routes example_config)"
    by (simp add: resolve_routes_def validate_routes_def validate_route_step_def route_key_of_def
        example_defs example_config_def canonicalize_marker_set_def resolve_route_def bind_routes_def
        bind_route_def example_text find_backend_def resolve_context_lengths_def
        resolve_context_length_policy_def or_default_def merge_extra_body_def first_backend_def
        first_binding_def resolve_expose_backend_errors_def resolve_stream_capture_def)
  moreover have "validate_allowed_routes (cfg_clients example_config) (cfg_routes example_config)
      = Inr ()"
    by (simp add: validate_allowed_routes_def validate_allowed_client_def has_public_route_def
        example_config_def)
  ultimately show ?thesis
    by (simp add: resolve_def) (simp add: example_file_def default_routing_config_def example_config_def)
qed

theorem resolve_config_wf_witness:
  "resolve example_host example_file = Inr example_config \<and> config_wf example_config"
  using example_resolve resolve_config_wf [OF example_resolve] by blast

section \<open>Reloading\<close>

lemma load_wf: "load h fs path = Inr c \<Longrightarrow> config_wf c"
  unfolding load_def bind_res_Inr_iff
  by (auto intro: resolve_establishes_wf split: sum.splits) (metis old.sum.exhaust resolve_establishes_wf)

lemma try_reload_eq_load: "try_reload_config h fs path store = load h fs path"
  by (cases "load h fs path")
    (auto simp: try_reload_config_def apply_reloaded_config_def store_replace_def Let_def)

lemma reload_attempts_outcome:
  "(\<exists>i < length views. load h (views ! i) path = Inr (reload_attempts h views path store)
      \<and> (\<forall>j < i. \<not> is_ok (load h (views ! j) path)))
   \<or> ((\<forall>fs \<in> set views. \<not> is_ok (load h fs path)) \<and> reload_attempts h views path store = store)"
proof (induction views)
  case Nil
  then show ?case by simp
next
  case (Cons fs views)
  show ?case
  proof (cases "load h fs path")
    case (Inl e)
    then have r: "reload_attempts h (fs # views) path store = reload_attempts h views path store"
      by (simp add: try_reload_eq_load)
    from Cons.IH show ?thesis
    proof
      assume "\<exists>i < length views. load h (views ! i) path = Inr (reload_attempts h views path store)
        \<and> (\<forall>j < i. \<not> is_ok (load h (views ! j) path))"
      then obtain i where i: "i < length views"
        "load h (views ! i) path = Inr (reload_attempts h views path store)"
        "\<forall>j < i. \<not> is_ok (load h (views ! j) path)" by blast
      then have "\<forall>j < Suc i. \<not> is_ok (load h ((fs # views) ! j) path)"
        using Inl by (auto simp: less_Suc_eq_0_disj)
      then show ?thesis using i(1,2) r by (intro disjI1 exI [of _ "Suc i"]) auto
    qed (use Inl r in auto)
  next
    case (Inr c)
    then show ?thesis by (intro disjI1 exI [of _ 0]) (simp add: try_reload_eq_load)
  qed
qed

text \<open>
  A reload never leaves the server without a valid configuration.  After the retry loop the
  store holds the configuration of the first of at most five attempts that loads, or the previous
  configuration when all five fail; in both cases it satisfies the invariant.
\<close>

theorem reload_safe:
  assumes "config_wf store"
  shows "config_wf (reload_config_with_retries h view path store) \<and>
    ((\<exists>n \<in> {1..5}. load h (view n) path = Inr (reload_config_with_retries h view path store)
        \<and> (\<forall>m \<in> {1..<n}. \<not> is_ok (load h (view m) path)))
     \<or> ((\<forall>n \<in> {1..5}. \<not> is_ok (load h (view n) path))
        \<and> reload_config_with_retries h view path store = store))"
proof -
  let ?vs = "map view [1 ..< 6]"
  let ?r = "reload_config_with_retries h view path store"
  have r: "?r = reload_attempts h ?vs path store"
    by (simp add: reload_config_with_retries_def CONFIG_RELOAD_MAX_ATTEMPTS_def)
  consider (ok) i where "i < 5" "load h (view (i + 1)) path = Inr ?r"
      "\<forall>j < i. \<not> is_ok (load h (view (j + 1)) path)"
    | (fail) "\<forall>n \<in> {1..<6}. \<not> is_ok (load h (view n) path)" "?r = store"
    using reload_attempts_outcome [where h = h and path = path and views = ?vs and store = store]
    unfolding r [symmetric] by (auto simp del: upt_rec_numeral upt_Suc)
  then show ?thesis
  proof cases
    case ok
    have m: "\<not> is_ok (load h (view m) path)" if "m \<in> {1..<i + 1}" for m
    proof -
      have "m - 1 < i" "m - 1 + 1 = m" using that by auto
      then show ?thesis using ok(3) by metis
    qed
    show ?thesis
      using load_wf [OF ok(2)] ok(1,2) m by (intro conjI disjI1 bexI [of _ "i + 1"]) auto
  next
    case fail
    then show ?thesis using assms by auto
  qed
qed

definition example_view :: "nat \<Rightarrow> file_system" where
  "example_view n =
     (if n = 3 then \<lparr>read_to_string = (\<lambda>_. Some ''x''), toml_from_str = (\<lambda>_. Some example_file)\<rparr>
      else \<lparr>read_to_string = (\<lambda>_. None), toml_from_str = (\<lambda>_. None)\<rparr>)"

theorem reload_safe_witness:
  "config_wf example_config \<and>
   config_wf (reload_config_with_retries example_host example_view ''onair.toml'' example_config) \<and>
   is_ok (load example_host (example_view 3) ''onair.toml'')"
proof -
  have h: "config_wf example_config" by (rule resolve_establishes_wf [OF example_resolve])
  have "is_ok (load example_host (example_view 3) ''onair.toml'')"
    by (simp add: load_def example_view_def example_resolve)
  then show ?thesis
    using h reload_safe [OF h, of example_host example_view "''onair.toml''"] by blast
qed

end
