(* ===== verification/Routing.thy ===== *)
theory Routing
  imports Config
begin

text \<open>
  \<open>onair-proxy/src/routing.rs\<close>: selection of the backends that may serve a request, in the order in
  which they are tried.  The round-robin counters are explicit state; the random number drawn for
  the weighted strategy is the argument \<open>gen_range\<close>, the generator of the \<open>rand\<close> crate; the panic
  of \<open>gen_range\<close> on an empty range is the value \<open>None\<close>.
\<close>

unbundle bit_operations_syntax

section \<open>Capabilities and paths\<close>

definition has_capability :: "string list \<Rightarrow> string \<Rightarrow> bool" where
  "has_capability capabilities capability \<longleftrightarrow>
     capability \<in> set capabilities \<or> ''all'' \<in> set capabilities"

definition supports_candidates :: "string list \<Rightarrow> string list \<Rightarrow> bool" where
  "supports_candidates capabilities candidates = list_ex (has_capability capabilities) candidates"

definition normalize_segment :: "string \<Rightarrow> string" where
  "normalize_segment segment =
     map (\<lambda>c. if c = CHR ''-'' then CHR ''_'' else to_ascii_lower c) segment"

definition singularize :: "string \<Rightarrow> string" where
  "singularize segment = (case strip_suffix ''s'' segment of None \<Rightarrow> segment | Some t \<Rightarrow> t)"

definition path_segments :: "string \<Rightarrow> string list" where
  "path_segments path =
     (let trimmed = trim_start_matches CHR ''/''
            (case strip_prefix ''/v1/'' path of None \<Rightarrow> path | Some t \<Rightarrow> t)
      in if trimmed = [] then []
         else map normalize_segment (filter (\<lambda>s. s \<noteq> []) (split_char CHR ''/'' trimmed)))"

definition path_capability_candidates :: "string \<Rightarrow> string list" where
  "path_capability_candidates path =
     (case path_segments path of
        [] \<Rightarrow> []
      | s0 # rest \<Rightarrow>
          let c = bs_insert s0 [];
              c = (if ends_with ''s'' s0 \<and> 1 < length s0 then bs_insert (singularize s0) c else c);
              c = (case rest of
                     [] \<Rightarrow> c
                   | s1 # _ \<Rightarrow> bs_insert (s0 @ ''_'' @ s1) (bs_insert s1 c));
              c = (case rest of
                     _ # s2 # _ \<Rightarrow> bs_insert s2 (bs_insert (s0 @ ''_'' @ s2) c)
                   | _ \<Rightarrow> c)
          in if s0 = ''chat'' then bs_insert ''completions'' (bs_insert ''chat_completions'' c)
             else if s0 = ''responses'' then bs_insert RESPONSES_VIA_CHAT_COMPLETIONS c
             else if s0 = ''messages'' then bs_insert ''messages'' c
             else if s0 = ''images'' then bs_insert ''image'' c
             else if s0 = ''files'' then bs_insert ''file'' c
             else if s0 = ''models'' then bs_insert ''model'' c
             else if s0 = ''audio'' then bs_insert ''audio'' c
             else c)"

definition path_requires_model :: "string \<Rightarrow> bool" where
  "path_requires_model path \<longleftrightarrow>
     trim_end_matches CHR ''/'' path \<in>
       {''/v1/chat/completions'', ''/v1/chat/completion'', ''/v1/responses'', ''/v1/messages'',
        ''/v1/embeddings'', ''/v1/audio/transcriptions'', ''/v1/audio/translations'',
        ''/v1/images/generations'', ''/v1/images/edits'', ''/v1/images/variations''}"

definition path_metric_name :: "string \<Rightarrow> string" where
  "path_metric_name path =
     (let normalized = trim_end_matches CHR ''/'' path
      in if ends_with ''/chat/completions'' normalized then ''chat_completions''
         else if ends_with ''/chat/completion'' normalized then ''chat_completions''
         else if ends_with ''/responses'' normalized then ''responses''
         else if ends_with ''/messages'' normalized then ''messages''
         else case path_capability_candidates path of [] \<Rightarrow> ''unknown'' | c # _ \<Rightarrow> c)"

section \<open>Request modes\<close>

definition supports_messages :: "string list \<Rightarrow> bool" where
  "supports_messages supports = has_capability supports ''messages''"

definition supports_responses :: "string list \<Rightarrow> bool" where
  "supports_responses supports \<longleftrightarrow>
     has_capability supports ''responses'' \<or> has_capability supports ''response''"

definition supports_chat_compat :: "string list \<Rightarrow> bool" where
  "supports_chat_compat supports \<longleftrightarrow>
     has_capability supports ''chat'' \<or> has_capability supports ''chat_completions''
     \<or> has_capability supports ''completions''"

definition has_tool_capability :: "string list \<Rightarrow> bool" where
  "has_tool_capability supports \<longleftrightarrow>
     has_capability supports ''tools'' \<or> has_capability supports ''tool_calls''
     \<or> has_capability supports ''function_calling'' \<or> has_capability supports ''functions''"

definition none_or :: "('a \<Rightarrow> bool) \<Rightarrow> 'a option \<Rightarrow> bool" where
  "none_or P m = (case m of None \<Rightarrow> True | Some x \<Rightarrow> P x)"

definition route_supports_messages :: "string list option \<Rightarrow> bool" where
  "route_supports_messages = none_or (\<lambda>expose. expose = [] \<or> has_capability expose ''messages'')"

definition route_supports_responses :: "string list option \<Rightarrow> bool" where
  "route_supports_responses =
     none_or (\<lambda>expose. expose = [] \<or> has_capability expose ''responses''
       \<or> has_capability expose ''response'')"

definition route_supports_chat_compat :: "string list option \<Rightarrow> bool" where
  "route_supports_chat_compat = none_or (\<lambda>expose. expose = [] \<or> supports_chat_compat expose)"

definition route_supports_tools :: "string list option \<Rightarrow> bool" where
  "route_supports_tools = none_or (\<lambda>expose. expose = [] \<or> has_tool_capability expose)"

definition supports_tools :: "string list \<Rightarrow> string list option \<Rightarrow> bool" where
  "supports_tools backend_supports route_expose \<longleftrightarrow>
     has_tool_capability backend_supports \<and> route_supports_tools route_expose"

definition route_supports_compat_marker ::
  "string list \<Rightarrow> string list option \<Rightarrow> string \<Rightarrow> bool" where
  "route_supports_compat_marker backend_supports route_expose marker =
     (case route_expose of
        Some expose \<Rightarrow>
          if expose \<noteq> [] then marker \<in> set expose else marker \<in> set backend_supports
      | None \<Rightarrow> marker \<in> set backend_supports)"

definition request_mode_for_responses :: "string list \<Rightarrow> string list option \<Rightarrow> request_mode option" where
  "request_mode_for_responses supports expose =
     (if supports_responses supports \<and> route_supports_responses expose then Some Native
      else if supports_chat_compat supports
          \<and> route_supports_compat_marker supports expose RESPONSES_VIA_CHAT_COMPLETIONS
        then Some ResponsesViaChatCompletions
      else None)"

definition request_mode_for_chat_completions ::
  "string list \<Rightarrow> string list option \<Rightarrow> request_mode option" where
  "request_mode_for_chat_completions supports expose =
     (if supports_chat_compat supports \<and> route_supports_chat_compat expose then Some Native
      else if supports_responses supports
          \<and> route_supports_compat_marker supports expose CHAT_COMPLETIONS_VIA_RESPONSES
        then Some ChatCompletionsViaResponses
      else if supports_messages supports
          \<and> route_supports_compat_marker supports expose CHAT_COMPLETIONS_VIA_MESSAGES
        then Some ChatCompletionsViaMessages
      else None)"

definition request_mode_for_messages :: "string list \<Rightarrow> string list option \<Rightarrow> request_mode option" where
  "request_mode_for_messages supports expose =
     (if supports_messages supports \<and> route_supports_messages expose then Some AnthropicMessagesNative
      else None)"

definition request_mode_for_path ::
  "string \<Rightarrow> string list \<Rightarrow> string list \<Rightarrow> string list option \<Rightarrow> request_mode option" where
  "request_mode_for_path path path_candidates supports expose =
     (let p = trim_end_matches CHR ''/'' path
      in if p = ''/v1/responses'' then request_mode_for_responses supports expose
         else if p = ''/v1/chat/completions'' \<or> p = ''/v1/chat/completion''
           then request_mode_for_chat_completions supports expose
         else if p = ''/v1/messages'' then request_mode_for_messages supports expose
         else if \<not> supports_candidates supports path_candidates then None
         else case expose of
             Some e \<Rightarrow> if e \<noteq> [] \<and> \<not> supports_candidates e path_candidates then None else Some Native
           | None \<Rightarrow> Some Native)"

definition request_mode_for_route ::
  "string \<Rightarrow> string list \<Rightarrow> string list \<Rightarrow> string list option \<Rightarrow> request_mode option" where
  "request_mode_for_route path path_candidates supports expose =
     request_mode_for_path path path_candidates supports expose"

definition request_mode_for_backend :: "string \<Rightarrow> string list \<Rightarrow> string list \<Rightarrow> request_mode option" where
  "request_mode_for_backend path path_candidates supports =
     request_mode_for_path path path_candidates supports None"

section \<open>Selected routes\<close>

record selected_route =
  sr_backend_id :: string
  sr_base_url :: string
  sr_api_key :: "string option"
  sr_timeout :: u64
  sr_public_model :: "string option"
  sr_backend_model :: "string option"
  sr_request_mode :: request_mode
  sr_tool_schema_mode :: tool_schema_mode
  sr_responses_store :: responses_store_policy
  sr_responses_max_output_tokens :: responses_max_output_tokens_policy
  sr_chat_stream_usage :: chat_stream_usage_policy
  sr_weight :: u32
  sr_route_key_label :: string
  sr_extra_body :: toml_map
  sr_request_headers :: "(string \<times> string) list"
  sr_expose_backend_errors :: bool
  sr_stream_capture :: bool
  sr_anthropic_max_tokens :: "u32 option"

datatype 'a non_empty_vec = NonEmptyVec (nev_head: 'a) (nev_tail: "'a list")

definition nev_from_vec :: "'a list \<Rightarrow> 'a non_empty_vec option" where
  "nev_from_vec xs = (case xs of [] \<Rightarrow> None | x # t \<Rightarrow> Some (NonEmptyVec x t))"

definition nev_len :: "'a non_empty_vec \<Rightarrow> nat" where
  "nev_len v = 1 + length (nev_tail v)"

definition nev_iter :: "'a non_empty_vec \<Rightarrow> 'a list" where
  "nev_iter v = nev_head v # nev_tail v"

section \<open>Strategies\<close>

type_synonym rr_counters = "string \<rightharpoonup> u64"

definition next_index :: "string \<Rightarrow> nat \<Rightarrow> rr_counters \<Rightarrow> nat \<times> rr_counters" where
  "next_index key count m =
     (if count = 0 then (0, m)
      else let counter = (case m key of None \<Rightarrow> 0 | Some c \<Rightarrow> c)
           in (unat counter mod count, m(key \<mapsto> counter + 1)))"

fun weighted_position :: "u64 \<Rightarrow> u64 \<Rightarrow> nat \<Rightarrow> u32 list \<Rightarrow> nat option" where
  "weighted_position pick cumulative i [] = None"
| "weighted_position pick cumulative i (w # ws) =
     (let cumulative = cumulative + ucast w
      in if pick < cumulative then Some i else weighted_position pick cumulative (Suc i) ws)"

definition weighted_rotate ::
  "(u64 \<Rightarrow> u64) \<Rightarrow> selected_route list \<Rightarrow> selected_route list option" where
  "weighted_rotate gen_range candidates =
     (if length candidates \<le> 1 then Some candidates
      else let total = sum_list (map (\<lambda>c. ucast (sr_weight c)) candidates)
           in if total = 0 then None
              else case weighted_position (gen_range total) 0 0 (map sr_weight candidates) of
                  None \<Rightarrow> Some candidates
                | Some i \<Rightarrow> Some (rotate_left i candidates))"

definition FNV_OFFSET_BASIS :: u64 where "FNV_OFFSET_BASIS = 0xcbf29ce484222325"

definition FNV_PRIME :: u64 where "FNV_PRIME = 0x00000100000001b3"

record fnv_hasher =
  fnv_state :: u64
  fnv_started :: bool

definition fnv_default :: fnv_hasher where
  "fnv_default = \<lparr>fnv_state = FNV_OFFSET_BASIS, fnv_started = False\<rparr>"

definition fnv_write :: "string \<Rightarrow> fnv_hasher \<Rightarrow> fnv_hasher" where
  "fnv_write bytes h =
     fold (\<lambda>b h. h\<lparr>fnv_state := (fnv_state h XOR of_nat (byte b)) * FNV_PRIME, fnv_started := True\<rparr>)
       bytes h"

definition fnv_finish :: "fnv_hasher \<Rightarrow> u64" where
  "fnv_finish h = (if fnv_started h then fnv_state h else FNV_OFFSET_BASIS)"

text \<open>\<open>str::hash\<close> writes the bytes of the string and then the byte \<open>0xff\<close>.\<close>

definition sticky_index :: "string \<Rightarrow> nat \<Rightarrow> nat" where
  "sticky_index key count =
     (if count \<le> 1 then 0
      else unat (fnv_finish (fnv_write [CHR 0xFF] (fnv_write key fnv_default))) mod count)"

definition sticky_routing_key ::
  "string \<Rightarrow> string \<Rightarrow> string option \<Rightarrow> string option \<Rightarrow> string" where
  "sticky_routing_key ident path model prompt_cache_key =
     ident @ [CHR 0x00] @ path @ [CHR 0x00] @ or_default model [] @ [CHR 0x00]
       @ or_default prompt_cache_key []"

section \<open>The selector\<close>

record selection_request =
  rq_backends :: "resolved_backend list"
  rq_routes :: "resolved_route list"
  rq_strategy :: routing_strategy
  rq_path :: string
  rq_model :: "string option"
  rq_stream :: bool
  rq_tools :: bool
  rq_sticky_key :: "string option"

text \<open>The result and whether \<open>tool_incompatible\<close> was set.\<close>

definition is_eligible ::
  "selection_request \<Rightarrow> resolved_backend \<Rightarrow> resolved_route option \<Rightarrow> request_mode option \<times> bool" where
  "is_eligible rq backend route =
     (if rq_stream rq \<and> \<not> has_capability (be_supports backend) ''streaming'' then (None, False)
      else
        case (case route of
                Some r \<Rightarrow> request_mode_for_route (rq_path rq) (path_capability_candidates (rq_path rq))
                            (be_supports backend) (Some (rt_expose r))
              | None \<Rightarrow> request_mode_for_backend (rq_path rq)
                          (path_capability_candidates (rq_path rq)) (be_supports backend)) of
          None \<Rightarrow> (None, False)
        | Some mode \<Rightarrow>
            if rq_tools rq \<and> \<not> supports_tools (be_supports backend) (map_option rt_expose route)
            then (None, True) else (Some mode, False))"

definition build_candidate ::
  "resolved_backend \<Rightarrow> resolved_route option \<Rightarrow> route_backend_binding option \<Rightarrow> string option \<Rightarrow>
     request_mode \<Rightarrow> selected_route" where
  "build_candidate backend route binding model mode =
     \<lparr>sr_backend_id = be_id backend,
      sr_base_url = be_base_url backend,
      sr_api_key = be_api_key backend,
      sr_timeout = be_timeout backend,
      sr_public_model = model,
      sr_backend_model = map_option rb_backend_model binding,
      sr_request_mode = mode,
      sr_tool_schema_mode =
        (case route of Some r \<Rightarrow> rt_tool_schema_mode r | None \<Rightarrow> be_tool_schema_mode backend),
      sr_responses_store =
        (case route of Some r \<Rightarrow> rt_responses_store r | None \<Rightarrow> be_responses_store backend),
      sr_responses_max_output_tokens =
        (case route of Some r \<Rightarrow> rt_responses_max_output_tokens r
         | None \<Rightarrow> be_responses_max_output_tokens backend),
      sr_chat_stream_usage =
        (case route of Some r \<Rightarrow> rt_chat_stream_usage r | None \<Rightarrow> be_chat_stream_usage backend),
      sr_weight = be_weight backend,
      sr_route_key_label =
        (case route of Some r \<Rightarrow> format_route_key (rt_key r) | None \<Rightarrow> ''none''),
      sr_extra_body = (case route of Some r \<Rightarrow> rt_extra_body r | None \<Rightarrow> []),
      sr_request_headers = (case route of Some r \<Rightarrow> rt_request_headers r | None \<Rightarrow> []),
      sr_expose_backend_errors =
        (case route of Some r \<Rightarrow> rt_expose_backend_errors r | None \<Rightarrow> False),
      sr_stream_capture = (case route of Some r \<Rightarrow> rt_stream_capture r | None \<Rightarrow> False),
      sr_anthropic_max_tokens =
        (case route of Some r \<Rightarrow> rt_anthropic_max_tokens r | None \<Rightarrow> None)\<rparr>"

definition consider_backend ::
  "selection_request \<Rightarrow> resolved_route option \<Rightarrow> route_backend_binding option \<Rightarrow> resolved_backend \<Rightarrow>
     selected_route list \<times> bool \<Rightarrow> selected_route list \<times> bool" where
  "consider_backend rq route binding backend s =
     (let (candidates, tool_incompatible) = s
      in case is_eligible rq backend route of
          (Some mode, _) \<Rightarrow>
            (candidates @ [build_candidate backend route binding (rq_model rq) mode], tool_incompatible)
        | (None, t) \<Rightarrow> (candidates, tool_incompatible \<or> t))"

definition model_step ::
  "selection_request \<Rightarrow> resolved_route \<Rightarrow> route_backend_binding \<Rightarrow> selected_route list \<times> bool \<Rightarrow>
     selected_route list \<times> bool" where
  "model_step rq route binding s =
     (case find_backend (rq_backends rq) (rb_backend_id binding) of
        None \<Rightarrow> s
      | Some backend \<Rightarrow> consider_backend rq (Some route) (Some binding) backend s)"

definition path_step ::
  "selection_request \<Rightarrow> resolved_route option \<Rightarrow> resolved_backend \<Rightarrow> selected_route list \<times> bool \<Rightarrow>
     selected_route list \<times> bool" where
  "path_step rq route backend s =
     (case route of
        Some r \<Rightarrow>
          if \<not> list_ex (\<lambda>b. rb_backend_id b = be_id backend) (rt_backends r) then s
          else consider_backend rq route None backend s
      | None \<Rightarrow> consider_backend rq None None backend s)"

definition find_public_route :: "resolved_route list \<Rightarrow> string \<Rightarrow> resolved_route option" where
  "find_public_route routes model = find (\<lambda>r. rt_key r = Public model) routes"

definition find_path_route :: "resolved_route list \<Rightarrow> string \<Rightarrow> resolved_route option" where
  "find_path_route routes path =
     find (\<lambda>r. case rt_key r of
         Path p \<Rightarrow> trim_end_matches CHR ''/'' p = trim_end_matches CHR ''/'' path
       | Public _ \<Rightarrow> False) routes"

definition collect_candidates :: "selection_request \<Rightarrow> api_error + selected_route list \<times> bool" where
  "collect_candidates rq =
     (case rq_model rq of
        Some requested_model \<Rightarrow>
          (case find_public_route (rq_routes rq) requested_model of
             None \<Rightarrow> Inl (model_not_found requested_model)
           | Some route \<Rightarrow> Inr (fold (model_step rq route) (rt_backends route) ([], False)))
      | None \<Rightarrow>
          Inr (fold (path_step rq (find_path_route (rq_routes rq) (rq_path rq)))
                 (rq_backends rq) ([], False)))"

definition apply_strategy ::
  "(u64 \<Rightarrow> u64) \<Rightarrow> selection_request \<Rightarrow> selected_route list \<Rightarrow> rr_counters \<Rightarrow>
     selected_route list option \<times> rr_counters" where
  "apply_strategy gen_range rq candidates counters =
     (case rq_strategy rq of
        Priority \<Rightarrow> (Some candidates, counters)
      | Sticky \<Rightarrow>
          (Some (rotate_left (sticky_index (or_default (rq_sticky_key rq) (rq_path rq))
                   (length candidates)) candidates), counters)
      | RoundRobin \<Rightarrow>
          (let (index, counters') =
                 next_index (or_default (rq_model rq) (rq_path rq)) (length candidates) counters
           in (Some (rotate_left index candidates), counters'))
      | WeightedRandom \<Rightarrow> (weighted_rotate gen_range candidates, counters))"

definition select ::
  "(u64 \<Rightarrow> u64) \<Rightarrow> selection_request \<Rightarrow> rr_counters \<Rightarrow>
     (api_error + selected_route non_empty_vec) option \<times> rr_counters" where
  "select gen_range rq counters =
     (case collect_candidates rq of
        Inl e \<Rightarrow> (Some (Inl e), counters)
      | Inr (candidates, tool_incompatible) \<Rightarrow>
          if candidates = [] then
            (Some (Inl
               (if rq_tools rq \<and> tool_incompatible then
                  bad_request ''The selected model does not support tool calling.'' (Some ''tools'')
                else endpoint_unavailable (rq_path rq) (rq_model rq))), counters)
          else
            let (rotated, counters') = apply_strategy gen_range rq candidates counters
            in (Option.bind rotated (\<lambda>cs. map_option Inr (nev_from_vec cs)), counters'))"

end
