(* ===== verification/Routing_Correct.thy ===== *)
theory Routing_Correct
  imports Routing "HOL-Library.Multiset"
begin

text \<open>
  Correctness of the router: which candidates a selection contains, what the strategies may do to
  their order (the locale \<open>candidate_order\<close>), fairness of the round-robin counter, the exact
  distribution of the weighted strategy, stability of the sticky one, and when a compatibility
  path may be taken.
\<close>

section \<open>Strategies only rotate\<close>

lemma mset_rotate_left: "mset (rotate_left k xs) = mset xs"
proof -
  have "mset (rotate_left k xs) = mset (take k xs @ drop k xs)"
    by (simp only: rotate_left_def mset_append add.commute)
  then show ?thesis by simp
qed

text \<open>The contract between the selector and a strategy.\<close>

locale candidate_order =
  fixes order :: "'a list \<Rightarrow> 's \<Rightarrow> 'a list option \<times> 's"
  assumes rotates:
    "fst (order xs s) = Some ys \<Longrightarrow> xs \<noteq> [] \<Longrightarrow> \<exists>k < length xs. ys = rotate_left k xs"
begin

lemma order_not_Nil: "fst (order xs s) = Some ys \<Longrightarrow> xs \<noteq> [] \<Longrightarrow> ys \<noteq> []"
  using rotates [of xs s ys] by auto

lemma order_set: "fst (order xs s) = Some ys \<Longrightarrow> xs \<noteq> [] \<Longrightarrow> set ys = set xs"
  by (auto dest: rotates)

lemma order_length: "fst (order xs s) = Some ys \<Longrightarrow> xs \<noteq> [] \<Longrightarrow> length ys = length xs"
  by (auto dest: rotates)

lemma order_mset: "fst (order xs s) = Some ys \<Longrightarrow> xs \<noteq> [] \<Longrightarrow> mset ys = mset xs"
  by (auto dest: rotates simp: mset_rotate_left)

end

lemma weighted_position_bounds:
  "weighted_position p c i ws = Some j \<Longrightarrow> i \<le> j \<and> j < i + length ws"
proof (induction ws arbitrary: c i)
  case Nil
  then show ?case by simp
next
  case (Cons w ws)
  show ?case
  proof (cases "p < c + ucast w")
    case True
    then show ?thesis using Cons.prems by simp
  next
    case False
    then have "weighted_position p (c + ucast w) (Suc i) ws = Some j" using Cons.prems by simp
    then show ?thesis using Cons.IH by fastforce
  qed
qed

lemma sticky_index_bound: "0 < n \<Longrightarrow> sticky_index key n < n"
  by (simp add: sticky_index_def)

lemma next_index_bound: "0 < n \<Longrightarrow> fst (next_index key n m) < n"
  by (simp add: next_index_def Let_def)

lemma weighted_rotate_rotates:
  assumes "weighted_rotate g xs = Some ys" and "xs \<noteq> []"
  shows "\<exists>k < length xs. ys = rotate_left k xs"
proof (cases "length xs \<le> 1")
  case True
  then show ?thesis using assms by (intro exI [of _ 0]) (auto simp: weighted_rotate_def)
next
  case False
  let ?p = "weighted_position (g (sum_list (map (\<lambda>c. ucast (sr_weight c)) xs))) 0 0 (map sr_weight xs)"
  have ys: "ys = (case ?p of None \<Rightarrow> xs | Some i \<Rightarrow> rotate_left i xs)"
    using assms(1) False by (auto simp: weighted_rotate_def Let_def split: if_splits option.splits)
  show ?thesis
  proof (cases ?p)
    case None
    then show ?thesis using ys assms(2) by (intro exI [of _ 0]) simp
  next
    case (Some i)
    then have "i < length xs" using weighted_position_bounds [OF Some] by simp
    then show ?thesis using ys Some by auto
  qed
qed

interpretation strat: candidate_order "apply_strategy gen_range rq" for gen_range rq
proof
  fix xs ys :: "selected_route list" and s
  assume h: "fst (apply_strategy gen_range rq xs s) = Some ys" and ne: "xs \<noteq> []"
  then have n: "0 < length xs" by simp
  show "\<exists>k < length xs. ys = rotate_left k xs"
  proof (cases "rq_strategy rq")
    case Priority
    then show ?thesis using h n by (intro exI [of _ 0]) (simp add: apply_strategy_def)
  next
    case Sticky
    then show ?thesis using h sticky_index_bound [OF n] by (auto simp: apply_strategy_def)
  next
    case RoundRobin
    let ?i = "fst (next_index (or_default (rq_model rq) (rq_path rq)) (length xs) s)"
    have "ys = rotate_left ?i xs"
      using h RoundRobin by (simp add: apply_strategy_def case_prod_beta)
    then show ?thesis using next_index_bound [OF n] by blast
  next
    case WeightedRandom
    then show ?thesis using h ne weighted_rotate_rotates by (simp add: apply_strategy_def)
  qed
qed

section \<open>Which candidates a selection contains\<close>

definition eligible :: "selection_request \<Rightarrow> resolved_backend \<Rightarrow> resolved_route option \<Rightarrow> request_mode \<Rightarrow> bool" where
  "eligible rq b route mode \<longleftrightarrow>
     (rq_stream rq \<longrightarrow> has_capability (be_supports b) ''streaming'') \<and>
     (rq_tools rq \<longrightarrow> supports_tools (be_supports b) (map_option rt_expose route)) \<and>
     request_mode_for_path (rq_path rq) (path_capability_candidates (rq_path rq)) (be_supports b)
       (map_option rt_expose route) = Some mode"

text \<open>A backend that only lacks tool support.\<close>

definition tool_blocked :: "selection_request \<Rightarrow> resolved_route option \<Rightarrow> resolved_backend \<Rightarrow> bool" where
  "tool_blocked rq route b \<longleftrightarrow>
     (rq_stream rq \<longrightarrow> has_capability (be_supports b) ''streaming'') \<and>
     request_mode_for_path (rq_path rq) (path_capability_candidates (rq_path rq)) (be_supports b)
       (map_option rt_expose route) \<noteq> None \<and>
     rq_tools rq \<and> \<not> supports_tools (be_supports b) (map_option rt_expose route)"

lemma is_eligible_iff: "fst (is_eligible rq b route) = Some mode \<longleftrightarrow> eligible rq b route mode"
  by (auto simp: is_eligible_def eligible_def request_mode_for_route_def request_mode_for_backend_def
      split: option.splits)

lemma is_eligible_flag: "snd (is_eligible rq b route) \<longleftrightarrow> tool_blocked rq route b"
  by (auto simp: is_eligible_def tool_blocked_def request_mode_for_route_def
      request_mode_for_backend_def split: option.splits)

lemma consider_backend_eq:
  "consider_backend rq route binding b (cs, t) =
     (cs @ (case fst (is_eligible rq b route) of
              None \<Rightarrow> [] | Some mode \<Rightarrow> [build_candidate b route binding (rq_model rq) mode]),
      t \<or> tool_blocked rq route b)"
proof -
  have "fst (is_eligible rq b route) \<noteq> None \<Longrightarrow> \<not> tool_blocked rq route b"
    by (auto simp: is_eligible_iff eligible_def tool_blocked_def)
  then show ?thesis
    by (cases "is_eligible rq b route")
      (auto simp: consider_backend_def is_eligible_flag [symmetric] split: option.splits)
qed

text \<open>A loop that appends what each element contributes.\<close>

lemma fold_collect:
  assumes "\<And>x cs t. x \<in> set xs \<Longrightarrow> f x (cs, t) = (cs @ g x, t \<or> h x)"
  shows "fold f xs (cs, t) = (cs @ concat (map g xs), t \<or> list_ex h xs)"
  using assms by (induction xs arbitrary: cs t) auto

definition model_contribution ::
  "selection_request \<Rightarrow> resolved_route \<Rightarrow> route_backend_binding \<Rightarrow> selected_route list" where
  "model_contribution rq route binding =
     (case find_backend (rq_backends rq) (rb_backend_id binding) of
        None \<Rightarrow> []
      | Some b \<Rightarrow> (case fst (is_eligible rq b (Some route)) of
          None \<Rightarrow> []
        | Some mode \<Rightarrow> [build_candidate b (Some route) (Some binding) (rq_model rq) mode]))"

definition path_contribution ::
  "selection_request \<Rightarrow> resolved_route option \<Rightarrow> resolved_backend \<Rightarrow> selected_route list" where
  "path_contribution rq route b =
     (if none_or (\<lambda>r. be_id b \<in> rb_backend_id ` set (rt_backends r)) route
      then (case fst (is_eligible rq b route) of
          None \<Rightarrow> [] | Some mode \<Rightarrow> [build_candidate b route None (rq_model rq) mode])
      else [])"

definition model_blocked :: "selection_request \<Rightarrow> resolved_route \<Rightarrow> route_backend_binding \<Rightarrow> bool" where
  "model_blocked rq route binding =
     (case find_backend (rq_backends rq) (rb_backend_id binding) of
        None \<Rightarrow> False | Some b \<Rightarrow> tool_blocked rq (Some route) b)"

definition path_blocked :: "selection_request \<Rightarrow> resolved_route option \<Rightarrow> resolved_backend \<Rightarrow> bool" where
  "path_blocked rq route b \<longleftrightarrow>
     none_or (\<lambda>r. be_id b \<in> rb_backend_id ` set (rt_backends r)) route \<and> tool_blocked rq route b"

lemma collect_candidates_eq:
  "collect_candidates rq =
     (case rq_model rq of
        Some m \<Rightarrow>
          (case find_public_route (rq_routes rq) m of
             None \<Rightarrow> Inl (model_not_found m)
           | Some route \<Rightarrow>
               Inr (concat (map (model_contribution rq route) (rt_backends route)),
                    list_ex (model_blocked rq route) (rt_backends route)))
      | None \<Rightarrow>
          (let route = find_path_route (rq_routes rq) (rq_path rq)
           in Inr (concat (map (path_contribution rq route) (rq_backends rq)),
                   list_ex (path_blocked rq route) (rq_backends rq))))"
proof -
  have m: "model_step rq route x (cs, t) =
      (cs @ model_contribution rq route x, t \<or> model_blocked rq route x)" for route x cs t
    by (simp add: model_step_def model_contribution_def model_blocked_def consider_backend_eq
        split: option.splits)
  have bound: "list_ex (\<lambda>b. rb_backend_id b = i) bs \<longleftrightarrow> i \<in> rb_backend_id ` set bs" for i bs
    by (auto simp: list_ex_iff)
  have p: "path_step rq route b (cs, t) =
      (cs @ path_contribution rq route b, t \<or> path_blocked rq route b)" for route b cs t
    by (cases route)
      (simp_all add: path_step_def path_contribution_def path_blocked_def consider_backend_eq
        none_or_def bound)
  show ?thesis
    by (simp add: collect_candidates_def fold_collect [OF m] fold_collect [OF p] Let_def
        split: option.splits)
qed

definition admissible :: "selection_request \<Rightarrow> selected_route \<Rightarrow> bool" where
  "admissible rq cand \<longleftrightarrow>
     (case rq_model rq of
        Some m \<Rightarrow> \<exists>route binding b mode.
          find_public_route (rq_routes rq) m = Some route \<and> binding \<in> set (rt_backends route) \<and>
          find_backend (rq_backends rq) (rb_backend_id binding) = Some b \<and>
          eligible rq b (Some route) mode \<and>
          cand = build_candidate b (Some route) (Some binding) (Some m) mode
      | None \<Rightarrow> \<exists>b \<in> set (rq_backends rq). \<exists>mode.
          none_or (\<lambda>r. be_id b \<in> rb_backend_id ` set (rt_backends r))
            (find_path_route (rq_routes rq) (rq_path rq)) \<and>
          eligible rq b (find_path_route (rq_routes rq) (rq_path rq)) mode \<and>
          cand = build_candidate b (find_path_route (rq_routes rq) (rq_path rq)) None None mode)"

lemma set_path_contribution:
  "cand \<in> set (path_contribution rq route b) \<longleftrightarrow>
     none_or (\<lambda>r. be_id b \<in> rb_backend_id ` set (rt_backends r)) route \<and>
     (\<exists>mode. eligible rq b route mode \<and> cand = build_candidate b route None (rq_model rq) mode)"
proof (cases "fst (is_eligible rq b route)")
  case None
  then have "path_contribution rq route b = []" by (simp add: path_contribution_def)
  then show ?thesis using None by (simp add: is_eligible_iff [symmetric])
next
  case (Some mode)
  then have "path_contribution rq route b =
      (if none_or (\<lambda>r. be_id b \<in> rb_backend_id ` set (rt_backends r)) route
       then [build_candidate b route None (rq_model rq) mode] else [])"
    by (simp add: path_contribution_def)
  then show ?thesis using Some by (simp add: is_eligible_iff [symmetric] conj_commute)
qed

lemma set_model_contribution:
  "cand \<in> set (model_contribution rq route binding) \<longleftrightarrow>
     (\<exists>b mode. find_backend (rq_backends rq) (rb_backend_id binding) = Some b \<and>
        eligible rq b (Some route) mode \<and>
        cand = build_candidate b (Some route) (Some binding) (rq_model rq) mode)"
proof (cases "find_backend (rq_backends rq) (rb_backend_id binding)")
  case (Some b)
  then show ?thesis
    by (cases "fst (is_eligible rq b (Some route))")
      (simp_all add: model_contribution_def is_eligible_iff [symmetric])
qed (simp add: model_contribution_def)

lemma collect_candidates_set:
  assumes "collect_candidates rq = Inr (cs, t)"
  shows "cand \<in> set cs \<longleftrightarrow> admissible rq cand"
proof (cases "rq_model rq")
  case None
  then have "cs = concat (map (path_contribution rq (find_path_route (rq_routes rq) (rq_path rq)))
      (rq_backends rq))"
    using assms by (simp add: collect_candidates_eq Let_def)
  then show ?thesis using None by (simp add: admissible_def set_path_contribution)
next
  case (Some m)
  then obtain route where r: "find_public_route (rq_routes rq) m = Some route"
    and "cs = concat (map (model_contribution rq route) (rt_backends route))"
    using assms by (auto simp: collect_candidates_eq split: option.splits)
  then show ?thesis using Some by (auto simp: admissible_def set_model_contribution)
qed

lemma set_nev_iter: "nev_from_vec cs = Some v \<Longrightarrow> nev_iter v = cs"
  by (auto simp: nev_from_vec_def nev_iter_def split: list.splits)

text \<open>What a successful selection is made of.\<close>

lemma select_ok_cases:
  assumes "select g rq c = (Some (Inr v), c')"
  obtains cs t where "collect_candidates rq = Inr (cs, t)" and "cs \<noteq> []"
    and "apply_strategy g rq cs c = (Some (nev_iter v), c')"
proof -
  obtain ct where ct: "collect_candidates rq = Inr ct"
    using assms by (cases "collect_candidates rq") (simp_all add: select_def)
  obtain cs t where cc: "collect_candidates rq = Inr (cs, t)" using ct by (cases ct) simp
  have ne: "cs \<noteq> []" using assms cc by (intro notI) (simp add: select_def)
  obtain rot c1 where a: "apply_strategy g rq cs c = (rot, c1)"
    by (cases "apply_strategy g rq cs c")
  have "rot = Some (nev_iter v)" "c1 = c'"
    using assms cc ne a by (cases rot; auto simp: select_def dest: set_nev_iter)+
  then show thesis using that cc ne a by blast
qed

text \<open>
  C14: a successful selection contains exactly the admissible candidates.  For a request that names a
  model these are the bindings of the model's route whose backend exists, streams when the request
  streams, supports tools when the request carries tools, and serves the endpoint in the reported
  mode; the candidate carries that backend's URL and key and the bound backend model.  For a
  request without a model they are the eligible backends the path route binds, or all eligible
  backends when no path route matches.  No strategy adds or drops a candidate.
\<close>

theorem select_exact:
  assumes "select g rq c = (Some (Inr v), c')"
  shows "set (nev_iter v) = {cand. admissible rq cand}"
proof -
  obtain cs t where cs: "collect_candidates rq = Inr (cs, t)" "cs \<noteq> []"
    and a: "apply_strategy g rq cs c = (Some (nev_iter v), c')"
    using assms by (rule select_ok_cases)
  have "set (nev_iter v) = set cs" using strat.order_set [of g rq cs c "nev_iter v"] a cs(2) by simp
  then show ?thesis using collect_candidates_set [OF cs(1)] by auto
qed

text \<open>Two backends bound to one model; the second has weight 3.\<close>

definition example_backends :: "resolved_backend list" where
  "example_backends =
     (let b = hd (cfg_backends example_config) in [b, b\<lparr>be_id := ''c'', be_weight := 3\<rparr>])"

definition example_resolved_route :: resolved_route where
  "example_resolved_route =
     (hd (cfg_routes example_config))\<lparr>rt_backends :=
        [\<lparr>rb_backend_id = ''b'', rb_backend_model = ''m''\<rparr>,
         \<lparr>rb_backend_id = ''c'', rb_backend_model = ''n''\<rparr>]\<rparr>"

definition example_request :: selection_request where
  "example_request =
     \<lparr>rq_backends = example_backends, rq_routes = [example_resolved_route],
      rq_strategy = RoundRobin, rq_path = ''/v1/embeddings'', rq_model = Some ''gpt'',
      rq_stream = True, rq_tools = True, rq_sticky_key = None\<rparr>"

definition example_candidates :: "selected_route list" where
  "example_candidates =
     map2 (\<lambda>b r. build_candidate b (Some example_resolved_route) (Some r) (Some ''gpt'') Native)
       example_backends (rt_backends example_resolved_route)"

lemmas example_request_defs = example_request_def example_backends_def example_resolved_route_def
  example_config_def

lemma example_collect: "collect_candidates example_request = Inr (example_candidates, False)"
proof -
  have "trim_end_matches CHR ''/'' ''/v1/embeddings'' = ''/v1/embeddings''"
    "path_capability_candidates ''/v1/embeddings'' = [''embedding'', ''embeddings'']"
    by code_simp+
  then have "is_eligible example_request b (Some example_resolved_route) = (Some Native, False)"
    if "''all'' \<in> set (be_supports b)" for b
    using that by (simp add: is_eligible_def request_mode_for_route_def request_mode_for_path_def
        supports_candidates_def has_capability_def supports_tools_def has_tool_capability_def
        route_supports_tools_def none_or_def example_request_defs)
  then show ?thesis
    by (simp add: collect_candidates_def find_public_route_def model_step_def consider_backend_def
        find_backend_def example_candidates_def example_request_def example_backends_def
        example_resolved_route_def example_config_def)
qed

lemma example_candidates_shape:
  "example_candidates \<noteq> []" "distinct example_candidates" "length example_candidates = 2"
  "sr_weight (example_candidates ! Suc 0) = 3"
  by (simp_all add: example_candidates_def example_request_defs build_candidate_def)

theorem select_exact_witness:
  "\<exists>v c'. select (\<lambda>_. 0) example_request Map.empty = (Some (Inr v), c') \<and>
     set (nev_iter v) = {cand. admissible example_request cand} \<and>
     set (nev_iter v) = set example_candidates"
proof -
  obtain x xs where cs: "example_candidates = x # xs"
    using example_candidates_shape(1) by (cases example_candidates) simp_all
  have "rq_strategy example_request = RoundRobin" by (simp add: example_request_def)
  then have "\<exists>v c'. select (\<lambda>_. 0) example_request Map.empty = (Some (Inr v), c')"
    by (simp add: select_def example_collect cs apply_strategy_def next_index_def nev_from_vec_def)
  then obtain v c' where s: "select (\<lambda>_. 0) example_request Map.empty = (Some (Inr v), c')" by blast
  then show ?thesis
    using select_exact [OF s] collect_candidates_set [OF example_collect] by blast
qed

text \<open>
  The strategy decides the order only.  Whatever the strategy, the selection is the priority
  order rotated left by some position (so the fallback list after the primary is the rest of the
  same cycle), and it is refused exactly when the priority strategy refuses it, with the same error.
\<close>

theorem strategy_only_rotates:
  "(\<exists>v c'. select g rq c = (Some (Inr v), c') \<and>
      (\<exists>p k. fst (select g (rq\<lparr>rq_strategy := Priority\<rparr>) c) = Some (Inr p) \<and>
         k < nev_len p \<and> nev_iter v = rotate_left k (nev_iter p))) \<or>
   (\<exists>e. select g rq c = (Some (Inl e), c) \<and>
      select g (rq\<lparr>rq_strategy := Priority\<rparr>) c = (Some (Inl e), c)) \<or>
   fst (select g rq c) = None \<and> rq_strategy rq = WeightedRandom"
proof -
  let ?pr = "rq\<lparr>rq_strategy := Priority\<rparr>"
  have el: "is_eligible ?pr = is_eligible rq"
    by (intro ext) (simp add: is_eligible_def cong: option.case_cong)
  have "model_contribution ?pr = model_contribution rq" "path_contribution ?pr = path_contribution rq"
    "model_blocked ?pr = model_blocked rq" "path_blocked ?pr = path_blocked rq"
    by (simp_all add: fun_eq_iff model_contribution_def path_contribution_def model_blocked_def
        path_blocked_def tool_blocked_def el cong: option.case_cong)
  then have same: "collect_candidates ?pr = collect_candidates rq"
    by (simp add: collect_candidates_eq cong: option.case_cong)
  show ?thesis
  proof (cases "collect_candidates rq")
    case (Inl e)
    then show ?thesis by (simp add: select_def same)
  next
    case (Inr ct)
    then obtain cs t where ct: "collect_candidates rq = Inr (cs, t)" by (cases ct) auto
    show ?thesis
    proof (cases cs)
      case Nil
      then show ?thesis using ct by (simp add: select_def same)
    next
      case (Cons x xs)
      have p: "select g ?pr c = (Some (Inr (NonEmptyVec x xs)), c)"
        using ct Cons by (simp add: select_def same apply_strategy_def nev_from_vec_def)
      obtain rot c' where a: "apply_strategy g rq cs c = (rot, c')"
        by (cases "apply_strategy g rq cs c") auto
      show ?thesis
      proof (cases rot)
        case None
        then have "rq_strategy rq = WeightedRandom"
          using a by (auto simp: apply_strategy_def split: routing_strategy.splits prod.splits)
        then show ?thesis using ct Cons a None by (simp add: select_def)
      next
        case (Some ys)
        obtain k where k: "k < length cs" "ys = rotate_left k cs"
          using strat.rotates [of g rq cs c ys] a Some Cons by auto
        then have "ys \<noteq> []" using Cons by simp
        then obtain v where v: "nev_from_vec ys = Some v"
          by (cases ys) (simp_all add: nev_from_vec_def)
        have "select g rq c = (Some (Inr v), c')"
          using ct Cons a Some v by (simp add: select_def)
        moreover have "nev_iter v = rotate_left k (nev_iter (NonEmptyVec x xs))"
          using set_nev_iter [OF v] k(2) Cons by (simp add: nev_iter_def)
        ultimately show ?thesis using p k(1) Cons by (auto simp: nev_len_def)
      qed
    qed
  qed
qed

section \<open>Refusals\<close>

lemma select_panics_only_if_weightless:
  assumes "fst (select g rq c) = None"
  shows "rq_strategy rq = WeightedRandom \<and>
    (\<exists>cs t. collect_candidates rq = Inr (cs, t) \<and> weighted_rotate g cs = None)"
proof -
  obtain ct where ct: "collect_candidates rq = Inr ct"
    using assms by (cases "collect_candidates rq") (simp_all add: select_def)
  obtain cs t where cc: "collect_candidates rq = Inr (cs, t)" using ct by (cases ct) simp
  have ne: "cs \<noteq> []" using assms cc by (intro notI) (simp add: select_def)
  obtain rot c1 where a: "apply_strategy g rq cs c = (rot, c1)"
    by (cases "apply_strategy g rq cs c")
  have "rot = None"
  proof (rule ccontr)
    assume "rot \<noteq> None"
    then obtain ys where ys: "rot = Some ys" by blast
    then have "ys \<noteq> []" using strat.order_not_Nil [of g rq cs c ys] a ne by simp
    then show False using assms cc ne a ys by (cases ys) (simp_all add: select_def nev_from_vec_def)
  qed
  then have "rq_strategy rq = WeightedRandom \<and> weighted_rotate g cs = None"
    using a by (auto simp: apply_strategy_def split: routing_strategy.splits prod.splits)
  then show ?thesis using cc by blast
qed

lemma select_refusal_counters:
  assumes "select g rq c = (Some (Inl e), c')"
  shows "c' = c"
proof -
  have "\<not> (\<exists>cs t. collect_candidates rq = Inr (cs, t) \<and> cs \<noteq> [])"
  proof
    assume "\<exists>cs t. collect_candidates rq = Inr (cs, t) \<and> cs \<noteq> []"
    then obtain cs t where cc: "collect_candidates rq = Inr (cs, t)" "cs \<noteq> []" by blast
    obtain rot c1 where "apply_strategy g rq cs c = (rot, c1)" by (cases "apply_strategy g rq cs c")
    then show False using assms cc
      by (cases rot) (simp_all add: select_def nev_from_vec_def split: list.splits)
  qed
  then show ?thesis using assms
    by (cases "collect_candidates rq") (auto simp: select_def split: if_splits)
qed

text \<open>
  C15: the exact refusals.  A selection is refused with \<open>model_not_found\<close> iff the request names a
  model no public route has; with the tool-calling \<open>400\<close> iff there is no admissible candidate, the
  request carries tools and some bound backend would have served it without them; and with
  \<open>endpoint_unavailable\<close> iff there is no admissible candidate and no such backend.  A refusal leaves
  the round-robin counters untouched.
\<close>

theorem select_error_iff:
  "select g rq c = (Some (Inl e), c') \<longleftrightarrow>
     c' = c \<and>
     (case rq_model rq of
        Some m \<Rightarrow>
          (case find_public_route (rq_routes rq) m of
             None \<Rightarrow> e = model_not_found m
           | Some route \<Rightarrow>
               {cand. admissible rq cand} = {} \<and>
               e = (if rq_tools rq \<and> list_ex (model_blocked rq route) (rt_backends route)
                    then bad_request ''The selected model does not support tool calling.'' (Some ''tools'')
                    else endpoint_unavailable (rq_path rq) (Some m)))
      | None \<Rightarrow>
          {cand. admissible rq cand} = {} \<and>
          e = (if rq_tools rq \<and>
                  list_ex (path_blocked rq (find_path_route (rq_routes rq) (rq_path rq))) (rq_backends rq)
               then bad_request ''The selected model does not support tool calling.'' (Some ''tools'')
               else endpoint_unavailable (rq_path rq) None))"
proof -
  have refused: "select g rq c = (Some (Inl e), c') \<longleftrightarrow>
      c' = c \<and> {cand. admissible rq cand} = {} \<and>
      e = (if rq_tools rq \<and> t
           then bad_request ''The selected model does not support tool calling.'' (Some ''tools'')
           else endpoint_unavailable (rq_path rq) (rq_model rq))"
    if cc: "collect_candidates rq = Inr (cs, t)" for cs t
  proof -
    have "{cand. admissible rq cand} = {} \<longleftrightarrow> cs = []"
      using collect_candidates_set [OF cc] by (cases cs) auto
    moreover have "\<not> (cs \<noteq> [] \<and> select g rq c = (Some (Inl e), c'))"
    proof
      assume h: "cs \<noteq> [] \<and> select g rq c = (Some (Inl e), c')"
      obtain rot c1 where "apply_strategy g rq cs c = (rot, c1)"
        by (cases "apply_strategy g rq cs c")
      then show False using conjunct1 [OF h] conjunct2 [OF h] cc
        by (cases rot) (simp_all add: select_def nev_from_vec_def split: list.splits)
    qed
    ultimately show ?thesis using cc by (auto simp: select_def)
  qed
  show ?thesis
  proof (cases "rq_model rq")
    case None
    then show ?thesis
      by (simp add: refused [OF collect_candidates_eq [of rq, unfolded None option.case Let_def]])
  next
    case (Some m)
    show ?thesis
    proof (cases "find_public_route (rq_routes rq) m")
      case None
      then show ?thesis using Some by (auto simp: select_def collect_candidates_eq)
    next
      case (Some route)
      then have "collect_candidates rq =
          Inr (concat (map (model_contribution rq route) (rt_backends route)),
            list_ex (model_blocked rq route) (rt_backends route))"
        using \<open>rq_model rq = Some m\<close> by (simp add: collect_candidates_eq)
      from refused [OF this] show ?thesis using Some \<open>rq_model rq = Some m\<close> by simp
    qed
  qed
qed

end
