(* ===== verification/Routing_Strategies.thy ===== *)
theory Routing_Strategies
  imports Routing_Correct
begin

text \<open>
  What each strategy promises about the order: the round-robin counter gives every candidate the
  same share, the weighted strategy gives each candidate exactly its weight, the sticky key
  separates the inputs it is built from.
\<close>

section \<open>Round robin\<close>

text \<open>The primary candidates of a sequence of identical requests, and the final counters.\<close>

fun select_many ::
  "(u64 \<Rightarrow> u64) \<Rightarrow> selection_request \<Rightarrow> nat \<Rightarrow> rr_counters \<Rightarrow> selected_route list \<times> rr_counters" where
  "select_many g rq 0 c = ([], c)"
| "select_many g rq (Suc n) c =
     (case select g rq c of
        (Some (Inr v), c') \<Rightarrow>
          (let (vs, c'') = select_many g rq n c' in (nev_head v # vs, c''))
      | (_, c') \<Rightarrow> select_many g rq n c')"

lemma nth_of_window:
  assumes "xs \<noteq> []"
  shows "map (\<lambda>i. xs ! ((k + i) mod length xs)) [0..<length xs] = rotate k xs"
  using assms by (intro nth_equalityI) (simp_all add: nth_rotate)

lemma mset_rotate_any: "mset (rotate k xs) = mset xs"
  using mset_rotate_left [of "k mod length xs" xs] by (simp add: rotate_drop_take rotate_left_def)

lemma mset_of_windows:
  assumes "xs \<noteq> []"
  shows "mset (map (\<lambda>i. xs ! ((k + i) mod length xs)) [0..<q * length xs]) = repeat_mset q (mset xs)"
proof (induction q)
  case 0
  then show ?case by simp
next
  case (Suc q)
  let ?f = "\<lambda>i. xs ! ((k + i) mod length xs)"
  have "[0..<Suc q * length xs] = [0..<q * length xs] @ [q * length xs..<q * length xs + length xs]"
    using upt_add_eq_append [of 0 "q * length xs" "length xs"] by (simp add: add.commute)
  moreover have "?f (q * length xs + i) = ?f i" for i
    by (metis add.left_commute mod_mult_self3)
  then have "map ?f [q * length xs..<q * length xs + length xs] = map ?f [0..<length xs]"
    by (intro nth_equalityI) simp_all
  ultimately have "mset (map ?f [0..<Suc q * length xs])
      = mset (map ?f [0..<q * length xs]) + mset (map ?f [0..<length xs])"
    by (simp del: mset_map)
  also have "\<dots> = repeat_mset q (mset xs) + mset xs"
    by (simp only: Suc.IH nth_of_window [OF assms] mset_rotate_any)
  finally show ?case by simp
qed

lemma round_robin_step:
  assumes "rq_strategy rq = RoundRobin" and "collect_candidates rq = Inr (cs, t)" and "cs \<noteq> []"
    and "or_default (c (or_default (rq_model rq) (rq_path rq))) 0 = n"
  shows "\<exists>v. select g rq c =
      (Some (Inr v), c(or_default (rq_model rq) (rq_path rq) \<mapsto> n + 1)) \<and>
      nev_head v = cs ! (unat n mod length cs)"
proof -
  let ?i = "unat n mod length cs"
  have i: "?i < length cs" using assms(3) by simp
  have "next_index (or_default (rq_model rq) (rq_path rq)) (length cs) c =
      (?i, c(or_default (rq_model rq) (rq_path rq) \<mapsto> n + 1))"
    using assms(3,4) by (simp add: next_index_def or_default_def)
  then have a: "apply_strategy g rq cs c =
      (Some (rotate_left ?i cs), c(or_default (rq_model rq) (rq_path rq) \<mapsto> n + 1))"
    using assms(1) by (simp add: apply_strategy_def)
  have "rotate_left ?i cs \<noteq> []" using assms(3) by simp
  then obtain v where v: "nev_from_vec (rotate_left ?i cs) = Some v"
    by (cases "rotate_left ?i cs") (simp_all add: nev_from_vec_def)
  have "nev_head v = hd (nev_iter v)" by (simp add: nev_iter_def)
  also have "\<dots> = cs ! ?i" using set_nev_iter [OF v] hd_rotate_left [OF i] by simp
  finally show ?thesis using assms(2,3) a v by (simp add: select_def)
qed

lemma round_robin_sequence:
  assumes "rq_strategy rq = RoundRobin" and "collect_candidates rq = Inr (cs, t)" and "cs \<noteq> []"
  shows "or_default (c (or_default (rq_model rq) (rq_path rq))) 0 = n0 \<Longrightarrow>
    unat n0 + n \<le> 2 ^ 64 \<Longrightarrow>
    fst (select_many g rq n c) = map (\<lambda>i. cs ! ((unat n0 + i) mod length cs)) [0..<n] \<and>
    (\<forall>k. k \<noteq> or_default (rq_model rq) (rq_path rq) \<longrightarrow> snd (select_many g rq n c) k = c k)"
proof (induction n arbitrary: c n0)
  case 0
  then show ?case by simp
next
  case (Suc n)
  let ?k = "or_default (rq_model rq) (rq_path rq)"
  obtain v where v: "select g rq c = (Some (Inr v), c(?k \<mapsto> n0 + 1))"
    and h: "nev_head v = cs ! (unat n0 mod length cs)"
    using round_robin_step [OF assms, of c n0 g] Suc.prems(1) by blast
  show ?case
  proof (cases n)
    case 0
    then show ?thesis using v h by simp
  next
    case (Suc m)
    then have "unat n0 + 1 < 2 ^ 64" using Suc.prems(2) by simp
    then have u: "unat (n0 + 1) = unat n0 + 1" by (simp add: unat_word_ariths)
    have ih: "fst (select_many g rq n (c(?k \<mapsto> n0 + 1))) =
          map (\<lambda>i. cs ! ((unat (n0 + 1) + i) mod length cs)) [0..<n] \<and>
        (\<forall>k. k \<noteq> ?k \<longrightarrow> snd (select_many g rq n (c(?k \<mapsto> n0 + 1))) k = (c(?k \<mapsto> n0 + 1)) k)"
      using Suc.prems(2) u by (intro Suc.IH) (simp_all add: or_default_def)
    have "map (\<lambda>i. cs ! ((unat n0 + i) mod length cs)) [0..<Suc n] =
        cs ! (unat n0 mod length cs) # map (\<lambda>i. cs ! ((unat n0 + 1 + i) mod length cs)) [0..<n]"
      by (simp add: upt_conv_Cons map_Suc_upt [symmetric] del: upt_Suc)
    then show ?thesis using v h ih u by (simp add: case_prod_beta del: upt_Suc)
  qed
qed

text \<open>
  C16: round robin is fair.  Over \<open>q\<close> full rounds of identical requests every eligible candidate is
  the primary exactly \<open>q\<close> times per occurrence, wherever the counter starts, as long as the
  64-bit counter does not wrap within the window; the counters of other models and paths are not
  touched.
\<close>

theorem round_robin_fair:
  assumes "rq_strategy rq = RoundRobin" and "collect_candidates rq = Inr (cs, t)" and "cs \<noteq> []"
    and "unat (or_default (c (or_default (rq_model rq) (rq_path rq))) 0) + q * length cs \<le> 2 ^ 64"
  shows "mset (fst (select_many g rq (q * length cs) c)) = repeat_mset q (mset cs) \<and>
    (\<forall>k. k \<noteq> or_default (rq_model rq) (rq_path rq) \<longrightarrow>
       snd (select_many g rq (q * length cs) c) k = c k)"
  using round_robin_sequence [OF assms(1-3), of c _ "q * length cs" g, OF refl assms(4)]
    mset_of_windows [OF assms(3)]
  by simp

theorem round_robin_fair_witness:
  "mset (fst (select_many (\<lambda>_. 0) example_request (3 * length example_candidates) Map.empty))
     = repeat_mset 3 (mset example_candidates) \<and> length example_candidates = 2"
proof -
  have "rq_strategy example_request = RoundRobin" by (simp add: example_request_def)
  then show ?thesis
    using round_robin_fair [OF _ example_collect, of "Map.empty" 3 "\<lambda>_. 0"] example_candidates_shape
    by (simp add: or_default_def)
qed

section \<open>Weighted random\<close>

text \<open>The position picked by \<open>p\<close> is the one whose cumulative weight interval contains \<open>p\<close>.\<close>

definition weight_before :: "u32 list \<Rightarrow> nat \<Rightarrow> nat" where
  "weight_before ws j = sum_list (map unat (take j ws))"

lemma weight_before_Suc: "j < length ws \<Longrightarrow> weight_before ws (Suc j) = weight_before ws j + unat (ws ! j)"
  by (simp add: weight_before_def take_Suc_conv_app_nth)

lemma weight_before_Cons: "weight_before (w # ws) (Suc j) = unat w + weight_before ws j"
  by (simp add: weight_before_def)

lemma weight_before_le: "weight_before ws j \<le> sum_list (map unat ws)"
proof -
  have "map unat ws = map unat (take j ws) @ map unat (drop j ws)"
    by (metis append_take_drop_id map_append)
  then show ?thesis by (simp add: weight_before_def)
qed

lemma unat_add_weight:
  fixes c :: u64 and w :: u32
  assumes "unat c + unat w < 2 ^ 64"
  shows "unat (c + ucast w) = unat c + unat w"
proof -
  have "unat w < 2 ^ 64" using assms by simp
  then have "unat (ucast w :: u64) = unat w" by (simp add: unsigned_ucast_eq take_bit_nat_eq_self)
  then show ?thesis using assms by (simp add: unat_word_ariths)
qed

lemma weighted_position_iff:
  "unat c + sum_list (map unat ws) < 2 ^ 64 \<Longrightarrow> unat c \<le> unat p \<Longrightarrow>
     weighted_position p c i ws = Some j \<longleftrightarrow>
     i \<le> j \<and> j < i + length ws \<and> unat c + weight_before ws (j - i) \<le> unat p \<and>
     unat p < unat c + weight_before ws (Suc (j - i))"
proof (induction ws arbitrary: c i)
  case Nil
  then show ?case by simp
next
  case (Cons w ws)
  have u: "unat (c + ucast w) = unat c + unat w"
    using Cons.prems(1) by (intro unat_add_weight) simp
  show ?case
  proof (cases "p < c + ucast w")
    case True
    then have "unat p < unat c + unat w" using u by (simp add: word_less_nat_alt)
    then show ?thesis using True Cons.prems(2)
      by (cases "j - i") (auto simp: weight_before_def)
  next
    case False
    then have ge: "unat c + unat w \<le> unat p" using u by (simp add: word_less_nat_alt)
    have "weighted_position p (c + ucast w) (Suc i) ws = Some j \<longleftrightarrow>
        Suc i \<le> j \<and> j < Suc i + length ws \<and>
        unat (c + ucast w) + weight_before ws (j - Suc i) \<le> unat p \<and>
        unat p < unat (c + ucast w) + weight_before ws (Suc (j - Suc i))"
      using Cons.prems(1) ge u by (intro Cons.IH) simp_all
    then have *: "weighted_position p c i (w # ws) = Some j \<longleftrightarrow>
        Suc i \<le> j \<and> j < Suc i + length ws \<and>
        unat c + (unat w + weight_before ws (j - Suc i)) \<le> unat p \<and>
        unat p < unat c + (unat w + weight_before ws (Suc (j - Suc i)))"
      using False u by (simp add: add.assoc)
    show ?thesis
    proof (cases "i < j")
      case True
      then have "j - i = Suc (j - Suc i)" by simp
      then show ?thesis using * True by (simp add: weight_before_Cons)
    next
      case False
      then show ?thesis using * ge by (auto simp: weight_before_def)
    qed
  qed
qed

lemma card_word_interval:
  fixes a b :: nat
  assumes "b \<le> 2 ^ 64"
  shows "card {p :: u64. a \<le> unat p \<and> unat p < b} = b - a"
proof -
  have "unat ` {p :: u64. a \<le> unat p \<and> unat p < b} = {a..<b}"
  proof (intro equalityI subsetI)
    fix n assume n: "n \<in> {a..<b}"
    then have "unat (of_nat n :: u64) = n" 
      using assms by (simp add: unsigned_of_nat take_bit_nat_eq_self)
    then show "n \<in> unat ` {p :: u64. a \<le> unat p \<and> unat p < b}"
      using n by (intro image_eqI [of _ _ "of_nat n"]) simp_all
  qed auto
  moreover have "inj_on unat {p :: u64. a \<le> unat p \<and> unat p < b}"
    by (auto intro: inj_onI unsigned_word_eqI)
  ultimately show ?thesis using card_image by fastforce
qed

lemma weights_total:
  assumes "length cs < 2 ^ 32"
  shows "sum_list (map (\<lambda>c. unat (sr_weight c)) cs) < 2 ^ 64"
    and "unat (sum_list (map (\<lambda>c. ucast (sr_weight c)) cs) :: u64)
      = sum_list (map (\<lambda>c. unat (sr_weight c)) cs)"
proof -
  have b: "sum_list (map (\<lambda>c. unat (sr_weight c)) xs) \<le> length xs * 2 ^ 32" for xs
  proof (induction xs)
    case (Cons x xs)
    have "unat (sr_weight x) < 2 ^ 32" using unsigned_less [of "sr_weight x"] by simp
    then show ?case using Cons by simp
  qed simp
  have "length cs * 2 ^ 32 < 2 ^ 32 * (2 ^ 32 :: nat)"
    using assms by (intro mult_strict_right_mono) simp_all
  then have lt: "sum_list (map (\<lambda>c. unat (sr_weight c)) cs) < 2 ^ 64" using b [of cs] by simp
  then show "sum_list (map (\<lambda>c. unat (sr_weight c)) cs) < 2 ^ 64" .
  have "sum_list (map (\<lambda>c. unat (sr_weight c)) xs) < 2 ^ 64 \<Longrightarrow>
      unat (sum_list (map (\<lambda>c. ucast (sr_weight c)) xs) :: u64)
        = sum_list (map (\<lambda>c. unat (sr_weight c)) xs)" for xs
  proof (induction xs)
    case (Cons x xs)
    then have "unat (sum_list (map (\<lambda>c. ucast (sr_weight c)) xs) + ucast (sr_weight x) :: u64)
        = unat (sum_list (map (\<lambda>c. ucast (sr_weight c)) xs) :: u64) + unat (sr_weight x)"
      by (intro unat_add_weight) simp
    then show ?case using Cons by (simp add: add.commute)
  qed simp
  then show "unat (sum_list (map (\<lambda>c. ucast (sr_weight c)) cs) :: u64)
      = sum_list (map (\<lambda>c. unat (sr_weight c)) cs)" using lt by blast
qed

text \<open>The draw \<open>p\<close> of a weighted selection makes candidate \<open>j\<close> the primary iff \<open>p\<close> is in its interval.\<close>

lemma weighted_rotate_primary:
  assumes "distinct cs" and "1 < length cs" and "length cs < 2 ^ 32" and "j < length cs"
    and "p < sum_list (map (\<lambda>c. ucast (sr_weight c)) cs)"
  shows "map_option hd (weighted_rotate (\<lambda>_. p) cs) = Some (cs ! j) \<longleftrightarrow>
    weight_before (map sr_weight cs) j \<le> unat p \<and>
    unat p < weight_before (map sr_weight cs) (Suc j)"
proof -
  let ?ws = "map sr_weight cs"
  have tot: "unat p < sum_list (map unat ?ws)"
    using assms(5) weights_total(2) [OF assms(3)] by (simp add: word_less_nat_alt comp_def)
  have iff: "weighted_position p 0 0 ?ws = Some i \<longleftrightarrow>
      i < length cs \<and> weight_before ?ws i \<le> unat p \<and> unat p < weight_before ?ws (Suc i)" for i
    using weighted_position_iff [of 0 ?ws p 0 i] weights_total(1) [OF assms(3)] by (simp add: comp_def)
  have "\<exists>i. weighted_position p 0 0 ?ws = Some i"
  proof -
    let ?P = "\<lambda>n. unat p < weight_before ?ws n"
    have P: "?P (length cs)" using tot by (simp add: weight_before_def)
    define n where "n = (LEAST n. ?P n)"
    have n: "?P n" "n \<le> length cs" unfolding n_def using P by (auto intro: LeastI Least_le)
    then obtain m where m: "n = Suc m" by (cases n) (simp_all add: weight_before_def)
    then have "\<not> ?P m" unfolding n_def using not_less_Least [of m ?P] by simp
    then have "weighted_position p 0 0 ?ws = Some m" using iff n m by simp
    then show ?thesis by blast
  qed
  then obtain i where i: "weighted_position p 0 0 ?ws = Some i" by blast
  then have il: "i < length cs" using iff by blast
  have "0 < sum_list (map (\<lambda>c. ucast (sr_weight c)) cs :: u64 list)"
    using assms(5) by (metis word_gt_0 not_less_zero word_le_0_iff leD leI word_zero_le)
  then have "weighted_rotate (\<lambda>_. p) cs = Some (rotate_left i cs)"
    using i assms(2) by (simp add: weighted_rotate_def)
  then have "map_option hd (weighted_rotate (\<lambda>_. p) cs) = Some (cs ! j) \<longleftrightarrow> i = j"
    using assms(1,4) il by (simp add: hd_rotate_left nth_eq_iff_index_eq)
  also have "\<dots> \<longleftrightarrow> weighted_position p 0 0 ?ws = Some j" using i by simp
  finally show ?thesis using iff [of j] assms(4) by simp
qed

text \<open>
  C17: the weighted strategy draws each candidate with exactly its configured weight.  Among the
  \<open>total\<close> equally likely outcomes of \<open>gen_range(0..total)\<close>, precisely \<open>weight(j)\<close> make candidate \<open>j\<close>
  the primary, and the total does not overflow the 64-bit accumulator.
\<close>

theorem weighted_rotate_distribution:
  assumes "distinct cs" and "1 < length cs" and "length cs < 2 ^ 32" and "j < length cs"
  shows "card {p. p < sum_list (map (\<lambda>c. ucast (sr_weight c)) cs) \<and>
      map_option hd (weighted_rotate (\<lambda>_. p) cs) = Some (cs ! j)} = unat (sr_weight (cs ! j)) \<and>
    unat (sum_list (map (\<lambda>c. ucast (sr_weight c)) cs) :: u64) =
      sum_list (map (\<lambda>c. unat (sr_weight c)) cs)"
proof -
  let ?ws = "map sr_weight cs" and ?t = "sum_list (map (\<lambda>c. ucast (sr_weight c)) cs) :: u64"
  have t: "unat ?t = sum_list (map (\<lambda>c. unat (sr_weight c)) cs)" by (rule weights_total(2) [OF assms(3)])
  have le: "weight_before ?ws (Suc j) \<le> unat ?t"
    using weight_before_le [of ?ws "Suc j"] t by (simp add: comp_def)
  have "{p. p < ?t \<and> map_option hd (weighted_rotate (\<lambda>_. p) cs) = Some (cs ! j)} =
      {p. weight_before ?ws j \<le> unat p \<and> unat p < weight_before ?ws (Suc j)}"
    using weighted_rotate_primary [OF assms] le by (auto simp: word_less_nat_alt)
  moreover have "weight_before ?ws (Suc j) \<le> 2 ^ 64"
    using le t weights_total(1) [OF assms(3)] by simp
  ultimately have "card {p. p < ?t \<and> map_option hd (weighted_rotate (\<lambda>_. p) cs) = Some (cs ! j)}
      = unat (sr_weight (cs ! j))"
    using assms(4) by (simp add: card_word_interval weight_before_Suc)
  then show ?thesis using t by blast
qed

theorem weighted_rotate_distribution_witness:
  "card {p. p < sum_list (map (\<lambda>c. ucast (sr_weight c)) example_candidates) \<and>
     map_option hd (weighted_rotate (\<lambda>_. p) example_candidates) = Some (example_candidates ! 1)} = 3"
  using weighted_rotate_distribution [of example_candidates 1] example_candidates_shape by simp

section \<open>Sticky keys\<close>

lemma nul_terminated_inj:
  "z \<notin> set a \<Longrightarrow> z \<notin> set b \<Longrightarrow> a @ z # r = b @ z # r' \<longleftrightarrow> a = b \<and> r = r'"
proof (induction a arbitrary: b)
  case Nil
  then show ?case by (cases b) auto
next
  case (Cons x a)
  then show ?case by (cases b) auto
qed

text \<open>
  The sticky key separates requests.  When identity, path and model contain no NUL (header and
  configuration values cannot), two requests share a sticky key only if they agree on identity,
  path, model and prompt cache key (an absent value counting as the empty one); the position chosen
  for a key is a valid index.
\<close>

theorem sticky_routing_key_inj:
  assumes "CHR 0x00 \<notin> set ident \<union> set path \<union> set (or_default model [])"
    and "CHR 0x00 \<notin> set ident' \<union> set path' \<union> set (or_default model' [])"
    and "0 < n"
  shows "(sticky_routing_key ident path model cache_key = sticky_routing_key ident' path' model' cache_key'
     \<longleftrightarrow> ident = ident' \<and> path = path' \<and> or_default model [] = or_default model' [] \<and>
       or_default cache_key [] = or_default cache_key' []) \<and>
    sticky_index (sticky_routing_key ident path model cache_key) n < n"
  using assms by (auto simp: sticky_routing_key_def nul_terminated_inj sticky_index_bound)

theorem sticky_routing_key_inj_witness:
  "sticky_routing_key ''alice'' ''/v1/responses'' (Some ''gpt'') None
     \<noteq> sticky_routing_key ''alice'' ''/v1/responses'' None (Some ''gpt'') \<and>
   sticky_index (sticky_routing_key ''alice'' ''/v1/responses'' (Some ''gpt'') None) 3 < 3"
  using sticky_routing_key_inj [of "''alice''" "''/v1/responses''" "Some ''gpt''"
      "''alice''" "''/v1/responses''" None 3 None "Some ''gpt''"]
  by (simp add: or_default_def)

section \<open>Compatibility modes\<close>

text \<open>The marker a translating mode needs, and the list it is looked up in.\<close>

definition mode_marker :: "request_mode \<Rightarrow> string option" where
  "mode_marker mode =
     (case mode of
        ResponsesViaChatCompletions \<Rightarrow> Some RESPONSES_VIA_CHAT_COMPLETIONS
      | ChatCompletionsViaResponses \<Rightarrow> Some CHAT_COMPLETIONS_VIA_RESPONSES
      | ChatCompletionsViaMessages \<Rightarrow> Some CHAT_COMPLETIONS_VIA_MESSAGES
      | _ \<Rightarrow> None)"

definition marker_scope :: "string list \<Rightarrow> string list option \<Rightarrow> string list" where
  "marker_scope supports expose =
     (case expose of Some e \<Rightarrow> if e = [] then supports else e | None \<Rightarrow> supports)"

lemma route_supports_compat_marker_iff:
  "route_supports_compat_marker supports expose marker \<longleftrightarrow> marker \<in> set (marker_scope supports expose)"
  by (simp add: route_supports_compat_marker_def marker_scope_def split: option.splits)

lemma upstream_paths_served:
  "request_mode_for_path CHAT_COMPLETIONS_PATH pc sp None =
     (if supports_chat_compat sp then Some Native
      else if supports_responses sp \<and> CHAT_COMPLETIONS_VIA_RESPONSES \<in> set sp then Some ChatCompletionsViaResponses
      else if supports_messages sp \<and> CHAT_COMPLETIONS_VIA_MESSAGES \<in> set sp then Some ChatCompletionsViaMessages
      else None)"
  "request_mode_for_path MESSAGES_PATH pc sp None =
     (if supports_messages sp then Some AnthropicMessagesNative else None)"
  "supports_responses sp \<Longrightarrow> request_mode_for_path RESPONSES_PATH pc sp None = Some Native"
proof -
  have "trim_end_matches CHR ''/'' CHAT_COMPLETIONS_PATH = ''/v1/chat/completions''"
    "trim_end_matches CHR ''/'' MESSAGES_PATH = ''/v1/messages''"
    "trim_end_matches CHR ''/'' RESPONSES_PATH = ''/v1/responses''" by code_simp+
  then show
    "request_mode_for_path CHAT_COMPLETIONS_PATH pc sp None =
     (if supports_chat_compat sp then Some Native
      else if supports_responses sp \<and> CHAT_COMPLETIONS_VIA_RESPONSES \<in> set sp then Some ChatCompletionsViaResponses
      else if supports_messages sp \<and> CHAT_COMPLETIONS_VIA_MESSAGES \<in> set sp then Some ChatCompletionsViaMessages
      else None)"
    "request_mode_for_path MESSAGES_PATH pc sp None =
     (if supports_messages sp then Some AnthropicMessagesNative else None)"
    "supports_responses sp \<Longrightarrow> request_mode_for_path RESPONSES_PATH pc sp None = Some Native"
    by (simp_all add: request_mode_for_path_def request_mode_for_chat_completions_def
        request_mode_for_messages_def request_mode_for_responses_def route_supports_compat_marker_def
        route_supports_responses_def route_supports_chat_compat_def route_supports_messages_def none_or_def)
qed

lemma upstream_path_for_mode_cases:
  "endpoint_kind path = EkResponses \<Longrightarrow>
     upstream_path_for_mode path ResponsesViaChatCompletions = CHAT_COMPLETIONS_PATH"
  "endpoint_kind path = EkChatCompletions \<Longrightarrow>
     upstream_path_for_mode path ChatCompletionsViaResponses = RESPONSES_PATH"
  "endpoint_kind path = EkChatCompletions \<Longrightarrow>
     upstream_path_for_mode path ChatCompletionsViaMessages = MESSAGES_PATH"
  by (simp_all add: upstream_path_for_mode_def kind_defs)



text \<open>
  A defect at the singular alias.  With a trailing slash, \<open>/v1/chat/completion/\<close> is routed like
  \<open>/v1/chat/completions\<close>, so a translating mode is chosen for it, but neither the alias rewrite nor the
  mode's path translation recognises it: the request keeps its own path upstream.
\<close>

theorem alias_trailing_slash_untranslated:
  "request_mode_for_path ''/v1/chat/completion/'' pc [''responses'', ''chat_completions_via_responses''] None
     = Some ChatCompletionsViaResponses \<and>
   upstream_path_for_mode (upstream_path ''/v1/chat/completion/'') ChatCompletionsViaResponses
     = ''/v1/chat/completion/''"
proof -
  have "trim_end_matches CHR ''/'' ''/v1/chat/completion/'' = ''/v1/chat/completion''"
    "request_mode_for_chat_completions [''responses'', ''chat_completions_via_responses''] None
       = Some ChatCompletionsViaResponses"
    "upstream_path_for_mode (upstream_path ''/v1/chat/completion/'') ChatCompletionsViaResponses
     = ''/v1/chat/completion/''" by code_simp+
  then show ?thesis by (simp add: request_mode_for_path_def)
qed

end
