(* ===== verification/Request_Policy.thy ===== *)
theory Request_Policy
  imports Config_Types Endpoints
begin

text \<open>
  The parts of \<open>onair-core/src/openai/request.rs\<close> that every rewriting of a JSON request shares:
  the rewrite error, the policies of a route, the merge of \<open>extra_body\<close> and the field policies.
\<close>

unbundle bit_operations_syntax

section \<open>Errors and policies\<close>

record rewrite_error =
  rw_message :: string
  rw_param :: "string option"

definition rewrite_error_new :: "string \<Rightarrow> string option \<Rightarrow> rewrite_error" where
  "rewrite_error_new message param = \<lparr>rw_message = message, rw_param = param\<rparr>"

datatype rewrite_param =
    PInput | PModel | PMessages | PTools | PToolChoice | PPreviousResponseId
  | PN | PLogprobs | PTopLogprobs | PStream | PFunctionCallId

fun rewrite_param_as_str :: "rewrite_param \<Rightarrow> string" where
  "rewrite_param_as_str PInput = ''input''"
| "rewrite_param_as_str PModel = ''model''"
| "rewrite_param_as_str PMessages = ''messages''"
| "rewrite_param_as_str PTools = ''tools''"
| "rewrite_param_as_str PToolChoice = ''tool_choice''"
| "rewrite_param_as_str PPreviousResponseId = ''previous_response_id''"
| "rewrite_param_as_str PN = ''n''"
| "rewrite_param_as_str PLogprobs = ''logprobs''"
| "rewrite_param_as_str PTopLogprobs = ''top_logprobs''"
| "rewrite_param_as_str PStream = ''stream''"
| "rewrite_param_as_str PFunctionCallId = ''function_call_id''"

definition with_param :: "string \<Rightarrow> rewrite_param \<Rightarrow> rewrite_error" where
  "with_param message param = rewrite_error_new message (Some (rewrite_param_as_str param))"

record rewrite_policies =
  pol_tool_schema_mode :: tool_schema_mode
  pol_responses_store :: responses_store_policy
  pol_responses_max_output_tokens :: responses_max_output_tokens_policy
  pol_chat_stream_usage :: chat_stream_usage_policy
  pol_anthropic_max_tokens :: "u32 option"

section \<open>Content types\<close>

definition is_event_stream_content_type :: "string option \<Rightarrow> bool" where
  "is_event_stream_content_type content_type =
     (case content_type of
        None \<Rightarrow> False | Some v \<Rightarrow> str_contains ''text/event-stream'' (to_ascii_lowercase v))"

definition is_json_content_type :: "string option \<Rightarrow> bool" where
  "is_json_content_type content_type =
     (case content_type of
        None \<Rightarrow> False
      | Some v \<Rightarrow> let lowered = to_ascii_lowercase v
                  in str_contains ''application/json'' lowered \<or> str_contains ''+json'' lowered)"

definition looks_like_json :: "string \<Rightarrow> bool" where
  "looks_like_json body =
     (case find (\<lambda>b. \<not> is_ascii_whitespace b) body of
        None \<Rightarrow> False | Some b \<Rightarrow> b = CHR 0x7B \<or> b = CHR 0x5B)"

definition should_parse_json :: "string option \<Rightarrow> string \<Rightarrow> bool" where
  "should_parse_json content_type body \<longleftrightarrow> is_json_content_type content_type \<or> looks_like_json body"

definition string_field :: "json_map \<Rightarrow> string \<Rightarrow> string option" where
  "string_field m field = obj_str m field"

section \<open>Extra body\<close>

definition PROTECTED_UPSTREAM_KEYS :: "string list" where
  "PROTECTED_UPSTREAM_KEYS =
     [''model'', ''stream'', ''messages'', ''input'', ''tools'', ''tool_choice'', ''store'',
      ''max_output_tokens'', ''max_tokens'', ''max_completion_tokens'', ''stream_options'']"

text \<open>\<open>Number::from_f64\<close> on a bit pattern: \<open>None\<close> for infinities and NaN.\<close>

definition number_from_f64 :: "u64 \<Rightarrow> number option" where
  "number_from_f64 bits = (if drop_bit 52 bits AND 0x7FF = 0x7FF then None else Some (Float bits))"

text \<open>\<open>Number::from(i64)\<close>.\<close>

definition number_from_i64 :: "int \<Rightarrow> number" where
  "number_from_i64 i = (if 0 \<le> i then PosInt (of_int i) else NegInt i)"

fun toml_value_to_json_value :: "toml \<Rightarrow> json" where
  "toml_value_to_json_value (TString s) = JString s"
| "toml_value_to_json_value (TInteger i) = JNumber (number_from_i64 i)"
| "toml_value_to_json_value (TFloat f) =
     (case number_from_f64 f of Some n \<Rightarrow> JNumber n | None \<Rightarrow> JNull)"
| "toml_value_to_json_value (TBoolean b) = JBool b"
| "toml_value_to_json_value (TDatetime d) = JString d"
| "toml_value_to_json_value (TArray xs) = JArray (map toml_value_to_json_value xs)"
| "toml_value_to_json_value (TTable t) =
     jobj (map (\<lambda>e. (fst e, toml_value_to_json_value (snd e))) t)"

definition apply_extra_body :: "json_map \<Rightarrow> toml_map \<Rightarrow> json_map" where
  "apply_extra_body m extra_body =
     fold (\<lambda>(key, toml_value) m.
         if key \<in> set PROTECTED_UPSTREAM_KEYS then m
         else bt_insert key (toml_value_to_json_value toml_value) m)
       extra_body m"

section \<open>Field policies\<close>

definition rename_max_output_tokens :: "string \<Rightarrow> json_map \<Rightarrow> json_map" where
  "rename_max_output_tokens target m =
     (case bt_get m ''max_output_tokens'' of
        None \<Rightarrow> m
      | Some v \<Rightarrow> bt_or_insert target v (bt_remove ''max_output_tokens'' m))"

definition rewrite_native_responses_max_output_tokens ::
  "json_map \<Rightarrow> responses_max_output_tokens_policy \<Rightarrow> json_map" where
  "rewrite_native_responses_max_output_tokens m policy =
     (case policy of
        MotPreserve \<Rightarrow> m
      | MotDrop \<Rightarrow> bt_remove ''max_output_tokens'' m
      | RenameToMaxTokens \<Rightarrow> rename_max_output_tokens ''max_tokens'' m
      | RenameToMaxCompletionTokens \<Rightarrow> rename_max_output_tokens ''max_completion_tokens'' m)"

definition apply_chat_stream_usage_policy :: "json_map \<Rightarrow> chat_stream_usage_policy \<Rightarrow> json_map" where
  "apply_chat_stream_usage_policy m policy =
     (if policy = UsagePreserve then m
      else if Option.bind (bt_get m ''stream'') as_bool \<noteq> Some True then m
      else case bt_get m ''stream_options'' of
          Some (JObject options) \<Rightarrow>
            bt_insert ''stream_options''
              (JObject (if policy = UsageInsert then bt_or_insert ''include_usage'' (JBool True) options
                        else bt_insert ''include_usage'' (JBool True) options)) m
        | Some _ \<Rightarrow>
            (if policy = UsageForceTrue
             then bt_insert ''stream_options'' (jobj [(''include_usage'', JBool True)]) m else m)
        | None \<Rightarrow> bt_insert ''stream_options'' (jobj [(''include_usage'', JBool True)]) m)"

section \<open>Properties\<close>

lemma toml_value_to_json_value_wf: "json_wf (toml_value_to_json_value v)"
proof (induction v rule: toml_value_to_json_value.induct)
  case (3 f)
  then show ?case by (simp split: option.splits)
next
  case (7 t)
  have "json_wf (jobj (map (\<lambda>e. (fst e, toml_value_to_json_value (snd e))) t))"
    using 7 by (intro json_wf_jobj) auto
  then show ?case by simp
qed auto

lemma apply_extra_body_wf:
  "json_wf (JObject m) \<Longrightarrow> json_wf (JObject (apply_extra_body m extra))"
proof (induction extra arbitrary: m)
  case Nil
  then show ?case by (simp add: apply_extra_body_def)
next
  case (Cons e extra)
  obtain k v where e: "e = (k, v)" by (cases e)
  have "json_wf (JObject (bt_insert k (toml_value_to_json_value v) m))"
    by (rule json_wf_insert [OF Cons.prems toml_value_to_json_value_wf])
  then show ?case
    using Cons.IH [of m] Cons.IH [of "bt_insert k (toml_value_to_json_value v) m"] Cons.prems e
    by (simp only: apply_extra_body_def fold_simps comp_def prod.case) (simp split: if_splits)
qed

lemma apply_extra_body_protected:
  "k \<in> set PROTECTED_UPSTREAM_KEYS \<Longrightarrow> bt_get (apply_extra_body m extra) k = bt_get m k"
  unfolding apply_extra_body_def by (rule bt.get_fold_guarded_protected)

lemma keys_apply_extra_body:
  "fst ` set (apply_extra_body m extra) \<subseteq> fst ` set m \<union> fst ` set extra"
  unfolding apply_extra_body_def
proof (induction extra arbitrary: m)
  case (Cons e extra)
  obtain k v where e: "e = (k, v)" by (cases e)
  show ?case
    using Cons.IH [of m] Cons.IH [of "bt_insert k (toml_value_to_json_value v) m"] e
    by (auto simp: keys_bt_insert split: if_splits)
qed simp

lemma keys_apply_chat_stream_usage_policy:
  "fst ` set (apply_chat_stream_usage_policy m policy) \<subseteq> insert ''stream_options'' (fst ` set m)"
  by (simp add: apply_chat_stream_usage_policy_def keys_bt_insert subset_insertI
      split: option.splits json.splits)

lemma keys_rewrite_native_max_output_tokens:
  "fst ` set (rewrite_native_responses_max_output_tokens m policy)
     \<subseteq> {''max_tokens'', ''max_completion_tokens''} \<union> fst ` set m"
  by (auto simp: rewrite_native_responses_max_output_tokens_def rename_max_output_tokens_def
      bt_or_insert_def keys_bt_insert bt_remove_def split: responses_max_output_tokens_policy.splits option.splits
      if_splits dest!: mem_bt_insert)

lemma bt_get_chat_stream_usage_policy:
  "k \<noteq> ''stream_options'' \<Longrightarrow> bt_get (apply_chat_stream_usage_policy m policy) k = bt_get m k"
  by (simp add: apply_chat_stream_usage_policy_def bt_get_insert split: option.splits json.splits)

lemma bt_get_native_max_output_tokens:
  "k \<notin> {''max_output_tokens'', ''max_tokens'', ''max_completion_tokens''} \<Longrightarrow>
     bt_get (rewrite_native_responses_max_output_tokens m policy) k = bt_get m k"
  by (simp add: rewrite_native_responses_max_output_tokens_def rename_max_output_tokens_def
      bt_get_or_insert bt_get_remove split: responses_max_output_tokens_policy.splits option.splits)

text \<open>
  \<open>extra_body\<close> cannot override what the proxy owns, and is otherwise merged exactly.  Every
  protected key keeps the value (or absence) it had; a key of the extra body that is not protected
  has the converted value; every other key is untouched; the object stays a well-formed object.
\<close>

theorem apply_extra_body_exact:
  assumes "distinct (map fst extra)" and "json_wf (JObject m)"
  shows "bt_get (apply_extra_body m extra) k =
      (if k \<in> set PROTECTED_UPSTREAM_KEYS then bt_get m k
       else case bt_get extra k of
           Some v \<Rightarrow> Some (toml_value_to_json_value v) | None \<Rightarrow> bt_get m k) \<and>
    json_wf (JObject (apply_extra_body m extra))"
proof -
  have wf: "json_wf (JObject (apply_extra_body m extra))" by (rule apply_extra_body_wf [OF assms(2)])
  have protected: "bt_get (apply_extra_body m extra) k = bt_get m k" if "k \<in> set PROTECTED_UPSTREAM_KEYS"
    using that by (rule apply_extra_body_protected)
  have absent: "bt_get (apply_extra_body m extra) k = bt_get m k" if "k \<notin> fst ` set extra"
    using that unfolding apply_extra_body_def by (rule bt.get_fold_guarded_absent)
  have free: "bt_get (apply_extra_body m extra) k = Some (toml_value_to_json_value v)"
    if "k \<notin> set PROTECTED_UPSTREAM_KEYS" "(k, v) \<in> set extra" for v
    using that assms(1) unfolding apply_extra_body_def by (rule bt.get_fold_guarded_free)
  show ?thesis
  proof (cases "bt_get extra k")
    case None
    then have "k \<notin> fst ` set extra" by (simp add: bt_get_def map_of_eq_None_iff)
    then show ?thesis using None wf absent by simp
  next
    case (Some v)
    then have "(k, v) \<in> set extra" by (simp add: bt_get_def map_of_SomeD)
    then show ?thesis using Some wf protected free by simp
  qed
qed

theorem apply_extra_body_exact_witness:
  "bt_get (apply_extra_body [(''model'', JString ''m'')]
      [(''model'', TString ''x''), (''top_k'', TInteger 4)]) ''model'' = Some (JString ''m'') \<and>
   bt_get (apply_extra_body [(''model'', JString ''m'')]
      [(''model'', TString ''x''), (''top_k'', TInteger 4)]) ''top_k'' = Some (JNumber (PosInt 4))"
proof -
  have h: "distinct (map fst [(''model'', TString ''x''), (''top_k'', TInteger 4)])"
    "json_wf (JObject [(''model'', JString ''m'')])"
    by (simp_all add: bt_wf_def)
  show ?thesis
    using apply_extra_body_exact [OF h, of "''model''"] apply_extra_body_exact [OF h, of "''top_k''"]
    by (simp add: PROTECTED_UPSTREAM_KEYS_def bt_get_def number_from_i64_def)
qed

text \<open>The \<open>stream_options.include_usage\<close> field of a request.\<close>

definition usage_requested :: "json_map \<Rightarrow> json option" where
  "usage_requested m = Option.bind (bt_get m ''stream_options'') (\<lambda>v. jget v ''include_usage'')"

lemma bt_insert_twice: "bt_insert k v (bt_insert k v m) = bt_insert k v m"
  by (induction m) auto

lemma stream_flag: "Option.bind (bt_get m ''stream'') as_bool = Some True \<longleftrightarrow> bt_get m ''stream'' = Some (JBool True)"
  by (cases "bt_get m ''stream''") (auto elim: as_bool.elims)

text \<open>
  The stream-usage policy on a streaming request.  With \<open>force_true\<close> the request asks for usage
  afterwards, whatever it said before; with \<open>insert\<close> it does unless the client decided the field or
  sent \<open>stream_options\<close> that are not an object; no other field changes; applying a policy twice is
  applying it once.
\<close>

theorem chat_stream_usage_policy_spec:
  assumes "bt_get m ''stream'' = Some (JBool True)"
  shows "usage_requested (apply_chat_stream_usage_policy m UsageForceTrue) = Some (JBool True) \<and>
    usage_requested (apply_chat_stream_usage_policy m UsageInsert) =
      (case bt_get m ''stream_options'' of
         None \<Rightarrow> Some (JBool True)
       | Some (JObject options) \<Rightarrow>
           (case bt_get options ''include_usage'' of None \<Rightarrow> Some (JBool True) | Some v \<Rightarrow> Some v)
       | Some _ \<Rightarrow> None) \<and>
    (k \<noteq> ''stream_options'' \<longrightarrow> bt_get (apply_chat_stream_usage_policy m policy) k = bt_get m k) \<and>
    apply_chat_stream_usage_policy (apply_chat_stream_usage_policy m policy) policy =
      apply_chat_stream_usage_policy m policy"
proof -
  have f: "bt_get (apply_chat_stream_usage_policy m policy) k = bt_get m k" if "k \<noteq> ''stream_options''" for k
    using that by (rule bt_get_chat_stream_usage_policy)
  have r: "usage_requested (apply_chat_stream_usage_policy m UsageForceTrue) = Some (JBool True)"
    "usage_requested (apply_chat_stream_usage_policy m UsageInsert) =
      (case bt_get m ''stream_options'' of
         None \<Rightarrow> Some (JBool True)
       | Some (JObject options) \<Rightarrow>
           (case bt_get options ''include_usage'' of None \<Rightarrow> Some (JBool True) | Some v \<Rightarrow> Some v)
       | Some _ \<Rightarrow> None)"
    using assms
    by (simp_all add: usage_requested_def apply_chat_stream_usage_policy_def bt_get_insert
        bt_get_or_insert split: option.splits json.splits)
  have i: "apply_chat_stream_usage_policy (apply_chat_stream_usage_policy m policy) policy =
      apply_chat_stream_usage_policy m policy"
  proof (cases "bt_get m ''stream_options''")
    case None
    then show ?thesis using assms
      by (cases policy) (simp_all add: apply_chat_stream_usage_policy_def bt_get_insert jobj_def
          bt_of_list_def bt_or_insert_def bt_contains_def bt_get_def [of "[_]"] bt_insert_twice)
  next
    case (Some v)
    then show ?thesis using assms
      by (cases policy; cases v)
        (simp_all add: apply_chat_stream_usage_policy_def bt_get_insert jobj_def bt_of_list_def
          bt_or_insert_def bt_contains_def bt_insert_twice)
  qed
  show ?thesis using f r i by blast
qed

theorem chat_stream_usage_policy_spec_witness:
  "usage_requested (apply_chat_stream_usage_policy [(''stream'', JBool True)] UsageForceTrue)
     = Some (JBool True)"
  using chat_stream_usage_policy_spec [of "[(''stream'', JBool True)]"] by (simp add: bt_get_def)

end
