(* ===== verification/Multipart.thy ===== *)
theory Multipart
  imports Request_Policy
begin

text \<open>
  The multipart functions of \<open>onair-core/src/openai/request.rs\<close>: splitting a body at its boundary,
  recognising a field, and replacing the model field.  Bodies are byte strings and positions are
  indices into them, as in the source; the loops are \<open>function\<close>s whose termination measure is the
  number of bytes after the cursor.
\<close>

definition CRLF :: string where "CRLF = [CHR 0x0D, CHR 0x0A]"

section \<open>Byte search\<close>

text \<open>\<open>windows(needle.len()).position(|window| window == needle)\<close>\<close>

fun position_of :: "string \<Rightarrow> string \<Rightarrow> nat option" where
  "position_of needle [] = (if needle = [] then Some 0 else None)"
| "position_of needle (c # s) =
     (if starts_with needle (c # s) then Some 0 else map_option Suc (position_of needle s))"

definition find_bytes :: "string \<Rightarrow> string \<Rightarrow> nat \<Rightarrow> nat option" where
  "find_bytes haystack needle start =
     (if needle = [] \<or> length haystack < start then None
      else map_option (\<lambda>p. p + start) (position_of needle (drop start haystack)))"

definition starts_with_at :: "string \<Rightarrow> nat \<Rightarrow> string \<Rightarrow> bool" where
  "starts_with_at haystack start needle \<longleftrightarrow>
     start \<le> length haystack \<and> starts_with needle (drop start haystack)"

definition slice :: "string \<Rightarrow> nat \<Rightarrow> nat \<Rightarrow> string" where
  "slice body a b = take (b - a) (drop a body)"

lemma starts_with_length: "starts_with p s \<Longrightarrow> length p \<le> length s"
  by (auto simp: starts_with_iff)

lemma position_of_Some: "position_of needle s = Some p \<Longrightarrow> p + length needle \<le> length s"
  by (induction s arbitrary: p) (auto dest: starts_with_length split: if_splits)

lemma find_bytes_Some:
  "find_bytes h needle start = Some p \<Longrightarrow> start \<le> p \<and> p + length needle \<le> length h \<and> needle \<noteq> []"
  by (auto simp: find_bytes_def split: if_splits dest!: position_of_Some)

lemma starts_with_at_bound: "starts_with_at h i needle \<Longrightarrow> i + length needle \<le> length h"
  using starts_with_length [of needle "drop i h"] by (auto simp: starts_with_at_def)

section \<open>Parts and fields\<close>

definition split_multipart_part :: "string \<Rightarrow> (string \<times> string) option" where
  "split_multipart_part part =
     (case find_bytes part (CRLF @ CRLF) 0 of
        None \<Rightarrow> None
      | Some p \<Rightarrow> Some (take p part, drop (p + length (CRLF @ CRLF)) part))"

text \<open>\<open>str::lines\<close>: a final empty line is dropped and one carriage return before each line end.\<close>

definition str_lines :: "string \<Rightarrow> string list" where
  "str_lines s =
     (let ls = split_char CHR 0x0A s;
          ls = (if last ls = [] then butlast ls else ls)
      in map (\<lambda>l. case strip_suffix [CHR 0x0D] l of Some t \<Rightarrow> t | None \<Rightarrow> l) ls)"

text \<open>
  \<open>from_utf8_lossy\<close> keeps every ASCII byte and replaces only bytes above 127, by such bytes; the
  prefix and the two patterns are ASCII, so the search on the bytes finds the same occurrences.
\<close>

definition multipart_field_is :: "string \<Rightarrow> string \<Rightarrow> bool" where
  "multipart_field_is headers name =
     (let headers = to_ascii_lowercase headers;
          target_quoted = ''name='' @ dquoted (to_ascii_lowercase name);
          target_unquoted = ''name='' @ to_ascii_lowercase name
      in list_ex (\<lambda>line. starts_with ''content-disposition:'' line \<and>
           (str_contains target_quoted line \<or> str_contains target_unquoted line)) (str_lines headers))"

definition rewrite_multipart_part :: "string \<Rightarrow> string \<Rightarrow> string" where
  "rewrite_multipart_part part backend_model =
     (case split_multipart_part part of
        None \<Rightarrow> part
      | Some (headers, _) \<Rightarrow>
          if \<not> multipart_field_is headers ''model'' then part
          else headers @ CRLF @ CRLF @ backend_model)"

definition marker_of :: "string \<Rightarrow> string" where "marker_of boundary = ''--'' @ boundary"

definition closing_of :: "string \<Rightarrow> string" where "closing_of boundary = ''--'' @ boundary @ ''--''"

definition delimiter_of :: "string \<Rightarrow> string" where "delimiter_of boundary = CRLF @ ''--'' @ boundary"

lemmas multipart_defs = marker_of_def closing_of_def delimiter_of_def CRLF_def

section \<open>Rewriting a body\<close>

function rewrite_multipart_loop :: "string \<Rightarrow> string \<Rightarrow> string \<Rightarrow> nat \<Rightarrow> string \<Rightarrow> string option" where
  "rewrite_multipart_loop body boundary backend_model cursor output =
     (case find_bytes body (delimiter_of boundary) cursor of
        None \<Rightarrow> None
      | Some delimiter_position \<Rightarrow>
          let output = output @ rewrite_multipart_part (slice body cursor delimiter_position) backend_model;
              boundary_position = delimiter_position + 2
          in if starts_with_at body boundary_position (closing_of boundary) then
               Some (output @ CRLF @ closing_of boundary @
                 (if starts_with_at body (boundary_position + length (closing_of boundary)) CRLF
                  then CRLF else []))
             else if \<not> starts_with_at body boundary_position (marker_of boundary) then None
             else
               let after_marker = boundary_position + length (marker_of boundary)
               in if \<not> starts_with_at body after_marker CRLF then None
                  else rewrite_multipart_loop body boundary backend_model (after_marker + 2)
                    (output @ CRLF @ marker_of boundary @ CRLF))"
  by pat_completeness auto
termination
proof (relation "measure (\<lambda>(body, _, _, cursor, _). length body - cursor)", simp)
  fix body boundary backend_model out out' :: string and cursor p q r
  assume f: "find_bytes body (delimiter_of boundary) cursor = Some p" and "q = p + 2"
    and "r = q + length (marker_of boundary)" and "\<not> \<not> starts_with_at body r CRLF"
  then have "cursor < length body" "r + 2 \<le> length body" "cursor < r + 2"
    using find_bytes_Some [OF f] starts_with_at_bound [of body r CRLF] by (auto simp: CRLF_def)
  then show "((body, boundary, backend_model, r + 2, out' @ CRLF @ marker_of boundary @ CRLF),
      (body, boundary, backend_model, cursor, out)) \<in> measure (\<lambda>(body, _, _, cursor, _). length body - cursor)"
    by simp
qed

declare rewrite_multipart_loop.simps [simp del]

definition rewrite_multipart_body :: "string \<Rightarrow> string \<Rightarrow> string \<Rightarrow> string option" where
  "rewrite_multipart_body body boundary backend_model =
     (if \<not> starts_with (marker_of boundary) body then None
      else
        let cursor = length (marker_of boundary)
        in if \<not> starts_with_at body cursor CRLF then None
           else rewrite_multipart_loop body boundary backend_model (cursor + 2) (marker_of boundary @ CRLF))"

function multipart_parts_loop :: "string \<Rightarrow> string \<Rightarrow> nat \<Rightarrow> string list \<Rightarrow> string list" where
  "multipart_parts_loop body boundary cursor parts =
     (case find_bytes body (delimiter_of boundary) cursor of
        None \<Rightarrow> parts
      | Some delimiter_position \<Rightarrow>
          let parts = parts @ [slice body cursor delimiter_position];
              boundary_position = delimiter_position + 2
          in if starts_with_at body boundary_position (closing_of boundary) then parts
             else if \<not> starts_with_at body boundary_position (marker_of boundary) then parts
             else
               let after_marker = boundary_position + length (marker_of boundary)
               in if \<not> starts_with_at body after_marker CRLF then parts
                  else multipart_parts_loop body boundary (after_marker + 2) parts)"
  by pat_completeness auto
termination
proof (relation "measure (\<lambda>(body, _, cursor, _). length body - cursor)", simp)
  fix body boundary :: string and parts parts' :: "string list" and cursor p q r
  assume f: "find_bytes body (delimiter_of boundary) cursor = Some p" and "q = p + 2"
    and "r = q + length (marker_of boundary)" and "\<not> \<not> starts_with_at body r CRLF"
  then have "cursor < length body" "r + 2 \<le> length body" "cursor < r + 2"
    using find_bytes_Some [OF f] starts_with_at_bound [of body r CRLF] by (auto simp: CRLF_def)
  then show "((body, boundary, r + 2, parts'), (body, boundary, cursor, parts))
      \<in> measure (\<lambda>(body, _, cursor, _). length body - cursor)"
    by simp
qed

declare multipart_parts_loop.simps [simp del]

definition multipart_parts :: "string \<Rightarrow> string \<Rightarrow> string list" where
  "multipart_parts body boundary =
     (if \<not> starts_with (marker_of boundary) body then []
      else
        let cursor = length (marker_of boundary)
        in if \<not> starts_with_at body cursor CRLF then []
           else multipart_parts_loop body boundary (cursor + 2) [])"

section \<open>Rendering and parsing\<close>

text \<open>The body a client sends: parts between delimiters, then the closing delimiter.\<close>

fun render_tail :: "string \<Rightarrow> string list \<Rightarrow> string" where
  "render_tail b [] = []"
| "render_tail b [p] = p @ CRLF @ closing_of b"
| "render_tail b (p # q # ps) = p @ CRLF @ marker_of b @ CRLF @ render_tail b (q # ps)"

definition render_multipart :: "string \<Rightarrow> string list \<Rightarrow> string" where
  "render_multipart b ps = marker_of b @ CRLF @ render_tail b ps @ CRLF"

text \<open>A boundary without line breaks that does not occur as a delimiter inside a part.\<close>

definition good_part :: "string \<Rightarrow> string \<Rightarrow> bool" where
  "good_part b p \<longleftrightarrow> \<not> str_contains (delimiter_of b) p"

lemma str_contains_iff: "str_contains p s \<longleftrightarrow> (\<exists>a t. s = a @ p @ t)"
proof (induction s)
  case Nil
  then show ?case by simp
next
  case (Cons c s)
  have "(\<exists>a t. c # s = a @ p @ t) \<longleftrightarrow> (\<exists>t. c # s = p @ t) \<or> (\<exists>a t. s = a @ p @ t)"
    by (metis append_Cons append_Nil append_eq_Cons_conv)
  then show ?case using Cons by (simp add: starts_with_iff)
qed

lemma position_of_first:
  "needle \<noteq> [] \<Longrightarrow> \<forall>i < length p. \<not> starts_with needle (drop i (p @ needle @ r)) \<Longrightarrow>
     position_of needle (p @ needle @ r) = Some (length p)"
proof (induction p)
  case Nil
  then show ?case by (cases needle) (auto simp: starts_with_iff)
next
  case (Cons c p)
  have "\<forall>i < length p. \<not> starts_with needle (drop i (p @ needle @ r))"
    using Cons.prems(2) by (metis Suc_less_eq append_Cons drop_Suc_Cons length_Cons)
  moreover have "\<not> starts_with needle ((c # p) @ needle @ r)"
    using Cons.prems(2) by (metis drop0 length_greater_0_conv list.discI)
  ultimately show ?case using Cons by simp
qed

text \<open>The head of the delimiter occurs nowhere else in it, so an occurrence cannot straddle.\<close>

lemma no_straddle:
  assumes "x \<notin> set t" and "\<not> str_contains (x # t) p" and "i < length p"
  shows "\<not> starts_with (x # t) (drop i (p @ (x # t) @ r))"
proof
  assume "starts_with (x # t) (drop i (p @ (x # t) @ r))"
  then obtain u where u: "drop i p @ (x # t) @ r = (x # t) @ u"
    using assms(3) by (auto simp: starts_with_iff)
  obtain us where us: "drop i p = (x # t) @ us \<or> (drop i p @ us = x # t \<and> (x # t) @ r = us @ u)"
    using u unfolding append_eq_append_conv2 [of "drop i p" "(x # t) @ r" "x # t" u] by blast
  have "p = take i p @ drop i p" by simp
  then have "drop i p \<noteq> (x # t) @ us" using assms(2) by (metis str_contains_iff)
  then have h: "drop i p @ us = x # t" "(x # t) @ r = us @ u" using us by auto
  obtain y ys where y: "drop i p = y # ys" using assms(3) by (cases "drop i p") auto
  show False
  proof (cases us)
    case Nil
    then have "drop i p = (x # t) @ []" using h(1) by simp
    then show ?thesis using \<open>p = take i p @ drop i p\<close> assms(2) by (metis str_contains_iff)
  next
    case (Cons z zs)
    then have "z = x" "z \<in> set t" using h y by auto
    then show ?thesis using assms(1) by simp
  qed
qed

lemma find_delimiter:
  assumes "CHR 0x0D \<notin> set b" and "good_part b p"
  shows "find_bytes (pre @ p @ delimiter_of b @ r) (delimiter_of b) (length pre) = Some (length pre + length p)"
proof -
  have d: "delimiter_of b = CHR 0x0D # (CHR 0x0A # ''--'' @ b)" by (simp add: multipart_defs)
  have "position_of (delimiter_of b) (p @ delimiter_of b @ r) = Some (length p)"
    using assms no_straddle [of "CHR 0x0D" "CHR 0x0A # ''--'' @ b" p] unfolding good_part_def d
    by (intro position_of_first) auto
  then show ?thesis by (simp add: find_bytes_def d)
qed

lemma starts_with_at_append: "starts_with_at (pre @ s) (length pre) needle \<longleftrightarrow> starts_with needle s"
  by (simp add: starts_with_at_def)

lemma starts_with_append_same: "starts_with (a @ b) (a @ c) \<longleftrightarrow> starts_with b c"
  by (simp add: starts_with_iff)

text \<open>One turn of the two loops on a rendered body, at the start of a part.\<close>

lemma delimiter_split: "delimiter_of b = CRLF @ marker_of b" "closing_of b = marker_of b @ ''--''"
  by (simp_all add: multipart_defs)

lemma at_delimiter:
  assumes "CHR 0x0D \<notin> set b" and "good_part b p" and body: "body = pre @ p @ CRLF @ marker_of b @ r"
  shows "find_bytes body (delimiter_of b) (length pre) = Some (length pre + length p)"
    and "slice body (length pre) (length pre + length p) = p"
    and "starts_with_at body (length pre + length p + 2) (closing_of b) \<longleftrightarrow> starts_with ''--'' r"
    and "starts_with_at body (length pre + length p + 2) (marker_of b)"
    and "starts_with_at body (length pre + length p + 2 + length (marker_of b)) CRLF \<longleftrightarrow> starts_with CRLF r"
    and "r = ''--'' @ r' \<Longrightarrow>
      starts_with_at body (length pre + length p + 2 + length (closing_of b)) CRLF \<longleftrightarrow> starts_with CRLF r'"
proof -
  show "find_bytes body (delimiter_of b) (length pre) = Some (length pre + length p)"
    using find_delimiter [OF assms(1,2), of pre r] body by (simp add: delimiter_split)
  show "slice body (length pre) (length pre + length p) = p" using body by (simp add: slice_def)
  have l: "length pre + length p + 2 = length (pre @ p @ CRLF)" by (simp add: CRLF_def)
  have b: "body = (pre @ p @ CRLF) @ (marker_of b @ r)" using body by simp
  show "starts_with_at body (length pre + length p + 2) (closing_of b) \<longleftrightarrow> starts_with ''--'' r"
    unfolding l b starts_with_at_append delimiter_split(2) by (rule starts_with_append_same)
  show "starts_with_at body (length pre + length p + 2) (marker_of b)"
    unfolding l b starts_with_at_append by (simp add: starts_with_iff)
  have l2: "length pre + length p + 2 + length (marker_of b) = length (pre @ p @ CRLF @ marker_of b)"
    by (simp add: CRLF_def)
  have b2: "body = (pre @ p @ CRLF @ marker_of b) @ r" using body by simp
  show "starts_with_at body (length pre + length p + 2 + length (marker_of b)) CRLF \<longleftrightarrow> starts_with CRLF r"
    unfolding l2 by (subst b2) (rule starts_with_at_append)
  assume "r = ''--'' @ r'"
  then have b3: "body = (pre @ p @ CRLF @ closing_of b) @ r'" using body by (simp add: delimiter_split)
  have l3: "length pre + length p + 2 + length (closing_of b) = length (pre @ p @ CRLF @ closing_of b)"
    by (simp add: CRLF_def)
  show "starts_with_at body (length pre + length p + 2 + length (closing_of b)) CRLF \<longleftrightarrow> starts_with CRLF r'"
    unfolding l3 by (subst b3) (rule starts_with_at_append)
qed

lemma crlf_prefix: "\<not> starts_with ''--'' (CRLF @ r)" "starts_with CRLF (CRLF @ r)" "starts_with CRLF CRLF"
  "starts_with ''--'' (''--'' @ r)"
  by (simp_all add: starts_with_def CRLF_def)

text \<open>Both loops are instances of one fold over the rendered parts.\<close>

lemma rewrite_multipart_loop_render:
  assumes cr: "CHR 0x0D \<notin> set b"
  shows "ps \<noteq> [] \<Longrightarrow> list_all (good_part b) ps \<Longrightarrow> body = pre @ render_tail b ps @ CRLF \<Longrightarrow>
    rewrite_multipart_loop body b m (length pre) out =
      Some (out @ render_tail b (map (\<lambda>p. rewrite_multipart_part p m) ps) @ CRLF)"
proof (induction ps arbitrary: pre out)
  case Nil
  then show ?case by simp
next
  case (Cons p ps)
  have good: "good_part b p" using Cons.prems(2) by simp
  show ?case
  proof (cases ps)
    case Nil
    then have body: "body = pre @ p @ CRLF @ marker_of b @ ''--'' @ CRLF"
      using Cons.prems(3) by (simp add: delimiter_split)
    note at = at_delimiter [OF cr good body]
    have "rewrite_multipart_loop body b m (length pre) out =
        Some ((out @ rewrite_multipart_part p m) @ CRLF @ closing_of b @ CRLF)"
      by (simp only: rewrite_multipart_loop.simps [of body b m "length pre" out] at(1,2,3) at(6) [OF refl]
          crlf_prefix option.case Let_def if_True)
    then show ?thesis by (simp add: Nil)
  next
    case (Cons q qs)
    let ?pre = "pre @ p @ CRLF @ marker_of b @ CRLF"
    have body: "body = pre @ p @ CRLF @ marker_of b @ CRLF @ render_tail b ps @ CRLF"
      using Cons.prems(3) Cons by simp
    note at = at_delimiter [OF cr good body]
    have l: "length pre + length p + 2 + length (marker_of b) + 2 = length ?pre" by (simp add: CRLF_def)
    have ih: "rewrite_multipart_loop body b m (length ?pre) out' =
        Some (out' @ render_tail b (map (\<lambda>p. rewrite_multipart_part p m) ps) @ CRLF)" for out'
      using Cons.prems(2) Cons body by (intro Cons.IH) simp_all
    have "rewrite_multipart_loop body b m (length pre) out =
        rewrite_multipart_loop body b m (length ?pre)
          ((out @ rewrite_multipart_part p m) @ CRLF @ marker_of b @ CRLF)"
      by (simp only: rewrite_multipart_loop.simps [of body b m "length pre" out] at(1-5)
          crlf_prefix option.case Let_def if_True if_False l not_True_eq_False)
    then show ?thesis by (simp add: ih Cons del: length_append)
  qed
qed

lemma multipart_parts_loop_render:
  assumes cr: "CHR 0x0D \<notin> set b"
  shows "ps \<noteq> [] \<Longrightarrow> list_all (good_part b) ps \<Longrightarrow> body = pre @ render_tail b ps @ CRLF \<Longrightarrow>
    multipart_parts_loop body b (length pre) acc = acc @ ps"
proof (induction ps arbitrary: pre acc)
  case Nil
  then show ?case by simp
next
  case (Cons p ps)
  have good: "good_part b p" using Cons.prems(2) by simp
  show ?case
  proof (cases ps)
    case Nil
    then have body: "body = pre @ p @ CRLF @ marker_of b @ ''--'' @ CRLF"
      using Cons.prems(3) by (simp add: delimiter_split)
    note at = at_delimiter [OF cr good body]
    show ?thesis
      by (simp only: multipart_parts_loop.simps [of body b "length pre" acc] at(1,2,3)
          crlf_prefix option.case Let_def if_True Nil)
  next
    case (Cons q qs)
    let ?pre = "pre @ p @ CRLF @ marker_of b @ CRLF"
    have body: "body = pre @ p @ CRLF @ marker_of b @ CRLF @ render_tail b ps @ CRLF"
      using Cons.prems(3) Cons by simp
    note at = at_delimiter [OF cr good body]
    have l: "length pre + length p + 2 + length (marker_of b) + 2 = length ?pre" by (simp add: CRLF_def)
    have "multipart_parts_loop body b (length pre) acc =
        multipart_parts_loop body b (length ?pre) (acc @ [p])"
      by (simp only: multipart_parts_loop.simps [of body b "length pre" acc] at(1-5)
          crlf_prefix option.case Let_def if_True if_False l not_True_eq_False)
    also have "\<dots> = (acc @ [p]) @ ps"
      using Cons.prems(2) Cons body by (intro Cons.IH) simp_all
    finally show ?thesis by simp
  qed
qed

lemma marker_crlf_length: "length (marker_of b) + 2 = length (marker_of b @ CRLF)"
  by (simp add: CRLF_def)

lemma render_start:
  "starts_with (marker_of b) (render_multipart b ps)"
  "starts_with_at (render_multipart b ps) (length (marker_of b)) CRLF"
  "render_multipart b ps = (marker_of b @ CRLF) @ render_tail b ps @ CRLF"
  by (simp_all add: render_multipart_def starts_with_iff starts_with_at_append CRLF_def)


definition example_part :: string where
  "example_part = ''content-disposition: form-data; name='' @ dquoted ''model'' @ CRLF @ CRLF @ ''gpt''"


text \<open>
  A defect in the field test.  The test looks for \<open>name="model"\<close> anywhere in the disposition
  header, so a file part whose \<open>filename\<close> is \<open>model\<close> counts as the model field and its content is
  replaced by the backend's model name.
\<close>

theorem multipart_filename_mistaken:
  "rewrite_multipart_part (''content-disposition: form-data; name='' @ dquoted ''file'' @ ''; filename=''
       @ dquoted ''model'' @ CRLF @ CRLF @ ''DATA'') ''m'' =
   ''content-disposition: form-data; name='' @ dquoted ''file'' @ ''; filename=''
       @ dquoted ''model'' @ CRLF @ CRLF @ ''m''"
  by code_simp

end
