(* ===== verification/Responses_Compat.thy ===== *)
theory Responses_Compat
  imports Request_Policy
begin

text \<open>
  \<open>onair-core/src/openai/responses_compat.rs\<close>: translation of request bodies between the Responses
  and the Chat Completions formats.  The bytes are read and written by the record \<open>serde\<close>; each
  translation is split into the part that works on objects and the part that decodes and encodes.
\<close>

abbreviation msg_error :: "string \<Rightarrow> rewrite_error" where
  "msg_error m \<equiv> rewrite_error_new m (Some ''messages'')"

abbreviation input_error :: "string \<Rightarrow> rewrite_error" where
  "input_error m \<equiv> rewrite_error_new m (Some ''input'')"

abbreviation tools_error :: "string \<Rightarrow> rewrite_error" where
  "tools_error m \<equiv> rewrite_error_new m (Some ''tools'')"

text \<open>\<open>for key in keys { if let Some(v) = object.get(key) { target.insert(key, v.clone()) } }\<close>\<close>

definition copy_keys :: "string list \<Rightarrow> json_map \<Rightarrow> json_map \<Rightarrow> json_map" where
  "copy_keys keys source target =
     fold (\<lambda>k t. case bt_get source k of None \<Rightarrow> t | Some v \<Rightarrow> bt_insert k v t) keys target"

text \<open>\<open>filter_map(|part| part.get("text").and_then(Value::as_str))\<close>\<close>

definition text_parts :: "json list \<Rightarrow> string list" where
  "text_parts parts = List.map_filter (\<lambda>p. get_str p ''text'') parts"

definition LF :: char where "LF = CHR 0x0A"

section \<open>Tools\<close>

definition chat_tool_to_responses_tool :: "json \<Rightarrow> rewrite_error + json" where
  "chat_tool_to_responses_tool tool =
     bind_res (ok_or (as_object tool) (with_param ''tool definitions must be objects.'' PTools)) (\<lambda>m.
       if obj_str m ''type'' \<noteq> Some ''function'' then
         Inl (tools_error ''Only function tools are supported by the chat-to-responses compatibility path.'')
       else
         bind_res (ok_or (Option.bind (bt_get m ''function'') as_object)
             (with_param ''function tools require function.'' PTools)) (\<lambda>fn.
           Inr (JObject (bt_insert ''type'' (JString ''function'') fn))))"

definition chat_tools_to_responses_tools :: "json \<Rightarrow> rewrite_error + json list" where
  "chat_tools_to_responses_tools tools =
     bind_res (ok_or (as_array tools)
         (tools_error ''tools must be an array for chat-to-responses conversion.''))
       (map_res chat_tool_to_responses_tool)"

definition chat_tool_choice_to_responses :: "json \<Rightarrow> rewrite_error + json" where
  "chat_tool_choice_to_responses tool_choice =
     (case as_object tool_choice of
        None \<Rightarrow> Inr tool_choice
      | Some m \<Rightarrow>
          if obj_str m ''type'' \<noteq> Some ''function'' then Inr tool_choice
          else
            bind_res (ok_or (Option.bind (bt_get m ''function'') as_object)
                (rewrite_error_new ''function tool_choice requires function.'' (Some ''tool_choice''))) (\<lambda>fn.
            bind_res (ok_or (bt_get fn ''name'')
                (rewrite_error_new ''function tool_choice requires function.name.'' (Some ''tool_choice'')))
              (\<lambda>nm. Inr (jobj [(''type'', JString ''function''), (''name'', nm)]))))"

definition responses_tool_choice_to_chat :: "json \<Rightarrow> json" where
  "responses_tool_choice_to_chat tool_choice =
     (case as_object tool_choice of
        None \<Rightarrow> tool_choice
      | Some m \<Rightarrow>
          if obj_str m ''type'' = Some ''function'' then
            (case bt_get m ''name'' of
               Some nm \<Rightarrow> jobj [(''type'', JString ''function''), (''function'', jobj [(''name'', nm)])]
             | None \<Rightarrow> tool_choice)
          else tool_choice)"

section \<open>Tool schemas\<close>

definition is_null_schema :: "json \<Rightarrow> bool" where
  "is_null_schema value =
     (case Option.bind (as_object value) (\<lambda>m. bt_get m ''type'') of
        Some (JString type_name) \<Rightarrow> type_name = ''null''
      | Some (JArray types) \<Rightarrow> list_all (\<lambda>t. as_str t = Some ''null'') types
      | _ \<Rightarrow> False)"

definition collapse_nullable_type_array :: "json_map \<Rightarrow> json_map" where
  "collapse_nullable_type_array m =
     (case Option.bind (bt_get m ''type'') as_array of
        None \<Rightarrow> m
      | Some types \<Rightarrow>
          if list_ex (\<lambda>v. as_str v = None) types then m
          else
            let names = map (\<lambda>v. the (as_str v)) types;
                non_null = filter (\<lambda>t. t \<noteq> ''null'') names
            in if ''null'' \<in> set names \<and> length non_null = 1
               then bt_insert ''type'' (JString (hd non_null)) m else m)"

definition collapse_nullable_schema_array :: "json_map \<Rightarrow> string \<Rightarrow> json_map" where
  "collapse_nullable_schema_array m key =
     (case Option.bind (bt_get m key) as_array of
        None \<Rightarrow> m
      | Some items \<Rightarrow>
          let non_null = filter (\<lambda>i. \<not> is_null_schema i) items
          in if \<not> list_ex is_null_schema items \<or> length non_null \<noteq> 1 then m
             else case as_object (hd non_null) of
                 None \<Rightarrow> m
               | Some replacement \<Rightarrow>
                   fold (\<lambda>(k, v) m. bt_or_insert k v m) replacement (bt_remove key m))"

definition collapse_schema :: "json_map \<Rightarrow> json_map" where
  "collapse_schema m =
     collapse_nullable_schema_array
       (collapse_nullable_schema_array
          (collapse_nullable_type_array (bt_remove ''default'' m)) ''anyOf'') ''oneOf''"

text \<open>A size that every step into a collapsed schema decreases.\<close>

fun jsize :: "json \<Rightarrow> nat" where
  "jsize (JObject m) = 1 + sum_list (map (\<lambda>e. jsize (snd e)) m)"
| "jsize (JArray xs) = 1 + sum_list (map jsize xs)"
| "jsize _ = 1"

lemma jsize_pos: "0 < jsize v"
  by (cases v) auto

lemma jsize_array: "x \<in> set xs \<Longrightarrow> jsize x < jsize (JArray xs)"
  by (simp add: member_le_sum_list less_Suc_eq_le)

lemma jsize_object: "(k, v) \<in> set m \<Longrightarrow> jsize v < jsize (JObject m)"
proof -
  assume "(k, v) \<in> set m"
  then have "jsize v \<in> set (map (\<lambda>e. jsize (snd e)) m)" by force
  then show ?thesis by (simp add: member_le_sum_list less_Suc_eq_le)
qed

definition bounded_fields :: "nat \<Rightarrow> json_map \<Rightarrow> bool" where
  "bounded_fields n m \<longleftrightarrow> (\<forall>(k, v) \<in> set m. jsize v < n)"

lemma bounded_insert: "bounded_fields n m \<Longrightarrow> jsize v < n \<Longrightarrow> bounded_fields n (bt_insert k v m)"
  by (auto simp: bounded_fields_def dest!: mem_bt_insert)

lemma bounded_remove: "bounded_fields n m \<Longrightarrow> bounded_fields n (bt_remove k m)"
  by (auto simp: bounded_fields_def bt_remove_def)

lemma bounded_get: "bounded_fields n m \<Longrightarrow> bt_get m k = Some v \<Longrightarrow> jsize v < n"
  by (auto simp: bounded_fields_def dest!: bt_get_Some_mem)

lemma bounded_Cons: "bounded_fields n (e # m) \<longleftrightarrow> jsize (snd e) < n \<and> bounded_fields n m"
  by (cases e) (simp add: bounded_fields_def)

lemma bounded_or_insert:
  "bounded_fields n m \<Longrightarrow> jsize v < n \<Longrightarrow> bounded_fields n (bt_or_insert k v m)"
  unfolding bt_or_insert_def using bounded_insert by simp

lemma bounded_merge:
  "bounded_fields n m \<Longrightarrow> bounded_fields n r \<Longrightarrow>
     bounded_fields n (fold (\<lambda>(k, v) m. bt_or_insert k v m) r m)"
proof (induction r arbitrary: m)
  case Nil
  then show ?case by simp
next
  case (Cons e r)
  obtain k v where e: "e = (k, v)" by (cases e)
  have h: "jsize v < n" "bounded_fields n r" using Cons.prems(2) e by (simp_all add: bounded_Cons)
  show ?case using Cons.IH [OF bounded_or_insert [OF Cons.prems(1) h(1)] h(2)] e by simp
qed

lemma bounded_collapse_type:
  assumes "bounded_fields n m"
  shows "bounded_fields n (collapse_nullable_type_array m)"
proof (cases "Option.bind (bt_get m ''type'') as_array")
  case None
  then show ?thesis using assms by (simp add: collapse_nullable_type_array_def)
next
  case (Some types)
  then obtain v where "bt_get m ''type'' = Some v" by (cases "bt_get m ''type''") simp_all
  then have "1 < n" using bounded_get [OF assms] jsize_pos [of v] by fastforce
  then show ?thesis using assms Some
    by (simp add: collapse_nullable_type_array_def Let_def bounded_insert)
qed

lemma bounded_collapse_schema_array:
  assumes "bounded_fields n m"
  shows "bounded_fields n (collapse_nullable_schema_array m key)"
proof (cases "Option.bind (bt_get m key) as_array")
  case None
  then show ?thesis using assms by (simp add: collapse_nullable_schema_array_def)
next
  case (Some items)
  then have arr: "bt_get m key = Some (JArray items)"
    by (cases "bt_get m key") (auto elim: as_array.elims)
  show ?thesis
  proof (cases "\<not> list_ex is_null_schema items \<or> length (filter (\<lambda>i. \<not> is_null_schema i) items) \<noteq> 1 \<or>
      as_object (hd (filter (\<lambda>i. \<not> is_null_schema i) items)) = None")
    case True
    then show ?thesis using assms Some by (auto simp: collapse_nullable_schema_array_def Let_def)
  next
    case False
    let ?h = "hd (filter (\<lambda>i. \<not> is_null_schema i) items)"
    obtain r where r: "as_object ?h = Some r" using False by blast
    have "?h \<in> set items" using False hd_in_set [of "filter (\<lambda>i. \<not> is_null_schema i) items"]
      by fastforce
    then have "jsize ?h < n" using jsize_array bounded_get [OF assms arr] by fastforce
    then have "bounded_fields n r"
      using r jsize_object by (cases ?h) (fastforce simp: bounded_fields_def)+
    then show ?thesis using assms Some False r
      by (simp add: collapse_nullable_schema_array_def Let_def bounded_merge bounded_remove)
  qed
qed

lemma collapse_schema_bounded: "(k, v) \<in> set (collapse_schema m) \<Longrightarrow> jsize v < jsize (JObject m)"
proof -
  assume h: "(k, v) \<in> set (collapse_schema m)"
  have "bounded_fields (jsize (JObject m)) m" using jsize_object by (fastforce simp: bounded_fields_def)
  then have "bounded_fields (jsize (JObject m)) (collapse_schema m)"
    unfolding collapse_schema_def
    by (intro bounded_collapse_schema_array bounded_collapse_type bounded_remove)
  then show ?thesis using h by (auto simp: bounded_fields_def)
qed

function sanitize_llamacpp_tool_schema :: "json \<Rightarrow> json" where
  "sanitize_llamacpp_tool_schema (JObject m) =
     JObject (map (\<lambda>e. (fst e, sanitize_llamacpp_tool_schema (snd e))) (collapse_schema m))"
| "sanitize_llamacpp_tool_schema (JArray xs) = JArray (map sanitize_llamacpp_tool_schema xs)"
| "sanitize_llamacpp_tool_schema JNull = JNull"
| "sanitize_llamacpp_tool_schema (JBool b) = JBool b"
| "sanitize_llamacpp_tool_schema (JNumber n) = JNumber n"
| "sanitize_llamacpp_tool_schema (JString s) = JString s"
  by pat_completeness auto
termination
  by (relation "measure jsize") (auto intro: jsize_array collapse_schema_bounded simp del: jsize.simps)

definition responses_tools_step :: "tool_schema_mode \<Rightarrow> json \<Rightarrow> json list \<Rightarrow> rewrite_error + json list" where
  "responses_tools_step mode tool chat_tools =
     (case as_object tool of
        None \<Rightarrow> Inl (tools_error ''tool definitions must be objects.'')
      | Some m \<Rightarrow>
          if obj_str m ''type'' \<noteq> Some ''function'' then Inr chat_tools
          else
            let fn = bt_remove ''type'' m;
                fn = (if mode = LlamacppCompat then
                        (case bt_get fn ''parameters'' of
                           Some parameters \<Rightarrow>
                             bt_insert ''parameters'' (sanitize_llamacpp_tool_schema parameters) fn
                         | None \<Rightarrow> fn)
                      else fn)
            in Inr (chat_tools @
                 [jobj [(''type'', JString ''function''), (''function'', JObject fn)]]))"

definition responses_tools_to_chat_tools :: "json \<Rightarrow> tool_schema_mode \<Rightarrow> rewrite_error + json list" where
  "responses_tools_to_chat_tools tools mode =
     bind_res (ok_or (as_array tools)
         (tools_error ''tools must be an array for responses-to-chat conversion.'')) (\<lambda>ts.
       fold_res (responses_tools_step mode) ts [])"

section \<open>Chat messages as Responses input\<close>

definition validate_chat_to_responses_options :: "json_map \<Rightarrow> rewrite_error + unit" where
  "validate_chat_to_responses_options m =
     (if bt_contains m ''n'' \<and> Option.bind (bt_get m ''n'') as_u64 \<noteq> Some 1 then
        Inl (rewrite_error_new ''n > 1 is not supported by the chat-to-responses compatibility path.''
               (Some ''n''))
      else if bt_contains m ''logprobs'' \<and> bt_get m ''logprobs'' \<notin> {Some (JBool False), Some JNull} then
        Inl (rewrite_error_new ''logprobs is not supported by the chat-to-responses compatibility path.''
               (Some ''logprobs''))
      else if bt_contains m ''top_logprobs'' then
        Inl (rewrite_error_new ''top_logprobs is not supported by the chat-to-responses compatibility path.''
               (Some ''top_logprobs''))
      else Inr ())"

definition instruction_part :: "json \<Rightarrow> string \<Rightarrow> rewrite_error + string" where
  "instruction_part part text =
     bind_res (ok_or (as_object part) (msg_error ''Chat content parts must be objects.'')) (\<lambda>m.
       if obj_str m ''type'' = Some ''text'' then
         Inr (text @ (case obj_str m ''text'' of Some t \<Rightarrow> t | None \<Rightarrow> []))
       else Inl (msg_error ''System and developer messages only support text content.''))"

definition chat_content_to_instruction_text :: "json \<Rightarrow> rewrite_error + string" where
  "chat_content_to_instruction_text content =
     (case content of
        JString text \<Rightarrow> Inr text
      | JArray parts \<Rightarrow> fold_res instruction_part parts []
      | JNull \<Rightarrow> Inr []
      | _ \<Rightarrow> Inl (msg_error ''System and developer message content must be text.''))"

definition chat_image_part_to_responses :: "json_map \<Rightarrow> rewrite_error + json" where
  "chat_image_part_to_responses m =
     bind_res (ok_or (bt_get m ''image_url'')
         (msg_error ''Chat image_url content parts require image_url.'')) (\<lambda>image_url.
       case image_url of
         JString url \<Rightarrow> Inr (jobj [(''type'', JString ''input_image''), (''image_url'', JString url)])
       | JObject img \<Rightarrow>
           bind_res (ok_or (bt_get img ''url'')
               (msg_error ''Chat image_url content parts require image_url.url.'')) (\<lambda>url.
             let part = bt_insert ''image_url'' url (bt_insert ''type'' (JString ''input_image'') [])
             in Inr (JObject (case bt_get img ''detail'' of
                  Some detail \<Rightarrow> bt_insert ''detail'' detail part | None \<Rightarrow> part)))
       | _ \<Rightarrow> Inl (msg_error ''Chat image_url content image_url must be a string or object.''))"

text \<open>State of the loop over content parts: the converted parts and \<open>text_only\<close>.\<close>

definition chat_part_step ::
  "string \<Rightarrow> json \<Rightarrow> json list \<times> bool \<Rightarrow> rewrite_error + json list \<times> bool" where
  "chat_part_step role part s =
     (let (parts, text_only) = s
      in bind_res (ok_or (as_object part) (msg_error ''Chat content parts must be objects.'')) (\<lambda>m.
        if obj_str m ''type'' = Some ''text'' then
          bind_res (ok_or (obj_str m ''text'') (msg_error ''Chat text content parts require text.''))
            (\<lambda>text. Inr (parts @ [jobj
               [(''type'', JString (if role = ''assistant'' then ''output_text'' else ''input_text'')),
                (''text'', JString text)]], text_only))
        else if obj_str m ''type'' = Some ''image_url'' \<and> role = ''user'' then
          bind_res (chat_image_part_to_responses m) (\<lambda>p. Inr (parts @ [p], False))
        else if obj_str m ''type'' = Some ''refusal'' \<and> role = ''assistant'' then
          Inr (parts @ [jobj [(''type'', JString ''output_text''),
             (''text'', JString (case obj_str m ''refusal'' of Some r \<Rightarrow> r | None \<Rightarrow> []))]], text_only)
        else Inl (msg_error ''Chat content part type is unsupported by the compatibility path.'')))"

definition chat_content_to_responses_content :: "serde \<Rightarrow> json \<Rightarrow> string \<Rightarrow> rewrite_error + json" where
  "chat_content_to_responses_content sd content role =
     (case content of
        JString _ \<Rightarrow> Inr content
      | JArray parts \<Rightarrow>
          bind_res (fold_res (chat_part_step role) parts ([], True)) (\<lambda>(responses_parts, text_only).
            Inr (if text_only then JString (concat (text_parts responses_parts))
                 else JArray responses_parts))
      | JNull \<Rightarrow> Inr (JString [])
      | _ \<Rightarrow> Inr (JString (to_string sd content)))"

definition chat_tool_output_to_string :: "serde \<Rightarrow> json \<Rightarrow> string" where
  "chat_tool_output_to_string sd output =
     (case output of
        JString text \<Rightarrow> text
      | JArray parts \<Rightarrow>
          let text = concat (List.map_filter (\<lambda>p. case get_str p ''text'' of
                 Some t \<Rightarrow> Some t | None \<Rightarrow> get_str p ''refusal'') parts)
          in if text \<noteq> [] then text else to_string sd output
      | _ \<Rightarrow> to_string sd output)"

definition chat_tool_call_to_input :: "nat \<Rightarrow> json \<Rightarrow> rewrite_error + json" where
  "chat_tool_call_to_input index tool_call =
     bind_res (ok_or (as_object tool_call) (with_param ''assistant tool_calls must be objects.'' PMessages)) (\<lambda>m.
       if obj_str m ''type'' \<noteq> None \<and> obj_str m ''type'' \<noteq> Some ''function'' then
         Inl (msg_error ''Only function tool calls are supported by the chat-to-responses compatibility path.'')
       else
         bind_res (ok_or (Option.bind (bt_get m ''function'') as_object)
             (msg_error ''assistant function tool calls require function.'')) (\<lambda>fn.
         bind_res (ok_or (string_field fn ''name'')
             (msg_error ''assistant function tool calls require function.name.'')) (\<lambda>nm.
           let arguments = (case string_field fn ''arguments'' of Some a \<Rightarrow> a | None \<Rightarrow> ''{}'');
               call_id = (case obj_str m ''id'' of
                  Some i \<Rightarrow> if is_blank i then ''call_'' @ show_nat index else i
                | None \<Rightarrow> ''call_'' @ show_nat index)
           in Inr (jobj [(''type'', JString ''function_call''), (''call_id'', JString call_id),
                (''name'', JString nm), (''arguments'', JString arguments)]))))"

definition append_chat_tool_calls_to_responses :: "json \<Rightarrow> json list \<Rightarrow> rewrite_error + json list" where
  "append_chat_tool_calls_to_responses tool_calls input =
     bind_res (ok_or (as_array tool_calls)
         (with_param ''assistant tool_calls must be an array.'' PMessages)) (\<lambda>calls.
       fold_res (\<lambda>(index, call) input.
           bind_res (chat_tool_call_to_input index call) (\<lambda>item. Inr (input @ [item])))
         (List.enumerate 0 calls) input)"

definition append_chat_message_to_responses ::
  "serde \<Rightarrow> json \<Rightarrow> string list \<times> json list \<Rightarrow> rewrite_error + string list \<times> json list" where
  "append_chat_message_to_responses sd message s =
     (let (instructions, input) = s
      in bind_res (ok_or (as_object message) (with_param ''Chat messages must be objects.'' PMessages)) (\<lambda>m.
         bind_res (ok_or (obj_str m ''role'') (with_param ''Chat messages require role.'' PMessages)) (\<lambda>role.
           if role = ''system'' \<or> role = ''developer'' then
             bind_res (ok_or (bt_get m ''content'')
                 (msg_error ''System and developer messages require content.'')) (\<lambda>content.
             bind_res (chat_content_to_instruction_text content) (\<lambda>text.
               Inr (if is_blank text then instructions else instructions @ [text], input)))
           else if role = ''user'' \<or> role = ''assistant'' then
             bind_res
               (case bt_get m ''content'' of
                  Some content \<Rightarrow>
                    if is_null content then Inr input
                    else bind_res (chat_content_to_responses_content sd content role) (\<lambda>c.
                      Inr (input @ [jobj [(''role'', JString role), (''content'', c)]]))
                | None \<Rightarrow> Inr input) (\<lambda>input.
             bind_res
               (case bt_get m ''tool_calls'' of
                  Some tool_calls \<Rightarrow>
                    if role = ''assistant'' then append_chat_tool_calls_to_responses tool_calls input
                    else Inr input
                | None \<Rightarrow> Inr input) (\<lambda>input. Inr (instructions, input)))
           else if role = ''tool'' then
             bind_res (ok_or (Option.bind (obj_str m ''tool_call_id'')
                   (\<lambda>c. if is_blank c then None else Some c))
                 (msg_error ''Tool messages require tool_call_id.'')) (\<lambda>call_id.
               let output = (case bt_get m ''content'' of Some c \<Rightarrow> c | None \<Rightarrow> JNull)
               in Inr (instructions, input @
                    [jobj [(''type'', JString ''function_call_output''), (''call_id'', JString call_id),
                       (''output'', JString (chat_tool_output_to_string sd output))]]))
           else Inl (msg_error ''Chat message role is unsupported by the compatibility path.''))))"

definition CHAT_TO_RESPONSES_KEYS :: "string list" where
  "CHAT_TO_RESPONSES_KEYS =
     [''temperature'', ''top_p'', ''stream'', ''store'', ''metadata'', ''parallel_tool_calls'',
      ''prompt_cache_key'', ''prompt_cache_retention'']"

definition request_model :: "string option \<Rightarrow> json_map \<Rightarrow> rewrite_error + string" where
  "request_model backend_model m =
     ok_or (case backend_model of Some b \<Rightarrow> Some b | None \<Rightarrow> obj_str m ''model'')
       (with_param ''Missing required parameter: model.'' PModel)"

text \<open>\<open>object.get("tools").filter(|value| !value.is_null())\<close>\<close>

definition tools_field :: "json_map \<Rightarrow> json option" where
  "tools_field m = Option.bind (bt_get m ''tools'') (\<lambda>v. if is_null v then None else Some v)"

definition insert_tools :: "json list \<Rightarrow> json_map \<Rightarrow> json_map" where
  "insert_tools tools m = (if tools = [] then m else bt_insert ''tools'' (JArray tools) m)"

definition responses_base :: "json_map \<Rightarrow> string \<Rightarrow> string list \<Rightarrow> json list \<Rightarrow> json_map" where
  "responses_base m model instructions input =
     (let r = bt_insert ''model'' (JString model) [];
          r = (if instructions = [] then r
               else bt_insert ''instructions'' (JString (join [LF, LF] instructions)) r);
          r = bt_insert ''input'' (JArray input) r;
          r = copy_keys CHAT_TO_RESPONSES_KEYS m r;
          r = (case (case bt_get m ''max_completion_tokens'' of
                       Some v \<Rightarrow> Some v | None \<Rightarrow> bt_get m ''max_tokens'') of
                 Some v \<Rightarrow> bt_insert ''max_output_tokens'' v r | None \<Rightarrow> r)
      in case bt_get m ''response_format'' of
           Some f \<Rightarrow> bt_insert ''text'' (jobj [(''format'', f)]) r | None \<Rightarrow> r)"

definition chat_object_to_responses ::
  "serde \<Rightarrow> json_map \<Rightarrow> string option \<Rightarrow> responses_store_policy \<Rightarrow>
     responses_max_output_tokens_policy \<Rightarrow> toml_map \<Rightarrow> rewrite_error + json_map" where
  "chat_object_to_responses sd m backend_model store_policy mot_policy extra_body =
     bind_res (validate_chat_to_responses_options m) (\<lambda>_.
     bind_res (ok_or (Option.bind (bt_get m ''messages'') as_array)
         (with_param ''Missing required parameter: messages.'' PMessages)) (\<lambda>messages.
     bind_res (fold_res (append_chat_message_to_responses sd) messages ([], [])) (\<lambda>(instructions, input).
     bind_res (request_model backend_model m) (\<lambda>model.
     let r = responses_base m model instructions input
     in bind_res (case tools_field m of
            Some tools \<Rightarrow> bind_res (chat_tools_to_responses_tools tools) (\<lambda>ts. Inr (insert_tools ts r))
          | None \<Rightarrow> Inr r) (\<lambda>r.
        bind_res (case bt_get m ''tool_choice'' of
            Some tc \<Rightarrow> bind_res (chat_tool_choice_to_responses tc) (\<lambda>tc. Inr (bt_insert ''tool_choice'' tc r))
          | None \<Rightarrow> Inr r) (\<lambda>r.
        let r = (if store_policy = ForceFalse \<and> \<not> bt_contains r ''store''
                 then bt_insert ''store'' (JBool False) r else r)
        in Inr (apply_extra_body (rewrite_native_responses_max_output_tokens r mot_policy)
             extra_body)))))))"

definition rewrite_chat_request_as_responses ::
  "serde \<Rightarrow> string \<Rightarrow> string option \<Rightarrow> string option \<Rightarrow> responses_store_policy \<Rightarrow>
     responses_max_output_tokens_policy \<Rightarrow> toml_map \<Rightarrow> rewrite_error + string" where
  "rewrite_chat_request_as_responses sd body content_type backend_model store_policy mot_policy extra_body =
     (if body = [] then Inl (msg_error ''Missing required parameter: messages.'')
      else if \<not> should_parse_json content_type body then
        Inl (rewrite_error_new ''Chat-to-responses conversion requires a JSON request body.'' None)
      else
        bind_res (ok_or (from_slice sd body)
            (rewrite_error_new ''Chat-to-responses conversion requires valid JSON.'' None)) (\<lambda>v.
        bind_res (ok_or (as_object v)
            (rewrite_error_new ''Chat request body must be a JSON object.'' None)) (\<lambda>m.
        bind_res (chat_object_to_responses sd m backend_model store_policy mot_policy extra_body) (\<lambda>r.
          ok_or (to_vec sd (JObject r))
            (rewrite_error_new ''Chat-to-responses conversion failed to serialize JSON.'' None)))))"

section \<open>Responses input as chat messages\<close>

definition responses_function_call_to_chat_tool_call :: "json_map \<Rightarrow> rewrite_error + json" where
  "responses_function_call_to_chat_tool_call m =
     bind_res (ok_or (string_field m ''call_id'')
         (with_param ''function_call input items require call_id.'' PInput)) (\<lambda>call_id.
     bind_res (ok_or (string_field m ''name'')
         (with_param ''function_call input items require name.'' PInput)) (\<lambda>nm.
       let arguments = (case string_field m ''arguments'' of Some a \<Rightarrow> a | None \<Rightarrow> ''{}'')
       in Inr (jobj [(''id'', JString call_id), (''type'', JString ''function''),
            (''function'', jobj [(''name'', JString nm), (''arguments'', JString arguments)])])))"

definition assistant_call_message :: "json \<Rightarrow> json" where
  "assistant_call_message tool_call =
     jobj [(''role'', JString ''assistant''), (''content'', JString []),
       (''tool_calls'', JArray [tool_call])]"

definition responses_function_call_to_chat_message :: "json_map \<Rightarrow> rewrite_error + json" where
  "responses_function_call_to_chat_message m =
     bind_res (responses_function_call_to_chat_tool_call m) (\<lambda>call. Inr (assistant_call_message call))"

text \<open>The last message, when the call is to be added to it: its object and its calls.\<close>

definition open_call_message :: "json list \<Rightarrow> (json_map \<times> json list) option" where
  "open_call_message messages =
     (if messages = [] then None
      else Option.bind (as_object (last messages)) (\<lambda>m.
        if obj_str m ''role'' = Some ''assistant''
        then map_option (\<lambda>calls. (m, calls)) (Option.bind (bt_get m ''tool_calls'') as_array)
        else None))"

definition append_responses_function_call_to_chat_messages ::
  "json_map \<Rightarrow> json list \<Rightarrow> rewrite_error + json list" where
  "append_responses_function_call_to_chat_messages m messages =
     bind_res (responses_function_call_to_chat_tool_call m) (\<lambda>tool_call.
       case open_call_message messages of
         Some (msg, calls) \<Rightarrow>
           let msg = bt_insert ''tool_calls'' (JArray (calls @ [tool_call])) msg;
               msg = (case bt_get msg ''content'' of
                        Some c \<Rightarrow> if is_null c then bt_insert ''content'' (JString []) msg else msg
                      | None \<Rightarrow> bt_insert ''content'' (JString []) msg)
           in Inr (butlast messages @ [JObject msg])
       | None \<Rightarrow> Inr (messages @ [assistant_call_message tool_call]))"

definition responses_tool_output_to_string :: "serde \<Rightarrow> json \<Rightarrow> string" where
  "responses_tool_output_to_string sd output =
     (case output of
        JString text \<Rightarrow> text
      | JArray items \<Rightarrow>
          let text = join [LF] (text_parts items)
          in if text \<noteq> [] then text else to_string sd output
      | _ \<Rightarrow> to_string sd output)"

definition responses_function_output_to_chat_message :: "serde \<Rightarrow> json_map \<Rightarrow> rewrite_error + json" where
  "responses_function_output_to_chat_message sd m =
     bind_res (ok_or (string_field m ''call_id'')
         (input_error ''function_call_output input items require call_id.'')) (\<lambda>call_id.
     bind_res (ok_or (bt_get m ''output'')
         (input_error ''function_call_output input items require output.'')) (\<lambda>output.
       Inr (jobj [(''role'', JString ''tool''), (''tool_call_id'', JString call_id),
         (''content'', JString (responses_tool_output_to_string sd output))])))"

definition responses_reasoning_to_chat_message :: "json_map \<Rightarrow> rewrite_error + json" where
  "responses_reasoning_to_chat_message m =
     (case Option.bind (bt_get m ''summary'') as_array of
        None \<Rightarrow> Inr (jobj [(''role'', JString ''assistant''), (''content'', JString [])])
      | Some summary \<Rightarrow>
          Inr (jobj [(''role'', JString ''assistant''),
            (''content'', JString (join [LF] (text_parts summary)))]))"

definition responses_image_part_to_chat :: "json_map \<Rightarrow> rewrite_error + json" where
  "responses_image_part_to_chat m =
     bind_res (ok_or (case bt_get m ''image_url'' of Some v \<Rightarrow> Some v | None \<Rightarrow> bt_get m ''url'')
         (input_error ''Responses image content parts require image_url or url.'')) (\<lambda>image_url.
     bind_res (case image_url of
           JString url \<Rightarrow> Inr (bt_insert ''url'' (JString url) [])
         | JObject img \<Rightarrow> Inr img
         | _ \<Rightarrow> Inl (input_error ''Responses image content image_url must be a string or object.'')) (\<lambda>img.
       let img = (case obj_str m ''url'' of
               Some url \<Rightarrow> if bt_contains img ''url'' then img else bt_insert ''url'' (JString url) img
             | None \<Rightarrow> img);
           img = (case bt_get m ''detail'' of
               Some detail \<Rightarrow> if bt_contains img ''detail'' then img else bt_insert ''detail'' detail img
             | None \<Rightarrow> img)
       in if \<not> bt_contains img ''url'' then
            Inl (input_error ''Responses image content parts require an image URL.'')
          else Inr (jobj [(''type'', JString ''image_url''), (''image_url'', JObject img)])))"

definition responses_part_step :: "json \<Rightarrow> json list \<times> bool \<Rightarrow> rewrite_error + json list \<times> bool" where
  "responses_part_step part s =
     (let (parts, text_only) = s
      in bind_res (ok_or (as_object part) (input_error ''Responses content parts must be objects.'')) (\<lambda>m.
        let part_type = (case obj_str m ''type'' of Some t \<Rightarrow> t | None \<Rightarrow> ''input_text'')
        in if part_type \<in> {''input_text'', ''output_text'', ''text''} then
             bind_res (ok_or (case obj_str m ''text'' of Some t \<Rightarrow> Some t | None \<Rightarrow> obj_str m ''content'')
                 (input_error ''Responses text content parts require text.'')) (\<lambda>text.
               Inr (parts @ [jobj [(''type'', JString ''text''), (''text'', JString text)]], text_only))
           else if part_type \<in> {''image_url'', ''input_image''} then
             bind_res (responses_image_part_to_chat m) (\<lambda>p. Inr (parts @ [p], False))
           else if part_type = ''refusal'' then
             Inr (parts @ [jobj [(''type'', JString ''text''),
               (''text'', JString (case obj_str m ''refusal'' of Some r \<Rightarrow> r | None \<Rightarrow> []))]], text_only)
           else Inl (input_error ''Responses content part type is unsupported by the compatibility path.'')))"

definition responses_content_to_chat :: "serde \<Rightarrow> json \<Rightarrow> rewrite_error + json" where
  "responses_content_to_chat sd content =
     (case content of
        JString _ \<Rightarrow> Inr content
      | JArray parts \<Rightarrow>
          bind_res (fold_res responses_part_step parts ([], True)) (\<lambda>(chat_parts, text_only).
            Inr (if text_only then JString (concat (text_parts chat_parts)) else JArray chat_parts))
      | _ \<Rightarrow> Inr (JString (to_string sd content)))"

definition responses_message_item_to_chat :: "serde \<Rightarrow> json_map \<Rightarrow> rewrite_error + json" where
  "responses_message_item_to_chat sd m =
     (let role = (case obj_str m ''role'' of Some r \<Rightarrow> r | None \<Rightarrow> ''user'')
      in bind_res
           (if role = ''developer'' then Inr ''system''
            else if role \<in> {''system'', ''user'', ''assistant'', ''tool''} then Inr role
            else Inl (input_error ''Responses input item role is unsupported by the compatibility path.'')) (\<lambda>role.
         bind_res (ok_or (bt_get m ''content'')
             (with_param ''Responses input messages require content.'' PInput)) (\<lambda>content.
         bind_res (responses_content_to_chat sd content) (\<lambda>chat_content.
           let message = bt_insert ''content'' chat_content (bt_insert ''role'' (JString role) []);
               message = (case bt_get m ''name'' of Some nm \<Rightarrow> bt_insert ''name'' nm message | None \<Rightarrow> message);
               message = (case (case bt_get m ''tool_call_id'' of
                                  Some i \<Rightarrow> Some i | None \<Rightarrow> bt_get m ''call_id'') of
                   Some i \<Rightarrow> bt_insert ''tool_call_id'' i message | None \<Rightarrow> message)
           in Inr (JObject message)))))"

definition responses_input_item_to_chat_message :: "serde \<Rightarrow> json \<Rightarrow> rewrite_error + json" where
  "responses_input_item_to_chat_message sd item =
     (case as_str item of
        Some text \<Rightarrow> Inr (jobj [(''role'', JString ''user''), (''content'', JString text)])
      | None \<Rightarrow>
          bind_res (ok_or (as_object item)
              (input_error ''Responses input items must be objects or strings.'')) (\<lambda>m.
            if obj_str m ''type'' = Some ''function_call'' then responses_function_call_to_chat_message m
            else if obj_str m ''type'' = Some ''function_call_output'' then
              responses_function_output_to_chat_message sd m
            else if obj_str m ''type'' = Some ''reasoning'' then responses_reasoning_to_chat_message m
            else responses_message_item_to_chat sd m))"

definition responses_input_step :: "serde \<Rightarrow> json \<Rightarrow> json list \<Rightarrow> rewrite_error + json list" where
  "responses_input_step sd item messages =
     (case as_object item of
        Some m \<Rightarrow>
          if obj_str m ''type'' = Some ''function_call''
          then append_responses_function_call_to_chat_messages m messages
          else bind_res (responses_input_item_to_chat_message sd item) (\<lambda>msg. Inr (messages @ [msg]))
      | None \<Rightarrow> bind_res (responses_input_item_to_chat_message sd item) (\<lambda>msg. Inr (messages @ [msg])))"

definition responses_input_to_chat_messages :: "serde \<Rightarrow> json \<Rightarrow> rewrite_error + json list" where
  "responses_input_to_chat_messages sd input =
     (case input of
        JString text \<Rightarrow> Inr [jobj [(''role'', JString ''user''), (''content'', JString text)]]
      | JArray items \<Rightarrow> fold_res (responses_input_step sd) items []
      | _ \<Rightarrow> Inl (input_error ''input must be a string or an array.''))"

definition RESPONSES_TO_CHAT_KEYS :: "string list" where
  "RESPONSES_TO_CHAT_KEYS =
     [''temperature'', ''top_p'', ''stream'', ''stop'', ''presence_penalty'', ''frequency_penalty'',
      ''logit_bias'', ''user'', ''seed'', ''n'', ''logprobs'', ''top_logprobs'',
      ''parallel_tool_calls'', ''stream_options'', ''response_format'', ''max_tokens'',
      ''prompt_cache_key'', ''prompt_cache_retention'']"

definition instructions_message :: "json_map \<Rightarrow> json list" where
  "instructions_message m =
     (case obj_str m ''instructions'' of
        Some i \<Rightarrow>
          if is_blank i then [] else [jobj [(''role'', JString ''system''), (''content'', JString i)]]
      | None \<Rightarrow> [])"

definition chat_base :: "json_map \<Rightarrow> string \<Rightarrow> json list \<Rightarrow> json_map" where
  "chat_base m model messages =
     (let chat = bt_insert ''model'' (JString model) [];
          chat = bt_insert ''messages'' (JArray (instructions_message m @ messages)) chat;
          chat = copy_keys RESPONSES_TO_CHAT_KEYS m chat;
          chat = (case bt_get m ''max_output_tokens'' of
                    Some v \<Rightarrow> bt_insert ''max_tokens'' v chat | None \<Rightarrow> chat)
      in case Option.bind (Option.bind (bt_get m ''text'') as_object) (\<lambda>t. bt_get t ''format'') of
           Some f \<Rightarrow> bt_insert ''response_format'' f chat | None \<Rightarrow> chat)"

definition responses_object_to_chat ::
  "serde \<Rightarrow> json_map \<Rightarrow> string option \<Rightarrow> tool_schema_mode \<Rightarrow> chat_stream_usage_policy \<Rightarrow> toml_map \<Rightarrow>
     rewrite_error + json_map" where
  "responses_object_to_chat sd m backend_model mode usage_policy extra_body =
     (if bt_contains m ''previous_response_id'' then
        Inl (rewrite_error_new
          ''previous_response_id is not supported by the responses-to-chat compatibility path.''
          (Some ''previous_response_id''))
      else
        bind_res (ok_or (bt_get m ''input'') (with_param ''Missing required parameter: input.'' PInput)) (\<lambda>input.
        bind_res (responses_input_to_chat_messages sd input) (\<lambda>messages.
        bind_res (request_model backend_model m) (\<lambda>model.
        let chat = chat_base m model messages
        in bind_res (case tools_field m of
               Some tools \<Rightarrow>
                 bind_res (responses_tools_to_chat_tools tools mode) (\<lambda>ts. Inr (insert_tools ts chat))
             | None \<Rightarrow> Inr chat) (\<lambda>chat.
           let chat = (case bt_get m ''tool_choice'' of
                 Some tc \<Rightarrow> bt_insert ''tool_choice'' (responses_tool_choice_to_chat tc) chat
               | None \<Rightarrow> chat)
           in Inr (apply_extra_body (apply_chat_stream_usage_policy chat usage_policy) extra_body))))))"

definition rewrite_responses_request_as_chat ::
  "serde \<Rightarrow> string \<Rightarrow> string option \<Rightarrow> string option \<Rightarrow> tool_schema_mode \<Rightarrow> chat_stream_usage_policy \<Rightarrow>
     toml_map \<Rightarrow> rewrite_error + string" where
  "rewrite_responses_request_as_chat sd body content_type backend_model mode usage_policy extra_body =
     (if body = [] then Inl (input_error ''Missing required parameter: input.'')
      else if \<not> should_parse_json content_type body then
        Inl (rewrite_error_new ''Responses-to-chat conversion requires a JSON request body.'' None)
      else
        bind_res (ok_or (from_slice sd body)
            (rewrite_error_new ''Responses-to-chat conversion requires valid JSON.'' None)) (\<lambda>v.
        bind_res (ok_or (as_object v)
            (rewrite_error_new ''Responses request body must be a JSON object.'' None)) (\<lambda>m.
        bind_res (responses_object_to_chat sd m backend_model mode usage_policy extra_body) (\<lambda>chat.
          ok_or (to_vec sd (JObject chat))
            (rewrite_error_new ''Responses-to-chat conversion failed to serialize JSON.'' None)))))"

end
