(* ===== verification/Anthropic_Compat.thy ===== *)
theory Anthropic_Compat
  imports Responses_Compat
begin

text \<open>
  \<open>onair-core/src/openai/anthropic_compat.rs\<close>: chat requests as Anthropic Messages requests, and
  Anthropic messages as chat completions.
\<close>

section \<open>Option validation\<close>

definition CHAT_TO_ANTHROPIC_KNOWN :: "string list" where
  "CHAT_TO_ANTHROPIC_KNOWN =
     [''model'', ''messages'', ''tools'', ''tool_choice'', ''max_tokens'', ''max_completion_tokens'',
      ''stop'', ''temperature'', ''top_p'', ''stream'', ''n'', ''logprobs'', ''top_logprobs'',
      ''presence_penalty'', ''frequency_penalty'', ''logit_bias'', ''seed'', ''response_format'',
      ''parallel_tool_calls'', ''stream_options'', ''user'', ''audio'', ''modalities'', ''prediction'']"

definition CHAT_TO_ANTHROPIC_REJECTED :: "string list" where
  "CHAT_TO_ANTHROPIC_REJECTED =
     [''presence_penalty'', ''frequency_penalty'', ''logit_bias'', ''seed'', ''response_format'',
      ''user'', ''audio'', ''modalities'', ''prediction'']"

definition false_or_null :: "json \<Rightarrow> bool" where
  "false_or_null v \<longleftrightarrow> v = JBool False \<or> v = JNull"

definition validate_stream_options :: "json \<Rightarrow> rewrite_error + unit" where
  "validate_stream_options stream_options =
     (case as_object stream_options of
        None \<Rightarrow> Inl (rewrite_error_new ''stream_options must be an object.'' (Some ''stream_options''))
      | Some m \<Rightarrow>
          (case find (\<lambda>e. fst e \<noteq> ''include_usage'') m of
             Some (key, _) \<Rightarrow>
               Inl (rewrite_error_new (''stream_options.'' @ key
                   @ '' is not supported by the chat-to-messages compatibility path.'')
                 (Some ''stream_options''))
           | None \<Rightarrow>
               (case bt_get m ''include_usage'' of
                  Some v \<Rightarrow>
                    if as_bool v = None \<and> \<not> is_null v then
                      Inl (rewrite_error_new ''stream_options.include_usage must be a boolean.''
                        (Some ''stream_options''))
                    else Inr ()
                | None \<Rightarrow> Inr ())))"

definition validate_chat_to_anthropic_options :: "json_map \<Rightarrow> rewrite_error + unit" where
  "validate_chat_to_anthropic_options m =
     (case find (\<lambda>e. fst e \<notin> set CHAT_TO_ANTHROPIC_KNOWN) m of
        Some (key, _) \<Rightarrow> Inl (rewrite_error_new (''Unsupported parameter: '' @ key @ ''.'') (Some key))
      | None \<Rightarrow>
          if bt_contains m ''n'' \<and> Option.bind (bt_get m ''n'') as_u64 \<noteq> Some 1 then
            Inl (with_param ''n > 1 is not supported by the chat-to-messages compatibility path.'' PN)
          else if \<not> pred_option false_or_null (bt_get m ''logprobs'') then
            Inl (with_param ''logprobs is not supported by the chat-to-messages compatibility path.'' PLogprobs)
          else if bt_contains m ''top_logprobs'' then
            Inl (with_param ''top_logprobs is not supported by the chat-to-messages compatibility path.''
              PTopLogprobs)
          else
            (case find (bt_contains m) CHAT_TO_ANTHROPIC_REJECTED of
               Some key \<Rightarrow>
                 Inl (rewrite_error_new
                   (key @ '' is not supported by the chat-to-messages compatibility path.'') (Some key))
             | None \<Rightarrow>
                 if \<not> pred_option false_or_null (bt_get m ''parallel_tool_calls'') then
                   Inl (rewrite_error_new
                     ''parallel_tool_calls is not supported by the chat-to-messages compatibility path.''
                     (Some ''parallel_tool_calls''))
                 else (case bt_get m ''stream_options'' of
                     Some so \<Rightarrow> validate_stream_options so | None \<Rightarrow> Inr ())))"

section \<open>Scalar fields\<close>

definition u32_try_from :: "u64 \<Rightarrow> u32 option" where
  "u32_try_from n = (if unat n < 2 ^ 32 then Some (ucast n) else None)"

definition u32_field :: "json_map \<Rightarrow> string \<Rightarrow> u32 option" where
  "u32_field m k = Option.bind (Option.bind (bt_get m k) as_u64) u32_try_from"

definition first_some :: "'a option \<Rightarrow> 'a option \<Rightarrow> 'a option" where
  "first_some a b = (case a of Some x \<Rightarrow> Some x | None \<Rightarrow> b)"

definition resolve_max_tokens :: "json_map \<Rightarrow> u32 option \<Rightarrow> rewrite_error + u32" where
  "resolve_max_tokens m anthropic_max_tokens =
     (let max_tokens = u32_field m ''max_tokens'';
          max_completion_tokens = u32_field m ''max_completion_tokens''
      in if max_tokens \<noteq> None \<and> max_completion_tokens \<noteq> None \<and> max_tokens \<noteq> max_completion_tokens then
           Inl (rewrite_error_new ''max_tokens and max_completion_tokens disagree.'' (Some ''max_tokens''))
         else ok_or (first_some (first_some max_tokens max_completion_tokens) anthropic_max_tokens)
           (rewrite_error_new ''Missing required parameter: max_tokens.'' (Some ''max_tokens'')))"

definition normalize_stop_sequences :: "json \<Rightarrow> rewrite_error + json" where
  "normalize_stop_sequences stop =
     (case stop of
        JString text \<Rightarrow> Inr (JArray [JString text])
      | JArray vs \<Rightarrow> Inr (JArray vs)
      | JNull \<Rightarrow> Inr JNull
      | _ \<Rightarrow> Inl (rewrite_error_new ''stop must be a string or array.'' (Some ''stop'')))"

section \<open>Messages\<close>

definition non_blank :: "string option \<Rightarrow> string option" where
  "non_blank m = Option.bind m (\<lambda>s. if is_blank s then None else Some s)"

text \<open>The loop shared by system and tool messages: only text parts, concatenated.\<close>

definition text_part ::
  "rewrite_error \<Rightarrow> rewrite_error \<Rightarrow> rewrite_error \<Rightarrow> json \<Rightarrow> string \<Rightarrow> rewrite_error + string" where
  "text_part not_object no_text not_text part text =
     bind_res (ok_or (as_object part) not_object) (\<lambda>m.
       if obj_str m ''type'' = Some ''text'' then
         bind_res (ok_or (obj_str m ''text'') no_text) (\<lambda>t. Inr (text @ t))
       else Inl not_text)"

definition chat_instruction_text :: "json \<Rightarrow> rewrite_error + string" where
  "chat_instruction_text content =
     (case content of
        JString text \<Rightarrow> Inr text
      | JArray parts \<Rightarrow>
          fold_res (text_part (msg_error ''System and developer content parts must be objects.'')
              (msg_error ''System and developer text content parts require text.'')
              (msg_error ''System and developer messages only support text content.'')) parts []
      | JNull \<Rightarrow> Inr []
      | _ \<Rightarrow> Inl (msg_error ''System and developer message content must be text.''))"

definition text_block :: "string \<Rightarrow> json" where
  "text_block text = jobj [(''type'', JString ''text''), (''text'', JString text)]"

definition chat_part_to_block :: "json \<Rightarrow> rewrite_error + json" where
  "chat_part_to_block part =
     bind_res (ok_or (as_object part) (msg_error ''Chat content parts must be objects.'')) (\<lambda>m.
       if obj_str m ''type'' = Some ''text'' then
         bind_res (ok_or (obj_str m ''text'') (msg_error ''Chat text content parts require text.''))
           (\<lambda>text. Inr (text_block text))
       else Inl (msg_error
         ''Chat content part type is unsupported by the chat-to-messages compatibility path.''))"

definition chat_message_content_to_anthropic_blocks :: "json \<Rightarrow> bool \<Rightarrow> rewrite_error + json list" where
  "chat_message_content_to_anthropic_blocks content allow_empty_null =
     (case content of
        JString text \<Rightarrow> Inr [text_block text]
      | JArray parts \<Rightarrow> map_res chat_part_to_block parts
      | JNull \<Rightarrow> Inr (if allow_empty_null then [] else [text_block []])
      | _ \<Rightarrow> Inl (msg_error ''Chat message content must be a string, array, or null.''))"

definition tool_message_content_to_anthropic :: "serde \<Rightarrow> json option \<Rightarrow> rewrite_error + json" where
  "tool_message_content_to_anthropic sd content =
     (case content of
        None \<Rightarrow> Inr (JString [])
      | Some (JString text) \<Rightarrow> Inr (JString text)
      | Some (JArray parts) \<Rightarrow>
          bind_res (fold_res (text_part (msg_error ''Tool message content parts must be objects.'')
              (msg_error ''Tool text content parts require text.'')
              (msg_error ''Tool messages only support text content.'')) parts []) (\<lambda>text. Inr (JString text))
      | Some JNull \<Rightarrow> Inr (JString [])
      | Some v \<Rightarrow> Inr (JString (to_string sd v)))"

text \<open>One tool call of an assistant message: the block and the id it registers.\<close>

definition tool_call_to_block :: "serde \<Rightarrow> nat \<Rightarrow> json \<Rightarrow> rewrite_error + string \<times> json" where
  "tool_call_to_block sd index tool_call =
     bind_res (ok_or (as_object tool_call) (msg_error ''assistant tool_calls must be objects.'')) (\<lambda>m.
       if obj_str m ''type'' \<noteq> None \<and> obj_str m ''type'' \<noteq> Some ''function'' then
         Inl (msg_error ''Only function tool calls are supported by the chat-to-messages compatibility path.'')
       else
         bind_res (ok_or (Option.bind (bt_get m ''function'') as_object)
             (msg_error ''assistant function tool calls require function.'')) (\<lambda>fn.
         bind_res (ok_or (non_blank (obj_str fn ''name''))
             (msg_error ''assistant function tool calls require function.name.'')) (\<lambda>nm.
         let arguments = (case obj_str fn ''arguments'' of Some a \<Rightarrow> a | None \<Rightarrow> ''{}'')
         in bind_res (ok_or (from_slice sd arguments)
             (msg_error ''assistant function tool call arguments must be valid JSON.'')) (\<lambda>input.
           let tool_use_id = (case non_blank (obj_str m ''id'') of
                 Some i \<Rightarrow> i | None \<Rightarrow> ''call_'' @ show_nat index)
           in Inr (tool_use_id, jobj [(''type'', JString ''tool_use''), (''id'', JString tool_use_id),
                (''name'', JString nm), (''input'', input)])))))"

record anthropic_state =
  as_system_parts :: "string list"
  as_messages :: "json list"
  as_pending :: "string list"

definition append_assistant_calls ::
  "serde \<Rightarrow> json list \<Rightarrow> string list \<times> json list \<Rightarrow> rewrite_error + string list \<times> json list" where
  "append_assistant_calls sd calls s =
     fold_res (\<lambda>(index, call) (pending, blocks).
         bind_res (tool_call_to_block sd index call) (\<lambda>(i, block).
           Inr (bs_insert i pending, blocks @ [block])))
       (List.enumerate 0 calls) s"

definition append_chat_message_to_anthropic ::
  "serde \<Rightarrow> json \<Rightarrow> anthropic_state \<Rightarrow> rewrite_error + anthropic_state" where
  "append_chat_message_to_anthropic sd message s =
     bind_res (ok_or (as_object message) (with_param ''Chat messages must be objects.'' PMessages)) (\<lambda>m.
     bind_res (ok_or (obj_str m ''role'') (with_param ''Chat messages require role.'' PMessages)) (\<lambda>role.
       if role = ''system'' \<or> role = ''developer'' then
         bind_res (ok_or (bt_get m ''content'')
             (msg_error ''System and developer messages require content.'')) (\<lambda>content.
         bind_res (chat_instruction_text content) (\<lambda>text.
           Inr (if is_blank text then s else s\<lparr>as_system_parts := as_system_parts s @ [text]\<rparr>)))
       else if role = ''user'' then
         bind_res (chat_message_content_to_anthropic_blocks
             (case bt_get m ''content'' of Some c \<Rightarrow> c | None \<Rightarrow> JNull) False) (\<lambda>content.
           Inr (s\<lparr>as_messages := as_messages s @
             [jobj [(''role'', JString ''user''), (''content'', JArray content)]]\<rparr>))
       else if role = ''assistant'' then
         bind_res (chat_message_content_to_anthropic_blocks
             (case bt_get m ''content'' of Some c \<Rightarrow> c | None \<Rightarrow> JNull) True) (\<lambda>blocks.
         bind_res
           (case Option.bind (bt_get m ''tool_calls'') (\<lambda>v. if is_null v then None else Some v) of
              Some tool_calls \<Rightarrow>
                bind_res (ok_or (as_array tool_calls)
                    (msg_error ''assistant tool_calls must be an array.'')) (\<lambda>calls.
                  append_assistant_calls sd calls (as_pending s, blocks))
            | None \<Rightarrow> Inr (as_pending s, blocks)) (\<lambda>(pending, blocks).
           Inr (s\<lparr>as_pending := pending, as_messages := as_messages s @
             [jobj [(''role'', JString ''assistant''), (''content'', JArray blocks)]]\<rparr>)))
       else if role = ''tool'' then
         bind_res (ok_or (non_blank (obj_str m ''tool_call_id''))
             (msg_error ''Tool messages require tool_call_id.'')) (\<lambda>tool_call_id.
         let pending = (if tool_call_id \<in> set (as_pending s) then as_pending s
                        else bs_insert tool_call_id (as_pending s))
         in bind_res (tool_message_content_to_anthropic sd (bt_get m ''content'')) (\<lambda>result_content.
           Inr (s\<lparr>as_pending := pending, as_messages := as_messages s @
             [jobj [(''role'', JString ''user''),
               (''content'', JArray [jobj [(''type'', JString ''tool_result''),
                  (''tool_use_id'', JString tool_call_id), (''content'', result_content)]])]]\<rparr>)))
       else Inl (msg_error ''Chat message role is unsupported by the compatibility path.'')))"

section \<open>Tools\<close>

definition chat_tool_to_anthropic_tool :: "json \<Rightarrow> rewrite_error + json" where
  "chat_tool_to_anthropic_tool tool =
     bind_res (ok_or (as_object tool) (with_param ''tool definitions must be objects.'' PTools)) (\<lambda>m.
       if obj_str m ''type'' \<noteq> Some ''function'' then
         Inl (with_param ''Only function tools are supported by the chat-to-messages compatibility path.'' PTools)
       else
         bind_res (ok_or (Option.bind (bt_get m ''function'') as_object)
             (with_param ''function tools require function.'' PTools)) (\<lambda>fn.
         bind_res (ok_or (non_blank (obj_str fn ''name''))
             (with_param ''function tools require function.name.'' PTools)) (\<lambda>nm.
           let t = bt_insert ''name'' (JString nm) [];
               t = (case bt_get fn ''description'' of Some d \<Rightarrow> bt_insert ''description'' d t | None \<Rightarrow> t);
               schema = (case bt_get fn ''parameters'' of
                    Some p \<Rightarrow> p
                  | None \<Rightarrow> jobj [(''type'', JString ''object''), (''properties'', JObject [])])
           in Inr (JObject (bt_insert ''input_schema'' schema t)))))"

definition chat_tools_to_anthropic_tools :: "json \<Rightarrow> rewrite_error + json list" where
  "chat_tools_to_anthropic_tools tools =
     bind_res (ok_or (as_array tools) (with_param ''tools must be an array.'' PTools))
       (map_res chat_tool_to_anthropic_tool)"

definition chat_tool_choice_to_anthropic :: "json \<Rightarrow> rewrite_error + json" where
  "chat_tool_choice_to_anthropic tool_choice =
     (let err = (\<lambda>m. Inl (rewrite_error_new m (Some ''tool_choice'')))
      in case tool_choice of
        JString v \<Rightarrow>
          if v = ''auto'' then Inr (jobj [(''type'', JString ''auto'')])
          else if v = ''required'' then Inr (jobj [(''type'', JString ''any'')])
          else if v = ''none'' then Inr (jobj [(''type'', JString ''none'')])
          else err ''tool_choice value is unsupported by the chat-to-messages compatibility path.''
      | JObject m \<Rightarrow>
          if obj_str m ''type'' \<noteq> Some ''function'' then
            err ''tool_choice object is unsupported by the chat-to-messages compatibility path.''
          else (case Option.bind (bt_get m ''function'') as_object of
              None \<Rightarrow> err ''function tool_choice requires function.''
            | Some fn \<Rightarrow> (case non_blank (obj_str fn ''name'') of
                  None \<Rightarrow> err ''function tool_choice requires function.name.''
                | Some nm \<Rightarrow> Inr (jobj [(''type'', JString ''tool''), (''name'', JString nm)])))
      | _ \<Rightarrow> err ''tool_choice is unsupported by the chat-to-messages compatibility path.'')"

section \<open>The request\<close>

definition anthropic_base :: "string \<Rightarrow> json list \<Rightarrow> u32 \<Rightarrow> string list \<Rightarrow> json_map" where
  "anthropic_base model messages max_tokens system_parts =
     (let a = bt_insert ''model'' (JString model) [];
          a = bt_insert ''messages'' (JArray messages) a;
          a = bt_insert ''max_tokens'' (jnat (ucast max_tokens)) a
      in if system_parts = [] then a
         else bt_insert ''system'' (JString (join [LF, LF] system_parts)) a)"

definition chat_object_to_anthropic ::
  "serde \<Rightarrow> json_map \<Rightarrow> string option \<Rightarrow> u32 option \<Rightarrow> toml_map \<Rightarrow> rewrite_error + json_map" where
  "chat_object_to_anthropic sd m backend_model anthropic_max_tokens extra_body =
     bind_res (validate_chat_to_anthropic_options m) (\<lambda>_.
     bind_res (ok_or (Option.bind (bt_get m ''messages'') as_array)
         (with_param ''Missing required parameter: messages.'' PMessages)) (\<lambda>messages.
     bind_res (request_model backend_model m) (\<lambda>model.
     bind_res (resolve_max_tokens m anthropic_max_tokens) (\<lambda>max_tokens.
     bind_res (fold_res (append_chat_message_to_anthropic sd) messages
         \<lparr>as_system_parts = [], as_messages = [], as_pending = []\<rparr>) (\<lambda>s.
     let a = anthropic_base model (as_messages s) max_tokens (as_system_parts s)
     in bind_res (case bt_get m ''stop'' of
            Some stop \<Rightarrow> bind_res (normalize_stop_sequences stop) (\<lambda>v. Inr (bt_insert ''stop_sequences'' v a))
          | None \<Rightarrow> Inr a) (\<lambda>a.
        let a = copy_keys [''temperature'', ''top_p'', ''stream''] m a
        in bind_res (case tools_field m of
            Some tools \<Rightarrow> bind_res (chat_tools_to_anthropic_tools tools) (\<lambda>ts. Inr (insert_tools ts a))
          | None \<Rightarrow> Inr a) (\<lambda>a.
        bind_res (case bt_get m ''tool_choice'' of
            Some tc \<Rightarrow> bind_res (chat_tool_choice_to_anthropic tc) (\<lambda>tc. Inr (bt_insert ''tool_choice'' tc a))
          | None \<Rightarrow> Inr a) (\<lambda>a.
        Inr (apply_extra_body a extra_body)))))))))"

definition rewrite_chat_request_as_anthropic ::
  "serde \<Rightarrow> string \<Rightarrow> string option \<Rightarrow> string option \<Rightarrow> u32 option \<Rightarrow> toml_map \<Rightarrow>
     rewrite_error + string" where
  "rewrite_chat_request_as_anthropic sd body content_type backend_model anthropic_max_tokens extra_body =
     (if body = [] then Inl (with_param ''Missing required parameter: messages.'' PMessages)
      else if \<not> should_parse_json content_type body then
        Inl (rewrite_error_new ''Chat-to-messages conversion requires a JSON request body.'' None)
      else
        bind_res (ok_or (from_slice sd body)
            (rewrite_error_new ''Chat-to-messages conversion requires valid JSON.'' None)) (\<lambda>v.
        bind_res (ok_or (as_object v)
            (rewrite_error_new ''Chat request body must be a JSON object.'' None)) (\<lambda>m.
        bind_res (chat_object_to_anthropic sd m backend_model anthropic_max_tokens extra_body) (\<lambda>a.
          ok_or (to_vec sd (JObject a))
            (rewrite_error_new ''Chat-to-messages conversion failed to serialize JSON.'' None)))))"

section \<open>Responses\<close>

definition chat_finish_reason_from_anthropic_stop_reason :: "string \<Rightarrow> string" where
  "chat_finish_reason_from_anthropic_stop_reason stop_reason =
     (if stop_reason = ''end_turn'' \<or> stop_reason = ''stop_sequence'' then ''stop''
      else if stop_reason = ''max_tokens'' then ''length''
      else if stop_reason = ''tool_use'' then ''tool_calls''
      else ''stop'')"

definition chat_id_from_anthropic :: "string \<Rightarrow> string" where
  "chat_id_from_anthropic i = (if starts_with ''chatcmpl'' i then i else ''chatcmpl_'' @ i)"

definition u64_or_zero :: "json_map option \<Rightarrow> string \<Rightarrow> u64" where
  "u64_or_zero m k =
     (case Option.bind (Option.bind m (\<lambda>m. bt_get m k)) as_u64 of Some n \<Rightarrow> n | None \<Rightarrow> 0)"

definition anthropic_usage_to_chat_usage :: "json option \<Rightarrow> json" where
  "anthropic_usage_to_chat_usage usage =
     (let m = Option.bind usage as_object;
          prompt_tokens = u64_or_zero m ''input_tokens'';
          completion_tokens = u64_or_zero m ''output_tokens''
      in jobj [(''prompt_tokens'', jnat prompt_tokens), (''completion_tokens'', jnat completion_tokens),
           (''total_tokens'', jnat (prompt_tokens + completion_tokens))])"

definition content_block_step ::
  "serde \<Rightarrow> nat \<times> json \<Rightarrow> string \<times> json list \<Rightarrow> string \<times> json list" where
  "content_block_step sd ib s =
     (let (index, block) = ib; (text, tool_calls) = s
      in case as_object block of
          None \<Rightarrow> s
        | Some m \<Rightarrow>
            if obj_str m ''type'' = Some ''text'' then
              (text @ (case obj_str m ''text'' of Some t \<Rightarrow> t | None \<Rightarrow> []), tool_calls)
            else if obj_str m ''type'' = Some ''tool_use'' then
              (let arguments =
                     (case to_vec sd (case bt_get m ''input'' of Some v \<Rightarrow> v | None \<Rightarrow> JObject []) of
                        Some a \<Rightarrow> a | None \<Rightarrow> ''{}'')
               in (text, tool_calls @
                    [jobj [(''id'', JString (case obj_str m ''id'' of
                              Some i \<Rightarrow> i | None \<Rightarrow> ''call_'' @ show_nat index)),
                       (''type'', JString ''function''),
                       (''function'', jobj
                          [(''name'', JString (case obj_str m ''name'' of Some n \<Rightarrow> n | None \<Rightarrow> ''unknown'')),
                           (''arguments'', JString arguments)])]]))
            else s)"

definition anthropic_content_to_chat_message :: "serde \<Rightarrow> json option \<Rightarrow> string \<times> json list" where
  "anthropic_content_to_chat_message sd content =
     (case content of
        Some (JArray blocks) \<Rightarrow> fold (content_block_step sd) (List.enumerate 0 blocks) ([], [])
      | _ \<Rightarrow> ([], []))"

definition anthropic_message_to_chat_completion :: "serde \<Rightarrow> json \<Rightarrow> json" where
  "anthropic_message_to_chat_completion sd message =
     (case as_object message of
        None \<Rightarrow> message
      | Some m \<Rightarrow>
          let i = (case obj_str m ''id'' of Some i \<Rightarrow> i | None \<Rightarrow> ''msg_unknown'');
              model = (case bt_get m ''model'' of Some v \<Rightarrow> v | None \<Rightarrow> JString ''unknown'');
              (content, tool_calls) = anthropic_content_to_chat_message sd (bt_get m ''content'');
              stop_reason = (case obj_str m ''stop_reason'' of
                  Some r \<Rightarrow> chat_finish_reason_from_anthropic_stop_reason r | None \<Rightarrow> ''stop'');
              msg = bt_insert ''role'' (JString ''assistant'') [];
              msg = bt_insert ''content'' (if content = [] then JNull else JString content) msg;
              msg = (if tool_calls = [] then msg else bt_insert ''tool_calls'' (JArray tool_calls) msg)
          in jobj [(''id'', JString (chat_id_from_anthropic i)),
               (''object'', JString ''chat.completion''), (''created'', jnat 0), (''model'', model),
               (''choices'', JArray [jobj [(''index'', jnat 0), (''message'', JObject msg),
                  (''finish_reason'', JString stop_reason)]]),
               (''usage'', anthropic_usage_to_chat_usage (bt_get m ''usage''))])"

end
