(* ===== verification/Request.thy ===== *)
theory Request
  imports Anthropic_Compat Multipart
begin

text \<open>
  The rest of \<open>onair-core/src/openai/request.rs\<close>: what the proxy reads from a request before routing
  (\<open>inspect_request\<close>) and the body it sends upstream for the mode that routing chose
  (\<open>rewrite_request_body_for_mode_with_policies\<close>).  \<open>form_urlencoded\<close> of the \<open>url\<close> crate is the
  record \<open>form_codec\<close>.
\<close>

record form_codec =
  form_parse :: "string \<Rightarrow> (string \<times> string) list"
  form_serialize :: "(string \<times> string) list \<Rightarrow> string"

section \<open>Text helpers\<close>

text \<open>\<open>std::str::from_utf8\<close> succeeds exactly on well-formed UTF-8.\<close>

definition utf8_cont :: "char \<Rightarrow> bool" where
  "utf8_cont c \<longleftrightarrow> 0x80 \<le> byte c \<and> byte c \<le> 0xBF"

fun utf8_valid :: "string \<Rightarrow> bool" where
  "utf8_valid [] = True"
| "utf8_valid (a # s) =
     (if byte a < 0x80 then utf8_valid s
      else case s of
          [] \<Rightarrow> False
        | b # s2 \<Rightarrow>
            if 0xC2 \<le> byte a \<and> byte a \<le> 0xDF then utf8_cont b \<and> utf8_valid s2
            else case s2 of
                [] \<Rightarrow> False
              | c # s3 \<Rightarrow>
                  if 0xE0 \<le> byte a \<and> byte a \<le> 0xEF then
                    utf8_cont b \<and> (byte a = 0xE0 \<longrightarrow> 0xA0 \<le> byte b) \<and> (byte a = 0xED \<longrightarrow> byte b \<le> 0x9F)
                    \<and> utf8_cont c \<and> utf8_valid s3
                  else case s3 of
                      [] \<Rightarrow> False
                    | d # s4 \<Rightarrow>
                        0xF0 \<le> byte a \<and> byte a \<le> 0xF4 \<and> utf8_cont b
                        \<and> (byte a = 0xF0 \<longrightarrow> 0x90 \<le> byte b) \<and> (byte a = 0xF4 \<longrightarrow> byte b \<le> 0x8F)
                        \<and> utf8_cont c \<and> utf8_cont d \<and> utf8_valid s4)"

definition truthy :: "string \<Rightarrow> bool" where
  "truthy v \<longleftrightarrow> to_ascii_lowercase (trim v) \<in> {''true'', ''1'', ''yes''}"

definition is_urlencoded_content_type :: "string option \<Rightarrow> bool" where
  "is_urlencoded_content_type content_type =
     (case content_type of
        None \<Rightarrow> False
      | Some v \<Rightarrow> str_contains ''application/x-www-form-urlencoded'' (to_ascii_lowercase v))"

definition looks_like_urlencoded :: "string \<Rightarrow> bool" where
  "looks_like_urlencoded body \<longleftrightarrow> utf8_valid body \<and> CHR ''='' \<in> set body \<and> CHR 0x7B \<notin> set body"

definition boundary_parameter :: "string \<Rightarrow> string option" where
  "boundary_parameter parameter =
     map_option (trim_matches CHR 0x22) (strip_prefix ''boundary='' (trim parameter))"

definition multipart_boundary :: "string \<Rightarrow> string option" where
  "multipart_boundary content_type =
     (if \<not> str_contains ''multipart/form-data'' (to_ascii_lowercase content_type) then None
      else case List.map_filter boundary_parameter (split_char CHR '';'' content_type) of
          [] \<Rightarrow> None | b # _ \<Rightarrow> Some b)"

section \<open>Inspection\<close>

record request_shape =
  sh_model :: "string option"
  sh_prompt_cache_key :: "string option"
  sh_stream :: bool
  sh_stream_usage_requested :: bool
  sh_has_tools :: bool

definition default_shape :: request_shape where
  "default_shape = \<lparr>sh_model = None, sh_prompt_cache_key = None, sh_stream = False,
     sh_stream_usage_requested = False, sh_has_tools = False\<rparr>"

definition json_has_tools :: "json \<Rightarrow> bool" where
  "json_has_tools value =
     (case jget value ''tools'' of
        Some (JArray tools) \<Rightarrow> tools \<noteq> []
      | Some JNull \<Rightarrow> False
      | None \<Rightarrow> False
      | Some _ \<Rightarrow> True)"

definition json_flag :: "json option \<Rightarrow> bool" where
  "json_flag v = (case Option.bind v as_bool of Some b \<Rightarrow> b | None \<Rightarrow> False)"

definition inspect_json_body :: "serde \<Rightarrow> string \<Rightarrow> request_shape" where
  "inspect_json_body sd body =
     (case from_slice sd body of
        None \<Rightarrow> default_shape
      | Some v \<Rightarrow>
          \<lparr>sh_model = non_blank (get_str v ''model''),
           sh_prompt_cache_key = non_blank (get_str v ''prompt_cache_key''),
           sh_stream = json_flag (jget v ''stream''),
           sh_stream_usage_requested =
             json_flag (Option.bind (jget v ''stream_options'') (\<lambda>opts. jget opts ''include_usage'')),
           sh_has_tools = json_has_tools v\<rparr>)"

definition urlencoded_step :: "string \<times> string \<Rightarrow> request_shape \<Rightarrow> request_shape" where
  "urlencoded_step kv shape =
     (let (key, v) = kv
      in if key = ''model'' \<and> \<not> is_blank v then shape\<lparr>sh_model := Some v\<rparr>
         else if key = ''prompt_cache_key'' \<and> \<not> is_blank v then shape\<lparr>sh_prompt_cache_key := Some v\<rparr>
         else if key = ''stream'' then shape\<lparr>sh_stream := truthy v\<rparr>
         else shape)"

definition inspect_urlencoded_body :: "form_codec \<Rightarrow> string \<Rightarrow> request_shape" where
  "inspect_urlencoded_body fc body = fold urlencoded_step (form_parse fc body) default_shape"

definition multipart_inspect_step :: "string \<Rightarrow> request_shape \<Rightarrow> request_shape" where
  "multipart_inspect_step part shape =
     (case split_multipart_part part of
        None \<Rightarrow> shape
      | Some (headers, content) \<Rightarrow>
          let shape = (if multipart_field_is headers ''model'' \<and> utf8_valid content \<and> trim content \<noteq> []
                       then shape\<lparr>sh_model := Some (trim content)\<rparr> else shape);
              shape = (if multipart_field_is headers ''stream'' \<and> utf8_valid content
                       then shape\<lparr>sh_stream := truthy content\<rparr> else shape)
          in if multipart_field_is headers ''prompt_cache_key'' \<and> utf8_valid content \<and> trim content \<noteq> []
             then shape\<lparr>sh_prompt_cache_key := Some (trim content)\<rparr> else shape)"

definition inspect_multipart_body :: "string \<Rightarrow> string \<Rightarrow> request_shape" where
  "inspect_multipart_body body boundary =
     fold multipart_inspect_step (multipart_parts body boundary) default_shape"

definition inspect_body :: "serde \<Rightarrow> form_codec \<Rightarrow> string \<Rightarrow> string option \<Rightarrow> request_shape" where
  "inspect_body sd fc body content_type =
     (if body = [] then default_shape
      else if should_parse_json content_type body then inspect_json_body sd body
      else
        let urlencoded = is_urlencoded_content_type content_type \<or> looks_like_urlencoded body;
            shape = inspect_urlencoded_body fc body
        in if urlencoded \<and> (sh_model shape \<noteq> None \<or> sh_stream shape) then shape
           else case Option.bind content_type multipart_boundary of
               Some boundary \<Rightarrow> inspect_multipart_body body boundary
             | None \<Rightarrow> inspect_json_body sd body)"

definition query_field :: "form_codec \<Rightarrow> string option \<Rightarrow> string \<Rightarrow> string option" where
  "query_field fc query field =
     Option.bind query (\<lambda>q.
       map_option snd (find (\<lambda>(key, v). key = field \<and> \<not> is_blank v) (form_parse fc q)))"

definition query_bool :: "form_codec \<Rightarrow> string option \<Rightarrow> string \<Rightarrow> bool" where
  "query_bool fc query field =
     (case Option.bind query (\<lambda>q. find (\<lambda>(key, v). key = field) (form_parse fc q)) of
        Some (_, v) \<Rightarrow> truthy v
      | None \<Rightarrow> False)"

definition inspect_request ::
  "serde \<Rightarrow> form_codec \<Rightarrow> string \<Rightarrow> string option \<Rightarrow> string option \<Rightarrow> request_shape" where
  "inspect_request sd fc body content_type query =
     (let shape = inspect_body sd fc body content_type;
          shape = (if sh_model shape = None
                   then shape\<lparr>sh_model := query_field fc query ''model''\<rparr> else shape);
          shape = (if sh_prompt_cache_key shape = None
                   then shape\<lparr>sh_prompt_cache_key := query_field fc query ''prompt_cache_key''\<rparr> else shape)
      in if \<not> sh_stream shape then shape\<lparr>sh_stream := query_bool fc query ''stream''\<rparr> else shape)"

section \<open>Tool history\<close>

text \<open>State of the loop: the ids of calls, in order, and the set of ids that have an output.\<close>

definition history_step ::
  "json \<Rightarrow> string list \<times> string list \<Rightarrow> rewrite_error + string list \<times> string list" where
  "history_step item s =
     (let (function_calls, function_outputs) = s
      in case as_object item of
          None \<Rightarrow> Inr s
        | Some m \<Rightarrow>
            let call_id = Option.bind (map_option trim (obj_str m ''call_id''))
                  (\<lambda>c. if c = [] then None else Some c)
            in if obj_str m ''type'' = Some ''function_call'' then
                 (case call_id of
                    None \<Rightarrow> Inl (input_error ''function_call input items require call_id.'')
                  | Some c \<Rightarrow> Inr (function_calls @ [c], function_outputs))
               else if obj_str m ''type'' = Some ''function_call_output'' then
                 (case call_id of
                    Some c \<Rightarrow> Inr (function_calls, bs_insert c function_outputs)
                  | None \<Rightarrow> Inr s)
               else Inr s)"

definition validate_responses_tool_history :: "serde \<Rightarrow> string \<Rightarrow> rewrite_error + unit" where
  "validate_responses_tool_history sd body =
     (case Option.bind (Option.bind (from_slice sd body) (\<lambda>v. jget v ''input'')) as_array of
        None \<Rightarrow> Inr ()
      | Some input \<Rightarrow>
          bind_res (fold_res history_step input ([], [])) (\<lambda>(function_calls, function_outputs).
            case find (\<lambda>c. c \<notin> set function_outputs) function_calls of
              Some c \<Rightarrow> Inl (input_error (''No tool output found for function call '' @ c @ ''.''))
            | None \<Rightarrow> Inr ()))"

section \<open>Rewriting for a mode\<close>

definition rewrite_anthropic_messages_request_body ::
  "serde \<Rightarrow> string \<Rightarrow> string option \<Rightarrow> string option \<Rightarrow> u32 option \<Rightarrow> rewrite_error + string" where
  "rewrite_anthropic_messages_request_body sd body content_type backend_model anthropic_max_tokens =
     (if body = [] then Inl (msg_error ''Missing required parameter: messages.'')
      else if \<not> should_parse_json content_type body then
        Inl (rewrite_error_new ''Anthropic Messages API requires a JSON request body.'' None)
      else
        bind_res (ok_or (from_slice sd body) (rewrite_error_new ''Request body is not valid JSON.'' None)) (\<lambda>v.
        bind_res (ok_or (as_object v) (rewrite_error_new ''Request body is not a JSON object.'' None)) (\<lambda>m.
        let m = (case backend_model of Some b \<Rightarrow> bt_insert ''model'' (JString b) m | None \<Rightarrow> m)
        in bind_res
             (if bt_contains m ''max_tokens'' then Inr m
              else case anthropic_max_tokens of
                  Some tokens \<Rightarrow> Inr (bt_insert ''max_tokens'' (jnat (ucast tokens)) m)
                | None \<Rightarrow> Inl (rewrite_error_new ''Missing required parameter: max_tokens.''
                    (Some ''max_tokens''))) (\<lambda>m.
           ok_or (to_vec sd (JObject m))
             (rewrite_error_new ''Failed to serialize request body.'' None)))))"

definition rewrite_pairs :: "string \<Rightarrow> (string \<times> string) list \<Rightarrow> (string \<times> string) list" where
  "rewrite_pairs backend_model pairs =
     map (\<lambda>(key, v). if key = ''model'' then (key, backend_model) else (key, v)) pairs"

definition saw_model :: "(string \<times> string) list \<Rightarrow> bool" where
  "saw_model pairs = list_ex (\<lambda>(key, _). key = ''model'') pairs"

definition rewrite_query_model :: "form_codec \<Rightarrow> string option \<Rightarrow> string option \<Rightarrow> string option" where
  "rewrite_query_model fc query backend_model =
     (case query of
        None \<Rightarrow> None
      | Some q \<Rightarrow>
          (case backend_model of
             None \<Rightarrow> Some q
           | Some b \<Rightarrow>
               let pairs = form_parse fc q
               in if saw_model pairs then Some (form_serialize fc (rewrite_pairs b pairs)) else Some q))"

definition rewrite_urlencoded_request_body :: "form_codec \<Rightarrow> string \<Rightarrow> string \<Rightarrow> string option" where
  "rewrite_urlencoded_request_body fc body backend_model =
     (let pairs = form_parse fc body
      in if saw_model pairs then Some (form_serialize fc (rewrite_pairs backend_model pairs)) else None)"

definition rewrite_json_object ::
  "json_map \<Rightarrow> string \<Rightarrow> bool \<Rightarrow> bool \<Rightarrow> rewrite_policies \<Rightarrow> toml_map \<Rightarrow> json_map" where
  "rewrite_json_object m backend_model native_responses chat_completions pol extra_body =
     (let m = bt_insert ''model'' (JString backend_model) m;
          m = (if native_responses \<and> pol_responses_store pol = ForceFalse \<and> \<not> bt_contains m ''store''
               then bt_insert ''store'' (JBool False) m else m);
          m = (if native_responses then
                 rewrite_native_responses_max_output_tokens m (pol_responses_max_output_tokens pol)
               else if chat_completions then
                 apply_chat_stream_usage_policy m (pol_chat_stream_usage pol)
               else m)
      in apply_extra_body m extra_body)"

definition rewrite_json_request_body ::
  "serde \<Rightarrow> string \<Rightarrow> string \<Rightarrow> bool \<Rightarrow> bool \<Rightarrow> rewrite_policies \<Rightarrow> toml_map \<Rightarrow> string option" where
  "rewrite_json_request_body sd body backend_model native_responses chat_completions pol extra_body =
     Option.bind (Option.bind (from_slice sd body) as_object) (\<lambda>m.
       if \<not> bt_contains m ''model'' then None
       else to_vec sd (JObject
         (rewrite_json_object m backend_model native_responses chat_completions pol extra_body)))"

definition rewrite_native_request_body ::
  "serde \<Rightarrow> form_codec \<Rightarrow> string \<Rightarrow> string option \<Rightarrow> string option \<Rightarrow> endpoint_kind \<Rightarrow> rewrite_policies \<Rightarrow>
     toml_map \<Rightarrow> string" where
  "rewrite_native_request_body sd fc body content_type backend_model kind pol extra_body =
     (case backend_model of
        None \<Rightarrow> body
      | Some model \<Rightarrow>
          if body = [] then []
          else
            let json = (if should_parse_json content_type body
                  then rewrite_json_request_body sd body model (is_native_responses kind)
                    (is_chat_completions kind) pol extra_body
                  else None);
                form = (if is_urlencoded_content_type content_type \<or> looks_like_urlencoded body
                  then rewrite_urlencoded_request_body fc body model else None);
                multipart = Option.bind (Option.bind content_type multipart_boundary)
                  (\<lambda>boundary. rewrite_multipart_body body boundary model)
            in case first_some json (first_some form multipart) of Some r \<Rightarrow> r | None \<Rightarrow> body)"

definition rewrite_request_body_for_mode_with_policies ::
  "serde \<Rightarrow> form_codec \<Rightarrow> string \<Rightarrow> string option \<Rightarrow> string option \<Rightarrow> string \<Rightarrow> request_mode \<Rightarrow>
     rewrite_policies \<Rightarrow> toml_map \<Rightarrow> rewrite_error + string" where
  "rewrite_request_body_for_mode_with_policies sd fc body content_type backend_model path mode pol extra_body =
     (let kind = endpoint_kind path
      in bind_res
        (if is_native_responses kind \<and> should_parse_json content_type body
         then validate_responses_tool_history sd body else Inr ()) (\<lambda>_.
        case mode of
          AnthropicMessagesNative \<Rightarrow>
            rewrite_anthropic_messages_request_body sd body content_type backend_model
              (pol_anthropic_max_tokens pol)
        | ResponsesViaChatCompletions \<Rightarrow>
            rewrite_responses_request_as_chat sd body content_type backend_model
              (pol_tool_schema_mode pol) (pol_chat_stream_usage pol) extra_body
        | ChatCompletionsViaResponses \<Rightarrow>
            rewrite_chat_request_as_responses sd body content_type backend_model
              (pol_responses_store pol) (pol_responses_max_output_tokens pol) extra_body
        | ChatCompletionsViaMessages \<Rightarrow>
            rewrite_chat_request_as_anthropic sd body content_type backend_model
              (pol_anthropic_max_tokens pol) extra_body
        | Native \<Rightarrow>
            Inr (rewrite_native_request_body sd fc body content_type backend_model kind pol extra_body)))"

end
