(* ===== verification/Responses_Compat_Correct.thy ===== *)
theory Responses_Compat_Correct
  imports Responses_Compat
begin

text \<open>
  Correctness of the Responses / Chat Completions translations: round trips of tools and tool
  choices, grouping of parallel calls, ownership of the fields of the translated body, and what the
  schema sanitiser guarantees.
\<close>

section \<open>Fields of built objects\<close>

lemma bt_insert_overwrite: "bt_insert k w (bt_insert k v m) = bt_insert k w m"
  by (induction m) auto

lemma bt_remove_insert: "bt_wf m \<Longrightarrow> bt_get m k = None \<Longrightarrow> bt_remove k (bt_insert k v m) = m"
proof -
  assume "bt_wf m" "bt_get m k = None"
  then have "bt_wf (bt_remove k (bt_insert k v m))" "bt_get (bt_remove k (bt_insert k v m)) = bt_get m"
    by (auto simp: bt_wf_remove bt_wf_insert bt_get_remove bt_get_insert)
  then show ?thesis using bt_ext \<open>bt_wf m\<close> by metis
qed

lemma keys_copy_keys: "fst ` set (copy_keys keys source target) \<subseteq> set keys \<union> fst ` set target"
  unfolding copy_keys_def
proof (induction keys arbitrary: target)
  case (Cons k keys)
  show ?case
  proof (cases "bt_get source k")
    case None
    then show ?thesis using Cons.IH [of target] by auto
  next
    case (Some v)
    then show ?thesis using Cons.IH [of "bt_insert k v target"] by (auto simp: keys_bt_insert)
  qed
qed simp

lemma bt_get_copy_keys: "k \<notin> set keys \<Longrightarrow> bt_get (copy_keys keys source target) k = bt_get target k"
  unfolding copy_keys_def
  by (induction keys arbitrary: target) (auto simp: bt_get_insert split: option.splits)

lemma bt_get_copy_keys_mem:
  "k \<in> set keys \<Longrightarrow> bt_get (copy_keys keys source target) k =
     (case bt_get source k of Some v \<Rightarrow> Some v | None \<Rightarrow> bt_get target k)"
  unfolding copy_keys_def
proof (induction keys arbitrary: target)
  case (Cons a keys)
  show ?case
  proof (cases "k \<in> set keys")
    case True
    then show ?thesis using Cons.IH by (auto simp: bt_get_insert split: option.splits)
  next
    case False
    then have "k = a" using Cons.prems by simp
    then show ?thesis using False bt_get_copy_keys [OF False, unfolded copy_keys_def]
      by (auto simp: bt_get_insert split: option.splits)
  qed
qed simp

section \<open>Tools and tool choices\<close>

text \<open>
  A chat tool list survives the way to the Responses format and back.  For function tools whose
  definition has no field called \<open>type\<close>, translating and translating back is the identity.
\<close>

theorem tools_roundtrip:
  assumes "list_all (\<lambda>fn. bt_wf fn \<and> bt_get fn ''type'' = None) fns"
  shows "\<exists>rs. chat_tools_to_responses_tools
        (JArray (map (\<lambda>fn. jobj [(''type'', JString ''function''), (''function'', JObject fn)]) fns)) = Inr rs \<and>
      responses_tools_to_chat_tools (JArray rs) SchemaPreserve =
        Inr (map (\<lambda>fn. jobj [(''type'', JString ''function''), (''function'', JObject fn)]) fns)"
proof -
  let ?chat = "\<lambda>fn. jobj [(''type'', JString ''function''), (''function'', JObject fn)]"
  let ?resp = "\<lambda>fn. JObject (bt_insert ''type'' (JString ''function'') fn)"
  have "chat_tool_to_responses_tool (?chat fn) = Inr (?resp fn)" for fn
    by (simp add: chat_tool_to_responses_tool_def as_object_jobj obj_str_def bt_get_of_list)
  then have a: "chat_tools_to_responses_tools (JArray (map ?chat fns)) = Inr (map ?resp fns)"
    by (simp add: chat_tools_to_responses_tools_def map_res_Inr_iff list_all2_map1 list_all2_map2
        list_all2_same)
  have "fold_res (responses_tools_step SchemaPreserve) (map ?resp fns) acc = Inr (acc @ map ?chat fns)" for acc
    using assms
  proof (induction fns arbitrary: acc)
    case (Cons fn fns)
    have "bt_remove ''type'' (bt_insert ''type'' (JString ''function'') fn) = fn"
      using Cons.prems by (intro bt_remove_insert) simp_all
    then have "responses_tools_step SchemaPreserve (?resp fn) acc = Inr (acc @ [?chat fn])"
      by (simp add: responses_tools_step_def obj_str_def bt_get_insert)
    then show ?case using Cons by simp
  qed simp
  then show ?thesis using a by (simp add: responses_tools_to_chat_tools_def)
qed

theorem tools_roundtrip_witness:
  "\<exists>rs. chat_tools_to_responses_tools (JArray [jobj [(''type'', JString ''function''),
        (''function'', JObject [(''name'', JString ''f'')])]]) = Inr rs \<and>
      responses_tools_to_chat_tools (JArray rs) SchemaPreserve =
        Inr [jobj [(''type'', JString ''function''), (''function'', JObject [(''name'', JString ''f'')])]]"
  using tools_roundtrip [of "[[(''name'', JString ''f'')]]"] by (simp add: bt_wf_def bt_get_def)

text \<open>
  A named function choice survives the way to the other format and back, in both directions.
\<close>

theorem tool_choice_roundtrip:
  "chat_tool_choice_to_responses (responses_tool_choice_to_chat
     (jobj [(''type'', JString ''function''), (''name'', nm)]))
     = Inr (jobj [(''type'', JString ''function''), (''name'', nm)]) \<and>
   map_sum id responses_tool_choice_to_chat (chat_tool_choice_to_responses
     (jobj [(''type'', JString ''function''), (''function'', jobj [(''name'', nm)])]))
     = Inr (jobj [(''type'', JString ''function''), (''function'', jobj [(''name'', nm)])]) \<and>
   chat_tool_choice_to_responses (responses_tool_choice_to_chat (JString s)) = Inr (JString s)"
  by (simp add: chat_tool_choice_to_responses_def responses_tool_choice_to_chat_def as_object_jobj
      obj_str_def bt_get_of_list)

section \<open>Parallel calls\<close>

definition calls_message :: "json list \<Rightarrow> json" where
  "calls_message calls =
     jobj [(''role'', JString ''assistant''), (''content'', JString []), (''tool_calls'', JArray calls)]"

lemma append_call_to_calls_message:
  assumes "responses_function_call_to_chat_tool_call m = Inr t"
  shows "append_responses_function_call_to_chat_messages m (msgs @ [calls_message ts]) =
    Inr (msgs @ [calls_message (ts @ [t])])"
proof -
  let ?m = "bt_of_list [(''role'', JString ''assistant''), (''content'', JString []),
      (''tool_calls'', JArray ts)]"
  have g: "bt_get ?m ''role'' = Some (JString ''assistant'')" "bt_get ?m ''tool_calls'' = Some (JArray ts)"
    "bt_get ?m ''content'' = Some (JString [])"
    by (simp_all add: bt_get_of_list)
  have "open_call_message (msgs @ [calls_message ts]) = Some (?m, ts)"
    using g by (simp add: open_call_message_def calls_message_def as_object_jobj obj_str_def)
  moreover have "JObject (bt_insert ''tool_calls'' (JArray (ts @ [t])) ?m) = calls_message (ts @ [t])"
    by (simp add: calls_message_def jobj_def bt_of_list_def bt_insert_overwrite)
  ultimately show ?thesis
    using assms g(3) by (simp add: append_responses_function_call_to_chat_messages_def bt_get_insert)
qed

lemma fold_calls:
  assumes "list_all2 (\<lambda>m t. obj_str m ''type'' = Some ''function_call'' \<and>
      responses_function_call_to_chat_tool_call m = Inr t) ms ts"
  shows "fold_res (responses_input_step sd) (map JObject ms) (msgs @ [calls_message cs]) =
    Inr (msgs @ [calls_message (cs @ ts)])"
  using assms
proof (induction ms ts arbitrary: cs rule: list_all2_induct)
  case Nil
  then show ?case by simp
next
  case (Cons m ms t ts)
  then have "responses_input_step sd (JObject m) (msgs @ [calls_message cs]) =
      Inr (msgs @ [calls_message (cs @ [t])])"
    by (simp add: responses_input_step_def append_call_to_calls_message)
  then show ?case using Cons.IH [of "cs @ [t]"] by simp
qed

text \<open>
  Parallel calls stay together.  A run of \<open>function_call\<close> items after a message that carries no
  calls becomes one assistant message with exactly those calls, in order, so that the tool outputs
  that follow answer a single message; nothing before the run changes.
\<close>

theorem function_calls_grouped:
  assumes "list_all2 (\<lambda>m t. obj_str m ''type'' = Some ''function_call'' \<and>
      responses_function_call_to_chat_tool_call m = Inr t) ms ts"
    and "ms \<noteq> []" and "open_call_message msgs = None"
  shows "fold_res (responses_input_step sd) (map JObject ms) msgs =
    Inr (msgs @ [jobj [(''role'', JString ''assistant''), (''content'', JString []),
      (''tool_calls'', JArray ts)]])"
proof -
  obtain m ms' t ts' where l: "ms = m # ms'" "ts = t # ts'"
    and h: "obj_str m ''type'' = Some ''function_call''"
      "responses_function_call_to_chat_tool_call m = Inr t"
    and r: "list_all2 (\<lambda>m t. obj_str m ''type'' = Some ''function_call'' \<and>
      responses_function_call_to_chat_tool_call m = Inr t) ms' ts'"
    using assms(1,2) by (cases ms; cases ts) auto
  have "responses_input_step sd (JObject m) msgs = Inr (msgs @ [calls_message [t]])"
    using h assms(3) by (simp add: responses_input_step_def calls_message_def
        append_responses_function_call_to_chat_messages_def assistant_call_message_def)
  then show ?thesis using fold_calls [OF r, of sd msgs "[t]"] l by (simp add: calls_message_def)
qed

definition example_call :: "string \<Rightarrow> json_map" where
  "example_call i =
     bt_of_list [(''type'', JString ''function_call''), (''call_id'', JString i), (''name'', JString ''f'')]"

definition example_tool_call :: "string \<Rightarrow> json" where
  "example_tool_call i =
     jobj [(''id'', JString i), (''type'', JString ''function''),
       (''function'', jobj [(''name'', JString ''f''), (''arguments'', JString ''{}'')])]"

theorem function_calls_grouped_witness:
  "fold_res (responses_input_step \<lparr>from_slice = \<lambda>_. None, to_vec = \<lambda>_. None, to_string = \<lambda>_. []\<rparr>)
     (map JObject [example_call ''a'', example_call ''b'']) [] =
   Inr [jobj [(''role'', JString ''assistant''), (''content'', JString []),
     (''tool_calls'', JArray [example_tool_call ''a'', example_tool_call ''b''])]]"
proof -
  have "obj_str (example_call i) ''type'' = Some ''function_call''"
    "responses_function_call_to_chat_tool_call (example_call i) = Inr (example_tool_call i)" for i
    by (simp_all add: example_call_def example_tool_call_def obj_str_def string_field_def bt_get_of_list
        responses_function_call_to_chat_tool_call_def)
  then show ?thesis
    using function_calls_grouped [of "[example_call ''a'', example_call ''b'']"
        "[example_tool_call ''a'', example_tool_call ''b'']" "[]"]
    by (simp add: open_call_message_def)
qed

section \<open>Ownership of the translated body\<close>

lemma chat_base_fields:
  "bt_get (chat_base m model messages) ''model'' = Some (JString model)"
  "bt_get (chat_base m model messages) ''messages'' = Some (JArray (instructions_message m @ messages))"
  by (simp_all add: chat_base_def Let_def bt_get_insert bt_get_copy_keys RESPONSES_TO_CHAT_KEYS_def
      del: bt_insert.simps split: option.splits)

lemma keys_chat_base:
  "fst ` set (chat_base m model messages) \<subseteq> {''model'', ''messages''} \<union> set RESPONSES_TO_CHAT_KEYS"
proof -
  have k: "''max_tokens'' \<in> set RESPONSES_TO_CHAT_KEYS" "''response_format'' \<in> set RESPONSES_TO_CHAT_KEYS"
    by (simp_all add: RESPONSES_TO_CHAT_KEYS_def)
  show ?thesis
    using keys_copy_keys [of RESPONSES_TO_CHAT_KEYS m "bt_insert ''messages''
        (JArray (instructions_message m @ messages)) (bt_insert ''model'' (JString model) [])"] k
    unfolding chat_base_def Let_def
    by (auto simp: keys_bt_insert simp del: bt_insert.simps split: option.splits)
qed

lemma responses_base_fields:
  "bt_get (responses_base m model instructions input) ''model'' = Some (JString model)"
  "bt_get (responses_base m model instructions input) ''input'' = Some (JArray input)"
  "bt_get (responses_base m model instructions input) ''instructions'' =
     (if instructions = [] then None else Some (JString (join [LF, LF] instructions)))"
  "bt_get (responses_base m model instructions input) ''store'' = bt_get m ''store''"
proof -
  have s: "''store'' \<in> set CHAT_TO_RESPONSES_KEYS"
    "''model'' \<notin> set CHAT_TO_RESPONSES_KEYS" "''input'' \<notin> set CHAT_TO_RESPONSES_KEYS"
    "''instructions'' \<notin> set CHAT_TO_RESPONSES_KEYS"
    by (simp_all add: CHAT_TO_RESPONSES_KEYS_def)
  show "bt_get (responses_base m model instructions input) ''model'' = Some (JString model)"
    "bt_get (responses_base m model instructions input) ''input'' = Some (JArray input)"
    "bt_get (responses_base m model instructions input) ''instructions'' =
     (if instructions = [] then None else Some (JString (join [LF, LF] instructions)))"
    "bt_get (responses_base m model instructions input) ''store'' = bt_get m ''store''"
    by (simp_all add: responses_base_def Let_def bt_get_insert bt_get_copy_keys bt_get_copy_keys_mem s
        bt_get_def [of "[]"] del: bt_insert.simps split: option.splits)
qed

lemma keys_responses_base:
  "fst ` set (responses_base m model instructions input) \<subseteq>
     {''model'', ''input'', ''instructions'', ''max_output_tokens'', ''text''} \<union> set CHAT_TO_RESPONSES_KEYS"
proof -
  define t where "t = bt_insert ''input'' (JArray input)
    (if instructions = [] then bt_insert ''model'' (JString model) []
     else bt_insert ''instructions'' (JString (join [LF, LF] instructions))
       (bt_insert ''model'' (JString model) []))"
  have "fst ` set t \<subseteq> {''model'', ''input'', ''instructions''}"
    unfolding t_def by (simp add: keys_bt_insert del: bt_insert.simps)
  then have c: "fst ` set (copy_keys CHAT_TO_RESPONSES_KEYS m t) \<subseteq>
      {''model'', ''input'', ''instructions''} \<union> set CHAT_TO_RESPONSES_KEYS"
    using keys_copy_keys [of CHAT_TO_RESPONSES_KEYS m t] by blast
  have "fst ` set (responses_base m model instructions input) \<subseteq>
      {''max_output_tokens'', ''text''} \<union> fst ` set (copy_keys CHAT_TO_RESPONSES_KEYS m t)"
    unfolding responses_base_def Let_def t_def [symmetric]
    by (simp add: keys_bt_insert subset_iff split: option.splits)
  then show ?thesis using c by blast
qed

lemma insert_tools_frame:
  "k \<noteq> ''tools'' \<Longrightarrow> bt_get (insert_tools ts m) k = bt_get m k"
  "fst ` set (insert_tools ts m) \<subseteq> insert ''tools'' (fst ` set m)"
  by (auto simp: insert_tools_def bt_get_insert keys_bt_insert)

lemma responses_object_to_chat_cases:
  assumes "responses_object_to_chat sd m bm mode up extra = Inr chat"
  obtains input messages model chat1 chat2 where "\<not> bt_contains m ''previous_response_id''"
    and "bt_get m ''input'' = Some input" and "responses_input_to_chat_messages sd input = Inr messages"
    and "request_model bm m = Inr model"
    and "\<forall>k. k \<noteq> ''tools'' \<longrightarrow> bt_get chat1 k = bt_get (chat_base m model messages) k"
    and "fst ` set chat1 \<subseteq> insert ''tools'' (fst ` set (chat_base m model messages))"
    and "\<forall>k. k \<noteq> ''tool_choice'' \<longrightarrow> bt_get chat2 k = bt_get chat1 k"
    and "fst ` set chat2 \<subseteq> insert ''tool_choice'' (fst ` set chat1)"
    and "chat = apply_extra_body (apply_chat_stream_usage_policy chat2 up) extra"
proof -
  obtain input messages model chat1 where i: "\<not> bt_contains m ''previous_response_id''"
      "bt_get m ''input'' = Some input" "responses_input_to_chat_messages sd input = Inr messages"
      "request_model bm m = Inr model"
    and t: "(case tools_field m of
               Some tools \<Rightarrow> bind_res (responses_tools_to_chat_tools tools mode)
                 (\<lambda>ts. Inr (insert_tools ts (chat_base m model messages)))
             | None \<Rightarrow> Inr (chat_base m model messages)) = Inr chat1"
    and c: "chat = apply_extra_body (apply_chat_stream_usage_policy (case bt_get m ''tool_choice'' of
                 Some tc \<Rightarrow> bt_insert ''tool_choice'' (responses_tool_choice_to_chat tc) chat1
               | None \<Rightarrow> chat1) up) extra"
    using assms by (auto simp: responses_object_to_chat_def result_simps Let_def split: if_splits)
  have f: "\<forall>k. k \<noteq> ''tools'' \<longrightarrow> bt_get chat1 k = bt_get (chat_base m model messages) k"
    using t by (auto simp: result_simps insert_tools_frame split: option.splits)
  have s: "fst ` set chat1 \<subseteq> insert ''tools'' (fst ` set (chat_base m model messages))"
  proof (cases "tools_field m")
    case None
    then show ?thesis using t by (simp add: subset_insertI)
  next
    case (Some tools)
    then obtain ts where "chat1 = insert_tools ts (chat_base m model messages)"
      using t by (auto simp: result_simps)
    then show ?thesis by (simp only: insert_tools_frame(2))
  qed
  show thesis
    by (rule that [OF i f s _ _ c])
      (simp_all add: bt_get_insert keys_bt_insert subset_insertI split: option.splits)
qed

text \<open>
  What the proxy sends when it translates a Responses request.  The body always names the
  backend's model (the client's own only if the route has none), its messages are the translated
  input after the instructions, and it contains no field beyond the documented allow list, the
  translated tools and the route's \<open>extra_body\<close>; a request that refers to server-side state is
  refused.
\<close>

theorem responses_object_to_chat_owned:
  assumes "responses_object_to_chat sd m bm mode up extra = Inr chat"
  shows "(\<exists>model. request_model bm m = Inr model \<and> bt_get chat ''model'' = Some (JString model)) \<and>
    (\<exists>input messages. bt_get m ''input'' = Some input \<and>
       responses_input_to_chat_messages sd input = Inr messages \<and>
       bt_get chat ''messages'' = Some (JArray (instructions_message m @ messages))) \<and>
    fst ` set chat \<subseteq> {''model'', ''messages'', ''tools'', ''tool_choice''} \<union>
      set RESPONSES_TO_CHAT_KEYS \<union> fst ` set extra \<and>
    bt_get m ''previous_response_id'' = None"
proof -
  obtain input messages model chat1 chat2 where p: "\<not> bt_contains m ''previous_response_id''"
    and i: "bt_get m ''input'' = Some input" "responses_input_to_chat_messages sd input = Inr messages"
    and m: "request_model bm m = Inr model"
    and f1: "\<forall>k. k \<noteq> ''tools'' \<longrightarrow> bt_get chat1 k = bt_get (chat_base m model messages) k"
    and s1: "fst ` set chat1 \<subseteq> insert ''tools'' (fst ` set (chat_base m model messages))"
    and f2: "\<forall>k. k \<noteq> ''tool_choice'' \<longrightarrow> bt_get chat2 k = bt_get chat1 k"
    and s2: "fst ` set chat2 \<subseteq> insert ''tool_choice'' (fst ` set chat1)"
    and c: "chat = apply_extra_body (apply_chat_stream_usage_policy chat2 up) extra"
    using assms by (rule responses_object_to_chat_cases)
  have owned: "bt_get chat k = bt_get (chat_base m model messages) k" if "k = ''model'' \<or> k = ''messages''" for k
    using that f1 f2 unfolding c
    by (auto simp: apply_extra_body_protected PROTECTED_UPSTREAM_KEYS_def bt_get_chat_stream_usage_policy)
  define K where "K = set RESPONSES_TO_CHAT_KEYS"
  have so: "''stream_options'' \<in> K" by (simp add: K_def RESPONSES_TO_CHAT_KEYS_def)
  have "fst ` set chat2 \<subseteq> {''model'', ''messages'', ''tools'', ''tool_choice''} \<union> K"
    using subset_trans [OF s2 insert_mono [OF subset_trans [OF s1 insert_mono [OF keys_chat_base]]]]
    by (simp add: K_def insert_commute)
  then have "fst ` set (apply_chat_stream_usage_policy chat2 up) \<subseteq>
      {''model'', ''messages'', ''tools'', ''tool_choice''} \<union> K"
    using keys_apply_chat_stream_usage_policy [of chat2 up] so by (meson insert_subset subset_trans UnI2)
  then have "fst ` set chat \<subseteq> {''model'', ''messages'', ''tools'', ''tool_choice''} \<union> K \<union> fst ` set extra"
    using keys_apply_extra_body [of "apply_chat_stream_usage_policy chat2 up" extra]
    unfolding c by (meson Un_mono subset_refl subset_trans)
  then show ?thesis
    unfolding K_def using owned p i m by (simp add: chat_base_fields bt_contains_def)
qed

definition example_serde :: serde where
  "example_serde = \<lparr>from_slice = \<lambda>_. None, to_vec = \<lambda>_. None, to_string = \<lambda>_. []\<rparr>"

lemma example_responses_chat:
  "responses_object_to_chat example_serde [(''input'', JString ''hi''), (''model'', JString ''gpt'')] (Some ''m'')
     SchemaPreserve UsagePreserve [(''model'', TString ''x''), (''top_k'', TInteger 4)] =
   Inr [(''messages'', JArray [jobj [(''role'', JString ''user''), (''content'', JString ''hi'')]]),
     (''model'', JString ''m''), (''top_k'', JNumber (PosInt 4))]"
  by (simp add: responses_object_to_chat_def bt_contains_def bt_get_def responses_input_to_chat_messages_def
      request_model_def chat_base_def instructions_message_def obj_str_def copy_keys_def
      RESPONSES_TO_CHAT_KEYS_def tools_field_def apply_chat_stream_usage_policy_def apply_extra_body_def
      PROTECTED_UPSTREAM_KEYS_def number_from_i64_def)

theorem responses_object_to_chat_owned_witness:
  "\<exists>chat. responses_object_to_chat example_serde [(''input'', JString ''hi''), (''model'', JString ''gpt'')]
       (Some ''m'') SchemaPreserve UsagePreserve [(''model'', TString ''x''), (''top_k'', TInteger 4)] = Inr chat \<and>
     bt_get chat ''model'' = Some (JString ''m'')"
  using responses_object_to_chat_owned [OF example_responses_chat] example_responses_chat
  by (simp add: request_model_def)

lemma chat_object_to_responses_cases:
  assumes "chat_object_to_responses sd m bm sp mp extra = Inr r"
  obtains messages instructions input model r2 where
    "validate_chat_to_responses_options m = Inr ()"
    and "bt_get m ''messages'' = Some (JArray messages)"
    and "fold_res (append_chat_message_to_responses sd) messages ([], []) = Inr (instructions, input)"
    and "request_model bm m = Inr model"
    and "\<forall>k. k \<noteq> ''tools'' \<and> k \<noteq> ''tool_choice'' \<longrightarrow>
      bt_get r2 k = bt_get (responses_base m model instructions input) k"
    and "r = apply_extra_body (rewrite_native_responses_max_output_tokens
      (if sp = ForceFalse \<and> \<not> bt_contains r2 ''store'' then bt_insert ''store'' (JBool False) r2 else r2) mp) extra"
proof -
  obtain messages instructions input model r1 r2 where
      v: "validate_chat_to_responses_options m = Inr ()"
    and g: "Option.bind (bt_get m ''messages'') as_array = Some messages"
    and i: "fold_res (append_chat_message_to_responses sd) messages ([], []) = Inr (instructions, input)"
      "request_model bm m = Inr model"
    and t: "(case tools_field m of
            Some tools \<Rightarrow> bind_res (chat_tools_to_responses_tools tools)
              (\<lambda>ts. Inr (insert_tools ts (responses_base m model instructions input)))
          | None \<Rightarrow> Inr (responses_base m model instructions input)) = Inr r1"
    and c: "(case bt_get m ''tool_choice'' of
            Some tc \<Rightarrow> bind_res (chat_tool_choice_to_responses tc) (\<lambda>tc. Inr (bt_insert ''tool_choice'' tc r1))
          | None \<Rightarrow> Inr r1) = Inr r2"
    and r: "r = apply_extra_body (rewrite_native_responses_max_output_tokens
      (if sp = ForceFalse \<and> \<not> bt_contains r2 ''store'' then bt_insert ''store'' (JBool False) r2 else r2) mp) extra"
    using assms by (auto simp: chat_object_to_responses_def result_simps Let_def)
  have "bt_get m ''messages'' = Some (JArray messages)"
    using g by (cases "bt_get m ''messages''") (auto elim: as_array.elims)
  moreover have "\<forall>k. k \<noteq> ''tools'' \<and> k \<noteq> ''tool_choice'' \<longrightarrow>
      bt_get r2 k = bt_get (responses_base m model instructions input) k"
    using t c by (auto simp: result_simps insert_tools_frame bt_get_insert split: option.splits)
  ultimately show thesis using that v i r by blast
qed

lemma as_u64_one: "as_u64 x = Some 1 \<longleftrightarrow> x = JNumber (PosInt 1)"
  by (cases x rule: as_u64.cases) auto

lemma validate_chat_to_responses_options_ok:
  assumes "validate_chat_to_responses_options m = Inr ()"
  shows "bt_get m ''top_logprobs'' = None" "bt_get m ''logprobs'' \<in> {None, Some (JBool False), Some JNull}"
    "bt_get m ''n'' = None \<or> bt_get m ''n'' = Some (JNumber (PosInt 1))"
proof -
  have h: "\<not> (bt_contains m ''n'' \<and> Option.bind (bt_get m ''n'') as_u64 \<noteq> Some 1)"
    "\<not> (bt_contains m ''logprobs'' \<and> bt_get m ''logprobs'' \<notin> {Some (JBool False), Some JNull})"
    "\<not> bt_contains m ''top_logprobs''"
    using assms unfolding validate_chat_to_responses_options_def by (meson Inl_Inr_False)+
  show "bt_get m ''top_logprobs'' = None" using h(3) by (simp add: bt_contains_def)
  show "bt_get m ''logprobs'' \<in> {None, Some (JBool False), Some JNull}"
    using h(2) by (auto simp: bt_contains_def)
  show "bt_get m ''n'' = None \<or> bt_get m ''n'' = Some (JNumber (PosInt 1))"
    using h(1) by (cases "bt_get m ''n''") (simp_all add: bt_contains_def as_u64_one)
qed

text \<open>
  What the proxy sends when it translates a chat request.  The body names the backend's model,
  its input is the translated message list, the system and developer texts become the instructions,
  and \<open>store\<close> is the client's value, or \<open>false\<close> when the route forces it and the client did not
  choose.  A request for several choices or for log probabilities is refused.
\<close>

theorem chat_object_to_responses_owned:
  assumes "chat_object_to_responses sd m bm sp mp extra = Inr r"
  shows "(\<exists>model. request_model bm m = Inr model \<and> bt_get r ''model'' = Some (JString model)) \<and>
    (\<exists>messages instructions input. bt_get m ''messages'' = Some (JArray messages) \<and>
       fold_res (append_chat_message_to_responses sd) messages ([], []) = Inr (instructions, input) \<and>
       bt_get r ''input'' = Some (JArray input)) \<and>
    bt_get r ''store'' =
      (case bt_get m ''store'' of Some v \<Rightarrow> Some v
       | None \<Rightarrow> if sp = ForceFalse then Some (JBool False) else None) \<and>
    bt_get m ''top_logprobs'' = None \<and> bt_get m ''logprobs'' \<in> {None, Some (JBool False), Some JNull} \<and>
    (bt_get m ''n'' = None \<or> bt_get m ''n'' = Some (JNumber (PosInt 1)))"
proof -
  obtain messages instructions input model r2 where
      v: "validate_chat_to_responses_options m = Inr ()"
    and g: "bt_get m ''messages'' = Some (JArray messages)"
    and i: "fold_res (append_chat_message_to_responses sd) messages ([], []) = Inr (instructions, input)"
      "request_model bm m = Inr model"
    and f: "\<forall>k. k \<noteq> ''tools'' \<and> k \<noteq> ''tool_choice'' \<longrightarrow>
      bt_get r2 k = bt_get (responses_base m model instructions input) k"
    and r: "r = apply_extra_body (rewrite_native_responses_max_output_tokens
      (if sp = ForceFalse \<and> \<not> bt_contains r2 ''store'' then bt_insert ''store'' (JBool False) r2 else r2) mp) extra"
    using assms by (rule chat_object_to_responses_cases)
  have k: "bt_get r k = bt_get (if sp = ForceFalse \<and> \<not> bt_contains r2 ''store''
      then bt_insert ''store'' (JBool False) r2 else r2) k" if "k \<in> {''model'', ''input'', ''store''}" for k
    using that unfolding r
    by (auto simp: apply_extra_body_protected PROTECTED_UPSTREAM_KEYS_def bt_get_native_max_output_tokens)
  have "bt_get r ''model'' = Some (JString model)" "bt_get r ''input'' = Some (JArray input)"
    "bt_get r ''store'' = (case bt_get m ''store'' of Some v \<Rightarrow> Some v
       | None \<Rightarrow> if sp = ForceFalse then Some (JBool False) else None)"
    using f by (simp_all add: k bt_get_insert responses_base_fields bt_contains_def split: option.splits)
  then show ?thesis using validate_chat_to_responses_options_ok [OF v] g i by simp
qed

lemma example_chat_responses:
  "chat_object_to_responses example_serde
     [(''messages'', JArray [JObject [(''content'', JString ''hi''), (''role'', JString ''user'')]])] (Some ''m'')
     ForceFalse MotPreserve [] =
   Inr [(''input'', JArray [jobj [(''role'', JString ''user''), (''content'', JString ''hi'')]]),
     (''model'', JString ''m''), (''store'', JBool False)]"
proof -
  let ?m = "[(''messages'', JArray [JObject [(''content'', JString ''hi''), (''role'', JString ''user'')]])]"
  let ?i = "[jobj [(''role'', JString ''user''), (''content'', JString ''hi'')]]"
  have g: "bt_get ?m k = (if k = ''messages'' then
      Some (JArray [JObject [(''content'', JString ''hi''), (''role'', JString ''user'')]]) else None)" for k
    by (simp add: bt_get_def)
  have "append_chat_message_to_responses example_serde
      (JObject [(''content'', JString ''hi''), (''role'', JString ''user'')]) ([], []) = Inr ([], ?i)"
    by (simp add: append_chat_message_to_responses_def obj_str_def bt_get_def
        chat_content_to_responses_content_def)
  moreover have "responses_base ?m ''m'' [] ?i = [(''input'', JArray ?i), (''model'', JString ''m'')]"
    by (simp add: responses_base_def copy_keys_def CHAT_TO_RESPONSES_KEYS_def g)
  ultimately show ?thesis
    by (simp add: chat_object_to_responses_def validate_chat_to_responses_options_def bt_contains_def g
        request_model_def tools_field_def)
      (simp add: apply_extra_body_def rewrite_native_responses_max_output_tokens_def bt_get_def)
qed

theorem chat_object_to_responses_owned_witness:
  "\<exists>r. chat_object_to_responses example_serde
       [(''messages'', JArray [JObject [(''content'', JString ''hi''), (''role'', JString ''user'')]])] (Some ''m'')
       ForceFalse MotPreserve [] = Inr r \<and> bt_get r ''store'' = Some (JBool False)"
  using chat_object_to_responses_owned [OF example_chat_responses] example_chat_responses
  by (simp add: bt_get_def [of "[_]"])

section \<open>The schema sanitiser\<close>

definition no_key :: "string \<Rightarrow> json_map \<Rightarrow> bool" where
  "no_key k m \<longleftrightarrow> bt_get m k = None"

lemma collapse_schema_plain:
  assumes "no_key ''anyOf'' m" and "no_key ''oneOf'' m"
  shows "collapse_schema m = collapse_nullable_type_array (bt_remove ''default'' m)"
proof -
  have g: "bt_get (collapse_nullable_type_array (bt_remove ''default'' m)) k = None"
    if "k = ''anyOf'' \<or> k = ''oneOf''" for k
    using that assms
    by (auto simp: collapse_nullable_type_array_def no_key_def bt_get_remove bt_get_insert Let_def
        split: option.splits)
  then show ?thesis by (simp add: collapse_schema_def collapse_nullable_schema_array_def)
qed

lemma mem_collapse_type:
  "e \<in> set (collapse_nullable_type_array m) \<Longrightarrow> e \<in> set m \<or> (\<exists>t. e = (''type'', JString t))"
  by (auto simp: collapse_nullable_type_array_def Let_def split: option.splits if_splits dest!: mem_bt_insert)

lemma bt_get_map_snd: "bt_get (map (\<lambda>e. (fst e, f (snd e))) m) k = map_option f (bt_get m k)"
  unfolding bt_get_def by (induction m) auto

text \<open>
  The schema sanitiser removes every \<open>default\<close> from a schema without alternatives.  If no object in
  the schema has \<open>anyOf\<close> or \<open>oneOf\<close>, no object in the result has \<open>default\<close>.
\<close>

theorem sanitize_removes_default:
  "all_objects (\<lambda>m. no_key ''anyOf'' m \<and> no_key ''oneOf'' m) v \<Longrightarrow>
     all_objects (no_key ''default'') (sanitize_llamacpp_tool_schema v)"
proof (induction v rule: sanitize_llamacpp_tool_schema.induct)
  case (1 m)
  have plain: "collapse_schema m = collapse_nullable_type_array (bt_remove ''default'' m)"
    using 1(2) by (intro collapse_schema_plain) simp_all
  have d: "no_key ''default'' (map (\<lambda>e. (fst e, sanitize_llamacpp_tool_schema (snd e))) (collapse_schema m))"
    unfolding plain no_key_def bt_get_map_snd
    by (auto simp: collapse_nullable_type_array_def bt_get_remove bt_get_insert Let_def split: option.splits)
  have "all_objects (no_key ''default'') (sanitize_llamacpp_tool_schema (snd e))"
    if e: "e \<in> set (collapse_schema m)" for e
  proof (rule 1(1) [OF e])
    from mem_collapse_type [OF e [unfolded plain]]
    show "all_objects (\<lambda>m. no_key ''anyOf'' m \<and> no_key ''oneOf'' m) (snd e)"
      using 1(2) by (auto simp: bt_remove_def list_all_iff)
  qed
  then show ?case using d by (simp add: list_all_iff)
next
  case (2 xs)
  then show ?case by (simp add: list_all_iff)
qed simp_all

theorem sanitize_removes_default_witness:
  "all_objects (no_key ''default'')
     (sanitize_llamacpp_tool_schema (JObject [(''default'', JNull), (''type'', JString ''object'')]))"
  by (rule sanitize_removes_default) (simp add: no_key_def bt_get_def)

text \<open>
  With alternatives a \<open>default\<close> survives.  Collapsing a nullable \<open>anyOf\<close> merges the fields of the
  remaining alternative into the object after its own \<open>default\<close> was removed, so the alternative's
  \<open>default\<close> reaches the backend.
\<close>

theorem sanitize_leaks_default:
  "sanitize_llamacpp_tool_schema
     (JObject [(''anyOf'', JArray [JObject [(''default'', JNull), (''type'', JString ''string'')],
                                  JObject [(''type'', JString ''null'')]])])
   = JObject [(''default'', JNull), (''type'', JString ''string'')]"
  by (simp add: collapse_schema_def collapse_nullable_type_array_def collapse_nullable_schema_array_def
      bt_remove_def bt_get_def is_null_schema_def bt_or_insert_def bt_contains_def)

end
