(* ===== verification/Anthropic_Compat_Correct.thy ===== *)
theory Anthropic_Compat_Correct
  imports Anthropic_Compat Responses_Compat_Correct
begin

text \<open>
  Correctness of the Anthropic translations: what the translated request contains, and that the tool
  calls of an assistant turn survive the way to the Messages format and back.
\<close>

section \<open>The translated request\<close>

lemma anthropic_base_fields:
  "bt_get (anthropic_base model msgs n sys) ''model'' = Some (JString model)"
  "bt_get (anthropic_base model msgs n sys) ''messages'' = Some (JArray msgs)"
  "bt_get (anthropic_base model msgs n sys) ''max_tokens'' = Some (jnat (ucast n))"
  by (simp_all add: anthropic_base_def Let_def bt_get_insert del: bt_insert.simps)

lemma chat_object_to_anthropic_cases:
  assumes "chat_object_to_anthropic sd m bm mt extra = Inr r"
  obtains messages model n s a where "validate_chat_to_anthropic_options m = Inr ()"
    and "bt_get m ''messages'' = Some (JArray messages)" and "request_model bm m = Inr model"
    and "resolve_max_tokens m mt = Inr n"
    and "fold_res (append_chat_message_to_anthropic sd) messages
      \<lparr>as_system_parts = [], as_messages = [], as_pending = []\<rparr> = Inr s"
    and "\<forall>k \<in> {''model'', ''messages'', ''max_tokens''}.
      bt_get a k = bt_get (anthropic_base model (as_messages s) n (as_system_parts s)) k"
    and "r = apply_extra_body a extra"
proof -
  obtain messages model n s a1 a2 a3 where
      i: "validate_chat_to_anthropic_options m = Inr ()"
    and g: "Option.bind (bt_get m ''messages'') as_array = Some messages"
    and i': "request_model bm m = Inr model" "resolve_max_tokens m mt = Inr n"
      "fold_res (append_chat_message_to_anthropic sd) messages
        \<lparr>as_system_parts = [], as_messages = [], as_pending = []\<rparr> = Inr s"
    and a1: "(case bt_get m ''stop'' of
            Some stop \<Rightarrow> bind_res (normalize_stop_sequences stop) (\<lambda>v. Inr (bt_insert ''stop_sequences'' v
              (anthropic_base model (as_messages s) n (as_system_parts s))))
          | None \<Rightarrow> Inr (anthropic_base model (as_messages s) n (as_system_parts s))) = Inr a1"
    and a2: "(case tools_field m of
            Some tools \<Rightarrow> bind_res (chat_tools_to_anthropic_tools tools) (\<lambda>ts. Inr (insert_tools ts
              (copy_keys [''temperature'', ''top_p'', ''stream''] m a1)))
          | None \<Rightarrow> Inr (copy_keys [''temperature'', ''top_p'', ''stream''] m a1)) = Inr a2"
    and a3: "(case bt_get m ''tool_choice'' of
            Some tc \<Rightarrow> bind_res (chat_tool_choice_to_anthropic tc) (\<lambda>tc. Inr (bt_insert ''tool_choice'' tc a2))
          | None \<Rightarrow> Inr a2) = Inr a3"
    and r: "r = apply_extra_body a3 extra"
    using assms by (auto simp: chat_object_to_anthropic_def result_simps Let_def)
  have m: "bt_get m ''messages'' = Some (JArray messages)"
    using g by (cases "bt_get m ''messages''") (auto elim: as_array.elims)
  have f1: "bt_get a1 k = bt_get (anthropic_base model (as_messages s) n (as_system_parts s)) k"
    if "k \<noteq> ''stop_sequences''" for k
    using a1 that by (auto simp: result_simps bt_get_insert split: option.splits)
  have f2: "bt_get a2 k = bt_get a1 k" if "k \<notin> {''tools'', ''temperature'', ''top_p'', ''stream''}" for k
    using a2 that by (auto simp: result_simps insert_tools_frame bt_get_copy_keys split: option.splits)
  have f3: "bt_get a3 k = bt_get a2 k" if "k \<noteq> ''tool_choice''" for k
    using a3 that by (auto simp: result_simps bt_get_insert split: option.splits)
  show thesis by (rule that [OF i m i' _ r]) (simp add: f1 f2 f3)
qed

text \<open>
  Every chat request translated to the Messages format names the backend's model, carries the
  \<open>max_tokens\<close> the API requires (the client's limit, or the route's default), has the translated
  messages, and was checked: it asks for one choice, no log probabilities and none of the options
  that have no counterpart.
\<close>

theorem chat_object_to_anthropic_owned:
  assumes "chat_object_to_anthropic sd m bm mt extra = Inr r"
  shows "(\<exists>model. request_model bm m = Inr model \<and> bt_get r ''model'' = Some (JString model)) \<and>
    (\<exists>n. resolve_max_tokens m mt = Inr n \<and> bt_get r ''max_tokens'' = Some (jnat (ucast n))) \<and>
    (\<exists>messages s. bt_get m ''messages'' = Some (JArray messages) \<and>
       fold_res (append_chat_message_to_anthropic sd) messages
         \<lparr>as_system_parts = [], as_messages = [], as_pending = []\<rparr> = Inr s \<and>
       bt_get r ''messages'' = Some (JArray (as_messages s))) \<and>
    list_all (\<lambda>k. bt_get m k = None) CHAT_TO_ANTHROPIC_REJECTED \<and>
    fst ` set m \<subseteq> set CHAT_TO_ANTHROPIC_KNOWN"
proof -
  obtain messages model n s a where v: "validate_chat_to_anthropic_options m = Inr ()"
    and i: "bt_get m ''messages'' = Some (JArray messages)" "request_model bm m = Inr model"
      "resolve_max_tokens m mt = Inr n"
      "fold_res (append_chat_message_to_anthropic sd) messages
        \<lparr>as_system_parts = [], as_messages = [], as_pending = []\<rparr> = Inr s"
    and f: "\<forall>k \<in> {''model'', ''messages'', ''max_tokens''}.
      bt_get a k = bt_get (anthropic_base model (as_messages s) n (as_system_parts s)) k"
    and r: "r = apply_extra_body a extra"
    using assms by (rule chat_object_to_anthropic_cases)
  have o: "bt_get r k = bt_get a k" if "k \<in> {''model'', ''messages'', ''max_tokens''}" for k
    using that unfolding r by (intro apply_extra_body_protected) (auto simp: PROTECTED_UPSTREAM_KEYS_def)
  have known: "find (\<lambda>e. fst e \<notin> set CHAT_TO_ANTHROPIC_KNOWN) m = None"
    using v by (auto simp: validate_chat_to_anthropic_options_def split: option.splits)
  then have "find (bt_contains m) CHAT_TO_ANTHROPIC_REJECTED = None"
    using v by (auto simp: validate_chat_to_anthropic_options_def split: option.splits if_splits)
  then have "list_all (\<lambda>k. bt_get m k = None) CHAT_TO_ANTHROPIC_REJECTED"
    by (simp add: find_None_iff list_all_iff bt_contains_def)
  moreover have "fst ` set m \<subseteq> set CHAT_TO_ANTHROPIC_KNOWN" using known by (auto simp: find_None_iff)
  moreover have "bt_get r ''model'' = Some (JString model)" "bt_get r ''messages'' = Some (JArray (as_messages s))"
    "bt_get r ''max_tokens'' = Some (jnat (ucast n))"
    using f o by (simp_all add: anthropic_base_fields)
  ultimately show ?thesis using i by blast
qed

lemma example_chat_anthropic:
  "chat_object_to_anthropic example_serde
     [(''messages'', JArray [JObject [(''content'', JString ''hi''), (''role'', JString ''user'')]])] (Some ''m'')
     (Some 64) [] =
   Inr [(''max_tokens'', jnat 64), (''messages'', JArray [jobj [(''role'', JString ''user''),
      (''content'', JArray [text_block ''hi''])]]), (''model'', JString ''m'')]"
proof -
  let ?c = "JArray [JObject [(''content'', JString ''hi''), (''role'', JString ''user'')]]"
  let ?m = "[(''messages'', ?c)]"
  have g: "bt_get ?m k = (if k = ''messages'' then Some ?c else None)" for k
    by (simp add: bt_get_def)
  have "validate_chat_to_anthropic_options ?m = Inr ()"
    by (simp add: validate_chat_to_anthropic_options_def CHAT_TO_ANTHROPIC_KNOWN_def
        CHAT_TO_ANTHROPIC_REJECTED_def bt_contains_def g)
  moreover have "resolve_max_tokens ?m (Some 64) = Inr 64"
    by (simp add: resolve_max_tokens_def u32_field_def first_some_def g)
  moreover have "append_chat_message_to_anthropic example_serde
      (JObject [(''content'', JString ''hi''), (''role'', JString ''user'')])
      \<lparr>as_system_parts = [], as_messages = [], as_pending = []\<rparr> =
      Inr \<lparr>as_system_parts = [], as_messages = [jobj [(''role'', JString ''user''),
        (''content'', JArray [text_block ''hi''])]], as_pending = []\<rparr>"
    by (simp add: append_chat_message_to_anthropic_def obj_str_def bt_get_def
        chat_message_content_to_anthropic_blocks_def)
  ultimately show ?thesis
    by (simp add: chat_object_to_anthropic_def g request_model_def tools_field_def anthropic_base_def
        copy_keys_def apply_extra_body_def)
qed

theorem chat_object_to_anthropic_owned_witness:
  "\<exists>r. chat_object_to_anthropic example_serde
       [(''messages'', JArray [JObject [(''content'', JString ''hi''), (''role'', JString ''user'')]])] (Some ''m'')
       (Some 64) [] = Inr r \<and> bt_get r ''model'' = Some (JString ''m'')"
  using chat_object_to_anthropic_owned [OF example_chat_anthropic] example_chat_anthropic
  by (simp add: request_model_def)

section \<open>Tool calls there and back\<close>

definition chat_call :: "string \<times> string \<times> string \<Rightarrow> json" where
  "chat_call c =
     (let (i, nm, a) = c
      in jobj [(''id'', JString i), (''type'', JString ''function''),
           (''function'', jobj [(''name'', JString nm), (''arguments'', JString a)])])"

definition tool_use_block :: "serde \<Rightarrow> string \<times> string \<times> string \<Rightarrow> json" where
  "tool_use_block sd c =
     (let (i, nm, a) = c
      in jobj [(''type'', JString ''tool_use''), (''id'', JString i), (''name'', JString nm),
           (''input'', the (from_slice sd a))])"

text \<open>A call with an id and a name, whose arguments are JSON as the serialiser prints it.\<close>

definition printed_call :: "serde \<Rightarrow> string \<times> string \<times> string \<Rightarrow> bool" where
  "printed_call sd c \<longleftrightarrow>
     (let (i, nm, a) = c
      in \<not> is_blank i \<and> \<not> is_blank nm \<and> from_slice sd a \<noteq> None \<and> Option.bind (from_slice sd a) (to_vec sd) = Some a)"

lemma tool_call_to_block_printed:
  assumes "printed_call sd c"
  shows "tool_call_to_block sd index (chat_call c) = Inr (fst c, tool_use_block sd c)"
proof -
  obtain i nm a where c: "c = (i, nm, a)" by (cases c)
  obtain v where v: "from_slice sd a = Some v" using assms c by (auto simp: printed_call_def)
  show ?thesis
    using assms c v by (simp add: tool_call_to_block_def chat_call_def tool_use_block_def printed_call_def
        as_object_jobj obj_str_def bt_get_of_list non_blank_def)
qed

lemma append_assistant_calls_printed:
  assumes "list_all (printed_call sd) calls"
  shows "\<exists>pending. append_assistant_calls sd (map chat_call calls) (p, blocks) =
      Inr (pending, blocks @ map (tool_use_block sd) calls) \<and> set pending = set p \<union> fst ` set calls"
proof -
  have "\<exists>pending. fold_res (\<lambda>(index, call) (pending, blocks).
         bind_res (tool_call_to_block sd index call) (\<lambda>(i, block).
           Inr (bs_insert i pending, blocks @ [block])))
       (List.enumerate n (map chat_call calls)) (p, blocks) =
      Inr (pending, blocks @ map (tool_use_block sd) calls) \<and> set pending = set p \<union> fst ` set calls" for n
    using assms
  proof (induction calls arbitrary: n p blocks)
    case Nil
    then show ?case by simp
  next
    case (Cons c calls)
    then show ?case
      using Cons.IH [of "Suc n" "bs_insert (fst c) p" "blocks @ [tool_use_block sd c]"]
      by (auto simp: tool_call_to_block_printed)
  qed
  then show ?thesis by (simp add: append_assistant_calls_def)
qed

lemma content_block_step_tool_use:
  assumes "printed_call sd c"
  shows "content_block_step sd (n, tool_use_block sd c) (t, cs) = (t, cs @ [chat_call c])"
proof -
  obtain i nm a where c: "c = (i, nm, a)" by (cases c)
  obtain v where v: "from_slice sd a = Some v" "to_vec sd v = Some a"
    using assms c by (auto simp: printed_call_def)
  show ?thesis
    using c v by (simp add: content_block_step_def tool_use_block_def chat_call_def as_object_jobj
        obj_str_def bt_get_of_list)
qed

lemma fold_content_blocks:
  assumes "list_all (printed_call sd) calls"
  shows "fold (content_block_step sd) (List.enumerate n (map (tool_use_block sd) calls)) (t, cs) =
    (t, cs @ map chat_call calls)"
  using assms
  by (induction calls arbitrary: n cs) (simp_all add: content_block_step_tool_use)

text \<open>
  The tool calls of an assistant turn survive the translation.  Calls with an id, a name and
  arguments printed by the serialiser become \<open>tool_use\<close> blocks after the text; reading those blocks
  back as a chat message gives the same text and the same calls in the same order, and every id is
  registered as awaiting its result.
\<close>

theorem tool_calls_roundtrip:
  assumes "list_all (printed_call sd) calls"
  shows "\<exists>pending blocks.
    append_assistant_calls sd (map chat_call calls) (p, [text_block t]) = Inr (pending, blocks) \<and>
    anthropic_content_to_chat_message sd (Some (JArray blocks)) = (t, map chat_call calls) \<and>
    set pending = set p \<union> fst ` set calls"
proof -
  obtain pending where a: "append_assistant_calls sd (map chat_call calls) (p, [text_block t]) =
      Inr (pending, [text_block t] @ map (tool_use_block sd) calls)" "set pending = set p \<union> fst ` set calls"
    using append_assistant_calls_printed [OF assms] by blast
  have "content_block_step sd (0, text_block t) ([], []) = (t, [])"
    by (simp add: content_block_step_def text_block_def as_object_jobj obj_str_def bt_get_of_list)
  then have "anthropic_content_to_chat_message sd (Some (JArray ([text_block t] @ map (tool_use_block sd) calls)))
      = (t, map chat_call calls)"
    using fold_content_blocks [OF assms, of "Suc 0" t "[]"]
    by (simp add: anthropic_content_to_chat_message_def)
  then show ?thesis using a by blast
qed

definition empty_object_serde :: serde where
  "empty_object_serde =
     \<lparr>from_slice = (\<lambda>s. if s = ''{}'' then Some (JObject []) else None),
      to_vec = (\<lambda>v. if v = JObject [] then Some ''{}'' else None), to_string = (\<lambda>_. ''{}'')\<rparr>"

theorem tool_calls_roundtrip_witness:
  "\<exists>pending blocks.
    append_assistant_calls empty_object_serde [chat_call (''c1'', ''f'', ''{}'')] ([], [text_block ''hi''])
      = Inr (pending, blocks) \<and>
    anthropic_content_to_chat_message empty_object_serde (Some (JArray blocks))
      = (''hi'', [chat_call (''c1'', ''f'', ''{}'')])"
proof -
  have "\<not> is_blank ''c1''" "\<not> is_blank ''f''" by code_simp+
  then show ?thesis
    using tool_calls_roundtrip [of empty_object_serde "[(''c1'', ''f'', ''{}'')]" "[]" "''hi''"]
    by (simp add: printed_call_def empty_object_serde_def) blast
qed

end
