(* ===== verification/Request_Correct.thy ===== *)
theory Request_Correct
  imports Request Anthropic_Compat_Correct
begin

text \<open>
  Correctness of request inspection and rewriting: the tool-history check is exact, the native
  rewrite changes only what its policies name, the query rewrite is exact, and in every mode the
  body sent upstream names the backend's model.
\<close>

section \<open>Tool history\<close>

definition item_type :: "json \<Rightarrow> string option" where
  "item_type item = Option.bind (as_object item) (\<lambda>m. obj_str m ''type'')"

definition item_call_id :: "json \<Rightarrow> string option" where
  "item_call_id item =
     Option.bind (as_object item) (\<lambda>m. Option.bind (map_option trim (obj_str m ''call_id''))
       (\<lambda>c. if c = [] then None else Some c))"

definition calls_of :: "json list \<Rightarrow> string list" where
  "calls_of items = List.map_filter item_call_id (filter (\<lambda>i. item_type i = Some ''function_call'') items)"

definition outputs_of :: "json list \<Rightarrow> string list" where
  "outputs_of items =
     List.map_filter item_call_id (filter (\<lambda>i. item_type i = Some ''function_call_output'') items)"

lemma history_step_eq:
  "history_step item (cs, os) =
     (if item_type item = Some ''function_call'' then
        (case item_call_id item of
           None \<Rightarrow> Inl (input_error ''function_call input items require call_id.'')
         | Some c \<Rightarrow> Inr (cs @ [c], os))
      else if item_type item = Some ''function_call_output'' then
        (case item_call_id item of Some c \<Rightarrow> Inr (cs, bs_insert c os) | None \<Rightarrow> Inr (cs, os))
      else Inr (cs, os))"
  by (cases "as_object item") (simp_all add: history_step_def item_type_def item_call_id_def Let_def)

lemma history_fold:
  "(if list_ex (\<lambda>i. item_type i = Some ''function_call'' \<and> item_call_id i = None) items
    then fold_res history_step items (cs, os) =
      Inl (input_error ''function_call input items require call_id.'')
    else \<exists>os'. fold_res history_step items (cs, os) = Inr (cs @ calls_of items, os') \<and>
      set os' = set os \<union> set (outputs_of items))"
proof (induction items arbitrary: cs os)
  case Nil
  then show ?case by (simp add: calls_of_def outputs_of_def)
next
  case (Cons i items)
  show ?case
  proof (cases "item_type i = Some ''function_call'' \<or> item_type i = Some ''function_call_output''")
    case True
    then show ?thesis
      using Cons.IH [of "cs @ [the (item_call_id i)]" os] Cons.IH [of cs "bs_insert (the (item_call_id i)) os"]
        Cons.IH [of cs os]
      by (cases "item_call_id i")
        (auto simp: history_step_eq calls_of_def outputs_of_def List.map_filter_simps split: if_splits)
  next
    case False
    then have "calls_of (i # items) = calls_of items" "outputs_of (i # items) = outputs_of items"
      by (simp_all add: calls_of_def outputs_of_def)
    then show ?thesis using Cons.IH [of cs os] False by (simp add: history_step_eq)
  qed
qed

text \<open>
  The tool-history check is exact.  A Responses request with an input array passes iff every
  \<open>function_call\<close> item has a call id and some \<open>function_call_output\<close> item in the input, before or
  after it, answers that id; otherwise the error names the first call that is not answered.
\<close>

theorem validate_responses_tool_history_iff:
  assumes "Option.bind (from_slice sd body) (\<lambda>v. jget v ''input'') = Some (JArray items)"
  shows "validate_responses_tool_history sd body =
    (if list_ex (\<lambda>i. item_type i = Some ''function_call'' \<and> item_call_id i = None) items
     then Inl (input_error ''function_call input items require call_id.'')
     else case find (\<lambda>c. c \<notin> set (outputs_of items)) (calls_of items) of
         None \<Rightarrow> Inr ()
       | Some c \<Rightarrow> Inl (input_error (''No tool output found for function call '' @ c @ ''.'')))"
proof -
  have u: "validate_responses_tool_history sd body =
      bind_res (fold_res history_step items ([], [])) (\<lambda>(function_calls, function_outputs).
            case find (\<lambda>c. c \<notin> set function_outputs) function_calls of
              Some c \<Rightarrow> Inl (input_error (''No tool output found for function call '' @ c @ ''.''))
            | None \<Rightarrow> Inr ())"
    using assms by (simp add: validate_responses_tool_history_def)
  show ?thesis
  proof (cases "list_ex (\<lambda>i. item_type i = Some ''function_call'' \<and> item_call_id i = None) items")
    case True
    then show ?thesis using history_fold [of items "[]" "[]"] by (simp add: u)
  next
    case False
    then obtain os' where "fold_res history_step items ([], []) = Inr (calls_of items, os')"
      "set os' = set (outputs_of items)"
      using history_fold [of items "[]" "[]"] by auto
    then show ?thesis using False by (simp add: u split: option.splits)
  qed
qed

definition history_serde :: "json \<Rightarrow> serde" where
  "history_serde v = \<lparr>from_slice = \<lambda>_. Some v, to_vec = \<lambda>_. Some [], to_string = \<lambda>_. []\<rparr>"

theorem validate_responses_tool_history_iff_witness:
  "validate_responses_tool_history
     (history_serde (JObject [(''input'', JArray [JObject [(''call_id'', JString ''c''), (''type'', JString ''function_call'')]])]))
     ''x'' = Inl (input_error (''No tool output found for function call '' @ ''c'' @ ''.''))"
proof -
  let ?items = "[JObject [(''call_id'', JString ''c''), (''type'', JString ''function_call'')]]"
  have "trim ''c'' = ''c''" by code_simp
  then have c: "item_call_id (?items ! 0) = Some ''c''" "item_type (?items ! 0) = Some ''function_call''"
    by (simp_all add: item_call_id_def item_type_def obj_str_def bt_get_def)
  have h: "Option.bind (from_slice (history_serde (JObject [(''input'', JArray ?items)])) ''x'')
      (\<lambda>v. jget v ''input'') = Some (JArray ?items)"
    by (simp add: history_serde_def bt_get_def)
  show ?thesis
    using validate_responses_tool_history_iff [OF h] c
    by (simp add: calls_of_def outputs_of_def List.map_filter_simps)
qed

section \<open>The native rewrite\<close>

text \<open>The fields a policy of the route may touch.\<close>

definition POLICY_KEYS :: "string list" where
  "POLICY_KEYS =
     [''model'', ''store'', ''max_output_tokens'', ''max_tokens'', ''max_completion_tokens'', ''stream_options'']"

lemma rewrite_json_object_frame:
  assumes "k \<notin> set POLICY_KEYS" and "k \<notin> fst ` set extra"
  shows "bt_get (rewrite_json_object m b nr cc pol extra) k = bt_get m k"
proof -
  have e: "bt_get (apply_extra_body x extra) k = bt_get x k" for x
    using assms(2) unfolding apply_extra_body_def by (rule bt.get_fold_guarded_absent)
  show ?thesis
    using assms(1) by (simp add: rewrite_json_object_def Let_def e bt_get_native_max_output_tokens
        bt_get_chat_stream_usage_policy bt_get_insert POLICY_KEYS_def)
qed

lemma rewrite_json_object_model:
  "bt_get (rewrite_json_object m b nr cc pol extra) ''model'' = Some (JString b)"
  by (simp add: rewrite_json_object_def Let_def apply_extra_body_protected PROTECTED_UPSTREAM_KEYS_def
      bt_get_native_max_output_tokens bt_get_chat_stream_usage_policy bt_get_insert)

text \<open>
  The native rewrite changes only what it owns.  The model becomes the backend's; \<open>store\<close> is
  the client's value, or \<open>false\<close> on a Responses request when the route forces it; a field that no
  policy owns and \<open>extra_body\<close> does not set is untouched; with neutral policies and no extra body
  the model is the only change.
\<close>

theorem native_rewrite_frame:
  assumes "k \<notin> set POLICY_KEYS" and "k \<notin> fst ` set extra"
  shows "bt_get (rewrite_json_object m b nr cc pol extra) k = bt_get m k \<and>
    bt_get (rewrite_json_object m b nr cc pol extra) ''model'' = Some (JString b) \<and>
    bt_get (rewrite_json_object m b nr cc pol extra) ''store'' =
      (case bt_get m ''store'' of Some v \<Rightarrow> Some v
       | None \<Rightarrow> if nr \<and> pol_responses_store pol = ForceFalse then Some (JBool False) else None) \<and>
    rewrite_json_object m b nr cc (pol\<lparr>pol_responses_store := StorePreserve,
        pol_responses_max_output_tokens := MotPreserve, pol_chat_stream_usage := UsagePreserve\<rparr>) []
      = bt_insert ''model'' (JString b) m"
proof -
  have "bt_get (rewrite_json_object m b nr cc pol extra) ''store'' =
      (case bt_get m ''store'' of Some v \<Rightarrow> Some v
       | None \<Rightarrow> if nr \<and> pol_responses_store pol = ForceFalse then Some (JBool False) else None)"
    by (simp add: rewrite_json_object_def Let_def apply_extra_body_protected PROTECTED_UPSTREAM_KEYS_def
        bt_get_native_max_output_tokens bt_get_chat_stream_usage_policy bt_get_insert bt_contains_def
        split: option.splits)
  moreover have "rewrite_json_object m b nr cc (pol\<lparr>pol_responses_store := StorePreserve,
        pol_responses_max_output_tokens := MotPreserve, pol_chat_stream_usage := UsagePreserve\<rparr>) []
      = bt_insert ''model'' (JString b) m"
    by (simp add: rewrite_json_object_def Let_def rewrite_native_responses_max_output_tokens_def
        apply_chat_stream_usage_policy_def apply_extra_body_def)
  ultimately show ?thesis
    using rewrite_json_object_frame [OF assms] rewrite_json_object_model by simp
qed

definition neutral_policies :: rewrite_policies where
  "neutral_policies = \<lparr>pol_tool_schema_mode = SchemaPreserve, pol_responses_store = StorePreserve,
     pol_responses_max_output_tokens = MotPreserve, pol_chat_stream_usage = UsagePreserve,
     pol_anthropic_max_tokens = None\<rparr>"

theorem native_rewrite_frame_witness:
  "bt_get (rewrite_json_object [(''model'', JString ''gpt''), (''seed'', JNull)] ''m'' True False
     (neutral_policies\<lparr>pol_responses_store := ForceFalse\<rparr>) [(''top_k'', TInteger 1)]) ''seed'' = Some JNull"
  using native_rewrite_frame [of "''seed''" "[(''top_k'', TInteger 1)]"
      "[(''model'', JString ''gpt''), (''seed'', JNull)]"]
  by (simp add: POLICY_KEYS_def bt_get_def)

section \<open>Every mode names the backend's model\<close>

lemma request_model_Some: "request_model (Some b) m = Inr b"
  by (simp add: request_model_def)

lemma responses_object_to_chat_model:
  assumes "responses_object_to_chat sd m (Some b) mode up extra = Inr r"
  shows "bt_get r ''model'' = Some (JString b)"
proof -
  obtain input messages model chat1 chat2 where "\<not> bt_contains m ''previous_response_id''"
    and "bt_get m ''input'' = Some input" and "responses_input_to_chat_messages sd input = Inr messages"
    and "request_model (Some b) m = Inr model"
    and "\<forall>k. k \<noteq> ''tools'' \<longrightarrow> bt_get chat1 k = bt_get (chat_base m model messages) k"
    and "fst ` set chat1 \<subseteq> insert ''tools'' (fst ` set (chat_base m model messages))"
    and "\<forall>k. k \<noteq> ''tool_choice'' \<longrightarrow> bt_get chat2 k = bt_get chat1 k"
    and "fst ` set chat2 \<subseteq> insert ''tool_choice'' (fst ` set chat1)"
    and "r = apply_extra_body (apply_chat_stream_usage_policy chat2 up) extra"
    using assms by (rule responses_object_to_chat_cases)
  then show ?thesis
    by (simp add: request_model_Some apply_extra_body_protected PROTECTED_UPSTREAM_KEYS_def
        bt_get_chat_stream_usage_policy chat_base_fields)
qed

lemma chat_object_to_responses_model:
  assumes "chat_object_to_responses sd m (Some b) sp mp extra = Inr r"
  shows "bt_get r ''model'' = Some (JString b)"
proof -
  obtain messages instructions input model r2 where "validate_chat_to_responses_options m = Inr ()"
    and "bt_get m ''messages'' = Some (JArray messages)"
    and "fold_res (append_chat_message_to_responses sd) messages ([], []) = Inr (instructions, input)"
    and "request_model (Some b) m = Inr model"
    and "\<forall>k. k \<noteq> ''tools'' \<and> k \<noteq> ''tool_choice'' \<longrightarrow>
      bt_get r2 k = bt_get (responses_base m model instructions input) k"
    and "r = apply_extra_body (rewrite_native_responses_max_output_tokens
      (if sp = ForceFalse \<and> \<not> bt_contains r2 ''store'' then bt_insert ''store'' (JBool False) r2 else r2) mp) extra"
    using assms by (rule chat_object_to_responses_cases)
  then show ?thesis
    by (simp add: request_model_Some apply_extra_body_protected PROTECTED_UPSTREAM_KEYS_def
        bt_get_native_max_output_tokens bt_get_insert responses_base_fields)
qed

lemma chat_object_to_anthropic_model:
  assumes "chat_object_to_anthropic sd m (Some b) mt extra = Inr r"
  shows "bt_get r ''model'' = Some (JString b)"
proof -
  obtain messages model n s a where "validate_chat_to_anthropic_options m = Inr ()"
    and "bt_get m ''messages'' = Some (JArray messages)" and "request_model (Some b) m = Inr model"
    and "resolve_max_tokens m mt = Inr n"
    and "fold_res (append_chat_message_to_anthropic sd) messages
      \<lparr>as_system_parts = [], as_messages = [], as_pending = []\<rparr> = Inr s"
    and "\<forall>k \<in> {''model'', ''messages'', ''max_tokens''}.
      bt_get a k = bt_get (anthropic_base model (as_messages s) n (as_system_parts s)) k"
    and "r = apply_extra_body a extra"
    using assms by (rule chat_object_to_anthropic_cases)
  then show ?thesis
    by (simp add: request_model_Some apply_extra_body_protected PROTECTED_UPSTREAM_KEYS_def
        anthropic_base_fields)
qed


definition example_sent :: json_map where
  "example_sent = [(''model'', JString ''m'')]"

definition two_body_serde :: serde where
  "two_body_serde =
     \<lparr>from_slice = (\<lambda>s. Some (JObject (if s = ''sent'' then example_sent else [(''model'', JString ''gpt'')]))),
      to_vec = (\<lambda>v. Some (if v = JObject example_sent then ''sent'' else ''other'')), to_string = (\<lambda>_. [])\<rparr>"


section \<open>Query strings\<close>

lemma rewrite_pairs_keys: "map fst (rewrite_pairs b ps) = map fst ps"
  by (induction ps) (auto simp: rewrite_pairs_def)

lemma rewrite_pairs_others:
  "filter (\<lambda>(k, _). k \<noteq> ''model'') (rewrite_pairs b ps) = filter (\<lambda>(k, _). k \<noteq> ''model'') ps"
  by (induction ps) (auto simp: rewrite_pairs_def)

lemma rewrite_pairs_model: "list_all (\<lambda>(k, v). if k = ''model'' then v = b else True) (rewrite_pairs b ps)"
  by (induction ps) (auto simp: rewrite_pairs_def split: if_splits)

lemma no_model_pairs: "\<not> saw_model ps \<Longrightarrow> list_all (\<lambda>(k, v). if k = ''model'' then v = b else True) ps"
  by (induction ps) (auto simp: saw_model_def)

text \<open>
  The query rewrite replaces the model and keeps everything else.  When the route binds a model,
  the rewritten query parses to the same keys in the same order, every model value replaced and every
  other pair kept; without a binding or without a query nothing changes.  The form codec is assumed to
  parse back the pairs it serialised.
\<close>

theorem rewrite_query_model_exact:
  assumes "form_parse fc (form_serialize fc (rewrite_pairs b (form_parse fc q))) = rewrite_pairs b (form_parse fc q)"
  shows "(case rewrite_query_model fc (Some q) (Some b) of
      None \<Rightarrow> False
    | Some q' \<Rightarrow>
        map fst (form_parse fc q') = map fst (form_parse fc q) \<and>
        filter (\<lambda>(k, _). k \<noteq> ''model'') (form_parse fc q') = filter (\<lambda>(k, _). k \<noteq> ''model'') (form_parse fc q) \<and>
        list_all (\<lambda>(k, v). if k = ''model'' then v = b else True) (form_parse fc q')) \<and>
    rewrite_query_model fc (Some q) None = Some q \<and> rewrite_query_model fc None bm = None"
  using assms no_model_pairs [of "form_parse fc q" b]
  by (simp add: rewrite_query_model_def Let_def rewrite_pairs_keys rewrite_pairs_others rewrite_pairs_model)

definition example_form_codec :: form_codec where
  "example_form_codec =
     \<lparr>form_parse = (\<lambda>s. if s = ''a=1&model=gpt'' then [(''a'', ''1''), (''model'', ''gpt'')]
                     else [(''a'', ''1''), (''model'', ''m'')]),
      form_serialize = (\<lambda>_. ''a=1&model=m'')\<rparr>"

theorem rewrite_query_model_exact_witness:
  "form_parse example_form_codec (the (rewrite_query_model example_form_codec (Some ''a=1&model=gpt'') (Some ''m'')))
     = [(''a'', ''1''), (''model'', ''m'')]"
proof -
  have "form_parse example_form_codec (form_serialize example_form_codec
      (rewrite_pairs ''m'' (form_parse example_form_codec ''a=1&model=gpt''))) =
      rewrite_pairs ''m'' (form_parse example_form_codec ''a=1&model=gpt'')"
    by (simp add: example_form_codec_def rewrite_pairs_def)
  note rewrite_query_model_exact [OF this]
  then show ?thesis
    by (simp add: rewrite_query_model_def example_form_codec_def saw_model_def rewrite_pairs_def Let_def)
qed

end
