(* ===== verification/Response.thy ===== *)
theory Response
  imports Request
begin

text \<open>
  The non-streaming half of \<open>onair-core/src/openai/response.rs\<close>: usage accounting, the rewriting of
  model names, and the conversion of response bodies between the protocols.  Token counts are \<open>u64\<close>;
  \<open>+\<close> on them wraps, as it does in a release build.
\<close>

section \<open>Identifiers\<close>

definition response_id_from_chat :: "string \<Rightarrow> string" where
  "response_id_from_chat chat_id =
     (if starts_with ''resp_'' chat_id then chat_id else ''resp_'' @ chat_id)"

definition chat_id_from_response :: "string \<Rightarrow> string" where
  "chat_id_from_response response_id =
     (if starts_with ''chatcmpl'' response_id then response_id else ''chatcmpl_'' @ response_id)"

definition message_id_from_response :: "string \<Rightarrow> nat \<Rightarrow> string" where
  "message_id_from_response response_id index = ''msg_'' @ response_id @ ''_'' @ show_nat index"

section \<open>Usage\<close>

definition number_field :: "json_map \<Rightarrow> string \<Rightarrow> u64 option" where
  "number_field m field = Option.bind (bt_get m field) as_u64"

definition nested_number_field :: "json_map \<Rightarrow> string \<Rightarrow> string \<Rightarrow> u64 option" where
  "nested_number_field m parent field =
     Option.bind (Option.bind (bt_get m parent) as_object) (\<lambda>m. number_field m field)"

abbreviation or_zero :: "u64 option \<Rightarrow> u64" where
  "or_zero m \<equiv> (case m of Some n \<Rightarrow> n | None \<Rightarrow> 0)"

record usage_fields =
  uf_input :: u64
  uf_output :: u64
  uf_cached :: u64
  uf_reasoning :: u64
  uf_total :: u64

definition usage_fields_from_object :: "json_map option \<Rightarrow> usage_fields" where
  "usage_fields_from_object usage =
     (case usage of
        None \<Rightarrow> \<lparr>uf_input = 0, uf_output = 0, uf_cached = 0, uf_reasoning = 0, uf_total = 0\<rparr>
      | Some u \<Rightarrow>
          let input = or_zero (number_field u ''prompt_tokens'') + or_zero (number_field u ''input_tokens'');
              outp = or_zero (number_field u ''completion_tokens'') + or_zero (number_field u ''output_tokens'');
              cached = or_zero (first_some (nested_number_field u ''prompt_tokens_details'' ''cached_tokens'')
                  (nested_number_field u ''input_tokens_details'' ''cached_tokens''));
              reasoning = or_zero (first_some
                  (nested_number_field u ''completion_tokens_details'' ''reasoning_tokens'')
                  (nested_number_field u ''output_tokens_details'' ''reasoning_tokens''));
              tot = (case number_field u ''total_tokens'' of Some t \<Rightarrow> t | None \<Rightarrow> input + outp)
          in \<lparr>uf_input = input, uf_output = outp, uf_cached = cached, uf_reasoning = reasoning,
              uf_total = tot\<rparr>)"

record usage_totals =
  ut_input :: u64
  ut_cached_input :: u64
  ut_output :: u64
  ut_reasoning_output :: u64
  ut_total :: u64

definition default_totals :: usage_totals where
  "default_totals = \<lparr>ut_input = 0, ut_cached_input = 0, ut_output = 0, ut_reasoning_output = 0, ut_total = 0\<rparr>"

definition is_empty :: "usage_totals \<Rightarrow> bool" where
  "is_empty t \<longleftrightarrow> ut_input t = 0 \<and> ut_cached_input t = 0 \<and> ut_output t = 0 \<and>
     ut_reasoning_output t = 0 \<and> ut_total t = 0"

definition label_char :: "char \<Rightarrow> char option" where
  "label_char c =
     (if is_ascii_alphanumeric c \<or> c \<in> {CHR ''-'', CHR ''_'', CHR ''.'', CHR '':''} then Some c
      else if is_ascii_graphic c then Some CHR ''_''
      else None)"

definition safe_diagnostic_label :: "string \<Rightarrow> string option" where
  "safe_diagnostic_label s =
     (let label = take 80 (List.map_filter label_char s) in if label = [] then None else Some label)"

record usage_diagnostics =
  ud_usage_object_count :: u64
  ud_usage_keys :: "string list"
  ud_event_names :: "string list"
  ud_usage_event_names :: "string list"

definition default_diagnostics :: usage_diagnostics where
  "default_diagnostics =
     \<lparr>ud_usage_object_count = 0, ud_usage_keys = [], ud_event_names = [], ud_usage_event_names = []\<rparr>"

definition observe_object :: "json_map \<Rightarrow> usage_diagnostics \<Rightarrow> usage_diagnostics" where
  "observe_object m d =
     d\<lparr>ud_usage_object_count := ud_usage_object_count d + 1,
       ud_usage_keys := bs_extend (List.map_filter (\<lambda>e. safe_diagnostic_label (fst e)) m) (ud_usage_keys d)\<rparr>"

definition observe_event_name :: "string \<Rightarrow> usage_diagnostics \<Rightarrow> usage_diagnostics" where
  "observe_event_name name d =
     (case safe_diagnostic_label name of
        Some l \<Rightarrow> d\<lparr>ud_event_names := bs_insert l (ud_event_names d)\<rparr> | None \<Rightarrow> d)"

definition observe_usage_event_name :: "string \<Rightarrow> usage_diagnostics \<Rightarrow> usage_diagnostics" where
  "observe_usage_event_name name d =
     (case safe_diagnostic_label name of
        Some l \<Rightarrow> d\<lparr>ud_usage_event_names := bs_insert l (ud_usage_event_names d)\<rparr> | None \<Rightarrow> d)"

definition merge_diagnostics :: "usage_diagnostics \<Rightarrow> usage_diagnostics \<Rightarrow> usage_diagnostics" where
  "merge_diagnostics d other =
     \<lparr>ud_usage_object_count = ud_usage_object_count d + ud_usage_object_count other,
      ud_usage_keys = bs_extend (ud_usage_keys other) (ud_usage_keys d),
      ud_event_names = bs_extend (ud_event_names other) (ud_event_names d),
      ud_usage_event_names = bs_extend (ud_usage_event_names other) (ud_usage_event_names d)\<rparr>"

record usage_observation =
  uo_totals :: usage_totals
  uo_diagnostics :: usage_diagnostics

definition add_usage_object :: "json_map \<Rightarrow> usage_totals \<Rightarrow> usage_totals" where
  "add_usage_object m t =
     (let f = usage_fields_from_object (Some m)
      in \<lparr>ut_input = ut_input t + uf_input f, ut_cached_input = ut_cached_input t + uf_cached f,
          ut_output = ut_output t + uf_output f,
          ut_reasoning_output = ut_reasoning_output t + uf_reasoning f,
          ut_total = ut_total t + uf_total f\<rparr>)"

definition observe_usage_object :: "json_map \<Rightarrow> usage_observation \<Rightarrow> usage_observation" where
  "observe_usage_object usage obs =
     \<lparr>uo_totals = add_usage_object usage (uo_totals obs),
      uo_diagnostics = observe_object usage (uo_diagnostics obs)\<rparr>"

fun collect_usage :: "json \<Rightarrow> usage_observation \<Rightarrow> usage_observation" where
  "collect_usage (JObject m) obs =
     fold (\<lambda>e. collect_usage (snd e)) m
       (case Option.bind (bt_get m ''usage'') as_object of
          Some usage \<Rightarrow> observe_usage_object usage obs | None \<Rightarrow> obs)"
| "collect_usage (JArray vs) obs = fold collect_usage vs obs"
| "collect_usage _ obs = obs"

definition extract_usage_observation :: "json \<Rightarrow> usage_observation" where
  "extract_usage_observation v =
     collect_usage v \<lparr>uo_totals = default_totals, uo_diagnostics = default_diagnostics\<rparr>"

definition extract_usage :: "json \<Rightarrow> usage_totals" where
  "extract_usage v = uo_totals (extract_usage_observation v)"

text \<open>\<open>u64::checked_add\<close>.\<close>

definition checked_add :: "u64 \<Rightarrow> u64 \<Rightarrow> u64 option" where
  "checked_add a b = (if unat a + unat b < 2 ^ 64 then Some (a + b) else None)"

definition ensure_usage_object_total_tokens :: "json_map \<Rightarrow> json_map" where
  "ensure_usage_object_total_tokens usage =
     (if number_field usage ''total_tokens'' \<noteq> None then usage
      else
        (case (first_some (number_field usage ''prompt_tokens'') (number_field usage ''input_tokens''),
               first_some (number_field usage ''completion_tokens'') (number_field usage ''output_tokens'')) of
           (Some i, Some out) \<Rightarrow>
             (case checked_add i out of
                Some t \<Rightarrow> bt_insert ''total_tokens'' (jnat t) usage
              | None \<Rightarrow> usage)
         | _ \<Rightarrow> usage))"

text \<open>The update in place of the \<open>usage\<close> field of an object (\<open>get_mut\<close>), when it is an object itself.\<close>

definition ensure_usage_field :: "json_map \<Rightarrow> json_map" where
  "ensure_usage_field m =
     map (\<lambda>e. (fst e, case (fst e = ''usage'', snd e) of
            (True, JObject usage) \<Rightarrow> JObject (ensure_usage_object_total_tokens usage)
          | _ \<Rightarrow> snd e)) m"

text \<open>The number of containers in a value: the measure of the recursion below, which may add a number.\<close>

fun containers :: "json \<Rightarrow> nat" where
  "containers (JObject m) = Suc (sum_list (map (\<lambda>e. containers (snd e)) m))"
| "containers (JArray vs) = Suc (sum_list (map containers vs))"
| "containers _ = 0"

abbreviation field_containers :: "json_map \<Rightarrow> nat" where
  "field_containers m \<equiv> sum_list (map (\<lambda>e. containers (snd e)) m)"

lemma field_containers_insert:
  "field_containers (bt_insert k v m) \<le> containers v + field_containers m"
  by (induction m) auto

lemma containers_ensure_object:
  "containers (JObject (ensure_usage_object_total_tokens u)) \<le> containers (JObject u)"
proof -
  have "field_containers (bt_insert ''total_tokens'' (jnat n) u) \<le> field_containers u" for n
    using field_containers_insert [of "''total_tokens''" "jnat n" u] by (simp add: jnat_def)
  then show ?thesis by (simp add: ensure_usage_object_total_tokens_def split: option.splits)
qed

lemma field_containers_ensure: "field_containers (ensure_usage_field m) \<le> field_containers m"
proof (induction m)
  case Nil
  then show ?case by (simp add: ensure_usage_field_def)
next
  case (Cons e m)
  have "containers (case (fst e = ''usage'', snd e) of
            (True, JObject usage) \<Rightarrow> JObject (ensure_usage_object_total_tokens usage)
          | _ \<Rightarrow> snd e) \<le> containers (snd e)"
    using containers_ensure_object by (cases "snd e") (simp_all split: bool.split)
  then show ?case using Cons by (simp add: ensure_usage_field_def)
qed

lemma containers_field:
  "e \<in> set (ensure_usage_field m) \<Longrightarrow> containers (snd e) < containers (JObject m)"
  using member_le_sum_list [of "containers (snd e)" "map (\<lambda>e. containers (snd e)) (ensure_usage_field m)"]
    field_containers_ensure [of m] by fastforce

lemma containers_elem: "v \<in> set vs \<Longrightarrow> containers v < containers (JArray vs)"
  using member_le_sum_list [of "containers v" "map containers vs"] by fastforce

function ensure_usage_total_tokens :: "json \<Rightarrow> json" where
  "ensure_usage_total_tokens (JObject m) =
     JObject (map (\<lambda>e. (fst e, ensure_usage_total_tokens (snd e))) (ensure_usage_field m))"
| "ensure_usage_total_tokens (JArray vs) = JArray (map ensure_usage_total_tokens vs)"
| "ensure_usage_total_tokens JNull = JNull"
| "ensure_usage_total_tokens (JBool b) = JBool b"
| "ensure_usage_total_tokens (JNumber n) = JNumber n"
| "ensure_usage_total_tokens (JString s) = JString s"
  by pat_completeness auto
termination
  by (relation "measure containers") (use containers_field containers_elem in auto)

section \<open>Model names\<close>

fun rewrite_response_models :: "string \<Rightarrow> string \<Rightarrow> json \<Rightarrow> json" where
  "rewrite_response_models backend_model public_model (JObject m) =
     JObject (map (\<lambda>e. (fst e,
       if fst e = ''model'' \<and> as_str (snd e) = Some backend_model then JString public_model
       else rewrite_response_models backend_model public_model (snd e))) m)"
| "rewrite_response_models backend_model public_model (JArray vs) =
     JArray (map (rewrite_response_models backend_model public_model) vs)"
| "rewrite_response_models backend_model public_model v = v"

definition rewrite_anthropic_messages_response_body_value :: "string \<Rightarrow> string \<Rightarrow> json \<Rightarrow> json" where
  "rewrite_anthropic_messages_response_body_value backend_model public_model v =
     (case v of
        JObject m \<Rightarrow>
          if obj_str m ''model'' = Some backend_model
          then JObject (bt_insert ''model'' (JString public_model) m) else v
      | _ \<Rightarrow> v)"

definition rewrite_anthropic_messages_response_body ::
  "serde \<Rightarrow> string \<Rightarrow> string \<Rightarrow> string \<Rightarrow> string" where
  "rewrite_anthropic_messages_response_body sd body backend_model public_model =
     (case from_slice sd body of
        None \<Rightarrow> body
      | Some v \<Rightarrow>
          (case to_vec sd (rewrite_anthropic_messages_response_body_value backend_model public_model v) of
             Some s \<Rightarrow> s | None \<Rightarrow> body))"

section \<open>Chat completion to response\<close>

definition text_or_refusal :: "json \<Rightarrow> string option" where
  "text_or_refusal part = first_some (get_str part ''text'') (get_str part ''refusal'')"

definition chat_message_content_to_text :: "serde \<Rightarrow> json \<Rightarrow> string" where
  "chat_message_content_to_text sd content =
     (case content of
        JString text \<Rightarrow> text
      | JArray parts \<Rightarrow> join [] (List.map_filter text_or_refusal parts)
      | _ \<Rightarrow> to_string sd content)"

definition chat_usage_to_responses_usage :: "json option \<Rightarrow> json" where
  "chat_usage_to_responses_usage usage =
     (let f = usage_fields_from_object (Option.bind usage as_object)
      in jobj [(''input_tokens'', jnat (uf_input f)),
           (''input_tokens_details'', jobj [(''cached_tokens'', jnat (uf_cached f))]),
           (''output_tokens'', jnat (uf_output f)),
           (''output_tokens_details'', jobj [(''reasoning_tokens'', jnat (uf_reasoning f))]),
           (''total_tokens'', jnat (uf_total f))])"

definition output_message :: "string \<Rightarrow> string \<Rightarrow> json" where
  "output_message message_id text =
     jobj [(''id'', JString message_id), (''type'', JString ''message''), (''status'', JString ''completed''),
       (''role'', JString ''assistant''),
       (''content'', JArray [jobj [(''type'', JString ''output_text''), (''text'', JString text),
          (''annotations'', JArray [])]])]"

definition str_or :: "string \<Rightarrow> string option \<Rightarrow> string" where
  "str_or d s = (case s of Some x \<Rightarrow> x | None \<Rightarrow> d)"

definition output_function_call :: "nat \<Rightarrow> nat \<Rightarrow> json \<Rightarrow> json" where
  "output_function_call index tool_index tool_call =
     (let function = Option.bind (jget tool_call ''function'') as_object
      in jobj [(''type'', JString ''function_call''), (''status'', JString ''completed''),
           (''call_id'', JString (str_or (''call_'' @ show_nat index @ ''_'' @ show_nat tool_index)
              (get_str tool_call ''id''))),
           (''name'', JString (str_or ''unknown'' (Option.bind function (\<lambda>f. obj_str f ''name'')))),
           (''arguments'', JString (str_or ''{}'' (Option.bind function (\<lambda>f. obj_str f ''arguments''))))])"

text \<open>One choice: the items it adds to the output and the texts it adds.\<close>

definition choice_step ::
  "serde \<Rightarrow> string \<Rightarrow> nat \<times> json \<Rightarrow> json list \<times> string list \<Rightarrow> json list \<times> string list" where
  "choice_step sd response_id ic s =
     (let (index, choice) = ic; (out, texts) = s
      in case Option.bind (jget choice ''message'') as_object of
           None \<Rightarrow> s
         | Some message \<Rightarrow>
             let (out, texts) =
                   (case bt_get message ''content'' of
                      Some content \<Rightarrow>
                        if is_null content then (out, texts)
                        else
                          let text = chat_message_content_to_text sd content
                          in if text = [] then (out, texts)
                             else (out @ [output_message (message_id_from_response response_id index) text],
                                   texts @ [text])
                    | None \<Rightarrow> (out, texts))
             in (case Option.bind (bt_get message ''tool_calls'') as_array of
                   Some tool_calls \<Rightarrow>
                     (out @ map (\<lambda>(tool_index, tc). output_function_call index tool_index tc)
                              (List.enumerate 0 tool_calls), texts)
                 | None \<Rightarrow> (out, texts)))"

definition value_or :: "json \<Rightarrow> json option \<Rightarrow> json" where
  "value_or d v = (case v of Some x \<Rightarrow> x | None \<Rightarrow> d)"

definition chat_completion_to_response :: "serde \<Rightarrow> json \<Rightarrow> json" where
  "chat_completion_to_response sd v =
     (case as_object v of
        None \<Rightarrow> v
      | Some m \<Rightarrow>
          let chat_id = str_or ''chatcmpl_unknown'' (obj_str m ''id'');
              response_id = response_id_from_chat chat_id;
              created_at = or_zero (number_field m ''created'');
              model = value_or (JString ''unknown'') (bt_get m ''model'');
              (out, texts) =
                (case Option.bind (bt_get m ''choices'') as_array of
                   Some choices \<Rightarrow> fold (choice_step sd response_id) (List.enumerate 0 choices) ([], [])
                 | None \<Rightarrow> ([], []))
          in jobj [(''id'', JString response_id), (''object'', JString ''response''),
               (''created_at'', jnat created_at), (''status'', JString ''completed''), (''model'', model),
               (''output'', JArray out), (''output_text'', JString (join [] texts)),
               (''usage'', chat_usage_to_responses_usage (bt_get m ''usage''))])"

section \<open>Response to chat completion\<close>

definition responses_message_content_to_chat_text :: "json \<Rightarrow> string" where
  "responses_message_content_to_chat_text content =
     (case content of
        JString text \<Rightarrow> text
      | JArray parts \<Rightarrow> join [] (List.map_filter text_or_refusal parts)
      | _ \<Rightarrow> [])"

definition response_function_call_to_chat_tool_call :: "json_map \<Rightarrow> nat \<Rightarrow> json" where
  "response_function_call_to_chat_tool_call m index =
     jobj [(''id'', JString (str_or (''call_'' @ show_nat index)
              (Option.bind (first_some (bt_get m ''call_id'') (bt_get m ''id'')) as_str))),
       (''type'', JString ''function''),
       (''function'', jobj [(''name'', JString (str_or ''unknown'' (obj_str m ''name''))),
          (''arguments'', JString (str_or ''{}'' (obj_str m ''arguments'')))])]"

definition response_item_step :: "nat \<times> json \<Rightarrow> string \<times> json list \<Rightarrow> string \<times> json list" where
  "response_item_step ii s =
     (let (index, item) = ii; (content, tool_calls) = s
      in case as_object item of
           None \<Rightarrow> s
         | Some m \<Rightarrow>
             if obj_str m ''type'' = Some ''message'' then
               (case bt_get m ''content'' of
                  Some message_content \<Rightarrow>
                    if obj_str m ''role'' \<in> {None, Some ''assistant''}
                    then (content @ responses_message_content_to_chat_text message_content, tool_calls)
                    else s
                | None \<Rightarrow> s)
             else if obj_str m ''type'' = Some ''function_call'' then
               (content, tool_calls @ [response_function_call_to_chat_tool_call m index])
             else s)"

definition response_output_to_chat_message :: "json option \<Rightarrow> string \<times> json list" where
  "response_output_to_chat_message outp =
     (case Option.bind outp as_array of
        None \<Rightarrow> ([], [])
      | Some items \<Rightarrow> fold response_item_step (List.enumerate 0 items) ([], []))"

definition response_finish_reason :: "json_map \<Rightarrow> bool \<Rightarrow> string" where
  "response_finish_reason m has_tool_calls =
     (if has_tool_calls then ''tool_calls''
      else if obj_str m ''status'' = Some ''incomplete'' then ''length''
      else ''stop'')"

definition responses_usage_to_chat_usage :: "json option \<Rightarrow> json" where
  "responses_usage_to_chat_usage usage =
     (let f = usage_fields_from_object (Option.bind usage as_object)
      in jobj [(''prompt_tokens'', jnat (uf_input f)),
           (''prompt_tokens_details'', jobj [(''cached_tokens'', jnat (uf_cached f))]),
           (''completion_tokens'', jnat (uf_output f)),
           (''completion_tokens_details'', jobj [(''reasoning_tokens'', jnat (uf_reasoning f))]),
           (''total_tokens'', jnat (uf_total f))])"

definition response_to_chat_completion :: "json \<Rightarrow> json" where
  "response_to_chat_completion v =
     (case as_object v of
        None \<Rightarrow> v
      | Some m \<Rightarrow>
          let response_id = str_or ''resp_unknown'' (obj_str m ''id'');
              created = or_zero (Option.bind (first_some (bt_get m ''created_at'') (bt_get m ''created'')) as_u64);
              model = value_or (JString ''unknown'') (bt_get m ''model'');
              (content, tool_calls) = response_output_to_chat_message (bt_get m ''output'');
              has_tool_calls = tool_calls \<noteq> [];
              message = bt_insert ''content'' (JString content) (bt_insert ''role'' (JString ''assistant'') []);
              message = (if has_tool_calls then bt_insert ''tool_calls'' (JArray tool_calls) message else message)
          in jobj [(''id'', JString (chat_id_from_response response_id)),
               (''object'', JString ''chat.completion''), (''created'', jnat created), (''model'', model),
               (''choices'', JArray [jobj [(''index'', jnat 0), (''message'', JObject message),
                  (''finish_reason'', JString (response_finish_reason m has_tool_calls))]]),
               (''usage'', responses_usage_to_chat_usage (bt_get m ''usage''))])"

section \<open>Response bodies\<close>

definition rewrite_bound ::
  "(string \<Rightarrow> string \<Rightarrow> json \<Rightarrow> json) \<Rightarrow> string option \<Rightarrow> string option \<Rightarrow> json \<Rightarrow> json" where
  "rewrite_bound rewrite backend_model public_model v =
     (case (backend_model, public_model) of (Some b, Some p) \<Rightarrow> rewrite b p v | _ \<Rightarrow> v)"

definition convert_response ::
  "serde \<Rightarrow> string option \<Rightarrow> string option \<Rightarrow> request_mode \<Rightarrow> json \<Rightarrow> json" where
  "convert_response sd backend_model public_model mode v =
     (case mode of
        Native \<Rightarrow> rewrite_bound rewrite_response_models backend_model public_model v
      | AnthropicMessagesNative \<Rightarrow>
          rewrite_bound rewrite_anthropic_messages_response_body_value backend_model public_model v
      | ResponsesViaChatCompletions \<Rightarrow>
          chat_completion_to_response sd (rewrite_bound rewrite_response_models backend_model public_model v)
      | ChatCompletionsViaResponses \<Rightarrow>
          response_to_chat_completion (rewrite_bound rewrite_response_models backend_model public_model v)
      | ChatCompletionsViaMessages \<Rightarrow>
          anthropic_message_to_chat_completion sd
            (rewrite_bound rewrite_anthropic_messages_response_body_value backend_model public_model v))"

text \<open>\<open>None\<close> is the panic of \<open>expect\<close> when the rewritten value does not serialise.\<close>

definition rewrite_response_body ::
  "serde \<Rightarrow> string \<Rightarrow> string option \<Rightarrow> string option \<Rightarrow> string option \<Rightarrow> request_mode \<Rightarrow>
     (string \<times> usage_totals) option" where
  "rewrite_response_body sd body content_type backend_model public_model mode =
     (if \<not> is_json_content_type content_type \<and> \<not> looks_like_json body then Some (body, default_totals)
      else
        (case from_slice sd body of
           None \<Rightarrow> Some (body, default_totals)
         | Some v \<Rightarrow>
             map_option (\<lambda>s. (s, extract_usage v))
               (to_vec sd (ensure_usage_total_tokens (convert_response sd backend_model public_model mode v)))))"

end
