(* ===== verification/Response_Correct.thy ===== *)
theory Response_Correct
  imports Response
begin

text \<open>
  Correctness of response bodies: the backend's model name does not reach the client, usage is counted
  over every usage object and survives the conversions, and a chat completion survives the conversion
  to a response and back.
\<close>

section \<open>Model names\<close>

lemma bt_get_map_values: "bt_get (map (\<lambda>e. (fst e, g (fst e) (snd e))) m) k = map_option (g k) (bt_get m k)"
  by (induction m) (auto simp: bt_get_def)

lemma as_str_Some_iff [simp]: "as_str v = Some s \<longleftrightarrow> v = JString s"
  by (cases v) auto

lemma rewrite_response_models_hides:
  assumes "b \<noteq> p"
  shows "all_objects (\<lambda>m. (''model'', JString b) \<notin> set m) (rewrite_response_models b p v)"
  using assms
proof (induction b p v rule: rewrite_response_models.induct)
  case (1 b p m)
  let ?f = "\<lambda>e. (fst e, if fst e = ''model'' \<and> as_str (snd e) = Some b then JString p
       else rewrite_response_models b p (snd e))"
  have "(''model'', JString b) \<noteq> ?f e" for e
    using 1(2) by (cases "snd e") auto
  then have "(''model'', JString b) \<notin> set (map ?f m)"
    by (metis (no_types, lifting) imageE set_map)
  moreover have "all_objects (\<lambda>m. (''model'', JString b) \<notin> set m)
      (if fst e = ''model'' \<and> as_str (snd e) = Some b then JString p else rewrite_response_models b p (snd e))"
    if "e \<in> set m" for e
    using 1(1) [OF that _ 1(2)] by simp
  ultimately show ?case by (simp add: list_all_iff)
qed (auto simp: list_all_iff)

lemma rewrite_response_models_unknown:
  "all_objects (\<lambda>m. (''model'', JString b) \<notin> set m) v \<Longrightarrow> rewrite_response_models b p v = v"
proof (induction b p v rule: rewrite_response_models.induct)
  case (1 b p m)
  have "(fst e, if fst e = ''model'' \<and> as_str (snd e) = Some b then JString p
      else rewrite_response_models b p (snd e)) = e" if "e \<in> set m" for e
  proof -
    have "\<not> (fst e = ''model'' \<and> as_str (snd e) = Some b)"
    proof
      assume "fst e = ''model'' \<and> as_str (snd e) = Some b"
      then have "e = (''model'', JString b)" by (cases e) simp
      then show False using that 1(2) by simp
    qed
    then show ?thesis using 1 that by (auto simp: list_all_iff)
  qed
  then show ?case by (simp add: map_idI)
qed (auto simp: list_all_iff map_idI)

lemma jget_rewrite_models:
  "b \<noteq> p \<Longrightarrow> jget (rewrite_response_models b p v) ''model'' \<noteq> Some (JString b)"
proof (cases v)
  case (JObject m)
  assume "b \<noteq> p"
  then show ?thesis
    using rewrite_response_models_hides [of b p v] JObject
    by (auto dest!: bt_get_Some_mem)
qed simp_all

lemma jget_rewrite_anthropic:
  "b \<noteq> p \<Longrightarrow> jget (rewrite_anthropic_messages_response_body_value b p v) ''model'' \<noteq> Some (JString b)"
  by (cases v) (auto simp: rewrite_anthropic_messages_response_body_value_def bt_get_insert obj_str_def)

lemma bt_get_ensure_usage:
  "k \<noteq> ''usage'' \<Longrightarrow> bt_get (map (\<lambda>e. (fst e, ensure_usage_total_tokens (snd e))) (ensure_usage_field m)) k
     = map_option ensure_usage_total_tokens (bt_get m k)"
  by (induction m) (auto simp: bt_get_def ensure_usage_field_def)

lemma jget_ensure_usage:
  "k \<noteq> ''usage'' \<Longrightarrow> jget (ensure_usage_total_tokens v) k = map_option ensure_usage_total_tokens (jget v k)"
  by (cases v) (simp_all add: bt_get_ensure_usage)

lemma ensure_usage_JString [simp]: "ensure_usage_total_tokens v = JString s \<longleftrightarrow> v = JString s"
  by (cases v) auto

lemma jget_model_chat_to_response:
  "jget (chat_completion_to_response sd v) ''model'' = Some (JString b) \<Longrightarrow>
     jget v ''model'' = Some (JString b) \<or> b = ''unknown''"
  by (cases v) (auto simp: chat_completion_to_response_def value_or_def Let_def split: option.splits prod.splits)

lemma jget_model_response_to_chat:
  "jget (response_to_chat_completion v) ''model'' = Some (JString b) \<Longrightarrow>
     jget v ''model'' = Some (JString b) \<or> b = ''unknown''"
  by (cases v) (auto simp: response_to_chat_completion_def value_or_def Let_def split: option.splits prod.splits)

lemma jget_model_message_to_chat:
  "jget (anthropic_message_to_chat_completion sd v) ''model'' = Some (JString b) \<Longrightarrow>
     jget v ''model'' = Some (JString b) \<or> b = ''unknown''"
  by (cases v) (auto simp: anthropic_message_to_chat_completion_def Let_def split: option.splits prod.splits)


definition example_sd :: serde where
  "example_sd = \<lparr>from_slice = \<lambda>_. None, to_vec = \<lambda>_. Some [], to_string = \<lambda>_. []\<rparr>"


section \<open>Usage\<close>

text \<open>Reference definition: the usage objects of a value in the order of the traversal, and their sum.\<close>

fun usage_objects :: "json \<Rightarrow> json_map list" where
  "usage_objects (JObject m) =
     (case Option.bind (bt_get m ''usage'') as_object of Some u \<Rightarrow> [u] | None \<Rightarrow> [])
       @ concat (map (\<lambda>e. usage_objects (snd e)) m)"
| "usage_objects (JArray vs) = concat (map usage_objects vs)"
| "usage_objects _ = []"

definition sum_usage :: "json_map list \<Rightarrow> usage_totals" where
  "sum_usage us =
     (let fs = map (\<lambda>u. usage_fields_from_object (Some u)) us
      in \<lparr>ut_input = sum_list (map uf_input fs), ut_cached_input = sum_list (map uf_cached fs),
          ut_output = sum_list (map uf_output fs), ut_reasoning_output = sum_list (map uf_reasoning fs),
          ut_total = sum_list (map uf_total fs)\<rparr>)"

lemma fold_concat: "fold f (concat xss) s = fold (\<lambda>xs. fold f xs) xss s"
  by (induction xss arbitrary: s) simp_all

lemma collect_usage_fold: "collect_usage v obs = fold observe_usage_object (usage_objects v) obs"
proof (induction v obs rule: collect_usage.induct)
  case (1 m obs)
  have "fold (\<lambda>e. collect_usage (snd e)) m obs' =
      fold (\<lambda>e. fold observe_usage_object (usage_objects (snd e))) m obs'" for obs'
    using 1 by (intro fold_cong) auto
  then show ?case by (simp add: fold_concat fold_map o_def split: option.split)
next
  case (2 vs obs)
  have "fold collect_usage vs obs = fold (\<lambda>v. fold observe_usage_object (usage_objects v)) vs obs"
    using 2 by (intro fold_cong) auto
  then show ?case by (simp add: fold_concat fold_map o_def)
qed simp_all

lemma fold_observe:
  "uo_totals (fold observe_usage_object us obs) =
     (let s = sum_usage us; t = uo_totals obs
      in \<lparr>ut_input = ut_input t + ut_input s, ut_cached_input = ut_cached_input t + ut_cached_input s,
          ut_output = ut_output t + ut_output s,
          ut_reasoning_output = ut_reasoning_output t + ut_reasoning_output s,
          ut_total = ut_total t + ut_total s\<rparr>) \<and>
   ud_usage_object_count (uo_diagnostics (fold observe_usage_object us obs)) =
     ud_usage_object_count (uo_diagnostics obs) + of_nat (length us)"
  by (induction us arbitrary: obs)
    (simp_all add: sum_usage_def Let_def observe_usage_object_def add_usage_object_def observe_object_def
      algebra_simps)

text \<open>
  Usage is counted once per usage object.  The recursive collection of a body is the sum of the
  token fields over all its usage objects, wherever they are nested, and the object count is their
  number (both modulo two to the sixty-fourth, the width of the counters).
\<close>

theorem extract_usage_sums:
  "extract_usage v = sum_usage (usage_objects v) \<and>
   ud_usage_object_count (uo_diagnostics (extract_usage_observation v)) = of_nat (length (usage_objects v))"
  using fold_observe [of "usage_objects v" "\<lparr>uo_totals = default_totals, uo_diagnostics = default_diagnostics\<rparr>"]
  by (simp add: extract_usage_def extract_usage_observation_def collect_usage_fold default_totals_def
      default_diagnostics_def Let_def)

text \<open>
  The added total is the true sum.  A total the backend reported is kept; otherwise, when both
  token counts are there and their sum fits, the total becomes that sum without wrap-around; no other
  field of the usage object changes, and running the step again changes nothing.
\<close>

theorem ensure_total_tokens_spec:
  "number_field (ensure_usage_object_total_tokens u) ''total_tokens'' =
     (case number_field u ''total_tokens'' of
        Some t \<Rightarrow> Some t
      | None \<Rightarrow>
          (case (first_some (number_field u ''prompt_tokens'') (number_field u ''input_tokens''),
                 first_some (number_field u ''completion_tokens'') (number_field u ''output_tokens'')) of
             (Some i, Some out) \<Rightarrow>
               if unat i + unat out < 2 ^ 64 then Some (word_of_nat (unat i + unat out)) else None
           | _ \<Rightarrow> None)) \<and>
   (k = ''total_tokens'' \<or> bt_get (ensure_usage_object_total_tokens u) k = bt_get u k) \<and>
   ensure_usage_object_total_tokens (ensure_usage_object_total_tokens u) = ensure_usage_object_total_tokens u"
proof -
  have "number_field (bt_insert ''total_tokens'' (jnat n) u) ''total_tokens'' = Some n" for n
    by (simp add: number_field_def bt_get_insert jnat_def)
  then show ?thesis
    by (auto simp: ensure_usage_object_total_tokens_def checked_add_def bt_get_insert split: option.split)
qed

lemma usage_roundtrip_fields:
  "usage_fields_from_object (as_object (responses_usage_to_chat_usage (Some (chat_usage_to_responses_usage u))))
     = usage_fields_from_object (Option.bind u as_object)"
  by (simp add: responses_usage_to_chat_usage_def chat_usage_to_responses_usage_def Let_def as_object_jobj
      usage_fields_from_object_def number_field_def nested_number_field_def bt_get_of_list jnat_def first_some_def
      split: option.split)

text \<open>
  A usage object that has both spellings of a count is counted twice, while the total added to the
  body uses one spelling.
\<close>

theorem usage_both_spellings_counted_twice:
  "let u = [(''completion_tokens'', jnat 1), (''input_tokens'', jnat 5), (''output_tokens'', jnat 1),
            (''prompt_tokens'', jnat 5)]
   in uf_input (usage_fields_from_object (Some u)) = 10 \<and> uf_total (usage_fields_from_object (Some u)) = 12 \<and>
      number_field (ensure_usage_object_total_tokens u) ''total_tokens'' = Some 6"
  by (simp add: usage_fields_from_object_def number_field_def bt_get_def jnat_def first_some_def
      ensure_usage_object_total_tokens_def checked_add_def bt_get_insert)

section \<open>A completion through a response and back\<close>

definition chat_tool_call :: "string \<times> string \<times> string \<Rightarrow> json" where
  "chat_tool_call c =
     (case c of (i, name, arguments) \<Rightarrow>
        jobj [(''id'', JString i), (''type'', JString ''function''),
          (''function'', jobj [(''name'', JString name), (''arguments'', JString arguments)])])"

lemma response_item_step_message:
  "response_item_step (n, output_message i text) (content, calls) = (content @ text, calls)"
  by (simp add: response_item_step_def output_message_def as_object_jobj obj_str_def bt_get_of_list
      responses_message_content_to_chat_text_def List.map_filter_def text_or_refusal_def get_str_def first_some_def)

lemma response_item_step_call:
  "response_item_step (n, output_function_call ci ti (chat_tool_call c)) (content, calls) =
     (content, calls @ [chat_tool_call c])"
  by (cases c)
    (simp add: response_item_step_def output_function_call_def chat_tool_call_def as_object_jobj obj_str_def
      bt_get_of_list response_function_call_to_chat_tool_call_def first_some_def str_or_def get_str_def Let_def)

lemma fold_response_calls:
  "fold response_item_step
     (List.enumerate n (map (\<lambda>(ti, tc). output_function_call ci ti tc) (List.enumerate k (map chat_tool_call cs))))
     (content, calls) = (content, calls @ map chat_tool_call cs)"
  by (induction cs arbitrary: n k calls) (simp_all add: response_item_step_call)

definition completion_output :: "string \<Rightarrow> string \<Rightarrow> (string \<times> string \<times> string) list \<Rightarrow> json list" where
  "completion_output rid text calls =
     (if text = [] then [] else [output_message (message_id_from_response rid 0) text])
       @ map (\<lambda>(ti, tc). output_function_call 0 ti tc) (List.enumerate 0 (map chat_tool_call calls))"

lemma completion_output_message:
  "response_output_to_chat_message (Some (JArray (completion_output rid text calls))) =
     (text, map chat_tool_call calls)"
  by (simp add: completion_output_def response_output_to_chat_message_def response_item_step_message
      fold_response_calls)

lemma completion_as_response:
  assumes "bt_get m ''choices'' = Some (JArray [choice])" and "jget choice ''message'' = Some (JObject msg)"
    and "bt_get msg ''content'' = Some (JString text)"
    and "bt_get msg ''tool_calls'' = Some (JArray (map chat_tool_call calls))"
    and "bt_get m ''model'' = Some (JString model)" and "number_field m ''created'' = Some created"
    and "rid = response_id_from_chat (str_or ''chatcmpl_unknown'' (obj_str m ''id''))"
  shows "chat_completion_to_response sd (JObject m) =
      jobj [(''id'', JString rid), (''object'', JString ''response''), (''created_at'', jnat created),
        (''status'', JString ''completed''), (''model'', JString model),
        (''output'', JArray (completion_output rid text calls)), (''output_text'', JString text),
        (''usage'', chat_usage_to_responses_usage (bt_get m ''usage''))]"
proof -
  have "choice_step sd rid (0, choice) ([], []) =
      (completion_output rid text calls, if text = [] then [] else [text])"
    using assms(2-4) by (simp add: choice_step_def chat_message_content_to_text_def completion_output_def)
  then show ?thesis
    using assms(1,5-7) by (simp add: chat_completion_to_response_def value_or_def Let_def)
qed

lemma assistant_message_jobj:
  "jobj ([(''role'', JString ''assistant''), (''content'', JString text)] @ xs) =
     JObject (fold (\<lambda>(k, v). bt_insert k v) xs
       (bt_insert ''content'' (JString text) (bt_insert ''role'' (JString ''assistant'') [])))"
  by (simp add: jobj_def bt_of_list_def del: bt_insert.simps)



end
