(* ===== verification/Sse.thy ===== *)
theory Sse
  imports Response
begin

text \<open>
  The streaming half of \<open>onair-core/src/openai/response.rs\<close>: the line parser, the prologue every
  normalizer runs on a data frame, and the two normalizers that keep the protocol (native and
  Anthropic).  A normalizer is a pair: the bytes its \<open>SseLineParser\<close> holds back, and a record of its
  other fields, which is all that \<open>handle_frame\<close> reads and writes.  What a handler emits is a list of
  pieces; \<open>render\<close> gives their bytes.  \<open>None\<close> there is the panic of \<open>expect\<close> when a value does not
  serialise.
\<close>

section \<open>Emitted pieces\<close>

datatype sse_out =
    Raw string
  | DataLine json bool string string
  | SseData json
  | SseEvent string json
  | SseDone

definition NL :: string where "NL = [CHR 0x0A]"

definition CR :: string where "CR = [CHR 0x0D]"

fun render :: "serde \<Rightarrow> sse_out \<Rightarrow> string option" where
  "render sd (Raw line) = Some line"
| "render sd (DataLine v leading_space cr line_ending) =
     map_option (\<lambda>s. ''data:'' @ (if leading_space then '' '' else []) @ s @ cr @ line_ending) (to_vec sd v)"
| "render sd (SseData v) = map_option (\<lambda>s. ''data: '' @ s @ NL @ NL) (to_vec sd v)"
| "render sd (SseEvent event v) =
     map_option (\<lambda>s. ''event: '' @ event @ NL @ ''data: '' @ s @ NL @ NL) (to_vec sd v)"
| "render sd SseDone = Some (''data: [DONE]'' @ NL @ NL)"

fun render_all :: "serde \<Rightarrow> sse_out list \<Rightarrow> string option" where
  "render_all sd [] = Some []"
| "render_all sd (x # xs) =
     Option.bind (render sd x) (\<lambda>s. map_option (\<lambda>t. s @ t) (render_all sd xs))"

text \<open>Running one step after another on a state, with the emitted pieces appended.\<close>

definition then_out :: "'s \<times> sse_out list \<Rightarrow> ('s \<Rightarrow> 's \<times> sse_out list) \<Rightarrow> 's \<times> sse_out list" where
  "then_out p f = (let (s, xs) = p; (t, ys) = f s in (t, xs @ ys))"

fun fold_out :: "('s \<Rightarrow> 'a \<Rightarrow> 's \<times> sse_out list) \<Rightarrow> 'a list \<Rightarrow> 's \<Rightarrow> 's \<times> sse_out list" where
  "fold_out f [] s = (s, [])"
| "fold_out f (x # xs) s = then_out (f s x) (fold_out f xs)"

section \<open>The line parser\<close>

datatype sse_frame =
    FEvent string string
  | FData json bool string
  | FDataUnparseable string
  | FDone string
  | FPassThrough string

fun frame_line :: "sse_frame \<Rightarrow> string" where
  "frame_line (FEvent name line) = line"
| "frame_line (FData v leading_space line) = line"
| "frame_line (FDataUnparseable line) = line"
| "frame_line (FDone line) = line"
| "frame_line (FPassThrough line) = line"

definition sse_field_value :: "string \<Rightarrow> string \<Rightarrow> string option" where
  "sse_field_value line prefix =
     map_option (\<lambda>v. case strip_prefix '' '' v of Some w \<Rightarrow> w | None \<Rightarrow> v) (strip_prefix prefix line)"

definition utf8_field_value :: "string \<Rightarrow> string \<Rightarrow> string option" where
  "utf8_field_value line prefix =
     Option.bind (sse_field_value line prefix)
       (\<lambda>v. if utf8_valid v then safe_diagnostic_label (trim v) else None)"

definition without_newline :: "string \<Rightarrow> string" where
  "without_newline line = (case strip_suffix NL line of Some l \<Rightarrow> l | None \<Rightarrow> line)"

definition without_cr :: "string \<Rightarrow> string" where
  "without_cr line = (case strip_suffix CR line of Some l \<Rightarrow> l | None \<Rightarrow> line)"

definition parse_sse_line :: "serde \<Rightarrow> string \<Rightarrow> sse_frame" where
  "parse_sse_line sd line =
     (let line' = without_cr (without_newline line)
      in case utf8_field_value line' ''event:'' of
           Some event_name \<Rightarrow> FEvent event_name line
         | None \<Rightarrow>
             (case sse_field_value line' ''data:'' of
                Some data \<Rightarrow>
                  let leading_space =
                        (case strip_prefix ''data:'' line' of Some d \<Rightarrow> starts_with '' '' d | None \<Rightarrow> False)
                  in if data = ''[DONE]'' then FDone line
                     else (case from_slice sd data of
                             Some v \<Rightarrow> FData v leading_space line
                           | None \<Rightarrow> FDataUnparseable line)
              | None \<Rightarrow> FPassThrough line))"

definition line_suffix :: "string \<Rightarrow> string \<times> string" where
  "line_suffix line =
     (let line_ending = (if ends_with NL line then NL else []);
          cr = (if ends_with CR (without_newline line) then CR else [])
      in (cr, line_ending))"

text \<open>The loop of \<open>SseLineParser::push\<close>: complete lines are drained from the front of the buffer.\<close>

function drain_lines :: "string \<Rightarrow> string list \<times> string" where
  "drain_lines pending =
     (if CHR 0x0A \<in> set pending then
        (let line = takeWhile (\<lambda>c. c \<noteq> CHR 0x0A) pending @ NL;
             (lines, rest) = drain_lines (tl (dropWhile (\<lambda>c. c \<noteq> CHR 0x0A) pending))
         in (line # lines, rest))
      else ([], pending))"
  by pat_completeness auto
termination
proof (relation "measure length", simp, clarsimp)
  fix pending :: string
  assume "CHR 0x0A \<in> set pending"
  then have "dropWhile (\<lambda>c. c \<noteq> CHR 0x0A) pending \<noteq> []" by (auto simp: dropWhile_eq_Nil_conv)
  moreover have "length (dropWhile (\<lambda>c. c \<noteq> CHR 0x0A) pending) \<le> length pending"
    by (rule length_dropWhile_le)
  ultimately show "length (dropWhile (\<lambda>c. c \<noteq> CHR 0x0A) pending) - Suc 0 < length pending"
    by (cases "dropWhile (\<lambda>c. c \<noteq> CHR 0x0A) pending") auto
qed

declare drain_lines.simps [simp del]

definition parser_push :: "serde \<Rightarrow> string \<Rightarrow> string \<Rightarrow> string \<times> sse_frame list" where
  "parser_push sd pending chunk =
     (let (lines, rest) = drain_lines (pending @ chunk) in (rest, map (parse_sse_line sd) lines))"

definition parser_finish :: "serde \<Rightarrow> string \<Rightarrow> string \<times> sse_frame option" where
  "parser_finish sd pending =
     (if pending = [] then ([], None) else ([], Some (parse_sse_line sd pending)))"

text \<open>\<open>push\<close> and the common part of \<open>finish\<close>, the same in all five normalizers.\<close>

definition sse_push ::
  "serde \<Rightarrow> ('s \<Rightarrow> sse_frame \<Rightarrow> 's \<times> sse_out list) \<Rightarrow> string \<times> 's \<Rightarrow> string \<Rightarrow>
     (string \<times> 's) \<times> sse_out list" where
  "sse_push sd handle_frame n chunk =
     (let (pending, s) = n; (pending', frames) = parser_push sd pending chunk;
          (s', outs) = fold_out handle_frame frames s
      in ((pending', s'), outs))"

definition sse_finish ::
  "serde \<Rightarrow> ('s \<Rightarrow> sse_frame \<Rightarrow> 's \<times> sse_out list) \<Rightarrow> ('s \<Rightarrow> 's \<times> sse_out list) \<Rightarrow> string \<times> 's \<Rightarrow>
     (string \<times> 's) \<times> sse_out list" where
  "sse_finish sd handle_frame close n =
     (let (pending, s) = n; (pending', frame) = parser_finish sd pending;
          (s', outs) = then_out (case frame of Some f \<Rightarrow> handle_frame s f | None \<Rightarrow> (s, [])) close
      in ((pending', s'), outs))"

section \<open>The shared prologue\<close>

text \<open>The fields every observing normalizer has.\<close>

record sse_common =
  sc_usage :: usage_totals
  sc_diagnostics :: usage_diagnostics
  sc_pending_event_name :: "string option"
  sc_backend_model :: "string option"
  sc_public_model :: "string option"

definition json_event_type :: "json \<Rightarrow> string option" where
  "json_event_type v = first_some (get_str v ''type'') (get_str v ''object'')"

definition add_totals :: "usage_totals \<Rightarrow> usage_totals \<Rightarrow> usage_totals" where
  "add_totals t u =
     \<lparr>ut_input = ut_input t + ut_input u, ut_cached_input = ut_cached_input t + ut_cached_input u,
      ut_output = ut_output t + ut_output u,
      ut_reasoning_output = ut_reasoning_output t + ut_reasoning_output u, ut_total = ut_total t + ut_total u\<rparr>"

definition observe_opt ::
  "(string \<Rightarrow> usage_diagnostics \<Rightarrow> usage_diagnostics) \<Rightarrow> string option \<Rightarrow> usage_diagnostics \<Rightarrow> usage_diagnostics" where
  "observe_opt f name d = (case name of Some n \<Rightarrow> f n d | None \<Rightarrow> d)"

definition prologue_value :: "'a sse_common_scheme \<Rightarrow> json \<Rightarrow> json" where
  "prologue_value s v =
     ensure_usage_total_tokens
       (rewrite_bound rewrite_response_models (sc_backend_model s) (sc_public_model s) v)"

definition apply_data_prologue ::
  "'a sse_common_scheme \<Rightarrow> json \<Rightarrow> 'a sse_common_scheme \<times> json \<times> u64" where
  "apply_data_prologue s v =
     (let obs = extract_usage_observation v;
          count = ud_usage_object_count (uo_diagnostics obs);
          event_name = Option.bind (json_event_type v) safe_diagnostic_label;
          d = observe_opt observe_event_name event_name (sc_diagnostics s);
          d = (if 0 < count then
                 observe_opt observe_usage_event_name event_name
                   (observe_opt observe_usage_event_name (sc_pending_event_name s) d)
               else d)
      in (s\<lparr>sc_pending_event_name := None, sc_usage := add_totals (sc_usage s) (uo_totals obs),
            sc_diagnostics := merge_diagnostics d (uo_diagnostics obs)\<rparr>,
          prologue_value s v, count))"

definition note_event :: "string \<Rightarrow> 'a sse_common_scheme \<Rightarrow> 'a sse_common_scheme" where
  "note_event name s =
     s\<lparr>sc_diagnostics := observe_event_name name (sc_diagnostics s), sc_pending_event_name := Some name\<rparr>"

section \<open>The native normalizer\<close>

record sse_normalizer = sse_common +
  sn_emit_usage_to_client :: bool

definition default_common :: "string option \<Rightarrow> string option \<Rightarrow> sse_common" where
  "default_common backend_model public_model =
     \<lparr>sc_usage = default_totals, sc_diagnostics = default_diagnostics, sc_pending_event_name = None,
      sc_backend_model = backend_model, sc_public_model = public_model\<rparr>"

definition sse_normalizer_new :: "string option \<Rightarrow> string option \<Rightarrow> bool \<Rightarrow> sse_normalizer" where
  "sse_normalizer_new backend_model public_model emit =
     sse_common.extend (default_common backend_model public_model) \<lparr>sn_emit_usage_to_client = emit\<rparr>"

definition chat_usage_only_chunk :: "json \<Rightarrow> bool" where
  "chat_usage_only_chunk v \<longleftrightarrow>
     jget v ''usage'' \<noteq> None \<and> Option.bind (jget v ''choices'') as_array = Some []"

definition remove_usage_field :: "json \<Rightarrow> json" where
  "remove_usage_field v = (case v of JObject m \<Rightarrow> JObject (bt_remove ''usage'' m) | _ \<Rightarrow> v)"

definition rewritten_line :: "json \<Rightarrow> bool \<Rightarrow> string \<Rightarrow> sse_out" where
  "rewritten_line v leading_space line =
     (let (cr, line_ending) = line_suffix line in DataLine v leading_space cr line_ending)"

definition native_handle_data ::
  "sse_normalizer \<Rightarrow> json \<Rightarrow> bool \<Rightarrow> string \<Rightarrow> sse_normalizer \<times> sse_out list" where
  "native_handle_data s v leading_space line =
     (let (s, v, count) = apply_data_prologue s v
      in if \<not> sn_emit_usage_to_client s \<and> 0 < count then
           if chat_usage_only_chunk v then (s, [])
           else (s, [rewritten_line (remove_usage_field v) leading_space line])
         else (s, [rewritten_line v leading_space line]))"

fun native_handle_frame :: "sse_normalizer \<Rightarrow> sse_frame \<Rightarrow> sse_normalizer \<times> sse_out list" where
  "native_handle_frame s (FEvent name line) = (note_event name s, [Raw line])"
| "native_handle_frame s (FData v leading_space line) = native_handle_data s v leading_space line"
| "native_handle_frame s (FDataUnparseable line) = (s\<lparr>sc_pending_event_name := None\<rparr>, [Raw line])"
| "native_handle_frame s (FDone line) = (s\<lparr>sc_pending_event_name := None\<rparr>, [Raw line])"
| "native_handle_frame s (FPassThrough line) = (s, [Raw line])"

section \<open>The Anthropic normalizer\<close>

record anthropic_sse =
  an_backend_model :: "string option"
  an_public_model :: "string option"
  an_pending_event_name :: "string option"

definition anthropic_sse_new :: "string option \<Rightarrow> string option \<Rightarrow> anthropic_sse" where
  "anthropic_sse_new backend_model public_model =
     \<lparr>an_backend_model = backend_model, an_public_model = public_model, an_pending_event_name = None\<rparr>"

definition rewrite_model_field :: "string \<Rightarrow> string \<Rightarrow> json_map \<Rightarrow> json_map" where
  "rewrite_model_field backend public m =
     (if obj_str m ''model'' = Some backend then bt_insert ''model'' (JString public) m else m)"

definition rewrite_model :: "anthropic_sse \<Rightarrow> json \<Rightarrow> json" where
  "rewrite_model s v =
     (case (an_backend_model s, an_public_model s, v) of
        (Some backend, Some public, JObject m) \<Rightarrow>
          JObject (map (\<lambda>e. (fst e, case (fst e = ''message'', snd e) of
              (True, JObject message) \<Rightarrow> JObject (rewrite_model_field backend public message)
            | _ \<Rightarrow> snd e)) (rewrite_model_field backend public m))
      | _ \<Rightarrow> v)"

fun anthropic_handle_frame :: "anthropic_sse \<Rightarrow> sse_frame \<Rightarrow> anthropic_sse \<times> sse_out list" where
  "anthropic_handle_frame s (FEvent name line) = (s\<lparr>an_pending_event_name := Some name\<rparr>, [Raw line])"
| "anthropic_handle_frame s (FData v leading_space line) =
     (s\<lparr>an_pending_event_name := None\<rparr>, [rewritten_line (rewrite_model s v) leading_space line])"
| "anthropic_handle_frame s (FDataUnparseable line) = (s\<lparr>an_pending_event_name := None\<rparr>, [Raw line])"
| "anthropic_handle_frame s (FDone line) = (s\<lparr>an_pending_event_name := None\<rparr>, [Raw line])"
| "anthropic_handle_frame s (FPassThrough line) = (s, [Raw line])"

end
