(* ===== verification/Sse_Responses.thy ===== *)
theory Sse_Responses
  imports Sse
begin

text \<open>
  \<open>ResponsesSseNormalizer\<close> of \<open>onair-core/src/openai/response.rs\<close>: a chat completion stream of a backend
  becomes the event stream of the Responses API.  The keys of the tool call map are the \<open>usize\<close>
  indices of the source, 64 bits wide.
\<close>

record stream_tool_call =
  st_call_id :: "string option"
  st_name :: "string option"
  st_arguments :: string
  st_announced :: bool

definition default_tool_call :: stream_tool_call where
  "default_tool_call = \<lparr>st_call_id = None, st_name = None, st_arguments = [], st_announced = False\<rparr>"

type_synonym tool_calls = "(u64 \<times> stream_tool_call) list"

definition tool_entry :: "tool_calls \<Rightarrow> u64 \<Rightarrow> stream_tool_call" where
  "tool_entry tcs index = (case bt_get tcs index of Some t \<Rightarrow> t | None \<Rightarrow> default_tool_call)"

definition show_u64 :: "u64 \<Rightarrow> string" where
  "show_u64 n = show_nat (unat n)"

text \<open>\<open>event.get(field).and_then(as_u64)\<close>, or the number of calls seen so far.\<close>

definition call_index :: "json \<Rightarrow> string \<Rightarrow> tool_calls \<Rightarrow> u64" where
  "call_index v field tcs =
     (case Option.bind (jget v field) as_u64 of Some n \<Rightarrow> n | None \<Rightarrow> of_nat (length tcs))"

text \<open>\<open>Option::get_or_insert\<close>, when there is a value to insert.\<close>

definition keep_first :: "'a option \<Rightarrow> 'a option \<Rightarrow> 'a option" where
  "keep_first old new = (case old of Some x \<Rightarrow> Some x | None \<Rightarrow> new)"

record responses_sse = sse_common +
  rs_response_id :: "string option"
  rs_message_id :: "string option"
  rs_created_at :: u64
  rs_model :: "string option"
  rs_response_started :: bool
  rs_text_started :: bool
  rs_output_text :: string
  rs_tool_calls :: tool_calls
  rs_completed :: bool

definition responses_sse_new :: "string option \<Rightarrow> string option \<Rightarrow> responses_sse" where
  "responses_sse_new backend_model public_model =
     sse_common.extend (default_common backend_model public_model)
       \<lparr>rs_response_id = None, rs_message_id = None, rs_created_at = 0, rs_model = None,
        rs_response_started = False, rs_text_started = False, rs_output_text = [], rs_tool_calls = [],
        rs_completed = False\<rparr>"

definition rs_response_id_str :: "responses_sse \<Rightarrow> string" where
  "rs_response_id_str s = str_or ''resp_unknown'' (rs_response_id s)"

definition rs_message_id_str :: "responses_sse \<Rightarrow> string" where
  "rs_message_id_str s = str_or (message_id_from_response (rs_response_id_str s) 0) (rs_message_id s)"

definition response_object :: "responses_sse \<Rightarrow> string \<Rightarrow> json list \<Rightarrow> json" where
  "response_object s status outp =
     (let u = sc_usage s
      in jobj [(''id'', JString (rs_response_id_str s)), (''object'', JString ''response''),
           (''created_at'', jnat (rs_created_at s)), (''status'', JString status),
           (''model'', JString (str_or ''unknown'' (rs_model s))), (''output'', JArray outp),
           (''output_text'', JString (rs_output_text s)),
           (''usage'', jobj [(''input_tokens'', jnat (ut_input u)),
              (''input_tokens_details'', jobj [(''cached_tokens'', jnat (ut_cached_input u))]),
              (''output_tokens'', jnat (ut_output u)),
              (''output_tokens_details'', jobj [(''reasoning_tokens'', jnat (ut_reasoning_output u))]),
              (''total_tokens'', jnat (if 0 < ut_total u then ut_total u else ut_input u + ut_output u))])])"

definition set_chunk_metadata :: "json \<Rightarrow> responses_sse \<Rightarrow> responses_sse" where
  "set_chunk_metadata chunk s =
     (let s = (if rs_response_id s = None then
                 let response_id = response_id_from_chat (str_or ''chatcmpl_unknown'' (get_str chunk ''id''))
                 in s\<lparr>rs_message_id := Some (message_id_from_response response_id 0),
                      rs_response_id := Some response_id\<rparr>
               else s);
          s = (if rs_created_at s = 0 then
                 s\<lparr>rs_created_at := or_zero (Option.bind (jget chunk ''created'') as_u64)\<rparr>
               else s)
      in if rs_model s = None then s\<lparr>rs_model := get_str chunk ''model''\<rparr> else s)"

definition response_event :: "string \<Rightarrow> (string \<times> json) list \<Rightarrow> sse_out" where
  "response_event name kvs = SseEvent name (jobj ((''type'', JString name) # kvs))"

definition start_response_events :: "responses_sse \<Rightarrow> responses_sse \<times> sse_out list" where
  "start_response_events s =
     (if rs_response_started s then (s, [])
      else
        let s = s\<lparr>rs_response_started := True\<rparr>;
            response = response_object s ''in_progress'' []
        in (s, [response_event ''response.created'' [(''response'', response)],
                response_event ''response.in_progress'' [(''response'', response)]]))"

definition start_text_events :: "responses_sse \<Rightarrow> responses_sse \<times> sse_out list" where
  "start_text_events s =
     (if rs_text_started s then (s, [])
      else
        let s = s\<lparr>rs_text_started := True\<rparr>
        in (s, [response_event ''response.output_item.added''
                  [(''output_index'', jnat 0),
                   (''item'', jobj [(''id'', JString (rs_message_id_str s)), (''type'', JString ''message''),
                      (''status'', JString ''in_progress''), (''role'', JString ''assistant''),
                      (''content'', JArray [])])],
                response_event ''response.content_part.added''
                  [(''item_id'', JString (rs_message_id_str s)), (''output_index'', jnat 0),
                   (''content_index'', jnat 0),
                   (''part'', jobj [(''type'', JString ''output_text''), (''text'', JString []),
                      (''annotations'', JArray [])])]]))"

text \<open>One element of a \<open>tool_calls\<close> delta.\<close>

definition tool_call_added :: "u64 \<Rightarrow> string \<Rightarrow> string \<Rightarrow> sse_out" where
  "tool_call_added index call_id name =
     response_event ''response.output_item.added''
       [(''output_index'', jnat index),
        (''item'', jobj [(''id'', JString call_id), (''type'', JString ''function_call''),
           (''status'', JString ''in_progress''), (''call_id'', JString call_id), (''name'', JString name),
           (''arguments'', JString [])])]"

definition arguments_delta :: "u64 \<Rightarrow> string \<Rightarrow> string \<Rightarrow> sse_out" where
  "arguments_delta index call_id arguments =
     response_event ''response.function_call_arguments.delta''
       [(''item_id'', JString call_id), (''call_id'', JString call_id), (''output_index'', jnat index),
        (''delta'', JString arguments)]"

definition announce_call :: "u64 \<Rightarrow> stream_tool_call \<Rightarrow> stream_tool_call \<times> sse_out list" where
  "announce_call index t =
     (if st_announced t then (t, [])
      else (case (st_call_id t, st_name t) of
              (Some call_id, Some name) \<Rightarrow> (t\<lparr>st_announced := True\<rparr>, [tool_call_added index call_id name])
            | _ \<Rightarrow> (t, [])))"

definition append_arguments :: "u64 \<Rightarrow> string option \<Rightarrow> stream_tool_call \<Rightarrow> stream_tool_call \<times> sse_out list" where
  "append_arguments index arguments t =
     (case arguments of
        Some a \<Rightarrow>
          if a = [] then (t, [])
          else
            let call_id = str_or (''call_'' @ show_u64 index) (st_call_id t)
            in (t\<lparr>st_call_id := Some call_id, st_arguments := st_arguments t @ a\<rparr>,
                [arguments_delta index call_id a])
      | None \<Rightarrow> (t, []))"

definition tool_call_delta ::
  "u64 \<Rightarrow> json \<Rightarrow> stream_tool_call \<Rightarrow> stream_tool_call \<times> sse_out list" where
  "tool_call_delta index tool_call t =
     (let t = t\<lparr>st_call_id := keep_first (st_call_id t) (get_str tool_call ''id'')\<rparr>
      in case Option.bind (jget tool_call ''function'') as_object of
           None \<Rightarrow> (t, [])
         | Some function \<Rightarrow>
             let t = (case obj_str function ''name'' of Some name \<Rightarrow> t\<lparr>st_name := Some name\<rparr> | None \<Rightarrow> t);
                 t = (if st_call_id t = None \<and> st_name t \<noteq> None
                      then t\<lparr>st_call_id := Some (''call_'' @ show_u64 index)\<rparr> else t)
             in then_out (announce_call index t) (append_arguments index (obj_str function ''arguments'')))"

definition process_tool_call_delta :: "responses_sse \<Rightarrow> json \<Rightarrow> responses_sse \<times> sse_out list" where
  "process_tool_call_delta s tool_call =
     (let index = call_index tool_call ''index'' (rs_tool_calls s);
          (t, outs) = tool_call_delta index tool_call (tool_entry (rs_tool_calls s) index)
      in (s\<lparr>rs_tool_calls := bt_insert index t (rs_tool_calls s)\<rparr>, outs))"

definition process_tool_call_deltas :: "json list \<Rightarrow> responses_sse \<Rightarrow> responses_sse \<times> sse_out list" where
  "process_tool_call_deltas tool_calls s = fold_out process_tool_call_delta tool_calls s"

definition text_done_events :: "responses_sse \<Rightarrow> json list \<times> sse_out list" where
  "text_done_events s =
     (if \<not> rs_text_started s then ([], [])
      else
        let mid = JString (rs_message_id_str s);
            part = jobj [(''type'', JString ''output_text''), (''text'', JString (rs_output_text s)),
                     (''annotations'', JArray []), (''logprobs'', JArray [])];
            item = jobj [(''id'', mid), (''type'', JString ''message''), (''status'', JString ''completed''),
                     (''role'', JString ''assistant''), (''content'', JArray [part])]
        in ([item],
            [response_event ''response.output_text.done''
               [(''item_id'', mid), (''output_index'', jnat 0), (''content_index'', jnat 0),
                (''text'', JString (rs_output_text s))],
             response_event ''response.content_part.done''
               [(''item_id'', mid), (''output_index'', jnat 0), (''content_index'', jnat 0), (''part'', part)],
             response_event ''response.output_item.done'' [(''output_index'', jnat 0), (''item'', item)]]))"

definition call_item :: "u64 \<times> stream_tool_call \<Rightarrow> json" where
  "call_item it =
     (let (index, t) = it; call_id = str_or (''call_'' @ show_u64 index) (st_call_id t)
      in jobj [(''id'', JString call_id), (''type'', JString ''function_call''),
           (''status'', JString ''completed''), (''call_id'', JString call_id),
           (''name'', JString (str_or ''unknown'' (st_name t))), (''arguments'', JString (st_arguments t))])"

definition call_done_events :: "u64 \<times> stream_tool_call \<Rightarrow> sse_out list" where
  "call_done_events it =
     (let (index, t) = it; call_id = str_or (''call_'' @ show_u64 index) (st_call_id t)
      in [response_event ''response.function_call_arguments.done''
            [(''item_id'', JString call_id), (''call_id'', JString call_id), (''output_index'', jnat index),
             (''arguments'', JString (st_arguments t))],
          response_event ''response.output_item.done''
            [(''output_index'', jnat index), (''item'', call_item it)]])"

definition finish_response :: "responses_sse \<Rightarrow> responses_sse \<times> sse_out list" where
  "finish_response s =
     (if rs_completed s then (s, [])
      else
        let s = s\<lparr>rs_completed := True\<rparr>;
            (items, outs) = text_done_events s;
            items = items @ map call_item (rs_tool_calls s);
            outs = outs @ concat (map call_done_events (rs_tool_calls s))
        in (s, outs @ [response_event ''response.completed''
                  [(''response'', response_object s ''completed'' items)]]))"

definition text_delta :: "responses_sse \<Rightarrow> string \<Rightarrow> sse_out" where
  "text_delta s text =
     response_event ''response.output_text.delta''
       [(''item_id'', JString (rs_message_id_str s)), (''output_index'', jnat 0), (''content_index'', jnat 0),
        (''delta'', JString text)]"

definition process_text :: "string option \<Rightarrow> responses_sse \<Rightarrow> responses_sse \<times> sse_out list" where
  "process_text content s =
     (case content of
        Some text \<Rightarrow>
          if text = [] then (s, [])
          else then_out (start_text_events s)
            (\<lambda>s. let s = s\<lparr>rs_output_text := rs_output_text s @ text\<rparr> in (s, [text_delta s text]))
      | None \<Rightarrow> (s, []))"

definition process_choice :: "responses_sse \<Rightarrow> json \<Rightarrow> responses_sse \<times> sse_out list" where
  "process_choice s choice =
     then_out
       (case Option.bind (jget choice ''delta'') as_object of
          None \<Rightarrow> (s, [])
        | Some delta \<Rightarrow>
            then_out (process_text (obj_str delta ''content'') s)
              (\<lambda>s. case Option.bind (bt_get delta ''tool_calls'') as_array of
                      Some tool_calls \<Rightarrow> process_tool_call_deltas tool_calls s
                    | None \<Rightarrow> (s, [])))
       (\<lambda>s. if is_null (value_or JNull (jget choice ''finish_reason'')) then (s, [])
             else finish_response s)"

definition process_chat_chunk :: "json \<Rightarrow> responses_sse \<Rightarrow> responses_sse \<times> sse_out list" where
  "process_chat_chunk chunk s =
     then_out (start_response_events (set_chunk_metadata chunk s))
       (\<lambda>s. case Option.bind (jget chunk ''choices'') as_array of
               Some choices \<Rightarrow> fold_out process_choice choices s
             | None \<Rightarrow> (s, []))"

definition responses_handle_data :: "responses_sse \<Rightarrow> json \<Rightarrow> responses_sse \<times> sse_out list" where
  "responses_handle_data s v = (let (s, v, _) = apply_data_prologue s v in process_chat_chunk v s)"

fun responses_handle_frame :: "responses_sse \<Rightarrow> sse_frame \<Rightarrow> responses_sse \<times> sse_out list" where
  "responses_handle_frame s (FEvent name line) = (note_event name s, [Raw line])"
| "responses_handle_frame s (FData v leading_space line) = responses_handle_data s v"
| "responses_handle_frame s (FDataUnparseable line) = (s\<lparr>sc_pending_event_name := None\<rparr>, [Raw line])"
| "responses_handle_frame s (FDone line) =
     then_out (finish_response (s\<lparr>sc_pending_event_name := None\<rparr>)) (\<lambda>s. (s, [Raw line]))"
| "responses_handle_frame s (FPassThrough line) = (s, [Raw line])"

end
