(* ===== verification/Sse_Chat.thy ===== *)
theory Sse_Chat
  imports Sse_Responses
begin

text \<open>
  \<open>ChatCompletionsSseNormalizer\<close> and \<open>AnthropicMessagesToChatSseNormalizer\<close> of
  \<open>onair-core/src/openai/response.rs\<close>: the event stream of a Responses or Messages backend becomes a
  chat completion stream; and \<open>SseStrategy\<close>, which picks the normalizer of a request mode.
\<close>

section \<open>Chunks\<close>

definition finish_value :: "string option \<Rightarrow> json" where
  "finish_value r = (case r of Some x \<Rightarrow> JString x | None \<Rightarrow> JNull)"

definition chat_chunk_object ::
  "string \<Rightarrow> u64 \<Rightarrow> string \<Rightarrow> json \<Rightarrow> string option \<Rightarrow> bool \<Rightarrow> json" where
  "chat_chunk_object i created model delta finish_reason emit_usage =
     jobj ([(''id'', JString i), (''object'', JString ''chat.completion.chunk''), (''created'', jnat created),
        (''model'', JString model),
        (''choices'', JArray [jobj [(''index'', jnat 0), (''delta'', delta),
           (''finish_reason'', finish_value finish_reason)]])]
        @ (if emit_usage then [(''usage'', JNull)] else []))"

definition arguments_chunk :: "u64 \<Rightarrow> string \<Rightarrow> json" where
  "arguments_chunk index arguments =
     jobj [(''tool_calls'', JArray [jobj [(''index'', jnat index),
        (''function'', jobj [(''arguments'', JString arguments)])]])]"

definition announcement_chunk :: "u64 \<Rightarrow> string \<Rightarrow> string \<Rightarrow> (string \<times> json) list" where
  "announcement_chunk index call_id name =
     [(''tool_calls'', JArray [jobj [(''index'', jnat index), (''id'', JString call_id),
        (''type'', JString ''function''),
        (''function'', jobj [(''name'', JString name), (''arguments'', JString [])])]])]"

definition role_field :: "bool \<Rightarrow> (string \<times> json) list" where
  "role_field role_sent = (if role_sent then [] else [(''role'', JString ''assistant'')])"

definition error_chunk :: "string \<Rightarrow> sse_out" where
  "error_chunk message =
     SseData (jobj [(''error'', jobj [(''message'', JString message), (''type'', JString ''server_error''),
        (''param'', JNull), (''code'', JString ''upstream_error'')])])"

section \<open>Responses backend, chat client\<close>

record chat_sse = sse_common +
  cs_emit_usage_to_client :: bool
  cs_response_id :: "string option"
  cs_created_at :: u64
  cs_model :: "string option"
  cs_role_sent :: bool
  cs_text_sent :: bool
  cs_tool_calls :: tool_calls
  cs_completed :: bool
  cs_done_sent :: bool

definition chat_sse_new :: "string option \<Rightarrow> string option \<Rightarrow> bool \<Rightarrow> chat_sse" where
  "chat_sse_new backend_model public_model emit =
     sse_common.extend (default_common backend_model public_model)
       \<lparr>cs_emit_usage_to_client = emit, cs_response_id = None, cs_created_at = 0, cs_model = None,
        cs_role_sent = False, cs_text_sent = False, cs_tool_calls = [], cs_completed = False,
        cs_done_sent = False\<rparr>"

definition cs_chat_id :: "chat_sse \<Rightarrow> string" where
  "cs_chat_id s = chat_id_from_response (str_or ''resp_unknown'' (cs_response_id s))"

definition cs_model_str :: "chat_sse \<Rightarrow> string" where
  "cs_model_str s = str_or ''unknown'' (cs_model s)"

definition cs_chat_chunk :: "json \<Rightarrow> string option \<Rightarrow> chat_sse \<Rightarrow> sse_out" where
  "cs_chat_chunk delta finish_reason s =
     SseData (chat_chunk_object (cs_chat_id s) (cs_created_at s) (cs_model_str s) delta finish_reason
       (cs_emit_usage_to_client s))"

definition cs_usage_chunk :: "json \<Rightarrow> chat_sse \<Rightarrow> sse_out" where
  "cs_usage_chunk usage s =
     SseData (jobj [(''id'', JString (cs_chat_id s)), (''object'', JString ''chat.completion.chunk''),
       (''created'', jnat (cs_created_at s)), (''model'', JString (cs_model_str s)), (''choices'', JArray []),
       (''usage'', usage)])"

definition cs_done_event :: "chat_sse \<Rightarrow> chat_sse \<times> sse_out list" where
  "cs_done_event s = (if cs_done_sent s then (s, []) else (s\<lparr>cs_done_sent := True\<rparr>, [SseDone]))"

definition set_response_metadata :: "json \<Rightarrow> chat_sse \<Rightarrow> chat_sse" where
  "set_response_metadata response s =
     (let s = (if cs_response_id s = None then s\<lparr>cs_response_id := get_str response ''id''\<rparr> else s);
          s = (if cs_created_at s = 0 then
                 s\<lparr>cs_created_at := or_zero (Option.bind
                     (first_some (jget response ''created_at'') (jget response ''created'')) as_u64)\<rparr>
               else s)
      in if cs_model s = None then s\<lparr>cs_model := get_str response ''model''\<rparr> else s)"

definition set_event_metadata :: "json \<Rightarrow> chat_sse \<Rightarrow> chat_sse" where
  "set_event_metadata event s =
     (let s = (case jget event ''response'' of Some r \<Rightarrow> set_response_metadata r s | None \<Rightarrow> s);
          s = (if cs_response_id s = None then
                 s\<lparr>cs_response_id := Option.bind
                     (first_some (jget event ''response_id'') (jget event ''id'')) as_str\<rparr>
               else s);
          s = (if cs_created_at s = 0 then
                 s\<lparr>cs_created_at := or_zero (Option.bind
                     (first_some (jget event ''created_at'') (jget event ''created'')) as_u64)\<rparr>
               else s)
      in if cs_model s = None then s\<lparr>cs_model := get_str event ''model''\<rparr> else s)"

text \<open>A text delta, with the role when it was not sent yet.\<close>

definition cs_emit_text :: "string \<Rightarrow> chat_sse \<Rightarrow> chat_sse \<times> sse_out list" where
  "cs_emit_text text s =
     (let role = role_field (cs_role_sent s); s = s\<lparr>cs_text_sent := True, cs_role_sent := True\<rparr>
      in (s, [cs_chat_chunk (jobj (role @ [(''content'', JString text)])) None s]))"

definition process_text_delta :: "json \<Rightarrow> chat_sse \<Rightarrow> chat_sse \<times> sse_out list" where
  "process_text_delta event s =
     (case get_str event ''delta'' of
        None \<Rightarrow> (s, [])
      | Some delta \<Rightarrow> if delta = [] then (s, []) else cs_emit_text delta s)"

definition cs_announce :: "u64 \<Rightarrow> chat_sse \<Rightarrow> chat_sse \<times> sse_out list" where
  "cs_announce index s =
     (case bt_get (cs_tool_calls s) index of
        None \<Rightarrow> (s, [])
      | Some t \<Rightarrow>
          (case (st_announced t, st_name t) of
             (False, Some name) \<Rightarrow>
               let call_id = str_or (''call_'' @ show_u64 index) (st_call_id t);
                   role = role_field (cs_role_sent s);
                   s = s\<lparr>cs_tool_calls := bt_insert index (t\<lparr>st_announced := True\<rparr>) (cs_tool_calls s),
                         cs_role_sent := True\<rparr>
               in (s, [cs_chat_chunk (jobj (role @ announcement_chunk index call_id name)) None s])
           | _ \<Rightarrow> (s, [])))"

definition cs_emit_arguments :: "u64 \<Rightarrow> string \<Rightarrow> chat_sse \<Rightarrow> chat_sse \<times> sse_out list" where
  "cs_emit_arguments index arguments s =
     (if arguments = [] then (s, []) else (s, [cs_chat_chunk (arguments_chunk index arguments) None s]))"

definition process_function_arguments_delta :: "json \<Rightarrow> chat_sse \<Rightarrow> chat_sse \<times> sse_out list" where
  "process_function_arguments_delta event s =
     (let index = call_index event ''output_index'' (cs_tool_calls s);
          delta = str_or [] (get_str event ''delta'');
          call_id = Option.bind (first_some (jget event ''call_id'') (jget event ''item_id'')) as_str;
          t = tool_entry (cs_tool_calls s) index;
          t = t\<lparr>st_call_id := keep_first (st_call_id t) call_id, st_arguments := st_arguments t @ delta\<rparr>
      in then_out (cs_announce index (s\<lparr>cs_tool_calls := bt_insert index t (cs_tool_calls s)\<rparr>))
           (cs_emit_arguments index delta))"

definition process_function_item ::
  "json \<Rightarrow> json_map \<Rightarrow> bool \<Rightarrow> chat_sse \<Rightarrow> chat_sse \<times> sse_out list" where
  "process_function_item event item is_done s =
     (let index = call_index event ''output_index'' (cs_tool_calls s);
          call_id = Option.bind (first_some (bt_get item ''call_id'') (bt_get item ''id'')) as_str;
          arguments = str_or [] (obj_str item ''arguments'');
          t = tool_entry (cs_tool_calls s) index;
          emitted = (if is_done \<and> arguments \<noteq> [] \<and> st_arguments t = [] then arguments else []);
          t = t\<lparr>st_call_id := keep_first (st_call_id t) call_id,
                st_name := keep_first (st_name t) (obj_str item ''name''),
                st_arguments := st_arguments t @ emitted\<rparr>
      in then_out (cs_announce index (s\<lparr>cs_tool_calls := bt_insert index t (cs_tool_calls s)\<rparr>))
           (cs_emit_arguments index emitted))"

definition process_output_item :: "json \<Rightarrow> bool \<Rightarrow> chat_sse \<Rightarrow> chat_sse \<times> sse_out list" where
  "process_output_item event is_done s =
     (case Option.bind (jget event ''item'') as_object of
        None \<Rightarrow> (s, [])
      | Some item \<Rightarrow>
          if obj_str item ''type'' = Some ''function_call'' then process_function_item event item is_done s
          else if obj_str item ''type'' = Some ''message'' \<and> is_done \<and> \<not> cs_text_sent s then
            (case bt_get item ''content'' of
               None \<Rightarrow> (s, [])
             | Some content \<Rightarrow>
                 let text = responses_message_content_to_chat_text content
                 in if text = [] then (s, []) else cs_emit_text text s)
          else (s, []))"

definition emit_completed_call :: "chat_sse \<Rightarrow> nat \<times> json \<Rightarrow> chat_sse \<times> sse_out list" where
  "emit_completed_call s ic =
     (let (i, tool_call) = ic; index = of_nat i;
          function = Option.bind (jget tool_call ''function'') as_object;
          t = tool_entry (cs_tool_calls s) index;
          arguments = str_or [] (Option.bind function (\<lambda>f. obj_str f ''arguments''));
          t = t\<lparr>st_call_id := get_str tool_call ''id'',
                st_name := Option.bind function (\<lambda>f. obj_str f ''name''), st_arguments := arguments\<rparr>
      in then_out (cs_announce index (s\<lparr>cs_tool_calls := bt_insert index t (cs_tool_calls s)\<rparr>))
           (cs_emit_arguments index arguments))"

definition emit_completed_output_if_needed :: "json option \<Rightarrow> chat_sse \<Rightarrow> chat_sse \<times> sse_out list" where
  "emit_completed_output_if_needed response s =
     (if cs_text_sent s \<or> cs_tool_calls s \<noteq> [] then (s, [])
      else
        (case response of
           None \<Rightarrow> (s, [])
         | Some r \<Rightarrow>
             let (content, tool_calls) = response_output_to_chat_message (jget r ''output'')
             in then_out (if content = [] then (s, []) else cs_emit_text content s)
                  (fold_out emit_completed_call (List.enumerate 0 tool_calls))))"

definition cs_finish_response :: "json option \<Rightarrow> chat_sse \<Rightarrow> chat_sse \<times> sse_out list" where
  "cs_finish_response response s =
     (if cs_completed s then (s, [])
      else
        let s = s\<lparr>cs_completed := True\<rparr>;
            s = (case response of Some r \<Rightarrow> set_response_metadata r s | None \<Rightarrow> s);
            has_calls = cs_tool_calls s \<noteq> [];
            finish_reason =
              (case Option.bind response as_object of
                 Some m \<Rightarrow> response_finish_reason m has_calls
               | None \<Rightarrow> if has_calls then ''tool_calls'' else ''stop'');
            usage = Option.bind (Option.bind response (\<lambda>r. jget r ''usage''))
              (\<lambda>u. if as_object u = None then None else Some u)
        in (s, cs_chat_chunk (jobj []) (Some finish_reason) s
             # (case usage of
                  Some u \<Rightarrow>
                    if cs_emit_usage_to_client s
                    then [cs_usage_chunk (responses_usage_to_chat_usage (Some u)) s] else []
                | None \<Rightarrow> [])))"

definition cs_fail_response :: "json option \<Rightarrow> chat_sse \<Rightarrow> chat_sse \<times> sse_out list" where
  "cs_fail_response response s =
     (if cs_completed s then (s, [])
      else
        let s = s\<lparr>cs_completed := True\<rparr>;
            s = (case response of Some r \<Rightarrow> set_response_metadata r s | None \<Rightarrow> s)
        in then_out (s, [error_chunk ''The selected model could not complete the request.'']) cs_done_event)"

definition process_response_event :: "json \<Rightarrow> chat_sse \<Rightarrow> chat_sse \<times> sse_out list" where
  "process_response_event event s =
     (let s = set_event_metadata event s; ty = get_str event ''type''
      in if ty = Some ''response.output_text.delta'' then process_text_delta event s
         else if ty = Some ''response.function_call_arguments.delta'' then process_function_arguments_delta event s
         else if ty = Some ''response.output_item.added'' then process_output_item event False s
         else if ty = Some ''response.output_item.done'' then process_output_item event True s
         else if ty = Some ''response.completed'' \<or> ty = Some ''response.incomplete'' then
           then_out (emit_completed_output_if_needed (jget event ''response'') s)
             (cs_finish_response (jget event ''response''))
         else if ty \<in> {Some ''response.failed'', Some ''response.cancelled'', Some ''error''} then
           cs_fail_response (jget event ''response'') s
         else (s, []))"

definition chat_handle_data :: "chat_sse \<Rightarrow> json \<Rightarrow> chat_sse \<times> sse_out list" where
  "chat_handle_data s v = (let (s, v, _) = apply_data_prologue s v in process_response_event v s)"

definition cs_end :: "chat_sse \<Rightarrow> chat_sse \<times> sse_out list" where
  "cs_end s = then_out (if cs_completed s then (s, []) else cs_finish_response None s) cs_done_event"

fun chat_handle_frame :: "chat_sse \<Rightarrow> sse_frame \<Rightarrow> chat_sse \<times> sse_out list" where
  "chat_handle_frame s (FEvent name line) = (note_event name s, [])"
| "chat_handle_frame s (FData v leading_space line) = chat_handle_data s v"
| "chat_handle_frame s (FDataUnparseable line) = (s\<lparr>sc_pending_event_name := None\<rparr>, [])"
| "chat_handle_frame s (FDone line) = cs_end (s\<lparr>sc_pending_event_name := None\<rparr>)"
| "chat_handle_frame s (FPassThrough line) = (s, [])"

section \<open>Messages backend, chat client\<close>

record messages_sse = sse_common +
  ms_emit_usage_to_client :: bool
  ms_message_id :: "string option"
  ms_model :: "string option"
  ms_role_sent :: bool
  ms_content_started :: bool
  ms_tool_calls :: tool_calls
  ms_finish_reason :: "string option"
  ms_completed :: bool
  ms_done_sent :: bool

definition messages_sse_new :: "string option \<Rightarrow> string option \<Rightarrow> bool \<Rightarrow> messages_sse" where
  "messages_sse_new backend_model public_model emit =
     sse_common.extend (default_common backend_model public_model)
       \<lparr>ms_emit_usage_to_client = emit, ms_message_id = None, ms_model = None, ms_role_sent = False,
        ms_content_started = False, ms_tool_calls = [], ms_finish_reason = None, ms_completed = False,
        ms_done_sent = False\<rparr>"

definition ms_chat_id :: "messages_sse \<Rightarrow> string" where
  "ms_chat_id s = str_or ''chatcmpl_unknown'' (ms_message_id s)"

definition ms_chat_chunk :: "json \<Rightarrow> string option \<Rightarrow> messages_sse \<Rightarrow> sse_out" where
  "ms_chat_chunk delta finish_reason s =
     SseData (chat_chunk_object (ms_chat_id s) 0 (str_or ''unknown'' (ms_model s)) delta finish_reason
       (ms_emit_usage_to_client s))"

definition ms_usage_chunk :: "messages_sse \<Rightarrow> sse_out" where
  "ms_usage_chunk s =
     SseData (jobj [(''id'', JString (ms_chat_id s)), (''object'', JString ''chat.completion.chunk''),
       (''created'', jnat 0), (''model'', JString (str_or ''unknown'' (ms_model s))), (''choices'', JArray []),
       (''usage'', jobj [(''prompt_tokens'', jnat (ut_input (sc_usage s))),
          (''completion_tokens'', jnat (ut_output (sc_usage s))),
          (''total_tokens'', jnat (ut_total (sc_usage s)))])])"

definition ms_done_event :: "messages_sse \<Rightarrow> messages_sse \<times> sse_out list" where
  "ms_done_event s = (if ms_done_sent s then (s, []) else (s\<lparr>ms_done_sent := True\<rparr>, [SseDone]))"

definition ms_announce :: "u64 \<Rightarrow> messages_sse \<Rightarrow> messages_sse \<times> sse_out list" where
  "ms_announce index s =
     (case bt_get (ms_tool_calls s) index of
        None \<Rightarrow> (s, [])
      | Some t \<Rightarrow>
          (case (st_announced t, st_name t) of
             (False, Some name) \<Rightarrow>
               let call_id = str_or (''call_'' @ show_u64 index) (st_call_id t);
                   role = role_field (ms_role_sent s);
                   s = s\<lparr>ms_tool_calls := bt_insert index (t\<lparr>st_announced := True\<rparr>) (ms_tool_calls s),
                         ms_role_sent := True\<rparr>
               in (s, [ms_chat_chunk (jobj (role @ announcement_chunk index call_id name)) None s])
           | _ \<Rightarrow> (s, [])))"

definition process_content_block_start :: "json \<Rightarrow> messages_sse \<Rightarrow> messages_sse \<times> sse_out list" where
  "process_content_block_start event s =
     (let index = call_index event ''index'' (ms_tool_calls s)
      in case Option.bind (jget event ''content_block'') as_object of
           None \<Rightarrow> (s, [])
         | Some block \<Rightarrow>
             if obj_str block ''type'' = Some ''tool_use'' then
               let t = (tool_entry (ms_tool_calls s) index)
                         \<lparr>st_call_id := Some (str_or (''call_'' @ show_u64 index) (obj_str block ''id'')),
                          st_name := obj_str block ''name''\<rparr>
               in ms_announce index (s\<lparr>ms_tool_calls := bt_insert index t (ms_tool_calls s)\<rparr>)
             else (s, []))"

definition ms_emit_text :: "string \<Rightarrow> messages_sse \<Rightarrow> messages_sse \<times> sse_out list" where
  "ms_emit_text text s =
     (let role = role_field (ms_role_sent s); s = s\<lparr>ms_content_started := True, ms_role_sent := True\<rparr>
      in (s, [ms_chat_chunk (jobj (role @ [(''content'', JString text)])) None s]))"

definition ms_emit_arguments :: "u64 \<Rightarrow> string \<Rightarrow> messages_sse \<Rightarrow> messages_sse \<times> sse_out list" where
  "ms_emit_arguments index partial_json s =
     (let t = tool_entry (ms_tool_calls s) index;
          t = t\<lparr>st_arguments := st_arguments t @ partial_json\<rparr>
      in then_out (ms_announce index (s\<lparr>ms_tool_calls := bt_insert index t (ms_tool_calls s)\<rparr>))
           (\<lambda>s. (s, [ms_chat_chunk (arguments_chunk index partial_json) None s])))"

definition process_content_block_delta :: "json \<Rightarrow> messages_sse \<Rightarrow> messages_sse \<times> sse_out list" where
  "process_content_block_delta event s =
     (let index = call_index event ''index'' (ms_tool_calls s)
      in case Option.bind (jget event ''delta'') as_object of
           None \<Rightarrow> (s, [])
         | Some delta \<Rightarrow>
             if obj_str delta ''type'' = Some ''text_delta'' then
               let text = str_or [] (obj_str delta ''text'')
               in if text = [] then (s, []) else ms_emit_text text s
             else if obj_str delta ''type'' = Some ''input_json_delta'' then
               let partial_json = str_or [] (obj_str delta ''partial_json'')
               in if partial_json = [] then (s, []) else ms_emit_arguments index partial_json s
             else (s, []))"

definition process_message_delta :: "json \<Rightarrow> messages_sse \<Rightarrow> messages_sse" where
  "process_message_delta event s =
     (case Option.bind (Option.bind (jget event ''delta'') as_object) (\<lambda>d. obj_str d ''stop_reason'') of
        Some stop_reason \<Rightarrow>
          s\<lparr>ms_finish_reason := Some (chat_finish_reason_from_anthropic_stop_reason stop_reason)\<rparr>
      | None \<Rightarrow> s)"

definition ms_finish_response :: "messages_sse \<Rightarrow> messages_sse \<times> sse_out list" where
  "ms_finish_response s =
     (if ms_completed s then (s, [])
      else
        let s = s\<lparr>ms_completed := True\<rparr>;
            default = (if ms_tool_calls s = [] then ''stop'' else ''tool_calls'');
            outs = [ms_chat_chunk (jobj []) (Some (str_or default (ms_finish_reason s))) s]
              @ (if ms_emit_usage_to_client s \<and> 0 < ud_usage_object_count (sc_diagnostics s)
                 then [ms_usage_chunk s] else [])
        in then_out (s, outs) ms_done_event)"

definition error_frame :: "json \<Rightarrow> messages_sse \<Rightarrow> messages_sse \<times> sse_out list" where
  "error_frame event s =
     (let s = s\<lparr>ms_completed := True\<rparr>;
          message = str_or ''The selected model could not complete the request.''
            (Option.bind (Option.bind (jget event ''error'') as_object) (\<lambda>e. obj_str e ''message''))
      in then_out (s, [error_chunk message]) ms_done_event)"

definition observe_usage :: "json \<Rightarrow> messages_sse \<Rightarrow> messages_sse" where
  "observe_usage event s =
     (let usage = first_some (first_some (jget event ''usage'')
            (Option.bind (jget event ''message'') (\<lambda>m. jget m ''usage'')))
            (Option.bind (Option.bind (jget event ''delta'') as_object) (\<lambda>d. bt_get d ''usage''))
      in case Option.bind usage as_object of
           None \<Rightarrow> s
         | Some u \<Rightarrow>
             let input = (case number_field u ''input_tokens'' of Some n \<Rightarrow> n | None \<Rightarrow> ut_input (sc_usage s));
                 outp = (case number_field u ''output_tokens'' of Some n \<Rightarrow> n | None \<Rightarrow> ut_output (sc_usage s))
             in s\<lparr>sc_diagnostics := observe_object u (sc_diagnostics s),
                  sc_usage := (sc_usage s)\<lparr>ut_input := input, ut_output := outp, ut_total := input + outp\<rparr>\<rparr>)"

definition process_event :: "json \<Rightarrow> messages_sse \<Rightarrow> messages_sse \<times> sse_out list" where
  "process_event event s =
     (let ty = get_str event ''type''
      in if ty = Some ''content_block_start'' then process_content_block_start event s
         else if ty = Some ''content_block_delta'' then process_content_block_delta event s
         else if ty = Some ''message_delta'' then (process_message_delta event s, [])
         else if ty = Some ''message_stop'' then ms_finish_response s
         else if ty = Some ''error'' then error_frame event s
         else (s, []))"

text \<open>The metadata part of \<open>handle_data\<close>: the first message id and model seen, the model translated.\<close>

definition set_message_metadata :: "json \<Rightarrow> messages_sse \<Rightarrow> messages_sse" where
  "set_message_metadata event s =
     (let s = (case jget event ''message'' of
                 Some message \<Rightarrow>
                   s\<lparr>ms_message_id := keep_first (ms_message_id s)
                       (map_option chat_id_from_response (get_str message ''id'')),
                     ms_model := keep_first (ms_model s) (get_str message ''model'')\<rparr>
               | None \<Rightarrow> s);
          s = s\<lparr>ms_model := keep_first (ms_model s) (get_str event ''model'')\<rparr>
      in if sc_backend_model s \<noteq> None \<and> sc_public_model s \<noteq> None \<and> ms_model s = sc_backend_model s
         then s\<lparr>ms_model := sc_public_model s\<rparr> else s)"

definition messages_handle_data :: "messages_sse \<Rightarrow> json \<Rightarrow> messages_sse \<times> sse_out list" where
  "messages_handle_data s v =
     (let event = rewrite_bound rewrite_anthropic_messages_response_body_value
            (sc_backend_model s) (sc_public_model s) v
      in process_event event (observe_usage event (set_message_metadata event s)))"

definition ms_end :: "messages_sse \<Rightarrow> messages_sse \<times> sse_out list" where
  "ms_end s =
     then_out (if ms_message_id s \<noteq> None \<and> \<not> ms_completed s then ms_finish_response s else (s, [])) ms_done_event"

fun messages_handle_frame :: "messages_sse \<Rightarrow> sse_frame \<Rightarrow> messages_sse \<times> sse_out list" where
  "messages_handle_frame s (FEvent name line) = (note_event name s, [])"
| "messages_handle_frame s (FData v leading_space line) = messages_handle_data s v"
| "messages_handle_frame s (FDataUnparseable line) = (s\<lparr>sc_pending_event_name := None\<rparr>, [])"
| "messages_handle_frame s (FDone line) = ms_end (s\<lparr>sc_pending_event_name := None\<rparr>)"
| "messages_handle_frame s (FPassThrough line) = (s, [])"

section \<open>The strategy of a request mode\<close>

datatype sse_strategy =
    SNative "string \<times> sse_normalizer"
  | SResponses "string \<times> responses_sse"
  | SChatCompletions "string \<times> chat_sse"
  | SAnthropicMessages "string \<times> anthropic_sse"
  | SAnthropicMessagesToChat "string \<times> messages_sse"

definition strategy_new ::
  "request_mode \<Rightarrow> string option \<Rightarrow> string option \<Rightarrow> bool \<Rightarrow> sse_strategy" where
  "strategy_new mode backend_model public_model emit =
     (case mode of
        ResponsesViaChatCompletions \<Rightarrow> SResponses ([], responses_sse_new backend_model public_model)
      | ChatCompletionsViaResponses \<Rightarrow> SChatCompletions ([], chat_sse_new backend_model public_model emit)
      | ChatCompletionsViaMessages \<Rightarrow>
          SAnthropicMessagesToChat ([], messages_sse_new backend_model public_model emit)
      | Native \<Rightarrow> SNative ([], sse_normalizer_new backend_model public_model emit)
      | AnthropicMessagesNative \<Rightarrow> SAnthropicMessages ([], anthropic_sse_new backend_model public_model))"

fun strategy_push :: "serde \<Rightarrow> sse_strategy \<Rightarrow> string \<Rightarrow> sse_strategy \<times> sse_out list" where
  "strategy_push sd (SNative n) chunk = map_prod SNative id (sse_push sd native_handle_frame n chunk)"
| "strategy_push sd (SResponses n) chunk = map_prod SResponses id (sse_push sd responses_handle_frame n chunk)"
| "strategy_push sd (SChatCompletions n) chunk =
     map_prod SChatCompletions id (sse_push sd chat_handle_frame n chunk)"
| "strategy_push sd (SAnthropicMessages n) chunk =
     map_prod SAnthropicMessages id (sse_push sd anthropic_handle_frame n chunk)"
| "strategy_push sd (SAnthropicMessagesToChat n) chunk =
     map_prod SAnthropicMessagesToChat id (sse_push sd messages_handle_frame n chunk)"

definition no_close :: "'s \<Rightarrow> 's \<times> sse_out list" where
  "no_close s = (s, [])"

fun strategy_finish :: "serde \<Rightarrow> sse_strategy \<Rightarrow> sse_strategy \<times> sse_out list" where
  "strategy_finish sd (SNative n) = map_prod SNative id (sse_finish sd native_handle_frame no_close n)"
| "strategy_finish sd (SResponses n) =
     map_prod SResponses id (sse_finish sd responses_handle_frame finish_response n)"
| "strategy_finish sd (SChatCompletions n) =
     map_prod SChatCompletions id (sse_finish sd chat_handle_frame cs_end n)"
| "strategy_finish sd (SAnthropicMessages n) =
     map_prod SAnthropicMessages id (sse_finish sd anthropic_handle_frame no_close n)"
| "strategy_finish sd (SAnthropicMessagesToChat n) =
     map_prod SAnthropicMessagesToChat id (sse_finish sd messages_handle_frame ms_end n)"

fun strategy_usage :: "sse_strategy \<Rightarrow> usage_totals" where
  "strategy_usage (SNative n) = sc_usage (snd n)"
| "strategy_usage (SResponses n) = sc_usage (snd n)"
| "strategy_usage (SChatCompletions n) = sc_usage (snd n)"
| "strategy_usage (SAnthropicMessages n) = default_totals"
| "strategy_usage (SAnthropicMessagesToChat n) = sc_usage (snd n)"

fun strategy_diagnostics :: "sse_strategy \<Rightarrow> usage_diagnostics" where
  "strategy_diagnostics (SNative n) = sc_diagnostics (snd n)"
| "strategy_diagnostics (SResponses n) = sc_diagnostics (snd n)"
| "strategy_diagnostics (SChatCompletions n) = sc_diagnostics (snd n)"
| "strategy_diagnostics (SAnthropicMessages n) = default_diagnostics"
| "strategy_diagnostics (SAnthropicMessagesToChat n) = sc_diagnostics (snd n)"

fun clear_usage :: "sse_strategy \<Rightarrow> sse_strategy" where
  "clear_usage (SNative (p, s)) = SNative (p, s\<lparr>sc_usage := default_totals\<rparr>)"
| "clear_usage (SResponses (p, s)) = SResponses (p, s\<lparr>sc_usage := default_totals\<rparr>)"
| "clear_usage (SChatCompletions (p, s)) = SChatCompletions (p, s\<lparr>sc_usage := default_totals\<rparr>)"
| "clear_usage (SAnthropicMessages n) = SAnthropicMessages n"
| "clear_usage (SAnthropicMessagesToChat (p, s)) = SAnthropicMessagesToChat (p, s\<lparr>sc_usage := default_totals\<rparr>)"

fun clear_diagnostics :: "sse_strategy \<Rightarrow> sse_strategy" where
  "clear_diagnostics (SNative (p, s)) = SNative (p, s\<lparr>sc_diagnostics := default_diagnostics\<rparr>)"
| "clear_diagnostics (SResponses (p, s)) = SResponses (p, s\<lparr>sc_diagnostics := default_diagnostics\<rparr>)"
| "clear_diagnostics (SChatCompletions (p, s)) = SChatCompletions (p, s\<lparr>sc_diagnostics := default_diagnostics\<rparr>)"
| "clear_diagnostics (SAnthropicMessages n) = SAnthropicMessages n"
| "clear_diagnostics (SAnthropicMessagesToChat (p, s)) =
     SAnthropicMessagesToChat (p, s\<lparr>sc_diagnostics := default_diagnostics\<rparr>)"

end
