(* ===== verification/Sse_Correct.thy ===== *)
theory Sse_Correct
  imports Sse_Chat
begin

text \<open>
  Correctness of the stream normalizers: what the client receives does not depend on how the bytes of
  the backend are cut into chunks, the native stream is rewritten line by line, and the converted
  streams close exactly once.
\<close>

section \<open>Composing steps\<close>

lemma then_out_pair [simp]: "then_out (s, xs) f = (fst (f s), xs @ snd (f s))"
  by (simp add: then_out_def split: prod.split)

lemma then_out_assoc: "then_out (then_out p f) g = then_out p (\<lambda>s. then_out (f s) g)"
  by (simp add: then_out_def split: prod.split)

lemma fold_out_append: "fold_out f (xs @ ys) s = then_out (fold_out f xs s) (fold_out f ys)"
proof (induction xs arbitrary: s)
  case Nil
  then show ?case by simp
next
  case (Cons x xs)
  have "fold_out f ((x # xs) @ ys) s = then_out (f s x) (\<lambda>s. then_out (fold_out f xs s) (fold_out f ys))"
    using Cons by (simp add: then_out_def split: prod.split)
  then show ?case by (simp add: then_out_assoc)
qed

lemma fst_then_out [simp]: "fst (then_out p f) = fst (f (fst p))"
  by (cases p) simp

lemma snd_then_out [simp]: "snd (then_out p f) = snd p @ snd (f (fst p))"
  by (cases p) simp

lemma then_out_Nil [simp]: "then_out p (fold_out f []) = p"
  by (simp add: prod_eq_iff)

lemma then_out_no_close [simp]: "then_out p no_close = p"
  by (simp add: prod_eq_iff no_close_def)

section \<open>The parser\<close>

lemma drain_lines_append:
  "drain_lines (a @ b) =
     (fst (drain_lines a) @ fst (drain_lines (snd (drain_lines a) @ b)),
      snd (drain_lines (snd (drain_lines a) @ b)))"
proof (induction a rule: drain_lines.induct)
  case (1 a)
  show ?case
  proof (cases "CHR 0x0A \<in> set a")
    case True
    then have d: "dropWhile (\<lambda>c. c \<noteq> CHR 0x0A) a \<noteq> []" by (auto simp: dropWhile_eq_Nil_conv)
    have "takeWhile (\<lambda>c. c \<noteq> CHR 0x0A) (a @ b) = takeWhile (\<lambda>c. c \<noteq> CHR 0x0A) a"
      using True by (auto intro: takeWhile_append1)
    moreover have "tl (dropWhile (\<lambda>c. c \<noteq> CHR 0x0A) (a @ b)) = tl (dropWhile (\<lambda>c. c \<noteq> CHR 0x0A) a) @ b"
      using True d dropWhile_append1 [of "CHR 0x0A" a "\<lambda>c. c \<noteq> CHR 0x0A" b] by (simp add: tl_append2)
    ultimately show ?thesis
      using True 1 drain_lines.simps [of "a @ b"] drain_lines.simps [of a]
      by (simp add: Let_def split_beta)
  next
    case False
    then show ?thesis using drain_lines.simps [of a] by simp
  qed
qed

lemma drain_lines_rest: "CHR 0x0A \<notin> set (snd (drain_lines a))"
proof (induction a rule: drain_lines.induct)
  case (1 a)
  then show ?case using drain_lines.simps [of a] by (simp add: Let_def split_beta)
qed

lemma drain_lines_concat: "concat (fst (drain_lines a)) @ snd (drain_lines a) = a"
proof (induction a rule: drain_lines.induct)
  case (1 a)
  show ?case
  proof (cases "CHR 0x0A \<in> set a")
    case True
    then have d: "dropWhile (\<lambda>c. c \<noteq> CHR 0x0A) a \<noteq> []" by (auto simp: dropWhile_eq_Nil_conv)
    then have "hd (dropWhile (\<lambda>c. c \<noteq> CHR 0x0A) a) = CHR 0x0A"
      using hd_dropWhile [OF d] by simp
    then have "takeWhile (\<lambda>c. c \<noteq> CHR 0x0A) a @ NL @ tl (dropWhile (\<lambda>c. c \<noteq> CHR 0x0A) a) = a"
      using d by (metis NL_def append_Cons append_Nil list.collapse takeWhile_dropWhile_id)
    then show ?thesis using True 1 drain_lines.simps [of a] by (simp add: Let_def split_beta)
  qed (use drain_lines.simps [of a] in simp)
qed

lemma frame_line_parse [simp]: "frame_line (parse_sse_line sd line) = line"
  by (simp add: parse_sse_line_def Let_def split: option.split)

lemma sse_push_eq:
  "sse_push sd h (p, s) chunk =
     ((snd (drain_lines (p @ chunk)), fst (fold_out h (map (parse_sse_line sd) (fst (drain_lines (p @ chunk)))) s)),
      snd (fold_out h (map (parse_sse_line sd) (fst (drain_lines (p @ chunk)))) s))"
  by (simp add: sse_push_def parser_push_def split_beta)

lemma sse_push_chunks:
  "CHR 0x0A \<notin> set p \<Longrightarrow> fold_out (sse_push sd h) chunks (p, s) = sse_push sd h (p, s) (concat chunks)"
proof (induction chunks arbitrary: p s)
  case Nil
  then show ?case by (simp add: sse_push_eq drain_lines.simps)
next
  case (Cons c chunks)
  show ?case
    using Cons.IH [OF drain_lines_rest] drain_lines_append [of "p @ c" "concat chunks"]
    by (simp add: sse_push_eq fold_out_append)
qed

section \<open>Chunking\<close>

definition stream_run :: "serde \<Rightarrow> sse_strategy \<Rightarrow> string list \<Rightarrow> sse_strategy \<times> sse_out list" where
  "stream_run sd st chunks = then_out (fold_out (strategy_push sd) chunks st) (strategy_finish sd)"

lemma fold_out_map_prod:
  "(\<And>n c. g (C n) c = map_prod C id (f n c)) \<Longrightarrow> fold_out g cs (C n) = map_prod C id (fold_out f cs n)"
proof (induction cs arbitrary: n)
  case (Cons c cs)
  then show ?case by (simp add: prod_eq_iff)
qed simp

lemmas strategy_folds =
  fold_out_map_prod [where g = "strategy_push sd" and C = SNative and f = "sse_push sd native_handle_frame" for sd, OF strategy_push.simps(1)]
  fold_out_map_prod [where g = "strategy_push sd" and C = SResponses and f = "sse_push sd responses_handle_frame" for sd, OF strategy_push.simps(2)]
  fold_out_map_prod [where g = "strategy_push sd" and C = SChatCompletions and f = "sse_push sd chat_handle_frame" for sd, OF strategy_push.simps(3)]
  fold_out_map_prod [where g = "strategy_push sd" and C = SAnthropicMessages and f = "sse_push sd anthropic_handle_frame" for sd, OF strategy_push.simps(4)]
  fold_out_map_prod [where g = "strategy_push sd" and C = SAnthropicMessagesToChat and f = "sse_push sd messages_handle_frame" for sd, OF strategy_push.simps(5)]

text \<open>
  C10: the stream does not depend on its chunking.  In every mode, feeding the chunks of a backend one
  after the other and closing the stream gives the pieces (hence the bytes), the counters and the
  final state of feeding all bytes at once.
\<close>

theorem stream_chunking_irrelevant:
  "stream_run sd (strategy_new mode backend_model public_model emit) chunks =
     stream_run sd (strategy_new mode backend_model public_model emit) [concat chunks]"
  by (cases mode) (simp_all add: stream_run_def strategy_new_def strategy_folds sse_push_chunks)

section \<open>The native stream\<close>

definition frames_of :: "serde \<Rightarrow> string \<Rightarrow> sse_frame list" where
  "frames_of sd bytes =
     (let (lines, rest) = drain_lines bytes
      in map (parse_sse_line sd) (lines @ (if rest = [] then [] else [rest])))"

lemma frames_of_lossless: "concat (map frame_line (frames_of sd bytes)) = bytes"
  using drain_lines_concat [of bytes]
  by (auto simp: frames_of_def split_beta o_def)

text \<open>Every normalizer: the frames of all bytes are handled in order, then the stream is closed.\<close>

lemma sse_run_frames:
  "snd (then_out (sse_push sd h ([], s) bytes) (sse_finish sd h close)) =
     snd (then_out (fold_out h (frames_of sd bytes) s) close)"
  by (simp add: sse_push_eq sse_finish_def parser_finish_def frames_of_def split_beta fold_out_append)

lemma stream_run_frames:
  "snd (stream_run sd (strategy_new mode bm pm emit) chunks) =
     (let frames = frames_of sd (concat chunks)
      in case mode of
           Native \<Rightarrow> snd (fold_out native_handle_frame frames (sse_normalizer_new bm pm emit))
         | AnthropicMessagesNative \<Rightarrow> snd (fold_out anthropic_handle_frame frames (anthropic_sse_new bm pm))
         | ResponsesViaChatCompletions \<Rightarrow>
             snd (then_out (fold_out responses_handle_frame frames (responses_sse_new bm pm)) finish_response)
         | ChatCompletionsViaResponses \<Rightarrow>
             snd (then_out (fold_out chat_handle_frame frames (chat_sse_new bm pm emit)) cs_end)
         | ChatCompletionsViaMessages \<Rightarrow>
             snd (then_out (fold_out messages_handle_frame frames (messages_sse_new bm pm emit)) ms_end))"
proof -
  have *: "snd (then_out (map_prod C id r) (strategy_finish sd)) = snd (then_out r f)"
    if "\<And>n. strategy_finish sd (C n) = map_prod C id (f n)" for C :: "'x \<Rightarrow> sse_strategy" and r f
    using that by (cases r) simp
  show ?thesis
    using sse_run_frames [of sd native_handle_frame "sse_normalizer_new bm pm emit" "concat chunks" no_close]
      sse_run_frames [of sd anthropic_handle_frame "anthropic_sse_new bm pm" "concat chunks" no_close]
      sse_run_frames [of sd responses_handle_frame "responses_sse_new bm pm" "concat chunks" finish_response]
      sse_run_frames [of sd chat_handle_frame "chat_sse_new bm pm emit" "concat chunks" cs_end]
      sse_run_frames [of sd messages_handle_frame "messages_sse_new bm pm emit" "concat chunks" ms_end]
    by (cases mode)
      (simp_all add: stream_run_def strategy_new_def strategy_folds sse_push_chunks
        * [OF strategy_finish.simps(1)] * [OF strategy_finish.simps(2)] * [OF strategy_finish.simps(3)]
        * [OF strategy_finish.simps(4)] * [OF strategy_finish.simps(5)] del: snd_then_out then_out_pair)
qed

text \<open>What one frame contributes to the native stream, without any state.\<close>

definition native_piece :: "string option \<Rightarrow> string option \<Rightarrow> bool \<Rightarrow> sse_frame \<Rightarrow> sse_out list" where
  "native_piece bm pm emit f =
     (case f of
        FData v leading_space line \<Rightarrow>
          let v' = ensure_usage_total_tokens (rewrite_bound rewrite_response_models bm pm v);
              hide = \<not> emit \<and> 0 < ud_usage_object_count (uo_diagnostics (extract_usage_observation v))
          in if hide \<and> chat_usage_only_chunk v' then []
             else [rewritten_line (if hide then remove_usage_field v' else v') leading_space line]
      | _ \<Rightarrow> [Raw (frame_line f)])"

lemma native_handle_frame_piece:
  "snd (native_handle_frame s f) =
     native_piece (sc_backend_model s) (sc_public_model s) (sn_emit_usage_to_client s) f \<and>
   sc_backend_model (fst (native_handle_frame s f)) = sc_backend_model s \<and>
   sc_public_model (fst (native_handle_frame s f)) = sc_public_model s \<and>
   sn_emit_usage_to_client (fst (native_handle_frame s f)) = sn_emit_usage_to_client s"
  by (cases f)
    (simp_all add: native_piece_def native_handle_data_def apply_data_prologue_def prologue_value_def
      note_event_def Let_def)

lemma native_fold_pieces:
  "snd (fold_out native_handle_frame fs s) =
     concat (map (native_piece (sc_backend_model s) (sc_public_model s) (sn_emit_usage_to_client s)) fs)"
  by (induction fs arbitrary: s) (simp_all add: native_handle_frame_piece)

text \<open>
  The native stream is rewritten frame by frame.  The frames of the backend's bytes lose nothing
  (their lines concatenate to the bytes); every frame that is not a JSON data line is sent on as it is,
  and a data line is replaced by its value with the model renamed and the usage total filled in, minus
  the usage when the client did not ask for it.  Neither counters nor earlier frames matter.
\<close>

theorem native_stream_exact:
  "snd (stream_run sd (strategy_new Native bm pm emit) chunks) =
     concat (map (native_piece bm pm emit) (frames_of sd (concat chunks))) \<and>
   concat (map frame_line (frames_of sd (concat chunks))) = concat chunks"
  by (simp add: stream_run_frames native_fold_pieces frames_of_lossless sse_normalizer_new_def
      sse_common.defs default_common_def)

section \<open>Closing exactly once\<close>

text \<open>
  The contract of a normalizer with a flag: a marked piece is emitted exactly when the flag is raised,
  and closing the stream raises it.
\<close>

definition once_step :: "(sse_out \<Rightarrow> bool) \<Rightarrow> ('s \<Rightarrow> bool) \<Rightarrow> 's \<Rightarrow> 's \<times> sse_out list \<Rightarrow> bool" where
  "once_step marked sent s r \<longleftrightarrow>
     length (filter marked (snd r)) + of_bool (sent s) = of_bool (sent (fst r))"

lemma once_step_refl [simp]: "once_step marked sent s (s, [])"
  by (simp add: once_step_def)

lemma once_step_then:
  assumes "once_step marked sent s r" and "\<And>s'. once_step marked sent s' (f s')"
  shows "once_step marked sent s (then_out r f)"
  using assms(1) assms(2) [of "fst r"] by (simp add: once_step_def)

lemma once_step_append:
  "once_step marked sent s (s1, xs) \<Longrightarrow> once_step marked sent s1 (s2, ys) \<Longrightarrow> once_step marked sent s (s2, xs @ ys)"
  by (simp add: once_step_def)

lemma once_step_fold:
  "(\<And>s' x. once_step marked sent s' (f s' x)) \<Longrightarrow> once_step marked sent s (fold_out f xs s)"
  by (induction xs arbitrary: s) (auto intro: once_step_then)

lemma once_step_change: "sent s' = sent s \<Longrightarrow> once_step marked sent s' r \<Longrightarrow> once_step marked sent s r"
  by (simp add: once_step_def)

locale marks_once =
  fixes handle :: "'s \<Rightarrow> sse_frame \<Rightarrow> 's \<times> sse_out list"
    and marked :: "sse_out \<Rightarrow> bool"
    and sent :: "'s \<Rightarrow> bool"
  assumes handle_once: "once_step marked sent s (handle s f)"
begin

lemma frames_once: "once_step marked sent s (fold_out handle fs s)"
  using handle_once by (rule once_step_fold)

lemma at_most_once:
  "\<not> sent s \<Longrightarrow> length (filter marked (snd (fold_out handle fs s))) = of_bool (sent (fst (fold_out handle fs s)))"
  using frames_once [of s fs] by (simp add: once_step_def)

end

locale closes_once = marks_once handle marked sent
  for handle :: "'s \<Rightarrow> sse_frame \<Rightarrow> 's \<times> sse_out list"
    and marked :: "sse_out \<Rightarrow> bool"
    and sent :: "'s \<Rightarrow> bool" +
  fixes close :: "'s \<Rightarrow> 's \<times> sse_out list"
  assumes close_once: "once_step marked sent s (close s)"
    and close_sent: "sent (fst (close s))"
begin

lemma exactly_once:
  assumes "\<not> sent s"
  shows "length (filter marked (snd (then_out (fold_out handle fs s) close))) = 1"
proof -
  have "once_step marked sent s (then_out (fold_out handle fs s) close)"
    using frames_once close_once by (rule once_step_then)
  then show ?thesis using assms close_sent by (simp add: once_step_def)
qed

end

section \<open>Accumulated text\<close>

text \<open>
  A stream of deltas with closing reports: every report names exactly the deltas emitted before it.
\<close>

fun consistent :: "(sse_out \<Rightarrow> string) \<Rightarrow> (sse_out \<Rightarrow> string option) \<Rightarrow> string \<Rightarrow> sse_out list \<Rightarrow> bool" where
  "consistent delta report t [] = True"
| "consistent delta report t (x # xs) =
     (report x \<in> {None, Some t} \<and> consistent delta report (t @ delta x) xs)"

definition deltas :: "(sse_out \<Rightarrow> string) \<Rightarrow> sse_out list \<Rightarrow> string" where
  "deltas delta xs = concat (map delta xs)"

lemma deltas_simps [simp]:
  "deltas d [] = []" "deltas d (x # xs) = d x @ deltas d xs" "deltas d (xs @ ys) = deltas d xs @ deltas d ys"
  by (simp_all add: deltas_def)

lemma consistent_append:
  "consistent d r t (xs @ ys) \<longleftrightarrow> consistent d r t xs \<and> consistent d r (t @ deltas d xs) ys"
  by (induction xs arbitrary: t) simp_all

text \<open>One step on a state that keeps the accumulated text.\<close>

definition acc_step ::
  "(sse_out \<Rightarrow> string) \<Rightarrow> (sse_out \<Rightarrow> string option) \<Rightarrow> ('s \<Rightarrow> string) \<Rightarrow> ('s \<Rightarrow> bool) \<Rightarrow> 's \<Rightarrow>
     's \<times> sse_out list \<Rightarrow> bool" where
  "acc_step d r content ok s p \<longleftrightarrow>
     (ok s \<longrightarrow> ok (fst p) \<and> content (fst p) = content s @ deltas d (snd p) \<and> consistent d r (content s) (snd p))"

lemma acc_step_refl [simp]: "acc_step d r content ok s (s, [])"
  by (simp add: acc_step_def)

lemma acc_step_then:
  assumes "acc_step d r content ok s p" and "\<And>s'. acc_step d r content ok s' (f s')"
  shows "acc_step d r content ok s (then_out p f)"
  using assms(1) assms(2) [of "fst p"] by (auto simp: acc_step_def consistent_append)

lemma acc_step_append:
  "acc_step d r content ok s (s1, xs) \<Longrightarrow> acc_step d r content ok s1 (s2, ys) \<Longrightarrow> acc_step d r content ok s (s2, xs @ ys)"
  by (auto simp: acc_step_def consistent_append)

lemma acc_step_fold:
  "(\<And>s' x. acc_step d r content ok s' (f s' x)) \<Longrightarrow> acc_step d r content ok s (fold_out f xs s)"
  by (induction xs arbitrary: s) (auto intro: acc_step_then simp del: fst_then_out snd_then_out)

locale accumulates =
  fixes handle :: "'s \<Rightarrow> sse_frame \<Rightarrow> 's \<times> sse_out list"
    and close :: "'s \<Rightarrow> 's \<times> sse_out list"
    and delta :: "sse_out \<Rightarrow> string"
    and report :: "sse_out \<Rightarrow> string option"
    and content :: "'s \<Rightarrow> string"
    and ok :: "'s \<Rightarrow> bool"
  assumes handle_acc: "acc_step delta report content ok s (handle s f)"
    and close_acc: "acc_step delta report content ok s (close s)"
begin

lemma stream_consistent:
  assumes "ok s"
  shows "consistent delta report (content s) (snd (then_out (fold_out handle fs s) close))"
proof -
  have "acc_step delta report content ok s (then_out (fold_out handle fs s) close)"
    using handle_acc close_acc by (intro acc_step_then acc_step_fold)
  then show ?thesis using assms by (simp add: acc_step_def)
qed

end

end
