(* ===== verification/Sse_Protocol.thy ===== *)
theory Sse_Protocol
  imports Sse_Correct
begin

text \<open>
  The protocol of the converted streams, through the contract \<open>closes_once\<close>: a chat client receives
  one terminal chunk and one \<open>[DONE]\<close>, a Responses client one \<open>response.completed\<close>, whatever the backend
  sends; and the texts and arguments a Responses client accumulates are the ones the final event reports.
\<close>

section \<open>Chat streams of a Responses backend\<close>

definition is_done :: "sse_out \<Rightarrow> bool" where
  "is_done out \<longleftrightarrow> out = SseDone"

definition is_terminal :: "sse_out \<Rightarrow> bool" where
  "is_terminal out =
     (case out of
        SseData v \<Rightarrow>
          jget v ''error'' \<noteq> None \<or>
          (case jget v ''choices'' of
             Some (JArray [c]) \<Rightarrow> Option.bind (jget c ''finish_reason'') as_str \<noteq> None
           | _ \<Rightarrow> False)
      | _ \<Rightarrow> False)"

lemma is_done_simps [simp]: "is_done SseDone" "\<not> is_done (SseData v)" "\<not> is_done (SseEvent n v)" "\<not> is_done (Raw l)"
  by (simp_all add: is_done_def)

lemma is_terminal_simps [simp]:
  "\<not> is_terminal SseDone" "is_terminal (error_chunk m)"
  "is_terminal (cs_chat_chunk d r s) \<longleftrightarrow> r \<noteq> None" "\<not> is_terminal (cs_usage_chunk u s)"
  by (simp_all add: is_terminal_def error_chunk_def cs_chat_chunk_def cs_usage_chunk_def chat_chunk_object_def
      finish_value_def split: option.split)

lemma chat_pieces_not_done [simp]:
  "\<not> is_done (cs_chat_chunk d r s)" "\<not> is_done (cs_usage_chunk u s)" "\<not> is_done (error_chunk m)"
  "\<not> is_done (ms_chat_chunk d r t)" "\<not> is_done (ms_usage_chunk t)"
  by (simp_all add: cs_chat_chunk_def cs_usage_chunk_def error_chunk_def ms_chat_chunk_def ms_usage_chunk_def)

text \<open>The flags of the state are raised by the closing steps only.\<close>

abbreviation cs_flags :: "chat_sse \<Rightarrow> bool \<times> bool" where
  "cs_flags s \<equiv> (cs_done_sent s, cs_completed s)"

lemma cs_flags_metadata [simp]:
  "cs_done_sent (set_response_metadata r s) = cs_done_sent s" "cs_completed (set_response_metadata r s) = cs_completed s"
  "cs_done_sent (set_event_metadata e s) = cs_done_sent s" "cs_completed (set_event_metadata e s) = cs_completed s"
  "cs_done_sent (fst (apply_data_prologue s v)) = cs_done_sent s"
  "cs_completed (fst (apply_data_prologue s v)) = cs_completed s"
  by (simp_all add: set_event_metadata_def set_response_metadata_def apply_data_prologue_def Let_def
      split: option.split)

text \<open>A step that leaves both flags alone and emits nothing marked.\<close>

definition cs_quiet :: "chat_sse \<Rightarrow> chat_sse \<times> sse_out list \<Rightarrow> bool" where
  "cs_quiet s r \<longleftrightarrow>
     cs_flags (fst r) = cs_flags s \<and> filter is_done (snd r) = [] \<and> filter is_terminal (snd r) = []"

lemma cs_quiet_refl [simp]: "cs_quiet s (s, [])"
  by (simp add: cs_quiet_def)

lemma cs_quiet_then:
  assumes "cs_quiet s r" and "\<And>s'. cs_quiet s' (f s')"
  shows "cs_quiet s (then_out r f)"
  using assms(1) assms(2) [of "fst r"] by (simp add: cs_quiet_def)

lemma cs_quiet_fold: "(\<And>s' x. cs_quiet s' (f s' x)) \<Longrightarrow> cs_quiet s (fold_out f xs s)"
  by (induction xs arbitrary: s) (auto intro: cs_quiet_then)

lemma cs_quiet_change: "cs_flags s' = cs_flags s \<Longrightarrow> cs_quiet s' r \<Longrightarrow> cs_quiet s r"
  by (simp add: cs_quiet_def)

lemma cs_quiet_once:
  "cs_quiet s r \<Longrightarrow> once_step is_done cs_done_sent s r \<and> once_step is_terminal cs_completed s r"
  by (simp add: cs_quiet_def once_step_def)

lemma cs_quiet_basic:
  "cs_quiet s (cs_emit_text text s)" "cs_quiet s (cs_announce index s)" "cs_quiet s (cs_emit_arguments index a s)"
  by (simp_all add: cs_quiet_def cs_emit_text_def cs_announce_def cs_emit_arguments_def Let_def
      split: option.split bool.split)

lemma cs_quiet_set_calls:
  "cs_quiet s (then_out (cs_announce index (s\<lparr>cs_tool_calls := t\<rparr>)) (cs_emit_arguments index a))"
  by (rule cs_quiet_change [where s' = "s\<lparr>cs_tool_calls := t\<rparr>"])
    (simp_all add: cs_quiet_then cs_quiet_basic del: fst_then_out snd_then_out)

lemma cs_quiet_events:
  "cs_quiet s (process_text_delta e s)" "cs_quiet s (process_function_arguments_delta e s)"
  "cs_quiet s (process_function_item e i d s)" "cs_quiet s (process_output_item e d s)"
  "cs_quiet s (emit_completed_call s ic)" "cs_quiet s (emit_completed_output_if_needed r s)"
proof -
  show item: "cs_quiet s (process_function_item e i d s)" for s
    unfolding process_function_item_def Let_def by (rule cs_quiet_set_calls)
  show call: "cs_quiet s (emit_completed_call s ic)" for s ic
    unfolding emit_completed_call_def Let_def split_beta by (rule cs_quiet_set_calls)
  show "cs_quiet s (process_text_delta e s)"
    by (simp add: process_text_delta_def cs_quiet_basic split: option.split)
  show "cs_quiet s (process_function_arguments_delta e s)"
    unfolding process_function_arguments_delta_def Let_def by (rule cs_quiet_set_calls)
  show "cs_quiet s (process_output_item e d s)"
    unfolding process_output_item_def Let_def process_function_item_def
    by (simp add: cs_quiet_basic cs_quiet_set_calls split: option.split)
  show "cs_quiet s (emit_completed_output_if_needed r s)"
    unfolding emit_completed_output_if_needed_def Let_def split_beta
    by (simp add: cs_quiet_then cs_quiet_basic cs_quiet_fold call split: option.split
        del: fst_then_out snd_then_out)
qed

lemma cs_closing_once:
  "once_step is_done cs_done_sent s (cs_finish_response r s)"
  "once_step is_terminal cs_completed s (cs_finish_response r s)"
  "once_step is_done cs_done_sent s (cs_fail_response r s)"
  "once_step is_terminal cs_completed s (cs_fail_response r s)"
  "once_step is_done cs_done_sent s (cs_done_event s)"
  "once_step is_terminal cs_completed s (cs_done_event s)"
  by (simp_all add: once_step_def cs_finish_response_def cs_fail_response_def cs_done_event_def Let_def
      split: option.split)

lemma cs_end_once:
  "once_step is_done cs_done_sent s (cs_end s)" "once_step is_terminal cs_completed s (cs_end s)"
  "cs_done_sent (fst (cs_end s))" "cs_completed (fst (cs_end s))"
  by (simp_all add: cs_end_def once_step_def cs_finish_response_def cs_done_event_def Let_def)

lemma process_response_event_once:
  "once_step is_done cs_done_sent s (process_response_event e s) \<and>
   once_step is_terminal cs_completed s (process_response_event e s)"
proof -
  let ?s = "set_event_metadata e s"
  have "once_step is_done cs_done_sent ?s (process_response_event e s) \<and>
      once_step is_terminal cs_completed ?s (process_response_event e s)"
    unfolding process_response_event_def Let_def
    using cs_quiet_once [OF cs_quiet_events(1)] cs_quiet_once [OF cs_quiet_events(2)]
      cs_quiet_once [OF cs_quiet_events(4)] cs_quiet_once [OF cs_quiet_events(6)] cs_closing_once(1-4)
    by (simp add: once_step_then del: fst_then_out snd_then_out)
  then show ?thesis by (simp add: once_step_def)
qed

lemma chat_handle_once:
  "once_step is_done cs_done_sent s (chat_handle_frame s f) \<and>
   once_step is_terminal cs_completed s (chat_handle_frame s f)"
proof (cases f)
  case (FData v l line)
  then show ?thesis
    using process_response_event_once [of "fst (apply_data_prologue s v)"]
    by (simp add: chat_handle_data_def split_beta once_step_def)
next
  case (FDone line)
  then show ?thesis using cs_end_once(1,2) [of "s\<lparr>sc_pending_event_name := None\<rparr>"] by (simp add: once_step_def)
qed (simp_all add: once_step_def note_event_def)

interpretation chat_done: closes_once chat_handle_frame is_done cs_done_sent cs_end
  by unfold_locales (simp_all add: chat_handle_once cs_end_once)

interpretation chat_terminal: closes_once chat_handle_frame is_terminal cs_completed cs_end
  by unfold_locales (simp_all add: chat_handle_once cs_end_once)

section \<open>Chat streams of a Messages backend\<close>

lemma ms_done_neutral [simp]:
  "ms_done_sent (observe_usage e s) = ms_done_sent s" "ms_done_sent (set_message_metadata e s) = ms_done_sent s"
  "ms_done_sent (process_message_delta e s) = ms_done_sent s"
  by (simp_all add: observe_usage_def set_message_metadata_def process_message_delta_def Let_def split: option.split)

lemma ms_announce_once: "once_step is_done ms_done_sent s (ms_announce index s)"
  by (simp add: once_step_def ms_announce_def Let_def split: option.split bool.split)

lemma ms_events_once:
  "once_step is_done ms_done_sent s (process_content_block_start e s)"
  "once_step is_done ms_done_sent s (process_content_block_delta e s)"
  "once_step is_done ms_done_sent s (ms_finish_response s)" "once_step is_done ms_done_sent s (error_frame e s)"
  "once_step is_done ms_done_sent s (ms_end s)" "ms_done_sent (fst (ms_end s))"
proof -
  have announce: "once_step is_done ms_done_sent s (ms_announce index (s\<lparr>ms_tool_calls := t\<rparr>))" for index t
    using ms_announce_once [of "s\<lparr>ms_tool_calls := t\<rparr>"] by (simp add: once_step_def)
  show "once_step is_done ms_done_sent s (process_content_block_start e s)"
    by (simp add: process_content_block_start_def Let_def announce split: option.split)
  have "once_step is_done ms_done_sent s (ms_emit_arguments index a s)" for index a
    unfolding ms_emit_arguments_def Let_def by (intro once_step_then announce) (simp add: once_step_def)
  moreover have "once_step is_done ms_done_sent s (ms_emit_text x s)" for x
    by (simp add: once_step_def ms_emit_text_def Let_def)
  ultimately show "once_step is_done ms_done_sent s (process_content_block_delta e s)"
    by (simp add: process_content_block_delta_def Let_def split: option.split)
qed (simp_all add: once_step_def ms_finish_response_def error_frame_def ms_end_def ms_done_event_def Let_def)

lemma messages_handle_once: "once_step is_done ms_done_sent s (messages_handle_frame s f)"
proof (cases f)
  case (FData v l line)
  let ?e = "rewrite_bound rewrite_anthropic_messages_response_body_value (sc_backend_model s) (sc_public_model s) v"
  let ?s = "observe_usage ?e (set_message_metadata ?e s)"
  have "once_step is_done ms_done_sent ?s (process_event ?e ?s)"
    by (simp add: process_event_def Let_def ms_events_once) (simp add: once_step_def)
  then show ?thesis using FData by (simp add: messages_handle_data_def Let_def once_step_def)
next
  case (FDone line)
  then show ?thesis using ms_events_once(5) [of "s\<lparr>sc_pending_event_name := None\<rparr>"] by (simp add: once_step_def)
qed (simp_all add: once_step_def note_event_def)

interpretation messages_done: closes_once messages_handle_frame is_done ms_done_sent ms_end
  by unfold_locales (simp_all add: messages_handle_once ms_events_once)


end
