(* ===== verification/Sse_Responses_Correct.thy ===== *)
theory Sse_Responses_Correct
  imports Sse_Protocol
begin

text \<open>
  The stream of a Responses client over a chat backend: it is started at most once and completed exactly
  once, and what the closing events report is the concatenation of the deltas emitted before them, for
  the text and for the arguments of every tool call.
\<close>

section \<open>Reading the events\<close>

definition is_event :: "string \<Rightarrow> sse_out \<Rightarrow> bool" where
  "is_event name out = (case out of SseEvent n v \<Rightarrow> n = name | _ \<Rightarrow> False)"

fun event_value :: "sse_out \<Rightarrow> json" where
  "event_value (SseEvent n v) = v"
| "event_value _ = JNull"

definition text_delta_of :: "sse_out \<Rightarrow> string" where
  "text_delta_of out =
     (if is_event ''response.output_text.delta'' out then str_or [] (get_str (event_value out) ''delta'') else [])"

definition text_report :: "sse_out \<Rightarrow> string option" where
  "text_report out =
     (if is_event ''response.output_text.done'' out then get_str (event_value out) ''text''
      else if is_event ''response.completed'' out then
        Option.bind (jget (event_value out) ''response'') (\<lambda>r. get_str r ''output_text'')
      else None)"

definition at_index :: "u64 \<Rightarrow> sse_out \<Rightarrow> bool" where
  "at_index i out \<longleftrightarrow> jget (event_value out) ''output_index'' = Some (jnat i)"

definition args_delta_of :: "u64 \<Rightarrow> sse_out \<Rightarrow> string" where
  "args_delta_of i out =
     (if is_event ''response.function_call_arguments.delta'' out \<and> at_index i out
      then str_or [] (get_str (event_value out) ''delta'') else [])"

definition args_report :: "u64 \<Rightarrow> sse_out \<Rightarrow> string option" where
  "args_report i out =
     (if is_event ''response.function_call_arguments.done'' out \<and> at_index i out
      then get_str (event_value out) ''arguments'' else None)"

lemmas reading_defs = text_delta_of_def text_report_def args_delta_of_def args_report_def at_index_def

lemma is_event_simps [simp]:
  "is_event name (response_event n kvs) \<longleftrightarrow> n = name" "\<not> is_event name (Raw line)"
  "event_value (response_event n kvs) = jobj ((''type'', JString n) # kvs)"
  by (auto simp: is_event_def response_event_def)

lemma jnat_eq [simp]: "jnat a = jnat b \<longleftrightarrow> a = b"
  by (simp add: jnat_def)

section \<open>Steps\<close>

definition rs_args :: "u64 \<Rightarrow> responses_sse \<Rightarrow> string" where
  "rs_args i s = st_arguments (tool_entry (rs_tool_calls s) i)"

definition rs_ok :: "responses_sse \<Rightarrow> bool" where
  "rs_ok s = bt_wf (rs_tool_calls s)"

definition rs_step :: "responses_sse \<Rightarrow> responses_sse \<times> sse_out list \<Rightarrow> bool" where
  "rs_step s p \<longleftrightarrow>
     once_step (is_event ''response.created'') rs_response_started s p \<and>
     once_step (is_event ''response.completed'') rs_completed s p \<and>
     acc_step text_delta_of text_report rs_output_text rs_ok s p \<and>
     (\<forall>i. acc_step (args_delta_of i) (args_report i) (rs_args i) rs_ok s p)"

lemma rs_step_refl [simp]: "rs_step s (s, [])"
  by (simp add: rs_step_def)

lemma rs_step_then: "rs_step s p \<Longrightarrow> (\<And>s'. rs_step s' (f s')) \<Longrightarrow> rs_step s (then_out p f)"
  by (simp add: rs_step_def once_step_then acc_step_then del: fst_then_out snd_then_out)

lemma rs_step_fold: "(\<And>s' x. rs_step s' (f s' x)) \<Longrightarrow> rs_step s (fold_out f xs s)"
  by (simp add: rs_step_def once_step_fold acc_step_fold)

text \<open>The fields the contract is about; the others may change freely.\<close>

definition rs_core :: "responses_sse \<Rightarrow> string \<times> tool_calls \<times> bool \<times> bool" where
  "rs_core s = (rs_output_text s, rs_tool_calls s, rs_response_started s, rs_completed s)"

lemma rs_step_change: "rs_core s' = rs_core s \<Longrightarrow> rs_step s' p \<Longrightarrow> rs_step s p"
  by (simp add: rs_step_def rs_core_def once_step_def acc_step_def rs_args_def rs_ok_def)

text \<open>Pieces that carry none of the events the contract is about.\<close>

definition plain :: "sse_out \<Rightarrow> bool" where
  "plain x \<longleftrightarrow> \<not> is_event ''response.created'' x \<and> \<not> is_event ''response.completed'' x \<and>
     \<not> is_event ''response.output_text.delta'' x \<and> \<not> is_event ''response.output_text.done'' x \<and>
     \<not> is_event ''response.function_call_arguments.delta'' x \<and> \<not> is_event ''response.function_call_arguments.done'' x"

lemma plain_step: "rs_core s' = rs_core s \<Longrightarrow> list_all plain xs \<Longrightarrow> rs_step s (s', xs)"
proof (induction xs)
  case Nil
  then show ?case
    by (simp add: rs_step_def rs_core_def once_step_def acc_step_def rs_args_def rs_ok_def)
next
  case (Cons x xs)
  then show ?case
    by (simp add: rs_step_def plain_def once_step_def acc_step_def reading_defs)
qed

lemma start_response_step: "rs_step s (start_response_events s)"
  by (simp add: start_response_events_def rs_step_def once_step_def acc_step_def reading_defs rs_ok_def rs_args_def
      Let_def)

lemma start_text_step: "rs_step s (start_text_events s)"
  by (simp add: start_text_events_def Let_def plain_step plain_def rs_core_def)

lemma process_text_step: "rs_step s (process_text content s)"
proof -
  have "rs_step s (let s = s\<lparr>rs_output_text := rs_output_text s @ t\<rparr> in (s, [text_delta s t]))" for s t
    by (simp add: Let_def rs_step_def once_step_def acc_step_def text_delta_def reading_defs rs_ok_def rs_args_def
        get_str_def str_or_def)
  then show ?thesis
    by (simp add: process_text_def rs_step_then start_text_step split: option.split del: fst_then_out snd_then_out)
qed

section \<open>Tool calls\<close>

text \<open>One delta of one call: its emitted pieces carry exactly the arguments it appends.\<close>

lemma tool_call_delta_pieces:
  "\<exists>a pre. snd (tool_call_delta index tc t) = pre @ a \<and> list_all plain pre \<and>
     (a = [] \<and> st_arguments (fst (tool_call_delta index tc t)) = st_arguments t \<or>
      (\<exists>c x. a = [arguments_delta index c x] \<and>
         st_arguments (fst (tool_call_delta index tc t)) = st_arguments t @ x))"
proof -
  have an: "list_all plain (snd (announce_call index t'))" "st_arguments (fst (announce_call index t')) = st_arguments t'"
    for t' by (simp_all add: announce_call_def plain_def tool_call_added_def split: option.split)
  have ap: "snd (append_arguments index x t') = [] \<and> st_arguments (fst (append_arguments index x t')) = st_arguments t' \<or>
      (\<exists>c y. snd (append_arguments index x t') = [arguments_delta index c y] \<and>
        st_arguments (fst (append_arguments index x t')) = st_arguments t' @ y)" for x t'
    by (auto simp: append_arguments_def Let_def split: option.split)
  show ?thesis
  proof (cases "Option.bind (jget tc ''function'') as_object")
    case None
    then show ?thesis by (simp add: tool_call_delta_def)
  next
    case (Some fn)
    let ?t = "t\<lparr>st_call_id := keep_first (st_call_id t) (get_str tc ''id'')\<rparr>"
    let ?t1 = "(case obj_str fn ''name'' of Some name \<Rightarrow> ?t\<lparr>st_name := Some name\<rparr> | None \<Rightarrow> ?t)"
    let ?t2 = "(if st_call_id ?t1 = None \<and> st_name ?t1 \<noteq> None
        then ?t1\<lparr>st_call_id := Some (''call_'' @ show_u64 index)\<rparr> else ?t1)"
    let ?p = "announce_call index ?t2"
    have "tool_call_delta index tc t = then_out ?p (append_arguments index (obj_str fn ''arguments''))"
      using Some by (simp add: tool_call_delta_def Let_def)
    moreover have "st_arguments ?t2 = st_arguments t" by (simp split: option.split)
    ultimately show ?thesis
      using an [of ?t2] ap [of "obj_str fn ''arguments''" "fst ?p"]
      by (intro exI [of _ "snd (append_arguments index (obj_str fn ''arguments'') (fst ?p))"] exI [of _ "snd ?p"]) simp
  qed
qed

lemma rs_args_insert:
  "rs_args i (s\<lparr>rs_tool_calls := bt_insert index t (rs_tool_calls s)\<rparr>) =
     (if i = index then st_arguments t else rs_args i s)"
  by (simp add: rs_args_def tool_entry_def bt_get_insert)

lemma set_call_step:
  assumes "st_arguments t = st_arguments (tool_entry (rs_tool_calls s) index)" and "list_all plain xs"
  shows "rs_step s (s\<lparr>rs_tool_calls := bt_insert index t (rs_tool_calls s)\<rparr>, xs)"
proof -
  let ?s = "s\<lparr>rs_tool_calls := bt_insert index t (rs_tool_calls s)\<rparr>"
  have "rs_step s (?s, [])"
    using assms(1)
    by (simp add: rs_step_def once_step_def acc_step_def rs_args_insert rs_ok_def bt_wf_insert) (simp add: rs_args_def)
  from rs_step_then [OF this, of "\<lambda>s. (s, xs)"] show ?thesis
    using assms(2) by (simp add: plain_step)
qed

lemma process_tool_call_step: "rs_step s (process_tool_call_delta s tc)"
proof -
  let ?index = "call_index tc ''index'' (rs_tool_calls s)"
  let ?t = "tool_entry (rs_tool_calls s) ?index"
  let ?p = "tool_call_delta ?index tc ?t"
  let ?s = "s\<lparr>rs_tool_calls := bt_insert ?index (fst ?p) (rs_tool_calls s)\<rparr>"
  have step: "process_tool_call_delta s tc = (?s, snd ?p)"
    by (simp add: process_tool_call_delta_def Let_def split_beta)
  obtain a pre where p: "snd ?p = pre @ a" "list_all plain pre"
    and a: "a = [] \<and> st_arguments (fst ?p) = st_arguments ?t \<or>
      (\<exists>c x. a = [arguments_delta ?index c x] \<and> st_arguments (fst ?p) = st_arguments ?t @ x)"
    using tool_call_delta_pieces [of ?index tc ?t] by blast
  from a show ?thesis
  proof
    assume "a = [] \<and> st_arguments (fst ?p) = st_arguments ?t"
    then show ?thesis using p step set_call_step by simp
  next
    assume "\<exists>c x. a = [arguments_delta ?index c x] \<and> st_arguments (fst ?p) = st_arguments ?t @ x"
    then obtain c x where ax: "a = [arguments_delta ?index c x]" "st_arguments (fst ?p) = st_arguments ?t @ x" by blast
    have "rs_step s' (s'\<lparr>rs_tool_calls := bt_insert ?index (fst ?p) (rs_tool_calls s)\<rparr>, a)" if "s' = s" for s'
      using ax that
      by (simp add: rs_step_def once_step_def acc_step_def rs_args_insert arguments_delta_def reading_defs rs_ok_def
          bt_wf_insert get_str_def str_or_def) (simp add: rs_args_def)
    then have "rs_step s (?s, a)" by simp
    moreover have "rs_step s (s, pre)" by (rule plain_step [OF refl p(2)])
    ultimately show ?thesis
      unfolding step p(1) by (simp add: rs_step_def once_step_def acc_step_def consistent_append)
  qed
qed

section \<open>Completion\<close>

lemma consistent_reports:
  "\<forall>x \<in> set xs. d x = [] \<and> r x \<in> {None, Some t} \<Longrightarrow> consistent d r t xs \<and> deltas d xs = []"
  by (induction xs) simp_all

lemma rs_step_append: "rs_step s (s1, xs) \<Longrightarrow> rs_step s1 (s2, ys) \<Longrightarrow> rs_step s (s2, xs @ ys)"
  unfolding rs_step_def by (blast intro: once_step_append acc_step_append)

lemma text_done_step: "rs_step s (s, snd (text_done_events s))"
  by (simp add: text_done_events_def Let_def rs_step_def once_step_def acc_step_def reading_defs get_str_def)

lemma call_done_reports:
  assumes "bt_wf tcs" and "x \<in> set (concat (map call_done_events tcs))"
  shows "args_delta_of i x = [] \<and> args_report i x \<in> {None, Some (st_arguments (tool_entry tcs i))} \<and>
    text_delta_of x = [] \<and> text_report x = None \<and> \<not> is_event ''response.created'' x \<and> \<not> is_event ''response.completed'' x"
proof -
  obtain j t where "(j, t) \<in> set tcs" and x: "x \<in> set (call_done_events (j, t))" using assms(2) by auto
  then have "tool_entry tcs j = t" using assms(1) by (simp add: tool_entry_def bt_get_mem)
  then show ?thesis
    using x by (auto simp: call_done_events_def Let_def reading_defs get_str_def)
qed

lemma call_done_step:
  "rs_step s (s, concat (map call_done_events (rs_tool_calls s)))"
proof -
  let ?xs = "concat (map call_done_events (rs_tool_calls s))"
  have names: "filter (is_event ''response.created'') ?xs = [] \<and> filter (is_event ''response.completed'') ?xs = []"
    by (auto simp: call_done_events_def Let_def filter_empty_conv)
  have "consistent text_delta_of text_report (rs_output_text s) ?xs \<and> deltas text_delta_of ?xs = []" if "rs_ok s"
    by (rule consistent_reports) (use that call_done_reports in \<open>auto simp: rs_ok_def\<close>)
  moreover have "consistent (args_delta_of i) (args_report i) (rs_args i s) ?xs \<and> deltas (args_delta_of i) ?xs = []"
    if "rs_ok s" for i
    by (rule consistent_reports) (use that call_done_reports [of "rs_tool_calls s"] in \<open>simp add: rs_ok_def rs_args_def\<close>)
  ultimately show ?thesis using names by (simp add: rs_step_def once_step_def acc_step_def)
qed

lemma completed_step:
  "\<not> rs_completed s \<Longrightarrow> s' = s\<lparr>rs_completed := True\<rparr> \<Longrightarrow>
     rs_step s (s', [response_event ''response.completed'' [(''response'', response_object s' status items)]])"
  by (simp add: rs_step_def once_step_def acc_step_def reading_defs rs_ok_def rs_args_def get_str_def
      response_object_def Let_def)

lemma finish_response_step: "rs_step s (finish_response s)"
proof (cases "rs_completed s")
  case True
  then show ?thesis by (simp add: finish_response_def)
next
  case False
  let ?s = "s\<lparr>rs_completed := True\<rparr>"
  have "text_done_events ?s = text_done_events s"
    by (simp add: text_done_events_def rs_message_id_str_def rs_response_id_str_def)
  then have "finish_response s = (?s, snd (text_done_events s) @ concat (map call_done_events (rs_tool_calls s))
      @ [response_event ''response.completed''
          [(''response'', response_object ?s ''completed'' (fst (text_done_events s) @ map call_item (rs_tool_calls s)))]])"
    using False by (simp add: finish_response_def Let_def split_beta)
  then show ?thesis
    using rs_step_append [OF text_done_step rs_step_append [OF call_done_step completed_step [OF False refl]]] by simp
qed

lemma process_choice_step: "rs_step s (process_choice s choice)"
proof -
  have calls: "rs_step s' (case Option.bind (bt_get d ''tool_calls'') as_array of
      Some tcs \<Rightarrow> process_tool_call_deltas tcs s' | None \<Rightarrow> (s', []))" for s' d
    by (simp add: process_tool_call_deltas_def rs_step_fold process_tool_call_step split: option.split)
  show ?thesis
    unfolding process_choice_def
    by (rule rs_step_then)
      (simp_all add: rs_step_then process_text_step calls finish_response_step split: option.split
        del: fst_then_out snd_then_out)
qed

lemma metadata_core [simp]:
  "rs_core (set_chunk_metadata v s) = rs_core s" "rs_core (fst (apply_data_prologue s v)) = rs_core s"
  "rs_core (note_event n s) = rs_core s" "rs_core (s\<lparr>sc_pending_event_name := e\<rparr>) = rs_core s"
  by (simp_all add: rs_core_def set_chunk_metadata_def apply_data_prologue_def note_event_def Let_def)

lemma process_chat_chunk_step: "rs_step s (process_chat_chunk v s)"
proof -
  have "rs_step (set_chunk_metadata v s) (process_chat_chunk v s)"
    unfolding process_chat_chunk_def
    by (rule rs_step_then)
      (simp_all add: start_response_step rs_step_fold process_choice_step split: option.split)
  then show ?thesis by (rule rs_step_change [rotated]) simp
qed

lemma responses_handle_step: "rs_step s (responses_handle_frame s f)"
proof (cases f)
  case (FData v l line)
  have "rs_step (fst (apply_data_prologue s v)) (responses_handle_data s v)"
    by (simp add: responses_handle_data_def split_beta process_chat_chunk_step)
  then show ?thesis using FData by (auto intro: rs_step_change [rotated])
next
  case (FDone line)
  let ?s = "s\<lparr>sc_pending_event_name := None\<rparr>"
  have "rs_step ?s (then_out (finish_response ?s) (\<lambda>s. (s, [Raw line])))"
    by (rule rs_step_then [OF finish_response_step]) (simp add: plain_step plain_def)
  then show ?thesis using FDone by (auto intro: rs_step_change [rotated] simp del: then_out_pair)
qed (simp_all add: plain_step plain_def)

interpretation rs_created: marks_once responses_handle_frame "is_event ''response.created''" rs_response_started
  by unfold_locales (use responses_handle_step in \<open>simp add: rs_step_def\<close>)

interpretation rs_closing: closes_once responses_handle_frame "is_event ''response.completed''" rs_completed finish_response
  by unfold_locales
    (use responses_handle_step finish_response_step in \<open>simp_all add: rs_step_def\<close>, simp add: finish_response_def Let_def split_beta)

interpretation rs_text: accumulates responses_handle_frame finish_response text_delta_of text_report rs_output_text rs_ok
  by unfold_locales (use responses_handle_step finish_response_step in \<open>simp_all add: rs_step_def\<close>)

interpretation rs_arguments: accumulates responses_handle_frame finish_response "args_delta_of i" "args_report i"
    "rs_args i" rs_ok for i
  by unfold_locales (use responses_handle_step finish_response_step in \<open>simp_all add: rs_step_def\<close>)


end
