(* ===== verification/Streaming.thy ===== *)
theory Streaming
  imports Sse_Responses_Correct
begin

text \<open>
  The body readers of \<open>onair-proxy/src/proxy/upstream.rs\<close> and the streaming loop of
  \<open>onair-proxy/src/proxy/response.rs\<close>.  The body of an upstream response is the list of what its chunk
  stream yields: a chunk, a transport error, or the shutdown signal; the end of the list is the end of
  the body.  Clocks and stream captures are added by \<open>Stream_Session\<close>, log lines by \<open>Request_Session\<close>.
\<close>

section \<open>Transport errors\<close>

text \<open>The classification predicates of \<open>reqwest::Error\<close>.\<close>

record http_error =
  is_timeout :: bool
  is_connect :: bool
  is_request :: bool
  is_body :: bool
  is_decode :: bool
  is_redirect :: bool

definition upstream_error_kind :: "http_error \<Rightarrow> string" where
  "upstream_error_kind e =
     (if is_timeout e then ''timeout''
      else if is_connect e then ''connect''
      else if is_request e then ''request''
      else if is_body e then ''body''
      else if is_decode e then ''decode''
      else if is_redirect e then ''redirect''
      else ''unknown'')"

definition retryable_send_error :: "http_error \<Rightarrow> bool" where
  "retryable_send_error e \<longleftrightarrow>
     is_connect e \<or> (is_request e \<and> \<not> is_body e \<and> \<not> is_decode e \<and> \<not> is_redirect e)"

section \<open>Reading a body\<close>

datatype body_event = BChunk string | BError http_error | BShutdown

datatype body_read_error = ReadUpstream http_error | ReadShutdown

fun read_buffered_upstream_body :: "string \<Rightarrow> body_event list \<Rightarrow> body_read_error + string" where
  "read_buffered_upstream_body bytes [] = Inr bytes"
| "read_buffered_upstream_body bytes (BChunk c # es) = read_buffered_upstream_body (bytes @ c) es"
| "read_buffered_upstream_body bytes (BError e # es) = Inl (ReadUpstream e)"
| "read_buffered_upstream_body bytes (BShutdown # es) = Inl ReadShutdown"

definition MAX_UPSTREAM_ERROR_CAPTURE_BYTES :: nat where
  "MAX_UPSTREAM_ERROR_CAPTURE_BYTES = 1024 * 1024"

text \<open>The bytes and whether they were cut; the cap is an argument so that it can be exercised.\<close>

fun read_capped :: "nat \<Rightarrow> string \<Rightarrow> body_event list \<Rightarrow> body_read_error + string \<times> bool" where
  "read_capped cap bytes [] = Inr (bytes, False)"
| "read_capped cap bytes (BChunk c # es) =
     (let remaining = cap - length bytes
      in if remaining < length c then Inr (bytes @ take remaining c, True)
         else if length (bytes @ c) = cap then Inr (bytes @ c, True)
         else read_capped cap (bytes @ c) es)"
| "read_capped cap bytes (BError e # es) = Inl (ReadUpstream e)"
| "read_capped cap bytes (BShutdown # es) = Inl ReadShutdown"

definition read_capped_upstream_error_body :: "body_event list \<Rightarrow> body_read_error + string \<times> bool" where
  "read_capped_upstream_error_body es = read_capped MAX_UPSTREAM_ERROR_CAPTURE_BYTES [] es"

section \<open>The streaming loop\<close>

record stream_metrics =
  sm_usage :: usage_totals
  sm_usage_diagnostics :: usage_diagnostics
  sm_body_complete :: bool
  sm_stream_error_kind :: "string option"

definition stream_metrics_new :: stream_metrics where
  "stream_metrics_new =
     \<lparr>sm_usage = default_totals, sm_usage_diagnostics = default_diagnostics, sm_body_complete = False,
      sm_stream_error_kind = None\<rparr>"

definition mark_body_complete :: "stream_metrics \<Rightarrow> stream_metrics" where
  "mark_body_complete m = m\<lparr>sm_body_complete := True\<rparr>"

definition mark_stream_error :: "string \<Rightarrow> stream_metrics \<Rightarrow> stream_metrics" where
  "mark_stream_error kind m = m\<lparr>sm_stream_error_kind := Some kind\<rparr>"

definition add_usage :: "usage_totals \<Rightarrow> stream_metrics \<Rightarrow> stream_metrics" where
  "add_usage u m =
     m\<lparr>sm_usage := (sm_usage m)\<lparr>ut_input := ut_input (sm_usage m) + ut_input u,
         ut_cached_input := ut_cached_input (sm_usage m) + ut_cached_input u,
         ut_output := ut_output (sm_usage m) + ut_output u, ut_total := ut_total (sm_usage m) + ut_total u\<rparr>\<rparr>"

definition add_usage_diagnostics :: "usage_diagnostics \<Rightarrow> stream_metrics \<Rightarrow> stream_metrics" where
  "add_usage_diagnostics d m = m\<lparr>sm_usage_diagnostics := merge_diagnostics (sm_usage_diagnostics m) d\<rparr>"

text \<open>Usage is collected whenever bytes go to the client.\<close>

definition collect_stream_usage :: "sse_strategy \<Rightarrow> stream_metrics \<Rightarrow> stream_metrics" where
  "collect_stream_usage st m =
     add_usage_diagnostics (strategy_diagnostics st) (add_usage (strategy_usage st) m)"

record stream_result =
  res_yielded :: "string list"
  res_metrics :: stream_metrics
  res_error :: "http_error option"

text \<open>\<open>None\<close> is a panic of the normalizer; the shutdown signal ends the chunk stream like its end.\<close>

definition stream_tail :: "serde \<Rightarrow> sse_strategy \<Rightarrow> stream_metrics \<Rightarrow> string list \<Rightarrow> stream_result option" where
  "stream_tail sd st m yielded =
     (let m = mark_body_complete m; (st, outs) = strategy_finish sd st
      in map_option (\<lambda>tail.
           if tail = [] then \<lparr>res_yielded = yielded, res_metrics = m, res_error = None\<rparr>
           else \<lparr>res_yielded = yielded @ [tail], res_metrics = collect_stream_usage st m, res_error = None\<rparr>)
         (render_all sd outs))"

fun stream_loop ::
  "serde \<Rightarrow> sse_strategy \<Rightarrow> stream_metrics \<Rightarrow> string list \<Rightarrow> body_event list \<Rightarrow> stream_result option" where
  "stream_loop sd st m yielded [] = stream_tail sd st m yielded"
| "stream_loop sd st m yielded (BShutdown # es) = stream_tail sd st m yielded"
| "stream_loop sd st m yielded (BError e # es) =
     Some \<lparr>res_yielded = yielded, res_metrics = mark_stream_error (upstream_error_kind e) m, res_error = Some e\<rparr>"
| "stream_loop sd st m yielded (BChunk chunk # es) =
     (let (st, outs) = strategy_push sd st chunk
      in Option.bind (render_all sd outs) (\<lambda>normalized.
           if normalized = [] then stream_loop sd st m yielded es
           else stream_loop sd (clear_diagnostics (clear_usage st)) (collect_stream_usage st m)
                  (yielded @ [normalized]) es))"

text \<open>The branch without normalization passes the chunks on.\<close>

fun passthrough_loop :: "stream_metrics \<Rightarrow> string list \<Rightarrow> body_event list \<Rightarrow> stream_result" where
  "passthrough_loop m yielded [] =
     \<lparr>res_yielded = yielded, res_metrics = mark_body_complete m, res_error = None\<rparr>"
| "passthrough_loop m yielded (BShutdown # es) =
     \<lparr>res_yielded = yielded, res_metrics = mark_body_complete m, res_error = None\<rparr>"
| "passthrough_loop m yielded (BError e # es) =
     \<lparr>res_yielded = yielded, res_metrics = mark_stream_error (upstream_error_kind e) m, res_error = Some e\<rparr>"
| "passthrough_loop m yielded (BChunk chunk # es) = passthrough_loop m (yielded @ [chunk]) es"

text \<open>What \<open>Drop\<close> reports when the stream is over, finished or abandoned by the client.\<close>

datatype inspector_outcome =
    InFlight
  | Completed
  | Preflight string
  | UpstreamTimeout
  | UpstreamRequestFailed
  | UpstreamNonSuccess
  | UpstreamBodyReadFailed
  | UpstreamStreamFailed
  | StreamIncomplete
  | Interrupted

definition stream_outcome :: "stream_metrics \<Rightarrow> inspector_outcome" where
  "stream_outcome m =
     (case sm_stream_error_kind m of
        Some _ \<Rightarrow> UpstreamStreamFailed
      | None \<Rightarrow> if sm_body_complete m then Completed else StreamIncomplete)"

datatype health_report = ReportFailure string status_code string | ReportSuccess string status_code

definition stream_health :: "string \<Rightarrow> status_code \<Rightarrow> stream_metrics \<Rightarrow> health_report list" where
  "stream_health backend status m =
     (case sm_stream_error_kind m of
        Some kind \<Rightarrow> [ReportFailure backend status kind]
      | None \<Rightarrow> if sm_body_complete m then [ReportSuccess backend status] else [])"

end
