(* ===== verification/Streaming_Correct.thy ===== *)
theory Streaming_Correct
  imports Streaming
begin

text \<open>
  Correctness of the body readers and of the streaming loop: the capped reader, the bytes a native client
  receives, and how a stream that ends, fails or is abandoned is reported.
\<close>

section \<open>Error bodies\<close>

lemma read_capped_chunks:
  "length bytes < cap \<Longrightarrow>
     read_capped cap bytes (map BChunk cs) =
       Inr (take cap (bytes @ concat cs), cap \<le> length (bytes @ concat cs))"
proof (induction cs arbitrary: bytes)
  case Nil
  then show ?case by simp
next
  case (Cons c cs)
  consider "cap - length bytes < length c" | "length (bytes @ c) = cap" | "length (bytes @ c) < cap"
    using Cons.prems by fastforce
  then show ?case
  proof cases
    case 3
    then have "\<not> cap - length bytes < length c" by simp
    then show ?thesis using 3 Cons.IH [of "bytes @ c"] by (simp add: Let_def)
  qed (use Cons.prems in \<open>auto simp: Let_def\<close>)
qed

text \<open>
  The capture of an error body is bounded and exact.  It is the first mebibyte of what the backend
  sent, and it is marked as truncated exactly when the body has at least that many bytes, so a body that
  may be forwarded to the client is always the complete one.
\<close>

theorem error_body_capture:
  "read_capped_upstream_error_body (map BChunk cs) =
     Inr (take MAX_UPSTREAM_ERROR_CAPTURE_BYTES (concat cs),
          MAX_UPSTREAM_ERROR_CAPTURE_BYTES \<le> length (concat cs))"
  unfolding read_capped_upstream_error_body_def
  using read_capped_chunks [of "[]" MAX_UPSTREAM_ERROR_CAPTURE_BYTES cs]
  by (simp add: MAX_UPSTREAM_ERROR_CAPTURE_BYTES_def)

section \<open>The native stream\<close>

lemma render_all_append:
  "render_all sd (xs @ ys) =
     Option.bind (render_all sd xs) (\<lambda>s. map_option (\<lambda>t. s @ t) (render_all sd ys))"
proof (induction xs)
  case Nil
  then show ?case by (cases "render_all sd ys") simp_all
next
  case (Cons x xs)
  then show ?case
    by (cases "render sd x"; cases "render_all sd xs"; cases "render_all sd ys") simp_all
qed

lemma render_all_total: "\<forall>v. to_vec sd v \<noteq> None \<Longrightarrow> render_all sd xs \<noteq> None"
proof (induction xs)
  case (Cons x xs)
  then have "render sd x \<noteq> None" by (cases x) auto
  then show ?case using Cons by auto
qed simp

lemma frames_of_step:
  "frames_of sd (a @ b) = map (parse_sse_line sd) (fst (drain_lines a)) @ frames_of sd (snd (drain_lines a) @ b)"
  by (simp add: frames_of_def drain_lines_append [of a b] split_beta)

abbreviation native_pieces :: "sse_normalizer \<Rightarrow> sse_frame list \<Rightarrow> sse_out list" where
  "native_pieces s fs \<equiv>
     concat (map (native_piece (sc_backend_model s) (sc_public_model s) (sn_emit_usage_to_client s)) fs)"

lemma native_fold_fields:
  "sc_backend_model (fst (fold_out native_handle_frame fs s)) = sc_backend_model s \<and>
   sc_public_model (fst (fold_out native_handle_frame fs s)) = sc_public_model s \<and>
   sn_emit_usage_to_client (fst (fold_out native_handle_frame fs s)) = sn_emit_usage_to_client s"
  by (induction fs arbitrary: s) (simp_all add: native_handle_frame_piece)

lemma native_tail:
  assumes "CHR 0x0A \<notin> set p" and "\<forall>v. to_vec sd v \<noteq> None"
  shows "\<exists>r. stream_tail sd (SNative (p, s)) m yielded = Some r \<and> res_error r = None \<and>
    sm_body_complete (res_metrics r) \<and> sm_stream_error_kind (res_metrics r) = sm_stream_error_kind m \<and>
    Some (concat (res_yielded r)) =
      map_option (\<lambda>t. concat yielded @ t) (render_all sd (native_pieces s (frames_of sd p)))"
proof -
  have outs: "snd (strategy_finish sd (SNative (p, s))) = native_pieces s (frames_of sd p)"
    using assms(1) drain_lines.simps [of p]
    by (simp add: sse_finish_def parser_finish_def frames_of_def split_beta native_handle_frame_piece)
  obtain tail where "render_all sd (native_pieces s (frames_of sd p)) = Some tail"
    using render_all_total [OF assms(2)] by blast
  then show ?thesis
    using outs
    by (simp add: stream_tail_def split_beta mark_body_complete_def collect_stream_usage_def add_usage_def
        add_usage_diagnostics_def Let_def)
qed

lemma native_loop:
  assumes "\<forall>v. to_vec sd v \<noteq> None" and "CHR 0x0A \<notin> set p"
  shows "\<exists>r. stream_loop sd (SNative (p, s)) m yielded (map BChunk cs) = Some r \<and> res_error r = None \<and>
    sm_body_complete (res_metrics r) \<and> sm_stream_error_kind (res_metrics r) = sm_stream_error_kind m \<and>
    Some (concat (res_yielded r)) =
      map_option (\<lambda>t. concat yielded @ t) (render_all sd (native_pieces s (frames_of sd (p @ concat cs))))"
  using assms(2)
proof (induction cs arbitrary: p s m yielded)
  case Nil
  then show ?case using native_tail [OF _ assms(1)] by simp
next
  case (Cons c cs)
  let ?fs = "map (parse_sse_line sd) (fst (drain_lines (p @ c)))"
  let ?p = "snd (drain_lines (p @ c))"
  let ?s = "fst (fold_out native_handle_frame ?fs s)"
  have push: "strategy_push sd (SNative (p, s)) c = (SNative (?p, ?s), native_pieces s ?fs)"
    by (simp add: sse_push_eq native_fold_pieces)
  obtain n where n: "render_all sd (native_pieces s ?fs) = Some n"
    using render_all_total [OF assms(1)] by blast
  have split: "render_all sd (native_pieces s (frames_of sd (p @ concat (c # cs)))) =
      map_option (\<lambda>t. n @ t) (render_all sd (native_pieces s (frames_of sd (?p @ concat cs))))"
    using frames_of_step [of sd "p @ c" "concat cs"] n by (simp add: render_all_append)
  show ?case
  proof (cases "n = []")
    case True
    then show ?thesis
      using Cons.IH [OF drain_lines_rest, of "p @ c" ?s m yielded] push n split native_fold_fields [of ?fs s]
      by (simp add: option.map_ident)
  next
    case False
    let ?s' = "?s\<lparr>sc_usage := default_totals, sc_diagnostics := default_diagnostics\<rparr>"
    let ?m = "collect_stream_usage (SNative (?p, ?s)) m"
    have "sm_stream_error_kind ?m = sm_stream_error_kind m"
      by (simp add: collect_stream_usage_def add_usage_def add_usage_diagnostics_def)
    then show ?thesis
      using Cons.IH [OF drain_lines_rest, of "p @ c" ?s' ?m "yielded @ [n]"] push n split False
        native_fold_fields [of ?fs s]
      by (simp add: option.map_comp o_def)
  qed
qed


definition example_serde_total :: serde where
  "example_serde_total = \<lparr>from_slice = \<lambda>_. None, to_vec = \<lambda>_. Some [], to_string = \<lambda>_. []\<rparr>"


section \<open>Counters that are reset too early\<close>

definition usage_prompt :: "sse_out \<Rightarrow> json option" where
  "usage_prompt out =
     (case out of SseData v \<Rightarrow> Option.bind (jget v ''usage'') (\<lambda>u. jget u ''prompt_tokens'') | _ \<Rightarrow> None)"

definition message_start_event :: json where
  "message_start_event = JObject [(''message'', JObject [(''usage'', JObject [(''input_tokens'', jnat 5)])]),
     (''type'', JString ''message_start'')]"

definition message_delta_event :: json where
  "message_delta_event = JObject [(''type'', JString ''message_delta''),
     (''usage'', JObject [(''output_tokens'', jnat 9)])]"

definition message_stop_event :: json where
  "message_stop_event = JObject [(''type'', JString ''message_stop'')]"

lemma observe_start:
  "observe_usage message_start_event s =
     s\<lparr>sc_diagnostics := observe_object [(''input_tokens'', jnat 5)] (sc_diagnostics s),
       sc_usage := (sc_usage s)\<lparr>ut_input := 5, ut_total := 5 + ut_output (sc_usage s)\<rparr>\<rparr>"
  by (simp add: observe_usage_def message_start_event_def first_some_def bt_get_def number_field_def jnat_def)

lemma observe_delta:
  "observe_usage message_delta_event s =
     s\<lparr>sc_diagnostics := observe_object [(''output_tokens'', jnat 9)] (sc_diagnostics s),
       sc_usage := (sc_usage s)\<lparr>ut_output := 9, ut_total := ut_input (sc_usage s) + 9\<rparr>\<rparr>"
  by (simp add: observe_usage_def message_delta_event_def first_some_def bt_get_def number_field_def jnat_def)

lemmas example_events = message_start_event_def message_delta_event_def message_stop_event_def

lemma example_types [simp]:
  "get_str message_start_event ''type'' = Some ''message_start''"
  "get_str message_delta_event ''type'' = Some ''message_delta''"
  "get_str message_stop_event ''type'' = Some ''message_stop''"
  by (simp_all add: example_events get_str_def bt_get_def)

lemma example_metadata [simp]:
  assumes "sc_backend_model s = None"
  shows "set_message_metadata message_start_event s = s" "set_message_metadata message_delta_event s = s"
    "set_message_metadata message_stop_event s = s"
  using assms by (simp_all add: set_message_metadata_def example_events keep_first_def bt_get_def get_str_def Let_def
      split: option.split)

lemma example_steps:
  assumes "sc_backend_model s = None"
  shows "messages_handle_data s message_start_event = (observe_usage message_start_event s, [])"
    "messages_handle_data s message_delta_event = (observe_usage message_delta_event s, [])"
    "messages_handle_data s message_stop_event = ms_finish_response s"
proof -
  have "observe_usage message_stop_event s = s"
    by (simp add: observe_usage_def message_stop_event_def bt_get_def first_some_def)
  then show "messages_handle_data s message_stop_event = ms_finish_response s"
    using assms by (simp add: messages_handle_data_def rewrite_bound_def process_event_def)
  have "process_message_delta message_delta_event s' = s'" for s'
    by (simp add: process_message_delta_def message_delta_event_def bt_get_def)
  then show "messages_handle_data s message_delta_event = (observe_usage message_delta_event s, [])"
    using assms by (simp add: messages_handle_data_def rewrite_bound_def process_event_def)
qed (use assms in \<open>simp add: messages_handle_data_def rewrite_bound_def process_event_def\<close>)

lemma usage_prompt_pieces [simp]:
  "usage_prompt (ms_chat_chunk d r s) = None" "usage_prompt (ms_usage_chunk s) = Some (jnat (ut_input (sc_usage s)))"
  "usage_prompt SseDone = None"
  by (simp_all add: usage_prompt_def ms_chat_chunk_def ms_usage_chunk_def chat_chunk_object_def)

lemma finish_usage_prompt:
  assumes "\<not> ms_completed s" and "ms_emit_usage_to_client s" and "0 < ud_usage_object_count (sc_diagnostics s)"
  shows "List.map_filter usage_prompt (snd (ms_finish_response s)) = [jnat (ut_input (sc_usage s))]"
  using assms by (simp add: ms_finish_response_def ms_done_event_def Let_def List.map_filter_simps)

text \<open>The prompt tokens the client is told when the stream ends after the given state.\<close>

definition closing_prompt_tokens :: "messages_sse \<Rightarrow> json list" where
  "closing_prompt_tokens s =
     List.map_filter usage_prompt (snd (fold_out messages_handle_frame
       [FData message_delta_event True [], FData message_stop_event True []] s))"

lemma closing_prompt_tokens_eq:
  assumes "sc_backend_model s = None" "\<not> ms_completed s" "ms_emit_usage_to_client s"
    and "0 < ud_usage_object_count (sc_diagnostics s) + 1"
  shows "closing_prompt_tokens s = [jnat (ut_input (sc_usage s))]"
  using assms finish_usage_prompt [of "observe_usage message_delta_event s"]
  by (simp add: closing_prompt_tokens_def example_steps observe_delta observe_object_def)

text \<open>
  The usage a chat client of a Messages backend sees depends on the chunking.  The input tokens come
  with the first event and the last chunk reports them, unless the proxy has sent bytes in between: it then
  resets the counters of the normalizer, and the client is told that the prompt had no tokens.
\<close>

theorem messages_usage_reset:
  "let s = fst (messages_handle_frame (messages_sse_new None None True) (FData message_start_event True []));
       cleared = s\<lparr>sc_usage := default_totals, sc_diagnostics := default_diagnostics\<rparr>
   in clear_diagnostics (clear_usage (SAnthropicMessagesToChat ([], s))) = SAnthropicMessagesToChat ([], cleared) \<and>
      closing_prompt_tokens s = [jnat 5] \<and> closing_prompt_tokens cleared = [jnat 0]"
proof -
  let ?new = "messages_sse_new None None True"
  have "sc_backend_model ?new = None" "\<not> ms_completed ?new" "ms_emit_usage_to_client ?new"
      "sc_diagnostics ?new = default_diagnostics" "sc_usage ?new = default_totals"
    by (simp_all add: messages_sse_new_def sse_common.defs default_common_def)
  then show ?thesis
    by (simp add: Let_def example_steps observe_start closing_prompt_tokens_eq observe_object_def
        default_diagnostics_def default_totals_def)
qed

section \<open>Shutdown\<close>

text \<open>
  A stream cut short by a shutdown looks like one that ended.  The client receives the bytes and the
  closing events, and the metrics the report, of a stream whose backend sent nothing more.
\<close>

theorem shutdown_indistinguishable:
  "stream_loop sd st m yielded (map BChunk cs @ BShutdown # es) = stream_loop sd st m yielded (map BChunk cs) \<and>
   passthrough_loop m yielded (map BChunk cs @ BShutdown # es) = passthrough_loop m yielded (map BChunk cs)"
proof (induction cs arbitrary: st m yielded)
  case (Cons c cs)
  then show ?case by (auto simp: split_beta intro!: bind_option_cong)
qed simp

end
