(* ===== verification/Auth.thy ===== *)
theory Auth
  imports Config
begin

text \<open>
  \<open>onair-core/src/auth.rs\<close>: authentication of a request against the configured clients.  A header
  map is the list of its lower-case names and raw values in order; \<open>get\<close> returns the first value of
  a name and \<open>to_str\<close> accepts visible ASCII and tabs.  The constant-time comparison of the \<open>subtle\<close>
  crate decides equality of byte strings.
\<close>

type_synonym header_map = "(string \<times> string) list"

definition header_get :: "header_map \<Rightarrow> string \<Rightarrow> string option" where
  "header_get headers name = map_of headers name"

definition to_str :: "string \<Rightarrow> string option" where
  "to_str v = (if list_all (\<lambda>c. (32 \<le> byte c \<and> byte c < 127) \<or> byte c = 9) v then Some v else None)"

record identity =
  id_id :: string
  id_models :: "string list"

definition token_matches :: "string \<Rightarrow> string \<Rightarrow> bool" where
  "token_matches input configured \<longleftrightarrow>
     length input = length configured \<and> list_all2 (=) input configured"

definition bearer_token :: "header_map \<Rightarrow> string option" where
  "bearer_token headers =
     Option.bind (Option.bind (header_get headers ''authorization'') to_str) (strip_prefix ''Bearer '')"

definition x_api_key :: "header_map \<Rightarrow> string option" where
  "x_api_key headers =
     Option.bind (Option.bind (header_get headers ''x-api-key'') to_str)
       (\<lambda>v. if v \<noteq> [] then Some v else None)"

definition authenticate :: "header_map \<Rightarrow> resolved_client list \<Rightarrow> api_error + identity" where
  "authenticate headers clients =
     (case (case bearer_token headers of Some t \<Rightarrow> Some t | None \<Rightarrow> x_api_key headers) of
        None \<Rightarrow> Inl (authentication ''Missing bearer token.'')
      | Some token \<Rightarrow>
          let invalid_msg =
                (if bearer_token headers \<noteq> None then ''Invalid bearer token.'' else ''Invalid x-api-key.'');
              matched = fold (\<lambda>client matched.
                if token_matches token (cl_api_key client) \<and> matched = None then Some client
                else matched) clients None
          in ok_or (map_option (\<lambda>c. \<lparr>id_id = cl_id c, id_models = cl_models c\<rparr>) matched)
               (authentication invalid_msg))"

section \<open>Properties\<close>

lemma token_matches_iff: "token_matches a b \<longleftrightarrow> a = b"
  by (auto simp: token_matches_def list.rel_eq)

lemma fold_first_match:
  "fold (\<lambda>c m. if P c \<and> m = None then Some c else m) cs m =
     (case m of Some c \<Rightarrow> Some c | None \<Rightarrow> find P cs)"
  by (induction cs arbitrary: m) (auto split: option.splits)

text \<open>The token a request presents: a bearer token wins over an API key header.\<close>

definition credential :: "header_map \<Rightarrow> string option" where
  "credential headers =
     (case bearer_token headers of Some t \<Rightarrow> Some t | None \<Rightarrow> x_api_key headers)"

text \<open>
  C19: a request is authenticated exactly when the token it presents is the key of a configured
  client; the identity is that of the first such client, with that client's model whitelist.
  Every refusal is a 401 with code \<open>invalid_api_key\<close>, and the loop over all clients without an
  early exit computes the first match.
\<close>

theorem authenticate_spec:
  "(authenticate headers clients = Inr i \<longleftrightarrow>
      (\<exists>token c. credential headers = Some token \<and>
         find (\<lambda>c. cl_api_key c = token) clients = Some c \<and>
         i = \<lparr>id_id = cl_id c, id_models = cl_models c\<rparr>)) \<and>
   (\<forall>e. authenticate headers clients = Inl e \<longleftrightarrow>
      e = authentication
            (if credential headers = None then ''Missing bearer token.''
             else if bearer_token headers \<noteq> None then ''Invalid bearer token.''
             else ''Invalid x-api-key.'') \<and>
      list_all (\<lambda>c. credential headers \<noteq> Some (cl_api_key c)) clients)"
proof -
  have flip: "(\<lambda>c. token = cl_api_key c) = (\<lambda>c. cl_api_key c = token)" for token by auto
  have a: "authenticate headers clients =
      (case credential headers of
         None \<Rightarrow> Inl (authentication ''Missing bearer token.'')
       | Some token \<Rightarrow>
           ok_or (map_option (\<lambda>c. \<lparr>id_id = cl_id c, id_models = cl_models c\<rparr>)
                    (find (\<lambda>c. cl_api_key c = token) clients))
             (authentication (if bearer_token headers \<noteq> None then ''Invalid bearer token.''
                else ''Invalid x-api-key.'')))"
    by (simp add: authenticate_def credential_def token_matches_iff fold_first_match flip Let_def
        split: option.splits)
  show ?thesis
  proof (cases "credential headers")
    case None
    then show ?thesis unfolding a by (auto simp: list_all_iff)
  next
    case (Some token)
    show ?thesis
    proof (cases "find (\<lambda>c. cl_api_key c = token) clients")
      case None
      then have "list_all (\<lambda>c. credential headers \<noteq> Some (cl_api_key c)) clients"
        using Some by (auto simp: find_None_iff list_all_iff)
      then show ?thesis unfolding a using Some None by auto
    next
      case found: (Some c)
      then have "\<not> list_all (\<lambda>c. credential headers \<noteq> Some (cl_api_key c)) clients"
        using Some find_SomeD [OF found] by (auto simp: list_all_iff)
      then show ?thesis unfolding a using Some found by auto
    qed
  qed
qed

text \<open>
  A client key taken from an environment variable may be empty, unlike one written in the file,
  and a request whose authorization header is the bare scheme then authenticates as that client.
\<close>

theorem empty_env_key_authenticates:
  "resolve_secret \<lparr>env_var = (\<lambda>_. Some []), url_parse = (\<lambda>_. None), header_name_ok = (\<lambda>_. True),
       header_value_ok = (\<lambda>_. True)\<rparr> None (Some ''KEY'') label = Inr [] \<and>
   resolve_secret h (Some []) None label = Inl (SecretRequired label) \<and>
   authenticate [(''authorization'', ''Bearer '')]
     [\<lparr>cl_id = ''a'', cl_api_key = [], cl_models = ms\<rparr>] = Inr \<lparr>id_id = ''a'', id_models = ms\<rparr>"
proof -
  have "\<not> is_blank ''KEY''" by code_simp
  moreover have "to_str ''Bearer '' = Some ''Bearer ''" by code_simp
  moreover have "strip_prefix ''Bearer '' ''Bearer '' = Some []" by code_simp
  ultimately show ?thesis
    by (simp add: resolve_secret_def authenticate_def bearer_token_def header_get_def
        token_matches_def)
qed

end
