(* ===== verification/Proxy.thy ===== *)
theory Proxy
  imports Streaming Routing Auth
begin

text \<open>
  The request path of \<open>onair-proxy/src/proxy.rs\<close> and \<open>onair-proxy/src/proxy/response.rs\<close>: admission of a
  request, preparation of the upstream request, the retry loop over fallback backends, and the response.
  The HTTP client, the codecs of \<open>serde_json\<close> and \<open>form_urlencoded\<close>, the header syntax of the \<open>http\<close> crate
  and the random source are the fields of \<open>proxy_env\<close>.  What the code reports to metrics, to the health
  store and to the inspector, and what it sends, is the list of effects of a request, in order.  Clocks,
  logs, live records and debug captures are added by \<open>Request_Session\<close>, which refines this model.
\<close>

section \<open>Headers\<close>

definition valid_header_value :: "string \<Rightarrow> string option" where
  "valid_header_value v = (if to_str v = None then None else Some v)"

definition header_str :: "header_map \<Rightarrow> string \<Rightarrow> string option" where
  "header_str headers name = Option.bind (header_get headers name) to_str"

definition client_request_id :: "header_map \<Rightarrow> string option" where
  "client_request_id headers = Option.bind (header_get headers ''x-request-id'') valid_header_value"

text \<open>\<open>HeaderMap::insert\<close> replaces every value of the name.\<close>

definition hm_insert :: "string \<Rightarrow> string \<Rightarrow> header_map \<Rightarrow> header_map" where
  "hm_insert k v m = (k, v) # filter (\<lambda>e. fst e \<noteq> k) m"

definition hm_insert_opt :: "string \<Rightarrow> string option \<Rightarrow> header_map \<Rightarrow> header_map" where
  "hm_insert_opt k v m = (case v of Some x \<Rightarrow> hm_insert k x m | None \<Rightarrow> m)"

section \<open>The environment\<close>

record outbound =
  ob_method :: string
  ob_url :: string
  ob_timeout :: u64
  ob_headers :: header_map
  ob_body :: "string option"

record upstream_response =
  ur_status :: status_code
  ur_headers :: header_map
  ur_body :: "body_event list"

datatype send_result = SendOk upstream_response | SendError http_error | SendShutdown

record proxy_env =
  pe_serde :: serde
  pe_form :: form_codec
  pe_header_name :: "string \<Rightarrow> string option"
  pe_header_value_ok :: "string \<Rightarrow> bool"
  pe_send :: "nat \<Rightarrow> outbound \<Rightarrow> send_result"
  pe_gen_range :: "u64 \<Rightarrow> u64"

section \<open>Upstream requests\<close>

definition upstream_url :: "string \<Rightarrow> string \<Rightarrow> string option \<Rightarrow> string" where
  "upstream_url base_url path query =
     base_url @ path @ (case query of Some q \<Rightarrow> ''?'' @ q | None \<Rightarrow> [])"

definition ANTHROPIC_VERSION_DEFAULT :: string where
  "ANTHROPIC_VERSION_DEFAULT = ''2023-06-01''"

record proxy_request =
  pr_method :: string
  pr_path :: string
  pr_query :: "string option"
  pr_headers :: header_map
  pr_content_type :: "string option"
  pr_stream :: bool
  pr_body :: string

definition add_route_header :: "proxy_env \<Rightarrow> string \<times> string \<Rightarrow> header_map \<Rightarrow> header_map" where
  "add_route_header env nv m =
     (case pe_header_name env (fst nv) of
        Some name \<Rightarrow> if pe_header_value_ok env (snd nv) then hm_insert name (snd nv) m else m
      | None \<Rightarrow> m)"

definition client_part :: "proxy_request \<Rightarrow> bool \<Rightarrow> header_map" where
  "client_part rq has_body =
     (let m = (if has_body
               then hm_insert_opt ''content-type''
                 (Option.bind (header_get (pr_headers rq) ''content-type'') valid_header_value) []
               else []);
          m = (if pr_stream rq then hm_insert ''accept'' ''text/event-stream'' m else m)
      in hm_insert_opt ''x-request-id'' (client_request_id (pr_headers rq)) m)"

definition key_part :: "proxy_env \<Rightarrow> selected_route \<Rightarrow> header_map \<Rightarrow> header_map" where
  "key_part env route m =
     (case sr_api_key route of
        Some key \<Rightarrow>
          if pe_header_value_ok env (''Bearer '' @ key) then hm_insert ''authorization'' (''Bearer '' @ key) m else m
      | None \<Rightarrow> m)"

definition version_part :: "proxy_request \<Rightarrow> selected_route \<Rightarrow> header_map \<Rightarrow> header_map" where
  "version_part rq route m =
     (if sr_request_mode route \<in> {AnthropicMessagesNative, ChatCompletionsViaMessages} \<and>
         header_get m ''anthropic-version'' = None
      then hm_insert ''anthropic-version''
             (str_or ANTHROPIC_VERSION_DEFAULT
               (Option.bind (header_get (pr_headers rq) ''anthropic-version'') valid_header_value)) m
      else m)"

text \<open>Later parts override earlier ones: the client's, the route's, the route's key, the version.\<close>

definition outbound_headers :: "proxy_env \<Rightarrow> proxy_request \<Rightarrow> selected_route \<Rightarrow> bool \<Rightarrow> header_map" where
  "outbound_headers env rq route has_body =
     version_part rq route
       (key_part env route (fold (add_route_header env) (sr_request_headers route) (client_part rq has_body)))"

definition route_policies :: "selected_route \<Rightarrow> rewrite_policies" where
  "route_policies route =
     \<lparr>pol_tool_schema_mode = sr_tool_schema_mode route, pol_responses_store = sr_responses_store route,
      pol_responses_max_output_tokens = sr_responses_max_output_tokens route,
      pol_chat_stream_usage = sr_chat_stream_usage route,
      pol_anthropic_max_tokens = sr_anthropic_max_tokens route\<rparr>"

definition prepare_outbound :: "proxy_env \<Rightarrow> proxy_request \<Rightarrow> selected_route \<Rightarrow> api_error + outbound" where
  "prepare_outbound env rq route =
     (let path = upstream_path (pr_path rq)
      in case rewrite_request_body_for_mode_with_policies (pe_serde env) (pe_form env) (pr_body rq)
             (pr_content_type rq) (sr_backend_model route) path (sr_request_mode route)
             (route_policies route) (sr_extra_body route) of
           Inl e \<Rightarrow> Inl (bad_request (rw_message e) (rw_param e))
         | Inr body \<Rightarrow>
             let query = Option.bind (rewrite_query_model (pe_form env) (pr_query rq) (sr_backend_model route))
                   (\<lambda>q. if q = [] then None else Some q);
                 has_body = body \<noteq> []
             in Inr \<lparr>ob_method = pr_method rq,
                  ob_url = upstream_url (sr_base_url route)
                    (upstream_path_for_mode path (sr_request_mode route)) query,
                  ob_timeout = sr_timeout route,
                  ob_headers = outbound_headers env rq route has_body,
                  ob_body = (if has_body then Some body else None)\<rparr>)"

section \<open>Failures\<close>

datatype failure_kind = FTimeout | FRequest string bool

definition classify_failure :: "http_error \<Rightarrow> failure_kind" where
  "classify_failure e =
     (if is_timeout e then FTimeout else FRequest (upstream_error_kind e) (retryable_send_error e))"

fun client_status :: "failure_kind \<Rightarrow> status_code" where
  "client_status FTimeout = 504"
| "client_status (FRequest k r) = 502"

fun failure_outcome :: "failure_kind \<Rightarrow> string" where
  "failure_outcome FTimeout = ''upstream_timeout''"
| "failure_outcome (FRequest k r) = ''upstream_request_failed''"

fun error_kind :: "failure_kind \<Rightarrow> string" where
  "error_kind FTimeout = ''timeout''"
| "error_kind (FRequest k r) = k"

fun failure_api_error :: "failure_kind \<Rightarrow> api_error" where
  "failure_api_error FTimeout = timeout_error"
| "failure_api_error (FRequest k r) = upstream 502"

fun failure_inspector_outcome :: "failure_kind \<Rightarrow> inspector_outcome" where
  "failure_inspector_outcome FTimeout = UpstreamTimeout"
| "failure_inspector_outcome (FRequest k r) = UpstreamRequestFailed"

fun is_retryable :: "failure_kind \<Rightarrow> bool" where
  "is_retryable FTimeout = True"
| "is_retryable (FRequest k r) = r"

section \<open>The context of a request\<close>

record metric_labels =
  ml_route :: string
  ml_identity :: string
  ml_public_model :: string
  ml_backend :: string
  ml_stream :: bool

record attempt_record =
  ar_attempt :: nat
  ar_backend :: string
  ar_status :: status_code
  ar_upstream_status :: "status_code option"
  ar_outcome :: string
  ar_error_kind :: "string option"

record token_counts =
  tk_input :: u64
  tk_cached_input :: u64
  tk_output :: u64

definition inspector_tokens :: "usage_totals \<Rightarrow> token_counts" where
  "inspector_tokens usage =
     \<lparr>tk_input = ut_input usage, tk_cached_input = ut_cached_input usage, tk_output = ut_output usage\<rparr>"

definition no_tokens :: token_counts where
  "no_tokens = \<lparr>tk_input = 0, tk_cached_input = 0, tk_output = 0\<rparr>"

text \<open>A final inspector record, without its timestamps and the static description of the request.\<close>

record inspector_record =
  ir_outcome :: inspector_outcome
  ir_status :: status_code
  ir_error_kind :: "string option"
  ir_backend_attempts :: "attempt_record list"
  ir_retried_attempts :: "attempt_record list"
  ir_response_body_bytes :: "nat option"
  ir_tokens :: token_counts
  ir_exposed_backend_error :: bool

text \<open>
  \<open>Sent\<close> is a request handed to the HTTP client; \<open>Inspect\<close> is a final record; the live records of a request
  in flight are those of \<open>Request_Session\<close>.
\<close>

datatype effect =
    BackendAttempt metric_labels
  | Sent string outbound
  | RequestMetric metric_labels status_code
  | UsageMetric metric_labels usage_totals
  | StreamMetric metric_labels status_code
  | Health health_report
  | Inspect inspector_record

record proxy_context =
  pc_route :: selected_route
  pc_labels :: metric_labels
  pc_requested_model :: "string option"
  pc_stream_usage_requested :: bool
  pc_attempt :: nat
  pc_backend_attempts :: "attempt_record list"
  pc_retried_attempts :: "attempt_record list"
  pc_effects :: "effect list"

definition emit_effects :: "effect list \<Rightarrow> proxy_context \<Rightarrow> proxy_context" where
  "emit_effects es cx = cx\<lparr>pc_effects := pc_effects cx @ es\<rparr>"

definition label_model :: "selected_route \<Rightarrow> string option \<Rightarrow> string" where
  "label_model route requested = str_or ''none'' (first_some (sr_public_model route) requested)"

definition apply_route :: "selected_route \<Rightarrow> proxy_context \<Rightarrow> proxy_context" where
  "apply_route route cx =
     cx\<lparr>pc_route := route,
        pc_labels := (pc_labels cx)\<lparr>ml_backend := sr_backend_id route,
          ml_public_model := label_model route (pc_requested_model cx)\<rparr>\<rparr>"

definition finish_attempt ::
  "proxy_context \<Rightarrow> status_code \<Rightarrow> status_code option \<Rightarrow> string \<Rightarrow> string option \<Rightarrow> attempt_record" where
  "finish_attempt cx status upstream_status outcome kind =
     \<lparr>ar_attempt = pc_attempt cx, ar_backend = ml_backend (pc_labels cx), ar_status = status,
      ar_upstream_status = upstream_status, ar_outcome = outcome, ar_error_kind = kind\<rparr>"

definition final_record ::
  "inspector_outcome \<Rightarrow> status_code \<Rightarrow> string option \<Rightarrow> attempt_record list \<Rightarrow> nat option \<Rightarrow> token_counts \<Rightarrow>
     bool \<Rightarrow> proxy_context \<Rightarrow> effect" where
  "final_record outcome status kind attempts body_bytes tokens exposed cx =
     Inspect \<lparr>ir_outcome = outcome, ir_status = status, ir_error_kind = kind, ir_backend_attempts = attempts,
       ir_retried_attempts = pc_retried_attempts cx, ir_response_body_bytes = body_bytes, ir_tokens = tokens,
       ir_exposed_backend_error = exposed\<rparr>"

definition record_retry :: "failure_kind \<Rightarrow> selected_route \<Rightarrow> proxy_context \<Rightarrow> proxy_context" where
  "record_retry kind next_route cx =
     (let a = finish_attempt cx (client_status kind) None (failure_outcome kind) (Some (error_kind kind));
          cx = emit_effects [Health (ReportFailure (ml_backend (pc_labels cx)) (client_status kind)
            (error_kind kind))] cx;
          cx = cx\<lparr>pc_backend_attempts := pc_backend_attempts cx @ [a],
                  pc_retried_attempts := pc_retried_attempts cx @ [a]\<rparr>
      in apply_route next_route (cx\<lparr>pc_attempt := pc_attempt cx + 1\<rparr>))"

definition record_final_failure :: "failure_kind \<Rightarrow> proxy_context \<Rightarrow> proxy_context \<times> api_error" where
  "record_final_failure kind cx =
     (let a = finish_attempt cx (client_status kind) None (failure_outcome kind) (Some (error_kind kind));
          attempts = pc_backend_attempts cx @ [a]
      in (emit_effects
            [RequestMetric (pc_labels cx) (client_status kind),
             Health (ReportFailure (ml_backend (pc_labels cx)) (client_status kind) (error_kind kind)),
             final_record (failure_inspector_outcome kind) (client_status kind) (Some (error_kind kind)) attempts
               None no_tokens False cx]
            (cx\<lparr>pc_backend_attempts := attempts\<rparr>),
          failure_api_error kind))"

section \<open>The retry loop\<close>

datatype attempt_result = Arrived upstream_response | Refused api_error | Failed failure_kind

definition attempt_once :: "proxy_env \<Rightarrow> proxy_request \<Rightarrow> proxy_context \<Rightarrow> proxy_context \<times> attempt_result" where
  "attempt_once env rq cx =
     (let cx = emit_effects [BackendAttempt (pc_labels cx)] cx
      in case prepare_outbound env rq (pc_route cx) of
           Inl e \<Rightarrow> (cx, Refused e)
         | Inr ob \<Rightarrow>
             let cx = emit_effects [Sent (sr_backend_id (pc_route cx)) ob] cx
             in (cx, case pe_send env (pc_attempt cx) ob of
                       SendOk r \<Rightarrow> Arrived r
                     | SendShutdown \<Rightarrow> Refused internal_error
                     | SendError e \<Rightarrow> Failed (classify_failure e)))"

fun attempt_loop ::
  "proxy_env \<Rightarrow> proxy_request \<Rightarrow> proxy_context \<Rightarrow> selected_route list \<Rightarrow>
     proxy_context \<times> (api_error + upstream_response)" where
  "attempt_loop env rq cx fallbacks =
     (let (cx, r) = attempt_once env rq cx
      in case r of
           Arrived response \<Rightarrow> (cx, Inr response)
         | Refused e \<Rightarrow> (cx, Inl e)
         | Failed kind \<Rightarrow>
             (case (is_retryable kind, fallbacks) of
                (True, next_route # rest) \<Rightarrow> attempt_loop env rq (record_retry kind next_route cx) rest
              | _ \<Rightarrow> map_prod id Inl (record_final_failure kind cx)))"

declare attempt_loop.simps [simp del]

section \<open>Responses\<close>

datatype client_body = Buffered string | Streamed "stream_result option"

record client_response =
  cr_status :: status_code
  cr_headers :: header_map
  cr_body :: client_body

definition is_success :: "status_code \<Rightarrow> bool" where
  "is_success s \<longleftrightarrow> 200 \<le> s \<and> s < 300"

definition opt_header :: "string \<Rightarrow> string option \<Rightarrow> header_map" where
  "opt_header name v = (case v of Some x \<Rightarrow> [(name, x)] | None \<Rightarrow> [])"

definition upstream_header :: "header_map \<Rightarrow> string \<Rightarrow> string option" where
  "upstream_header headers name = Option.bind (header_get headers name) valid_header_value"

definition response_headers :: "header_map \<Rightarrow> header_map \<Rightarrow> string option \<Rightarrow> bool \<Rightarrow> header_map" where
  "response_headers client_headers upstream_headers fallback streaming =
     [(''cache-control'', ''no-cache'')]
     @ (if streaming then [(''content-type'', str_or ''text/event-stream'' fallback)]
        else opt_header ''content-type'' (first_some (upstream_header upstream_headers ''content-type'') fallback))
     @ opt_header ''content-disposition'' (upstream_header upstream_headers ''content-disposition'')
     @ opt_header ''x-request-id'' (client_request_id client_headers)
     @ (if streaming then [(''x-accel-buffering'', ''no'')] else [])"

definition error_headers :: "header_map \<Rightarrow> header_map" where
  "error_headers upstream_headers =
     [(''cache-control'', ''no-store''),
      (''content-type'', str_or ''application/json'' (upstream_header upstream_headers ''content-type''))]
     @ opt_header ''retry-after'' (upstream_header upstream_headers ''retry-after'')"

text \<open>
  The effects of a failing status; the argument is the body that is forwarded, if it is.
\<close>

definition non_success_effects :: "status_code \<Rightarrow> string option \<Rightarrow> proxy_context \<Rightarrow> effect list" where
  "non_success_effects upstream_status forwarded cx =
     (let status = map_upstream_status upstream_status;
          a = finish_attempt cx status (Some upstream_status) ''upstream_non_success'' None
      in [RequestMetric (pc_labels cx) status,
          Health (ReportFailure (ml_backend (pc_labels cx)) upstream_status ''upstream_non_success''),
          final_record UpstreamNonSuccess status None (pc_backend_attempts cx @ [a]) (map_option length forwarded)
            no_tokens (forwarded \<noteq> None) cx])"

definition forward_upstream_error ::
  "upstream_response \<Rightarrow> string \<Rightarrow> proxy_context \<Rightarrow> proxy_context \<times> client_response" where
  "forward_upstream_error r body cx =
     (emit_effects (non_success_effects (ur_status r) (Some body) cx) cx,
      \<lparr>cr_status = map_upstream_status (ur_status r), cr_headers = error_headers (ur_headers r),
       cr_body = Buffered body\<rparr>)"

text \<open>The body that may be forwarded: opted in, read without an error and not truncated.\<close>

definition forwarded_body :: "proxy_context \<Rightarrow> upstream_response \<Rightarrow> string option" where
  "forwarded_body cx r =
     (if sr_expose_backend_errors (pc_route cx) then
        (case read_capped_upstream_error_body (ur_body r) of
           Inr (bytes, truncated) \<Rightarrow> if truncated then None else Some bytes
         | Inl _ \<Rightarrow> None)
      else None)"

definition non_success_response ::
  "upstream_response \<Rightarrow> proxy_context \<Rightarrow> proxy_context \<times> (api_error + client_response)" where
  "non_success_response r cx =
     (case forwarded_body cx r of
        Some body \<Rightarrow> map_prod id Inr (forward_upstream_error r body cx)
      | None \<Rightarrow> (emit_effects (non_success_effects (ur_status r) None cx) cx, Inl (upstream (ur_status r))))"

text \<open>\<open>None\<close> is the panic of the response rewriter.\<close>

definition buffered_response ::
  "proxy_env \<Rightarrow> proxy_request \<Rightarrow> upstream_response \<Rightarrow> proxy_context \<Rightarrow>
     proxy_context \<times> (api_error + client_response) option" where
  "buffered_response env rq r cx =
     (let content_type = header_str (ur_headers r) ''content-type''; labels = pc_labels cx
      in case read_buffered_upstream_body [] (ur_body r) of
           Inl ReadShutdown \<Rightarrow> (cx, Some (Inl internal_error))
         | Inl (ReadUpstream e) \<Rightarrow>
             let a = finish_attempt cx 502 (Some (ur_status r)) ''upstream_body_read_failed''
                   (Some (upstream_error_kind e))
             in (emit_effects [RequestMetric labels 502,
                   Health (ReportFailure (ml_backend labels) 502 (upstream_error_kind e)),
                   final_record UpstreamBodyReadFailed 502 (Some (upstream_error_kind e))
                     (pc_backend_attempts cx @ [a]) None no_tokens False cx] cx,
                 Some (Inl (upstream 502)))
         | Inr bytes \<Rightarrow>
             (case rewrite_response_body (pe_serde env) bytes content_type (sr_backend_model (pc_route cx))
                 (sr_public_model (pc_route cx)) (sr_request_mode (pc_route cx)) of
                None \<Rightarrow> (cx, None)
              | Some (response_bytes, usage) \<Rightarrow>
                  let a = finish_attempt cx (ur_status r) (Some (ur_status r)) ''completed'' None
                  in (emit_effects [UsageMetric labels usage, RequestMetric labels (ur_status r),
                        Health (ReportSuccess (ml_backend labels) (ur_status r)),
                        final_record Completed (ur_status r) None (pc_backend_attempts cx @ [a])
                          (Some (length response_bytes)) (inspector_tokens usage) False cx] cx,
                      Some (Inr \<lparr>cr_status = ur_status r,
                        cr_headers = response_headers (pr_headers rq) (ur_headers r) content_type False,
                        cr_body = Buffered response_bytes\<rparr>))))"

definition stream_attempt_outcome :: "stream_metrics \<Rightarrow> string" where
  "stream_attempt_outcome m =
     (case sm_stream_error_kind m of
        Some _ \<Rightarrow> ''upstream_stream_failed''
      | None \<Rightarrow> if sm_body_complete m then ''completed'' else ''stream_incomplete'')"

text \<open>What \<open>Drop\<close> of the stream metrics reports.\<close>

definition stream_effects :: "proxy_context \<Rightarrow> status_code \<Rightarrow> stream_metrics \<Rightarrow> effect list" where
  "stream_effects cx status m =
     (let a = finish_attempt cx status (Some status) (stream_attempt_outcome m) (sm_stream_error_kind m)
      in (if is_empty (sm_usage m) then [] else [UsageMetric (pc_labels cx) (sm_usage m)])
         @ map Health (stream_health (ml_backend (pc_labels cx)) status m)
         @ [final_record (stream_outcome m) status (sm_stream_error_kind m) (pc_backend_attempts cx @ [a]) None
              (inspector_tokens (sm_usage m)) False cx,
            StreamMetric (pc_labels cx) status])"

definition run_stream :: "proxy_env \<Rightarrow> upstream_response \<Rightarrow> proxy_context \<Rightarrow> stream_result option" where
  "run_stream env r cx =
     (let content_type = header_str (ur_headers r) ''content-type'';
          normalize_sse = ml_stream (pc_labels cx) \<or> is_event_stream_content_type content_type;
          emit = ml_route (pc_labels cx) \<noteq> ''chat_completions'' \<or> pc_stream_usage_requested cx
      in if normalize_sse then
           stream_loop (pe_serde env)
             (strategy_new (sr_request_mode (pc_route cx)) (sr_backend_model (pc_route cx))
               (sr_public_model (pc_route cx)) emit) stream_metrics_new [] (ur_body r)
         else Some (passthrough_loop stream_metrics_new [] (ur_body r)))"

definition streaming_response ::
  "proxy_env \<Rightarrow> proxy_request \<Rightarrow> upstream_response \<Rightarrow> proxy_context \<Rightarrow> proxy_context \<times> client_response" where
  "streaming_response env rq r cx =
     (let cx = emit_effects [RequestMetric (pc_labels cx) (ur_status r)] cx;
          result = run_stream env r cx;
          cx = (case result of
                  Some res \<Rightarrow> emit_effects (stream_effects cx (ur_status r) (res_metrics res)) cx
                | None \<Rightarrow> cx)
      in (cx, \<lparr>cr_status = ur_status r,
           cr_headers = response_headers (pr_headers rq) (ur_headers r) (Some ''text/event-stream'') True,
           cr_body = Streamed result\<rparr>))"

section \<open>The handler\<close>

definition do_proxy ::
  "proxy_env \<Rightarrow> proxy_request \<Rightarrow> proxy_context \<Rightarrow> selected_route list \<Rightarrow>
     proxy_context \<times> (api_error + client_response) option" where
  "do_proxy env rq cx fallbacks =
     (case attempt_loop env rq cx fallbacks of
        (cx, Inl e) \<Rightarrow> (cx, Some (Inl e))
      | (cx, Inr r) \<Rightarrow>
          if \<not> is_success (ur_status r) then map_prod id Some (non_success_response r cx)
          else if pr_stream rq \<or> is_event_stream_content_type (header_str (ur_headers r) ''content-type'')
          then map_prod id (\<lambda>x. Some (Inr x)) (streaming_response env rq r cx)
          else buffered_response env rq r cx)"

record client_request =
  rqc_method :: string
  rqc_path :: string
  rqc_query :: "string option"
  rqc_headers :: header_map
  rqc_body :: string

definition preflight_effects ::
  "string \<Rightarrow> string \<Rightarrow> string option \<Rightarrow> bool \<Rightarrow> string \<Rightarrow> api_error \<Rightarrow> effect list" where
  "preflight_effects route ident model stream stage e =
     [RequestMetric \<lparr>ml_route = route, ml_identity = ident, ml_public_model = str_or ''none'' model,
        ml_backend = ''none'', ml_stream = stream\<rparr> (err_status e),
      Inspect \<lparr>ir_outcome = Preflight stage, ir_status = err_status e, ir_error_kind = None,
        ir_backend_attempts = [], ir_retried_attempts = [], ir_response_body_bytes = None,
        ir_tokens = no_tokens, ir_exposed_backend_error = False\<rparr>]"

record proxy_outcome =
  po_result :: "(api_error + client_response) option"
  po_effects :: "effect list"
  po_counters :: rr_counters

definition rejected :: "api_error \<Rightarrow> effect list \<Rightarrow> rr_counters \<Rightarrow> proxy_outcome" where
  "rejected e es c = \<lparr>po_result = Some (Inl e), po_effects = es, po_counters = c\<rparr>"

text \<open>The part of the handler after the candidates were selected.\<close>

definition forward ::
  "proxy_env \<Rightarrow> config \<Rightarrow> client_request \<Rightarrow> identity \<Rightarrow> request_shape \<Rightarrow> selected_route non_empty_vec \<Rightarrow>
     rr_counters \<Rightarrow> proxy_outcome" where
  "forward env cfg q ident shape routes c =
     (let route = nev_head routes;
          fallbacks = take (rc_fallback_attempts (cfg_routing cfg)) (nev_tail routes);
          labels = \<lparr>ml_route = path_metric_name (rqc_path q), ml_identity = id_id ident,
             ml_public_model = label_model route (sh_model shape), ml_backend = sr_backend_id route,
             ml_stream = sh_stream shape\<rparr>;
          rq = \<lparr>pr_method = rqc_method q, pr_path = rqc_path q, pr_query = rqc_query q,
             pr_headers = rqc_headers q, pr_content_type = header_str (rqc_headers q) ''content-type'',
             pr_stream = sh_stream shape, pr_body = rqc_body q\<rparr>;
          cx = \<lparr>pc_route = route, pc_labels = labels, pc_requested_model = sh_model shape,
             pc_stream_usage_requested = sh_stream_usage_requested shape, pc_attempt = 1,
             pc_backend_attempts = [], pc_retried_attempts = [], pc_effects = []\<rparr>;
          (cx, result) = do_proxy env rq cx fallbacks
      in \<lparr>po_result = result, po_effects = pc_effects cx, po_counters = c\<rparr>)"

definition proxy_selection :: "config \<Rightarrow> client_request \<Rightarrow> identity \<Rightarrow> request_shape \<Rightarrow> selection_request" where
  "proxy_selection cfg q ident shape =
     \<lparr>rq_backends = cfg_backends cfg, rq_routes = cfg_routes cfg, rq_strategy = rc_strategy (cfg_routing cfg),
      rq_path = rqc_path q, rq_model = sh_model shape, rq_stream = sh_stream shape, rq_tools = sh_has_tools shape,
      rq_sticky_key = Some (sticky_routing_key (id_id ident) (rqc_path q) (sh_model shape)
        (sh_prompt_cache_key shape))\<rparr>"

definition proxy_v1 :: "proxy_env \<Rightarrow> config \<Rightarrow> rr_counters \<Rightarrow> client_request \<Rightarrow> proxy_outcome" where
  "proxy_v1 env cfg c q =
     (let path = rqc_path q; route_name = path_metric_name path
      in if trim_end_matches CHR ''/'' path = ''/v1/messages/count_tokens'' then
           rejected (not_found ''The requested endpoint does not exist.'') [] c
         else
           (case authenticate (rqc_headers q) (cfg_clients cfg) of
              Inl e \<Rightarrow> rejected e (preflight_effects route_name ''unknown'' None False ''auth'' e) c
            | Inr ident \<Rightarrow>
                let shape = inspect_request (pe_serde env) (pe_form env) (rqc_body q)
                      (header_str (rqc_headers q) ''content-type'') (rqc_query q)
                in if sh_model shape = None \<and> path_requires_model path then
                     let e = bad_request ''Missing required parameter: model.'' (Some ''model'')
                     in rejected e (preflight_effects route_name (id_id ident) None (sh_stream shape) ''inspect'' e) c
                   else if \<not> pred_option (\<lambda>m. m \<in> set (id_models ident)) (sh_model shape) then
                     let e = model_not_found (the (sh_model shape))
                     in rejected e
                          (preflight_effects route_name (id_id ident) (sh_model shape) (sh_stream shape) ''access'' e) c
                   else
                     (case select (pe_gen_range env) (proxy_selection cfg q ident shape) c of
                        (None, c) \<Rightarrow> \<lparr>po_result = None, po_effects = [], po_counters = c\<rparr>
                      | (Some (Inl e), c) \<Rightarrow>
                          rejected e
                            (preflight_effects route_name (id_id ident) (sh_model shape) (sh_stream shape) ''route'' e) c
                      | (Some (Inr routes), c) \<Rightarrow> forward env cfg q ident shape routes c)))"

end
