(* ===== verification/Proxy_Correct.thy ===== *)
theory Proxy_Correct
  imports Proxy
begin

text \<open>
  Correctness of the request path: what is sent upstream and when, which headers cross the proxy in each
  direction, and what a client sees of a failing backend.
\<close>

section \<open>Headers\<close>

lemma header_get_insert: "header_get (hm_insert k v m) n = (if n = k then Some v else header_get m n)"
proof -
  have "map_of (filter (\<lambda>e. fst e \<noteq> k) m) n = (if n = k then None else map_of m n)"
    by (induction m) auto
  then show ?thesis by (simp add: header_get_def hm_insert_def)
qed

lemma header_get_insert_opt:
  "header_get (hm_insert_opt k v m) n = (if n = k \<and> v \<noteq> None then v else header_get m n)"
  by (simp add: hm_insert_opt_def header_get_insert split: option.split)

lemma header_get_Nil [simp]: "header_get [] n = None"
  by (simp add: header_get_def)

text \<open>Headers that two maps agree on stay agreed when the route's headers are added.\<close>

lemma add_route_headers_agree:
  "header_get a n = header_get b n \<Longrightarrow>
     header_get (fold (add_route_header env) hs a) n = header_get (fold (add_route_header env) hs b) n"
proof (induction hs arbitrary: a b)
  case (Cons h hs)
  have "header_get (add_route_header env h a) n = header_get (add_route_header env h b) n"
  proof (cases "pe_header_name env (fst h)")
    case None
    then show ?thesis using Cons.prems by (simp add: add_route_header_def)
  next
    case (Some k)
    then show ?thesis
      using Cons.prems
      by (cases "pe_header_value_ok env (snd h)") (simp_all add: add_route_header_def header_get_insert)
  qed
  from Cons.IH [OF this] show ?case by simp
qed simp

lemma header_get_version_part:
  "n \<noteq> ''anthropic-version'' \<Longrightarrow> header_get (version_part rq route m) n = header_get m n"
  by (simp add: version_part_def header_get_insert)

lemma header_get_key_part:
  "header_get (key_part env route m) n =
     (case sr_api_key route of
        Some key \<Rightarrow>
          if n = ''authorization'' \<and> pe_header_value_ok env (''Bearer '' @ key) then Some (''Bearer '' @ key)
          else header_get m n
      | None \<Rightarrow> header_get m n)"
  by (cases "sr_api_key route") (simp_all add: key_part_def header_get_insert)

lemma header_get_client_part:
  "n \<noteq> ''content-type'' \<Longrightarrow> n \<noteq> ''x-request-id'' \<Longrightarrow>
     header_get (client_part rq has_body) n = (if n = ''accept'' \<and> pr_stream rq then Some ''text/event-stream'' else None)"
  by (simp add: client_part_def header_get_insert_opt header_get_insert)


text \<open>
  Only named headers of a backend reach the client.  A successful response carries the cache control of
  the proxy, the content type, the content disposition and the client's own request id; a forwarded error
  carries the content type and the retry delay; both are never cached as they are.
\<close>

theorem response_header_allowlist:
  "fst ` set (response_headers client_headers upstream_headers fallback streaming) \<subseteq>
     {''cache-control'', ''content-type'', ''content-disposition'', ''x-request-id'', ''x-accel-buffering''} \<and>
   fst ` set (error_headers upstream_headers) \<subseteq> {''cache-control'', ''content-type'', ''retry-after''} \<and>
   header_get (response_headers client_headers upstream_headers fallback streaming) ''cache-control'' = Some ''no-cache'' \<and>
   header_get (error_headers upstream_headers) ''cache-control'' = Some ''no-store'' \<and>
   header_get (response_headers client_headers upstream_headers fallback streaming) ''x-request-id'' =
     client_request_id client_headers"
  by (auto simp: response_headers_def error_headers_def opt_header_def header_get_def split: option.split)

section \<open>Effects\<close>

definition sent :: "effect list \<Rightarrow> (string \<times> outbound) list" where
  "sent es = List.map_filter (\<lambda>e. case e of Sent b ob \<Rightarrow> Some (b, ob) | _ \<Rightarrow> None) es"

definition health :: "effect list \<Rightarrow> health_report list" where
  "health es = List.map_filter (\<lambda>e. case e of Health h \<Rightarrow> Some h | _ \<Rightarrow> None) es"

definition request_metrics :: "effect list \<Rightarrow> status_code list" where
  "request_metrics es = List.map_filter (\<lambda>e. case e of RequestMetric l s \<Rightarrow> Some s | _ \<Rightarrow> None) es"

definition inspected :: "effect list \<Rightarrow> inspector_record list" where
  "inspected es = List.map_filter (\<lambda>e. case e of Inspect r \<Rightarrow> Some r | _ \<Rightarrow> None) es"

lemmas effect_defs = sent_def health_def request_metrics_def inspected_def List.map_filter_def

lemma sent_simps [simp]:
  "sent [] = []" "sent (Sent b ob # es) = (b, ob) # sent es" "sent (BackendAttempt l # es) = sent es"
  "sent (RequestMetric l s # es) = sent es" "sent (UsageMetric l u # es) = sent es"
  "sent (StreamMetric l s # es) = sent es" "sent (Health h # es) = sent es" "sent (Inspect i # es) = sent es"
  "sent (xs @ ys) = sent xs @ sent ys" "sent (map Health hs) = []"
  by (induction hs) (simp_all add: effect_defs)

lemma health_simps [simp]:
  "health [] = []" "health (Sent b ob # es) = health es" "health (BackendAttempt l # es) = health es"
  "health (RequestMetric l s # es) = health es" "health (UsageMetric l u # es) = health es"
  "health (StreamMetric l s # es) = health es" "health (Health h # es) = h # health es"
  "health (Inspect i # es) = health es" "health (xs @ ys) = health xs @ health ys" "health (map Health hs) = hs"
  by (induction hs) (simp_all add: effect_defs)

lemma request_metrics_simps [simp]:
  "request_metrics [] = []" "request_metrics (Sent b ob # es) = request_metrics es"
  "request_metrics (BackendAttempt l # es) = request_metrics es"
  "request_metrics (RequestMetric l s # es) = s # request_metrics es"
  "request_metrics (UsageMetric l u # es) = request_metrics es"
  "request_metrics (StreamMetric l s # es) = request_metrics es"
  "request_metrics (Health h # es) = request_metrics es" "request_metrics (Inspect i # es) = request_metrics es"
  "request_metrics (xs @ ys) = request_metrics xs @ request_metrics ys" "request_metrics (map Health hs) = []"
  by (induction hs) (simp_all add: effect_defs)

lemma inspected_simps [simp]:
  "inspected [] = []" "inspected (Sent b ob # es) = inspected es" "inspected (BackendAttempt l # es) = inspected es"
  "inspected (RequestMetric l s # es) = inspected es" "inspected (UsageMetric l u # es) = inspected es"
  "inspected (StreamMetric l s # es) = inspected es" "inspected (Health h # es) = inspected es"
  "inspected (Inspect i # es) = i # inspected es" "inspected (xs @ ys) = inspected xs @ inspected ys"
  "inspected (map Health hs) = []"
  by (induction hs) (simp_all add: effect_defs)

lemma final_record_simps [simp]:
  "sent (final_record oc st k as n tk x cx # es) = sent es" "health (final_record oc st k as n tk x cx # es) = health es"
  "request_metrics (final_record oc st k as n tk x cx # es) = request_metrics es"
  "map ir_status (inspected (final_record oc st k as n tk x cx # es)) = st # map ir_status (inspected es)"
  "map ir_exposed_backend_error (inspected (final_record oc st k as n tk x cx # es)) =
     x # map ir_exposed_backend_error (inspected es)"
  by (simp_all add: final_record_def)

lemma emit_effects_simps [simp]:
  "pc_effects (emit_effects es cx) = pc_effects cx @ es" "pc_route (emit_effects es cx) = pc_route cx"
  "pc_labels (emit_effects es cx) = pc_labels cx" "pc_attempt (emit_effects es cx) = pc_attempt cx"
  by (simp_all add: emit_effects_def)

section \<open>Failing backends\<close>

definition is_err :: "'e + 'a \<Rightarrow> bool" where
  "is_err r = (case r of Inl _ \<Rightarrow> True | Inr _ \<Rightarrow> False)"

text \<open>
  C24: what a client sees of a failing backend.  Unless the route exposes backend errors, the answer depends
  only on the mapped status; a forwarded body is the complete body the backend sent, under the mapped status
  and the allowed headers.  In both cases the health store receives the original status once and the
  inspector the mapped one, with the flag that says whether the body was forwarded.
\<close>

theorem failing_backend_confined:
  "(case snd (non_success_response r cx) of
      Inl e \<Rightarrow> e = upstream (ur_status r)
    | Inr resp \<Rightarrow>
        sr_expose_backend_errors (pc_route cx) \<and> cr_status resp = map_upstream_status (ur_status r) \<and>
        cr_headers resp = error_headers (ur_headers r) \<and>
        (\<exists>bytes. cr_body resp = Buffered bytes \<and>
           read_capped_upstream_error_body (ur_body r) = Inr (bytes, False))) \<and>
   (let es = drop (length (pc_effects cx)) (pc_effects (fst (non_success_response r cx)))
    in health es = [ReportFailure (ml_backend (pc_labels cx)) (ur_status r) ''upstream_non_success''] \<and>
       map ir_status (inspected es) = [map_upstream_status (ur_status r)] \<and>
       map ir_exposed_backend_error (inspected es) = [\<not> is_err (snd (non_success_response r cx))])"
  by (auto simp: non_success_response_def forwarded_body_def forward_upstream_error_def is_err_def
      non_success_effects_def Let_def split: option.splits if_splits sum.splits)

section \<open>The retry loop\<close>

text \<open>
  The abstract failover: routes are tried in order; each is prepared and sent on its own, a retryable
  failure is reported for the backend that failed and the next route is tried, anything else is final.
\<close>

fun failover ::
  "proxy_env \<Rightarrow> proxy_request \<Rightarrow> nat \<Rightarrow> selected_route list \<Rightarrow>
     (string \<times> outbound) list \<times> health_report list \<times> (api_error + upstream_response)" where
  "failover env rq k [] = ([], [], Inl internal_error)"
| "failover env rq k (r # rs) =
     (case prepare_outbound env rq r of
        Inl e \<Rightarrow> ([], [], Inl e)
      | Inr ob \<Rightarrow>
          (case pe_send env k ob of
             SendOk response \<Rightarrow> ([(sr_backend_id r, ob)], [], Inr response)
           | SendShutdown \<Rightarrow> ([(sr_backend_id r, ob)], [], Inl internal_error)
           | SendError e \<Rightarrow>
               let kind = classify_failure e;
                   report = ReportFailure (sr_backend_id r) (client_status kind) (error_kind kind)
               in if is_retryable kind \<and> rs \<noteq> [] then
                    let (ss, hs, result) = failover env rq (k + 1) rs
                    in ((sr_backend_id r, ob) # ss, report # hs, result)
                  else ([(sr_backend_id r, ob)], [report], Inl (failure_api_error kind))))"

definition labelled :: "proxy_context \<Rightarrow> bool" where
  "labelled cx \<longleftrightarrow> ml_backend (pc_labels cx) = sr_backend_id (pc_route cx)"

lemma record_retry_fields:
  "labelled (record_retry kind r cx)" "pc_route (record_retry kind r cx) = r"
  "pc_attempt (record_retry kind r cx) = pc_attempt cx + 1"
  "pc_effects (record_retry kind r cx) =
     pc_effects cx @ [Health (ReportFailure (ml_backend (pc_labels cx)) (client_status kind) (error_kind kind))]"
  by (simp_all add: record_retry_def apply_route_def labelled_def Let_def)

lemma attempt_loop_failover:
  "labelled cx \<Longrightarrow>
     (let (cx', result) = attempt_loop env rq cx fallbacks;
          (ss, hs, result') = failover env rq (pc_attempt cx) (pc_route cx # fallbacks)
      in sent (pc_effects cx') = sent (pc_effects cx) @ ss \<and> health (pc_effects cx') = health (pc_effects cx) @ hs \<and>
         result = result' \<and> labelled cx')"
proof (induction fallbacks arbitrary: cx)
  case Nil
  then show ?case
    by (simp add: attempt_loop.simps [of env rq cx] attempt_once_def emit_effects_def record_final_failure_def
        labelled_def Let_def split: sum.split send_result.split bool.split)
next
  case (Cons nxt rest)
  let ?cx = "\<lambda>ob. emit_effects [Sent (sr_backend_id (pc_route cx)) ob] (emit_effects [BackendAttempt (pc_labels cx)] cx)"
  have IH: "let (cx', result) = attempt_loop env rq (record_retry kind nxt (?cx ob)) rest;
        (ss, hs, result') = failover env rq (pc_attempt cx + 1) (nxt # rest)
      in sent (pc_effects cx') = sent (pc_effects cx) @ (sr_backend_id (pc_route cx), ob) # ss \<and>
         health (pc_effects cx') = health (pc_effects cx) @
           ReportFailure (ml_backend (pc_labels cx)) (client_status kind) (error_kind kind) # hs \<and>
         result = result' \<and> labelled cx'" for kind ob
    using Cons.IH [OF record_retry_fields(1), of kind nxt "?cx ob"]
    by (simp add: record_retry_fields emit_effects_def split_beta Let_def)
  show ?case
    using Cons.prems IH
    by (simp add: attempt_loop.simps [of env rq cx] attempt_once_def emit_effects_def record_final_failure_def
        record_retry_fields labelled_def Let_def split_beta split: sum.split send_result.split bool.split)
qed

lemma failover_order:
  "\<exists>n. map fst (fst (failover env rq k rs)) = take n (map sr_backend_id rs)"
proof (induction rs arbitrary: k)
  case Nil
  then show ?case by simp
next
  case (Cons r rs)
  have one: "\<exists>n. [sr_backend_id r] = take n (map sr_backend_id (r # rs))" by (rule exI [of _ 1]) simp
  have more: "\<exists>n. sr_backend_id r # map fst (fst (failover env rq (k + 1) rs)) = take n (map sr_backend_id (r # rs))"
  proof -
    obtain n where "map fst (fst (failover env rq (k + 1) rs)) = take n (map sr_backend_id rs)"
      using Cons.IH by blast
    then show ?thesis by (intro exI [of _ "Suc n"]) simp
  qed
  have none: "\<exists>n. [] = take n (map sr_backend_id (r # rs))" by (rule exI [of _ 0]) simp
  show ?case
    using one more none by (simp add: Let_def split_beta split: sum.split send_result.split)
qed

lemma failover_length: "length (fst (failover env rq k rs)) \<le> length rs"
proof -
  obtain n where "map fst (fst (failover env rq k rs)) = take n (map sr_backend_id rs)"
    using failover_order by blast
  then have "length (map fst (fst (failover env rq k rs))) = length (take n (map sr_backend_id rs))"
    by (simp only:)
  then show ?thesis by simp
qed

section \<open>Admission\<close>

definition to_proxy_request :: "client_request \<Rightarrow> bool \<Rightarrow> proxy_request" where
  "to_proxy_request q stream =
     \<lparr>pr_method = rqc_method q, pr_path = rqc_path q, pr_query = rqc_query q, pr_headers = rqc_headers q,
      pr_content_type = header_str (rqc_headers q) ''content-type'', pr_stream = stream, pr_body = rqc_body q\<rparr>"

text \<open>The routes an admitted request may use; \<open>None\<close> for a request that is refused.\<close>

definition admitted ::
  "proxy_env \<Rightarrow> config \<Rightarrow> rr_counters \<Rightarrow> client_request \<Rightarrow> (bool \<times> selected_route list) option" where
  "admitted env cfg c q =
     (case authenticate (rqc_headers q) (cfg_clients cfg) of
        Inl _ \<Rightarrow> None
      | Inr ident \<Rightarrow>
          let shape = inspect_request (pe_serde env) (pe_form env) (rqc_body q)
                (header_str (rqc_headers q) ''content-type'') (rqc_query q)
          in if trim_end_matches CHR ''/'' (rqc_path q) \<noteq> ''/v1/messages/count_tokens'' \<and>
                (sh_model shape \<noteq> None \<or> \<not> path_requires_model (rqc_path q)) \<and>
                pred_option (\<lambda>m. m \<in> set (id_models ident)) (sh_model shape)
             then (case fst (select (pe_gen_range env) (proxy_selection cfg q ident shape) c) of
                     Some (Inr routes) \<Rightarrow> Some (sh_stream shape, nev_iter routes)
                   | _ \<Rightarrow> None)
             else None)"

lemma sent_streaming: "sent (pc_effects (fst (streaming_response env rq r cx))) = sent (pc_effects cx)"
  by (simp add: streaming_response_def Let_def stream_effects_def split: option.split)

lemma sent_buffered: "sent (pc_effects (fst (buffered_response env rq r cx))) = sent (pc_effects cx)"
  by (simp add: buffered_response_def Let_def
      split: option.split sum.split body_read_error.split prod.split)

lemma sent_non_success: "sent (pc_effects (fst (non_success_response r cx))) = sent (pc_effects cx)"
  by (simp add: non_success_response_def forward_upstream_error_def non_success_effects_def Let_def
      split: option.split)

lemma sent_do_proxy:
  "sent (pc_effects (fst (do_proxy env rq cx fallbacks))) =
     sent (pc_effects (fst (attempt_loop env rq cx fallbacks)))"
  by (simp add: do_proxy_def sent_streaming sent_buffered sent_non_success split: prod.split sum.split)

lemma sent_forward:
  "sent (po_effects (forward env cfg q ident shape routes c)) =
     fst (failover env (to_proxy_request q (sh_stream shape)) 1
       (take (1 + rc_fallback_attempts (cfg_routing cfg)) (nev_iter routes)))"
proof -
  let ?route = "nev_head routes"
  let ?fb = "take (rc_fallback_attempts (cfg_routing cfg)) (nev_tail routes)"
  let ?cx = "\<lparr>pc_route = ?route, pc_labels = \<lparr>ml_route = path_metric_name (rqc_path q), ml_identity = id_id ident,
     ml_public_model = label_model ?route (sh_model shape), ml_backend = sr_backend_id ?route,
     ml_stream = sh_stream shape\<rparr>, pc_requested_model = sh_model shape,
     pc_stream_usage_requested = sh_stream_usage_requested shape, pc_attempt = 1,
     pc_backend_attempts = [], pc_retried_attempts = [], pc_effects = []\<rparr>"
  have "labelled ?cx" by (simp add: labelled_def)
  from attempt_loop_failover [OF this, of env "to_proxy_request q (sh_stream shape)" ?fb]
  have "sent (pc_effects (fst (attempt_loop env (to_proxy_request q (sh_stream shape)) ?cx ?fb))) =
      fst (failover env (to_proxy_request q (sh_stream shape)) 1 (?route # ?fb))"
    by (simp add: split_beta Let_def)
  moreover have "take (1 + rc_fallback_attempts (cfg_routing cfg)) (nev_iter routes) = ?route # ?fb"
    by (simp add: nev_iter_def)
  ultimately show ?thesis
    by (simp add: forward_def Let_def split_beta sent_do_proxy to_proxy_request_def)
qed

lemma sent_preflight [simp]: "sent (preflight_effects a b d e f g) = []"
  by (simp add: preflight_effects_def)

text \<open>The part of the handler behind the router.\<close>

definition routed :: "proxy_env \<Rightarrow> config \<Rightarrow> client_request \<Rightarrow> identity \<Rightarrow> request_shape \<Rightarrow>
    (api_error + selected_route non_empty_vec) option \<Rightarrow> (string \<times> outbound) list" where
  "routed env cfg q ident shape r =
     (case r of
        Some (Inr routes) \<Rightarrow> fst (failover env (to_proxy_request q (sh_stream shape)) 1
          (take (1 + rc_fallback_attempts (cfg_routing cfg)) (nev_iter routes)))
      | _ \<Rightarrow> [])"

lemma sent_routed:
  "sent (po_effects (case p of
       (None, c) \<Rightarrow> \<lparr>po_result = None, po_effects = [], po_counters = c\<rparr>
     | (Some (Inl e), c) \<Rightarrow> rejected e (preflight_effects a b d g h e) c
     | (Some (Inr routes), c) \<Rightarrow> forward env cfg q ident shape routes c)) =
   routed env cfg q ident shape (fst p)"
  by (cases p; cases "fst p"; cases "the (fst p)") (simp_all add: rejected_def sent_forward routed_def)

lemma sent_proxy_v1:
  "sent (po_effects (proxy_v1 env cfg c q)) =
     (case admitted env cfg c q of
        None \<Rightarrow> []
      | Some (stream, routes) \<Rightarrow>
          fst (failover env (to_proxy_request q stream) 1
            (take (1 + rc_fallback_attempts (cfg_routing cfg)) routes)))"
proof (cases "authenticate (rqc_headers q) (cfg_clients cfg)")
  case (Inl e)
  then show ?thesis by (simp add: proxy_v1_def admitted_def Let_def rejected_def)
next
  case (Inr ident)
  define shape where "shape = inspect_request (pe_serde env) (pe_form env) (rqc_body q)
      (header_str (rqc_headers q) ''content-type'') (rqc_query q)"
  let ?ok = "trim_end_matches CHR ''/'' (rqc_path q) \<noteq> ''/v1/messages/count_tokens'' \<and>
      (sh_model shape \<noteq> None \<or> \<not> path_requires_model (rqc_path q)) \<and>
      pred_option (\<lambda>m. m \<in> set (id_models ident)) (sh_model shape)"
  let ?sel = "select (pe_gen_range env) (proxy_selection cfg q ident shape) c"
  have a: "admitted env cfg c q = (if ?ok then
      (case fst ?sel of Some (Inr routes) \<Rightarrow> Some (sh_stream shape, nev_iter routes) | _ \<Rightarrow> None) else None)"
    by (simp only: admitted_def Inr sum.case Let_def shape_def)
  show ?thesis
  proof (cases ?ok)
    case True
    then have "sent (po_effects (proxy_v1 env cfg c q)) = routed env cfg q ident shape (fst ?sel)"
      unfolding proxy_v1_def Let_def shape_def [symmetric] Inr sum.case
      by (subst if_not_P, simp)+ (simp only: sent_routed)
    then show ?thesis
      using True by (simp add: a routed_def split: option.split sum.split)
  next
    case False
    then have "sent (po_effects (proxy_v1 env cfg c q)) = []"
      unfolding proxy_v1_def Let_def shape_def [symmetric] Inr sum.case
      by (auto simp: rejected_def)
    then show ?thesis using False by (simp only: a if_False option.case)
  qed
qed

text \<open>
  C1: nothing is sent before admission, and what is sent afterwards is the failover.  The upstream requests
  of a client request are none unless the client is authenticated, a required model is present, the model is
  one the client may use and the router has candidates; then they are those of the abstract failover over
  the first candidates, the number of fallbacks limited by the configuration.
\<close>

theorem upstream_only_after_admission:
  "sent (po_effects (proxy_v1 env cfg c q)) =
     (case admitted env cfg c q of
        None \<Rightarrow> []
      | Some (stream, routes) \<Rightarrow>
          fst (failover env (to_proxy_request q stream) 1
            (take (1 + rc_fallback_attempts (cfg_routing cfg)) routes)))"
  by (rule sent_proxy_v1)

text \<open>
  The retry loop is bounded and keeps the order.  A request makes at most one attempt and as many
  fallbacks as configured, and the backends it contacts are the first candidates of the router, in order,
  none of them skipped.
\<close>

theorem attempts_bounded:
  "length (sent (po_effects (proxy_v1 env cfg c q))) \<le> 1 + rc_fallback_attempts (cfg_routing cfg) \<and>
   (\<exists>n. map fst (sent (po_effects (proxy_v1 env cfg c q))) =
      take n (map sr_backend_id (case admitted env cfg c q of Some (_, routes) \<Rightarrow> routes | None \<Rightarrow> [])))"
proof (cases "admitted env cfg c q")
  case None
  have "sent (po_effects (proxy_v1 env cfg c q)) = []"
    using None by (simp add: sent_proxy_v1)
  then show ?thesis by simp
next
  case (Some a)
  then obtain stream routes where a: "admitted env cfg c q = Some (stream, routes)" by (cases a) simp
  let ?k = "1 + rc_fallback_attempts (cfg_routing cfg)"
  have s: "sent (po_effects (proxy_v1 env cfg c q)) =
      fst (failover env (to_proxy_request q stream) 1 (take ?k routes))"
    using a by (simp add: sent_proxy_v1)
  obtain n where n: "map fst (fst (failover env (to_proxy_request q stream) 1 (take ?k routes))) =
      take n (map sr_backend_id (take ?k routes))"
    using failover_order by blast
  have "length (fst (failover env (to_proxy_request q stream) 1 (take ?k routes))) \<le> ?k"
    using failover_length [of env "to_proxy_request q stream" 1 "take ?k routes"] by simp
  moreover have "\<exists>n. map fst (fst (failover env (to_proxy_request q stream) 1 (take ?k routes))) =
      take n (map sr_backend_id routes)"
    using n by (intro exI [of _ "min n ?k"]) (simp add: take_map [symmetric] min.commute)
  ultimately show ?thesis using a s by simp
qed

section \<open>What is recorded\<close>

text \<open>The request metrics and the final inspector records of a request carry the given statuses.\<close>

definition recorded :: "effect list \<Rightarrow> status_code list \<Rightarrow> bool" where
  "recorded es ss \<longleftrightarrow> request_metrics es = ss \<and> map ir_status (inspected es) = ss"

lemma recorded_simps [simp]:
  "recorded [] []" "recorded (es @ [BackendAttempt l]) ss = recorded es ss"
  "recorded (es @ [BackendAttempt l, Sent b ob]) ss = recorded es ss" "recorded (es @ [Health h]) ss = recorded es ss"
  by (simp_all add: recorded_def)

lemma recorded_final_failure:
  "recorded (pc_effects cx) [] \<Longrightarrow>
     recorded (pc_effects (fst (record_final_failure kind cx))) [err_status (snd (record_final_failure kind cx))]"
  by (cases kind) (simp_all add: record_final_failure_def recorded_def Let_def timeout_error_def
      upstream_def map_upstream_status_def)

lemma upstream_err_status: "err_status (upstream s) = map_upstream_status s"
  by (simp add: upstream_def map_upstream_status_def)

text \<open>An error may be recorded under its status or not at all; before a response nothing is recorded.\<close>

definition loop_recorded :: "proxy_context \<times> (api_error + upstream_response) \<Rightarrow> bool" where
  "loop_recorded p \<longleftrightarrow>
     (case snd p of
        Inl e \<Rightarrow> recorded (pc_effects (fst p)) [] \<or> recorded (pc_effects (fst p)) [err_status e]
      | Inr r \<Rightarrow> recorded (pc_effects (fst p)) [])"

lemma attempt_loop_recorded: "recorded (pc_effects cx) [] \<Longrightarrow> loop_recorded (attempt_loop env rq cx fallbacks)"
proof (induction fallbacks arbitrary: cx)
  case Nil
  then show ?case
    using recorded_final_failure
    by (simp add: attempt_loop.simps [of env rq cx] attempt_once_def Let_def loop_recorded_def
        split: sum.split send_result.split bool.split)
next
  case (Cons nxt rest)
  obtain cx1 r where a: "attempt_once env rq cx = (cx1, r)" by (cases "attempt_once env rq cx")
  have r1: "recorded (pc_effects cx1) []"
    using Cons.prems a by (auto simp: attempt_once_def Let_def split: sum.splits)
  have "recorded (pc_effects (record_retry kind nxt cx1)) []" for kind
    using r1 by (simp add: record_retry_fields)
  note retried = Cons.IH [OF this]
  show ?case
  proof (cases r)
    case (Failed kind)
    have "loop_recorded (map_prod id Inl (record_final_failure kind cx1))"
      using recorded_final_failure [OF r1] by (simp add: loop_recorded_def)
    then show ?thesis
      using retried by (cases "is_retryable kind") (simp_all add: attempt_loop.simps [of env rq cx] a Failed)
  qed (use r1 in \<open>simp_all add: attempt_loop.simps [of env rq cx] a loop_recorded_def\<close>)
qed

definition answer_recorded :: "effect list \<Rightarrow> (api_error + client_response) option \<Rightarrow> bool" where
  "answer_recorded es result \<longleftrightarrow>
     (case result of
        None \<Rightarrow> True
      | Some (Inl e) \<Rightarrow> recorded es [] \<or> recorded es [err_status e]
      | Some (Inr resp) \<Rightarrow> (case cr_body resp of Streamed None \<Rightarrow> True | _ \<Rightarrow> recorded es [cr_status resp]))"

lemma do_proxy_recorded:
  assumes "recorded (pc_effects cx) []"
  shows "answer_recorded (pc_effects (fst (do_proxy env rq cx fallbacks))) (snd (do_proxy env rq cx fallbacks))"
proof -
  obtain cx1 res where l: "attempt_loop env rq cx fallbacks = (cx1, res)" by (cases "attempt_loop env rq cx fallbacks")
  note loop = attempt_loop_recorded [OF assms, of env rq fallbacks, unfolded l loop_recorded_def]
  show ?thesis
  proof (cases res)
    case (Inl e)
    then show ?thesis using l loop by (simp add: do_proxy_def answer_recorded_def)
  next
    case (Inr r)
    then have r1: "recorded (pc_effects cx1) []" using loop by simp
    have "answer_recorded (pc_effects (fst (non_success_response r cx1))) (Some (snd (non_success_response r cx1)))"
      using r1 by (simp add: non_success_response_def forward_upstream_error_def non_success_effects_def Let_def
          answer_recorded_def recorded_def upstream_err_status split: option.split)
    moreover have "answer_recorded (pc_effects (fst (streaming_response env rq r cx1)))
        (Some (Inr (snd (streaming_response env rq r cx1))))"
      using r1 by (simp add: streaming_response_def stream_effects_def Let_def answer_recorded_def recorded_def
          split: option.split)
    moreover have "answer_recorded (pc_effects (fst (buffered_response env rq r cx1))) (snd (buffered_response env rq r cx1))"
      using r1 by (simp add: buffered_response_def Let_def answer_recorded_def recorded_def upstream_err_status
          map_upstream_status_def split: option.split sum.split body_read_error.split prod.split)
    ultimately show ?thesis using l Inr by (simp add: do_proxy_def)
  qed
qed

text \<open>The four ways in which the handler ends: an unknown endpoint, a panic of the router, a refusal before routing, the rest.\<close>

lemma proxy_v1_outcome:
  assumes "\<And>e c. P (rejected e [] c)"
    and "\<And>c. P \<lparr>po_result = None, po_effects = [], po_counters = c\<rparr>"
    and "\<And>e route ident model stream stage c. P (rejected e (preflight_effects route ident model stream stage e) c)"
    and "\<And>ident shape routes c. P (forward env cfg q ident shape routes c)"
  shows "P (proxy_v1 env cfg c q)"
proof -
  have selected: "P (case p of
         (None, c) \<Rightarrow> \<lparr>po_result = None, po_effects = [], po_counters = c\<rparr>
       | (Some (Inl e), c) \<Rightarrow> rejected e (preflight_effects a b d g h e) c
       | (Some (Inr routes), c) \<Rightarrow> forward env cfg q ident shape routes c)" for p a b d g h ident shape
    using assms by (cases p; cases "fst p"; cases "the (fst p)") simp_all
  show ?thesis
    unfolding proxy_v1_def Let_def using assms(1,3) selected by (simp split: sum.split)
qed

lemma proxy_v1_recorded:
  "answer_recorded (po_effects (proxy_v1 env cfg c q)) (po_result (proxy_v1 env cfg c q))"
proof (rule proxy_v1_outcome [where P = "\<lambda>out. answer_recorded (po_effects out) (po_result out)"])
  show "answer_recorded (po_effects (forward env cfg q ident shape routes c))
      (po_result (forward env cfg q ident shape routes c))" for ident shape routes c
    by (simp add: forward_def Let_def split_beta do_proxy_recorded)
qed (simp_all add: rejected_def preflight_effects_def answer_recorded_def recorded_def)

text \<open>
  C25: what is recorded is what the client is told.  A response is recorded once in the request metrics and
  once as a final inspector record, both under the status the client receives; an error is recorded under its
  status, once in each, or in neither; a request is never counted twice, however many backends were tried.
\<close>

theorem answers_recorded:
  "answer_recorded (po_effects (proxy_v1 env cfg c q)) (po_result (proxy_v1 env cfg c q))"
  by (rule proxy_v1_recorded)

text \<open>
  A request whose body cannot be rewritten leaves no trace.  The refusal goes to the client although no
  fallback was tried, the attempt is counted, and neither a request metric nor a final inspector record nor a
  health report is written.
\<close>

theorem rewrite_refusal_unrecorded:
  "case prepare_outbound env rq (pc_route cx) of
     Inl e \<Rightarrow> do_proxy env rq cx fallbacks =
       (cx\<lparr>pc_effects := pc_effects cx @ [BackendAttempt (pc_labels cx)]\<rparr>, Some (Inl e))
   | Inr _ \<Rightarrow> True"
  by (simp add: do_proxy_def attempt_loop.simps [of env rq cx] attempt_once_def Let_def emit_effects_def
      split: sum.split)

end
