(* ===== verification/End_To_End.thy ===== *)
theory End_To_End
  imports Routing_Correct Proxy_Correct
begin

text \<open>
  Properties that span the configuration, authentication, the router and the request path: where requests
  go under a configuration that was resolved, and what a whitelisted model is answered with.
\<close>

lemma admissible_backend:
  assumes "admissible rq cand"
  shows "\<exists>b \<in> set (rq_backends rq). sr_weight cand = be_weight b \<and> sr_backend_id cand = be_id b \<and>
    sr_base_url cand = be_base_url b \<and> sr_api_key cand = be_api_key b"
proof (cases "rq_model rq")
  case None
  then show ?thesis using assms by (auto simp: admissible_def build_candidate_def)
next
  case (Some m)
  then show ?thesis
    using assms by (auto simp: admissible_def build_candidate_def find_backend_def dest: find_SomeD)
qed

lemma selected_backend:
  assumes "fst (select g rq c) = Some (Inr v)" and "cand \<in> set (nev_iter v)"
  shows "\<exists>b \<in> set (rq_backends rq). sr_backend_id cand = be_id b \<and> sr_base_url cand = be_base_url b \<and>
    sr_api_key cand = be_api_key b"
proof -
  obtain c' where s: "select g rq c = (Some (Inr v), c')" using assms(1) by (cases "select g rq c") simp
  then obtain cs t where cs: "collect_candidates rq = Inr (cs, t)" "cs \<noteq> []"
    and a: "apply_strategy g rq cs c = (Some (nev_iter v), c')"
    using select_ok_cases by blast
  then have "set (nev_iter v) = set cs" using strat.order_set [of g rq cs c "nev_iter v"] by simp
  then have "admissible rq cand" using collect_candidates_set [OF cs(1)] assms(2) by blast
  then show ?thesis using admissible_backend by blast
qed

section \<open>Where requests go\<close>

lemma admitted_routes:
  assumes "admitted env cfg c q = Some (stream, routes)" and "r \<in> set routes"
  shows "\<exists>b \<in> set (cfg_backends cfg). sr_backend_id r = be_id b \<and> sr_base_url r = be_base_url b \<and>
    sr_api_key r = be_api_key b"
proof -
  obtain ident shape v where
    "fst (select (pe_gen_range env) (proxy_selection cfg q ident shape) c) = Some (Inr v)"
    and "routes = nev_iter v"
    using assms(1) by (auto simp: admitted_def Let_def split: sum.splits if_splits option.splits)
  then show ?thesis
    using selected_backend [of "pe_gen_range env" "proxy_selection cfg q ident shape" c v r] assms(2)
    by (simp add: proxy_selection_def)
qed

lemma failover_prepared:
  "(b, ob) \<in> set (fst (failover env rq k rs)) \<Longrightarrow>
     \<exists>r \<in> set rs. b = sr_backend_id r \<and> prepare_outbound env rq r = Inr ob"
proof (induction rs arbitrary: k)
  case (Cons r rs)
  show ?case
  proof (cases "\<exists>k. (b, ob) \<in> set (fst (failover env rq k rs))")
    case True
    then show ?thesis using Cons.IH by auto
  next
    case False
    then show ?thesis
      using Cons.prems
      by (auto simp: Let_def split_beta split: sum.splits send_result.splits if_splits)
  qed
qed simp

lemma prepared_outbound:
  assumes "prepare_outbound env rq r = Inr ob"
  shows "\<exists>rest. ob_url ob = sr_base_url r @ upstream_path_for_mode (upstream_path (pr_path rq)) (sr_request_mode r) @ rest"
    and "\<exists>has_body. ob_headers ob = outbound_headers env rq r has_body"
  using assms by (auto simp: prepare_outbound_def Let_def upstream_url_def split: sum.splits)

lemma outbound_authorization:
  "sr_api_key r = Some key \<Longrightarrow> pe_header_value_ok env (''Bearer '' @ key) \<Longrightarrow>
     header_get (outbound_headers env rq r has_body) ''authorization'' = Some (''Bearer '' @ key)"
  by (simp add: outbound_headers_def header_get_version_part header_get_key_part)

definition addressed_to :: "proxy_env \<Rightarrow> resolved_backend \<Rightarrow> string \<times> outbound \<Rightarrow> bool" where
  "addressed_to env b p \<longleftrightarrow>
     fst p = be_id b \<and> take (length (be_base_url b)) (ob_url (snd p)) = be_base_url b \<and>
     (case be_api_key b of
        None \<Rightarrow> True
      | Some key \<Rightarrow> pe_header_value_ok env (''Bearer '' @ key) \<longrightarrow>
          header_get (ob_headers (snd p)) ''authorization'' = Some (''Bearer '' @ key))"

lemma proxy_v1_sent_configured:
  assumes "p \<in> set (sent (po_effects (proxy_v1 env cfg c q)))"
  shows "\<exists>b \<in> set (cfg_backends cfg). addressed_to env b p"
proof -
  obtain stream routes where a: "admitted env cfg c q = Some (stream, routes)"
    using assms by (cases "admitted env cfg c q") (auto simp: sent_proxy_v1)
  let ?rq = "to_proxy_request q stream"
  obtain id ob where p: "p = (id, ob)" by fastforce
  let ?k = "1 + rc_fallback_attempts (cfg_routing cfg)"
  have "(id, ob) \<in> set (fst (failover env ?rq 1 (take ?k routes)))"
    using assms a p by (simp add: sent_proxy_v1)
  from failover_prepared [OF this]
  obtain r where r: "r \<in> set routes" "id = sr_backend_id r" "prepare_outbound env ?rq r = Inr ob"
    using set_take_subset [of ?k routes] by blast
  obtain b where b: "b \<in> set (cfg_backends cfg)" "sr_backend_id r = be_id b" "sr_base_url r = be_base_url b"
    "sr_api_key r = be_api_key b"
    using admitted_routes [OF a r(1)] by blast
  show ?thesis
    using prepared_outbound [OF r(3)] outbound_authorization [of r _ env ?rq] r(2) b p
    by (intro bexI [OF _ b(1)]) (auto simp: addressed_to_def split: option.split)
qed

lemma proxy_v1_sent_length:
  assumes "config_wf cfg"
  shows "length (sent (po_effects (proxy_v1 env cfg c q))) \<le> 17"
proof (cases "admitted env cfg c q")
  case None
  then show ?thesis by (simp add: sent_proxy_v1)
next
  case (Some a)
  then obtain stream routes where a: "admitted env cfg c q = Some (stream, routes)" by (cases a) simp
  let ?k = "1 + rc_fallback_attempts (cfg_routing cfg)"
  have "?k \<le> 17" using assms by (simp add: config_wf_def MAX_FALLBACK_ATTEMPTS_def)
  then show ?thesis
    using failover_length [of env "to_proxy_request q stream" 1 "take ?k routes"] a by (simp add: sent_proxy_v1)
qed

text \<open>
  C2: requests go where the operator configured them to go.  Whatever a client sends, under a configuration
  that was resolved every upstream request is addressed to a configured backend, starts with that backend's
  base URL and carries that backend's key where it has one that is a valid header value, never the key of
  another; and no client request causes more than seventeen upstream requests.
\<close>

theorem requests_reach_configured_backends:
  assumes "config_wf cfg"
  shows "length (sent (po_effects (proxy_v1 env cfg c q))) \<le> 17 \<and>
    list_all (\<lambda>p. \<exists>b \<in> set (cfg_backends cfg). addressed_to env b p) (sent (po_effects (proxy_v1 env cfg c q)))"
  using proxy_v1_sent_length [OF assms] proxy_v1_sent_configured by (auto simp: list_all_iff)

theorem requests_reach_configured_backends_witness:
  "config_wf example_config \<and>
   (\<forall>env c q. length (sent (po_effects (proxy_v1 env example_config c q))) \<le> 17)"
proof -
  have wf: "config_wf example_config" by (rule resolve_establishes_wf [OF example_resolve])
  show ?thesis using wf requests_reach_configured_backends [OF wf] by blast
qed

section \<open>What a whitelisted model is answered with\<close>

lemma authenticated_client:
  assumes "authenticate headers clients = Inr ident"
  shows "\<exists>cl \<in> set clients. id_id ident = cl_id cl \<and> id_models ident = cl_models cl"
proof -
  obtain token msg where "ok_or (map_option (\<lambda>c. \<lparr>id_id = cl_id c, id_models = cl_models c\<rparr>)
      (find (\<lambda>c. token_matches token (cl_api_key c)) clients)) (authentication msg) = Inr ident"
    using assms by (auto simp: authenticate_def fold_first_match Let_def split: option.splits)
  then show ?thesis
    by (cases "find (\<lambda>c. token_matches token (cl_api_key c)) clients")
      (auto simp: ok_or_def dest: find_SomeD)
qed

lemma refusal_of_routed_model:
  assumes "find_public_route (rq_routes rq) m = Some route" and "rq_model rq = Some m"
    and "fst (select g rq c) = Some (Inl e)"
  shows "err_code e \<noteq> Some ''model_not_found''"
proof -
  obtain cs t where cc: "collect_candidates rq = Inr (cs, t)"
    using assms(1,2) by (cases "fold (model_step rq route) (rt_backends route) ([], False)")
      (simp add: collect_candidates_def)
  obtain rot c1 where "apply_strategy g rq cs c = (rot, c1)" by (cases "apply_strategy g rq cs c")
  then have "cs = []"
    using assms(3) cc by (cases rot) (auto simp: select_def nev_from_vec_def split: if_splits list.splits)
  then have "e = bad_request ''The selected model does not support tool calling.'' (Some ''tools'') \<or>
      e = endpoint_unavailable (rq_path rq) (rq_model rq)"
    using assms(3) cc by (simp add: select_def split: if_splits)
  then show ?thesis by (auto simp: bad_request_def endpoint_unavailable_def)
qed

text \<open>
  The models a client is granted exist.  Under a configuration that was resolved, a model of an
  authenticated client's whitelist has a public route, the backends the route binds are configured, and the
  router answers a request for it with candidates, with the tool-calling refusal or with the
  endpoint-unavailable error, never with \<open>model_not_found\<close>.
\<close>

theorem whitelisted_model_routable:
  assumes "config_wf cfg" and "authenticate headers (cfg_clients cfg) = Inr ident" and "m \<in> set (id_models ident)"
    and "rq_routes rq = cfg_routes cfg" and "rq_model rq = Some m"
  shows "(\<exists>route. find_public_route (cfg_routes cfg) m = Some route \<and>
      list_all (\<lambda>b. find_backend (cfg_backends cfg) (rb_backend_id b) \<noteq> None) (rt_backends route)) \<and>
    fst (select g rq c) \<noteq> Some (Inl (model_not_found m))"
proof -
  have "has_public_route (cfg_routes cfg) m"
    using authenticated_client [OF assms(2)] assms(1,3) by (auto simp: config_wf_def list_all_iff)
  then obtain route where r: "find_public_route (cfg_routes cfg) m = Some route"
    by (cases "find_public_route (cfg_routes cfg) m")
      (auto simp: has_public_route_def find_public_route_def list_ex_iff find_None_iff)
  then have "route \<in> set (cfg_routes cfg)" by (auto simp: find_public_route_def dest: find_SomeD)
  then have "\<forall>b \<in> set (rt_backends route). rb_backend_id b \<in> be_id ` set (cfg_backends cfg)"
    using assms(1) by (simp add: config_wf_def routes_wf_def list_all_iff)
  then have bound: "list_all (\<lambda>b. find_backend (cfg_backends cfg) (rb_backend_id b) \<noteq> None) (rt_backends route)"
    by (fastforce simp: list_all_iff find_backend_def find_None_iff)
  have "fst (select g rq c) \<noteq> Some (Inl (model_not_found m))"
    using refusal_of_routed_model [of rq m route g c "model_not_found m"] r assms(4,5)
    by (auto simp: model_not_found_def)
  then show ?thesis using r bound by blast
qed

theorem whitelisted_model_routable_witness:
  "config_wf example_config \<and>
   authenticate [(''x-api-key'', ''k'')] (cfg_clients example_config) = Inr \<lparr>id_id = ''a'', id_models = [''gpt'']\<rparr> \<and>
   fst (select (\<lambda>_. 0) \<lparr>rq_backends = cfg_backends example_config, rq_routes = cfg_routes example_config,
      rq_strategy = Priority, rq_path = ''/v1/embeddings'', rq_model = Some ''gpt'', rq_stream = False,
      rq_tools = True, rq_sticky_key = None\<rparr> Map.empty) \<noteq> Some (Inl (model_not_found ''gpt''))"
proof -
  have wf: "config_wf example_config" by (rule resolve_establishes_wf [OF example_resolve])
  have "to_str ''k'' = Some ''k''" by code_simp
  then have a: "authenticate [(''x-api-key'', ''k'')] (cfg_clients example_config) =
      Inr \<lparr>id_id = ''a'', id_models = [''gpt'']\<rparr>"
    by (simp add: authenticate_def bearer_token_def x_api_key_def header_get_def example_config_def token_matches_def)
  show ?thesis
    using wf a whitelisted_model_routable [OF wf a, of "''gpt''" "\<lparr>rq_backends = cfg_backends example_config,
      rq_routes = cfg_routes example_config, rq_strategy = Priority, rq_path = ''/v1/embeddings'',
      rq_model = Some ''gpt'', rq_stream = False, rq_tools = True, rq_sticky_key = None\<rparr>" "\<lambda>_. 0" Map.empty]
    by simp
qed

end
