(* ===== verification/Ip_Text.thy ===== *)
theory Ip_Text
  imports Ip_Cidr
begin

text \<open>
  The text of socket and IP addresses as the standard library prints and parses it, IPv6 compression,
  mapped addresses, scopes and ports included, and the proof that printing and parsing are inverse.  The
  program formats addresses and decides on what it parses back, so its decisions rest on this.
\<close>

section \<open>Socket addresses and their text\<close>

text \<open>A socket address: the address, the port and the scope of an IPv6 address.\<close>

datatype socket_addr = SocketV4 u32 u16 | SocketV6 u128 u16 u32

fun sa_ip :: "socket_addr \<Rightarrow> ip_addr" where
  "sa_ip (SocketV4 a p) = V4 a"
| "sa_ip (SocketV6 a p scope) = V6 a"

fun is_loopback :: "ip_addr \<Rightarrow> bool" where
  "is_loopback (V4 a) = (unat a div 2 ^ 24 = 127)"
| "is_loopback (V6 a) = (a = 1)"

fun digits_of :: "nat \<Rightarrow> nat \<Rightarrow> nat \<Rightarrow> nat list" where
  "digits_of base 0 n = []"
| "digits_of base (Suc k) n = digits_of base k (n div base) @ [n mod base]"

definition hex_digit :: "nat \<Rightarrow> char" where
  "hex_digit d = char_of (if d < 10 then 48 + d else 87 + d)"

fun show_hex :: "nat \<Rightarrow> string" where
  "show_hex n = (if n < 16 then [hex_digit n] else show_hex (n div 16) @ [hex_digit (n mod 16)])"

declare show_hex.simps [simp del]

definition show_ipv4 :: "u32 \<Rightarrow> string" where
  "show_ipv4 a = join ''.'' (map show_nat (digits_of 256 4 (unat a)))"

definition show_groups :: "nat list \<Rightarrow> string" where
  "show_groups gs = join '':'' (map show_hex gs)"

text \<open>The first longest run of zero groups, as its start and length; \<open>i\<close> is the index of the next group.\<close>

fun zero_run :: "nat \<Rightarrow> nat \<times> nat \<Rightarrow> nat \<times> nat \<Rightarrow> nat list \<Rightarrow> nat \<times> nat" where
  "zero_run i longest current [] = longest"
| "zero_run i longest current (g # gs) =
     (if g = 0 then
        (let current = (if snd current = 0 then i else fst current, snd current + 1)
         in zero_run (i + 1) (if snd longest < snd current then current else longest) current gs)
      else zero_run (i + 1) longest (0, 0) gs)"

definition show_ipv6 :: "u128 \<Rightarrow> string" where
  "show_ipv6 a =
     (let gs = digits_of 65536 8 (unat a)
      in if take 6 gs = [0, 0, 0, 0, 0, 65535] then ''::ffff:'' @ show_ipv4 (of_nat (unat a mod 2 ^ 32))
         else let (start, len) = zero_run 0 (0, 0) (0, 0) gs
              in if 1 < len then show_groups (take start gs) @ ''::'' @ show_groups (drop (start + len) gs)
                 else show_groups gs)"

fun show_ip :: "ip_addr \<Rightarrow> string" where
  "show_ip (V4 a) = show_ipv4 a"
| "show_ip (V6 a) = show_ipv6 a"

fun show_socket :: "socket_addr \<Rightarrow> string" where
  "show_socket (SocketV4 a p) = show_ipv4 a @ '':'' @ show_nat (unat p)"
| "show_socket (SocketV6 a p scope) =
     (if scope = 0 then ''['' @ show_ipv6 a @ '']:'' @ show_nat (unat p)
      else ''['' @ show_ipv6 a @ ''%'' @ show_nat (unat scope) @ '']:'' @ show_nat (unat p))"

text \<open>\<open>read_number\<close> without a bound on the digits, as the parser uses it for ports and scopes.\<close>

definition read_decimal :: "nat \<Rightarrow> string \<Rightarrow> (nat \<times> string) option" where
  "read_decimal max_value s =
     (let ds = takeWhile is_ascii_digit s; v = number_value 10 ds
      in if ds = [] \<or> max_value < v then None else Some (v, dropWhile is_ascii_digit s))"

definition read_char :: "char \<Rightarrow> string \<Rightarrow> string option" where
  "read_char c s = (case s of x # t \<Rightarrow> if x = c then Some t else None | [] \<Rightarrow> None)"

definition read_port :: "string \<Rightarrow> (nat \<times> string) option" where
  "read_port s = Option.bind (read_char CHR '':'' s) (read_decimal 65535)"

definition read_scope_id :: "string \<Rightarrow> (nat \<times> string) option" where
  "read_scope_id s = Option.bind (read_char CHR ''%'' s) (read_decimal 4294967295)"

definition read_socket_addr_v4 :: "string \<Rightarrow> (socket_addr \<times> string) option" where
  "read_socket_addr_v4 s =
     (case read_ipv4_addr s of
        None \<Rightarrow> None
      | Some (os, rest) \<Rightarrow>
          map_option (\<lambda>(p, rest). (SocketV4 (of_nat (groups_value 256 os)) (of_nat p), rest)) (read_port rest))"

definition read_socket_addr_v6 :: "string \<Rightarrow> (socket_addr \<times> string) option" where
  "read_socket_addr_v6 s =
     (case Option.bind (read_char CHR ''['' s) read_ipv6_addr of
        None \<Rightarrow> None
      | Some (gs, rest) \<Rightarrow>
          (let (scope, rest) = (case read_scope_id rest of Some (v, rest') \<Rightarrow> (v, rest') | None \<Rightarrow> (0, rest))
           in map_option
                (\<lambda>(p, rest). (SocketV6 (of_nat (groups_value 65536 gs)) (of_nat p) (of_nat scope), rest))
                (Option.bind (read_char CHR '']'' rest) read_port)))"

definition parse_socket_addr :: "string \<Rightarrow> socket_addr option" where
  "parse_socket_addr s =
     (case (case read_socket_addr_v4 s of Some r \<Rightarrow> Some r | None \<Rightarrow> read_socket_addr_v6 s) of
        Some (a, rest) \<Rightarrow> if rest = [] then Some a else None
      | None \<Rightarrow> None)"

section \<open>Round trips of addresses\<close>

lemma groups_value_snoc: "groups_value base (gs @ [g]) = groups_value base gs * base + g"
  by (simp add: groups_value_def)

lemma length_digits_of [simp]: "length (digits_of base k n) = k"
  by (induction k arbitrary: n) simp_all

lemma digits_of_less: "0 < base \<Longrightarrow> d \<in> set (digits_of base k n) \<Longrightarrow> d < base"
  by (induction k arbitrary: n) auto

lemma groups_value_digits: "groups_value base (digits_of base k n) = n mod base ^ k"
proof (induction k arbitrary: n)
  case (Suc k)
  have "(n div base) mod base ^ k * base + n mod base = n mod (base * base ^ k)"
    by (simp add: mod_mult2_eq)
  then show ?case using Suc by (simp add: groups_value_snoc)
qed (simp add: groups_value_def)

lemma number_value_snoc:
  "number_value radix (ds @ [c]) = number_value radix ds * radix + (case digit_value radix c of None \<Rightarrow> 0 | Some v \<Rightarrow> v)"
  by (simp add: number_value_def)

lemma byte_char_of [simp]: "n < 256 \<Longrightarrow> byte (char_of n) = n"
  by (simp add: byte_def)

lemma digit_value_dec: "d < 10 \<Longrightarrow> digit_value 10 (char_of (48 + d)) = Some d"
  by simp

lemma digit_value_hex: "d < 16 \<Longrightarrow> digit_value 16 (hex_digit d) = Some d"
  by (auto simp: hex_digit_def)

lemma digit_value_digit: "digit_value 10 c \<noteq> None \<longleftrightarrow> is_ascii_digit c"
  by (auto simp: is_ascii_digit_def Let_def)

text \<open>Numbers are printed in the digits of their radix, without a leading zero, and read back.\<close>

lemma number_value_show_nat: "number_value 10 (show_nat n) = n"
proof (induction n rule: show_nat.induct)
  case (1 n)
  show ?case
  proof (cases "n < 10")
    case True
    then show ?thesis using digit_value_dec [of n]
      by (simp add: show_nat.simps [of n] number_value_def del: digit_value.simps)
  next
    case False
    then show ?thesis using 1 digit_value_dec [of "n mod 10"]
      by (simp add: show_nat.simps [of n] number_value_snoc del: digit_value.simps)
  qed
qed

lemma number_value_show_hex: "number_value 16 (show_hex n) = n"
proof (induction n rule: show_hex.induct)
  case (1 n)
  show ?case
  proof (cases "n < 16")
    case True
    then show ?thesis using digit_value_hex [of n]
      by (simp add: show_hex.simps [of n] number_value_def del: digit_value.simps)
  next
    case False
    then show ?thesis using 1 digit_value_hex [of "n mod 16"]
      by (simp add: show_hex.simps [of n] number_value_snoc del: digit_value.simps)
  qed
qed

lemma show_hex_digits: "c \<in> set (show_hex n) \<Longrightarrow> digit_value 16 c \<noteq> None"
proof (induction n rule: show_hex.induct)
  case (1 n)
  then show ?case
    using digit_value_hex [of n] digit_value_hex [of "n mod 16"]
    by (subst (asm) (2) show_hex.simps) (auto simp del: digit_value.simps split: if_splits)
qed

lemma show_nat_not_Nil [simp]: "show_nat n \<noteq> []"
  by (simp add: show_nat.simps [of n])

lemma show_hex_not_Nil [simp]: "show_hex n \<noteq> []"
  by (simp add: show_hex.simps [of n])

lemma length_show_nat: "n < 10 ^ Suc k \<Longrightarrow> length (show_nat n) \<le> Suc k"
proof (induction k arbitrary: n)
  case 0
  then show ?case by (simp add: show_nat.simps [of n])
next
  case (Suc k)
  have "n div 10 < 10 ^ Suc k" using Suc.prems by (simp add: less_mult_imp_div_less)
  then show ?case using Suc.IH [of "n div 10"] by (simp add: show_nat.simps [of n])
qed

lemma length_show_hex: "n < 16 ^ Suc k \<Longrightarrow> length (show_hex n) \<le> Suc k"
proof (induction k arbitrary: n)
  case 0
  then show ?case by (simp add: show_hex.simps [of n])
next
  case (Suc k)
  have "n div 16 < 16 ^ Suc k" using Suc.prems by (simp add: less_mult_imp_div_less)
  then show ?case using Suc.IH [of "n div 16"] by (simp add: show_hex.simps [of n])
qed

lemma hd_show_nat: "hd (show_nat n) = CHR ''0'' \<Longrightarrow> n = 0"
proof (induction n rule: show_nat.induct)
  case (1 n)
  show ?case
  proof (cases "n < 10")
    case True
    have "byte (hd (show_nat n)) = 48" using 1(2) by (simp add: byte_def)
    then show ?thesis using True by (simp add: show_nat.simps [of n])
  next
    case False
    then have "n div 10 = 0" using 1 by (simp add: show_nat.simps [of n])
    then show ?thesis using False by simp
  qed
qed

text \<open>A separator ends a number.\<close>

definition ends_number :: "nat \<Rightarrow> string \<Rightarrow> bool" where
  "ends_number radix rest \<longleftrightarrow> rest = [] \<or> digit_value radix (hd rest) = None"

lemma ends_number_Nil [simp]: "ends_number radix []"
  by (simp add: ends_number_def)

lemma ends_number_sep [simp]:
  "ends_number 10 (CHR ''.'' # s)" "ends_number 10 (CHR '':'' # s)" "ends_number 10 (CHR '']'' # s)"
  "ends_number 16 (CHR '':'' # s)" "ends_number 16 (CHR '']'' # s)" "ends_number 16 (CHR ''%'' # s)"
  by (simp_all add: ends_number_def byte_def Let_def)

lemma digits_end:
  assumes "\<And>c. c \<in> set ds \<Longrightarrow> digit_value radix c \<noteq> None" and "ends_number radix rest"
  shows "takeWhile (\<lambda>c. digit_value radix c \<noteq> None) (ds @ rest) = ds"
    "dropWhile (\<lambda>c. digit_value radix c \<noteq> None) (ds @ rest) = rest"
proof -
  have "takeWhile (\<lambda>c. digit_value radix c \<noteq> None) rest = []"
    "dropWhile (\<lambda>c. digit_value radix c \<noteq> None) rest = rest"
    using assms(2) by (cases rest; simp add: ends_number_def del: digit_value.simps)+
  then show "takeWhile (\<lambda>c. digit_value radix c \<noteq> None) (ds @ rest) = ds"
    "dropWhile (\<lambda>c. digit_value radix c \<noteq> None) (ds @ rest) = rest"
    using assms(1) by (simp_all add: takeWhile_append2 dropWhile_append2 del: digit_value.simps)
qed

lemma read_number_dec:
  assumes "n \<le> 255" and "ends_number 10 rest"
  shows "read_number 10 3 False 255 (show_nat n @ rest) = Some (n, rest)"
proof -
  have d: "\<And>c. c \<in> set (show_nat n) \<Longrightarrow> digit_value 10 c \<noteq> None"
    using show_nat_digits digit_value_digit by blast
  have "length (show_nat n) \<le> 3" using length_show_nat [of n 2] assms(1) by simp
  moreover have "length (show_nat n) \<le> 1" if "hd (show_nat n) = CHR ''0''"
    using hd_show_nat [OF that] by (simp add: show_nat.simps)
  ultimately show ?thesis
    using assms(1) digits_end [OF d assms(2)]
    by (auto simp: read_number_def Let_def number_value_show_nat simp del: digit_value.simps)
qed

lemma read_number_hex:
  assumes "n < 65536" and "ends_number 16 rest"
  shows "read_number 16 4 True 65535 (show_hex n @ rest) = Some (n, rest)"
proof -
  have "length (show_hex n) \<le> 4" using length_show_hex [of n 3] assms(1) by simp
  then show ?thesis
    using assms(1) digits_end [OF show_hex_digits assms(2)]
    by (auto simp: read_number_def Let_def number_value_show_hex simp del: digit_value.simps)
qed

lemma read_decimal_show_nat:
  assumes "n \<le> m" and "ends_number 10 rest"
  shows "read_decimal m (show_nat n @ rest) = Some (n, rest)"
proof -
  have "\<And>c. c \<in> set (show_nat n) \<Longrightarrow> digit_value 10 c \<noteq> None"
    using show_nat_digits digit_value_digit by blast
  note e = digits_end [OF this assms(2), unfolded digit_value_digit]
  show ?thesis using assms(1) by (simp add: read_decimal_def Let_def number_value_show_nat e)
qed

lemma read_ipv4_addr_Suc: "read_ipv4_addr s = read_octets (Suc (Suc (Suc (Suc 0)))) 0 s"
  by (simp add: read_ipv4_addr_def eval_nat_numeral)

lemma read_octets_show:
  assumes "length os = 4" and "\<forall>v \<in> set os. v \<le> 255" and "ends_number 10 rest"
  shows "read_ipv4_addr (join ''.'' (map show_nat os) @ rest) = Some (os, rest)"
proof -
  from assms(1) obtain a b c d where os: "os = [a, b, c, d]"
    by (auto simp: length_Suc_conv eval_nat_numeral)
  then show ?thesis
    using assms(2,3) by (simp add: read_ipv4_addr_Suc read_separator_def read_number_dec)
qed

lemma read_ipv4_show:
  "ends_number 10 rest \<Longrightarrow> read_ipv4_addr (show_ipv4 a @ rest) = Some (digits_of 256 4 (unat a), rest)"
  unfolding show_ipv4_def
  by (rule read_octets_show) (auto dest: digits_of_less [rotated] simp del: digits_of.simps)


lemma read_ipv4_no_digit: "ends_number 10 s \<Longrightarrow> read_ipv4_addr s = None"
  by (cases s) (simp_all add: read_ipv4_addr_Suc read_separator_def read_number_def ends_number_def Let_def
      del: digit_value.simps)

lemma read_ipv4_no_dot: "CHR ''.'' \<notin> set s \<Longrightarrow> read_ipv4_addr s = None"
proof -
  assume "CHR ''.'' \<notin> set s"
  then have "CHR ''.'' \<notin> set rest" if "read_number 10 3 False 255 s = Some (v, rest)" for v rest
    using that by (auto simp: read_number_def Let_def simp del: digit_value.simps split: if_splits dest: set_dropWhileD)
  then have "read_separator CHR ''.'' (Suc 0) f rest = None"
    if "read_number 10 3 False 255 s = Some (v, rest)" for v rest and f :: "string \<Rightarrow> (nat \<times> string) option"
    using that by (cases rest) (fastforce simp: read_separator_def)+
  then show ?thesis
    by (auto simp: read_ipv4_addr_Suc read_separator_def [of _ 0] split: option.splits prod.splits)
qed

text \<open>What follows the groups of an address: nothing, the end of the brackets, a scope or the compressed run.\<close>

definition ends_groups :: "string \<Rightarrow> bool" where
  "ends_groups rest \<longleftrightarrow> CHR ''.'' \<notin> set rest \<and>
     (rest = [] \<or> hd rest = CHR '']'' \<or> hd rest = CHR ''%'' \<or> starts_with ''::'' rest)"

lemma ends_groups_number: "ends_groups rest \<Longrightarrow> ends_number 16 rest"
  by (cases rest) (auto simp: ends_groups_def starts_with_iff ends_number_def byte_def Let_def)

lemma read_number_ends: "ends_number 16 rest \<Longrightarrow> read_number 16 4 True 65535 rest = None"
  by (cases rest) (simp_all add: read_number_def ends_number_def Let_def del: digit_value.simps)

lemma read_separator_ends:
  "ends_groups rest \<Longrightarrow> read_separator CHR '':'' i (read_number 16 4 True 65535) rest = None"
  using ends_groups_number [of rest] read_number_ends [of rest]
  by (auto simp: read_separator_def ends_groups_def starts_with_iff read_number_ends split: list.splits)

lemma read_separator_no_dot:
  "CHR ''.'' \<notin> set s \<Longrightarrow> read_separator CHR '':'' i read_ipv4_addr s = None"
  by (cases s) (auto simp: read_separator_def read_ipv4_no_dot)

lemma read_groups_stop: "ends_groups rest \<Longrightarrow> read_groups n i rest = ([], False, rest)"
  by (cases n) (simp_all add: read_separator_ends read_separator_no_dot ends_groups_def [THEN iffD1])

lemma show_hex_no_dot: "CHR ''.'' \<notin> set (show_hex g)"
  using show_hex_digits [of "CHR ''.''" g] by (auto simp: byte_def Let_def)

definition more_groups :: "nat list \<Rightarrow> string" where
  "more_groups gs = concat (map (\<lambda>g. '':'' @ show_hex g) gs)"

lemma more_groups_simps [simp]:
  "more_groups [] = []" "more_groups (g # gs) = CHR '':'' # show_hex g @ more_groups gs"
  by (simp_all add: more_groups_def)

lemma more_groups_no_dot: "CHR ''.'' \<notin> set (more_groups gs)"
  using show_hex_no_dot by (induction gs) auto

lemma more_groups_ends: "ends_groups rest \<Longrightarrow> ends_number 16 (more_groups gs @ rest)"
  by (cases gs) (simp_all add: ends_groups_number)

lemma show_groups_Cons: "show_groups (g # gs) = show_hex g @ more_groups gs"
proof (induction gs arbitrary: g)
  case (Cons h gs)
  then show ?case by (simp add: show_groups_def)
qed (simp add: show_groups_def)

lemma read_more_groups:
  assumes "length gs \<le> n" and "\<forall>g \<in> set gs. g < 65536" and "ends_groups rest" and "0 < i"
  shows "read_groups n i (more_groups gs @ rest) = (gs, False, rest)"
  using assms
proof (induction gs arbitrary: n i)
  case Nil
  then show ?case by (simp add: read_groups_stop)
next
  case (Cons g gs)
  from Cons.prems obtain m where n: "n = Suc m" "length gs \<le> m" by (cases n) auto
  have dot: "read_separator CHR '':'' i read_ipv4_addr (more_groups (g # gs) @ rest) = None"
    using Cons.prems(3) more_groups_no_dot [of "g # gs"]
    by (intro read_separator_no_dot) (auto simp: ends_groups_def)
  have num: "read_separator CHR '':'' i (read_number 16 4 True 65535) (more_groups (g # gs) @ rest) =
      Some (g, more_groups gs @ rest)"
    using Cons.prems read_number_hex [of g "more_groups gs @ rest"] more_groups_ends
    by (simp add: read_separator_def)
  show ?case using Cons.IH [of m "Suc i"] Cons.prems n dot num by (simp del: more_groups_simps)
qed

lemma read_show_groups:
  assumes "length gs \<le> n" and "\<forall>g \<in> set gs. g < 65536" and "ends_groups rest"
  shows "read_groups n 0 (show_groups gs @ rest) = (gs, False, rest)"
proof (cases gs)
  case Nil
  then show ?thesis using assms(3) by (simp add: show_groups_def read_groups_stop)
next
  case (Cons g hs)
  from assms(1) Cons obtain m where n: "n = Suc m" "length hs \<le> m" by (cases n) auto
  have dot: "read_separator CHR '':'' 0 read_ipv4_addr (show_groups gs @ rest) = None"
    using assms(3) more_groups_no_dot [of hs] show_hex_no_dot [of g] Cons
    by (intro read_separator_no_dot) (auto simp: ends_groups_def show_groups_Cons)
  have num: "read_separator CHR '':'' 0 (read_number 16 4 True 65535) (show_groups gs @ rest) =
      Some (g, more_groups hs @ rest)"
    using assms Cons read_number_hex [of g "more_groups hs @ rest"] more_groups_ends
    by (simp add: read_separator_def show_groups_Cons)
  show ?thesis using read_more_groups [of hs m rest "Suc 0"] assms n dot num Cons by simp
qed

text \<open>The run that is compressed consists of zeros.\<close>

definition zeros_at :: "nat list \<Rightarrow> nat \<times> nat \<Rightarrow> bool" where
  "zeros_at gs r \<longleftrightarrow> fst r + snd r \<le> length gs \<and> take (snd r) (drop (fst r) gs) = replicate (snd r) 0"

lemma zeros_at_snoc: "zeros_at gs r \<Longrightarrow> zeros_at (gs @ [g]) r"
  by (auto simp: zeros_at_def)

lemma zero_run_zeros:
  assumes "zeros_at ps longest"
    and "snd current = 0 \<or> fst current + snd current = length ps \<and> drop (fst current) ps = replicate (snd current) 0"
  shows "zeros_at (ps @ gs) (zero_run (length ps) longest current gs)"
  using assms
proof (induction gs arbitrary: ps longest current)
  case (Cons g gs)
  let ?cur = "(if snd current = 0 then length ps else fst current, snd current + 1)"
  show ?case
  proof (cases "g = 0")
    case False
    then show ?thesis
      using Cons.IH [of "ps @ [g]" longest "(0, 0)"] Cons.prems(1) by (simp add: zeros_at_snoc)
  next
    case True
    have cur: "fst ?cur + snd ?cur = length (ps @ [g]) \<and> drop (fst ?cur) (ps @ [g]) = replicate (snd ?cur) 0"
      using Cons.prems(2) True by (auto simp: replicate_append_same)
    then have "zeros_at (ps @ [g]) ?cur" by (auto simp: zeros_at_def)
    then have "zeros_at (ps @ [g]) (if snd longest < snd ?cur then ?cur else longest)"
      using Cons.prems(1) zeros_at_snoc by presburger
    from Cons.IH [OF this disjI2 [OF cur]] show ?thesis
      using True by (auto simp: Let_def split: if_splits)
  qed
qed simp


lemma digits_of_split: "digits_of base (j + k) n = digits_of base j (n div base ^ k) @ digits_of base k n"
proof (induction k arbitrary: n)
  case (Suc k)
  then show ?case by (simp add: div_mult2_eq [symmetric])
qed simp

lemma digits_of_mod:
  assumes "0 < base"
  shows "digits_of base k (n mod base ^ k) = digits_of base k n"
proof (induction k arbitrary: n)
  case (Suc k)
  have "n mod (base * base ^ k) div base = n div base mod base ^ k"
    using assms by (simp add: mod_mult2_eq)
  moreover have "n mod (base * base ^ k) mod base = n mod base" by (simp add: mod_mult2_eq)
  ultimately show ?case using Suc.IH [of "n div base"] by simp
qed simp

text \<open>The last two groups of a mapped address are its four octets.\<close>

lemma mapped_groups:
  obtains a b c d where "digits_of 256 4 n = [a, b, c, d]"
    and "digits_of 65536 2 n = [a * 256 + b, c * 256 + d]"
proof
  have m: "x mod 65536 = x div 256 mod 256 * 256 + x mod 256" for x :: nat
    using mod_mult2_eq [of x 256 256] by simp
  have four: "digits_of base 4 n = digits_of base (Suc (Suc (Suc (Suc 0)))) n"
    and two: "digits_of base 2 n = digits_of base (Suc (Suc 0)) n" for base
    by (simp_all add: eval_nat_numeral)
  show "digits_of 256 4 n = [n div 16777216 mod 256, n div 65536 mod 256, n div 256 mod 256, n mod 256]"
    by (simp add: four div_mult2_eq [symmetric])
  show "digits_of 65536 2 n =
      [n div 16777216 mod 256 * 256 + n div 65536 mod 256, n div 256 mod 256 * 256 + n mod 256]"
    using m [of "n div 65536"] m [of n] by (simp add: two div_mult2_eq [symmetric])
qed

lemma read_groups_ipv4:
  assumes "read_separator CHR '':'' i read_ipv4_addr s = Some ([a, b, c, d], rest)"
  shows "read_groups (Suc (Suc k)) i s = ([a * 256 + b, c * 256 + d], True, rest)"
  using assms by simp

lemma read_groups_step:
  assumes "read_separator CHR '':'' i read_ipv4_addr s = None"
    and "read_separator CHR '':'' i (read_number 16 4 True 65535) s = Some (g, rest)"
    and "read_groups k (Suc i) rest = (gs, v4, rest')"
  shows "read_groups (Suc k) i s = (g # gs, v4, rest')"
  using assms by simp

lemma read_groups_none:
  assumes "ends_number 16 s"
  shows "read_groups n 0 s = ([], False, s)"
proof -
  have "ends_number 10 s" using assms by (auto simp: ends_number_def Let_def split: if_splits)
  then show ?thesis
    using assms by (cases n) (simp_all add: read_separator_def read_ipv4_no_digit read_number_ends)
qed

lemma read_ipv6_mapped:
  assumes "ends_number 10 rest" and "take 6 (digits_of 65536 8 (unat a)) = [0, 0, 0, 0, 0, 65535]"
  shows "read_ipv6_addr (''::ffff:'' @ show_ipv4 (of_nat (unat a mod 2 ^ 32)) @ rest) =
    Some (digits_of 65536 8 (unat a), rest)"
proof -
  let ?v4 = "show_ipv4 (of_nat (unat a mod 2 ^ 32)) @ rest"
  obtain w x y z where os: "digits_of 256 4 (unat a) = [w, x, y, z]"
    and gs: "digits_of 65536 2 (unat a) = [w * 256 + x, y * 256 + z]" by (rule mapped_groups)
  have "unat (of_nat (unat a mod 2 ^ 32) :: u32) = unat a mod 256 ^ 4"
    by (simp add: unat_of_nat)
  then have v4: "read_ipv4_addr ?v4 = Some ([w, x, y, z], rest)"
    using read_ipv4_show [OF assms(1)] digits_of_mod [of 256 4 "unat a"] os by simp
  have "digits_of 65536 8 (unat a) = digits_of 65536 6 (unat a div 65536 ^ 2) @ digits_of 65536 2 (unat a)"
    using digits_of_split [of 65536 6 2] by simp
  then have all: "digits_of 65536 8 (unat a) = [0, 0, 0, 0, 0, 65535, w * 256 + x, y * 256 + z]"
    using assms(2) gs by simp
  have nine: "read_ipv4_addr (CHR ''f'' # s) = None" "read_ipv4_addr (CHR '':'' # s) = None" for s
    by (rule read_ipv4_no_digit; simp add: ends_number_def byte_def)+
  have seven: "read_groups 7 0 (''ffff:'' @ ?v4) = ([65535, w * 256 + x, y * 256 + z], True, rest)"
  proof -
    have f: "char_of (102 :: nat) = CHR ''f''" by (simp add: char_of_eq_iff)
    have n: "read_number 16 4 True 65535 (''ffff:'' @ ?v4) = Some (65535, '':'' @ ?v4)"
      using read_number_hex [of 65535 "'':'' @ ?v4"] f by (simp add: show_hex.simps hex_digit_def)
    have "read_groups (Suc (Suc 4)) (Suc 0) ('':'' @ ?v4) = ([w * 256 + x, y * 256 + z], True, rest)"
      using v4 by (intro read_groups_ipv4) (simp add: read_separator_def)
    then have "read_groups (Suc 6) 0 (''ffff:'' @ ?v4) = ([65535, w * 256 + x, y * 256 + z], True, rest)"
      using n nine by (intro read_groups_step) (simp_all add: read_separator_def)
    then show ?thesis by simp
  qed
  have "read_groups 8 0 (''::ffff:'' @ ?v4) = ([], False, ''::ffff:'' @ ?v4)"
    by (simp add: read_groups_none)
  moreover have "replicate 5 (0 :: nat) = [0, 0, 0, 0, 0]" by (simp add: eval_nat_numeral)
  ultimately show ?thesis using seven all
    by (simp add: read_ipv6_addr_def strip_prefix_def starts_with_def)
qed

lemma show_groups_no_dot: "CHR ''.'' \<notin> set (show_groups gs)"
proof (cases gs)
  case (Cons g hs)
  then show ?thesis using more_groups_no_dot [of hs] show_hex_no_dot [of g] by (simp only: show_groups_Cons) simp
qed (simp add: show_groups_def)

lemma read_ipv6_show:
  assumes "ends_groups rest" and "\<not> starts_with ''::'' rest"
  shows "read_ipv6_addr (show_ipv6 a @ rest) = Some (digits_of 65536 8 (unat a), rest)"
proof -
  let ?gs = "digits_of 65536 8 (unat a)"
  obtain start len where run: "zero_run 0 (0, 0) (0, 0) ?gs = (start, len)" by fastforce
  have zs: "start + len \<le> 8" "take len (drop start ?gs) = replicate len 0"
    using zero_run_zeros [of "[]" "(0, 0)" "(0, 0)" ?gs] run by (auto simp: zeros_at_def)
  have small: "\<forall>g \<in> set ?gs. g < 65536" using digits_of_less [of 65536] by auto
  have ten: "ends_number 10 rest"
    using assms by (cases rest) (auto simp: ends_groups_def ends_number_def byte_def)
  consider (mapped) "take 6 ?gs = [0, 0, 0, 0, 0, 65535]"
    | (run) "take 6 ?gs \<noteq> [0, 0, 0, 0, 0, 65535]" "1 < len" 
    | (plain) "take 6 ?gs \<noteq> [0, 0, 0, 0, 0, 65535]" "\<not> 1 < len" by blast
  then show ?thesis
  proof cases
    case mapped
    then show ?thesis using read_ipv6_mapped [OF ten mapped] by (simp add: show_ipv6_def)
  next
    case plain
    then have "show_ipv6 a = show_groups ?gs" using run by (simp add: show_ipv6_def Let_def del: digits_of.simps)
    then show ?thesis using read_show_groups [of ?gs 8 rest] small assms(1) by (simp add: read_ipv6_addr_def)
  next
    case run: run
    let ?l = "take start ?gs" and ?r = "drop (start + len) ?gs"
    have t: "show_ipv6 a = show_groups ?l @ ''::'' @ show_groups ?r"
      using run \<open>zero_run 0 (0, 0) (0, 0) ?gs = (start, len)\<close> by (simp add: show_ipv6_def Let_def del: digits_of.simps)
    note nd = show_groups_no_dot [of ?r]
    have l: "read_groups 8 0 (show_groups ?l @ ''::'' @ show_groups ?r @ rest) = (?l, False, ''::'' @ show_groups ?r @ rest)"
      using assms(1) small nd by (intro read_show_groups) (auto simp: ends_groups_def starts_with_iff dest: in_set_takeD)
    have r: "read_groups (7 - start) 0 (show_groups ?r @ rest) = (?r, False, rest)"
      using assms(1) small run(2) zs(1) by (intro read_show_groups) (auto dest: in_set_dropD)
    have "?gs = ?l @ take len (drop start ?gs) @ ?r"
      using append_take_drop_id [of "start + len" ?gs] by (simp only: take_add append_assoc)
    then have "?l @ replicate (8 - start - (8 - (start + len))) 0 @ ?r = ?gs" using zs by simp
    then show ?thesis using t l r zs(1) run(2)
      by (simp add: read_ipv6_addr_def strip_prefix_def starts_with_def)
  qed
qed

lemma unat_bound: "unat x < 2 ^ LENGTH('a)" for x :: "'a::len word"
  by (rule unsigned_less)

text \<open>The text of an address determines it.\<close>

lemma parse_show_ip: "parse_ip_addr (show_ip a) = Some a"
proof (cases a)
  case (V4 x)
  have "unat x mod 256 ^ 4 = unat x" using unat_bound [of x] by simp
  then show ?thesis
    using V4 read_ipv4_show [of "[]" x] by (simp add: parse_ip_addr_def groups_value_digits)
next
  case (V6 x)
  have x: "unat x mod 65536 ^ 8 = unat x" using unat_bound [of x] by simp
  have "read_ipv4_addr (show_ipv6 x) = None"
  proof (cases "take 6 (digits_of 65536 8 (unat x)) = [0, 0, 0, 0, 0, 65535]")
    case True
    then show ?thesis by (simp add: show_ipv6_def read_ipv4_no_digit)
  next
    case False
    then show ?thesis
      by (intro read_ipv4_no_dot) (simp add: show_ipv6_def Let_def show_groups_no_dot split: prod.splits)
  qed
  then show ?thesis
    using V6 x read_ipv6_show [of "[]" x]
    by (simp add: parse_ip_addr_def groups_value_digits ends_groups_def starts_with_iff)
qed

lemma read_port_show: "read_port (CHR '':'' # show_nat (unat p)) = Some (unat p, [])" for p :: u16
  using read_decimal_show_nat [of "unat p" 65535 "[]"] unat_bound [of p]
  by (simp add: read_port_def read_char_def)

lemma parse_show_socket: "parse_socket_addr (show_socket a) = Some a"
proof (cases a)
  case (SocketV4 x p)
  have "unat x mod 256 ^ 4 = unat x" using unat_bound [of x] by simp
  then show ?thesis
    using SocketV4 read_ipv4_show [of "CHR '':'' # show_nat (unat p)" x]
    by (simp add: parse_socket_addr_def read_socket_addr_v4_def groups_value_digits read_port_show)
next
  case (SocketV6 x p scope)
  have x: "unat x mod 65536 ^ 8 = unat x" using unat_bound [of x] by simp
  let ?tail = "CHR '']'' # CHR '':'' # show_nat (unat p)"
  have d: "CHR ''.'' \<notin> set (show_nat n)" for n
    using show_nat_digits [of "CHR ''.''" n] by (auto simp: is_ascii_digit_def byte_def)
  have v4: "read_socket_addr_v4 (CHR ''['' # s) = None" for s
    using read_ipv4_no_digit [of "CHR ''['' # s"] by (simp add: read_socket_addr_v4_def ends_number_def byte_def)
  have s: "read_scope_id ?tail = None" by (simp add: read_scope_id_def read_char_def)
  have sc: "read_scope_id (CHR ''%'' # show_nat (unat scope) @ ?tail) = Some (unat scope, ?tail)"
    using read_decimal_show_nat [of "unat scope" 4294967295 ?tail] unat_bound [of scope]
    by (simp add: read_scope_id_def read_char_def)
  have "read_ipv6_addr (show_ipv6 x @ ?tail) = Some (digits_of 65536 8 (unat x), ?tail)"
    "read_ipv6_addr (show_ipv6 x @ CHR ''%'' # show_nat (unat scope) @ ?tail) =
       Some (digits_of 65536 8 (unat x), CHR ''%'' # show_nat (unat scope) @ ?tail)"
    using d by (intro read_ipv6_show; simp add: ends_groups_def starts_with_iff)+
  then show ?thesis
    using SocketV6 v4 s sc x
    by (simp add: parse_socket_addr_def read_socket_addr_v6_def read_char_def groups_value_digits read_port_show
        del: digits_of.simps)
qed

lemma read_ipv6_addr_Nil: "read_ipv6_addr [] = None"
  by (simp add: read_ipv6_addr_def read_groups_none strip_prefix_def starts_with_def)

lemma parse_socket_addr_ip: "parse_socket_addr (show_ip a) = None"
proof (cases a)
  case (V4 x)
  obtain c s where c: "show_ipv4 x = c # s" "is_ascii_digit c"
  proof -
    obtain n ns where "digits_of 256 4 (unat x) = n # ns"
      using length_digits_of [of 256 4 "unat x"] by (cases "digits_of 256 4 (unat x)") auto
    then have "hd (show_ipv4 x) = hd (show_nat n)" "show_ipv4 x \<noteq> []"
      by (cases ns; simp add: show_ipv4_def)+
    then show thesis using that show_nat_digits [of "hd (show_nat n)" n] by (metis hd_in_set list.collapse show_nat_not_Nil)
  qed
  then have "read_socket_addr_v6 (show_ipv4 x) = None"
    by (auto simp: read_socket_addr_v6_def read_char_def is_ascii_digit_def byte_def)
  then show ?thesis
    using V4 read_ipv4_show [of "[]" x]
    by (simp add: parse_socket_addr_def read_socket_addr_v4_def read_port_def read_char_def)
next
  case (V6 x)
  have "parse_ip_addr (show_ipv6 x) = Some (V6 x)" using parse_show_ip [of "V6 x"] by simp
  then have r4: "read_ipv4_addr (show_ipv6 x) = None"
    by (auto simp: parse_ip_addr_def split: option.splits prod.splits if_splits)
  have "ends_number 16 (CHR ''['' # s)" for s by (simp add: ends_number_def byte_def)
  then have "read_ipv6_addr (CHR ''['' # s) = None" for s
    by (simp add: read_ipv6_addr_def read_groups_none strip_prefix_def starts_with_def)
  moreover have "read_ipv6_addr (show_ipv6 x) \<noteq> None"
    using read_ipv6_show [of "[]" x] by (simp add: ends_groups_def starts_with_iff)
  ultimately have "hd (show_ipv6 x) \<noteq> CHR ''[''" 
    using read_ipv6_addr_Nil by (metis list.collapse)
  then have "read_socket_addr_v6 (show_ipv6 x) = None"
    by (auto simp: read_socket_addr_v6_def read_char_def split: list.splits)
  then show ?thesis using V6 r4 by (simp add: parse_socket_addr_def read_socket_addr_v4_def)
qed

end
