(* ===== verification/Client_Info.thy ===== *)
theory Client_Info
  imports Auth Ip_Text
begin

text \<open>
  \<open>onair-obs/src/observe/client_info.rs\<close>: the addresses of a client.  The forwarded headers are read only
  when the peer of the connection is in a trusted network.
\<close>

section \<open>Forwarded headers\<close>

definition MAX_HEADER_LOG_CHARS :: nat where "MAX_HEADER_LOG_CHARS = 256"

definition get_all :: "header_map \<Rightarrow> string \<Rightarrow> string list" where
  "get_all headers name = map snd (filter (\<lambda>h. fst h = name) headers)"

definition eq_ignore_ascii_case :: "string \<Rightarrow> string \<Rightarrow> bool" where
  "eq_ignore_ascii_case a b \<longleftrightarrow> to_ascii_lowercase a = to_ascii_lowercase b"

definition normalized_ip_or_socket :: "string \<Rightarrow> string option" where
  "normalized_ip_or_socket v =
     (case parse_socket_addr v of
        Some a \<Rightarrow> Some (show_socket a)
      | None \<Rightarrow>
          (case parse_ip_addr v of
             Some a \<Rightarrow> Some (show_ip a)
           | None \<Rightarrow>
               map_option show_ip
                 (Option.bind (Option.bind (strip_prefix ''['' v) (\<lambda>rest. map_option fst (split_once CHR '']'' rest)))
                   parse_ip_addr)))"

definition clean_forwarded_value :: "string \<Rightarrow> string option" where
  "clean_forwarded_value v =
     (let v = trim (trim_matches (CHR 0x22) (trim v))
      in if eq_ignore_ascii_case v ''unknown'' \<or> starts_with ''_'' v then None else normalized_ip_or_socket v)"

fun find_map :: "('a \<Rightarrow> 'b option) \<Rightarrow> 'a list \<Rightarrow> 'b option" where
  "find_map f [] = None"
| "find_map f (x # xs) = (case f x of Some y \<Rightarrow> Some y | None \<Rightarrow> find_map f xs)"

definition forwarded_part :: "string \<Rightarrow> string option" where
  "forwarded_part part =
     Option.bind (split_once CHR ''='' (trim part))
       (\<lambda>(key, v). if eq_ignore_ascii_case (trim key) ''for'' then Some v else None)"

definition forwarded_header_client :: "string \<Rightarrow> string option" where
  "forwarded_header_client v =
     Option.bind (find_map (\<lambda>entry. find_map forwarded_part (split_char CHR '';'' entry)) (rev (split_char CHR '','' v)))
       clean_forwarded_value"

definition first_forwarded_for :: "string \<Rightarrow> string option" where
  "first_forwarded_for v =
     Option.bind (find (\<lambda>part. part \<noteq> []) (map trim (rev (split_char CHR '','' v)))) clean_forwarded_value"

text \<open>\<open>collect\<close> into an option: one value that is not visible ASCII hides all of them.\<close>

definition combined_header_values :: "header_map \<Rightarrow> string \<Rightarrow> string option" where
  "combined_header_values headers name =
     (let vs = map to_str (get_all headers name)
      in if None \<in> set vs \<or> vs = [] then None else Some (join '','' (map the vs)))"

definition last_header_value :: "header_map \<Rightarrow> string \<Rightarrow> string option" where
  "last_header_value headers name =
     (case rev (get_all headers name) of
        [] \<Rightarrow> None
      | v # _ \<Rightarrow> Option.bind (to_str v) clean_forwarded_value)"

definition forwarded_client :: "header_map \<Rightarrow> string option" where
  "forwarded_client headers =
     (case Option.bind (combined_header_values headers ''forwarded'') forwarded_header_client of
        Some a \<Rightarrow> Some a
      | None \<Rightarrow>
          (case Option.bind (combined_header_values headers ''x-forwarded-for'') first_forwarded_for of
             Some a \<Rightarrow> Some a
           | None \<Rightarrow> last_header_value headers ''x-real-ip''))"

text \<open>A value that \<open>to_str\<close> accepts is ASCII, so its characters are its bytes.\<close>

definition sanitized_value :: "string \<Rightarrow> string option" where
  "sanitized_value v =
     (let v = trim v
      in if v = [] then None
         else let s = take MAX_HEADER_LOG_CHARS (map (\<lambda>c. if is_ascii_control c then CHR ''_'' else c) v)
              in if s \<noteq> [] then Some s else None)"

definition sanitized_header :: "header_map \<Rightarrow> string \<Rightarrow> string option" where
  "sanitized_header headers name = Option.bind (Option.bind (header_get headers name) to_str) sanitized_value"

section \<open>The addresses of a client\<close>

record client_info =
  ci_peer_addr :: string
  ci_effective_client_addr :: string
  ci_trusted_proxy_addr :: "string option"
  ci_forwarded_for :: "string option"
  ci_user_agent :: "string option"

definition trusted_peer :: "ip_cidr list \<Rightarrow> socket_addr option \<Rightarrow> bool" where
  "trusted_peer cidrs peer = (case peer of Some a \<Rightarrow> list_ex (\<lambda>c. contains c (sa_ip a)) cidrs | None \<Rightarrow> False)"

definition from_headers :: "header_map \<Rightarrow> socket_addr option \<Rightarrow> ip_cidr list \<Rightarrow> client_info" where
  "from_headers headers peer cidrs =
     (let peer_addr = (case peer of Some a \<Rightarrow> show_socket a | None \<Rightarrow> ''unknown'');
          forwarded = (if trusted_peer cidrs peer then forwarded_client headers else None)
      in \<lparr>ci_peer_addr = peer_addr,
          ci_effective_client_addr = (case forwarded of Some a \<Rightarrow> a | None \<Rightarrow> peer_addr),
          ci_trusted_proxy_addr = map_option (\<lambda>_. peer_addr) forwarded,
          ci_forwarded_for = forwarded,
          ci_user_agent = sanitized_header headers ''user-agent''\<rparr>)"

definition client_ip :: "string \<Rightarrow> ip_addr option" where
  "client_ip v =
     (case parse_socket_addr v of Some a \<Rightarrow> Some (sa_ip a) | None \<Rightarrow> parse_ip_addr v)"

definition effective_client_is_loopback :: "client_info \<Rightarrow> bool" where
  "effective_client_is_loopback info =
     (case client_ip (ci_effective_client_addr info) of Some a \<Rightarrow> is_loopback a | None \<Rightarrow> False)"

definition trusted_proxy_addr :: "client_info \<Rightarrow> string" where
  "trusted_proxy_addr info = (case ci_trusted_proxy_addr info of Some a \<Rightarrow> a | None \<Rightarrow> ''none'')"

definition forwarded_for :: "client_info \<Rightarrow> string" where
  "forwarded_for info = (case ci_forwarded_for info of Some a \<Rightarrow> a | None \<Rightarrow> ''none'')"

definition user_agent :: "client_info \<Rightarrow> string" where
  "user_agent info = (case ci_user_agent info of Some a \<Rightarrow> a | None \<Rightarrow> ''none'')"


section \<open>Properties\<close>

lemma client_ip_show: "client_ip (show_socket s) = Some (sa_ip s)" "client_ip (show_ip a) = Some a"
  by (simp_all add: client_ip_def parse_show_socket parse_socket_addr_ip parse_show_ip)

text \<open>A forwarded value is kept only as the text of an address.\<close>

lemma normalized_valid: "normalized_ip_or_socket v = Some t \<Longrightarrow> \<exists>a. client_ip t = Some a"
  by (auto simp: normalized_ip_or_socket_def client_ip_show split: option.splits)

lemma clean_forwarded_valid: "clean_forwarded_value v = Some t \<Longrightarrow> \<exists>a. client_ip t = Some a"
  by (auto simp: clean_forwarded_value_def Let_def dest: normalized_valid split: if_splits)

lemma forwarded_client_valid: "forwarded_client headers = Some t \<Longrightarrow> \<exists>a. client_ip t = Some a"
  by (auto simp: forwarded_client_def forwarded_header_client_def first_forwarded_for_def last_header_value_def
      bind_eq_Some_conv dest: clean_forwarded_valid split: option.splits list.splits)

lemma untrusted_effective:
  "\<not> trusted_peer cidrs (Some peer) \<Longrightarrow>
     ci_effective_client_addr (from_headers headers (Some peer) cidrs) = show_socket peer"
  by (simp add: from_headers_def Let_def)

lemma untrusted_loopback:
  "\<not> trusted_peer cidrs (Some peer) \<Longrightarrow>
     effective_client_is_loopback (from_headers headers (Some peer) cidrs) \<longleftrightarrow> is_loopback (sa_ip peer)"
  by (simp add: effective_client_is_loopback_def untrusted_effective client_ip_show)

lemma unknown_peer_not_loopback: "\<not> effective_client_is_loopback (from_headers headers None cidrs)"
proof -
  have "ends_number 16 ''unknown''" "ends_number 10 ''unknown''" by (simp_all add: ends_number_def byte_def)
  then have "parse_ip_addr ''unknown'' = None" "parse_socket_addr ''unknown'' = None"
    by (simp_all add: parse_ip_addr_def read_ipv4_no_digit read_ipv6_addr_def read_groups_none strip_prefix_def
        starts_with_def parse_socket_addr_def read_socket_addr_v4_def read_socket_addr_v6_def read_char_def)
  then show ?thesis
    by (simp add: effective_client_is_loopback_def from_headers_def trusted_peer_def client_ip_def Let_def)
qed

text \<open>
  C39: the effective client address is an address of its own right.  For every connection it is the text of an
  address that the loopback check reads back; it is the peer's own address unless the peer is in a trusted
  network and sent a usable forwarding header, and then the recorded proxy is that peer.
\<close>

theorem effective_address_sound:
  "let info = from_headers headers (Some peer) cidrs
   in (\<exists>a. client_ip (ci_effective_client_addr info) = Some a) \<and>
      ci_peer_addr info = show_socket peer \<and>
      (if trusted_peer cidrs (Some peer) \<and> forwarded_client headers \<noteq> None
       then forwarded_client headers = Some (ci_effective_client_addr info) \<and>
            trusted_proxy_addr info = show_socket peer
       else client_ip (ci_effective_client_addr info) = Some (sa_ip peer) \<and> trusted_proxy_addr info = ''none'')"
  by (auto simp: from_headers_def Let_def client_ip_show trusted_proxy_addr_def dest: forwarded_client_valid)

end
