(* ===== verification/Inspector_Records.thy ===== *)
theory Inspector_Records
  imports Proxy Client_Info
begin

text \<open>
  The records of the inspector: the request timeline (\<open>onair-obs/src/observe/timeline.rs\<close>), the builder of
  backend attempts (\<open>onair-proxy/src/proxy/attempt.rs\<close>), the request records
  (\<open>onair-obs/src/observe/inspector/records.rs\<close>) and their construction (\<open>onair-proxy/src/proxy/inspector.rs\<close>).
  What a clock reads is an argument: elapsed times are microseconds, Unix times milliseconds, as the
  unbounded numbers of the standard library before the code saturates them.
\<close>

section \<open>Timelines\<close>

datatype timeline_event =
    AuthDone
  | RequestInspected
  | RouteSelected
  | RequestRewritten
  | DebugCaptureDone
  | BackendForwardStart
  | BackendHeadersReceived
  | BackendBodyFirstChunk
  | BackendBodyComplete
  | ResponseRewritten
  | ClientResponseReady
  | StreamComplete

record timeline_marks =
  tm_proxy_entry_us :: u64
  tm_auth_done_us :: "u64 option"
  tm_request_inspected_us :: "u64 option"
  tm_route_selected_us :: "u64 option"
  tm_request_rewritten_us :: "u64 option"
  tm_debug_capture_done_us :: "u64 option"
  tm_backend_forward_start_us :: "u64 option"
  tm_backend_headers_received_us :: "u64 option"
  tm_backend_body_first_chunk_us :: "u64 option"
  tm_backend_body_complete_us :: "u64 option"
  tm_response_rewritten_us :: "u64 option"
  tm_client_response_ready_us :: "u64 option"
  tm_stream_complete_us :: "u64 option"

text \<open>The timeline without its monotonic start, which only serves to measure elapsed times.\<close>

record request_timeline =
  tl_started_unix_ms :: nat
  tl_marks :: timeline_marks

definition no_marks :: timeline_marks where
  "no_marks =
     \<lparr>tm_proxy_entry_us = 0, tm_auth_done_us = None, tm_request_inspected_us = None, tm_route_selected_us = None,
      tm_request_rewritten_us = None, tm_debug_capture_done_us = None, tm_backend_forward_start_us = None,
      tm_backend_headers_received_us = None, tm_backend_body_first_chunk_us = None,
      tm_backend_body_complete_us = None, tm_response_rewritten_us = None, tm_client_response_ready_us = None,
      tm_stream_complete_us = None\<rparr>"

definition timeline_start :: "nat \<Rightarrow> request_timeline" where
  "timeline_start unix_ms = \<lparr>tl_started_unix_ms = unix_ms, tl_marks = no_marks\<rparr>"

fun mark_event :: "timeline_event \<Rightarrow> u64 \<Rightarrow> timeline_marks \<Rightarrow> timeline_marks" where
  "mark_event AuthDone t m = m\<lparr>tm_auth_done_us := Some t\<rparr>"
| "mark_event RequestInspected t m = m\<lparr>tm_request_inspected_us := Some t\<rparr>"
| "mark_event RouteSelected t m = m\<lparr>tm_route_selected_us := Some t\<rparr>"
| "mark_event RequestRewritten t m = m\<lparr>tm_request_rewritten_us := Some t\<rparr>"
| "mark_event DebugCaptureDone t m = m\<lparr>tm_debug_capture_done_us := Some t\<rparr>"
| "mark_event BackendForwardStart t m = m\<lparr>tm_backend_forward_start_us := Some t\<rparr>"
| "mark_event BackendHeadersReceived t m = m\<lparr>tm_backend_headers_received_us := Some t\<rparr>"
| "mark_event BackendBodyFirstChunk t m =
     (if tm_backend_body_first_chunk_us m = None then m\<lparr>tm_backend_body_first_chunk_us := Some t\<rparr> else m)"
| "mark_event BackendBodyComplete t m = m\<lparr>tm_backend_body_complete_us := Some t\<rparr>"
| "mark_event ResponseRewritten t m = m\<lparr>tm_response_rewritten_us := Some t\<rparr>"
| "mark_event ClientResponseReady t m = m\<lparr>tm_client_response_ready_us := Some t\<rparr>"
| "mark_event StreamComplete t m = m\<lparr>tm_stream_complete_us := Some t\<rparr>"

definition timeline_mark :: "timeline_event \<Rightarrow> nat \<Rightarrow> request_timeline \<Rightarrow> request_timeline \<times> u64" where
  "timeline_mark event elapsed tline =
     (let t = saturating_u64 elapsed in (tline\<lparr>tl_marks := mark_event event t (tl_marks tline)\<rparr>, t))"

record timeline_snapshot =
  ts_started_unix_ms :: u64
  ts_total_us :: u64
  ts_marks :: timeline_marks

definition timeline_snapshot_at :: "nat \<Rightarrow> request_timeline \<Rightarrow> timeline_snapshot" where
  "timeline_snapshot_at elapsed tline =
     \<lparr>ts_started_unix_ms = saturating_u64 (tl_started_unix_ms tline), ts_total_us = saturating_u64 elapsed,
      ts_marks = tl_marks tline\<rparr>"

section \<open>Attempts\<close>

text \<open>The record of an attempt extends what the proxy model keeps of it.\<close>

record inspector_attempt_record = attempt_record +
  at_backend_target :: string
  at_backend_remote_addr :: "string option"
  at_debug_capture_id :: "string option"
  at_started_us :: u64
  at_ended_us :: u64
  at_elapsed_us :: u64
  at_elapsed_ms :: u64
  at_request_rewritten_us :: "u64 option"
  at_debug_capture_done_us :: "u64 option"
  at_backend_forward_start_us :: "u64 option"
  at_backend_headers_received_us :: "u64 option"
  at_backend_body_first_chunk_us :: "u64 option"
  at_backend_body_complete_us :: "u64 option"
  at_stream_complete_us :: "u64 option"

record attempt_builder =
  ab_attempt :: nat
  ab_backend :: string
  ab_backend_target :: string
  ab_backend_remote_addr :: "string option"
  ab_debug_capture_id :: "string option"
  ab_started_us :: u64
  ab_request_rewritten_us :: "u64 option"
  ab_debug_capture_done_us :: "u64 option"
  ab_backend_forward_start_us :: "u64 option"
  ab_backend_headers_received_us :: "u64 option"
  ab_backend_body_first_chunk_us :: "u64 option"
  ab_backend_body_complete_us :: "u64 option"
  ab_stream_complete_us :: "u64 option"

definition attempt_builder_new ::
  "nat \<Rightarrow> string \<Rightarrow> string \<Rightarrow> socket_addr option \<Rightarrow> string option \<Rightarrow> u64 \<Rightarrow> attempt_builder" where
  "attempt_builder_new attempt backend backend_target remote capture_id started_us =
     \<lparr>ab_attempt = attempt, ab_backend = backend, ab_backend_target = backend_target,
      ab_backend_remote_addr = map_option show_socket remote, ab_debug_capture_id = capture_id,
      ab_started_us = started_us, ab_request_rewritten_us = None, ab_debug_capture_done_us = None,
      ab_backend_forward_start_us = None, ab_backend_headers_received_us = None,
      ab_backend_body_first_chunk_us = None, ab_backend_body_complete_us = None, ab_stream_complete_us = None\<rparr>"

definition set_debug_capture :: "string option \<Rightarrow> attempt_builder \<Rightarrow> attempt_builder" where
  "set_debug_capture capture_id b = b\<lparr>ab_debug_capture_id := capture_id\<rparr>"

definition set_backend_remote_addr :: "socket_addr option \<Rightarrow> attempt_builder \<Rightarrow> attempt_builder" where
  "set_backend_remote_addr address b = b\<lparr>ab_backend_remote_addr := map_option show_socket address\<rparr>"

definition mark_request_rewritten :: "u64 \<Rightarrow> attempt_builder \<Rightarrow> attempt_builder" where
  "mark_request_rewritten t b = b\<lparr>ab_request_rewritten_us := Some t\<rparr>"

definition mark_debug_capture_done :: "u64 \<Rightarrow> attempt_builder \<Rightarrow> attempt_builder" where
  "mark_debug_capture_done t b = b\<lparr>ab_debug_capture_done_us := Some t\<rparr>"

definition mark_backend_forward_start :: "u64 \<Rightarrow> attempt_builder \<Rightarrow> attempt_builder" where
  "mark_backend_forward_start t b = b\<lparr>ab_backend_forward_start_us := Some t\<rparr>"

definition mark_backend_headers_received :: "u64 \<Rightarrow> attempt_builder \<Rightarrow> attempt_builder" where
  "mark_backend_headers_received t b = b\<lparr>ab_backend_headers_received_us := Some t\<rparr>"

definition attempt_body_first_chunk :: "u64 \<Rightarrow> attempt_builder \<Rightarrow> attempt_builder" where
  "attempt_body_first_chunk t b =
     (if ab_backend_body_first_chunk_us b = None then b\<lparr>ab_backend_body_first_chunk_us := Some t\<rparr> else b)"

definition attempt_body_complete :: "u64 \<Rightarrow> attempt_builder \<Rightarrow> attempt_builder" where
  "attempt_body_complete t b = b\<lparr>ab_backend_body_complete_us := Some t\<rparr>"

definition attempt_stream_complete :: "u64 \<Rightarrow> attempt_builder \<Rightarrow> attempt_builder" where
  "attempt_stream_complete t b = b\<lparr>ab_stream_complete_us := Some t\<rparr>"

definition builder_record ::
  "status_code \<Rightarrow> status_code option \<Rightarrow> string \<Rightarrow> string option \<Rightarrow> u64 \<Rightarrow> attempt_builder \<Rightarrow> inspector_attempt_record" where
  "builder_record status upstream_status outcome kind ended_us b =
     (let elapsed_us = saturating_sub ended_us (ab_started_us b)
      in \<lparr>ar_attempt = ab_attempt b, ar_backend = ab_backend b, ar_status = status,
          ar_upstream_status = upstream_status, ar_outcome = outcome, ar_error_kind = kind,
          at_backend_target = ab_backend_target b, at_backend_remote_addr = ab_backend_remote_addr b,
          at_debug_capture_id = ab_debug_capture_id b, at_started_us = ab_started_us b, at_ended_us = ended_us,
          at_elapsed_us = elapsed_us, at_elapsed_ms = elapsed_us div 1000,
          at_request_rewritten_us = ab_request_rewritten_us b,
          at_debug_capture_done_us = ab_debug_capture_done_us b,
          at_backend_forward_start_us = ab_backend_forward_start_us b,
          at_backend_headers_received_us = ab_backend_headers_received_us b,
          at_backend_body_first_chunk_us = ab_backend_body_first_chunk_us b,
          at_backend_body_complete_us = ab_backend_body_complete_us b,
          at_stream_complete_us = ab_stream_complete_us b\<rparr>)"

definition to_attempt_record :: "u64 \<Rightarrow> attempt_builder \<Rightarrow> inspector_attempt_record" where
  "to_attempt_record now_us b = builder_record 0 None ''in_progress'' None now_us b"

definition attempt_finish ::
  "status_code \<Rightarrow> status_code option \<Rightarrow> string \<Rightarrow> string option \<Rightarrow> u64 \<Rightarrow> attempt_builder \<Rightarrow> inspector_attempt_record" where
  "attempt_finish status upstream_status outcome kind ended_us b =
     builder_record status upstream_status outcome kind ended_us b"

definition finish_at_body_complete_or ::
  "status_code \<Rightarrow> status_code option \<Rightarrow> string \<Rightarrow> string option \<Rightarrow> u64 \<Rightarrow> attempt_builder \<Rightarrow> inspector_attempt_record" where
  "finish_at_body_complete_or status upstream_status outcome kind fallback_us b =
     attempt_finish status upstream_status outcome kind
       (case ab_backend_body_complete_us b of Some t \<Rightarrow> t | None \<Rightarrow> fallback_us) b"


section \<open>Requests\<close>

record inspector_request_base =
  ib_record_id :: string
  ib_client_request_id :: "string option"
  ib_started_at_unix_ms :: u64
  ib_method :: string
  ib_path :: string
  ib_query :: "string option"
  ib_route :: string
  ib_identity :: string
  ib_requested_model :: string
  ib_public_model :: string
  ib_backend_model :: string
  ib_backend :: string
  ib_backend_target :: string
  ib_backend_remote_addr :: "string option"
  ib_stream :: bool
  ib_peer_addr :: string
  ib_effective_client_addr :: string
  ib_trusted_proxy_addr :: string
  ib_forwarded_for :: string
  ib_user_agent :: string
  ib_request_body_bytes :: nat
  ib_debug_capture_id :: "string option"
  ib_exposed_backend_error :: bool

record inspector_request_record =
  rr_base :: inspector_request_base
  rr_outcome :: inspector_outcome
  rr_status :: status_code
  rr_error_kind :: "string option"
  rr_backend_attempts :: "inspector_attempt_record list"
  rr_retried_attempts :: "inspector_attempt_record list"
  rr_response_body_bytes :: "nat option"
  rr_input_tokens :: u64
  rr_cached_input_tokens :: u64
  rr_output_tokens :: u64
  rr_completed_at_unix_ms :: u64
  rr_timeline :: timeline_snapshot

abbreviation rr_id :: "inspector_request_record \<Rightarrow> string" where
  "rr_id r \<equiv> ib_record_id (rr_base r)"

text \<open>The clock of a completed record is 0 when it does not fit in 64 bits.\<close>

definition unix_millis :: "nat \<Rightarrow> u64" where
  "unix_millis now = (if now < 2 ^ 64 then of_nat now else 0)"

definition request_record_new ::
  "nat \<Rightarrow> inspector_request_base \<Rightarrow> inspector_outcome \<Rightarrow> status_code \<Rightarrow> string option \<Rightarrow> inspector_attempt_record list \<Rightarrow>
     inspector_attempt_record list \<Rightarrow> nat option \<Rightarrow> token_counts \<Rightarrow> timeline_snapshot \<Rightarrow> inspector_request_record" where
  "request_record_new now base outcome status kind attempts retried body_bytes tokens timeline =
     \<lparr>rr_base = base, rr_outcome = outcome, rr_status = status, rr_error_kind = kind,
      rr_backend_attempts = attempts, rr_retried_attempts = retried, rr_response_body_bytes = body_bytes,
      rr_input_tokens = tk_input tokens, rr_cached_input_tokens = tk_cached_input tokens,
      rr_output_tokens = tk_output tokens, rr_completed_at_unix_ms = unix_millis now, rr_timeline = timeline\<rparr>"

record request_observation =
  ro_inspector_enabled :: bool
  ro_inspector_retention_requests :: nat
  ro_record_id :: string
  ro_client_request_id :: "string option"
  ro_started_at_unix_ms :: u64
  ro_method :: string
  ro_path :: string
  ro_query :: "string option"
  ro_client_info :: client_info
  ro_request_body_bytes :: nat

text \<open>What every base takes from the observation of the request.\<close>

definition observed_base ::
  "request_observation \<Rightarrow> string \<Rightarrow> string \<Rightarrow> string \<Rightarrow> string \<Rightarrow> string \<Rightarrow> string \<Rightarrow> string \<Rightarrow> bool \<Rightarrow> inspector_request_base" where
  "observed_base ob route identity requested public backend_model backend target stream =
     \<lparr>ib_record_id = ro_record_id ob, ib_client_request_id = ro_client_request_id ob,
      ib_started_at_unix_ms = ro_started_at_unix_ms ob, ib_method = ro_method ob, ib_path = ro_path ob,
      ib_query = ro_query ob, ib_route = route, ib_identity = identity, ib_requested_model = requested,
      ib_public_model = public, ib_backend_model = backend_model, ib_backend = backend,
      ib_backend_target = target, ib_backend_remote_addr = None, ib_stream = stream,
      ib_peer_addr = ci_peer_addr (ro_client_info ob),
      ib_effective_client_addr = ci_effective_client_addr (ro_client_info ob),
      ib_trusted_proxy_addr = trusted_proxy_addr (ro_client_info ob),
      ib_forwarded_for = forwarded_for (ro_client_info ob), ib_user_agent = user_agent (ro_client_info ob),
      ib_request_body_bytes = ro_request_body_bytes ob, ib_debug_capture_id = None,
      ib_exposed_backend_error = False\<rparr>"

record model_log_fields =
  mf_requested :: string
  mf_public :: string
  mf_backend :: string

definition model_log_fields_from_route :: "string option \<Rightarrow> selected_route \<Rightarrow> model_log_fields" where
  "model_log_fields_from_route requested route =
     \<lparr>mf_requested = str_or ''none'' requested, mf_public = str_or ''none'' (sr_public_model route),
      mf_backend = str_or ''none'' (sr_backend_model route)\<rparr>"

definition routed_inspector_base ::
  "request_observation \<Rightarrow> metric_labels \<Rightarrow> model_log_fields \<Rightarrow> string \<Rightarrow> inspector_request_base" where
  "routed_inspector_base ob labels mf target =
     observed_base ob (ml_route labels) (ml_identity labels) (mf_requested mf) (mf_public mf)
       (mf_backend mf) (ml_backend labels) target (ml_stream labels)"

definition preflight_inspector_base ::
  "request_observation \<Rightarrow> string \<Rightarrow> string \<Rightarrow> string option \<Rightarrow> bool \<Rightarrow> inspector_request_base" where
  "preflight_inspector_base ob route identity model stream =
     observed_base ob route identity (str_or ''none'' model) (str_or ''none'' model) ''none'' ''none'' ''none'' stream"

text \<open>Each record is stamped at the instant it is built: \<open>now\<close> is the wall clock, \<open>elapsed\<close> the timeline.\<close>

definition preflight_record ::
  "nat \<Rightarrow> nat \<Rightarrow> request_observation \<Rightarrow> request_timeline \<Rightarrow> string \<Rightarrow> string \<Rightarrow> string option \<Rightarrow> bool \<Rightarrow> status_code \<Rightarrow>
     string \<Rightarrow> inspector_request_record" where
  "preflight_record now elapsed ob tline route identity model stream status stage =
     request_record_new now (preflight_inspector_base ob route identity model stream) (Preflight stage) status None
       [] [] None no_tokens (timeline_snapshot_at elapsed tline)"

definition initial_live_record ::
  "nat \<Rightarrow> nat \<Rightarrow> request_observation \<Rightarrow> request_timeline \<Rightarrow> string \<Rightarrow> inspector_request_record" where
  "initial_live_record now elapsed ob tline route =
     request_record_new now
       (observed_base ob route ''unknown'' ''unknown'' ''unknown'' ''unknown'' ''unknown'' ''unknown'' False)
       InFlight 0 None [] [] None no_tokens (timeline_snapshot_at elapsed tline)"

text \<open>The part of the request context that the inspector reads.\<close>

record inspector_context =
  ix_base :: inspector_request_base
  ix_backend_remote_addr :: "socket_addr option"
  ix_debug_capture_id :: "string option"
  ix_backend_attempts :: "inspector_attempt_record list"
  ix_retried_attempts :: "inspector_attempt_record list"
  ix_current_attempt :: "attempt_builder option"
  ix_timeline :: request_timeline

definition context_base :: "inspector_context \<Rightarrow> inspector_request_base" where
  "context_base cx =
     (ix_base cx)\<lparr>ib_backend_remote_addr := map_option show_socket (ix_backend_remote_addr cx),
                  ib_debug_capture_id := ix_debug_capture_id cx\<rparr>"

definition context_final_record ::
  "nat \<Rightarrow> nat \<Rightarrow> inspector_context \<Rightarrow> inspector_outcome \<Rightarrow> status_code \<Rightarrow> string option \<Rightarrow> nat option \<Rightarrow> token_counts \<Rightarrow>
     inspector_request_record" where
  "context_final_record now elapsed cx outcome status kind body_bytes tokens =
     request_record_new now (context_base cx) outcome status kind (ix_backend_attempts cx) (ix_retried_attempts cx)
       body_bytes tokens (timeline_snapshot_at elapsed (ix_timeline cx))"

definition build_live_record_from_context :: "nat \<Rightarrow> nat \<Rightarrow> inspector_context \<Rightarrow> inspector_request_record" where
  "build_live_record_from_context now elapsed cx =
     request_record_new now (context_base cx) InFlight 0 None
       (ix_backend_attempts cx @
         (case ix_current_attempt cx of Some b \<Rightarrow> [to_attempt_record (saturating_u64 elapsed) b] | None \<Rightarrow> []))
       (ix_retried_attempts cx) None no_tokens (timeline_snapshot_at elapsed (ix_timeline cx))"

definition context_record_final_attempt ::
  "nat \<Rightarrow> status_code \<Rightarrow> status_code option \<Rightarrow> string \<Rightarrow> string option \<Rightarrow> inspector_context \<Rightarrow> inspector_context" where
  "context_record_final_attempt elapsed status upstream_status outcome kind cx =
     (case ix_current_attempt cx of
        Some b \<Rightarrow> cx\<lparr>ix_current_attempt := None,
          ix_backend_attempts := ix_backend_attempts cx @
            [attempt_finish status upstream_status outcome kind (saturating_u64 elapsed) b]\<rparr>
      | None \<Rightarrow> cx)"

definition context_record_retried_attempt :: "inspector_attempt_record \<Rightarrow> inspector_context \<Rightarrow> inspector_context" where
  "context_record_retried_attempt a cx =
     cx\<lparr>ix_backend_attempts := ix_backend_attempts cx @ [a], ix_retried_attempts := ix_retried_attempts cx @ [a]\<rparr>"

text \<open>The update of the base when a route is applied; the target is that of the base address of the route.\<close>

definition apply_route_base ::
  "selected_route \<Rightarrow> string option \<Rightarrow> string \<Rightarrow> inspector_context \<Rightarrow> inspector_context" where
  "apply_route_base route requested target cx =
     (let mf = model_log_fields_from_route requested route
      in cx\<lparr>ix_backend_remote_addr := None, ix_debug_capture_id := None,
            ix_base := (ix_base cx)\<lparr>ib_requested_model := mf_requested mf, ib_public_model := mf_public mf,
              ib_backend_model := mf_backend mf, ib_backend := sr_backend_id route,
              ib_backend_target := target, ib_backend_remote_addr := None, ib_debug_capture_id := None\<rparr>\<rparr>)"

text \<open>\<open>url::Url::parse\<close> is a parameter: the host and the port or known default port of an accepted URL.\<close>

definition backend_target :: "(string \<Rightarrow> (string option \<times> nat option) option) \<Rightarrow> string \<Rightarrow> string" where
  "backend_target parse_url base_url =
     (case parse_url base_url of
        None \<Rightarrow> ''unknown''
      | Some (host, port) \<Rightarrow>
          (let h = str_or ''unknown'' host in case port of Some p \<Rightarrow> h @ '':'' @ show_nat p | None \<Rightarrow> h))"

text \<open>The characters of a UTF-8 text: a byte that does not continue a character with those that do.\<close>

definition is_continuation :: "char \<Rightarrow> bool" where
  "is_continuation c \<longleftrightarrow> 128 \<le> byte c \<and> byte c < 192"

function utf8_chars :: "string \<Rightarrow> string list" where
  "utf8_chars [] = []"
| "utf8_chars (c # cs) = (c # takeWhile is_continuation cs) # utf8_chars (dropWhile is_continuation cs)"
  by pat_completeness auto
termination
  by (relation "measure length") (auto simp: le_imp_less_Suc length_dropWhile_le)

text \<open>\<open>char::is_control\<close>: the category \<open>Cc\<close>, in ASCII and from U+0080 to U+009F.\<close>

definition is_control :: "string \<Rightarrow> bool" where
  "is_control c \<longleftrightarrow>
     (case c of [x] \<Rightarrow> is_ascii_control x | [x, y] \<Rightarrow> byte x = 194 \<and> 128 \<le> byte y \<and> byte y < 160 | _ \<Rightarrow> False)"

definition inspector_text :: "string \<Rightarrow> string" where
  "inspector_text v =
     concat (take DISPLAY_SEGMENT_MAX_CHARS (map (\<lambda>c. if is_control c then ''_'' else c) (utf8_chars v)))"

section \<open>Properties\<close>

text \<open>The record of a finished attempt is the one of the proxy model, with times.\<close>

lemma attempt_finish_core:
  "attempt_record.truncate (attempt_finish status upstream_status outcome kind ended_us b) =
     \<lparr>ar_attempt = ab_attempt b, ar_backend = ab_backend b, ar_status = status,
      ar_upstream_status = upstream_status, ar_outcome = outcome, ar_error_kind = kind\<rparr>"
  by (simp add: attempt_finish_def builder_record_def attempt_record.defs Let_def)

lemma concat_utf8_chars: "concat (utf8_chars s) = s"
  by (induction s rule: utf8_chars.induct) simp_all

end
