(* ===== verification/Inspector_Store.thy ===== *)
theory Inspector_Store
  imports Inspector_Records
begin

text \<open>
  \<open>onair-obs/src/observe/inspector/store.rs\<close> and \<open>live.rs\<close>: the bounded deque of request records, its upserts,
  the hand-over to the persistence writer and the broadcast of updates, and the live record of a request.
  The first element of the list is the front of the deque.
\<close>

section \<open>The persistence writer's queue\<close>

datatype persistence_message = MsgRecord inspector_request_record nat | MsgShutdown

definition WRITER_QUEUE_CAPACITY :: nat where "WRITER_QUEUE_CAPACITY = 1024"

text \<open>The queue, the shutdown flag and whether the writer thread still receives.\<close>

record persistence_writer =
  pw_queue :: "persistence_message list"
  pw_shutdown :: bool
  pw_receiving :: bool

definition try_send :: "persistence_message \<Rightarrow> persistence_writer \<Rightarrow> persistence_writer" where
  "try_send m w =
     (if pw_receiving w \<and> length (pw_queue w) < WRITER_QUEUE_CAPACITY then w\<lparr>pw_queue := pw_queue w @ [m]\<rparr>
      else w)"

definition writer_record :: "inspector_request_record \<Rightarrow> nat \<Rightarrow> persistence_writer \<Rightarrow> persistence_writer" where
  "writer_record r retention w = (if pw_shutdown w then w else try_send (MsgRecord r retention) w)"

definition request_shutdown :: "persistence_writer \<Rightarrow> persistence_writer" where
  "request_shutdown w = try_send MsgShutdown (w\<lparr>pw_shutdown := True\<rparr>)"

section \<open>The store\<close>

definition MAX_RETENTION_REQUESTS :: nat where "MAX_RETENTION_REQUESTS = 100000"

definition clamp_retention :: "nat \<Rightarrow> nat" where
  "clamp_retention n = min (max n 1) MAX_RETENTION_REQUESTS"

record inspector_store =
  is_records :: "inspector_request_record list"
  is_events :: "inspector_request_record list"
  is_writer :: "persistence_writer option"

fun replace_first :: "inspector_request_record \<Rightarrow> inspector_request_record list \<Rightarrow> inspector_request_record list" where
  "replace_first r [] = []"
| "replace_first r (x # xs) = (if rr_id x = rr_id r then r # xs else x # replace_first r xs)"

definition upsert_with_fifo_eviction ::
  "inspector_request_record \<Rightarrow> nat \<Rightarrow> inspector_request_record list \<Rightarrow> inspector_request_record list" where
  "upsert_with_fifo_eviction r retention rs =
     (if list_ex (\<lambda>x. rr_id x = rr_id r) rs then replace_first r rs
      else (if retention \<le> length rs then tl rs else rs) @ [r])"

definition store_from_parts :: "inspector_request_record list \<Rightarrow> persistence_writer option \<Rightarrow> inspector_store" where
  "store_from_parts rs w = \<lparr>is_records = rs, is_events = [], is_writer = w\<rparr>"

definition store_new :: inspector_store where
  "store_new = store_from_parts [] None"

definition store_record :: "bool \<Rightarrow> nat \<Rightarrow> inspector_request_record \<Rightarrow> inspector_store \<Rightarrow> inspector_store" where
  "store_record enabled retention r st =
     (if \<not> enabled then st
      else let n = clamp_retention retention
           in st\<lparr>is_records := upsert_with_fifo_eviction r n (is_records st),
                 is_writer := map_option (writer_record r n) (is_writer st),
                 is_events := is_events st @ [r]\<rparr>)"

definition store_upsert :: "bool \<Rightarrow> nat \<Rightarrow> inspector_request_record \<Rightarrow> inspector_store \<Rightarrow> inspector_store" where
  "store_upsert enabled retention r st =
     (if \<not> enabled then st
      else let n = clamp_retention retention
           in st\<lparr>is_records := upsert_with_fifo_eviction r n (is_records st), is_events := is_events st @ [r]\<rparr>)"

definition store_upsert_final :: "bool \<Rightarrow> nat \<Rightarrow> inspector_request_record \<Rightarrow> inspector_store \<Rightarrow> inspector_store" where
  "store_upsert_final enabled retention r st =
     (if \<not> enabled then st
      else let n = clamp_retention retention
           in st\<lparr>is_records := upsert_with_fifo_eviction r n (is_records st),
                 is_writer := map_option (writer_record r n) (is_writer st),
                 is_events := is_events st @ [r]\<rparr>)"

definition records_limited :: "nat \<Rightarrow> inspector_store \<Rightarrow> inspector_request_record list" where
  "records_limited limit st = drop (length (is_records st) - max limit 1) (is_records st)"

definition retained_len :: "inspector_store \<Rightarrow> nat" where
  "retained_len st = length (is_records st)"

definition store_get :: "string \<Rightarrow> inspector_store \<Rightarrow> inspector_request_record option" where
  "store_get record_id st = find (\<lambda>r. rr_id r = record_id) (rev (is_records st))"

text \<open>The process id and the next value of the process-wide counter are arguments.\<close>

definition next_record_id :: "nat \<Rightarrow> nat \<Rightarrow> u64 \<Rightarrow> string option \<Rightarrow> string" where
  "next_record_id pid sequence started client_id =
     (let record_id = show_nat (unat started) @ ''-'' @ show_nat pid @ ''-'' @ show_nat sequence
      in case Option.bind client_id (\<lambda>v. sanitize_for_storage v DISPLAY_SEGMENT_MAX_CHARS) of
           Some c \<Rightarrow> record_id @ ''-'' @ c
         | None \<Rightarrow> record_id)"

definition mark_record_interrupted :: "inspector_request_record \<Rightarrow> inspector_request_record" where
  "mark_record_interrupted r =
     r\<lparr>rr_outcome := Interrupted, rr_status := 503, rr_error_kind := Some ''interrupted'',
       rr_completed_at_unix_ms :=
         saturating_add (ib_started_at_unix_ms (rr_base r)) (ts_total_us (rr_timeline r) div 1000)\<rparr>"

text \<open>
  \<open>Drop\<close> of the store: the records still in flight are marked, all interrupted ones are handed to the
  writer, and the writer is asked to stop.
\<close>

definition interrupt_in_flight :: "inspector_request_record list \<Rightarrow> inspector_request_record list" where
  "interrupt_in_flight rs = map (\<lambda>r. if rr_outcome r = InFlight then mark_record_interrupted r else r) rs"

definition store_drop :: "inspector_store \<Rightarrow> inspector_store" where
  "store_drop st =
     (case is_writer st of
        None \<Rightarrow> st
      | Some w \<Rightarrow>
          (let rs = interrupt_in_flight (is_records st);
               w = fold (\<lambda>r. writer_record r MAX_RETENTION_REQUESTS) (filter (\<lambda>r. rr_outcome r = Interrupted) rs) w
           in st\<lparr>is_records := rs, is_writer := Some (request_shutdown w)\<rparr>))"

section \<open>Live records\<close>

record live_record =
  lr_enabled :: bool
  lr_retention_requests :: nat
  lr_record :: inspector_request_record

definition live_record_new :: "bool \<Rightarrow> nat \<Rightarrow> inspector_request_record \<Rightarrow> live_record" where
  "live_record_new enabled retention initial =
     \<lparr>lr_enabled = enabled, lr_retention_requests = retention, lr_record = initial\<rparr>"

definition publish_initial :: "live_record \<Rightarrow> inspector_store \<Rightarrow> inspector_store" where
  "publish_initial lr st =
     (if \<not> lr_enabled lr then st else store_upsert (lr_enabled lr) (lr_retention_requests lr) (lr_record lr) st)"

definition live_update ::
  "(inspector_request_record \<Rightarrow> inspector_request_record) \<Rightarrow> live_record \<Rightarrow> inspector_store \<Rightarrow> live_record \<times> inspector_store" where
  "live_update mutate lr st =
     (if \<not> lr_enabled lr then (lr, st)
      else let r = mutate (lr_record lr)
           in (lr\<lparr>lr_record := r\<rparr>, store_upsert (lr_enabled lr) (lr_retention_requests lr) r st))"

definition live_finalize :: "inspector_request_record \<Rightarrow> live_record \<Rightarrow> inspector_store \<Rightarrow> inspector_store" where
  "live_finalize final lr st =
     (if \<not> lr_enabled lr then st
      else let started = ib_started_at_unix_ms (rr_base (lr_record lr));
               final = final\<lparr>rr_base := (rr_base final)\<lparr>ib_started_at_unix_ms := started\<rparr>,
                             rr_timeline := (rr_timeline final)\<lparr>ts_started_unix_ms := started\<rparr>\<rparr>
           in store_upsert_final (lr_enabled lr) (lr_retention_requests lr) final st)"

section \<open>Upserts\<close>

definition record_ids :: "inspector_store \<Rightarrow> string list" where
  "record_ids st = map rr_id (is_records st)"

lemma map_replace_first: "map rr_id (replace_first r rs) = map rr_id rs"
  by (induction rs) auto

lemma length_replace_first [simp]: "length (replace_first r rs) = length rs"
  using arg_cong [OF map_replace_first, of length] by simp

lemma replace_first_split:
  "rr_id x = rr_id r \<Longrightarrow> rr_id x \<notin> rr_id ` set ps \<Longrightarrow> replace_first r (ps @ x # qs) = ps @ r # qs"
  by (induction ps) auto

lemma replace_first_find:
  "rr_id x \<noteq> rr_id r \<Longrightarrow> x \<in> set (replace_first r rs) \<longleftrightarrow> x \<in> set rs"
  by (induction rs) auto

lemma list_ex_id: "list_ex (\<lambda>x. rr_id x = rr_id r) rs \<longleftrightarrow> rr_id r \<in> rr_id ` set rs"
  by (auto simp: list_ex_iff image_iff eq_commute)

text \<open>The ids after an upsert: unchanged for a known id, otherwise shifted by one when the deque is full.\<close>

lemma upsert_ids:
  "map rr_id (upsert_with_fifo_eviction r n rs) =
     (if rr_id r \<in> set (map rr_id rs) then map rr_id rs
      else (if n \<le> length rs then tl (map rr_id rs) else map rr_id rs) @ [rr_id r])"
  by (simp add: upsert_with_fifo_eviction_def list_ex_id map_replace_first map_tl)

lemma upsert_distinct:
  assumes "distinct (map rr_id rs)"
  shows "distinct (map rr_id (upsert_with_fifo_eviction r n rs))"
proof -
  have "set (tl (map rr_id rs)) \<subseteq> set (map rr_id rs)" by (cases rs) auto
  then show ?thesis unfolding upsert_ids using assms by (auto simp: distinct_tl)
qed

lemma upsert_length:
  "length (upsert_with_fifo_eviction r n rs) \<le> max (length rs) n" if "0 < n"
  using that by (cases rs) (auto simp: upsert_with_fifo_eviction_def)

lemma upsert_length_le:
  "0 < n \<Longrightarrow> length rs \<le> m \<Longrightarrow> n \<le> m \<Longrightarrow> length (upsert_with_fifo_eviction r n rs) \<le> m"
  using upsert_length [of n r rs] by simp

lemma clamp_retention_pos [simp]: "0 < clamp_retention n"
  by (simp add: clamp_retention_def MAX_RETENTION_REQUESTS_def)

lemma clamp_retention_mono: "n \<le> m \<Longrightarrow> clamp_retention n \<le> clamp_retention m"
  by (auto simp: clamp_retention_def)

text \<open>A lookup after an upsert: the new record, nothing for the evicted one, and what was there otherwise.\<close>

lemma find_unique:
  "distinct (map f xs) \<Longrightarrow> x \<in> set xs \<Longrightarrow> find (\<lambda>y. f y = f x) xs = Some x"
  by (induction xs) (auto simp: image_iff)

lemma find_absent: "k \<notin> f ` set xs \<Longrightarrow> find (\<lambda>y. f y = k) xs = None"
  by (induction xs) auto

lemma find_same:
  assumes "distinct (map f xs)" and "distinct (map f ys)"
    and "\<And>x. f x = k \<Longrightarrow> x \<in> set xs \<longleftrightarrow> x \<in> set ys"
  shows "find (\<lambda>y. f y = k) xs = find (\<lambda>y. f y = k) ys"
proof (cases "\<exists>x \<in> set xs. f x = k")
  case True
  then obtain x where x: "x \<in> set xs" "f x = k" by blast
  then show ?thesis
    using find_unique [OF assms(1) x(1)] find_unique [OF assms(2), of x] assms(3) [of x] by simp
next
  case False
  then have "k \<notin> f ` set xs" "k \<notin> f ` set ys" using assms(3) by blast+
  then show ?thesis by (simp add: find_absent)
qed

lemma upsert_member: "r \<in> set (upsert_with_fifo_eviction r n rs)"
proof (cases "rr_id r \<in> rr_id ` set rs")
  case True
  then have "r \<in> set (replace_first r rs)" by (induction rs) auto
  then show ?thesis using True by (simp add: upsert_with_fifo_eviction_def list_ex_id)
qed (simp add: upsert_with_fifo_eviction_def list_ex_id)

definition evicted :: "inspector_request_record \<Rightarrow> nat \<Rightarrow> inspector_request_record list \<Rightarrow> string option" where
  "evicted r n rs =
     (if rr_id r \<notin> rr_id ` set rs \<and> n \<le> length rs \<and> rs \<noteq> [] then Some (rr_id (hd rs)) else None)"

lemma upsert_others:
  assumes "distinct (map rr_id rs)" and "rr_id x \<noteq> rr_id r"
  shows "x \<in> set (upsert_with_fifo_eviction r n rs) \<longleftrightarrow> x \<in> set rs \<and> evicted r n rs \<noteq> Some (rr_id x)"
proof (cases "rr_id r \<in> rr_id ` set rs")
  case True
  then show ?thesis using assms(2)
    by (simp add: upsert_with_fifo_eviction_def list_ex_id evicted_def replace_first_find)
next
  case False
  then show ?thesis using assms
    by (cases rs) (auto simp: upsert_with_fifo_eviction_def list_ex_id evicted_def)
qed

lemma find_upsert:
  assumes "distinct (map rr_id rs)"
  shows "find (\<lambda>x. rr_id x = k) (rev (upsert_with_fifo_eviction r n rs)) =
    (if k = rr_id r then Some r else if evicted r n rs = Some k then None
     else find (\<lambda>x. rr_id x = k) (rev rs))"
proof -
  let ?us = "upsert_with_fifo_eviction r n rs"
  have d: "distinct (map rr_id (rev ?us))" "distinct (map rr_id (rev rs))"
    using upsert_distinct [OF assms] assms by (simp_all flip: rev_map)
  consider (new) "k = rr_id r" | (out) "k \<noteq> rr_id r" "evicted r n rs = Some k"
    | (other) "k \<noteq> rr_id r" "evicted r n rs \<noteq> Some k" by blast
  then show ?thesis
  proof cases
    case new
    then show ?thesis using find_unique [OF d(1)] upsert_member by simp
  next
    case out
    then have "k \<notin> rr_id ` set (rev ?us)" using upsert_others [OF assms] by fastforce
    then show ?thesis using out by (simp add: find_absent)
  next
    case other
    then show ?thesis using find_same [OF d] upsert_others [OF assms] by simp
  qed
qed

section \<open>Logs of identified records\<close>

text \<open>
  What the deque and the table of the database have in common: a record replaces the one with its id, and two records
  never share an id.  The client of such a log always finds the last record it wrote.
\<close>

locale record_log =
  fixes key :: "'r \<Rightarrow> 'k" and put :: "'r \<Rightarrow> 'r list \<Rightarrow> 'r list"
  assumes put_distinct: "distinct (map key rs) \<Longrightarrow> distinct (map key (put r rs))"
    and put_member: "r \<in> set (put r rs)"
begin

lemma puts_distinct: "distinct (map key rs) \<Longrightarrow> distinct (map key (fold put xs rs))"
  by (induction xs arbitrary: rs) (simp_all add: put_distinct)

lemma find_put:
  assumes "distinct (map key rs)"
  shows "find (\<lambda>x. key x = key r) (put r rs) = Some r" "find (\<lambda>x. key x = key r) (rev (put r rs)) = Some r"
  using find_unique [of key "put r rs" r] find_unique [of key "rev (put r rs)" r] put_distinct [OF assms] put_member
  by (simp_all flip: rev_map)

lemma find_last_put:
  assumes "distinct (map key rs)"
  shows "find (\<lambda>y. key y = key x) (fold put (xs @ [x]) rs) = Some x"
  using find_put(1) [OF puts_distinct [OF assms]] by simp

end

interpretation deque: record_log rr_id "\<lambda>r. upsert_with_fifo_eviction r n" for n
  by unfold_locales (simp_all add: upsert_distinct upsert_member)

section \<open>Reachable stores\<close>

text \<open>The operations of requests, in the order in which the lock of the deque serialises them.\<close>

datatype store_op =
    OpRecord bool nat inspector_request_record
  | OpUpsert bool nat inspector_request_record
  | OpFinal bool nat inspector_request_record

fun store_step :: "store_op \<Rightarrow> inspector_store \<Rightarrow> inspector_store" where
  "store_step (OpRecord e n r) = store_record e n r"
| "store_step (OpUpsert e n r) = store_upsert e n r"
| "store_step (OpFinal e n r) = store_upsert_final e n r"

fun op_retention :: "store_op \<Rightarrow> nat" where
  "op_retention (OpRecord e n r) = n"
| "op_retention (OpUpsert e n r) = n"
| "op_retention (OpFinal e n r) = n"

fun op_record :: "store_op \<Rightarrow> inspector_request_record" where
  "op_record (OpRecord e n r) = r"
| "op_record (OpUpsert e n r) = r"
| "op_record (OpFinal e n r) = r"

fun op_enabled :: "store_op \<Rightarrow> bool" where
  "op_enabled (OpRecord e n r) = e"
| "op_enabled (OpUpsert e n r) = e"
| "op_enabled (OpFinal e n r) = e"

lemma store_step_records:
  "is_records (store_step op st) =
     (if op_enabled op
      then upsert_with_fifo_eviction (op_record op) (clamp_retention (op_retention op)) (is_records st)
      else is_records st)"
  by (cases op) (simp_all add: store_record_def store_upsert_def store_upsert_final_def Let_def)

lemma store_steps_distinct:
  "distinct (record_ids st) \<Longrightarrow> distinct (record_ids (fold store_step ops st))"
  by (induction ops arbitrary: st) (simp_all add: record_ids_def store_step_records upsert_distinct)

lemma store_steps_length:
  assumes "retained_len st \<le> m" and "\<forall>op \<in> set ops. clamp_retention (op_retention op) \<le> m"
  shows "retained_len (fold store_step ops st) \<le> m"
  using assms
  by (induction ops arbitrary: st) (simp_all add: retained_len_def store_step_records upsert_length_le)

lemma distinct_new: "distinct (record_ids store_new)"
  by (simp add: record_ids_def store_new_def store_from_parts_def)

text \<open>
  C37: the inspector keeps at most as many records as the largest retention it was ever asked to keep, never
  more than 100000, and never two with the same id, whatever requests publish, update and finish in whatever
  order.
\<close>

theorem inspector_store_bounded:
  "let st = fold store_step ops store_new
   in distinct (record_ids st) \<and> retained_len st \<le> 100000 \<and>
      retained_len st \<le> Max (insert 0 (clamp_retention ` op_retention ` set ops))"
proof -
  let ?m = "Max (insert 0 (clamp_retention ` op_retention ` set ops))"
  have z: "retained_len store_new = 0" by (simp add: retained_len_def store_new_def store_from_parts_def)
  have "retained_len (fold store_step ops store_new) \<le> ?m"
    by (rule store_steps_length) (auto simp: z intro: Max_ge)
  moreover have "retained_len (fold store_step ops store_new) \<le> 100000"
    by (rule store_steps_length) (auto simp: z clamp_retention_def MAX_RETENTION_REQUESTS_def)
  ultimately show ?thesis using store_steps_distinct [OF distinct_new] by (simp add: Let_def)
qed

text \<open>
  The store behaves as a map with first-in-first-out eviction.  After an upsert into any reachable store
  the id of the record finds that record, the id that had to give way finds nothing, and every other id finds
  what it found before; an update of a known id changes neither the order nor the set of ids.
\<close>

theorem inspector_upsert_lookup:
  "let st = fold store_step ops store_new; st' = store_upsert True n r st
   in store_get k st' =
        (if k = rr_id r then Some r
         else if evicted r (clamp_retention n) (is_records st) = Some k then None
         else store_get k st) \<and>
      (if rr_id r \<in> set (record_ids st) then record_ids st' = record_ids st
       else record_ids st' =
         drop (if clamp_retention n \<le> retained_len st then 1 else 0) (record_ids st) @ [rr_id r])"
proof -
  let ?st = "fold store_step ops store_new"
  have d: "distinct (map rr_id (is_records ?st))"
    using store_steps_distinct [OF distinct_new, of ops] by (simp add: record_ids_def)
  then show ?thesis
    using find_upsert [OF d]
    by (auto simp: store_get_def store_upsert_def record_ids_def retained_len_def upsert_ids Let_def drop_Suc)
qed

text \<open>A new record sits at the back; every later push moves at most one record out at the front.\<close>

lemma upsert_keeps_back:
  assumes "rs = ps @ r # qs" and "rr_id r \<notin> rr_id ` set ps" and "rr_id r \<noteq> rr_id x"
    and "Suc (length qs) < n"
  shows "\<exists>ps' qs'. upsert_with_fifo_eviction x n rs = ps' @ r # qs' \<and> length qs' \<le> Suc (length qs) \<and>
    rr_id r \<notin> rr_id ` set ps'"
proof (cases "rr_id x \<in> rr_id ` set rs")
  case True
  then have u: "upsert_with_fifo_eviction x n rs = replace_first x rs"
    by (simp add: upsert_with_fifo_eviction_def list_ex_id)
  have "\<exists>ps' qs'. replace_first x (ps @ r # qs) = ps' @ r # qs' \<and> length qs' = length qs \<and>
      map rr_id ps' = map rr_id ps"
    using assms(3)
  proof (induction ps)
    case Nil
    then show ?case by (intro exI [of _ "[]"] exI [of _ "replace_first x qs"]) auto
  next
    case (Cons p ps)
    then obtain ps' qs' where IH: "replace_first x (ps @ r # qs) = ps' @ r # qs'" "length qs' = length qs"
      "map rr_id ps' = map rr_id ps" by blast
    show ?case
    proof (cases "rr_id p = rr_id x")
      case True
      then show ?thesis by (intro exI [of _ "x # ps"] exI [of _ qs]) simp
    next
      case False
      then show ?thesis using IH by (intro exI [of _ "p # ps'"] exI [of _ qs']) simp
    qed
  qed
  then show ?thesis using u assms(1,2) by (metis le_SucI le_refl list.set_map)
next
  case False
  then have u: "upsert_with_fifo_eviction x n rs = (if n \<le> length rs then tl rs else rs) @ [x]"
    by (simp add: upsert_with_fifo_eviction_def list_ex_id)
  show ?thesis
  proof (cases "n \<le> length rs")
    case True
    then have "ps \<noteq> []" using assms(1,4) by auto
    then have "upsert_with_fifo_eviction x n rs = tl ps @ r # (qs @ [x])" using u True assms(1) by simp
    moreover have "rr_id r \<notin> rr_id ` set (tl ps)" using assms(2) by (cases ps) auto
    ultimately show ?thesis by fastforce
  next
    case False
    then have "upsert_with_fifo_eviction x n rs = ps @ r # (qs @ [x])" using u assms(1) by simp
    then show ?thesis using assms(2) by fastforce
  qed
qed

lemma upsert_own:
  assumes "rs = ps @ r # qs" and "rr_id r \<notin> rr_id ` set ps" and "rr_id x = rr_id r"
  shows "upsert_with_fifo_eviction x n rs = ps @ x # qs"
proof -
  have "replace_first x (ps @ r # qs) = ps @ x # qs"
    using assms(2,3) by (induction ps) auto
  then show ?thesis using assms(1,3) by (simp add: upsert_with_fifo_eviction_def)
qed

lemma upserts_keep_back:
  assumes "rs = ps @ r # qs" and "rr_id r \<notin> rr_id ` set ps"
    and "length qs + length (filter (\<lambda>x. rr_id x \<noteq> rr_id r) xs) < n"
  shows "\<exists>ps' qs'. fold (\<lambda>x. upsert_with_fifo_eviction x n) xs rs =
    ps' @ last (r # filter (\<lambda>x. rr_id x = rr_id r) xs) # qs'"
  using assms
proof (induction xs arbitrary: rs ps r qs)
  case (Cons x xs)
  show ?case
  proof (cases "rr_id x = rr_id r")
    case True
    then show ?thesis
      using Cons.IH [of "ps @ x # qs" ps x qs] upsert_own [OF Cons.prems(1,2)] Cons.prems by auto
  next
    case False
    obtain ps' qs' where "upsert_with_fifo_eviction x n rs = ps' @ r # qs'"
      "length qs' \<le> Suc (length qs)" "rr_id r \<notin> rr_id ` set ps'"
      using upsert_keeps_back [of rs ps r qs x n] Cons.prems False by auto
    then show ?thesis
      using Cons.IH [of "upsert_with_fifo_eviction x n rs" ps' r qs'] Cons.prems False by auto
  qed
qed auto

lemma store_steps_records:
  "list_all (\<lambda>op. op_enabled op \<and> op_retention op = n) ops \<Longrightarrow>
     is_records (fold store_step ops st) =
       fold (\<lambda>x. upsert_with_fifo_eviction x (clamp_retention n)) (map op_record ops) (is_records st)"
  by (induction ops arbitrary: st) (simp_all add: store_step_records)

lemma record_latest_shown:
  assumes "distinct (record_ids st)" and "rr_id r \<notin> set (record_ids st)"
    and "list_all (\<lambda>op. op_enabled op \<and> op_retention op = n) ops"
    and "length (filter (\<lambda>op. rr_id (op_record op) \<noteq> rr_id r) ops) < clamp_retention n"
  shows "store_get (rr_id r) (fold store_step (OpUpsert True n r # ops) st) =
    Some (last (r # filter (\<lambda>x. rr_id x = rr_id r) (map op_record ops)))"
proof -
  let ?fin = "fold store_step (OpUpsert True n r # ops) st"
  let ?ps = "if clamp_retention n \<le> length (is_records st) then tl (is_records st) else is_records st"
  let ?l = "last (r # filter (\<lambda>x. rr_id x = rr_id r) (map op_record ops))"
  have absent: "rr_id r \<notin> rr_id ` set (is_records st)" using assms(2) by (simp add: record_ids_def)
  then have "rr_id r \<notin> rr_id ` set ?ps" by (cases "is_records st") auto
  moreover have "is_records (store_upsert True n r st) = ?ps @ [r]"
    using absent by (simp add: store_upsert_def upsert_with_fifo_eviction_def list_ex_id Let_def)
  moreover have "length (filter (\<lambda>x. rr_id x \<noteq> rr_id r) (map op_record ops)) < clamp_retention n"
    using assms(4) by (simp add: filter_map comp_def)
  ultimately obtain ps' qs' where "is_records ?fin = ps' @ ?l # qs'"
    using upserts_keep_back [of "?ps @ [r]" ?ps r "[]" "map op_record ops" "clamp_retention n"]
    by (auto simp: store_steps_records [OF assms(3)])
  then have "?l \<in> set (is_records ?fin)" by simp
  moreover have "distinct (map rr_id (is_records ?fin))"
    using store_steps_distinct [OF assms(1), of "OpUpsert True n r # ops"] by (simp only: record_ids_def)
  moreover have "rr_id ?l = rr_id r"
    using last_in_set [of "r # filter (\<lambda>x. rr_id x = rr_id r) (map op_record ops)"] by auto
  ultimately show ?thesis
    using find_unique [of rr_id "rev (is_records ?fin)" ?l] by (simp add: store_get_def flip: rev_map)
qed

text \<open>
  A request is visible from its publication on, always in its latest version.  Whatever the store held
  before, and however the updates of the request interleave with publications and updates of other requests, a
  lookup of its id finds the last record written under it, as long as the other records written since its
  publication are fewer than the retention.
\<close>

theorem inspector_record_retained:
  assumes "rr_id r \<notin> set (record_ids (fold store_step before store_new))"
    and "list_all (\<lambda>op. op_enabled op \<and> op_retention op = n) ops"
    and "length (filter (\<lambda>op. rr_id (op_record op) \<noteq> rr_id r) ops) < clamp_retention n"
  shows "store_get (rr_id r) (fold store_step (before @ OpUpsert True n r # ops) store_new) =
    Some (last (r # filter (\<lambda>x. rr_id x = rr_id r) (map op_record ops)))"
  using record_latest_shown [OF store_steps_distinct [OF distinct_new] assms] by simp

definition sample_observation :: "string \<Rightarrow> request_observation" where
  "sample_observation record_id =
     \<lparr>ro_inspector_enabled = True, ro_inspector_retention_requests = 2, ro_record_id = record_id,
      ro_client_request_id = None, ro_started_at_unix_ms = 1, ro_method = ''POST'', ro_path = ''/v1/chat/completions'',
      ro_query = None, ro_client_info = from_headers [] None [], ro_request_body_bytes = 0\<rparr>"

definition sample_record :: "string \<Rightarrow> inspector_request_record" where
  "sample_record record_id =
     initial_live_record 1 0 (sample_observation record_id) (timeline_start 1) ''chat_completions''"

lemma sample_record_id: "rr_id (sample_record k) = k"
  by (simp add: sample_record_def initial_live_record_def request_record_new_def observed_base_def
      sample_observation_def)

theorem inspector_record_retained_witness:
  "store_get ''c'' (fold store_step
     ([OpUpsert True 2 (sample_record ''a''), OpFinal True 2 (sample_record ''b'')] @ OpUpsert True 2 (sample_record ''c'') #
      [OpUpsert True 2 (sample_record ''d''), OpFinal True 2 (mark_record_interrupted (sample_record ''c''))]) store_new)
   = Some (mark_record_interrupted (sample_record ''c''))"
proof -
  let ?before = "[OpUpsert True 2 (sample_record ''a''), OpFinal True 2 (sample_record ''b'')]"
  let ?ops = "[OpUpsert True 2 (sample_record ''d''), OpFinal True 2 (mark_record_interrupted (sample_record ''c''))]"
  have i: "rr_id (mark_record_interrupted (sample_record k)) = k" for k
    using sample_record_id by (simp add: mark_record_interrupted_def)
  have "record_ids (fold store_step ?before store_new) = [''a'', ''b'']"
    by (simp add: record_ids_def store_upsert_def store_upsert_final_def store_new_def store_from_parts_def
        upsert_with_fifo_eviction_def sample_record_id clamp_retention_def MAX_RETENTION_REQUESTS_def Let_def)
  then show ?thesis
    using inspector_record_retained [of "sample_record ''c''" ?before 2 ?ops]
    by (simp add: sample_record_id i clamp_retention_def MAX_RETENTION_REQUESTS_def del: fold_simps)
qed

section \<open>Live records\<close>

text \<open>
  A live record shows a request under one id from its publication on: the final record carries the start of
  the live one, takes its place in the deque and is what a lookup finds.
\<close>

lemma live_finalize_lookup:
  assumes "distinct (record_ids st)" and "lr_enabled lr"
  shows "\<exists>r. store_get (rr_id final) (live_finalize final lr st) = Some r \<and>
    ib_started_at_unix_ms (rr_base r) = ib_started_at_unix_ms (rr_base (lr_record lr)) \<and>
    ts_started_unix_ms (rr_timeline r) = ib_started_at_unix_ms (rr_base (lr_record lr)) \<and>
    rr_outcome r = rr_outcome final"
  using assms find_upsert [of "is_records st" "rr_id final"]
  by (simp add: live_finalize_def store_upsert_final_def store_get_def record_ids_def Let_def)

lemma disabled_live_record_silent:
  assumes "\<not> lr_enabled lr"
  shows "publish_initial lr st = st" "live_update mutate lr st = (lr, st)" "live_finalize final lr st = st"
  using assms by (simp_all add: publish_initial_def live_update_def live_finalize_def)

end
