(* ===== verification/Stream_Capture.thy ===== *)
theory Stream_Capture
  imports Multipart Json_Value
begin

text \<open>
  \<open>onair-obs/src/observe/stream_capture.rs\<close>: the capture of one side of a stream.  The proxy side parses frames
  and sends events into a bounded channel; a writer thread takes them out and appends lines to a file.  The
  two sides interleave; each operation is a function on the shared state and \<open>capture_step\<close> is their
  interleaving.  What clocks read and whether a write succeeds are arguments.
\<close>

section \<open>Lossy decoding\<close>

definition in_range :: "nat \<Rightarrow> nat \<Rightarrow> char \<Rightarrow> bool" where
  "in_range lo hi c \<longleftrightarrow> lo \<le> byte c \<and> byte c \<le> hi"

text \<open>What may follow the first byte of a UTF-8 sequence; \<open>None\<close> for a byte that starts none.\<close>

definition utf8_rest :: "char \<Rightarrow> (char \<Rightarrow> bool) list option" where
  "utf8_rest c =
     (let b = byte c; tail = in_range 0x80 0xBF
      in if b < 0x80 then Some []
         else if 0xC2 \<le> b \<and> b \<le> 0xDF then Some [tail]
         else if b = 0xE0 then Some [in_range 0xA0 0xBF, tail]
         else if b = 0xED then Some [in_range 0x80 0x9F, tail]
         else if 0xE1 \<le> b \<and> b \<le> 0xEF then Some [tail, tail]
         else if b = 0xF0 then Some [in_range 0x90 0xBF, tail, tail]
         else if 0xF1 \<le> b \<and> b \<le> 0xF3 then Some [tail, tail, tail]
         else if b = 0xF4 then Some [in_range 0x80 0x8F, tail, tail]
         else None)"

text \<open>The number of bytes that match, up to the first that does not.\<close>

fun matching :: "(char \<Rightarrow> bool) list \<Rightarrow> string \<Rightarrow> nat" where
  "matching (p # ps) (c # cs) = (if p c then Suc (matching ps cs) else 0)"
| "matching _ _ = 0"

definition REPLACEMENT :: string where "REPLACEMENT = [CHR 0xEF, CHR 0xBF, CHR 0xBD]"

function from_utf8_lossy :: "string \<Rightarrow> string" where
  "from_utf8_lossy [] = []"
| "from_utf8_lossy (c # cs) =
     (let ps = (case utf8_rest c of Some ps \<Rightarrow> ps | None \<Rightarrow> []); n = matching ps cs
      in (if utf8_rest c \<noteq> None \<and> n = length ps then c # take n cs else REPLACEMENT) @ from_utf8_lossy (drop n cs))"
  by pat_completeness auto
termination
  by (relation "measure length") auto

section \<open>Events and summaries\<close>

datatype stream_event =
    SeHeader string string
  | SeBodyChunk nat string
  | SeSse "string option" string
  | SeUsage u64 u64 u64
  | SeDone
  | SeError string "string option" "nat option"

record stream_timings =
  st_side :: string
  st_started_at_unix_us :: u64
  st_first_event_at_unix_us :: "u64 option"
  st_completed_at_unix_us :: "u64 option"
  st_total_duration_us :: u64
  st_event_count :: u64
  st_dropped_events :: u64
  st_truncated :: bool

definition CHANNEL_CAPACITY :: nat where "CHANNEL_CAPACITY = 256"

definition DEFAULT_DRAIN_TIMEOUT_MS :: nat where "DEFAULT_DRAIN_TIMEOUT_MS = 500"

definition MAX_DRAIN_TIMEOUT_MS :: nat where "MAX_DRAIN_TIMEOUT_MS = 60000"

text \<open>
  The state the two sides share: the channel and whether its receiver is alive, the summary, the buffer of
  partial frames, the lines of the file, and the counters \<open>drained\<close> and \<open>lost\<close> of the writer.
\<close>

record stream_capture =
  sc_queue :: "stream_event list"
  sc_receiving :: bool
  sc_timings :: stream_timings
  sc_sse_buffer :: string
  sc_lines :: "(u64 \<times> stream_event) list"
  sc_drained :: nat
  sc_lost :: nat

definition stream_capture_new :: "string \<Rightarrow> nat option \<Rightarrow> u64 \<Rightarrow> stream_capture option" where
  "stream_capture_new side drain_timeout_ms now =
     (let t = (case drain_timeout_ms of Some t \<Rightarrow> t | None \<Rightarrow> DEFAULT_DRAIN_TIMEOUT_MS)
      in if t = 0 \<or> MAX_DRAIN_TIMEOUT_MS < t then None
         else Some \<lparr>sc_queue = [], sc_receiving = True,
           sc_timings = \<lparr>st_side = side, st_started_at_unix_us = now, st_first_event_at_unix_us = None,
             st_completed_at_unix_us = None, st_total_duration_us = 0, st_event_count = 0, st_dropped_events = 0,
             st_truncated = False\<rparr>,
           sc_sse_buffer = [], sc_lines = [], sc_drained = 0, sc_lost = 0\<rparr>)"

section \<open>The proxy side\<close>

definition count_drop :: "stream_timings \<Rightarrow> stream_timings" where
  "count_drop t = t\<lparr>st_dropped_events := saturating_add (st_dropped_events t) 1, st_truncated := True\<rparr>"

definition capture_send :: "stream_event \<Rightarrow> stream_capture \<Rightarrow> stream_capture" where
  "capture_send e sc =
     (if \<not> sc_receiving sc then sc
      else if length (sc_queue sc) < CHANNEL_CAPACITY then sc\<lparr>sc_queue := sc_queue sc @ [e]\<rparr>
      else sc\<lparr>sc_timings := count_drop (sc_timings sc)\<rparr>)"

definition record_header :: "string \<Rightarrow> string \<Rightarrow> stream_capture \<Rightarrow> stream_capture" where
  "record_header name v = capture_send (SeHeader name v)"

definition record_body_chunk :: "nat \<Rightarrow> string \<Rightarrow> stream_capture \<Rightarrow> stream_capture" where
  "record_body_chunk bytes data = capture_send (SeBodyChunk bytes (from_utf8_lossy data))"

definition record_sse :: "string option \<Rightarrow> string \<Rightarrow> stream_capture \<Rightarrow> stream_capture" where
  "record_sse event data = capture_send (SeSse event data)"

definition record_usage :: "u64 \<Rightarrow> u64 \<Rightarrow> u64 \<Rightarrow> stream_capture \<Rightarrow> stream_capture" where
  "record_usage prompt completion all_tokens = capture_send (SeUsage prompt completion all_tokens)"

definition record_done :: "stream_capture \<Rightarrow> stream_capture" where
  "record_done = capture_send SeDone"

definition record_error :: "string \<Rightarrow> string option \<Rightarrow> nat option \<Rightarrow> stream_capture \<Rightarrow> stream_capture" where
  "record_error message code status = capture_send (SeError message code status)"

text \<open>The text before and after the first empty line.\<close>

fun split_frame :: "string \<Rightarrow> (string \<times> string) option" where
  "split_frame (a # b # s) =
     (if a = CHR 0x0A \<and> b = CHR 0x0A then Some ([a, b], s)
      else map_option (\<lambda>(f, r). (a # f, r)) (split_frame (b # s)))"
| "split_frame _ = None"

definition capture_frame_line :: "string \<Rightarrow> string option \<times> string list \<Rightarrow> string option \<times> string list" where
  "capture_frame_line line acc =
     (case strip_prefix ''event: '' line of
        Some name \<Rightarrow> (Some (trim name), snd acc)
      | None \<Rightarrow>
          (case strip_prefix ''data: '' line of
             Some data \<Rightarrow> (fst acc, snd acc @ [trim data])
           | None \<Rightarrow> acc))"

definition frame_event :: "string \<Rightarrow> stream_event option" where
  "frame_event frame =
     (let (name, datas) = fold capture_frame_line (str_lines frame) (None, []); data = join [CHR 0x0A] datas
      in if name \<noteq> None \<or> data \<noteq> [] then Some (SeSse name data) else None)"

lemma split_frame_length: "split_frame s = Some (f, r) \<Longrightarrow> length r < length s"
  by (induction s arbitrary: f r rule: split_frame.induct) (auto split: if_splits)

function drain_frames :: "string \<Rightarrow> stream_event list \<times> string" where
  "drain_frames buffer =
     (case split_frame buffer of
        None \<Rightarrow> ([], buffer)
      | Some (frame, rest) \<Rightarrow>
          (let (es, buffer) = drain_frames rest
           in ((case frame_event frame of Some e \<Rightarrow> e # es | None \<Rightarrow> es), buffer)))"
  by pat_completeness auto
termination
  by (relation "measure length") (auto dest: split_frame_length)

declare drain_frames.simps [simp del]

definition record_sse_frame :: "string \<Rightarrow> stream_capture \<Rightarrow> stream_capture" where
  "record_sse_frame chunk sc =
     (let (es, buffer) = drain_frames (sc_sse_buffer sc @ from_utf8_lossy chunk)
      in fold capture_send es (sc\<lparr>sc_sse_buffer := buffer\<rparr>))"

section \<open>The writer\<close>

definition write_event_line :: "u64 \<Rightarrow> json_map \<Rightarrow> json_map" where
  "write_event_line ts_us event_fields = bt_insert ''ts_us'' (jnat ts_us) event_fields"

text \<open>One event taken from the channel at \<open>ts_us\<close>; \<open>ok\<close> says whether its line could be written.\<close>

definition writer_event :: "u64 \<Rightarrow> bool \<Rightarrow> stream_capture \<Rightarrow> stream_capture" where
  "writer_event ts_us ok sc =
     (case sc_queue sc of
        [] \<Rightarrow> sc
      | e # q \<Rightarrow>
          (let t = sc_timings sc;
               t = (if st_first_event_at_unix_us t = None then t\<lparr>st_first_event_at_unix_us := Some ts_us\<rparr> else t)
           in if ok then sc\<lparr>sc_queue := q, sc_timings := t, sc_lines := sc_lines sc @ [(ts_us, e)],
                sc_drained := sc_drained sc + 1\<rparr>
              else sc\<lparr>sc_queue := q, sc_timings := count_drop t, sc_lost := sc_lost sc + 1\<rparr>))"

definition writer_finish :: "u64 \<Rightarrow> stream_capture \<Rightarrow> stream_capture" where
  "writer_finish now sc =
     (let t = sc_timings sc
      in sc\<lparr>sc_receiving := False,
            sc_timings := t\<lparr>st_completed_at_unix_us := Some now,
              st_total_duration_us := saturating_sub now (st_started_at_unix_us t),
              st_event_count := of_nat (sc_drained sc), st_truncated := (st_truncated t \<or> 0 < sc_lost sc)\<rparr>\<rparr>)"

text \<open>
  The interleaving, with the events offered while the writer was alive.  The writer stops when its receive
  times out while it drains; the channel may hold events at that moment, because the deadline is checked
  before the channel is read.
\<close>

inductive capture_run :: "stream_capture \<Rightarrow> stream_event list \<Rightarrow> bool" where
  run_start: "stream_capture_new side drain now = Some sc \<Longrightarrow> capture_run sc []"
| run_send: "capture_run sc es \<Longrightarrow> capture_run (capture_send e sc) (if sc_receiving sc then es @ [e] else es)"
| run_buffer: "capture_run sc es \<Longrightarrow> capture_run (sc\<lparr>sc_sse_buffer := b\<rparr>) es"
| run_write: "capture_run sc es \<Longrightarrow> sc_receiving sc \<Longrightarrow> capture_run (writer_event ts ok sc) es"
| run_stop: "capture_run sc es \<Longrightarrow> sc_receiving sc \<Longrightarrow> capture_run (writer_finish now sc) es"

section \<open>Frames\<close>

lemma split_frame_append: "split_frame s = Some (f, r) \<Longrightarrow> split_frame (s @ t) = Some (f, r @ t)"
  by (induction s arbitrary: f r rule: split_frame.induct) (auto split: if_splits)

lemma drain_frames_append:
  "drain_frames (a @ b) =
     (let (es, r) = drain_frames a; (es', r') = drain_frames (r @ b) in (es @ es', r'))"
proof (induction a rule: drain_frames.induct)
  case (1 a)
  show ?case
  proof (cases "split_frame a")
    case None
    then show ?thesis by (simp add: drain_frames.simps [of a] split: prod.split)
  next
    case (Some fr)
    obtain f r where fr: "fr = (f, r)" by fastforce
    show ?thesis
      using 1 [OF Some fr [symmetric]] split_frame_append [of a f r b] Some
      by (simp add: fr drain_frames.simps [of "a @ b"] drain_frames.simps [of a] split: prod.splits option.splits)
  qed
qed

lemma lossy_ascii: "list_all is_ascii s \<Longrightarrow> from_utf8_lossy s = s"
proof (induction s)
  case (Cons c s)
  then have "utf8_rest c = Some []" by (simp add: utf8_rest_def is_ascii_def Let_def)
  then show ?case using Cons by simp
qed simp

lemma sends_buffer: "fold capture_send es (sc\<lparr>sc_sse_buffer := b\<rparr>) = (fold capture_send es sc)\<lparr>sc_sse_buffer := b\<rparr>"
proof (induction es arbitrary: sc)
  case (Cons e es)
  have "capture_send e (sc\<lparr>sc_sse_buffer := b\<rparr>) = (capture_send e sc)\<lparr>sc_sse_buffer := b\<rparr>"
    by (simp add: capture_send_def)
  then show ?case using Cons by simp
qed simp

lemma record_sse_frames_append:
  assumes "from_utf8_lossy (a @ b) = from_utf8_lossy a @ from_utf8_lossy b"
  shows "record_sse_frame b (record_sse_frame a sc) = record_sse_frame (a @ b) sc"
proof -
  obtain es r where d: "drain_frames (sc_sse_buffer sc @ from_utf8_lossy a) = (es, r)" by fastforce
  obtain es' r' where d': "drain_frames (r @ from_utf8_lossy b) = (es', r')" by fastforce
  have "drain_frames (sc_sse_buffer sc @ from_utf8_lossy (a @ b)) = (es @ es', r')"
    using drain_frames_append [of "sc_sse_buffer sc @ from_utf8_lossy a" "from_utf8_lossy b"] d d' assms by simp
  then show ?thesis using d d' by (simp add: record_sse_frame_def sends_buffer)
qed

text \<open>
  The captured events do not depend on how the stream was cut into chunks.  Recording ASCII chunks one by
  one leaves the capture as recording their concatenation at once does: the same events in the channel, the
  same partial frame in the buffer and the same drops.
\<close>

theorem capture_chunking_irrelevant:
  assumes "\<forall>c \<in> set (chunk # chunks). list_all is_ascii c"
  shows "fold record_sse_frame (chunk # chunks) sc = record_sse_frame (concat (chunk # chunks)) sc"
  using assms
proof (induction chunks arbitrary: chunk)
  case (Cons c cs)
  have "from_utf8_lossy (chunk @ c) = from_utf8_lossy chunk @ from_utf8_lossy c"
    using Cons.prems by (simp add: lossy_ascii)
  then show ?case using Cons.IH [of "chunk @ c"] Cons.prems by (simp add: record_sse_frames_append)
qed simp

definition sample_capture :: stream_capture where
  "sample_capture = the (stream_capture_new ''client_response'' None 0)"

theorem capture_chunking_irrelevant_witness:
  "fold record_sse_frame [''data: a'', [CHR 0x0A], [CHR 0x0A]] sample_capture =
     record_sse_frame (''data: a'' @ [CHR 0x0A, CHR 0x0A]) sample_capture"
  using capture_chunking_irrelevant [of "''data: a''" "[[CHR 0x0A], [CHR 0x0A]]" sample_capture]
  by (simp add: is_ascii_def byte_def)

section \<open>Accounting\<close>

lemma unat_of_nat_small: "n < 2 ^ 64 \<Longrightarrow> unat (of_nat n :: u64) = n"
  by (simp add: unat_of_nat)

lemma saturating_add_u64: "saturating_add (saturating_u64 d) 1 = saturating_u64 (Suc d)"
proof (cases "Suc d < 2 ^ 64")
  case True
  then have d: "d < 2 ^ 64" by simp
  have s: "(of_nat d + 1 :: u64) = of_nat (Suc d)" by simp
  have "\<not> (of_nat (Suc d) :: u64) < of_nat d"
    unfolding word_less_nat_alt unat_of_nat_small [OF True] unat_of_nat_small [OF d] by simp
  then show ?thesis using True d unfolding saturating_u64_def saturating_add_def by (simp only: s if_True if_False)
next
  case False
  have "saturating_u64 d = - 1"
  proof (cases "d < 2 ^ 64")
    case True
    then have "d = 2 ^ 64 - 1" using False by simp
    then have "(of_nat d :: u64) = of_nat (2 ^ 64 - 1)" by simp
    also have "\<dots> = - 1" by (simp add: of_nat_diff)
    finally show ?thesis using True by (simp add: saturating_u64_def)
  qed (simp add: saturating_u64_def)
  moreover have "saturating_u64 (Suc d) = - 1" using False by (simp add: saturating_u64_def)
  moreover have "saturating_add (- 1) 1 = - 1" by (simp add: saturating_add_def word_gt_0)
  ultimately show ?thesis by simp
qed

text \<open>What holds of a capture that dropped \<open>d\<close> events.\<close>

definition accounts :: "stream_capture \<Rightarrow> stream_event list \<Rightarrow> nat \<Rightarrow> bool" where
  "accounts sc es d \<longleftrightarrow>
     length es = length (sc_lines sc) + d + length (sc_queue sc) \<and>
     st_dropped_events (sc_timings sc) = saturating_u64 d \<and>
     (st_truncated (sc_timings sc) \<longleftrightarrow> 0 < d) \<and>
     sc_drained sc = length (sc_lines sc) \<and> sc_lost sc \<le> d \<and>
     length (sc_queue sc) \<le> CHANNEL_CAPACITY \<and>
     (d = 0 \<longrightarrow> map snd (sc_lines sc) @ sc_queue sc = es) \<and>
     (\<not> sc_receiving sc \<longrightarrow> st_event_count (sc_timings sc) = of_nat (length (sc_lines sc)))"

lemma count_drop_fields [simp]:
  "st_dropped_events (count_drop t) = saturating_add (st_dropped_events t) 1" "st_truncated (count_drop t)"
  "st_event_count (count_drop t) = st_event_count t"
  by (simp_all add: count_drop_def)

lemma accounts_send:
  assumes "accounts sc es d"
  shows "\<exists>d. accounts (capture_send e sc) (if sc_receiving sc then es @ [e] else es) d"
proof -
  consider "\<not> sc_receiving sc" | "sc_receiving sc" "length (sc_queue sc) < CHANNEL_CAPACITY"
    | "sc_receiving sc" "\<not> length (sc_queue sc) < CHANNEL_CAPACITY" by blast
  then show ?thesis
  proof cases
    case 3
    then have "accounts (capture_send e sc) (es @ [e]) (Suc d)"
      using assms by (simp add: accounts_def capture_send_def saturating_add_u64)
    then show ?thesis using 3 by auto
  qed (use assms in \<open>auto intro!: exI [of _ d] simp: accounts_def capture_send_def\<close>)
qed

lemma accounts_write:
  assumes "accounts sc es d" and "sc_receiving sc"
  shows "\<exists>d. accounts (writer_event ts ok sc) es d"
proof (cases "sc_queue sc")
  case Nil
  then show ?thesis using assms(1) by (auto simp: writer_event_def)
next
  case (Cons e q)
  show ?thesis
  proof (cases ok)
    case True
    then have "accounts (writer_event ts ok sc) es d"
      using Cons assms by (auto simp: accounts_def writer_event_def Let_def)
    then show ?thesis by blast
  next
    case False
    then have "accounts (writer_event ts ok sc) es (Suc d)"
      using Cons assms by (auto simp: accounts_def writer_event_def Let_def saturating_add_u64)
    then show ?thesis by blast
  qed
qed

lemma capture_run_accounts: "capture_run sc es \<Longrightarrow> \<exists>d. accounts sc es d"
proof (induction rule: capture_run.induct)
  case (run_start side drain now sc)
  then have "accounts sc [] 0"
    by (auto simp: stream_capture_new_def accounts_def saturating_u64_def Let_def split: if_splits)
  then show ?case by blast
next
  case (run_send sc es e)
  then show ?case using accounts_send by blast
next
  case (run_buffer sc es b)
  then show ?case by (auto simp: accounts_def)
next
  case (run_write sc es ts ok)
  then show ?case using accounts_write by blast
next
  case (run_stop sc es now)
  then obtain d where "accounts sc es d" by blast
  then have "accounts (writer_finish now sc) es d"
    by (auto simp: accounts_def writer_finish_def Let_def)
  then show ?case by blast
qed

text \<open>What the proxy side and the writer contribute to a run while the writer is alive.\<close>

definition capturing :: "stream_capture \<Rightarrow> stream_event list \<Rightarrow> bool" where
  "capturing sc es \<longleftrightarrow> capture_run sc es \<and> sc_receiving sc"

lemma capturing_new: "stream_capture_new side drain now = Some sc \<Longrightarrow> capturing sc [] \<and> sc_sse_buffer sc = []"
  using run_start by (auto simp: capturing_def stream_capture_new_def Let_def split: if_splits)

lemma capturing_send: "capturing sc es \<Longrightarrow> capturing (capture_send e sc) (es @ [e])"
  using run_send [of sc es e] by (auto simp: capturing_def capture_send_def)

lemma capturing_sends: "capturing sc es \<Longrightarrow> capturing (fold capture_send xs sc) (es @ xs)"
proof (induction xs arbitrary: sc es)
  case (Cons x xs)
  then show ?case using Cons.IH [OF capturing_send [OF Cons.prems]] by simp
qed simp

lemma capturing_writer_event: "capturing sc es \<Longrightarrow> capturing (writer_event ts ok sc) es"
  using run_write [of sc es ts ok] by (auto simp: capturing_def writer_event_def Let_def split: list.split)

lemma send_buffer [simp]: "sc_sse_buffer (capture_send e sc) = sc_sse_buffer sc"
  by (simp add: capture_send_def)

lemma writer_event_buffer [simp]: "sc_sse_buffer (writer_event ts ok sc) = sc_sse_buffer sc"
  by (simp add: writer_event_def Let_def split: list.split)

lemma capturing_frame:
  assumes "capturing sc es" and "drain_frames (sc_sse_buffer sc @ from_utf8_lossy chunk) = (xs, b)"
  shows "capturing (record_sse_frame chunk sc) (es @ xs) \<and> sc_sse_buffer (record_sse_frame chunk sc) = b"
proof -
  have "capturing (sc\<lparr>sc_sse_buffer := b\<rparr>) es" using assms(1) run_buffer by (simp add: capturing_def)
  then show ?thesis
    using assms(2) capturing_sends [of "sc\<lparr>sc_sse_buffer := b\<rparr>" es xs] by (simp add: record_sse_frame_def sends_buffer)
qed

lemma capturing_untruncated:
  "capturing sc es \<Longrightarrow> st_truncated (sc_timings sc) \<or> map snd (sc_lines sc) @ sc_queue sc = es"
  using capture_run_accounts [of sc es] by (auto simp: capturing_def accounts_def)

text \<open>
  The summary of a stream capture accounts for every event.  In every interleaving of the proxy and the
  writer, each event offered to a living writer is a line of the file, a counted drop, or still in the channel;
  the channel never exceeds its capacity, the summary says truncated exactly when it counts a drop, and
  without drops the file followed by the channel is the sequence of events.
\<close>

theorem capture_accounting:
  assumes "capture_run sc es"
  shows "\<exists>d. length es = length (sc_lines sc) + d + length (sc_queue sc) \<and>
    st_dropped_events (sc_timings sc) = saturating_u64 d \<and> (st_truncated (sc_timings sc) \<longleftrightarrow> 0 < d) \<and>
    length (sc_queue sc) \<le> 256 \<and> (d \<noteq> 0 \<or> map snd (sc_lines sc) @ sc_queue sc = es)"
  using capture_run_accounts [OF assms] by (auto simp: accounts_def CHANNEL_CAPACITY_def)

theorem capture_accounting_witness:
  "\<exists>d. length [SeDone] = length (sc_lines (capture_send SeDone sample_capture)) + d +
      length (sc_queue (capture_send SeDone sample_capture)) \<and>
    (st_truncated (sc_timings (capture_send SeDone sample_capture)) \<longleftrightarrow> 0 < d)"
proof -
  have n: "stream_capture_new ''client_response'' None 0 = Some sample_capture"
    by (simp add: sample_capture_def stream_capture_new_def DEFAULT_DRAIN_TIMEOUT_MS_def MAX_DRAIN_TIMEOUT_MS_def)
  have "sc_receiving sample_capture"
    by (simp add: sample_capture_def stream_capture_new_def DEFAULT_DRAIN_TIMEOUT_MS_def MAX_DRAIN_TIMEOUT_MS_def)
  then have "capture_run (capture_send SeDone sample_capture) [SeDone]"
    using run_send [OF run_start [OF n], of SeDone] by simp
  from capture_accounting [OF this] show ?thesis by blast
qed

text \<open>
  What the summary does not show: events still in the channel when the writer gives up are neither written nor
  counted, and the capture is not marked as truncated.
\<close>

lemma stop_loses_silently:
  assumes "capture_run sc es" and "sc_receiving sc" and "sc_queue sc \<noteq> []" and "\<not> st_truncated (sc_timings sc)"
  shows "\<not> st_truncated (sc_timings (writer_finish now sc)) \<and> length (sc_lines (writer_finish now sc)) < length es"
proof -
  from capture_run_accounts [OF assms(1)] obtain d where "accounts sc es d" by blast
  then show ?thesis using assms(3,4) by (auto simp: accounts_def writer_finish_def Let_def)
qed

section \<open>The life of the writer\<close>

text \<open>
  The control state of \<open>writer_loop\<close>: writing until the shutdown flag is set, draining until a receive times out, or,
  when the file cannot be opened, discarding until the channel is disconnected.  The flag is read before each
  receive; a draining receive times out at the latest when the deadline has passed.
\<close>

datatype writer_mode = WRunning | WDraining | WDiscarding | WExited

datatype recv_result = Received | TimedOut | Disconnected

definition writer_start :: "bool \<Rightarrow> writer_mode" where
  "writer_start opened = (if opened then WRunning else WDiscarding)"

definition observe_shutdown :: "bool \<Rightarrow> writer_mode \<Rightarrow> writer_mode" where
  "observe_shutdown shutdown mode = (if mode = WRunning \<and> shutdown then WDraining else mode)"

definition writer_mode_step :: "bool \<Rightarrow> recv_result \<Rightarrow> writer_mode \<Rightarrow> writer_mode" where
  "writer_mode_step shutdown r mode =
     (let mode = observe_shutdown shutdown mode
      in case r of
           Received \<Rightarrow> mode
         | Disconnected \<Rightarrow> WExited
         | TimedOut \<Rightarrow> if mode = WDraining then WExited else mode)"

lemma writer_mode_step_simps [simp]:
  "writer_mode_step shutdown Received mode = observe_shutdown shutdown mode"
  "writer_mode_step shutdown Disconnected mode = WExited"
  "writer_mode_step shutdown TimedOut mode =
     (if observe_shutdown shutdown mode = WDraining then WExited else observe_shutdown shutdown mode)"
  "observe_shutdown True WRunning = WDraining" "observe_shutdown shutdown WDraining = WDraining"
  "observe_shutdown shutdown WDiscarding = WDiscarding" "observe_shutdown shutdown WExited = WExited"
  by (simp_all add: writer_mode_step_def observe_shutdown_def)

lemma exited_stays: "fold (writer_mode_step shutdown) rs WExited = WExited"
proof (induction rs)
  case (Cons r rs)
  then show ?case by (cases r) simp_all
qed simp

lemma draining_exits:
  "Disconnected \<notin> set rs \<Longrightarrow> TimedOut \<in> set rs \<Longrightarrow> mode \<in> {WRunning, WDraining} \<Longrightarrow>
     fold (writer_mode_step True) rs mode = WExited"
proof (induction rs arbitrary: mode)
  case (Cons r rs)
  then show ?case by (cases r) (auto simp: exited_stays)
qed simp

lemma discarding_stays:
  "Disconnected \<notin> set rs \<Longrightarrow> fold (writer_mode_step shutdown) rs WDiscarding = WDiscarding"
proof (induction rs)
  case (Cons r rs)
  then show ?case by (cases r) auto
qed simp

text \<open>
  Whether finishing a capture returns depends on the file.  \<open>finish\<close> sets the flag and joins the writer while its own
  handle keeps the channel connected.  Then a writer that could open its file exits at the first receive that
  times out; one that could not never exits, however long it runs.
\<close>

theorem finish_returns_iff_opened:
  assumes "Disconnected \<notin> set rs" and "TimedOut \<in> set rs"
  shows "fold (writer_mode_step True) rs (writer_start opened) = (if opened then WExited else WDiscarding)"
  using draining_exits [OF assms] discarding_stays [OF assms(1)] by (simp add: writer_start_def)

theorem finish_returns_iff_opened_witness:
  "fold (writer_mode_step True) [Received, TimedOut] (writer_start True) = WExited \<and>
   fold (writer_mode_step True) [Received, TimedOut] (writer_start False) = WDiscarding"
  using finish_returns_iff_opened [of "[Received, TimedOut]" True] finish_returns_iff_opened [of "[Received, TimedOut]" False]
  by simp

end
