(* ===== verification/Debug_Capture.thy ===== *)
theory Debug_Capture
  imports Inspector_Store Stream_Capture
begin

text \<open>
  \<open>onair-obs/src/observe/debug_capture.rs\<close>: the capture of a request in a directory of its own, and the point of
  \<open>onair-proxy/src/proxy/context.rs\<close> at which a failing request is captured late.  What is done to the file
  system is the list of operations; which of them succeed is the parameter \<open>io\<close>, and the operations stop at
  the first that fails.  The JSON of the metadata is a parameter.
\<close>

section \<open>File operations\<close>

datatype fs_op =
    CreateDirAll string
  | RequireDir string
  | SetMode string nat
  | CreateDir string nat
  | WriteNew string string nat
  | WriteReplace string string nat

type_synonym io_env = "fs_op \<Rightarrow> bool"

definition DIR_MODE :: nat where "DIR_MODE = 448"

definition FILE_MODE :: nat where "FILE_MODE = 384"

text \<open>The operations that were attempted, and whether all of them succeeded.\<close>

fun perform :: "io_env \<Rightarrow> fs_op list \<Rightarrow> fs_op list \<times> bool" where
  "perform io [] = ([], True)"
| "perform io (x # xs) = (if io x then map_prod (Cons x) id (perform io xs) else ([x], False))"

definition path_join :: "string \<Rightarrow> string \<Rightarrow> string" where
  "path_join directory name = directory @ ''/'' @ name"

definition INBOUND_BODY_FILE :: string where "INBOUND_BODY_FILE = ''inbound.body''"

definition UPSTREAM_BODY_FILE :: string where "UPSTREAM_BODY_FILE = ''upstream.body''"

definition UPSTREAM_ERROR_BODY_FILE :: string where "UPSTREAM_ERROR_BODY_FILE = ''upstream_error.body''"

definition UPSTREAM_RESPONSE_FILE :: string where "UPSTREAM_RESPONSE_FILE = ''upstream_response.ndjson''"

definition CLIENT_RESPONSE_FILE :: string where "CLIENT_RESPONSE_FILE = ''client_response.ndjson''"

definition METADATA_FILE :: string where "METADATA_FILE = ''metadata.json''"

section \<open>Metadata\<close>

datatype capture_outcome =
    CapSentToUpstream
  | CapSuccess status_code
  | CapStreamCompleted status_code nat token_counts
  | CapStreamIncomplete status_code nat token_counts
  | CapUpstreamNonSuccess status_code status_code
  | CapUpstreamTimeout status_code
  | CapUpstreamRequestFailed status_code string
  | CapUpstreamBodyReadFailed status_code string
  | CapUpstreamStreamFailed status_code nat string token_counts

record stored_timings =
  sti_file :: string
  sti_started_at_unix_us :: u64
  sti_first_event_at_unix_us :: "u64 option"
  sti_completed_at_unix_us :: "u64 option"
  sti_total_duration_us :: u64
  sti_event_count :: u64
  sti_dropped_events :: u64
  sti_truncated :: bool

record capture_files =
  cfl_inbound_body :: string
  cfl_upstream_body :: string
  cfl_upstream_error_body :: "string option"
  cfl_upstream_response :: "string option"
  cfl_client_response :: "string option"

record capture_timings =
  ctm_upstream_response :: "stored_timings option"
  ctm_client_response :: "stored_timings option"

record capture_request =
  cq_method :: string
  cq_client_path :: string
  cq_client_query :: "string option"
  cq_upstream_path :: string
  cq_upstream_query :: "string option"
  cq_content_type :: "string option"
  cq_request_id :: "string option"
  cq_labels :: metric_labels
  cq_requested_model :: string
  cq_public_model :: string
  cq_backend_model :: string
  cq_inbound_body :: string
  cq_upstream_body :: string

text \<open>The fields copied from the request are kept as that request, its bodies as their lengths.\<close>

record capture_metadata =
  cm_id :: string
  cm_captured_at_unix_ms :: nat
  cm_request :: capture_request
  cm_mode :: debug_capture_mode
  cm_request_body_bytes :: nat
  cm_upstream_body_bytes :: nat
  cm_upstream_error_status :: "status_code option"
  cm_upstream_error_content_type :: "string option"
  cm_upstream_error_body_bytes :: "nat option"
  cm_upstream_error_body_truncated :: "bool option"
  cm_stream_usage :: usage_diagnostics
  cm_files :: capture_files
  cm_timings :: capture_timings
  cm_outcome :: capture_outcome

record request_capture =
  cap_directory :: string
  cap_metadata :: capture_metadata

type_synonym metadata_writer = "capture_metadata \<Rightarrow> string"

definition capture_timings_empty :: "capture_timings \<Rightarrow> bool" where
  "capture_timings_empty t \<longleftrightarrow> ctm_upstream_response t = None \<and> ctm_client_response t = None"

section \<open>Creation\<close>

definition capture_id :: "nat \<Rightarrow> nat \<Rightarrow> nat \<Rightarrow> string option \<Rightarrow> string" where
  "capture_id captured_at pid sequence request_id =
     (let i = show_nat captured_at @ ''-'' @ show_nat pid @ ''-'' @ show_nat sequence
      in case Option.bind request_id (\<lambda>v. sanitize_for_storage v STORAGE_SEGMENT_MAX_CHARS) of
           Some r \<Rightarrow> i @ ''-'' @ r
         | None \<Rightarrow> i)"

definition write_metadata :: "metadata_writer \<Rightarrow> request_capture \<Rightarrow> fs_op" where
  "write_metadata mw cap =
     WriteReplace (path_join (cap_directory cap) METADATA_FILE) (mw (cap_metadata cap)) FILE_MODE"

definition initial_metadata :: "debug_capture_config \<Rightarrow> string \<Rightarrow> nat \<Rightarrow> capture_request \<Rightarrow> capture_metadata" where
  "initial_metadata config i captured_at rq =
     \<lparr>cm_id = i, cm_captured_at_unix_ms = captured_at, cm_request = rq, cm_mode = dc_mode config,
      cm_request_body_bytes = length (cq_inbound_body rq), cm_upstream_body_bytes = length (cq_upstream_body rq),
      cm_upstream_error_status = None, cm_upstream_error_content_type = None, cm_upstream_error_body_bytes = None,
      cm_upstream_error_body_truncated = None, cm_stream_usage = default_diagnostics,
      cm_files = \<lparr>cfl_inbound_body = INBOUND_BODY_FILE, cfl_upstream_body = UPSTREAM_BODY_FILE,
        cfl_upstream_error_body = None, cfl_upstream_response = None, cfl_client_response = None\<rparr>,
      cm_timings = \<lparr>ctm_upstream_response = None, ctm_client_response = None\<rparr>,
      cm_outcome = CapSentToUpstream\<rparr>"

text \<open>The process id, the counter and the clock are arguments.\<close>

definition create_capture ::
  "io_env \<Rightarrow> metadata_writer \<Rightarrow> nat \<Rightarrow> nat \<Rightarrow> nat \<Rightarrow> debug_capture_config \<Rightarrow> capture_request \<Rightarrow>
     fs_op list \<times> request_capture option" where
  "create_capture io mw pid sequence now config rq =
     (let root = dc_directory config;
          i = capture_id now pid sequence (cq_request_id rq);
          directory = path_join root i;
          cap = \<lparr>cap_directory = directory, cap_metadata = initial_metadata config i now rq\<rparr>;
          (ops, ok) = perform io
            [CreateDirAll root, RequireDir root, SetMode root DIR_MODE, CreateDir directory DIR_MODE,
             WriteNew (path_join directory INBOUND_BODY_FILE) (cq_inbound_body rq) FILE_MODE,
             WriteNew (path_join directory UPSTREAM_BODY_FILE) (cq_upstream_body rq) FILE_MODE,
             write_metadata mw cap]
      in (ops, if ok then Some cap else None))"

definition capture_request_op ::
  "io_env \<Rightarrow> metadata_writer \<Rightarrow> nat \<Rightarrow> nat \<Rightarrow> nat \<Rightarrow> debug_capture_config \<Rightarrow> capture_request \<Rightarrow>
     fs_op list \<times> request_capture option" where
  "capture_request_op io mw pid sequence now config rq =
     (if \<not> dc_enabled config then ([], None) else create_capture io mw pid sequence now config rq)"

section \<open>Updates\<close>

definition update_metadata ::
  "metadata_writer \<Rightarrow> (capture_metadata \<Rightarrow> capture_metadata) \<Rightarrow> request_capture \<Rightarrow> fs_op list \<times> request_capture" where
  "update_metadata mw f cap =
     (let cap = cap\<lparr>cap_metadata := f (cap_metadata cap)\<rparr> in ([write_metadata mw cap], cap))"

definition record_outcome ::
  "metadata_writer \<Rightarrow> capture_outcome \<Rightarrow> request_capture \<Rightarrow> fs_op list \<times> request_capture" where
  "record_outcome mw outcome = update_metadata mw (\<lambda>m. m\<lparr>cm_outcome := outcome\<rparr>)"

definition record_stream_usage ::
  "metadata_writer \<Rightarrow> usage_diagnostics \<Rightarrow> request_capture \<Rightarrow> fs_op list \<times> request_capture" where
  "record_stream_usage mw d = update_metadata mw (\<lambda>m. m\<lparr>cm_stream_usage := d\<rparr>)"

definition stored_timings_of :: "string \<Rightarrow> stream_timings \<Rightarrow> stored_timings" where
  "stored_timings_of file t =
     \<lparr>sti_file = file, sti_started_at_unix_us = st_started_at_unix_us t,
      sti_first_event_at_unix_us = st_first_event_at_unix_us t,
      sti_completed_at_unix_us = st_completed_at_unix_us t, sti_total_duration_us = st_total_duration_us t,
      sti_event_count = st_event_count t, sti_dropped_events = st_dropped_events t,
      sti_truncated = st_truncated t\<rparr>"

definition record_stream_summary ::
  "metadata_writer \<Rightarrow> string \<Rightarrow> stream_timings \<Rightarrow> request_capture \<Rightarrow> fs_op list \<times> request_capture" where
  "record_stream_summary mw side t cap =
     (if side = ''upstream_response'' then
        update_metadata mw (\<lambda>m. m\<lparr>cm_files := (cm_files m)\<lparr>cfl_upstream_response := Some UPSTREAM_RESPONSE_FILE\<rparr>,
          cm_timings := (cm_timings m)\<lparr>ctm_upstream_response := Some (stored_timings_of UPSTREAM_RESPONSE_FILE t)\<rparr>\<rparr>) cap
      else if side = ''client_response'' then
        update_metadata mw (\<lambda>m. m\<lparr>cm_files := (cm_files m)\<lparr>cfl_client_response := Some CLIENT_RESPONSE_FILE\<rparr>,
          cm_timings := (cm_timings m)\<lparr>ctm_client_response := Some (stored_timings_of CLIENT_RESPONSE_FILE t)\<rparr>\<rparr>) cap
      else ([], cap))"

text \<open>The metadata names the error body only if that body could be written.\<close>

definition record_upstream_error_response ::
  "io_env \<Rightarrow> metadata_writer \<Rightarrow> status_code \<Rightarrow> string option \<Rightarrow> string \<Rightarrow> bool \<Rightarrow> request_capture \<Rightarrow>
     fs_op list \<times> request_capture" where
  "record_upstream_error_response io mw status content_type body truncated cap =
     (let w = WriteReplace (path_join (cap_directory cap) UPSTREAM_ERROR_BODY_FILE) body FILE_MODE
      in if \<not> io w then ([w], cap)
         else let (ops, cap) = update_metadata mw (\<lambda>m. m\<lparr>
                cm_files := (cm_files m)\<lparr>cfl_upstream_error_body := Some UPSTREAM_ERROR_BODY_FILE\<rparr>,
                cm_upstream_error_status := Some status, cm_upstream_error_content_type := content_type,
                cm_upstream_error_body_bytes := Some (length body),
                cm_upstream_error_body_truncated := Some truncated\<rparr>) cap
              in (w # ops, cap))"

definition open_stream_capture :: "string \<Rightarrow> u64 \<Rightarrow> request_capture \<Rightarrow> (string \<times> stream_capture) option" where
  "open_stream_capture side now cap =
     map_option (\<lambda>sc. (path_join (cap_directory cap) (side @ ''.ndjson''), sc)) (stream_capture_new side None now)"

section \<open>Late captures\<close>

text \<open>
  A failing request is captured when it was not before and its capture is pending; the attempt shows the
  capture and, if it is new, when it was done.
\<close>

definition ensure_failure_debug_capture ::
  "(capture_request \<Rightarrow> request_capture option) \<Rightarrow> nat \<Rightarrow> capture_request option \<Rightarrow> request_capture option \<Rightarrow>
     request_timeline \<Rightarrow> attempt_builder option \<Rightarrow>
     capture_request option \<times> request_capture option \<times> request_timeline \<times> attempt_builder option" where
  "ensure_failure_debug_capture capture elapsed pending debug_capture tline attempt =
     (let had_capture = (debug_capture \<noteq> None);
          (pending, debug_capture) =
            (case (debug_capture, pending) of
               (None, Some p) \<Rightarrow> (None, capture p)
             | _ \<Rightarrow> (pending, debug_capture));
          fresh = (\<not> had_capture \<and> debug_capture \<noteq> None);
          (tline, t) = (if fresh then timeline_mark DebugCaptureDone elapsed tline else (tline, 0))
      in (pending, debug_capture, tline,
          map_option (\<lambda>b. let b = set_debug_capture (map_option (\<lambda>c. cm_id (cap_metadata c)) debug_capture) b
             in if fresh then mark_debug_capture_done t b else b) attempt))"

section \<open>Identifiers\<close>

text \<open>Capture ids and record ids have the same shape: time, process and counter, and perhaps a client's text.\<close>

definition numbered_id :: "nat \<Rightarrow> nat \<Rightarrow> nat \<Rightarrow> string option \<Rightarrow> string" where
  "numbered_id t pid n client =
     show_nat t @ ''-'' @ show_nat pid @ ''-'' @ show_nat n @ (case client of Some c \<Rightarrow> ''-'' @ c | None \<Rightarrow> [])"

lemma capture_id_numbered:
  "capture_id t pid n r = numbered_id t pid n (Option.bind r (\<lambda>v. sanitize_for_storage v STORAGE_SEGMENT_MAX_CHARS))"
  by (simp add: capture_id_def numbered_id_def Let_def split: option.splits)

lemma record_id_numbered:
  "next_record_id pid n t r =
     numbered_id (unat t) pid n (Option.bind r (\<lambda>v. sanitize_for_storage v DISPLAY_SEGMENT_MAX_CHARS))"
  by (simp add: next_record_id_def numbered_id_def Let_def split: option.splits)

lemma takeWhile_show_nat:
  assumes "rest = [] \<or> \<not> is_ascii_digit (hd rest)"
  shows "takeWhile is_ascii_digit (show_nat n @ rest) = show_nat n" "dropWhile is_ascii_digit (show_nat n @ rest) = rest"
proof -
  have "takeWhile is_ascii_digit rest = []" "dropWhile is_ascii_digit rest = rest"
    using assms by (cases rest; simp)+
  then show "takeWhile is_ascii_digit (show_nat n @ rest) = show_nat n"
    "dropWhile is_ascii_digit (show_nat n @ rest) = rest"
    using show_nat_digits [of _ n] by (simp_all add: takeWhile_append2 dropWhile_append2)
qed

lemma show_nat_inj: "show_nat a = show_nat b \<Longrightarrow> a = b"
  by (metis number_value_show_nat)

lemma show_nat_field:
  assumes "show_nat a @ r = show_nat b @ s" and "r = [] \<or> \<not> is_ascii_digit (hd r)" and "s = [] \<or> \<not> is_ascii_digit (hd s)"
  shows "a = b \<and> r = s"
  using assms takeWhile_show_nat [OF assms(2), of a] takeWhile_show_nat [OF assms(3), of b] show_nat_inj by metis

lemma dash_not_digit: "\<not> is_ascii_digit CHR ''-''"
  by (simp add: is_ascii_digit_def byte_def)

lemma numbered_id_inj: "numbered_id t pid n c = numbered_id t' pid' n' c' \<Longrightarrow> n = n'"
proof -
  assume h: "numbered_id t pid n c = numbered_id t' pid' n' c'"
  let ?tail = "\<lambda>c. case c of Some c \<Rightarrow> ''-'' @ c | None \<Rightarrow> []"
  from h have "show_nat pid @ ''-'' @ show_nat n @ ?tail c = show_nat pid' @ ''-'' @ show_nat n' @ ?tail c'"
    using show_nat_field [of t "''-'' @ show_nat pid @ ''-'' @ show_nat n @ ?tail c" t'
        "''-'' @ show_nat pid' @ ''-'' @ show_nat n' @ ?tail c'"] dash_not_digit by (simp add: numbered_id_def)
  then have "show_nat n @ ?tail c = show_nat n' @ ?tail c'"
    using show_nat_field [of pid "''-'' @ show_nat n @ ?tail c" pid' "''-'' @ show_nat n' @ ?tail c'"]
      dash_not_digit by simp
  then show "n = n'"
    using show_nat_field [of n "?tail c" n' "?tail c'"] dash_not_digit by (simp split: option.splits)
qed

lemma numbered_ids_distinct:
  assumes "\<And>n x. f n x = numbered_id (t x) pid n (c x)"
  shows "distinct (map2 f [k..<k + length xs] xs)"
proof (induction xs arbitrary: k)
  case (Cons x xs)
  have "f k x \<notin> set (map2 f [Suc k..<Suc k + length xs] xs)"
    using numbered_id_inj by (fastforce simp: assms dest: set_zip_leftD)
  then show ?case using Cons.IH [of "Suc k"] by (simp add: upt_conv_Cons del: upt_Suc)
qed simp

text \<open>
  Identifiers are never used twice by a process.  Whatever the clock reads and whatever ids the clients
  send, the record ids of any number of consecutive requests are distinct, and so are their capture ids.
\<close>

theorem ids_unique:
  "distinct (map2 (\<lambda>n (t, r). next_record_id pid n t r) [k..<k + length xs] xs) \<and>
   distinct (map2 (\<lambda>n (t, r). capture_id t pid n r) [k..<k + length ys] ys)"
  by (intro conjI numbered_ids_distinct; simp add: case_prod_unfold record_id_numbered capture_id_numbered; rule refl)

section \<open>Confinement\<close>

text \<open>The operations allowed to a capture: the private root, one private directory in it, private files in that.\<close>

fun private_op :: "string \<Rightarrow> string \<Rightarrow> fs_op \<Rightarrow> bool" where
  "private_op root i (CreateDirAll p) = (p = root)"
| "private_op root i (RequireDir p) = (p = root)"
| "private_op root i (SetMode p m) = (p = root \<and> m = 448)"
| "private_op root i (CreateDir p m) = (p = root @ ''/'' @ i \<and> m = 448)"
| "private_op root i (WriteNew p b m) = (\<exists>name. p = root @ ''/'' @ i @ ''/'' @ name \<and> CHR ''/'' \<notin> set name \<and> m = 384)"
| "private_op root i (WriteReplace p b m) =
     (\<exists>name. p = root @ ''/'' @ i @ ''/'' @ name \<and> CHR ''/'' \<notin> set name \<and> m = 384)"

datatype capture_op =
    UpOutcome capture_outcome
  | UpUsage usage_diagnostics
  | UpSummary string stream_timings
  | UpError status_code "string option" string bool

fun capture_update :: "io_env \<Rightarrow> metadata_writer \<Rightarrow> capture_op \<Rightarrow> request_capture \<Rightarrow> fs_op list \<times> request_capture" where
  "capture_update io mw (UpOutcome x) cap = record_outcome mw x cap"
| "capture_update io mw (UpUsage d) cap = record_stream_usage mw d cap"
| "capture_update io mw (UpSummary side t) cap = record_stream_summary mw side t cap"
| "capture_update io mw (UpError s ct b tr) cap = record_upstream_error_response io mw s ct b tr cap"

fun capture_updates :: "io_env \<Rightarrow> metadata_writer \<Rightarrow> capture_op list \<Rightarrow> request_capture \<Rightarrow> fs_op list" where
  "capture_updates io mw [] cap = []"
| "capture_updates io mw (u # us) cap =
     (let (ops, cap) = capture_update io mw u cap in ops @ capture_updates io mw us cap)"

text \<open>All that a capture does: its creation, and the updates if that succeeded.\<close>

definition capture_session ::
  "io_env \<Rightarrow> metadata_writer \<Rightarrow> nat \<Rightarrow> nat \<Rightarrow> nat \<Rightarrow> debug_capture_config \<Rightarrow> capture_request \<Rightarrow> capture_op list \<Rightarrow> fs_op list" where
  "capture_session io mw pid n now config rq us =
     (let (ops, cap) = capture_request_op io mw pid n now config rq
      in ops @ (case cap of Some c \<Rightarrow> capture_updates io mw us c | None \<Rightarrow> []))"

lemmas file_names = INBOUND_BODY_FILE_def UPSTREAM_BODY_FILE_def UPSTREAM_ERROR_BODY_FILE_def
  UPSTREAM_RESPONSE_FILE_def CLIENT_RESPONSE_FILE_def METADATA_FILE_def

lemma private_metadata:
  "cap_directory cap = path_join root i \<Longrightarrow> private_op root i (write_metadata mw cap)"
  by (auto simp: write_metadata_def path_join_def file_names FILE_MODE_def)

lemma update_metadata_private:
  assumes "cap_directory cap = path_join root i"
  shows "list_all (private_op root i) (fst (update_metadata mw f cap))"
    "cap_directory (snd (update_metadata mw f cap)) = path_join root i"
  using assms private_metadata by (simp_all add: update_metadata_def Let_def)

lemma capture_update_private:
  assumes "cap_directory cap = path_join root i"
  shows "list_all (private_op root i) (fst (capture_update io mw u cap)) \<and>
    cap_directory (snd (capture_update io mw u cap)) = path_join root i"
proof (cases u)
  case (UpError s ct b tr)
  have "private_op root i (WriteReplace (path_join (cap_directory cap) UPSTREAM_ERROR_BODY_FILE) b FILE_MODE)"
    using assms by (auto simp: path_join_def file_names FILE_MODE_def)
  then show ?thesis
    using UpError assms
    by (simp add: record_upstream_error_response_def Let_def case_prod_unfold update_metadata_private [OF assms])
qed (use assms update_metadata_private [OF assms] in
    \<open>simp_all add: record_outcome_def record_stream_usage_def record_stream_summary_def\<close>)

lemma capture_updates_private:
  "cap_directory cap = path_join root i \<Longrightarrow> list_all (private_op root i) (capture_updates io mw us cap)"
proof (induction us arbitrary: cap)
  case (Cons u us)
  then show ?case using capture_update_private [OF Cons.prems, of io mw u] by (simp add: case_prod_unfold Let_def)
qed simp

lemma perform_prefix: "list_all P xs \<Longrightarrow> list_all P (fst (perform io xs))"
  by (induction xs) auto

lemma create_capture_private:
  "list_all (private_op (dc_directory config) (capture_id now pid n (cq_request_id rq)))
     (fst (create_capture io mw pid n now config rq))"
proof -
  let ?root = "dc_directory config" and ?i = "capture_id now pid n (cq_request_id rq)"
  let ?cap = "\<lparr>cap_directory = path_join ?root ?i, cap_metadata = initial_metadata config ?i now rq\<rparr>"
  have "list_all (private_op ?root ?i)
      [CreateDirAll ?root, RequireDir ?root, SetMode ?root DIR_MODE, CreateDir (path_join ?root ?i) DIR_MODE,
       WriteNew (path_join (path_join ?root ?i) INBOUND_BODY_FILE) (cq_inbound_body rq) FILE_MODE,
       WriteNew (path_join (path_join ?root ?i) UPSTREAM_BODY_FILE) (cq_upstream_body rq) FILE_MODE,
       write_metadata mw ?cap]"
    using private_metadata [of ?cap ?root ?i mw]
    by (simp add: path_join_def file_names DIR_MODE_def FILE_MODE_def)
  from perform_prefix [OF this, of io] show ?thesis
    by (simp add: create_capture_def Let_def case_prod_unfold del: perform.simps)
qed

lemma create_capture_directory:
  "snd (create_capture io mw pid n now config rq) = Some cap \<Longrightarrow>
     cap_directory cap = path_join (dc_directory config) (capture_id now pid n (cq_request_id rq))"
  by (auto simp: create_capture_def Let_def case_prod_unfold simp del: perform.simps split: if_splits)

lemma capture_id_segment:
  "list_all storage_safe (capture_id t pid n r)" "CHR ''/'' \<notin> set (capture_id t pid n r)"
  "capture_id t pid n r \<noteq> []" "is_ascii_digit (hd (capture_id t pid n r))"
proof -
  have d: "is_ascii_digit c \<Longrightarrow> storage_safe c" for c
    by (simp add: storage_safe_def is_ascii_alphanumeric_def is_ascii_digit_def)
  have s: "list_all storage_safe (show_nat m)" for m
    using show_nat_digits [of _ m] d by (simp add: list_all_iff)
  have c: "list_all storage_safe c" if "sanitize_for_storage v m = Some c" for v m c
    using that map_filter_sanitize_safe [of v]
    by (auto simp: sanitize_for_storage_def Let_def list_all_iff dest: in_set_takeD split: if_splits)
  have "storage_safe CHR ''-''" by (simp add: storage_safe_def)
  then show a: "list_all storage_safe (capture_id t pid n r)"
    using s c by (auto simp: capture_id_def Let_def bind_eq_Some_conv split: option.split)
  have "\<not> storage_safe CHR ''/''" by (simp add: storage_safe_def is_ascii_alphanumeric_def is_ascii_digit_def
        is_ascii_upper_def byte_def)
  then show "CHR ''/'' \<notin> set (capture_id t pid n r)" using a by (auto simp: list_all_iff)
  show "capture_id t pid n r \<noteq> []" by (simp add: capture_id_numbered numbered_id_def)
  show "is_ascii_digit (hd (capture_id t pid n r))"
    using show_nat_digits [of "hd (show_nat t)" t] by (simp add: capture_id_numbered numbered_id_def)
qed

text \<open>
  A debug capture stays in its private directory.  Everything a capture ever writes, in any sequence of
  updates and however the file system fails, is in one directory directly below the configured root, created
  for the owner only, in files for the owner only; its name is a single path segment that starts with a digit,
  whatever request id the client sent.
\<close>

theorem capture_confined:
  "let i = capture_id now pid n (cq_request_id rq)
   in list_all (private_op (dc_directory config) i) (capture_session io mw pid n now config rq us) \<and>
      list_all storage_safe i \<and> CHR ''/'' \<notin> set i \<and> is_ascii_digit (hd i)"
proof -
  let ?i = "capture_id now pid n (cq_request_id rq)"
  have "list_all (private_op (dc_directory config) ?i) (capture_session io mw pid n now config rq us)"
    using create_capture_private capture_updates_private [OF create_capture_directory]
    by (auto simp: capture_session_def capture_request_op_def case_prod_unfold Let_def split: option.split)
  then show ?thesis using capture_id_segment by (simp add: Let_def)
qed

end
