(* ===== verification/Stream_Session.thy ===== *)
theory Stream_Session
  imports Debug_Capture
begin

text \<open>
  A streaming response with everything that accompanies it (\<open>onair-proxy/src/proxy/response.rs\<close>): the timeline and the
  live record that each chunk updates, the captures of both sides of the stream while their writers run, and what
  \<open>Drop for StreamMetrics\<close> writes at the end.  The loops without these companions are those of \<open>Streaming\<close>.
\<close>

section \<open>The session\<close>

record stream_session =
  ss_metrics :: stream_metrics
  ss_timeline :: request_timeline
  ss_attempt :: "attempt_builder option"
  ss_live :: live_record
  ss_store :: inspector_store
  ss_upstream :: "stream_capture option"
  ss_client :: "stream_capture option"
  ss_yielded :: "string list"

text \<open>The captures of a route that opted in, after the headers; both exist only beside a debug capture.\<close>

definition open_captures ::
  "bool \<Rightarrow> request_capture option \<Rightarrow> u64 \<Rightarrow> status_code \<Rightarrow> string option \<Rightarrow>
     stream_capture option \<times> stream_capture option" where
  "open_captures enabled debug_capture now status content_type =
     (let opened = (\<lambda>side. if enabled
            then Option.bind debug_capture (\<lambda>c. map_option snd (open_stream_capture side now c)) else None);
          status_header = record_header '':status'' (show_nat status)
      in (map_option (\<lambda>sc. case content_type of
             Some ct \<Rightarrow> record_header ''content-type'' ct (status_header sc) | None \<Rightarrow> status_header sc)
             (opened ''upstream_response''),
          map_option status_header (opened ''client_response'')))"

definition live_timeline :: "nat \<Rightarrow> stream_session \<Rightarrow> stream_session" where
  "live_timeline elapsed s =
     (let (lr, store) = live_update (\<lambda>r. r\<lparr>rr_timeline := timeline_snapshot_at elapsed (ss_timeline s)\<rparr>)
            (ss_live s) (ss_store s)
      in s\<lparr>ss_live := lr, ss_store := store\<rparr>)"

definition session_mark ::
  "timeline_event \<Rightarrow> (u64 \<Rightarrow> attempt_builder \<Rightarrow> attempt_builder) \<Rightarrow> nat \<Rightarrow> stream_session \<Rightarrow> stream_session" where
  "session_mark event mark elapsed s =
     (let (tline, us) = timeline_mark event elapsed (ss_timeline s)
      in live_timeline elapsed (s\<lparr>ss_timeline := tline, ss_attempt := map_option (mark us) (ss_attempt s)\<rparr>))"

definition session_body_chunk :: "nat \<Rightarrow> stream_session \<Rightarrow> stream_session" where
  "session_body_chunk = session_mark BackendBodyFirstChunk attempt_body_first_chunk"

definition session_body_complete :: "nat \<Rightarrow> stream_session \<Rightarrow> stream_session" where
  "session_body_complete elapsed s =
     session_mark BackendBodyComplete attempt_body_complete elapsed (s\<lparr>ss_metrics := mark_body_complete (ss_metrics s)\<rparr>)"

definition session_stream_error :: "http_error \<Rightarrow> stream_session \<Rightarrow> stream_session" where
  "session_stream_error e s =
     s\<lparr>ss_metrics := mark_stream_error (upstream_error_kind e) (ss_metrics s),
       ss_upstream := map_option (record_error ''upstream stream chunk failed'' (Some (upstream_error_kind e)) None)
         (ss_upstream s)\<rparr>"

definition to_upstream :: "(stream_capture \<Rightarrow> stream_capture) \<Rightarrow> stream_session \<Rightarrow> stream_session" where
  "to_upstream f s = s\<lparr>ss_upstream := map_option f (ss_upstream s)\<rparr>"

definition to_client :: "(stream_capture \<Rightarrow> stream_capture) \<Rightarrow> stream_session \<Rightarrow> stream_session" where
  "to_client f s = s\<lparr>ss_client := map_option f (ss_client s)\<rparr>"

definition yield_bytes :: "string \<Rightarrow> stream_session \<Rightarrow> stream_session" where
  "yield_bytes bytes s = s\<lparr>ss_yielded := ss_yielded s @ [bytes]\<rparr>"

definition session_usage :: "sse_strategy \<Rightarrow> stream_session \<Rightarrow> stream_session" where
  "session_usage st s = s\<lparr>ss_metrics := collect_stream_usage st (ss_metrics s)\<rparr>"

section \<open>The loops\<close>

text \<open>
  One item of the chunk stream, when it arrives, and what the two writers have taken from their channels before it:
  the time of each event and whether its line could be written.
\<close>

record session_event =
  se_elapsed :: nat
  se_upstream_writer :: "(u64 \<times> bool) list"
  se_client_writer :: "(u64 \<times> bool) list"
  se_body :: body_event

definition writer_runs :: "(u64 \<times> bool) list \<Rightarrow> stream_capture \<Rightarrow> stream_capture" where
  "writer_runs ws = fold (\<lambda>(ts, ok). writer_event ts ok) ws"

definition writers_run :: "session_event \<Rightarrow> stream_session \<Rightarrow> stream_session" where
  "writers_run e s = to_client (writer_runs (se_client_writer e)) (to_upstream (writer_runs (se_upstream_writer e)) s)"

definition session_tail ::
  "serde \<Rightarrow> nat \<Rightarrow> sse_strategy \<Rightarrow> stream_session \<Rightarrow> (stream_session \<times> http_error option) option" where
  "session_tail sd elapsed st s =
     (let s = to_upstream record_done (session_body_complete elapsed s); (st, outs) = strategy_finish sd st
      in map_option (\<lambda>tail.
           let s = (if tail = [] then s else yield_bytes tail (to_client (record_sse_frame tail) (session_usage st s)))
           in (to_client record_done s, None))
         (render_all sd outs))"

fun session_loop ::
  "serde \<Rightarrow> nat \<Rightarrow> sse_strategy \<Rightarrow> stream_session \<Rightarrow> session_event list \<Rightarrow> (stream_session \<times> http_error option) option" where
  "session_loop sd ended st s [] = session_tail sd ended st s"
| "session_loop sd ended st s (e # es) =
     (let s = writers_run e s
      in case se_body e of
           BShutdown \<Rightarrow> session_tail sd (se_elapsed e) st s
         | BError err \<Rightarrow> Some (session_stream_error err s, Some err)
         | BChunk chunk \<Rightarrow>
             let s = to_upstream (record_body_chunk (length chunk) chunk) (session_body_chunk (se_elapsed e) s);
                 (st, outs) = strategy_push sd st chunk
             in Option.bind (render_all sd outs) (\<lambda>normalized.
                  if normalized = [] then session_loop sd ended st s es
                  else session_loop sd ended (clear_diagnostics (clear_usage st))
                         (yield_bytes normalized (to_client (record_sse_frame normalized) (session_usage st s))) es))"

definition passthrough_tail :: "nat \<Rightarrow> stream_session \<Rightarrow> stream_session" where
  "passthrough_tail elapsed s = to_client record_done (to_upstream record_done (session_body_complete elapsed s))"

fun session_passthrough ::
  "nat \<Rightarrow> stream_session \<Rightarrow> session_event list \<Rightarrow> stream_session \<times> http_error option" where
  "session_passthrough ended s [] = (passthrough_tail ended s, None)"
| "session_passthrough ended s (e # es) =
     (let s = writers_run e s
      in case se_body e of
           BShutdown \<Rightarrow> (passthrough_tail (se_elapsed e) s, None)
         | BError err \<Rightarrow> (session_stream_error err s, Some err)
         | BChunk chunk \<Rightarrow>
             session_passthrough ended
               (yield_bytes chunk (to_client (record_body_chunk (length chunk) chunk)
                 (to_upstream (record_body_chunk (length chunk) chunk) (session_body_chunk (se_elapsed e) s)))) es)"

section \<open>The companions do not change the stream\<close>

definition session_result :: "stream_session \<times> http_error option \<Rightarrow> stream_result" where
  "session_result p = \<lparr>res_yielded = ss_yielded (fst p), res_metrics = ss_metrics (fst p), res_error = snd p\<rparr>"

lemma session_result_pair [simp]:
  "session_result (s, e) = \<lparr>res_yielded = ss_yielded s, res_metrics = ss_metrics s, res_error = e\<rparr>"
  by (simp add: session_result_def)

lemma session_mark_fields [simp]:
  "ss_metrics (session_mark ev f t s) = ss_metrics s" "ss_yielded (session_mark ev f t s) = ss_yielded s"
  "ss_upstream (session_mark ev f t s) = ss_upstream s" "ss_client (session_mark ev f t s) = ss_client s"
  by (simp_all add: session_mark_def live_timeline_def timeline_mark_def Let_def split: prod.split)

lemma session_fields [simp]:
  "ss_metrics (session_body_chunk t s) = ss_metrics s" "ss_yielded (session_body_chunk t s) = ss_yielded s"
  "ss_upstream (session_body_chunk t s) = ss_upstream s" "ss_client (session_body_chunk t s) = ss_client s"
  "ss_metrics (session_body_complete t s) = mark_body_complete (ss_metrics s)"
  "ss_yielded (session_body_complete t s) = ss_yielded s"
  "ss_upstream (session_body_complete t s) = ss_upstream s" "ss_client (session_body_complete t s) = ss_client s"
  "ss_metrics (session_stream_error e s) = mark_stream_error (upstream_error_kind e) (ss_metrics s)"
  "ss_yielded (session_stream_error e s) = ss_yielded s" "ss_client (session_stream_error e s) = ss_client s"
  "ss_metrics (to_upstream f s) = ss_metrics s" "ss_yielded (to_upstream f s) = ss_yielded s"
  "ss_client (to_upstream f s) = ss_client s" "ss_upstream (to_upstream f s) = map_option f (ss_upstream s)"
  "ss_metrics (to_client f s) = ss_metrics s" "ss_yielded (to_client f s) = ss_yielded s"
  "ss_upstream (to_client f s) = ss_upstream s" "ss_client (to_client f s) = map_option f (ss_client s)"
  "ss_metrics (yield_bytes b s) = ss_metrics s" "ss_yielded (yield_bytes b s) = ss_yielded s @ [b]"
  "ss_upstream (yield_bytes b s) = ss_upstream s" "ss_client (yield_bytes b s) = ss_client s"
  "ss_metrics (session_usage st s) = collect_stream_usage st (ss_metrics s)"
  "ss_yielded (session_usage st s) = ss_yielded s" "ss_upstream (session_usage st s) = ss_upstream s"
  "ss_client (session_usage st s) = ss_client s"
  by (simp_all add: session_body_chunk_def session_body_complete_def session_stream_error_def to_upstream_def
      to_client_def yield_bytes_def session_usage_def)

lemma writers_run_fields [simp]:
  "ss_metrics (writers_run e s) = ss_metrics s" "ss_yielded (writers_run e s) = ss_yielded s"
  "ss_client (writers_run e s) = map_option (writer_runs (se_client_writer e)) (ss_client s)"
  by (simp_all add: writers_run_def)

lemma session_tail_result:
  "map_option session_result (session_tail sd t st s) = stream_tail sd st (ss_metrics s) (ss_yielded s)"
  by (auto simp: session_tail_def stream_tail_def session_result_def Let_def option.map_comp comp_def
      split: prod.split intro!: option.map_cong0)

lemma session_loop_result:
  "map_option session_result (session_loop sd ended st s es) =
     stream_loop sd st (ss_metrics s) (ss_yielded s) (map se_body es)"
proof (induction es arbitrary: st s)
  case Nil
  then show ?case by (simp add: session_tail_result)
next
  case (Cons e es)
  show ?case
  proof (cases "se_body e")
    case (BChunk chunk)
    obtain st' outs where p: "strategy_push sd st chunk = (st', outs)" by fastforce
    show ?thesis
    proof (cases "render_all sd outs")
      case None
      then show ?thesis using BChunk p by (simp add: Let_def)
    next
      case (Some normalized)
      then show ?thesis using BChunk p Cons.IH by (cases "normalized = []") (simp_all add: Let_def)
    qed
  qed (simp_all add: session_tail_result)
qed

lemma session_passthrough_result:
  "session_result (session_passthrough ended s es) = passthrough_loop (ss_metrics s) (ss_yielded s) (map se_body es)"
proof (induction es arbitrary: s)
  case Nil
  then show ?case by (simp add: session_result_def passthrough_tail_def)
next
  case (Cons e es)
  then show ?case by (cases "se_body e") (simp_all add: session_result_def passthrough_tail_def)
qed

text \<open>How \<open>streaming_response\<close> starts: the response is ready, the captures are open, nothing has been sent.\<close>

definition session_start ::
  "bool \<Rightarrow> request_capture option \<Rightarrow> u64 \<Rightarrow> status_code \<Rightarrow> string option \<Rightarrow> nat \<Rightarrow> request_timeline \<Rightarrow>
     attempt_builder option \<Rightarrow> live_record \<Rightarrow> inspector_store \<Rightarrow> stream_session" where
  "session_start stream_capture_enabled debug_capture now status content_type elapsed tline attempt lr store =
     (let (up, cl) = open_captures stream_capture_enabled debug_capture now status content_type
      in live_timeline elapsed
           \<lparr>ss_metrics = stream_metrics_new, ss_timeline = fst (timeline_mark ClientResponseReady elapsed tline),
            ss_attempt = attempt, ss_live = lr, ss_store = store, ss_upstream = up, ss_client = cl, ss_yielded = []\<rparr>)"

lemma session_start_fields [simp]:
  "ss_metrics (session_start en dc now st ct t tline a lr store) = stream_metrics_new"
  "ss_yielded (session_start en dc now st ct t tline a lr store) = []"
  "ss_client (session_start en dc now st ct t tline a lr store) = snd (open_captures en dc now st ct)"
  by (simp_all add: session_start_def live_timeline_def Let_def split: prod.split)

text \<open>
  What is recorded about a stream does not change it.  With captures open or not, whatever the clocks read, however
  far the capture writers have come and whether they can write, a streaming response yields the same bytes, the
  same metrics and the same error as the loop without any of them.
\<close>

theorem companions_transparent:
  "map_option session_result
     (session_loop sd ended st (session_start en dc now status ct t tline a lr store) es) =
     stream_loop sd st stream_metrics_new [] (map se_body es) \<and>
   session_result (session_passthrough ended (session_start en dc now status ct t tline a lr store) es) =
     passthrough_loop stream_metrics_new [] (map se_body es)"
  by (simp add: session_loop_result session_passthrough_result)

section \<open>The client capture\<close>

text \<open>The events of the frames that the yielded bytes complete, and what they leave incomplete.\<close>

abbreviation captured :: "string list \<Rightarrow> stream_event list \<times> string" where
  "captured yielded \<equiv> drain_frames (concat (map from_utf8_lossy yielded))"

definition client_captured :: "stream_event list \<Rightarrow> stream_session \<Rightarrow> stream_event list \<Rightarrow> bool" where
  "client_captured es s es' \<longleftrightarrow>
     pred_option (\<lambda>sc. capturing sc (es @ fst (captured (ss_yielded s)) @ es')
       \<and> sc_sse_buffer sc = snd (captured (ss_yielded s))) (ss_client s)"

lemma captured_snoc:
  "drain_frames (snd (captured ys) @ from_utf8_lossy y) = (xs, b) \<Longrightarrow>
     captured (ys @ [y]) = (fst (captured ys) @ xs, b)"
  using drain_frames_append [of "concat (map from_utf8_lossy ys)" "from_utf8_lossy y"] by (simp add: split_beta Let_def)

lemma client_captured_yield:
  assumes "client_captured es s []"
  shows "client_captured es (yield_bytes bytes (to_client (record_sse_frame bytes) s)) []"
proof -
  obtain xs b where d: "drain_frames (snd (captured (ss_yielded s)) @ from_utf8_lossy bytes) = (xs, b)" by fastforce
  show ?thesis
    using assms capturing_frame [of _ "es @ fst (captured (ss_yielded s))" bytes xs b] captured_snoc [OF d] d
    by (cases "ss_client s") (auto simp: client_captured_def)
qed

lemma client_captured_done:
  "client_captured es s [] \<Longrightarrow> client_captured es (to_client record_done s) [SeDone]"
  using capturing_send [of _ "es @ fst (captured (ss_yielded s))" SeDone]
  by (cases "ss_client s") (auto simp: client_captured_def record_done_def)

lemma writer_runs_capturing:
  "capturing sc es \<Longrightarrow> capturing (writer_runs ws sc) es \<and> sc_sse_buffer (writer_runs ws sc) = sc_sse_buffer sc"
proof (induction ws arbitrary: sc)
  case (Cons w ws)
  obtain ts ok where "w = (ts, ok)" by fastforce
  then show ?case using Cons.IH [OF capturing_writer_event [OF Cons.prems]] by (simp add: writer_runs_def)
qed (simp add: writer_runs_def)

lemma client_captured_writers: "client_captured es s [] \<Longrightarrow> client_captured es (writers_run e s) []"
  using writer_runs_capturing by (cases "ss_client s") (auto simp: client_captured_def)

lemma client_captured_same:
  "ss_client s' = ss_client s \<Longrightarrow> ss_yielded s' = ss_yielded s \<Longrightarrow> client_captured es s' xs = client_captured es s xs"
  by (simp add: client_captured_def)

lemma session_tail_captured:
  assumes "client_captured es s []" and "session_tail sd t st s = Some (s', err)"
  shows "client_captured es s' [SeDone] \<and> err = None"
proof -
  let ?s = "to_upstream record_done (session_body_complete t s)"
  obtain st' outs where f: "strategy_finish sd st = (st', outs)" by fastforce
  obtain bytes where s': "s' = to_client record_done (if bytes = [] then ?s
      else yield_bytes bytes (to_client (record_sse_frame bytes) (session_usage st' ?s)))" "err = None"
    using assms(2) f by (auto simp: session_tail_def Let_def)
  have "client_captured es ?s []" "client_captured es (session_usage st' ?s) []"
    using assms(1) by (simp_all add: client_captured_def)
  then show ?thesis using s' client_captured_yield client_captured_done by simp
qed

lemma session_loop_captured:
  assumes "client_captured xs s []" and "session_loop sd ended st s es = Some (s', err)"
  shows "client_captured xs s' (if err = None then [SeDone] else [])"
  using assms
proof (induction es arbitrary: st s)
  case Nil
  then show ?case using session_tail_captured by fastforce
next
  case (Cons e es)
  let ?s = "writers_run e s"
  have w: "client_captured xs ?s []" using Cons.prems(1) by (rule client_captured_writers)
  show ?case
  proof (cases "se_body e")
    case BShutdown
    then show ?thesis using Cons.prems(2) session_tail_captured [OF w] by fastforce
  next
    case (BError err)
    then show ?thesis using Cons.prems(2) w by (auto simp: client_captured_def)
  next
    case (BChunk chunk)
    let ?c = "to_upstream (record_body_chunk (length chunk) chunk) (session_body_chunk (se_elapsed e) ?s)"
    obtain st' outs where p: "strategy_push sd st chunk = (st', outs)" by fastforce
    then obtain bytes where r: "render_all sd outs = Some bytes" using Cons.prems(2) BChunk
      by (cases "render_all sd outs") (simp_all add: Let_def)
    have c: "client_captured xs ?c []" "client_captured xs (session_usage st' ?c) []"
      using w by (simp_all add: client_captured_def)
    show ?thesis
      using Cons.prems(2) BChunk p r Cons.IH [OF c(1)] Cons.IH [OF client_captured_yield [OF c(2)]]
      by (cases "bytes = []") (auto simp: Let_def)
  qed
qed

lemma session_tail_client_None:
  "session_tail sd t st s = Some (s', err) \<Longrightarrow> ss_client s' = None \<longleftrightarrow> ss_client s = None"
  by (auto simp: session_tail_def Let_def split: prod.splits if_splits)

lemma session_loop_client_None:
  "session_loop sd ended st s es = Some (s', err) \<Longrightarrow> ss_client s' = None \<longleftrightarrow> ss_client s = None"
proof (induction es arbitrary: st s)
  case Nil
  then show ?case using session_tail_client_None by simp
next
  case (Cons e es)
  show ?case
  proof (cases "se_body e")
    case (BChunk chunk)
    obtain st' outs where p: "strategy_push sd st chunk = (st', outs)" by fastforce
    then obtain bytes where r: "render_all sd outs = Some bytes" using Cons.prems BChunk
      by (cases "render_all sd outs") (simp_all add: Let_def)
    show ?thesis using Cons.prems BChunk p r by (cases "bytes = []") (auto simp: Let_def dest!: Cons.IH)
  qed (use Cons.prems in \<open>auto dest: session_tail_client_None\<close>)
qed

lemma capture_new_default: "\<exists>sc. stream_capture_new side None now = Some sc"
  by (simp add: stream_capture_new_def DEFAULT_DRAIN_TIMEOUT_MS_def MAX_DRAIN_TIMEOUT_MS_def)

lemma open_captures_client:
  "client_captured [SeHeader '':status'' (show_nat status)] (session_start en dc now status ct t tline a lr store) [] \<and>
   ((snd (open_captures en dc now status ct) = None) = (en = False \<or> dc = None))"
proof -
  obtain sc where n: "stream_capture_new ''client_response'' None now = Some sc" using capture_new_default by blast
  note new = capturing_new [OF n]
  have "capturing (record_header '':status'' (show_nat status) sc) [SeHeader '':status'' (show_nat status)]"
    using capturing_send [of sc "[]"] new by (simp add: record_header_def)
  moreover have "sc_sse_buffer (record_header '':status'' (show_nat status) sc) = []"
    using new by (simp add: record_header_def)
  moreover have "captured [] = ([], [])" by (simp add: drain_frames.simps)
  ultimately show ?thesis
    using n by (cases dc) (auto simp: client_captured_def open_captures_def open_stream_capture_def Let_def)
qed


section \<open>The end of a stream\<close>

text \<open>
  What a finished stream leaves behind: the operations on the capture directory, the capture and the store.  The
  summaries are those that \<open>StreamCapture::finish\<close> returned; \<open>late\<close> is a capture taken now because the stream failed.
\<close>

record stream_end =
  sn_status :: status_code
  sn_duration_ms :: nat
  sn_elapsed :: nat
  sn_now :: nat
  sn_base :: inspector_request_base
  sn_remote_addr :: "socket_addr option"
  sn_backend_attempts :: "inspector_attempt_record list"
  sn_retried_attempts :: "inspector_attempt_record list"
  sn_enabled :: bool
  sn_retention :: nat
  sn_pending :: "capture_request option"
  sn_debug_capture :: "request_capture option"
  sn_upstream_timings :: "stream_timings option"
  sn_client_timings :: "stream_timings option"

definition stream_capture_outcome :: "status_code \<Rightarrow> nat \<Rightarrow> stream_metrics \<Rightarrow> capture_outcome" where
  "stream_capture_outcome status duration m =
     (let tokens = inspector_tokens (sm_usage m)
      in case sm_stream_error_kind m of
           Some kind \<Rightarrow> CapUpstreamStreamFailed status duration kind tokens
         | None \<Rightarrow> if sm_body_complete m then CapStreamCompleted status duration tokens
                   else CapStreamIncomplete status duration tokens)"

definition then_update ::
  "(request_capture \<Rightarrow> fs_op list \<times> request_capture) \<Rightarrow> fs_op list \<times> request_capture \<Rightarrow> fs_op list \<times> request_capture" where
  "then_update f p = (let (ops, cap) = f (snd p) in (fst p @ ops, cap))"

definition finish_capture ::
  "metadata_writer \<Rightarrow> stream_end \<Rightarrow> stream_metrics \<Rightarrow> request_capture \<Rightarrow> fs_op list \<times> request_capture" where
  "finish_capture mw en m cap =
     then_update (record_outcome mw (stream_capture_outcome (sn_status en) (sn_duration_ms en) m))
       (then_update (record_stream_usage mw (sm_usage_diagnostics m))
         ((case sn_client_timings en of Some t \<Rightarrow> then_update (record_stream_summary mw ''client_response'' t) | None \<Rightarrow> id)
           ((case sn_upstream_timings en of Some t \<Rightarrow> then_update (record_stream_summary mw ''upstream_response'' t) | None \<Rightarrow> id)
             ([], cap))))"

definition drop_capture ::
  "(capture_request \<Rightarrow> request_capture option) \<Rightarrow> stream_end \<Rightarrow> stream_session \<Rightarrow>
     request_capture option \<times> request_timeline \<times> attempt_builder option" where
  "drop_capture late en s =
     (if sm_stream_error_kind (ss_metrics s) \<noteq> None
      then snd (ensure_failure_debug_capture late (sn_elapsed en) (sn_pending en) (sn_debug_capture en) (ss_timeline s) (ss_attempt s))
      else (sn_debug_capture en, ss_timeline s, ss_attempt s))"

definition drop_record ::
  "metadata_writer \<Rightarrow> (capture_request \<Rightarrow> request_capture option) \<Rightarrow> stream_end \<Rightarrow> stream_session \<Rightarrow>
     fs_op list \<times> request_capture option \<times> inspector_request_record" where
  "drop_record mw late en s =
     (let m = ss_metrics s;
          us = saturating_u64 (sn_elapsed en);
          (debug_capture, tline, attempt) = drop_capture late en s;
          outcome = stream_attempt_outcome m;
          attempts = sn_backend_attempts en @
            (case attempt of
               Some b \<Rightarrow> [attempt_finish (sn_status en) (Some (sn_status en)) outcome (sm_stream_error_kind m) us
                          (attempt_stream_complete us b)]
             | None \<Rightarrow> []);
          (ops, debug_capture) = (case debug_capture of
             Some cap \<Rightarrow> map_prod id Some (finish_capture mw en m cap) | None \<Rightarrow> ([], None));
          base = (sn_base en)\<lparr>ib_backend_remote_addr := map_option show_socket (sn_remote_addr en),
            ib_debug_capture_id := map_option (\<lambda>c. cm_id (cap_metadata c)) debug_capture\<rparr>
      in (ops, debug_capture,
          request_record_new (sn_now en) base (stream_outcome m) (sn_status en) (sm_stream_error_kind m) attempts
            (sn_retried_attempts en) None (inspector_tokens (sm_usage m)) (timeline_snapshot_at (sn_elapsed en) tline)))"

text \<open>The whole of \<open>drop\<close>: the last mark and its live update, the capture, and the final record.\<close>

definition session_drop ::
  "metadata_writer \<Rightarrow> (capture_request \<Rightarrow> request_capture option) \<Rightarrow> stream_end \<Rightarrow> stream_session \<Rightarrow>
     fs_op list \<times> request_capture option \<times> inspector_request_record \<times> inspector_store" where
  "session_drop mw late en s =
     (let s = live_timeline (sn_elapsed en)
            (s\<lparr>ss_timeline := fst (timeline_mark StreamComplete (sn_elapsed en) (ss_timeline s))\<rparr>);
          (ops, debug_capture, r) = drop_record mw late en s
      in (ops, debug_capture, r, store_upsert_final (sn_enabled en) (sn_retention en) r (ss_store s)))"

lemma snd_updates [simp]:
  "snd (then_update f p) = snd (f (snd p))"
  "snd (update_metadata mw g cap) = cap\<lparr>cap_metadata := g (cap_metadata cap)\<rparr>"
  by (simp_all add: then_update_def update_metadata_def split_beta Let_def)

lemma record_stream_summary_id [simp]:
  "cm_id (cap_metadata (snd (record_stream_summary mw side t cap))) = cm_id (cap_metadata cap)"
  by (simp add: record_stream_summary_def)

lemma finish_capture_fields:
  "cm_id (cap_metadata (snd (finish_capture mw en m cap))) = cm_id (cap_metadata cap)"
  "cm_outcome (cap_metadata (snd (finish_capture mw en m cap))) = stream_capture_outcome (sn_status en) (sn_duration_ms en) m"
  by (simp_all add: finish_capture_def record_outcome_def record_stream_usage_def split: option.split)

lemma live_timeline_store:
  "distinct (record_ids (ss_store s)) \<Longrightarrow> distinct (record_ids (ss_store (live_timeline t s)))"
  "ss_metrics (live_timeline t s) = ss_metrics s" "ss_attempt (live_timeline t s) = ss_attempt s"
  by (simp_all add: live_timeline_def live_update_def store_upsert_def record_ids_def upsert_distinct Let_def)

text \<open>The same end, as the inspector and as the capture name it.\<close>

fun outcomes_agree :: "inspector_outcome \<Rightarrow> capture_outcome \<Rightarrow> bool" where
  "outcomes_agree Completed (CapStreamCompleted _ _ _) = True"
| "outcomes_agree StreamIncomplete (CapStreamIncomplete _ _ _) = True"
| "outcomes_agree UpstreamStreamFailed (CapUpstreamStreamFailed _ _ _ _) = True"
| "outcomes_agree _ _ = False"

lemma stream_outcomes_agree: "outcomes_agree (stream_outcome m) (stream_capture_outcome status d m)"
  by (simp add: stream_outcome_def stream_capture_outcome_def Let_def split: option.split)

text \<open>
  C31: the inspector and the capture tell the same end of a stream.  When a stream is dropped, finished or abandoned, a lookup
  of the request finds the final record, with the status, the outcome and the tokens of the stream; if there is a
  capture, the record names it, and the metadata of the capture carry the same outcome.
\<close>

theorem stream_end_consistent:
  assumes "distinct (record_ids (ss_store s))" and "sn_enabled en"
  shows "case session_drop mw late en s of (ops, cap, r, store) \<Rightarrow>
    store_get (ib_record_id (sn_base en)) store = Some r \<and> rr_status r = sn_status en \<and>
      rr_outcome r = stream_outcome (ss_metrics s) \<and> rr_output_tokens r = ut_output (sm_usage (ss_metrics s)) \<and>
      ib_debug_capture_id (rr_base r) = map_option (\<lambda>c. cm_id (cap_metadata c)) cap \<and>
      pred_option (\<lambda>c. outcomes_agree (rr_outcome r) (cm_outcome (cap_metadata c))) cap"
proof -
  have get: "store_get k (store_upsert_final True n r st) = Some r"
    if "distinct (record_ids st)" "rr_id r = k" for k n r st
    using that deque.find_put(2) [of "is_records st" r "clamp_retention n"]
    by (simp add: store_get_def store_upsert_final_def record_ids_def Let_def)
  show ?thesis
    using assms
    by (simp add: session_drop_def drop_record_def Let_def split_beta timeline_mark_def get live_timeline_store request_record_new_def
        inspector_tokens_def finish_capture_fields stream_outcomes_agree split: option.split)
qed

definition sample_end :: stream_end where
  "sample_end =
     \<lparr>sn_status = 200, sn_duration_ms = 3, sn_elapsed = 4, sn_now = 5, sn_base = rr_base (sample_record ''a''),
      sn_remote_addr = None, sn_backend_attempts = [], sn_retried_attempts = [], sn_enabled = True, sn_retention = 2,
      sn_pending = None, sn_debug_capture = None, sn_upstream_timings = None, sn_client_timings = None\<rparr>"

theorem stream_end_consistent_witness:
  "\<forall>mw late. case session_drop mw late sample_end
      (session_start False None 0 200 None 0 (timeline_start 0) None (live_record_new True 2 (sample_record ''a'')) store_new)
    of (ops, cap, r, store) \<Rightarrow> store_get ''a'' store = Some r \<and> rr_status r = 200 \<and> rr_outcome r = StreamIncomplete"
proof (intro allI)
  fix mw late
  let ?s = "session_start False None 0 200 None 0 (timeline_start 0) None (live_record_new True 2 (sample_record ''a'')) store_new"
  have "distinct (record_ids (ss_store ?s))"
    using live_timeline_store(1) distinct_new by (simp add: session_start_def open_captures_def Let_def)
  from stream_end_consistent [OF this, of sample_end mw late]
  show "case session_drop mw late sample_end ?s
    of (ops, cap, r, store) \<Rightarrow> store_get ''a'' store = Some r \<and> rr_status r = 200 \<and> rr_outcome r = StreamIncomplete"
    by (auto simp: sample_end_def sample_record_id stream_outcome_def stream_metrics_new_def)
qed

end
