(* ===== verification/Request_Context.thy ===== *)
theory Request_Context
  imports Stream_Session
begin

text \<open>
  The context of a request with everything it carries (\<open>onair-proxy/src/proxy/context.rs\<close>): the route and the labels,
  the inspector base, the attempts with their times, the timeline, the live record, the debug capture or the request
  for one, and what has been written to the inspector, to the capture directory, to the metrics and to the log.
  \<open>Proxy\<close> has the same context without these companions; \<open>bare_context\<close> forgets them.
\<close>

section \<open>Log events\<close>

datatype log_level = LogWarn | LogDebug

datatype log_value =
    LText string
  | LNumber nat
  | LFlag bool
  | LTime "u64 option"
  | LList "string list"

record log_event =
  lg_level :: log_level
  lg_fields :: "(string \<times> log_value) list"
  lg_message :: string

section \<open>The environment\<close>

text \<open>
  A clock is the sequence of its readings by this request: elapsed microseconds, Unix milliseconds.  The peers of the
  responses, the values the process-wide counters yield, the file system, the JSON of the metadata, the
  progress of the capture writers and the summaries they return are given.
\<close>

record session_env =
  qe_proxy :: proxy_env
  qe_elapsed :: "nat \<Rightarrow> nat"
  qe_wall :: "nat \<Rightarrow> nat"
  qe_parse_url :: "string \<Rightarrow> (string option \<times> nat option) option"
  qe_remote_addr :: "nat \<Rightarrow> socket_addr option"
  qe_io :: io_env
  qe_metadata :: metadata_writer
  qe_pid :: nat
  qe_sequence :: "nat \<Rightarrow> nat"
  qe_writers :: "nat \<Rightarrow> (u64 \<times> bool) list \<times> (u64 \<times> bool) list"
  qe_capture_started :: u64
  qe_finish :: "stream_capture \<Rightarrow> stream_timings"
  qe_record_sequence :: nat

section \<open>The context\<close>

record request_session =
  qs_capture_config :: debug_capture_config
  qs_capture :: "request_capture option"
  qs_pending :: "capture_request option"
  qs_ix :: inspector_context
  qs_enabled :: bool
  qs_retention :: nat
  qs_live :: live_record
  qs_client_info :: client_info
  qs_backend_target :: string
  qs_route :: selected_route
  qs_labels :: metric_labels
  qs_models :: model_log_fields
  qs_requested_model :: "string option"
  qs_stream_usage_requested :: bool
  qs_request_body_bytes :: nat
  qs_attempt :: nat
  qs_max_attempts :: nat
  qs_store :: inspector_store
  qs_effects :: "effect list"
  qs_files :: "fs_op list"
  qs_log :: "log_event list"
  qs_reads :: nat
  qs_captured :: nat

abbreviation elapsed_now :: "session_env \<Rightarrow> request_session \<Rightarrow> nat" where
  "elapsed_now env s \<equiv> qe_elapsed env (qs_reads s)"

abbreviation wall_now :: "session_env \<Rightarrow> request_session \<Rightarrow> nat" where
  "wall_now env s \<equiv> qe_wall env (qs_reads s)"

definition tick :: "request_session \<Rightarrow> request_session" where
  "tick s = s\<lparr>qs_reads := Suc (qs_reads s)\<rparr>"

definition report_effects :: "effect list \<Rightarrow> request_session \<Rightarrow> request_session" where
  "report_effects es s = s\<lparr>qs_effects := qs_effects s @ es\<rparr>"

definition write_files :: "fs_op list \<Rightarrow> request_session \<Rightarrow> request_session" where
  "write_files ops s = s\<lparr>qs_files := qs_files s @ ops\<rparr>"

definition log_event_op :: "log_event \<Rightarrow> request_session \<Rightarrow> request_session" where
  "log_event_op e s = s\<lparr>qs_log := qs_log s @ [e]\<rparr>"

definition snapshot_now :: "session_env \<Rightarrow> request_session \<Rightarrow> timeline_snapshot" where
  "snapshot_now env s = timeline_snapshot_at (elapsed_now env s) (ix_timeline (qs_ix s))"

text \<open>What the proxy model keeps of the context and of a record.\<close>

definition bare_context :: "request_session \<Rightarrow> proxy_context" where
  "bare_context s =
     \<lparr>pc_route = qs_route s, pc_labels = qs_labels s, pc_requested_model = qs_requested_model s,
      pc_stream_usage_requested = qs_stream_usage_requested s, pc_attempt = qs_attempt s,
      pc_backend_attempts = map attempt_record.truncate (ix_backend_attempts (qs_ix s)),
      pc_retried_attempts = map attempt_record.truncate (ix_retried_attempts (qs_ix s)),
      pc_effects = qs_effects s\<rparr>"

definition bare_record :: "inspector_request_record \<Rightarrow> inspector_record" where
  "bare_record r =
     \<lparr>ir_outcome = rr_outcome r, ir_status = rr_status r, ir_error_kind = rr_error_kind r,
      ir_backend_attempts = map attempt_record.truncate (rr_backend_attempts r),
      ir_retried_attempts = map attempt_record.truncate (rr_retried_attempts r),
      ir_response_body_bytes = rr_response_body_bytes r,
      ir_tokens = \<lparr>tk_input = rr_input_tokens r, tk_cached_input = rr_cached_input_tokens r, tk_output = rr_output_tokens r\<rparr>,
      ir_exposed_backend_error = ib_exposed_backend_error (rr_base r)\<rparr>"

section \<open>The timeline, the attempt and the live record\<close>

definition stamp :: "session_env \<Rightarrow> timeline_event \<Rightarrow> request_session \<Rightarrow> request_session \<times> u64" where
  "stamp env event s =
     (let (tline, us) = timeline_mark event (elapsed_now env s) (ix_timeline (qs_ix s))
      in (tick (s\<lparr>qs_ix := (qs_ix s)\<lparr>ix_timeline := tline\<rparr>\<rparr>), us))"

definition live_change ::
  "(inspector_request_record \<Rightarrow> inspector_request_record) \<Rightarrow> request_session \<Rightarrow> request_session" where
  "live_change f s =
     (let (lr, store) = live_update f (qs_live s) (qs_store s) in tick (s\<lparr>qs_live := lr, qs_store := store\<rparr>))"

definition live_upsert :: "session_env \<Rightarrow> request_session \<Rightarrow> request_session" where
  "live_upsert env s =
     live_change (\<lambda>_. build_live_record_from_context (wall_now env s) (elapsed_now env s) (qs_ix s)) s"

text \<open>A final record goes to the store through the live record or directly, and is the \<open>Inspect\<close> of the proxy model.\<close>

definition finalize_live :: "inspector_request_record \<Rightarrow> request_session \<Rightarrow> request_session" where
  "finalize_live r s =
     report_effects [Inspect (bare_record r)] (tick (s\<lparr>qs_store := live_finalize r (qs_live s) (qs_store s)\<rparr>))"

definition record_request :: "inspector_request_record \<Rightarrow> request_session \<Rightarrow> request_session" where
  "record_request r s =
     report_effects [Inspect (bare_record r)] (tick (s\<lparr>qs_store := store_record (qs_enabled s) (qs_retention s) r (qs_store s)\<rparr>))"

definition record_context_inspector ::
  "session_env \<Rightarrow> inspector_outcome \<Rightarrow> status_code \<Rightarrow> string option \<Rightarrow> nat option \<Rightarrow> token_counts \<Rightarrow>
     request_session \<Rightarrow> request_session" where
  "record_context_inspector env outcome status kind body_bytes tokens s =
     finalize_live
       (context_final_record (wall_now env s) (elapsed_now env s) (qs_ix s) outcome status kind body_bytes tokens) s"

definition record_retried_attempt :: "session_env \<Rightarrow> inspector_attempt_record \<Rightarrow> request_session \<Rightarrow> request_session" where
  "record_retried_attempt env a s = live_upsert env (s\<lparr>qs_ix := context_record_retried_attempt a (qs_ix s)\<rparr>)"

definition record_final_attempt ::
  "session_env \<Rightarrow> status_code \<Rightarrow> status_code option \<Rightarrow> string \<Rightarrow> string option \<Rightarrow> request_session \<Rightarrow> request_session" where
  "record_final_attempt env status upstream_status outcome kind s =
     (if ix_current_attempt (qs_ix s) = None then s
      else live_upsert env (tick (s\<lparr>qs_ix :=
        context_record_final_attempt (elapsed_now env s) status upstream_status outcome kind (qs_ix s)\<rparr>)))"

section \<open>Debug captures\<close>

abbreviation capture_name :: "request_capture option \<Rightarrow> string option" where
  "capture_name c \<equiv> map_option (\<lambda>c. cm_id (cap_metadata c)) c"

definition set_capture :: "request_capture option \<Rightarrow> capture_request option \<Rightarrow> request_session \<Rightarrow> request_session" where
  "set_capture c p s =
     s\<lparr>qs_capture := c, qs_pending := p, qs_ix := (qs_ix s)\<lparr>ix_debug_capture_id := capture_name c\<rparr>\<rparr>"

text \<open>\<open>PendingDebugCapture::capture\<close>: the operations and the capture, if it could be created.\<close>

definition take_capture ::
  "session_env \<Rightarrow> request_session \<Rightarrow> capture_request \<Rightarrow> fs_op list \<times> request_capture option" where
  "take_capture env s rq =
     capture_request_op (qe_io env) (qe_metadata env) (qe_pid env) (qe_sequence env (qs_captured s)) (wall_now env s)
       (qs_capture_config s) rq"

text \<open>The first branch of \<open>ensure_failure_debug_capture\<close>: a pending capture is taken now.\<close>

definition late_capture :: "session_env \<Rightarrow> request_session \<Rightarrow> fs_op list" where
  "late_capture env s =
     (case (qs_capture s, qs_pending s) of (None, Some p) \<Rightarrow> fst (take_capture env s p) | _ \<Rightarrow> [])"

text \<open>The attempt is an argument: in the retry loop it is not yet the current one of the context.\<close>

definition ensure_capture ::
  "session_env \<Rightarrow> attempt_builder option \<Rightarrow> request_session \<Rightarrow> request_session \<times> attempt_builder option" where
  "ensure_capture env attempt s =
     (let (pending, c, tline, attempt) =
            ensure_failure_debug_capture (\<lambda>p. snd (take_capture env s p)) (elapsed_now env s) (qs_pending s) (qs_capture s)
              (ix_timeline (qs_ix s)) attempt;
          s = (if qs_capture s = None \<and> qs_pending s \<noteq> None
               then write_files (late_capture env s) (s\<lparr>qs_captured := Suc (qs_captured s)\<rparr>) else s);
          s = set_capture c pending (tick s)
      in (s\<lparr>qs_ix := (qs_ix s)\<lparr>ix_timeline := tline\<rparr>\<rparr>, attempt))"

definition ensure_current_capture :: "session_env \<Rightarrow> request_session \<Rightarrow> request_session" where
  "ensure_current_capture env s =
     (let (s, attempt) = ensure_capture env (ix_current_attempt (qs_ix s)) s
      in s\<lparr>qs_ix := (qs_ix s)\<lparr>ix_current_attempt := attempt\<rparr>\<rparr>)"

definition change_capture ::
  "(request_capture \<Rightarrow> fs_op list \<times> request_capture) \<Rightarrow> request_session \<Rightarrow> request_session" where
  "change_capture f s =
     (case qs_capture s of
        Some cap \<Rightarrow> let (ops, cap) = f cap in set_capture (Some cap) (qs_pending s) (write_files ops s)
      | None \<Rightarrow> s)"

definition capture_outcome_op :: "session_env \<Rightarrow> capture_outcome \<Rightarrow> request_session \<Rightarrow> request_session" where
  "capture_outcome_op env outcome s = change_capture (record_outcome (qe_metadata env) outcome) s"

section \<open>Routes\<close>

definition session_apply_route :: "session_env \<Rightarrow> selected_route \<Rightarrow> request_session \<Rightarrow> request_session" where
  "session_apply_route env route s =
     (let target = backend_target (qe_parse_url env) (sr_base_url route);
          s = set_capture None None s;
          s = s\<lparr>qs_backend_target := target,
                qs_models := model_log_fields_from_route (qs_requested_model s) route,
                qs_labels := (qs_labels s)\<lparr>ml_backend := sr_backend_id route,
                  ml_public_model := label_model route (qs_requested_model s)\<rparr>,
                qs_ix := apply_route_base route (qs_requested_model s) target (qs_ix s),
                qs_route := route\<rparr>
      in live_change (\<lambda>r. r\<lparr>rr_base := ix_base (qs_ix s)\<rparr>) s)"

end
