(* ===== verification/Proxy_Logging.thy ===== *)
theory Proxy_Logging
  imports Request_Context
begin

text \<open>
  \<open>onair-proxy/src/proxy/logging.rs\<close> and the log lines that the request path writes itself: a line is its level, its
  fields in order and its message.  How a subscriber formats lines and which levels it shows is not part of the
  program.
\<close>

section \<open>Fields\<close>

definition socket_addr_or_none :: "socket_addr option \<Rightarrow> string" where
  "socket_addr_or_none address = str_or ''none'' (map_option show_socket address)"

definition debug_capture_id :: "request_capture option \<Rightarrow> string" where
  "debug_capture_id capture = str_or ''none'' (capture_name capture)"

definition client_fields :: "client_info \<Rightarrow> (string \<times> log_value) list" where
  "client_fields ci =
     [(''peer_addr'', LText (ci_peer_addr ci)),
      (''effective_client_addr'', LText (ci_effective_client_addr ci)),
      (''trusted_proxy_addr'', LText (trusted_proxy_addr ci)),
      (''forwarded_for'', LText (forwarded_for ci)),
      (''user_agent'', LText (user_agent ci))]"

definition model_fields :: "model_log_fields \<Rightarrow> (string \<times> log_value) list" where
  "model_fields mf =
     [(''requested_model'', LText (mf_requested mf)), (''public_model'', LText (mf_public mf)),
      (''backend_model'', LText (mf_backend mf))]"

definition timeline_head :: "timeline_snapshot \<Rightarrow> (string \<times> log_value) list" where
  "timeline_head t =
     [(''timeline_started_unix_ms'', LTime (Some (ts_started_unix_ms t))),
      (''timeline_total_us'', LTime (Some (ts_total_us t))),
      (''timeline_proxy_entry_us'', LTime (Some (tm_proxy_entry_us (ts_marks t)))),
      (''timeline_auth_done_us'', LTime (tm_auth_done_us (ts_marks t))),
      (''timeline_request_inspected_us'', LTime (tm_request_inspected_us (ts_marks t))),
      (''timeline_route_selected_us'', LTime (tm_route_selected_us (ts_marks t)))]"

definition timeline_upstream :: "timeline_snapshot \<Rightarrow> (string \<times> log_value) list" where
  "timeline_upstream t =
     [(''timeline_request_rewritten_us'', LTime (tm_request_rewritten_us (ts_marks t))),
      (''timeline_debug_capture_done_us'', LTime (tm_debug_capture_done_us (ts_marks t))),
      (''timeline_backend_forward_start_us'', LTime (tm_backend_forward_start_us (ts_marks t))),
      (''timeline_backend_headers_received_us'', LTime (tm_backend_headers_received_us (ts_marks t)))]"

definition timeline_tail :: "timeline_snapshot \<Rightarrow> (string \<times> log_value) list" where
  "timeline_tail t =
     [(''timeline_backend_body_first_chunk_us'', LTime (tm_backend_body_first_chunk_us (ts_marks t))),
      (''timeline_backend_body_complete_us'', LTime (tm_backend_body_complete_us (ts_marks t))),
      (''timeline_response_rewritten_us'', LTime (tm_response_rewritten_us (ts_marks t))),
      (''timeline_client_response_ready_us'', LTime (tm_client_response_ready_us (ts_marks t))),
      (''timeline_stream_complete_us'', LTime (tm_stream_complete_us (ts_marks t)))]"

definition log_line :: "log_level \<Rightarrow> (string \<times> log_value) list \<Rightarrow> string \<Rightarrow> log_event" where
  "log_line level fs message = \<lparr>lg_level = level, lg_fields = fs, lg_message = message\<rparr>"

section \<open>The lines of \<open>logging.rs\<close>\<close>

definition warn_preflight_failure ::
  "timeline_snapshot \<Rightarrow> string \<Rightarrow> string \<Rightarrow> string option \<Rightarrow> bool \<Rightarrow> status_code \<Rightarrow> string \<Rightarrow> client_info \<Rightarrow> log_event" where
  "warn_preflight_failure t route ident model stream status stage ci =
     log_line LogWarn
       ([(''route'', LText route), (''identity'', LText ident), (''model'', LText (str_or ''none'' model)),
         (''stream'', LFlag stream), (''status'', LNumber status), (''stage'', LText stage)]
        @ client_fields ci @ timeline_head t)
       ''request failed before upstream attempt''"

text \<open>The two lines about a failed attempt share all but the fields of the next route.\<close>

definition failure_line ::
  "session_env \<Rightarrow> status_code \<Rightarrow> string \<Rightarrow> selected_route option \<Rightarrow> string \<Rightarrow> string \<Rightarrow> request_session \<Rightarrow> log_event" where
  "failure_line env status kind next_route event message s =
     log_line LogWarn
       ([(''client_status'', LNumber status), (''error_kind'', LText kind),
         (''backend'', LText (ml_backend (qs_labels s))), (''backend_target'', LText (qs_backend_target s)),
         (''backend_remote_addr'', LText (socket_addr_or_none (ix_backend_remote_addr (qs_ix s))))]
        @ (case next_route of
             Some r \<Rightarrow> [(''next_backend'', LText (sr_backend_id r)),
               (''next_backend_target'', LText (backend_target (qe_parse_url env) (sr_base_url r)))]
           | None \<Rightarrow> [])
        @ [(''route'', LText (ml_route (qs_labels s)))] @ client_fields (qs_client_info s) @ model_fields (qs_models s)
        @ [(''attempt'', LNumber (qs_attempt s)), (''max_attempts'', LNumber (qs_max_attempts s))]
        @ (if next_route = None then [] else [(''next_attempt'', LNumber (qs_attempt s + 1))])
        @ [(''stream'', LFlag (ml_stream (qs_labels s))), (''request_body_bytes'', LNumber (qs_request_body_bytes s)),
           (''debug_capture_id'', LText (debug_capture_id (qs_capture s)))]
        @ timeline_head (snapshot_now env s) @ timeline_upstream (snapshot_now env s) @ [(''event'', LText event)])
       message"

definition warn_proxy_failure ::
  "session_env \<Rightarrow> status_code \<Rightarrow> string \<Rightarrow> string \<Rightarrow> request_session \<Rightarrow> request_session" where
  "warn_proxy_failure env status kind event s =
     tick (log_event_op (failure_line env status kind None event ''proxy failure timeline'' s) s)"

definition warn_proxy_retry ::
  "session_env \<Rightarrow> selected_route \<Rightarrow> status_code \<Rightarrow> string \<Rightarrow> string \<Rightarrow> request_session \<Rightarrow> request_session" where
  "warn_proxy_retry env next_route status kind event s =
     tick (log_event_op (failure_line env status kind (Some next_route) event ''proxy retry timeline'' s) s)"

definition debug_timeline_fields :: "timeline_snapshot \<Rightarrow> string \<Rightarrow> log_event" where
  "debug_timeline_fields t event =
     log_line LogDebug (timeline_head t @ timeline_upstream t @ timeline_tail t @ [(''event'', LText event)])
       ''request timeline snapshot''"

section \<open>The lines of the request path\<close>

fun retry_message :: "failure_kind \<Rightarrow> string" where
  "retry_message FTimeout = ''upstream request timed out; retrying fallback backend''"
| "retry_message (FRequest k r) = ''upstream request failed before response; retrying fallback backend''"

definition attempt_fields :: "request_session \<Rightarrow> (string \<times> log_value) list" where
  "attempt_fields s =
     [(''backend'', LText (ml_backend (qs_labels s))), (''route'', LText (ml_route (qs_labels s)))] @ model_fields (qs_models s)
     @ [(''attempt'', LNumber (qs_attempt s)), (''max_attempts'', LNumber (qs_max_attempts s))]"

definition warn_non_success :: "status_code \<Rightarrow> status_code \<Rightarrow> string \<Rightarrow> request_session \<Rightarrow> request_session" where
  "warn_non_success upstream_status status path s =
     log_event_op (log_line LogWarn
       ([(''upstream_status'', LNumber upstream_status), (''client_status'', LNumber status)] @ attempt_fields s
        @ [(''path'', LText path), (''request_body_bytes'', LNumber (qs_request_body_bytes s)),
           (''debug_capture_id'', LText (debug_capture_id (qs_capture s)))])
       ''upstream returned non-success status'') s"

definition warn_exposed :: "status_code \<Rightarrow> status_code \<Rightarrow> nat \<Rightarrow> request_session \<Rightarrow> request_session" where
  "warn_exposed upstream_status status body_bytes s =
     log_event_op (log_line LogWarn
       ([(''upstream_status'', LNumber upstream_status), (''client_status'', LNumber status)] @ attempt_fields s
        @ [(''exposed'', LFlag True), (''response_body_bytes'', LNumber body_bytes)])
       ''upstream returned non-success status (exposed to client)'') s"

text \<open>The fields that the lines about a response repeat.\<close>

definition response_fields :: "request_session \<Rightarrow> (string \<times> log_value) list" where
  "response_fields s =
     [(''backend'', LText (ml_backend (qs_labels s))), (''backend_target'', LText (qs_backend_target s)),
      (''backend_remote_addr'', LText (socket_addr_or_none (ix_backend_remote_addr (qs_ix s)))),
      (''route'', LText (ml_route (qs_labels s)))]
     @ client_fields (qs_client_info s) @ model_fields (qs_models s)
     @ [(''attempt'', LNumber (qs_attempt s)), (''max_attempts'', LNumber (qs_max_attempts s)),
        (''request_body_bytes'', LNumber (qs_request_body_bytes s))]"

definition debug_buffered :: "status_code \<Rightarrow> nat \<Rightarrow> request_session \<Rightarrow> request_session" where
  "debug_buffered status response_bytes s =
     log_event_op (log_line LogDebug
       ([(''upstream_status'', LNumber status), (''response_bytes'', LNumber response_bytes)] @ response_fields s)
       ''buffered response completed'') s"

definition debug_stream_started :: "status_code \<Rightarrow> request_session \<Rightarrow> request_session" where
  "debug_stream_started status s =
     log_event_op (log_line LogDebug ((''upstream_status'', LNumber status) # response_fields s) ''streaming response started'') s"

definition debug_stream_completed :: "status_code \<Rightarrow> nat \<Rightarrow> stream_metrics \<Rightarrow> request_session \<Rightarrow> request_session" where
  "debug_stream_completed status duration m s =
     log_event_op (log_line LogDebug
       ((''upstream_status'', LNumber status) # response_fields s
        @ [(''stream_duration_ms'', LNumber duration), (''input_tokens'', LNumber (unat (ut_input (sm_usage m)))),
           (''cached_input_tokens'', LNumber (unat (ut_cached_input (sm_usage m)))),
           (''output_tokens'', LNumber (unat (ut_output (sm_usage m)))),
           (''total_tokens'', LNumber (unat (ut_total (sm_usage m)))),
           (''stream_usage_object_count'', LNumber (unat (ud_usage_object_count (sm_usage_diagnostics m)))),
           (''stream_usage_keys'', LList (ud_usage_keys (sm_usage_diagnostics m))),
           (''stream_event_names'', LList (ud_event_names (sm_usage_diagnostics m))),
           (''stream_usage_event_names'', LList (ud_usage_event_names (sm_usage_diagnostics m)))])
       ''streaming response completed'') s"

definition warn_plain :: "(string \<times> log_value) list \<Rightarrow> string \<Rightarrow> request_session \<Rightarrow> request_session" where
  "warn_plain fs message s = log_event_op (log_line LogWarn fs message) s"

end
