(* ===== verification/Request_Session.thy ===== *)
theory Request_Session
  imports Proxy_Logging
begin

text \<open>
  The request path with everything that accompanies it: \<open>prepare_outbound\<close>, the retry loop, the failures, the buffered
  and the streaming response and \<open>proxy_v1\<close> (\<open>onair-proxy/src/proxy.rs\<close>, \<open>proxy/response.rs\<close>, \<open>proxy/upstream.rs\<close>),
  on the context of \<open>Request_Context\<close>.  Each operation is the whole operation of the code: what it sends and
  reports, its marks on the timeline and on the attempt, its live updates, its captures and its log lines, in order.
\<close>

section \<open>The outbound request\<close>

definition capture_request_of :: "proxy_request \<Rightarrow> outbound \<Rightarrow> request_session \<Rightarrow> proxy_env \<Rightarrow> capture_request" where
  "capture_request_of rq ob s env =
     \<lparr>cq_method = pr_method rq, cq_client_path = pr_path rq, cq_client_query = pr_query rq,
      cq_upstream_path = upstream_path_for_mode (upstream_path (pr_path rq)) (sr_request_mode (qs_route s)),
      cq_upstream_query = Option.bind (rewrite_query_model (pe_form env) (pr_query rq) (sr_backend_model (qs_route s)))
        (\<lambda>q. if q = [] then None else Some q),
      cq_content_type = pr_content_type rq, cq_request_id = header_str (pr_headers rq) ''x-request-id'',
      cq_labels = qs_labels s, cq_requested_model = mf_requested (qs_models s), cq_public_model = mf_public (qs_models s),
      cq_backend_model = mf_backend (qs_models s), cq_inbound_body = pr_body rq,
      cq_upstream_body = (case ob_body ob of Some b \<Rightarrow> b | None \<Rightarrow> [])\<rparr>"

text \<open>Captures are off, taken at once, or kept for a failure.\<close>

definition choose_capture :: "session_env \<Rightarrow> capture_request \<Rightarrow> request_session \<Rightarrow> request_session" where
  "choose_capture env p s =
     (if \<not> dc_enabled (qs_capture_config s) then set_capture None None s
      else if dc_mode (qs_capture_config s) = CaptureAll then
        let (ops, c) = take_capture env s p
        in set_capture c None (write_files ops (tick (s\<lparr>qs_captured := Suc (qs_captured s)\<rparr>)))
      else set_capture None (Some p) s)"

definition stamp_capture :: "session_env \<Rightarrow> attempt_builder \<Rightarrow> request_session \<Rightarrow> request_session \<times> attempt_builder" where
  "stamp_capture env b s =
     (let b = set_debug_capture (capture_name (qs_capture s)) b
      in if qs_capture s = None then (s, b)
         else let (s, us) = stamp env DebugCaptureDone s in (live_upsert env s, mark_debug_capture_done us b))"

definition start_attempt :: "session_env \<Rightarrow> request_session \<Rightarrow> request_session \<times> attempt_builder" where
  "start_attempt env s =
     (report_effects [BackendAttempt (qs_labels s)] (tick s),
      attempt_builder_new (qs_attempt s) (ml_backend (qs_labels s)) (qs_backend_target s)
        (ix_backend_remote_addr (qs_ix s)) (capture_name (qs_capture s)) (saturating_u64 (elapsed_now env s)))"

definition session_prepare_outbound ::
  "session_env \<Rightarrow> proxy_request \<Rightarrow> request_session \<Rightarrow> request_session \<times> (api_error + attempt_builder \<times> outbound)" where
  "session_prepare_outbound env rq s =
     (let (s, b) = start_attempt env s
      in case prepare_outbound (qe_proxy env) rq (qs_route s) of
           Inl e \<Rightarrow> (s, Inl e)
         | Inr ob \<Rightarrow>
             let (s, us) = stamp env RequestRewritten s;
                 s = live_upsert env s;
                 s = choose_capture env (capture_request_of rq ob s (qe_proxy env)) s;
                 (s, b) = stamp_capture env (mark_request_rewritten us b) s;
                 (s, us) = stamp env BackendForwardStart s
             in (live_upsert env s, Inr (mark_backend_forward_start us b, ob)))"

section \<open>Failed attempts\<close>

fun capture_failure :: "failure_kind \<Rightarrow> capture_outcome" where
  "capture_failure FTimeout = CapUpstreamTimeout (client_status FTimeout)"
| "capture_failure (FRequest k r) = CapUpstreamRequestFailed (client_status (FRequest k r)) k"

definition finish_failed :: "session_env \<Rightarrow> failure_kind \<Rightarrow> attempt_builder \<Rightarrow> request_session \<Rightarrow> inspector_attempt_record" where
  "finish_failed env kind b s =
     attempt_finish (client_status kind) None (failure_outcome kind) (Some (error_kind kind))
       (saturating_u64 (elapsed_now env s)) b"

definition session_record_retry ::
  "session_env \<Rightarrow> failure_kind \<Rightarrow> selected_route \<Rightarrow> attempt_builder \<Rightarrow> request_session \<Rightarrow> request_session" where
  "session_record_retry env kind next_route b s =
     (let s = capture_outcome_op env (capture_failure kind) s;
          s = report_effects [Health (ReportFailure (ml_backend (qs_labels s)) (client_status kind) (error_kind kind))] s;
          s = record_retried_attempt env (finish_failed env kind b s) (tick s);
          s = warn_proxy_retry env next_route (client_status kind) (error_kind kind) (retry_message kind) s
      in session_apply_route env next_route (s\<lparr>qs_attempt := qs_attempt s + 1\<rparr>))"

definition session_record_final_failure ::
  "session_env \<Rightarrow> failure_kind \<Rightarrow> attempt_builder \<Rightarrow> request_session \<Rightarrow> request_session \<times> api_error" where
  "session_record_final_failure env kind b s =
     (let s = report_effects [RequestMetric (qs_labels s) (client_status kind)] s;
          s = capture_outcome_op env (capture_failure kind) s;
          s = report_effects [Health (ReportFailure (ml_backend (qs_labels s)) (client_status kind) (error_kind kind))] s;
          s = tick (s\<lparr>qs_ix := (qs_ix s)\<lparr>ix_backend_attempts := ix_backend_attempts (qs_ix s) @ [finish_failed env kind b s]\<rparr>\<rparr>);
          s = warn_proxy_failure env (client_status kind) (error_kind kind) ''upstream request failed'' s
      in (record_context_inspector env (failure_inspector_outcome kind) (client_status kind) (Some (error_kind kind)) None
            no_tokens s,
          failure_api_error kind))"

section \<open>The retry loop\<close>

definition ensure_attempt_capture ::
  "session_env \<Rightarrow> attempt_builder \<Rightarrow> request_session \<Rightarrow> request_session \<times> attempt_builder" where
  "ensure_attempt_capture env b s =
     (let (s, a) = ensure_capture env (Some b) s in (s, case a of Some b \<Rightarrow> b | None \<Rightarrow> b))"

definition session_arrived :: "session_env \<Rightarrow> attempt_builder \<Rightarrow> request_session \<Rightarrow> request_session" where
  "session_arrived env b s =
     (let (s, us) = stamp env BackendHeadersReceived s;
          address = qe_remote_addr env (qs_attempt s);
          b = set_backend_remote_addr address (mark_backend_headers_received us b)
      in live_upsert env
           (s\<lparr>qs_ix := (qs_ix s)\<lparr>ix_backend_remote_addr := address, ix_current_attempt := Some b\<rparr>\<rparr>))"

fun session_attempt_loop ::
  "session_env \<Rightarrow> proxy_request \<Rightarrow> request_session \<Rightarrow> selected_route list \<Rightarrow>
     request_session \<times> (api_error + upstream_response)" where
  "session_attempt_loop env rq s fallbacks =
     (case session_prepare_outbound env rq s of
        (s, Inl e) \<Rightarrow> (s, Inl e)
      | (s, Inr (b, ob)) \<Rightarrow>
          (let s = report_effects [Sent (sr_backend_id (qs_route s)) ob] s
           in case pe_send (qe_proxy env) (qs_attempt s) ob of
                SendOk r \<Rightarrow> (session_arrived env b s, Inr r)
              | SendShutdown \<Rightarrow> (warn_plain [] ''shutdown signaled during upstream request'' s, Inl internal_error)
              | SendError e \<Rightarrow>
                  let kind = classify_failure e; (s, b) = ensure_attempt_capture env b s
                  in (case (is_retryable kind, fallbacks) of
                        (True, next_route # rest) \<Rightarrow>
                          session_attempt_loop env rq (session_record_retry env kind next_route b s) rest
                      | _ \<Rightarrow> map_prod id Inl (session_record_final_failure env kind b s))))"

declare session_attempt_loop.simps [simp del]

section \<open>Reading bodies\<close>

definition stamp_current ::
  "session_env \<Rightarrow> timeline_event \<Rightarrow> (u64 \<Rightarrow> attempt_builder \<Rightarrow> attempt_builder) \<Rightarrow> request_session \<Rightarrow> request_session" where
  "stamp_current env event f s =
     (let (s, us) = stamp env event s
      in s\<lparr>qs_ix := (qs_ix s)\<lparr>ix_current_attempt := map_option (f us) (ix_current_attempt (qs_ix s))\<rparr>\<rparr>)"

fun session_read_body ::
  "session_env \<Rightarrow> string \<Rightarrow> body_event list \<Rightarrow> request_session \<Rightarrow> request_session \<times> (body_read_error + string)" where
  "session_read_body env bytes [] s = (stamp_current env BackendBodyComplete attempt_body_complete s, Inr bytes)"
| "session_read_body env bytes (BChunk c # es) s =
     session_read_body env (bytes @ c) es (stamp_current env BackendBodyFirstChunk attempt_body_first_chunk s)"
| "session_read_body env bytes (BError e # es) s = (s, Inl (ReadUpstream e))"
| "session_read_body env bytes (BShutdown # es) s = (s, Inl ReadShutdown)"

fun session_read_capped ::
  "session_env \<Rightarrow> nat \<Rightarrow> string \<Rightarrow> body_event list \<Rightarrow> request_session \<Rightarrow>
     request_session \<times> (body_read_error + string \<times> bool)" where
  "session_read_capped env cap bytes [] s =
     (stamp_current env BackendBodyComplete attempt_body_complete s, Inr (bytes, False))"
| "session_read_capped env cap bytes (BChunk c # es) s =
     (let s = stamp_current env BackendBodyFirstChunk attempt_body_first_chunk s; remaining = cap - length bytes
      in if remaining < length c then (s, Inr (bytes @ take remaining c, True))
         else if length (bytes @ c) = cap then (s, Inr (bytes @ c, True))
         else session_read_capped env cap (bytes @ c) es s)"
| "session_read_capped env cap bytes (BError e # es) s = (s, Inl (ReadUpstream e))"
| "session_read_capped env cap bytes (BShutdown # es) s = (s, Inl ReadShutdown)"

section \<open>Failing statuses\<close>

text \<open>The body of a failing response is read for the capture or for the client, or not at all.\<close>

definition read_error_body ::
  "session_env \<Rightarrow> upstream_response \<Rightarrow> request_session \<Rightarrow> request_session \<times> (string \<times> bool) option" where
  "read_error_body env r s =
     (if qs_capture s \<noteq> None \<or> sr_expose_backend_errors (qs_route s) then
        (case session_read_capped env MAX_UPSTREAM_ERROR_CAPTURE_BYTES [] (ur_body r) s of
           (s, Inr body) \<Rightarrow> (s, Some body)
         | (s, Inl ReadShutdown) \<Rightarrow> (warn_plain [] ''shutdown signaled while capturing upstream error body'' s, None)
         | (s, Inl (ReadUpstream e)) \<Rightarrow>
             (warn_plain [(''error_kind'', LText (upstream_error_kind e))] ''failed to capture upstream error body'' s, None))
      else (s, None))"

definition capture_error_body ::
  "session_env \<Rightarrow> upstream_response \<Rightarrow> (string \<times> bool) option \<Rightarrow> request_session \<Rightarrow> request_session" where
  "capture_error_body env r error_body s =
     (case error_body of
        Some (bytes, truncated) \<Rightarrow>
          change_capture (record_upstream_error_response (qe_io env) (qe_metadata env) (ur_status r)
            (header_str (ur_headers r) ''content-type'') bytes truncated) s
      | None \<Rightarrow> s)"

definition complete_body :: "bool \<Rightarrow> (string \<times> bool) option \<Rightarrow> string option" where
  "complete_body exposed error_body =
     (if exposed then Option.bind error_body (\<lambda>(bytes, truncated). if truncated then None else Some bytes) else None)"

text \<open>The reports that both answers to a failing status make, in this order.\<close>

definition report_non_success :: "session_env \<Rightarrow> status_code \<Rightarrow> request_session \<Rightarrow> request_session" where
  "report_non_success env upstream_status s =
     (let status = map_upstream_status upstream_status;
          s = report_effects [RequestMetric (qs_labels s) status] s;
          s = capture_outcome_op env (CapUpstreamNonSuccess upstream_status status) s;
          s = report_effects [Health (ReportFailure (ml_backend (qs_labels s)) upstream_status ''upstream_non_success'')] s
      in record_final_attempt env status (Some upstream_status) ''upstream_non_success'' None s)"

definition session_forward_error ::
  "session_env \<Rightarrow> upstream_response \<Rightarrow> string \<Rightarrow> request_session \<Rightarrow> request_session \<times> client_response" where
  "session_forward_error env r body s =
     (let status = map_upstream_status (ur_status r);
          s = warn_exposed (ur_status r) status (length body) (report_non_success env (ur_status r) s);
          s = warn_proxy_failure env status ''upstream_non_success''
            ''upstream returned non-success status; body forwarded to client via expose_backend_errors'' s;
          s = s\<lparr>qs_ix := (qs_ix s)\<lparr>ix_base := (ix_base (qs_ix s))\<lparr>ib_exposed_backend_error := True\<rparr>\<rparr>\<rparr>
      in (record_context_inspector env UpstreamNonSuccess status None (Some (length body)) no_tokens s,
          \<lparr>cr_status = status, cr_headers = error_headers (ur_headers r), cr_body = Buffered body\<rparr>))"

definition session_sanitize_error ::
  "session_env \<Rightarrow> proxy_request \<Rightarrow> upstream_response \<Rightarrow> request_session \<Rightarrow> request_session \<times> api_error" where
  "session_sanitize_error env rq r s =
     (let status = map_upstream_status (ur_status r);
          s = report_non_success env (ur_status r) (warn_non_success (ur_status r) status (pr_path rq) s);
          s = warn_proxy_failure env status ''upstream_non_success'' ''upstream returned non-success status'' s
      in (record_context_inspector env UpstreamNonSuccess status None None no_tokens s, upstream (ur_status r)))"

definition session_non_success ::
  "session_env \<Rightarrow> proxy_request \<Rightarrow> upstream_response \<Rightarrow> request_session \<Rightarrow>
     request_session \<times> (api_error + client_response)" where
  "session_non_success env rq r s =
     (let (s, error_body) = read_error_body env r (ensure_current_capture env s);
          s = capture_error_body env r error_body s
      in case complete_body (sr_expose_backend_errors (qs_route s)) error_body of
           Some body \<Rightarrow> map_prod id Inr (session_forward_error env r body s)
         | None \<Rightarrow> map_prod id Inl (session_sanitize_error env rq r s))"

section \<open>Buffered responses\<close>

definition push_current ::
  "(attempt_builder \<Rightarrow> inspector_attempt_record) \<Rightarrow> request_session \<Rightarrow> request_session" where
  "push_current finish s =
     (case ix_current_attempt (qs_ix s) of
        Some b \<Rightarrow> tick (s\<lparr>qs_ix := (qs_ix s)\<lparr>ix_current_attempt := None,
          ix_backend_attempts := ix_backend_attempts (qs_ix s) @ [finish b]\<rparr>\<rparr>)
      | None \<Rightarrow> s)"

definition final_of ::
  "session_env \<Rightarrow> inspector_outcome \<Rightarrow> status_code \<Rightarrow> string option \<Rightarrow> nat option \<Rightarrow> token_counts \<Rightarrow> request_session \<Rightarrow>
     inspector_request_record" where
  "final_of env outcome status kind body_bytes tokens s =
     context_final_record (wall_now env s) (elapsed_now env s) (qs_ix s) outcome status kind body_bytes tokens"

definition buffered_failed ::
  "session_env \<Rightarrow> upstream_response \<Rightarrow> http_error \<Rightarrow> request_session \<Rightarrow> request_session" where
  "buffered_failed env r e s =
     (let kind = upstream_error_kind e;
          s = warn_plain [(''error_kind'', LText kind)] ''failed to read upstream body'' s;
          s = ensure_current_capture env (report_effects [RequestMetric (qs_labels s) 502] s);
          s = capture_outcome_op env (CapUpstreamBodyReadFailed 502 kind) s;
          s = report_effects [Health (ReportFailure (ml_backend (qs_labels s)) 502 kind)] s;
          s = push_current (attempt_finish 502 (Some (ur_status r)) ''upstream_body_read_failed'' (Some kind)
            (saturating_u64 (elapsed_now env s))) s
      in record_request (final_of env UpstreamBodyReadFailed 502 (Some kind) None no_tokens s) s)"

definition buffered_completed ::
  "session_env \<Rightarrow> upstream_response \<Rightarrow> string \<Rightarrow> usage_totals \<Rightarrow> request_session \<Rightarrow> request_session" where
  "buffered_completed env r bytes usage s =
     (let (s, _) = stamp env ResponseRewritten s;
          s = live_change (\<lambda>x. x\<lparr>rr_timeline := snapshot_now env s\<rparr>) s;
          s = report_effects [UsageMetric (qs_labels s) usage, RequestMetric (qs_labels s) (ur_status r)] s;
          s = capture_outcome_op env (CapSuccess (ur_status r)) (debug_buffered (ur_status r) (length bytes) s);
          s = report_effects [Health (ReportSuccess (ml_backend (qs_labels s)) (ur_status r))] s;
          s = push_current (finish_at_body_complete_or (ur_status r) (Some (ur_status r)) ''completed'' None
            (saturating_u64 (elapsed_now env s))) s;
          (s, _) = stamp env ClientResponseReady s;
          s = live_change (\<lambda>x. x\<lparr>rr_timeline := snapshot_now env s,
            rr_backend_attempts := ix_backend_attempts (qs_ix s)\<rparr>) s;
          s = record_request (final_of env Completed (ur_status r) None (Some (length bytes)) (inspector_tokens usage) s) s
      in log_event_op (debug_timeline_fields (snapshot_now env s) ''buffered response timeline snapshot'') (tick s))"

definition session_buffered_response ::
  "session_env \<Rightarrow> proxy_request \<Rightarrow> upstream_response \<Rightarrow> request_session \<Rightarrow>
     request_session \<times> (api_error + client_response) option" where
  "session_buffered_response env rq r s =
     (let content_type = header_str (ur_headers r) ''content-type''
      in case session_read_body env [] (ur_body r) s of
           (s, Inl ReadShutdown) \<Rightarrow>
             (warn_plain [] ''shutdown signaled while reading upstream body'' s, Some (Inl internal_error))
         | (s, Inl (ReadUpstream e)) \<Rightarrow> (buffered_failed env r e s, Some (Inl (upstream 502)))
         | (s, Inr bytes) \<Rightarrow>
             (case rewrite_response_body (pe_serde (qe_proxy env)) bytes content_type (sr_backend_model (qs_route s))
                 (sr_public_model (qs_route s)) (sr_request_mode (qs_route s)) of
                None \<Rightarrow> (s, None)
              | Some (response_bytes, usage) \<Rightarrow>
                  (buffered_completed env r response_bytes usage s,
                   Some (Inr \<lparr>cr_status = ur_status r,
                     cr_headers = response_headers (pr_headers rq) (ur_headers r) content_type False,
                     cr_body = Buffered response_bytes\<rparr>))))"

section \<open>Streaming responses\<close>

text \<open>The chunks as they arrive: the \<open>i\<close>-th is seen at the \<open>i\<close>-th reading of the clock from now.\<close>

definition session_events :: "session_env \<Rightarrow> request_session \<Rightarrow> body_event list \<Rightarrow> session_event list" where
  "session_events env s body =
     map (\<lambda>(i, e). \<lparr>se_elapsed = qe_elapsed env (qs_reads s + i), se_upstream_writer = fst (qe_writers env i),
       se_client_writer = snd (qe_writers env i), se_body = e\<rparr>) (enumerate 1 body)"

definition stream_end_of ::
  "session_env \<Rightarrow> status_code \<Rightarrow> nat \<Rightarrow> stream_session \<Rightarrow> request_session \<Rightarrow> stream_end" where
  "stream_end_of env status started ss s =
     \<lparr>sn_status = status, sn_duration_ms = (elapsed_now env s - started) div 1000, sn_elapsed = elapsed_now env s,
      sn_now = wall_now env s, sn_base = ix_base (qs_ix s), sn_remote_addr = ix_backend_remote_addr (qs_ix s),
      sn_backend_attempts = ix_backend_attempts (qs_ix s), sn_retried_attempts = ix_retried_attempts (qs_ix s),
      sn_enabled = qs_enabled s, sn_retention = qs_retention s, sn_pending = qs_pending s,
      sn_debug_capture = qs_capture s, sn_upstream_timings = map_option (qe_finish env) (ss_upstream ss),
      sn_client_timings = map_option (qe_finish env) (ss_client ss)\<rparr>"

text \<open>\<open>Drop for StreamMetrics\<close>, when the loop has ended.\<close>

definition stream_dropped ::
  "session_env \<Rightarrow> status_code \<Rightarrow> nat \<Rightarrow> stream_session \<Rightarrow> request_session \<Rightarrow> request_session" where
  "stream_dropped env status started ss s =
     (let m = ss_metrics ss; en = stream_end_of env status started ss s;
          (ops, c, r, store) = session_drop (qe_metadata env) (\<lambda>p. snd (take_capture env s p)) en ss;
          late = (if sm_stream_error_kind m = None then [] else late_capture env s);
          s = report_effects (if is_empty (sm_usage m) then [] else [UsageMetric (qs_labels s) (sm_usage m)]) s;
          s = debug_stream_completed status (sn_duration_ms en) m s;
          s = report_effects (map Health (stream_health (ml_backend (qs_labels s)) status m)) s;
          s = write_files (late @ ops) (s\<lparr>qs_capture := c, qs_store := store\<rparr>);
          s = report_effects [Inspect (bare_record r)] s;
          s = log_event_op (debug_timeline_fields (rr_timeline r) ''streaming response timeline snapshot'') s
      in report_effects [StreamMetric (qs_labels s) status] (tick s))"

definition session_run_stream ::
  "session_env \<Rightarrow> upstream_response \<Rightarrow> request_session \<Rightarrow> stream_session \<Rightarrow> (stream_session \<times> http_error option) option" where
  "session_run_stream env r s ss =
     (let content_type = header_str (ur_headers r) ''content-type'';
          normalize_sse = ml_stream (qs_labels s) \<or> is_event_stream_content_type content_type;
          emit = ml_route (qs_labels s) \<noteq> ''chat_completions'' \<or> qs_stream_usage_requested s;
          events = session_events env s (ur_body r);
          ended = qe_elapsed env (qs_reads s + Suc (length events))
      in if normalize_sse then
           session_loop (pe_serde (qe_proxy env)) ended
             (strategy_new (sr_request_mode (qs_route s)) (sr_backend_model (qs_route s))
               (sr_public_model (qs_route s)) emit) ss events
         else Some (session_passthrough ended ss events))"

definition session_streaming_response ::
  "session_env \<Rightarrow> proxy_request \<Rightarrow> upstream_response \<Rightarrow> request_session \<Rightarrow> request_session \<times> client_response" where
  "session_streaming_response env rq r s =
     (let s = report_effects [RequestMetric (qs_labels s) (ur_status r)] s;
          started = elapsed_now env s;
          ss = session_start (sr_stream_capture (qs_route s)) (qs_capture s) (qe_capture_started env) (ur_status r)
            (header_str (ur_headers r) ''content-type'') started (ix_timeline (qs_ix s)) (ix_current_attempt (qs_ix s))
            (qs_live s) (qs_store s);
          s = debug_stream_started (ur_status r) s;
          result = session_run_stream env r s ss;
          s = (case result of
                 Some (ss, err) \<Rightarrow>
                   stream_dropped env (ur_status r) started ss
                     ((if err = None then id else warn_plain
                         [(''error_kind'', LText (str_or [] (sm_stream_error_kind (ss_metrics ss))))] ''upstream stream chunk failed'')
                       (s\<lparr>qs_reads := qs_reads s + length (ur_body r) + 2\<rparr>))
               | None \<Rightarrow> s)
      in (s, \<lparr>cr_status = ur_status r,
           cr_headers = response_headers (pr_headers rq) (ur_headers r) (Some ''text/event-stream'') True,
           cr_body = Streamed (map_option session_result result)\<rparr>))"

section \<open>The handler\<close>

definition session_do_proxy ::
  "session_env \<Rightarrow> proxy_request \<Rightarrow> request_session \<Rightarrow> selected_route list \<Rightarrow>
     request_session \<times> (api_error + client_response) option" where
  "session_do_proxy env rq s fallbacks =
     (case session_attempt_loop env rq s fallbacks of
        (s, Inl e) \<Rightarrow> (s, Some (Inl e))
      | (s, Inr r) \<Rightarrow>
          if \<not> is_success (ur_status r) then map_prod id Some (session_non_success env rq r s)
          else if pr_stream rq \<or> is_event_stream_content_type (header_str (ur_headers r) ''content-type'')
          then map_prod id (\<lambda>x. Some (Inr x)) (session_streaming_response env rq r s)
          else session_buffered_response env rq r s)"

text \<open>What the handler leaves: the answer, its reports, and the inspector, the capture files and the log.\<close>

record session_outcome = proxy_outcome +
  so_store :: inspector_store
  so_files :: "fs_op list"
  so_log :: "log_event list"

definition observe_request ::
  "session_env \<Rightarrow> config \<Rightarrow> client_request \<Rightarrow> socket_addr \<Rightarrow> request_observation" where
  "observe_request env cfg q peer =
     (let started = saturating_u64 (qe_wall env 0);
          client_id = map_option inspector_text (header_str (rqc_headers q) ''x-request-id'')
      in \<lparr>ro_inspector_enabled = ic_enabled (cfg_inspector cfg),
          ro_inspector_retention_requests = ic_retention_requests (cfg_inspector cfg),
          ro_record_id = next_record_id (qe_pid env) (qe_record_sequence env) started client_id,
          ro_client_request_id = client_id, ro_started_at_unix_ms = started, ro_method = rqc_method q,
          ro_path = inspector_text (rqc_path q), ro_query = map_option inspector_text (rqc_query q),
          ro_client_info = from_headers (rqc_headers q) (Some peer) (trusted_proxy_cidrs (cfg_server cfg)),
          ro_request_body_bytes = length (rqc_body q)\<rparr>)"

text \<open>The timeline after the first marks, each at the next reading of the clock.\<close>

definition preflight_timeline :: "session_env \<Rightarrow> timeline_event list \<Rightarrow> request_timeline" where
  "preflight_timeline env events =
     fold (\<lambda>(i, event) tline. fst (timeline_mark event (qe_elapsed env i) tline)) (enumerate 1 events)
       (timeline_start (qe_wall env 0))"

definition handle_preflight_failure ::
  "session_env \<Rightarrow> request_observation \<Rightarrow> timeline_event list \<Rightarrow> string \<Rightarrow> string \<Rightarrow> string option \<Rightarrow> bool \<Rightarrow> string \<Rightarrow>
     api_error \<Rightarrow> rr_counters \<Rightarrow> inspector_store \<Rightarrow> session_outcome" where
  "handle_preflight_failure env ob events route ident model stream stage e c store =
     (let n = Suc (length events); tline = preflight_timeline env events;
          r = preflight_record (qe_wall env n) (qe_elapsed env n) ob tline route ident model stream (err_status e) stage
      in \<lparr>po_result = Some (Inl e),
          po_effects = [RequestMetric \<lparr>ml_route = route, ml_identity = ident, ml_public_model = str_or ''none'' model,
            ml_backend = ''none'', ml_stream = stream\<rparr> (err_status e), Inspect (bare_record r)],
          po_counters = c,
          so_store = store_upsert_final (ro_inspector_enabled ob) (ro_inspector_retention_requests ob) r store,
          so_files = [],
          so_log = [warn_preflight_failure (timeline_snapshot_at (qe_elapsed env n) tline) route ident model stream
            (err_status e) stage (ro_client_info ob)]\<rparr>)"

definition session_context ::
  "session_env \<Rightarrow> config \<Rightarrow> client_request \<Rightarrow> request_observation \<Rightarrow> identity \<Rightarrow> request_shape \<Rightarrow> selected_route \<Rightarrow> nat \<Rightarrow>
     inspector_store \<Rightarrow> request_session" where
  "session_context env cfg q ob ident shape route max_attempts store =
     (let tline = preflight_timeline env [AuthDone, RequestInspected, RouteSelected];
          target = backend_target (qe_parse_url env) (sr_base_url route);
          models = model_log_fields_from_route (sh_model shape) route;
          labels = \<lparr>ml_route = path_metric_name (rqc_path q), ml_identity = id_id ident,
             ml_public_model = label_model route (sh_model shape), ml_backend = sr_backend_id route,
             ml_stream = sh_stream shape\<rparr>
      in \<lparr>qs_capture_config = cfg_debug_capture cfg, qs_capture = None, qs_pending = None,
          qs_ix = \<lparr>ix_base = routed_inspector_base ob labels models target, ix_backend_remote_addr = None,
            ix_debug_capture_id = None, ix_backend_attempts = [], ix_retried_attempts = [], ix_current_attempt = None,
            ix_timeline = tline\<rparr>,
          qs_enabled = ro_inspector_enabled ob, qs_retention = ro_inspector_retention_requests ob,
          qs_live = live_record_new (ro_inspector_enabled ob) (ro_inspector_retention_requests ob)
            (initial_live_record (qe_wall env 0) (qe_elapsed env 0) ob (timeline_start (qe_wall env 0)) (path_metric_name (rqc_path q))),
          qs_client_info = ro_client_info ob, qs_backend_target = target, qs_route = route, qs_labels = labels,
          qs_models = models, qs_requested_model = sh_model shape,
          qs_stream_usage_requested = sh_stream_usage_requested shape, qs_request_body_bytes = length (rqc_body q),
          qs_attempt = 1, qs_max_attempts = max_attempts, qs_store = store, qs_effects = [], qs_files = [], qs_log = [],
          qs_reads = 4, qs_captured = 0\<rparr>)"

definition publish_context :: "session_env \<Rightarrow> request_session \<Rightarrow> request_session" where
  "publish_context env s =
     (let s = live_change (\<lambda>r. r\<lparr>rr_base := ix_base (qs_ix s), rr_timeline := snapshot_now env s\<rparr>) s
      in s\<lparr>qs_store := publish_initial (qs_live s) (qs_store s)\<rparr>)"

definition session_forward ::
  "session_env \<Rightarrow> config \<Rightarrow> client_request \<Rightarrow> request_observation \<Rightarrow> identity \<Rightarrow> request_shape \<Rightarrow>
     selected_route non_empty_vec \<Rightarrow> rr_counters \<Rightarrow> inspector_store \<Rightarrow> session_outcome" where
  "session_forward env cfg q ob ident shape routes c store =
     (let fallbacks = take (rc_fallback_attempts (cfg_routing cfg)) (nev_tail routes);
          s = publish_context env
            (session_context env cfg q ob ident shape (nev_head routes) (1 + length fallbacks) store);
          rq = \<lparr>pr_method = rqc_method q, pr_path = rqc_path q, pr_query = rqc_query q,
             pr_headers = rqc_headers q, pr_content_type = header_str (rqc_headers q) ''content-type'',
             pr_stream = sh_stream shape, pr_body = rqc_body q\<rparr>;
          (s, result) = session_do_proxy env rq s fallbacks
      in \<lparr>po_result = result, po_effects = qs_effects s, po_counters = c, so_store = qs_store s, so_files = qs_files s,
          so_log = qs_log s\<rparr>)"

definition session_proxy_v1 ::
  "session_env \<Rightarrow> config \<Rightarrow> rr_counters \<Rightarrow> inspector_store \<Rightarrow> socket_addr \<Rightarrow> client_request \<Rightarrow> session_outcome" where
  "session_proxy_v1 env cfg c store peer q =
     (let path = rqc_path q; route_name = path_metric_name path; ob = observe_request env cfg q peer;
          quiet = (\<lambda>result c. \<lparr>po_result = result, po_effects = [], po_counters = c, so_store = store, so_files = [],
            so_log = []\<rparr>)
      in if trim_end_matches CHR ''/'' path = ''/v1/messages/count_tokens'' then
           quiet (Some (Inl (not_found ''The requested endpoint does not exist.''))) c
         else
           (case authenticate (rqc_headers q) (cfg_clients cfg) of
              Inl e \<Rightarrow> handle_preflight_failure env ob [AuthDone] route_name ''unknown'' None False ''auth'' e c store
            | Inr ident \<Rightarrow>
                let shape = inspect_request (pe_serde (qe_proxy env)) (pe_form (qe_proxy env)) (rqc_body q)
                      (header_str (rqc_headers q) ''content-type'') (rqc_query q);
                    refuse = (\<lambda>events model stage e c. handle_preflight_failure env ob events route_name (id_id ident)
                      model (sh_stream shape) stage e c store)
                in if sh_model shape = None \<and> path_requires_model path then
                     refuse [AuthDone, RequestInspected] None ''inspect''
                       (bad_request ''Missing required parameter: model.'' (Some ''model'')) c
                   else if \<not> pred_option (\<lambda>m. m \<in> set (id_models ident)) (sh_model shape) then
                     refuse [AuthDone, RequestInspected] (sh_model shape) ''access'' (model_not_found (the (sh_model shape))) c
                   else
                     (case select (pe_gen_range (qe_proxy env)) (proxy_selection cfg q ident shape) c of
                        (None, c) \<Rightarrow> quiet None c
                      | (Some (Inl e), c) \<Rightarrow>
                          refuse [AuthDone, RequestInspected, RouteSelected] (sh_model shape) ''route'' e c
                      | (Some (Inr routes), c) \<Rightarrow> session_forward env cfg q ob ident shape routes c store)))"

end
