(* ===== verification/Request_Session_Correct.thy ===== *)
theory Request_Session_Correct
  imports Request_Session Proxy_Correct
begin

text \<open>
  The request path with its companions implements the one without: forgetting the timeline, the live record, the
  captures and the log of \<open>Request_Session\<close> gives \<open>Proxy\<close>, step by step, so every property of \<open>proxy_v1\<close> holds for
  the handler as the code has it.
\<close>

section \<open>What the companions do not touch\<close>

text \<open>Beside the bare context: whether an error was exposed, and whose attempt the current one is.\<close>

definition exposed :: "request_session \<Rightarrow> bool" where
  "exposed s = ib_exposed_backend_error (ix_base (qs_ix s))"

definition builder_core :: "attempt_builder \<Rightarrow> nat \<times> string" where
  "builder_core b = (ab_attempt b, ab_backend b)"

definition current_core :: "request_session \<Rightarrow> (nat \<times> string) option" where
  "current_core s = map_option builder_core (ix_current_attempt (qs_ix s))"

lemmas bare_defs = bare_context_def exposed_def current_core_def

lemma bare_fields:
  "qs_route s = pc_route (bare_context s)" "qs_labels s = pc_labels (bare_context s)"
  "qs_attempt s = pc_attempt (bare_context s)" "qs_effects s = pc_effects (bare_context s)"
  "qs_stream_usage_requested s = pc_stream_usage_requested (bare_context s)"
  "map attempt_record.truncate (ix_backend_attempts (qs_ix s)) = pc_backend_attempts (bare_context s)"
  "map attempt_record.truncate (ix_retried_attempts (qs_ix s)) = pc_retried_attempts (bare_context s)"
  by (simp_all add: bare_context_def)

lemma bare_primitive [simp]:
  "bare_context (tick s) = bare_context s" "exposed (tick s) = exposed s" "current_core (tick s) = current_core s"
  "bare_context (write_files ops s) = bare_context s" "exposed (write_files ops s) = exposed s"
  "current_core (write_files ops s) = current_core s"
  "bare_context (log_event_op e s) = bare_context s" "exposed (log_event_op e s) = exposed s"
  "current_core (log_event_op e s) = current_core s"
  "bare_context (report_effects es s) = emit_effects es (bare_context s)" "exposed (report_effects es s) = exposed s"
  "current_core (report_effects es s) = current_core s"
  "bare_context (set_capture c p s) = bare_context s" "exposed (set_capture c p s) = exposed s"
  "current_core (set_capture c p s) = current_core s"
  "bare_context (live_change f s) = bare_context s" "exposed (live_change f s) = exposed s"
  "current_core (live_change f s) = current_core s"
  by (simp_all add: bare_defs tick_def write_files_def log_event_op_def report_effects_def set_capture_def live_change_def
      emit_effects_def split_beta Let_def)

lemma bare_stamp [simp]:
  "bare_context (fst (stamp env ev s)) = bare_context s" "exposed (fst (stamp env ev s)) = exposed s"
  "current_core (fst (stamp env ev s)) = current_core s"
  by (simp_all add: stamp_def split_beta Let_def) (simp_all add: bare_defs)

lemma bare_logs [simp]:
  "bare_context (warn_proxy_failure env st k ev s) = bare_context s" "exposed (warn_proxy_failure env st k ev s) = exposed s"
  "bare_context (warn_proxy_retry env r st k ev s) = bare_context s" "exposed (warn_proxy_retry env r st k ev s) = exposed s"
  "bare_context (warn_plain fs m s) = bare_context s"  "exposed (warn_plain fs m s) = exposed s"
  "current_core (warn_plain fs m s) = current_core s"
  "bare_context (warn_non_success us st p s) = bare_context s" "exposed (warn_non_success us st p s) = exposed s"
  "current_core (warn_non_success us st p s) = current_core s"
  "bare_context (warn_exposed us st n s) = bare_context s"
  "bare_context (debug_buffered st n s) = bare_context s" "exposed (debug_buffered st n s) = exposed s"
  "current_core (debug_buffered st n s) = current_core s"
  "bare_context (debug_stream_started st s) = bare_context s" "exposed (debug_stream_started st s) = exposed s"
  "current_core (debug_stream_started st s) = current_core s"
  "bare_context (debug_stream_completed st d mt s) = bare_context s"
  by (simp_all add: warn_proxy_failure_def warn_proxy_retry_def warn_plain_def warn_non_success_def warn_exposed_def
      debug_buffered_def debug_stream_started_def debug_stream_completed_def)

lemma bare_live [simp]:
  "bare_context (live_upsert env s) = bare_context s" "exposed (live_upsert env s) = exposed s"
  "current_core (live_upsert env s) = current_core s"
  by (simp_all add: live_upsert_def)

lemma bare_capture [simp]:
  "bare_context (change_capture f s) = bare_context s" "exposed (change_capture f s) = exposed s"
  "current_core (change_capture f s) = current_core s"
  "bare_context (capture_outcome_op env x s) = bare_context s" "exposed (capture_outcome_op env x s) = exposed s"
  "current_core (capture_outcome_op env x s) = current_core s"
  by (simp_all add: change_capture_def capture_outcome_op_def split_beta Let_def split: option.split)

lemma bare_reads [simp]:
  "bare_context (s\<lparr>qs_reads := n\<rparr>) = bare_context s" "exposed (s\<lparr>qs_reads := n\<rparr>) = exposed s"
  "bare_context (s\<lparr>qs_captured := n\<rparr>) = bare_context s" "exposed (s\<lparr>qs_captured := n\<rparr>) = exposed s"
  "current_core (s\<lparr>qs_captured := n\<rparr>) = current_core s"
  "bare_context (s\<lparr>qs_ix := (qs_ix s)\<lparr>ix_timeline := t\<rparr>\<rparr>) = bare_context s"
  "exposed (s\<lparr>qs_ix := (qs_ix s)\<lparr>ix_timeline := t\<rparr>\<rparr>) = exposed s"
  "current_core (s\<lparr>qs_ix := (qs_ix s)\<lparr>ix_timeline := t\<rparr>\<rparr>) = current_core s"
  "bare_context (s\<lparr>qs_ix := (qs_ix s)\<lparr>ix_current_attempt := a\<rparr>\<rparr>) = bare_context s"
  "exposed (s\<lparr>qs_ix := (qs_ix s)\<lparr>ix_current_attempt := a\<rparr>\<rparr>) = exposed s"
  "current_core (s\<lparr>qs_ix := (qs_ix s)\<lparr>ix_current_attempt := a\<rparr>\<rparr>) = map_option builder_core a"
  by (simp_all add: bare_defs)

lemma builder_core_ops [simp]:
  "builder_core (set_debug_capture i b) = builder_core b" "builder_core (set_backend_remote_addr x b) = builder_core b"
  "builder_core (mark_request_rewritten t b) = builder_core b" "builder_core (mark_debug_capture_done t b) = builder_core b"
  "builder_core (mark_backend_forward_start t b) = builder_core b"
  "builder_core (mark_backend_headers_received t b) = builder_core b"
  "builder_core (attempt_body_first_chunk t b) = builder_core b" "builder_core (attempt_body_complete t b) = builder_core b"
  "builder_core (attempt_stream_complete t b) = builder_core b"
  by (simp_all add: builder_core_def set_debug_capture_def set_backend_remote_addr_def mark_request_rewritten_def
      mark_debug_capture_done_def mark_backend_forward_start_def mark_backend_headers_received_def
      attempt_body_first_chunk_def attempt_body_complete_def attempt_stream_complete_def)

lemma ensure_builder_core [simp]:
  "map_option builder_core (snd (snd (snd (ensure_failure_debug_capture f t p c tline a)))) = map_option builder_core a"
  by (cases a) (simp_all add: ensure_failure_debug_capture_def split_beta Let_def)

lemma bare_ensure [simp]:
  "bare_context (fst (ensure_capture env a s)) = bare_context s" "exposed (fst (ensure_capture env a s)) = exposed s"
  "current_core (fst (ensure_capture env a s)) = current_core s"
  "map_option builder_core (snd (ensure_capture env a s)) = map_option builder_core a"
  by (simp_all add: ensure_capture_def split_beta Let_def)

lemma bare_ensure_current [simp]:
  "bare_context (ensure_current_capture env s) = bare_context s" "exposed (ensure_current_capture env s) = exposed s"
  "current_core (ensure_current_capture env s) = current_core s"
  by (simp_all add: ensure_current_capture_def split_beta Let_def) (simp add: current_core_def)

lemma bare_stamp_current [simp]:
  assumes "\<And>us b. builder_core (f us b) = builder_core b"
  shows "bare_context (stamp_current env ev f s) = bare_context s" "exposed (stamp_current env ev f s) = exposed s"
    "current_core (stamp_current env ev f s) = current_core s"
proof -
  have "current_core (stamp_current env ev f s) = current_core (fst (stamp env ev s))"
    by (simp add: stamp_current_def split_beta Let_def option.map_comp comp_def assms del: bare_stamp)
      (simp only: current_core_def)
  then show "current_core (stamp_current env ev f s) = current_core s" by simp
qed (simp_all add: stamp_current_def split_beta Let_def)

section \<open>The retry loop\<close>

lemma bare_choose [simp]:
  "bare_context (choose_capture env p s) = bare_context s" "exposed (choose_capture env p s) = exposed s"
  by (simp_all add: choose_capture_def split_beta Let_def)

lemma bare_stamp_capture [simp]:
  "bare_context (fst (stamp_capture env b s)) = bare_context s" "exposed (fst (stamp_capture env b s)) = exposed s"
  "builder_core (snd (stamp_capture env b s)) = builder_core b"
  by (simp_all add: stamp_capture_def split_beta Let_def)

lemma prepare_bare:
  "prepare_outbound (qe_proxy env) rq (pc_route (bare_context s)) = Inl e \<Longrightarrow>
     \<exists>s1. session_prepare_outbound env rq s = (s1, Inl e) \<and>
       bare_context s1 = emit_effects [BackendAttempt (pc_labels (bare_context s))] (bare_context s)"
  "prepare_outbound (qe_proxy env) rq (pc_route (bare_context s)) = Inr ob \<Longrightarrow>
     \<exists>s1 b. session_prepare_outbound env rq s = (s1, Inr (b, ob)) \<and>
       bare_context s1 = emit_effects [BackendAttempt (pc_labels (bare_context s))] (bare_context s) \<and>
       exposed s1 = exposed s \<and>
       builder_core b = (pc_attempt (bare_context s), ml_backend (pc_labels (bare_context s)))"
proof -
  have b: "builder_core (attempt_builder_new n x t r i u) = (n, x)" for n x t r i u
    by (simp add: builder_core_def attempt_builder_new_def)
  note prep = session_prepare_outbound_def start_attempt_def bare_fields(1-3) b split_beta Let_def
  show "prepare_outbound (qe_proxy env) rq (pc_route (bare_context s)) = Inl e \<Longrightarrow>
     \<exists>s1. session_prepare_outbound env rq s = (s1, Inl e) \<and>
       bare_context s1 = emit_effects [BackendAttempt (pc_labels (bare_context s))] (bare_context s)"
    by (simp add: prep)
  show "prepare_outbound (qe_proxy env) rq (pc_route (bare_context s)) = Inr ob \<Longrightarrow>
     \<exists>s1 b. session_prepare_outbound env rq s = (s1, Inr (b, ob)) \<and>
       bare_context s1 = emit_effects [BackendAttempt (pc_labels (bare_context s))] (bare_context s) \<and>
       exposed s1 = exposed s \<and>
       builder_core b = (pc_attempt (bare_context s), ml_backend (pc_labels (bare_context s)))"
    by (simp add: prep)
qed

text \<open>The attempt that a builder finishes is the one of the proxy model.\<close>

definition builds :: "proxy_context \<Rightarrow> attempt_builder \<Rightarrow> bool" where
  "builds cx b \<longleftrightarrow> builder_core b = (pc_attempt cx, ml_backend (pc_labels cx))"

lemma builds_finish:
  "builds cx b \<Longrightarrow> attempt_record.truncate (attempt_finish status us outcome kind t b) = finish_attempt cx status us outcome kind"
  by (simp add: builds_def builder_core_def attempt_finish_core finish_attempt_def)

lemma builds_finish_at:
  "builds cx b \<Longrightarrow>
     attempt_record.truncate (finish_at_body_complete_or status us outcome kind t b) = finish_attempt cx status us outcome kind"
  by (simp add: finish_at_body_complete_or_def builds_finish)

lemma builds_emit [simp]: "builds (emit_effects es cx) b = builds cx b"
  by (simp add: builds_def)

lemma bare_ensure_attempt:
  "bare_context (fst (ensure_attempt_capture env b s)) = bare_context s"
  "exposed (fst (ensure_attempt_capture env b s)) = exposed s"
  "builder_core (snd (ensure_attempt_capture env b s)) = builder_core b"
proof -
  have "map_option builder_core (snd (ensure_capture env (Some b) s)) = Some (builder_core b)" by simp
  then obtain b' where "snd (ensure_capture env (Some b) s) = Some b'" "builder_core b' = builder_core b" by blast
  then show "builder_core (snd (ensure_attempt_capture env b s)) = builder_core b"
    by (simp add: ensure_attempt_capture_def split_beta Let_def)
qed (simp_all add: ensure_attempt_capture_def split_beta Let_def)

lemma context_final_bare:
  "bare_record (context_final_record now t (qs_ix s) outcome status kind body_bytes tokens) =
     \<lparr>ir_outcome = outcome, ir_status = status, ir_error_kind = kind,
      ir_backend_attempts = pc_backend_attempts (bare_context s), ir_retried_attempts = pc_retried_attempts (bare_context s),
      ir_response_body_bytes = body_bytes, ir_tokens = tokens, ir_exposed_backend_error = exposed s\<rparr>"
  by (simp add: bare_record_def context_final_record_def request_record_new_def context_base_def bare_context_def exposed_def)

lemma record_context_bare:
  "bare_context (record_context_inspector env outcome status kind n tokens s) =
     emit_effects [final_record outcome status kind (pc_backend_attempts (bare_context s)) n tokens (exposed s) (bare_context s)]
       (bare_context s)"
  by (simp add: record_context_inspector_def finalize_live_def context_final_bare final_record_def)
    (simp add: bare_context_def emit_effects_def)

lemma emit_append [simp]: "emit_effects es (emit_effects es' cx) = emit_effects (es' @ es) cx"
  by (simp add: emit_effects_def)

lemma finish_failed_bare:
  "builds (bare_context s) b \<Longrightarrow> attempt_record.truncate (finish_failed env kind b s') =
     finish_attempt (bare_context s) (client_status kind) None (failure_outcome kind) (Some (error_kind kind))"
  by (simp add: finish_failed_def builds_finish)

lemma bare_push [simp]:
  "bare_context (s\<lparr>qs_ix := (qs_ix s)\<lparr>ix_backend_attempts := ix_backend_attempts (qs_ix s) @ [a]\<rparr>\<rparr>) =
     (bare_context s)\<lparr>pc_backend_attempts := pc_backend_attempts (bare_context s) @ [attempt_record.truncate a]\<rparr>"
  "exposed (s\<lparr>qs_ix := (qs_ix s)\<lparr>ix_backend_attempts := x\<rparr>\<rparr>) = exposed s"
  "bare_context (s\<lparr>qs_ix := context_record_retried_attempt a (qs_ix s)\<rparr>) =
     (bare_context s)\<lparr>pc_backend_attempts := pc_backend_attempts (bare_context s) @ [attempt_record.truncate a],
       pc_retried_attempts := pc_retried_attempts (bare_context s) @ [attempt_record.truncate a]\<rparr>"
  "exposed (s\<lparr>qs_ix := context_record_retried_attempt a (qs_ix s)\<rparr>) = exposed s"
  "bare_context (s\<lparr>qs_attempt := n\<rparr>) = (bare_context s)\<lparr>pc_attempt := n\<rparr>" "exposed (s\<lparr>qs_attempt := n\<rparr>) = exposed s"
  by (simp_all add: bare_context_def exposed_def context_record_retried_attempt_def)

lemma bare_apply_route [simp]:
  "bare_context (session_apply_route env route s) = apply_route route (bare_context s)"
  "exposed (session_apply_route env route s) = exposed s"
  by (simp_all add: session_apply_route_def Let_def)
    (simp_all add: bare_context_def exposed_def apply_route_def apply_route_base_def set_capture_def Let_def)

lemma emit_updates [simp]:
  "(emit_effects es cx)\<lparr>pc_backend_attempts := x\<rparr> = emit_effects es (cx\<lparr>pc_backend_attempts := x\<rparr>)"
  "(emit_effects es cx)\<lparr>pc_retried_attempts := x\<rparr> = emit_effects es (cx\<lparr>pc_retried_attempts := x\<rparr>)"
  "(emit_effects es cx)\<lparr>pc_attempt := n\<rparr> = emit_effects es (cx\<lparr>pc_attempt := n\<rparr>)"
  "pc_backend_attempts (emit_effects es cx) = pc_backend_attempts cx"
  "pc_retried_attempts (emit_effects es cx) = pc_retried_attempts cx"
  by (simp_all add: emit_effects_def)

lemma record_final_failure_bare:
  assumes "builds (bare_context s) b" and "\<not> exposed s"
  shows "map_prod bare_context id (session_record_final_failure env kind b s) = record_final_failure kind (bare_context s)"
  using assms finish_failed_bare [OF assms(1)]
  by (simp add: session_record_final_failure_def record_final_failure_def Let_def record_context_bare bare_fields(2)
      final_record_def)

lemma record_retry_bare:
  assumes "builds (bare_context s) b"
  shows "bare_context (session_record_retry env kind nxt b s) = record_retry kind nxt (bare_context s)"
    "exposed (session_record_retry env kind nxt b s) = exposed s"
  using finish_failed_bare [OF assms]
  by (simp_all add: session_record_retry_def record_retry_def record_retried_attempt_def Let_def bare_fields(2,3))

lemma arrived_bare:
  assumes "builds (bare_context s) b"
  shows "bare_context (session_arrived env b s) = bare_context s" "exposed (session_arrived env b s) = exposed s"
    "current_core (session_arrived env b s) = Some (pc_attempt (bare_context s), ml_backend (pc_labels (bare_context s)))"
proof -
  have u: "bare_context (s\<lparr>qs_ix := (qs_ix s)\<lparr>ix_backend_remote_addr := x, ix_current_attempt := y\<rparr>\<rparr>) = bare_context s"
    "exposed (s\<lparr>qs_ix := (qs_ix s)\<lparr>ix_backend_remote_addr := x, ix_current_attempt := y\<rparr>\<rparr>) = exposed s"
    "current_core (s\<lparr>qs_ix := (qs_ix s)\<lparr>ix_backend_remote_addr := x, ix_current_attempt := y\<rparr>\<rparr>) = map_option builder_core y"
    for s x y by (simp_all add: bare_defs)
  show "bare_context (session_arrived env b s) = bare_context s" "exposed (session_arrived env b s) = exposed s"
    "current_core (session_arrived env b s) = Some (pc_attempt (bare_context s), ml_backend (pc_labels (bare_context s)))"
    using assms by (simp_all add: session_arrived_def split_beta Let_def u builds_def)
qed

text \<open>A session in which the current attempt is the one the labels name, and nothing was exposed.\<close>

definition current_ok :: "request_session \<Rightarrow> bool" where
  "current_ok s \<longleftrightarrow> \<not> exposed s \<and>
     current_core s = Some (pc_attempt (bare_context s), ml_backend (pc_labels (bare_context s)))"

text \<open>One attempt, sent: the session and the builder with which it goes on.\<close>

lemma sent_bare:
  assumes "prepare_outbound (qe_proxy env) rq (pc_route (bare_context s)) = Inr ob" and "\<not> exposed s"
  obtains s1 b where "session_prepare_outbound env rq s = (s1, Inr (b, ob))"
    and "bare_context (report_effects [Sent (sr_backend_id (qs_route s1)) ob] s1) =
      emit_effects [BackendAttempt (pc_labels (bare_context s)), Sent (sr_backend_id (pc_route (bare_context s))) ob]
        (bare_context s)"
    and "\<not> exposed (report_effects [Sent (sr_backend_id (qs_route s1)) ob] s1)"
    and "builds (bare_context (report_effects [Sent (sr_backend_id (qs_route s1)) ob] s1)) b"
  using prepare_bare(2) [OF assms(1)] assms(2) that by (auto simp: bare_fields(1) builds_def)

lemma attempt_loop_bare:
  assumes "\<not> exposed s"
  shows "map_prod bare_context id (session_attempt_loop env rq s fallbacks) =
      attempt_loop (qe_proxy env) rq (bare_context s) fallbacks \<and>
    (\<forall>s' r. session_attempt_loop env rq s fallbacks = (s', Inr r) \<longrightarrow> current_ok s')"
  using assms
proof (induction "length fallbacks" arbitrary: s fallbacks rule: less_induct)
  case less
  show ?case
  proof (cases "prepare_outbound (qe_proxy env) rq (pc_route (bare_context s))")
    case (Inl e)
    then show ?thesis
      using prepare_bare(1) [OF Inl]
      by (auto simp: session_attempt_loop.simps [of env rq s] attempt_loop.simps [of _ _ "bare_context s"]
          attempt_once_def Let_def)
  next
    case (Inr ob)
    obtain s1 b where p: "session_prepare_outbound env rq s = (s1, Inr (b, ob))"
      and s2: "bare_context (report_effects [Sent (sr_backend_id (qs_route s1)) ob] s1) =
        emit_effects [BackendAttempt (pc_labels (bare_context s)), Sent (sr_backend_id (pc_route (bare_context s))) ob]
          (bare_context s)"
      and ok: "\<not> exposed (report_effects [Sent (sr_backend_id (qs_route s1)) ob] s1)"
        "builds (bare_context (report_effects [Sent (sr_backend_id (qs_route s1)) ob] s1)) b"
      by (rule sent_bare [OF Inr less.prems])
    define s2 where "s2 = report_effects [Sent (sr_backend_id (qs_route s1)) ob] s1"
    note bare = s2 [folded s2_def] and ok = ok [folded s2_def]
    have att: "qs_attempt s2 = pc_attempt (bare_context s)" by (simp add: bare_fields(3) bare)
    note loops = session_attempt_loop.simps [of env rq s] attempt_loop.simps [of _ _ "bare_context s"] attempt_once_def
      Let_def p s2_def [symmetric] Inr att
    show ?thesis
    proof (cases "pe_send (qe_proxy env) (pc_attempt (bare_context s)) ob")
      case (SendOk r)
      then show ?thesis using arrived_bare [OF ok(2)] ok(1) bare by (simp add: loops current_ok_def)
    next
      case SendShutdown
      then show ?thesis using bare by (simp add: loops)
    next
      case (SendError e)
      obtain s3 b3 where e3: "ensure_attempt_capture env b s2 = (s3, b3)" by fastforce
      have s3: "bare_context s3 = bare_context s2" "\<not> exposed s3" "builds (bare_context s3) b3"
        using bare_ensure_attempt [of env b s2] ok by (simp_all add: e3 builds_def)
      show ?thesis
      proof (cases "is_retryable (classify_failure e) \<and> fallbacks \<noteq> []")
        case False
        obtain s4 err where fin: "session_record_final_failure env (classify_failure e) b3 s3 = (s4, err)" by fastforce
        then have "record_final_failure (classify_failure e) (bare_context s2) = (bare_context s4, err)"
          using record_final_failure_bare [OF s3(3,2), of env "classify_failure e"] s3(1) by simp
        then show ?thesis using False SendError fin bare by (cases fallbacks) (auto simp: loops e3 split: bool.split)
      next
        case True
        then obtain nxt rest where f: "fallbacks = nxt # rest" "is_retryable (classify_failure e)" by (cases fallbacks) auto
        show ?thesis
          using less.hyps [of rest "session_record_retry env (classify_failure e) nxt b3 s3"] f SendError s3(1,2) bare
            record_retry_bare [OF s3(3), of env "classify_failure e" nxt] by (simp add: loops e3)
      qed
    qed
  qed
qed

section \<open>The answers\<close>

lemma current_builder:
  assumes "current_ok s"
  obtains b where "ix_current_attempt (qs_ix s) = Some b" and "builds (bare_context s) b"
  using assms by (auto simp: current_ok_def current_core_def builds_def)

lemma read_body_bare:
  "bare_context (fst (session_read_body env bytes es s)) = bare_context s"
  "current_core (fst (session_read_body env bytes es s)) = current_core s"
  "exposed (fst (session_read_body env bytes es s)) = exposed s"
  "snd (session_read_body env bytes es s) = read_buffered_upstream_body bytes es"
  by (induction env bytes es s rule: session_read_body.induct) simp_all

lemma read_capped_bare:
  "bare_context (fst (session_read_capped env cap bytes es s)) = bare_context s"
  "current_core (fst (session_read_capped env cap bytes es s)) = current_core s"
  "exposed (fst (session_read_capped env cap bytes es s)) = exposed s"
  "snd (session_read_capped env cap bytes es s) = read_capped cap bytes es"
  by (induction env cap bytes es s rule: session_read_capped.induct) (simp_all add: Let_def)

lemma read_error_body_bare:
  "bare_context (fst (read_error_body env r s)) = bare_context s"
  "current_core (fst (read_error_body env r s)) = current_core s" "exposed (fst (read_error_body env r s)) = exposed s"
  "complete_body (sr_expose_backend_errors (qs_route s)) (snd (read_error_body env r s)) = forwarded_body (bare_context s) r"
proof -
  obtain s1 res where c: "session_read_capped env MAX_UPSTREAM_ERROR_CAPTURE_BYTES [] (ur_body r) s = (s1, res)" by fastforce
  note read = read_capped_bare [of env MAX_UPSTREAM_ERROR_CAPTURE_BYTES "[]" "ur_body r" s, unfolded c, simplified]
  show "bare_context (fst (read_error_body env r s)) = bare_context s"
    "current_core (fst (read_error_body env r s)) = current_core s" "exposed (fst (read_error_body env r s)) = exposed s"
    using read by (simp_all add: read_error_body_def c split: sum.split body_read_error.split)
  show "complete_body (sr_expose_backend_errors (qs_route s)) (snd (read_error_body env r s)) = forwarded_body (bare_context s) r"
    using read(4) by (auto simp: complete_body_def read_error_body_def forwarded_body_def read_capped_upstream_error_body_def c
        bare_context_def split: sum.split body_read_error.split prod.split)
qed

lemma capture_error_body_bare [simp]:
  "bare_context (capture_error_body env r x s) = bare_context s" "current_core (capture_error_body env r x s) = current_core s"
  "exposed (capture_error_body env r x s) = exposed s"
  by (simp_all add: capture_error_body_def split: option.split prod.split)

lemma record_final_attempt_bare:
  assumes "current_ok s"
  shows "bare_context (record_final_attempt env status us outcome kind s) = (bare_context s)\<lparr>pc_backend_attempts :=
      pc_backend_attempts (bare_context s) @ [finish_attempt (bare_context s) status us outcome kind]\<rparr>"
    "exposed (record_final_attempt env status us outcome kind s) = exposed s"
proof -
  obtain b where b: "ix_current_attempt (qs_ix s) = Some b" "builds (bare_context s) b" by (rule current_builder [OF assms])
  show "bare_context (record_final_attempt env status us outcome kind s) = (bare_context s)\<lparr>pc_backend_attempts :=
      pc_backend_attempts (bare_context s) @ [finish_attempt (bare_context s) status us outcome kind]\<rparr>"
    "exposed (record_final_attempt env status us outcome kind s) = exposed s"
    using b builds_finish [OF b(2)]
    by (simp_all add: record_final_attempt_def) (simp_all add: context_record_final_attempt_def bare_context_def exposed_def)
qed

lemma current_ok_cong:
  "current_core s' = current_core s \<Longrightarrow> exposed s' = exposed s \<Longrightarrow> pc_attempt (bare_context s') = pc_attempt (bare_context s) \<Longrightarrow>
     pc_labels (bare_context s') = pc_labels (bare_context s) \<Longrightarrow> current_ok s' = current_ok s"
  by (simp add: current_ok_def)

text \<open>Only what a request reported and answered counts from here on.\<close>

abbreviation reported_session :: "request_session \<times> 'a \<Rightarrow> effect list \<times> 'a" where
  "reported_session \<equiv> map_prod qs_effects id"

abbreviation reported_context :: "proxy_context \<times> 'a \<Rightarrow> effect list \<times> 'a" where
  "reported_context \<equiv> map_prod pc_effects id"

lemma report_non_success_bare:
  assumes "current_ok s"
  shows "bare_context (report_non_success env st s) =
      (emit_effects [RequestMetric (pc_labels (bare_context s)) (map_upstream_status st),
         Health (ReportFailure (ml_backend (pc_labels (bare_context s))) st ''upstream_non_success'')] (bare_context s))
        \<lparr>pc_backend_attempts := pc_backend_attempts (bare_context s) @
          [finish_attempt (bare_context s) (map_upstream_status st) (Some st) ''upstream_non_success'' None]\<rparr>"
    "exposed (report_non_success env st s) = exposed s"
proof -
  let ?s = "report_effects [Health (ReportFailure (ml_backend (pc_labels (bare_context s))) st ''upstream_non_success'')]
    (capture_outcome_op env (CapUpstreamNonSuccess st (map_upstream_status st))
      (report_effects [RequestMetric (pc_labels (bare_context s)) (map_upstream_status st)] s))"
  have ok: "current_ok ?s" using assms by (subst current_ok_cong [of _ s]) simp_all
  have f: "finish_attempt (emit_effects es cx) = finish_attempt cx" for es cx by (intro ext) (simp add: finish_attempt_def)
  show "bare_context (report_non_success env st s) =
      (emit_effects [RequestMetric (pc_labels (bare_context s)) (map_upstream_status st),
         Health (ReportFailure (ml_backend (pc_labels (bare_context s))) st ''upstream_non_success'')] (bare_context s))
        \<lparr>pc_backend_attempts := pc_backend_attempts (bare_context s) @
          [finish_attempt (bare_context s) (map_upstream_status st) (Some st) ''upstream_non_success'' None]\<rparr>"
    "exposed (report_non_success env st s) = exposed s"
    using record_final_attempt_bare [OF ok] by (simp_all add: report_non_success_def Let_def bare_fields(2) f)
qed

lemma non_success_bare:
  assumes "current_ok s"
  shows "reported_session (session_non_success env rq r s) = reported_context (non_success_response r (bare_context s))"
proof -
  let ?s1 = "ensure_current_capture env s"
  define s2 where "s2 = capture_error_body env r (snd (read_error_body env r ?s1)) (fst (read_error_body env r ?s1))"
  have s2: "bare_context s2 = bare_context s" "current_ok s2"
    using assms by (auto simp: s2_def read_error_body_bare current_ok_def)
  have body: "complete_body (sr_expose_backend_errors (qs_route s2)) (snd (read_error_body env r ?s1)) = forwarded_body (bare_context s) r"
    using read_error_body_bare(4) [of ?s1 env r] by (simp add: bare_fields(1) s2(1))
  have x: "bare_context (s\<lparr>qs_ix := (qs_ix s)\<lparr>ix_base := (ix_base (qs_ix s))\<lparr>ib_exposed_backend_error := True\<rparr>\<rparr>\<rparr>) = bare_context s"
    "exposed (s\<lparr>qs_ix := (qs_ix s)\<lparr>ix_base := (ix_base (qs_ix s))\<lparr>ib_exposed_backend_error := True\<rparr>\<rparr>\<rparr>)" for s
    by (simp_all add: bare_context_def exposed_def)
  have w: "current_ok (warn_non_success us st p s2)" for us st p using s2(2) by (simp add: current_ok_def)
  have ne: "\<not> exposed s2" using s2(2) by (simp add: current_ok_def)
  show ?thesis
    using report_non_success_bare [OF s2(2)] report_non_success_bare [OF w] s2(1) body ne x
    by (simp add: session_non_success_def Let_def split_beta s2_def [symmetric] non_success_response_def
        session_forward_error_def session_sanitize_error_def forward_upstream_error_def non_success_effects_def
        record_context_bare bare_fields(4) final_record_def upstream_err_status split: option.split)
qed

lemma push_current_bare:
  assumes "current_ok s" and "\<And>b. builds (bare_context s) b \<Longrightarrow> attempt_record.truncate (f b) = a"
  shows "bare_context (push_current f s) = (bare_context s)\<lparr>pc_backend_attempts := pc_backend_attempts (bare_context s) @ [a]\<rparr>"
    "exposed (push_current f s) = exposed s"
proof -
  obtain b where b: "ix_current_attempt (qs_ix s) = Some b" "builds (bare_context s) b" by (rule current_builder [OF assms(1)])
  show "bare_context (push_current f s) = (bare_context s)\<lparr>pc_backend_attempts := pc_backend_attempts (bare_context s) @ [a]\<rparr>"
    "exposed (push_current f s) = exposed s"
    using assms(2) [OF b(2)] b(1) by (simp_all add: push_current_def) (simp_all add: bare_context_def exposed_def)
qed

lemma record_request_bare:
  "bare_context (record_request (final_of env outcome status kind n tokens s) s) =
     emit_effects [final_record outcome status kind (pc_backend_attempts (bare_context s)) n tokens (exposed s) (bare_context s)]
       (bare_context s)"
  by (simp add: record_request_def final_of_def context_final_bare final_record_def) (simp add: bare_context_def emit_effects_def)

lemma finish_attempt_emit [simp]: "finish_attempt (emit_effects es cx) = finish_attempt cx"
  by (intro ext) (simp add: finish_attempt_def)

lemma buffered_failed_bare:
  assumes "current_ok s"
  shows "pc_effects (bare_context (buffered_failed env r e s)) = pc_effects (bare_context s) @
    [RequestMetric (pc_labels (bare_context s)) 502,
     Health (ReportFailure (ml_backend (pc_labels (bare_context s))) 502 (upstream_error_kind e)),
     final_record UpstreamBodyReadFailed 502 (Some (upstream_error_kind e)) (pc_backend_attempts (bare_context s) @
       [finish_attempt (bare_context s) 502 (Some (ur_status r)) ''upstream_body_read_failed'' (Some (upstream_error_kind e))])
       None no_tokens False (bare_context s)]"
proof -
  define s1 where "s1 = report_effects [Health (ReportFailure (ml_backend (pc_labels (bare_context s))) 502 (upstream_error_kind e))]
    (capture_outcome_op env (CapUpstreamBodyReadFailed 502 (upstream_error_kind e)) (ensure_current_capture env
      (report_effects [RequestMetric (pc_labels (bare_context s)) 502]
        (warn_plain [(''error_kind'', LText (upstream_error_kind e))] ''failed to read upstream body'' s))))"
  have s1: "bare_context s1 = emit_effects [RequestMetric (pc_labels (bare_context s)) 502,
      Health (ReportFailure (ml_backend (pc_labels (bare_context s))) 502 (upstream_error_kind e))] (bare_context s)"
    "current_ok s1" "\<not> exposed s1"
    using assms by (simp_all add: s1_def current_ok_def)
  define s2 where "s2 = push_current (attempt_finish 502 (Some (ur_status r)) ''upstream_body_read_failed''
    (Some (upstream_error_kind e)) (saturating_u64 (elapsed_now env s1))) s1"
  have s2: "bare_context s2 = (bare_context s1)\<lparr>pc_backend_attempts := pc_backend_attempts (bare_context s1) @
      [finish_attempt (bare_context s) 502 (Some (ur_status r)) ''upstream_body_read_failed'' (Some (upstream_error_kind e))]\<rparr>"
    "\<not> exposed s2"
    unfolding s2_def using s1 by (subst push_current_bare [OF s1(2) builds_finish]; simp)+
  have "buffered_failed env r e s = record_request (final_of env UpstreamBodyReadFailed 502 (Some (upstream_error_kind e)) None no_tokens s2) s2"
    unfolding buffered_failed_def s2_def s1_def by (simp add: Let_def bare_fields(2))
  then show ?thesis using s1(1) s2 by (simp add: record_request_bare final_record_def)
qed

lemma buffered_completed_bare:
  assumes "current_ok s"
  shows "pc_effects (bare_context (buffered_completed env r bytes usage s)) = pc_effects (bare_context s) @
    [UsageMetric (pc_labels (bare_context s)) usage, RequestMetric (pc_labels (bare_context s)) (ur_status r),
     Health (ReportSuccess (ml_backend (pc_labels (bare_context s))) (ur_status r)),
     final_record Completed (ur_status r) None (pc_backend_attempts (bare_context s) @
       [finish_attempt (bare_context s) (ur_status r) (Some (ur_status r)) ''completed'' None])
       (Some (length bytes)) (inspector_tokens usage) False (bare_context s)]"
proof -
  define s0 where "s0 = fst (stamp env ResponseRewritten s)"
  define s1 where "s1 = live_change (\<lambda>x. x\<lparr>rr_timeline := snapshot_now env s0\<rparr>) s0"
  define s2 where "s2 = report_effects [Health (ReportSuccess (ml_backend (pc_labels (bare_context s))) (ur_status r))]
    (capture_outcome_op env (CapSuccess (ur_status r)) (debug_buffered (ur_status r) (length bytes)
      (report_effects [UsageMetric (pc_labels (bare_context s)) usage, RequestMetric (pc_labels (bare_context s)) (ur_status r)] s1)))"
  have s1: "bare_context s1 = bare_context s" "current_ok s1"
    using assms by (simp_all add: s1_def s0_def current_ok_def)
  have s2: "bare_context s2 = emit_effects [UsageMetric (pc_labels (bare_context s)) usage,
      RequestMetric (pc_labels (bare_context s)) (ur_status r),
      Health (ReportSuccess (ml_backend (pc_labels (bare_context s))) (ur_status r))] (bare_context s)"
    "current_ok s2" "\<not> exposed s2"
    using s1 by (simp_all add: s2_def current_ok_def)
  define s3 where "s3 = push_current (finish_at_body_complete_or (ur_status r) (Some (ur_status r)) ''completed'' None
    (saturating_u64 (elapsed_now env s2))) s2"
  have s3: "bare_context s3 = (bare_context s2)\<lparr>pc_backend_attempts := pc_backend_attempts (bare_context s2) @
      [finish_attempt (bare_context s) (ur_status r) (Some (ur_status r)) ''completed'' None]\<rparr>" "\<not> exposed s3"
    unfolding s3_def using s2 by (subst push_current_bare [OF s2(2) builds_finish_at]; simp)+
  define s4 where "s4 = fst (stamp env ClientResponseReady s3)"
  have "buffered_completed env r bytes usage s =
      (let s = live_change (\<lambda>x. x\<lparr>rr_timeline := snapshot_now env s4, rr_backend_attempts := ix_backend_attempts (qs_ix s4)\<rparr>) s4;
           s = record_request (final_of env Completed (ur_status r) None (Some (length bytes)) (inspector_tokens usage) s) s
       in log_event_op (debug_timeline_fields (snapshot_now env s) ''buffered response timeline snapshot'') (tick s))"
    unfolding buffered_completed_def s4_def s3_def s2_def s1_def s0_def by (simp add: Let_def split_beta bare_fields(2))
  then show ?thesis using s2(1) s3 by (simp add: Let_def record_request_bare final_record_def s4_def)
qed

lemma buffered_bare:
  assumes "current_ok s"
  shows "reported_session (session_buffered_response env rq r s) =
    reported_context (buffered_response (qe_proxy env) rq r (bare_context s))"
proof -
  obtain s1 res where r: "session_read_body env [] (ur_body r) s = (s1, res)" by fastforce
  note read = read_body_bare [of env "[]" "ur_body r" s, unfolded r, simplified]
  have ok: "current_ok s1" using assms read(1-3) by (simp add: current_ok_def)
  show ?thesis
    using read(1,4) buffered_failed_bare [OF ok] buffered_completed_bare [OF ok]
    by (simp add: session_buffered_response_def buffered_response_def Let_def r bare_fields(1,4)
        split: sum.split body_read_error.split option.split prod.split)
qed

section \<open>Streams\<close>

definition stream_core :: "stream_session \<Rightarrow> (nat \<times> string) option" where
  "stream_core ss = map_option builder_core (ss_attempt ss)"

lemma stream_core_ops [simp]:
  "stream_core (live_timeline t ss) = stream_core ss" "stream_core (to_upstream f ss) = stream_core ss"
  "stream_core (to_client f ss) = stream_core ss" "stream_core (yield_bytes b ss) = stream_core ss"
  "stream_core (session_usage st ss) = stream_core ss" "stream_core (session_stream_error e ss) = stream_core ss"
  "stream_core (ss\<lparr>ss_metrics := m\<rparr>) = stream_core ss" "stream_core (ss\<lparr>ss_timeline := tline\<rparr>) = stream_core ss"
  by (simp_all add: stream_core_def live_timeline_def to_upstream_def to_client_def yield_bytes_def session_usage_def
      session_stream_error_def split_beta Let_def)

lemma stream_core_marks [simp]:
  "stream_core (session_body_chunk t ss) = stream_core ss" "stream_core (session_body_complete t ss) = stream_core ss"
  "stream_core (writers_run e ss) = stream_core ss" "stream_core (passthrough_tail t ss) = stream_core ss"
proof -
  have m: "stream_core (session_mark ev f t ss) = stream_core ss" if "\<And>us b. builder_core (f us b) = builder_core b" for ev f ss
    by (simp add: session_mark_def split_beta Let_def) (simp add: stream_core_def option.map_comp comp_def that)
  show c: "stream_core (session_body_chunk t ss) = stream_core ss" "stream_core (session_body_complete t ss) = stream_core ss" for ss
    by (simp_all add: session_body_chunk_def session_body_complete_def m)
  show "stream_core (writers_run e ss) = stream_core ss" by (simp add: writers_run_def)
  show "stream_core (passthrough_tail t ss) = stream_core ss" by (simp add: passthrough_tail_def c)
qed

lemma session_tail_core: "session_tail sd t st ss = Some (ss', err) \<Longrightarrow> stream_core ss' = stream_core ss"
  by (auto simp: session_tail_def Let_def split: prod.splits if_splits)

lemma session_loop_core: "session_loop sd ended st ss es = Some (ss', err) \<Longrightarrow> stream_core ss' = stream_core ss"
proof (induction es arbitrary: st ss)
  case Nil
  then show ?case using session_tail_core by simp
next
  case (Cons e es)
  show ?case
  proof (cases "se_body e")
    case (BChunk chunk)
    obtain st' outs where p: "strategy_push sd st chunk = (st', outs)" by fastforce
    then obtain bytes where r: "render_all sd outs = Some bytes" using Cons.prems BChunk
      by (cases "render_all sd outs") (simp_all add: Let_def)
    show ?thesis using Cons.prems BChunk p r by (cases "bytes = []") (auto simp: Let_def dest!: Cons.IH)
  qed (use Cons.prems in \<open>auto dest: session_tail_core\<close>)
qed

lemma session_passthrough_core: "stream_core (fst (session_passthrough ended ss es)) = stream_core ss"
proof (induction es arbitrary: ss)
  case (Cons e es)
  then show ?case by (cases "se_body e") simp_all
qed simp

lemma session_start_core:
  "stream_core (session_start en dc now st ct t tline a lr store) = map_option builder_core a"
  by (simp add: session_start_def split_beta Let_def) (simp add: stream_core_def)

text \<open>The record of a dropped stream, without its times, is the one that the proxy model reports.\<close>

lemma drop_record_bare:
  assumes "stream_core ss = Some (pc_attempt cx, ml_backend (pc_labels cx))"
    and "map attempt_record.truncate (sn_backend_attempts en) = pc_backend_attempts cx"
    and "map attempt_record.truncate (sn_retried_attempts en) = pc_retried_attempts cx"
    and "\<not> ib_exposed_backend_error (sn_base en)"
  shows "Inspect (bare_record (fst (snd (snd (session_drop mw late en ss))))) =
    (let m = ss_metrics ss; status = sn_status en
     in final_record (stream_outcome m) status (sm_stream_error_kind m)
          (pc_backend_attempts cx @ [finish_attempt cx status (Some status) (stream_attempt_outcome m) (sm_stream_error_kind m)])
          None (inspector_tokens (sm_usage m)) False cx)"
proof -
  define ss1 where "ss1 = live_timeline (sn_elapsed en)
    (ss\<lparr>ss_timeline := fst (timeline_mark StreamComplete (sn_elapsed en) (ss_timeline ss))\<rparr>)"
  have m: "ss_metrics ss1 = ss_metrics ss" by (simp add: ss1_def live_timeline_store)
  have "map_option builder_core (snd (snd (drop_capture late en ss1))) = stream_core ss1"
    by (cases "sm_stream_error_kind (ss_metrics ss1)") (simp_all add: drop_capture_def stream_core_def)
  also have "\<dots> = Some (pc_attempt cx, ml_backend (pc_labels cx))" using assms(1) by (simp add: ss1_def)
  finally have "map_option builder_core (snd (snd (drop_capture late en ss1))) = Some (pc_attempt cx, ml_backend (pc_labels cx))" .
  then obtain b where b: "snd (snd (drop_capture late en ss1)) = Some b" "builds cx b"
    by (auto simp: builds_def)
  have f: "attempt_record.truncate (attempt_finish st us oc k t (attempt_stream_complete t b)) = finish_attempt cx st us oc k"
    for st us oc k t by (rule builds_finish) (use b(2) in \<open>simp add: builds_def\<close>)
  have "fst (snd (snd (session_drop mw late en ss))) = snd (snd (drop_record mw late en ss1))"
    by (simp add: session_drop_def ss1_def [symmetric] split_beta Let_def)
  then show ?thesis
    using assms(2-4) b(1) f
    by (simp add: drop_record_def split_beta Let_def m bare_record_def request_record_new_def final_record_def inspector_tokens_def)
qed

lemma stream_dropped_bare:
  assumes "stream_core ss = Some (pc_attempt (bare_context s), ml_backend (pc_labels (bare_context s)))" and "\<not> exposed s"
  shows "qs_effects (stream_dropped env status started ss s) =
    pc_effects (bare_context s) @ stream_effects (bare_context s) status (ss_metrics ss)"
proof -
  let ?en = "stream_end_of env status started ss s"
  have en: "sn_status ?en = status" by (simp add: stream_end_of_def)
  have u: "bare_context (s\<lparr>qs_capture := c, qs_store := x\<rparr>) = bare_context s" for s c x by (simp add: bare_context_def)
  have r: "Inspect (bare_record (fst (snd (snd (session_drop mw late ?en ss))))) =
      final_record (stream_outcome (ss_metrics ss)) status (sm_stream_error_kind (ss_metrics ss))
        (pc_backend_attempts (bare_context s) @ [finish_attempt (bare_context s) status (Some status)
          (stream_attempt_outcome (ss_metrics ss)) (sm_stream_error_kind (ss_metrics ss))])
        None (inspector_tokens (sm_usage (ss_metrics ss))) False (bare_context s)" for mw late
    using assms(2) drop_record_bare [OF assms(1), of ?en mw late]
    by (simp add: stream_end_of_def bare_fields(6,7) exposed_def Let_def)
  show ?thesis
    by (simp add: stream_dropped_def split_beta Let_def bare_fields(2,4) u r stream_effects_def)
qed

lemma session_events_body: "map se_body (session_events env s es) = es"
  by (simp add: session_events_def comp_def case_prod_unfold)

lemma run_stream_bare:
  assumes "ss_metrics ss = stream_metrics_new" and "ss_yielded ss = []"
  shows "map_option session_result (session_run_stream env r s ss) = run_stream (qe_proxy env) r (bare_context s)"
  using assms
  by (simp add: session_run_stream_def run_stream_def Let_def session_loop_result session_passthrough_result
      session_events_body bare_fields(1,2,5))

lemma streaming_bare:
  assumes "current_ok s"
  shows "reported_session (session_streaming_response env rq r s) =
    reported_context (streaming_response (qe_proxy env) rq r (bare_context s))"
proof -
  let ?s = "debug_stream_started (ur_status r) (report_effects [RequestMetric (pc_labels (bare_context s)) (ur_status r)] s)"
  define ss where "ss = session_start (sr_stream_capture (qs_route s)) (qs_capture s) (qe_capture_started env) (ur_status r)
    (header_str (ur_headers r) ''content-type'') (elapsed_now env s) (ix_timeline (qs_ix s)) (ix_current_attempt (qs_ix s))
    (qs_live s) (qs_store s)"
  have run: "map_option session_result (session_run_stream env r ?s ss) = run_stream (qe_proxy env) r (bare_context ?s)"
    by (rule run_stream_bare) (simp_all add: ss_def)
  have core: "stream_core ss = Some (pc_attempt (bare_context s), ml_backend (pc_labels (bare_context s)))" "\<not> exposed s"
    using assms by (simp_all add: ss_def session_start_core current_ok_def current_core_def)
  have keep: "stream_core ss' = stream_core ss" if "session_run_stream env r ?s ss = Some (ss', err)" for ss' err
    using that session_loop_core session_passthrough_core
    by (auto simp: session_run_stream_def Let_def split: if_splits) (metis fst_conv)
  have same: "qs_route (report_effects es s) = qs_route s" "qs_capture (report_effects es s) = qs_capture s"
    "qs_ix (report_effects es s) = qs_ix s" "qs_live (report_effects es s) = qs_live s"
    "qs_store (report_effects es s) = qs_store s" "qs_reads (report_effects es s) = qs_reads s" for es
    by (simp_all add: report_effects_def)
  show ?thesis
  proof (cases "session_run_stream env r ?s ss")
    case None
    then show ?thesis
      using run by (simp add: session_streaming_response_def streaming_response_def Let_def same ss_def [symmetric] bare_fields(2,4))
  next
    case (Some p)
    obtain ss' err where p: "p = (ss', err)" by fastforce
    have res: "run_stream (qe_proxy env) r (bare_context ?s) = Some (session_result (ss', err))" using run Some p by simp
    define s' where "s' = (if err = None then id else warn_plain
      [(''error_kind'', LText (str_or [] (sm_stream_error_kind (ss_metrics ss'))))] ''upstream stream chunk failed'')
        (?s\<lparr>qs_reads := qs_reads ?s + length (ur_body r) + 2\<rparr>)"
    have s': "bare_context s' = bare_context ?s" "\<not> exposed s'" using core(2) by (simp_all add: s'_def)
    have "qs_effects (stream_dropped env (ur_status r) (elapsed_now env s) ss' s') =
        pc_effects (bare_context ?s) @ stream_effects (bare_context ?s) (ur_status r) (ss_metrics ss')"
      using stream_dropped_bare [OF _ s'(2)] keep [OF Some [unfolded p]] core(1) by (simp add: s'(1))
    moreover have "session_streaming_response env rq r s = (stream_dropped env (ur_status r) (elapsed_now env s) ss' s',
        \<lparr>cr_status = ur_status r,
         cr_headers = response_headers (pr_headers rq) (ur_headers r) (Some ''text/event-stream'') True,
         cr_body = Streamed (Some (session_result (ss', err)))\<rparr>)"
      using Some p by (simp add: session_streaming_response_def Let_def same ss_def [symmetric] bare_fields(2) s'_def)
    ultimately show ?thesis using res by (simp add: streaming_response_def Let_def)
  qed
qed

section \<open>The handler\<close>

lemma do_proxy_bare:
  assumes "\<not> exposed s"
  shows "reported_session (session_do_proxy env rq s fallbacks) =
    reported_context (do_proxy (qe_proxy env) rq (bare_context s) fallbacks)"
proof -
  obtain s1 res where l: "session_attempt_loop env rq s fallbacks = (s1, res)" by fastforce
  then have p: "attempt_loop (qe_proxy env) rq (bare_context s) fallbacks = (bare_context s1, res)"
    and ok: "\<And>r. res = Inr r \<Longrightarrow> current_ok s1"
    using attempt_loop_bare [OF assms, of env rq fallbacks] by auto
  show ?thesis
  proof (cases res)
    case (Inl e)
    then show ?thesis using l p by (simp add: session_do_proxy_def do_proxy_def bare_fields(4))
  next
    case (Inr r)
    note ok = ok [OF Inr]
    show ?thesis
      using l p Inr non_success_bare [OF ok, of env rq r] streaming_bare [OF ok, of env rq r] buffered_bare [OF ok, of env rq r]
      by (auto simp: session_do_proxy_def do_proxy_def map_prod_def split_beta)
  qed
qed

lemma publish_bare [simp]:
  "bare_context (publish_context env s) = bare_context s" "exposed (publish_context env s) = exposed s"
proof -
  have u: "bare_context (s\<lparr>qs_store := x\<rparr>) = bare_context s" "exposed (s\<lparr>qs_store := x\<rparr>) = exposed s" for s x
    by (simp_all add: bare_context_def exposed_def)
  show "bare_context (publish_context env s) = bare_context s" "exposed (publish_context env s) = exposed s"
    by (simp_all add: publish_context_def Let_def u)
qed

lemma forward_bare:
  "proxy_outcome.truncate (session_forward env cfg q ob ident shape routes c store) =
     forward (qe_proxy env) cfg q ident shape routes c"
proof -
  have "bare_context (session_context env cfg q ob ident shape route n store) =
      \<lparr>pc_route = route, pc_labels = \<lparr>ml_route = path_metric_name (rqc_path q), ml_identity = id_id ident,
         ml_public_model = label_model route (sh_model shape), ml_backend = sr_backend_id route, ml_stream = sh_stream shape\<rparr>,
       pc_requested_model = sh_model shape, pc_stream_usage_requested = sh_stream_usage_requested shape, pc_attempt = 1,
       pc_backend_attempts = [], pc_retried_attempts = [], pc_effects = []\<rparr>"
    "\<not> exposed (session_context env cfg q ob ident shape route n store)" for route n
    by (simp_all add: session_context_def bare_context_def exposed_def routed_inspector_base_def observed_base_def Let_def)
  then show ?thesis
    using do_proxy_bare [of "publish_context env (session_context env cfg q ob ident shape (nev_head routes)
        (1 + length (take (rc_fallback_attempts (cfg_routing cfg)) (nev_tail routes))) store)" env
        "\<lparr>pr_method = rqc_method q, pr_path = rqc_path q, pr_query = rqc_query q, pr_headers = rqc_headers q,
          pr_content_type = header_str (rqc_headers q) ''content-type'', pr_stream = sh_stream shape, pr_body = rqc_body q\<rparr>"
        "take (rc_fallback_attempts (cfg_routing cfg)) (nev_tail routes)"]
    by (simp add: session_forward_def forward_def Let_def map_prod_def split_beta proxy_outcome.defs)
qed

lemma preflight_bare:
  "proxy_outcome.truncate (handle_preflight_failure env ob events route ident model stream stage e c store) =
     rejected e (preflight_effects route ident model stream stage e) c"
  by (simp add: handle_preflight_failure_def rejected_def preflight_effects_def bare_record_def preflight_record_def
      request_record_new_def preflight_inspector_base_def observed_base_def no_tokens_def proxy_outcome.defs Let_def)

lemma session_bare:
  "proxy_outcome.truncate (session_proxy_v1 env cfg c store peer q) = proxy_v1 (qe_proxy env) cfg c q"
  by (simp add: session_proxy_v1_def proxy_v1_def Let_def preflight_bare forward_bare split: sum.split prod.split option.split)
    (simp add: rejected_def proxy_outcome.defs)

text \<open>
  C4: observing a request does not change it.  With the inspector on or off, captures on or off, whatever the clocks
  read and however the file system fails, the handler answers the client, contacts the backends, counts and reports
  exactly as the request path without timelines, live records, captures and logs: forgetting these companions is a
  refinement onto that path, for every configuration and every request.
\<close>

theorem session_refines_proxy:
  "proxy_outcome.truncate (session_proxy_v1 env cfg c store peer q) = proxy_v1 (qe_proxy env) cfg c q"
  by (rule session_bare)

end
