(* ===== verification/Backend_Health.thy ===== *)
theory Backend_Health
  imports Streaming
begin

text \<open>
  \<open>onair-obs/src/observe/health.rs\<close>: the health store, a map from backends to counters, the times of recent
  failures and the last observation.  The clocks of an observation are arguments: \<open>ob_now\<close> is the monotonic
  instant in nanoseconds, whose representation reaches far enough before the origin that subtracting the
  window never fails, \<open>ob_unix_ms\<close> the wall clock and \<open>ob_latency_ms\<close> the measured latency, both already
  saturated to 64 bits.
\<close>

section \<open>Records\<close>

definition UNHEALTHY_FAILURE_THRESHOLD :: nat where "UNHEALTHY_FAILURE_THRESHOLD = 3"

definition FAILURE_WINDOW :: int where "FAILURE_WINDOW = 60 * 1000000000"

datatype observation_source = Traffic | Probe

fun source_as_str :: "observation_source \<Rightarrow> string" where
  "source_as_str Traffic = ''traffic''"
| "source_as_str Probe = ''probe''"

record backend_health_record =
  bh_traffic_successes :: u64
  bh_traffic_failures :: u64
  bh_probe_successes :: u64
  bh_probe_failures :: u64
  bh_recent_failures :: "int list"
  bh_last_success_unix_ms :: "u64 option"
  bh_last_failure_unix_ms :: "u64 option"
  bh_last_observed_unix_ms :: "u64 option"
  bh_last_status :: "status_code option"
  bh_last_error_kind :: "string option"
  bh_last_latency_ms :: "u64 option"
  bh_last_source :: "observation_source option"

definition default_health_record :: backend_health_record where
  "default_health_record =
     \<lparr>bh_traffic_successes = 0, bh_traffic_failures = 0, bh_probe_successes = 0, bh_probe_failures = 0,
      bh_recent_failures = [], bh_last_success_unix_ms = None, bh_last_failure_unix_ms = None,
      bh_last_observed_unix_ms = None, bh_last_status = None, bh_last_error_kind = None,
      bh_last_latency_ms = None, bh_last_source = None\<rparr>"

type_synonym health_store = "(string \<times> backend_health_record) list"

record observation =
  ob_now :: int
  ob_unix_ms :: u64
  ob_latency_ms :: u64

section \<open>Operations\<close>

definition health_entry :: "health_store \<Rightarrow> string \<Rightarrow> backend_health_record" where
  "health_entry st backend = (case bt_get st backend of Some r \<Rightarrow> r | None \<Rightarrow> default_health_record)"

definition observe_success :: "status_code \<Rightarrow> observation_source \<Rightarrow> observation \<Rightarrow> backend_health_record \<Rightarrow> backend_health_record" where
  "observe_success status source ob r =
     (let r = (case source of
                 Traffic \<Rightarrow> r\<lparr>bh_traffic_successes := saturating_add (bh_traffic_successes r) 1\<rparr>
               | Probe \<Rightarrow> r\<lparr>bh_probe_successes := saturating_add (bh_probe_successes r) 1\<rparr>)
      in r\<lparr>bh_recent_failures := [], bh_last_success_unix_ms := Some (ob_unix_ms ob),
           bh_last_observed_unix_ms := Some (ob_unix_ms ob), bh_last_status := Some status,
           bh_last_error_kind := None, bh_last_latency_ms := Some (ob_latency_ms ob),
           bh_last_source := Some source\<rparr>)"

definition record_success_with_source ::
  "string \<Rightarrow> status_code \<Rightarrow> observation_source \<Rightarrow> observation \<Rightarrow> health_store \<Rightarrow> health_store" where
  "record_success_with_source backend status source ob st =
     bt_insert backend (observe_success status source ob (health_entry st backend)) st"

text \<open>The loop pops the front while it is older than the cutoff.\<close>

definition push_failure :: "int \<Rightarrow> int list \<Rightarrow> int list" where
  "push_failure now ts = dropWhile (\<lambda>t. t < now - FAILURE_WINDOW) (ts @ [now])"

definition observe_failure ::
  "status_code \<Rightarrow> string \<Rightarrow> observation_source \<Rightarrow> observation \<Rightarrow> backend_health_record \<Rightarrow> backend_health_record" where
  "observe_failure status kind source ob r =
     (let r = (case source of
                 Traffic \<Rightarrow> r\<lparr>bh_traffic_failures := saturating_add (bh_traffic_failures r) 1\<rparr>
               | Probe \<Rightarrow> r\<lparr>bh_probe_failures := saturating_add (bh_probe_failures r) 1\<rparr>)
      in r\<lparr>bh_recent_failures := push_failure (ob_now ob) (bh_recent_failures r),
           bh_last_failure_unix_ms := Some (ob_unix_ms ob), bh_last_observed_unix_ms := Some (ob_unix_ms ob),
           bh_last_status := Some status, bh_last_error_kind := Some kind,
           bh_last_latency_ms := Some (ob_latency_ms ob), bh_last_source := Some source\<rparr>)"

definition record_failure_with_source ::
  "string \<Rightarrow> status_code \<Rightarrow> string \<Rightarrow> observation_source \<Rightarrow> observation \<Rightarrow> health_store \<Rightarrow> health_store" where
  "record_failure_with_source backend status kind source ob st =
     bt_insert backend (observe_failure status kind source ob (health_entry st backend)) st"

definition record_success :: "string \<Rightarrow> status_code \<Rightarrow> observation \<Rightarrow> health_store \<Rightarrow> health_store" where
  "record_success backend status = record_success_with_source backend status Traffic"

definition record_failure :: "string \<Rightarrow> status_code \<Rightarrow> string \<Rightarrow> observation \<Rightarrow> health_store \<Rightarrow> health_store" where
  "record_failure backend status kind = record_failure_with_source backend status kind Traffic"

definition record_probe_success :: "string \<Rightarrow> status_code \<Rightarrow> observation \<Rightarrow> health_store \<Rightarrow> health_store" where
  "record_probe_success backend status = record_success_with_source backend status Probe"

definition record_probe_failure ::
  "string \<Rightarrow> status_code \<Rightarrow> string \<Rightarrow> observation \<Rightarrow> health_store \<Rightarrow> health_store" where
  "record_probe_failure backend status kind = record_failure_with_source backend status kind Probe"

section \<open>Snapshots\<close>

definition health_successes :: "backend_health_record \<Rightarrow> u64" where
  "health_successes r = bh_traffic_successes r + bh_probe_successes r"

definition health_failures :: "backend_health_record \<Rightarrow> u64" where
  "health_failures r = bh_traffic_failures r + bh_probe_failures r"

definition health_status :: "backend_health_record \<Rightarrow> string" where
  "health_status r =
     (if bh_last_observed_unix_ms r = None then ''unknown''
      else if bh_recent_failures r = [] then ''healthy''
      else if UNHEALTHY_FAILURE_THRESHOLD \<le> length (bh_recent_failures r) then ''unhealthy''
      else ''degraded'')"

record backend_health_snapshot =
  hs_backend :: string
  hs_status :: string
  hs_successes :: u64
  hs_failures :: u64
  hs_traffic_successes :: u64
  hs_traffic_failures :: u64
  hs_probe_successes :: u64
  hs_probe_failures :: u64
  hs_consecutive_failures :: u64
  hs_last_success_unix_ms :: "u64 option"
  hs_last_failure_unix_ms :: "u64 option"
  hs_last_observed_unix_ms :: "u64 option"
  hs_last_status :: "status_code option"
  hs_last_error_kind :: "string option"
  hs_last_latency_ms :: "u64 option"
  hs_last_source :: "string option"

definition backend_snapshot_of :: "string \<Rightarrow> backend_health_record \<Rightarrow> backend_health_snapshot" where
  "backend_snapshot_of backend r =
     \<lparr>hs_backend = backend, hs_status = health_status r, hs_successes = health_successes r,
      hs_failures = health_failures r, hs_traffic_successes = bh_traffic_successes r,
      hs_traffic_failures = bh_traffic_failures r, hs_probe_successes = bh_probe_successes r,
      hs_probe_failures = bh_probe_failures r,
      hs_consecutive_failures = of_nat (length (bh_recent_failures r)),
      hs_last_success_unix_ms = bh_last_success_unix_ms r, hs_last_failure_unix_ms = bh_last_failure_unix_ms r,
      hs_last_observed_unix_ms = bh_last_observed_unix_ms r, hs_last_status = bh_last_status r,
      hs_last_error_kind = bh_last_error_kind r, hs_last_latency_ms = bh_last_latency_ms r,
      hs_last_source = map_option source_as_str (bh_last_source r)\<rparr>"

definition health_store_snapshot :: "health_store \<Rightarrow> string list \<Rightarrow> backend_health_snapshot list" where
  "health_store_snapshot st backends = map (\<lambda>b. backend_snapshot_of b (health_entry st b)) backends"

section \<open>Histories\<close>

text \<open>One call of the four operations, with the backend it is about.\<close>

datatype health_event =
    HSuccess string status_code observation_source observation
  | HFailure string status_code string observation_source observation

fun health_step :: "health_event \<Rightarrow> health_store \<Rightarrow> health_store" where
  "health_step (HSuccess b s src ob) = record_success_with_source b s src ob"
| "health_step (HFailure b s k src ob) = record_failure_with_source b s k src ob"

fun event_backend :: "health_event \<Rightarrow> string" where
  "event_backend (HSuccess b s src ob) = b"
| "event_backend (HFailure b s k src ob) = b"

fun event_now :: "health_event \<Rightarrow> int" where
  "event_now (HSuccess b s src ob) = ob_now ob"
| "event_now (HFailure b s k src ob) = ob_now ob"

fun is_failure_event :: "health_event \<Rightarrow> bool" where
  "is_failure_event (HSuccess b s src ob) = False"
| "is_failure_event (HFailure b s k src ob) = True"

text \<open>What the proxy reports, as an event of the store.\<close>

fun report_event :: "observation \<Rightarrow> health_report \<Rightarrow> health_event" where
  "report_event ob (ReportSuccess b s) = HSuccess b s Traffic ob"
| "report_event ob (ReportFailure b s k) = HFailure b s k Traffic ob"

text \<open>The reference: the failures after the last success that are at most a window older than the last.\<close>

definition failures_since_success :: "health_event list \<Rightarrow> int list" where
  "failures_since_success es = map event_now (rev (takeWhile is_failure_event (rev es)))"

definition recent_failures_of :: "health_event list \<Rightarrow> int list" where
  "recent_failures_of es =
     (let ts = failures_since_success es
      in if ts = [] then [] else filter (\<lambda>t. last ts - FAILURE_WINDOW \<le> t) ts)"

definition status_of_history :: "health_event list \<Rightarrow> string" where
  "status_of_history es =
     (if es = [] then ''unknown''
      else if recent_failures_of es = [] then ''healthy''
      else if 3 \<le> length (recent_failures_of es) then ''unhealthy''
      else ''degraded'')"

lemma health_entry_record [simp]:
  "health_entry (record_success_with_source b s src ob st) b' =
     (if b' = b then observe_success s src ob (health_entry st b) else health_entry st b')"
  "health_entry (record_failure_with_source b s k src ob st) b' =
     (if b' = b then observe_failure s k src ob (health_entry st b) else health_entry st b')"
  by (simp_all add: health_entry_def record_success_with_source_def record_failure_with_source_def bt_get_insert)

lemma observe_fields [simp]:
  "bh_recent_failures (observe_success s src ob r) = []"
  "bh_recent_failures (observe_failure s k src ob r) = push_failure (ob_now ob) (bh_recent_failures r)"
  "bh_last_observed_unix_ms (observe_success s src ob r) = Some (ob_unix_ms ob)"
  "bh_last_observed_unix_ms (observe_failure s k src ob r) = Some (ob_unix_ms ob)"
  by (cases src; simp add: observe_success_def observe_failure_def Let_def)+

lemma dropWhile_sorted: "sorted ts \<Longrightarrow> dropWhile (\<lambda>t. t < c) ts = filter (\<lambda>t. c \<le> t) ts" for c :: int
proof (induction ts)
  case (Cons t ts)
  show ?case
  proof (cases "t < c")
    case False
    then have "\<forall>x \<in> set (t # ts). c \<le> x" using Cons.prems by auto
    then show ?thesis using False by (simp add: filter_True)
  qed (use Cons in simp)
qed simp

lemma failures_since_success_snoc:
  "failures_since_success (es @ [e]) =
     (if is_failure_event e then failures_since_success es @ [event_now e] else [])"
  by (simp add: failures_since_success_def)

lemma failures_since_success_times: "set (failures_since_success es) \<subseteq> event_now ` set es"
  by (auto simp: failures_since_success_def dest: set_takeWhileD)

lemma sorted_failures: "sorted (map event_now es) \<Longrightarrow> sorted (failures_since_success es)"
proof (induction es rule: rev_induct)
  case Nil
  then show ?case by (simp add: failures_since_success_def)
next
  case (snoc e es)
  have "\<forall>t \<in> set (failures_since_success es). t \<le> event_now e"
    using snoc.prems failures_since_success_times [of es] by (auto simp: sorted_append)
  then show ?case using snoc by (simp add: failures_since_success_snoc sorted_append)
qed

lemma recent_failures_snoc:
  assumes "sorted (map event_now (es @ [e]))" and "is_failure_event e"
  shows "recent_failures_of (es @ [e]) = push_failure (event_now e) (recent_failures_of es)"
proof -
  let ?ts = "failures_since_success es"
  let ?c = "event_now e - FAILURE_WINDOW"
  have s: "sorted ?ts" using assms(1) sorted_failures [of es] by (simp add: sorted_append)
  have le: "\<forall>t \<in> set ?ts. t \<le> event_now e"
    using assms(1) failures_since_success_times [of es] by (auto simp: sorted_append)
  have w: "?c \<le> event_now e" by (simp add: FAILURE_WINDOW_def)
  have "last ?ts - FAILURE_WINDOW \<le> ?c" if "?ts \<noteq> []" using le that by simp
  then have "filter (\<lambda>t. ?c \<le> t) (recent_failures_of es) = filter (\<lambda>t. ?c \<le> t) ?ts"
    by (auto simp: recent_failures_of_def Let_def intro: filter_cong)
  moreover have "sorted (recent_failures_of es @ [event_now e])"
    using s le by (auto simp: recent_failures_of_def Let_def sorted_append intro: sorted_wrt_filter)
  ultimately show ?thesis
    using assms(2) w dropWhile_sorted [of "recent_failures_of es @ [event_now e]" ?c]
    by (simp add: push_failure_def recent_failures_of_def [of "es @ [e]"] failures_since_success_snoc Let_def)
qed

lemma health_entry_history:
  assumes "sorted (map event_now es)"
  shows "bh_recent_failures (health_entry (fold health_step es []) b) =
      recent_failures_of (filter (\<lambda>e. event_backend e = b) es) \<and>
    (bh_last_observed_unix_ms (health_entry (fold health_step es []) b) = None \<longleftrightarrow>
      filter (\<lambda>e. event_backend e = b) es = [])"
  using assms
proof (induction es rule: rev_induct)
  case Nil
  then show ?case
    by (simp add: health_entry_def default_health_record_def recent_failures_of_def failures_since_success_def)
next
  case (snoc e es)
  let ?es = "filter (\<lambda>e. event_backend e = b) es"
  have IH: "bh_recent_failures (health_entry (fold health_step es []) b) = recent_failures_of ?es"
    "bh_last_observed_unix_ms (health_entry (fold health_step es []) b) = None \<longleftrightarrow> ?es = []"
    using snoc by (simp_all add: sorted_append)
  show ?case
  proof (cases "event_backend e = b")
    case False
    then show ?thesis using IH by (cases e) simp_all
  next
    case True
    have "sorted (map event_now (?es @ [e]))"
      using snoc.prems by (auto simp: sorted_append sorted_map intro: sorted_wrt_filter)
    then show ?thesis
      using True IH recent_failures_snoc [of ?es e]
      by (cases e) (simp_all add: recent_failures_of_def [of "_ @ [HSuccess _ _ _ _]"] failures_since_success_snoc)
  qed
qed

text \<open>
  C34: the health of a backend is a function of its own history.  After any interleaving of observations of
  any backends with a clock that does not go back, the status shown for a backend is that of the reference:
  unknown without observations, healthy after a success, and otherwise degraded or unhealthy by the number of
  failures since the last success that lie within a minute of the last one.
\<close>

theorem health_status_history:
  assumes "sorted (map event_now es)"
  shows "map hs_status (health_store_snapshot (fold health_step es []) bs) =
    map (\<lambda>b. status_of_history (filter (\<lambda>e. event_backend e = b) es)) bs"
  using health_entry_history [OF assms]
  by (simp add: health_store_snapshot_def backend_snapshot_of_def health_status_def status_of_history_def
      UNHEALTHY_FAILURE_THRESHOLD_def)

theorem health_status_history_witness:
  "let ob = (\<lambda>t. \<lparr>ob_now = t, ob_unix_ms = 0, ob_latency_ms = 1\<rparr>);
       es = [HFailure ''a'' 502 ''connect'' Traffic (ob 0), HFailure ''b'' 502 ''connect'' Traffic (ob 1),
             HFailure ''a'' 504 ''timeout'' Probe (ob 2), HFailure ''a'' 504 ''timeout'' Traffic (ob 3),
             HSuccess ''b'' 200 Probe (ob 4)]
   in sorted (map event_now es) \<and>
      map hs_status (health_store_snapshot (fold health_step es []) [''a'', ''b'', ''c'']) =
        [''unhealthy'', ''healthy'', ''unknown'']"
  unfolding Let_def
  by (subst health_status_history, simp)
    (simp add: status_of_history_def recent_failures_of_def failures_since_success_def FAILURE_WINDOW_def)

text \<open>
  The status does not depend on the time at which it is asked for: a backend that failed three times and
  then receives no traffic stays unhealthy, although the failures have left the window.
\<close>

lemma health_status_never_expires:
  "status_of_history (es @ [HFailure b s k src ob]) \<in> {''degraded'', ''unhealthy''}"
  by (simp add: status_of_history_def recent_failures_of_def failures_since_success_snoc FAILURE_WINDOW_def)

end
