(* ===== verification/Traffic.thy ===== *)
theory Traffic
  imports End_To_End Request_Correct Backend_Health Inspector_Store
begin

text \<open>
  The request path together with the stores it reports to: the health reports of any number of concurrent
  requests folded into \<open>BackendHealthStore\<close>, and the final record of a request in the \<open>InspectorStore\<close> among
  those of others.
\<close>

section \<open>Who is blamed\<close>

fun report_backend :: "health_report \<Rightarrow> string" where
  "report_backend (ReportSuccess b s) = b"
| "report_backend (ReportFailure b s k) = b"

fun report_failed :: "health_report \<Rightarrow> bool" where
  "report_failed (ReportSuccess b s) = False"
| "report_failed (ReportFailure b s k) = True"

text \<open>The backends that were contacted and have not been reported on.\<close>

definition pending :: "effect list \<Rightarrow> string list \<Rightarrow> bool" where
  "pending es bs \<longleftrightarrow> map report_backend (health es) @ bs = map fst (sent es)"

definition all_failed :: "effect list \<Rightarrow> bool" where
  "all_failed es \<longleftrightarrow> list_all report_failed (health es)"

fun loop_reported :: "proxy_context \<times> (api_error + upstream_response) \<Rightarrow> bool" where
  "loop_reported (cx, Inl e) = (all_failed (pc_effects cx) \<and> (\<exists>bs. length bs \<le> 1 \<and> pending (pc_effects cx) bs))"
| "loop_reported (cx, Inr r) = (all_failed (pc_effects cx) \<and> pending (pc_effects cx) [ml_backend (pc_labels cx)])"

lemma loop_reported_Inl:
  "all_failed (pc_effects cx) \<Longrightarrow> pending (pc_effects cx) [] \<or> pending (pc_effects cx) [b] \<Longrightarrow> loop_reported (cx, Inl e)"
  by (auto intro: exI [of _ "[]"] exI [of _ "[b]"])

lemma loop_reports:
  assumes "labelled cx" and "pending (pc_effects cx) []" and "all_failed (pc_effects cx)"
  shows "loop_reported (attempt_loop env rq cx fallbacks)"
  using assms
proof (induction fallbacks arbitrary: cx)
  case Nil
  then show ?case
    by (auto simp: attempt_loop.simps [of env rq cx] attempt_once_def record_final_failure_def pending_def
        all_failed_def labelled_def Let_def split: sum.split send_result.split bool.split
        intro: loop_reported_Inl [of _ "sr_backend_id (pc_route cx)"] simp del: loop_reported.simps(1))
next
  case (Cons nxt rest)
  let ?cx = "\<lambda>ob. emit_effects [Sent (sr_backend_id (pc_route cx)) ob] (emit_effects [BackendAttempt (pc_labels cx)] cx)"
  have IH: "loop_reported (attempt_loop env rq (record_retry kind nxt (?cx ob)) rest)" for kind ob
    using Cons.prems
    by (intro Cons.IH record_retry_fields(1)) (auto simp: record_retry_fields pending_def all_failed_def labelled_def)
  show ?case
    using Cons.prems IH
    by (auto simp: attempt_loop.simps [of env rq cx] attempt_once_def record_final_failure_def pending_def
        all_failed_def labelled_def Let_def split: sum.split send_result.split bool.split
        intro: loop_reported_Inl [of _ "sr_backend_id (pc_route cx)"] simp del: loop_reported.simps(1))
qed

text \<open>Every contact is reported, in order, except perhaps the last; every report before the last is a failure.\<close>

definition reported :: "effect list \<Rightarrow> bool" where
  "reported es \<longleftrightarrow> (\<exists>bs. length bs \<le> 1 \<and> pending es bs) \<and> list_all report_failed (butlast (health es))"

lemma reported_failed: "length bs \<le> 1 \<Longrightarrow> pending es bs \<Longrightarrow> all_failed es \<Longrightarrow> reported es"
  by (auto simp: reported_def all_failed_def list_all_iff dest: in_set_butlastD)

lemma reported_last:
  assumes "pending es [b]" and "all_failed es" and "sent es' = sent es" and "health es' = health es @ hs"
    and "hs = [] \<or> (\<exists>h. hs = [h] \<and> report_backend h = b)"
  shows "reported es'"
  using assms(5)
proof
  assume "hs = []"
  then show ?thesis using assms by (intro reported_failed [of "[b]"]) (auto simp: pending_def all_failed_def)
next
  assume "\<exists>h. hs = [h] \<and> report_backend h = b"
  then show ?thesis using assms(1-4) by (auto simp: reported_def pending_def all_failed_def intro!: exI [of _ "[]"])
qed

lemma do_proxy_reported:
  assumes "labelled cx" and "pending (pc_effects cx) []" and "all_failed (pc_effects cx)"
  shows "reported (pc_effects (fst (do_proxy env rq cx fallbacks)))"
proof -
  obtain cx1 res where l: "attempt_loop env rq cx fallbacks = (cx1, res)" by (cases "attempt_loop env rq cx fallbacks")
  note loop = loop_reports [OF assms, of env rq fallbacks, unfolded l]
  show ?thesis
  proof (cases res)
    case (Inl e)
    then show ?thesis using l loop reported_failed by (auto simp: do_proxy_def)
  next
    case (Inr r)
    then have p: "pending (pc_effects cx1) [ml_backend (pc_labels cx1)]" "all_failed (pc_effects cx1)"
      using loop by simp_all
    have "reported (pc_effects (fst (non_success_response r cx1)))"
      by (rule reported_last [OF p, where hs = "[ReportFailure (ml_backend (pc_labels cx1)) (ur_status r) ''upstream_non_success'']"])
        (simp_all add: non_success_response_def forward_upstream_error_def non_success_effects_def Let_def
          split: option.split)
    moreover have "reported (pc_effects (fst (streaming_response env rq r cx1)))"
    proof (cases "run_stream env r (emit_effects [RequestMetric (pc_labels cx1) (ur_status r)] cx1)")
      case None
      then show ?thesis by (intro reported_last [OF p, where hs = "[]"]) (simp_all add: streaming_response_def)
    next
      case (Some s)
      then show ?thesis
        by (intro reported_last [OF p, where hs = "stream_health (ml_backend (pc_labels cx1)) (ur_status r) (res_metrics s)"])
          (auto simp: streaming_response_def stream_effects_def stream_health_def Let_def split: option.split)
    qed
    moreover have "reported (pc_effects (fst (buffered_response env rq r cx1)))"
    proof -
      let ?es = "pc_effects (fst (buffered_response env rq r cx1))"
      have "health ?es = health (pc_effects cx1) \<or>
          (\<exists>h. health ?es = health (pc_effects cx1) @ [h] \<and> report_backend h = ml_backend (pc_labels cx1))"
        by (simp add: buffered_response_def Let_def split: option.split sum.split body_read_error.split prod.split)
      then obtain hs where "health ?es = health (pc_effects cx1) @ hs"
        "hs = [] \<or> (\<exists>h. hs = [h] \<and> report_backend h = ml_backend (pc_labels cx1))" by auto
      then show ?thesis using sent_buffered by (intro reported_last [OF p]) auto
    qed
    ultimately show ?thesis using l Inr by (simp add: do_proxy_def)
  qed
qed

lemma proxy_v1_reported: "reported (po_effects (proxy_v1 env cfg c q))"
proof (rule proxy_v1_outcome [where P = "\<lambda>out. reported (po_effects out)"])
  show "reported (po_effects (forward env cfg q ident shape routes c))" for ident shape routes c
    by (simp add: forward_def Let_def split_beta do_proxy_reported labelled_def pending_def all_failed_def)
qed (auto simp: rejected_def preflight_effects_def reported_def pending_def)


section \<open>The health of backends under traffic\<close>

text \<open>
  One request: its environment, the configuration snapshot and the routing counters it saw, and the readings of
  the clock for its reports.  Requests run concurrently, so each has a snapshot and counters of its own.
\<close>

record served =
  sv_env :: proxy_env
  sv_config :: config
  sv_counters :: rr_counters
  sv_request :: client_request
  sv_times :: "nat \<Rightarrow> observation"

definition served_effects :: "served \<Rightarrow> effect list" where
  "served_effects x = po_effects (proxy_v1 (sv_env x) (sv_config x) (sv_counters x) (sv_request x))"

definition served_events :: "served \<Rightarrow> health_event list" where
  "served_events x = map (\<lambda>(i, h). report_event (sv_times x i) h) (enumerate 0 (health (served_effects x)))"

definition contacts :: "served list \<Rightarrow> string list" where
  "contacts xs = concat (map (\<lambda>x. map fst (sent (served_effects x))) xs)"

definition shown_status :: "health_store \<Rightarrow> string \<Rightarrow> string" where
  "shown_status st b = hs_status (backend_snapshot_of b (health_entry st b))"

lemma report_event_fields [simp]:
  "event_backend (report_event ob h) = report_backend h" "is_failure_event (report_event ob h) = report_failed h"
  by (cases h; simp)+

lemma served_events_backends: "map event_backend (served_events x) = map report_backend (health (served_effects x))"
proof -
  have "map event_backend (served_events x) = map report_backend (map snd (enumerate 0 (health (served_effects x))))"
    unfolding served_events_def map_map by (rule map_cong) (auto simp: comp_def)
  then show ?thesis by simp
qed

lemma served_events_contacts:
  "length (filter (\<lambda>e. event_backend e = b) (concat (map served_events xs))) \<le> count_list (contacts xs) b"
proof (induction xs)
  case (Cons x xs)
  obtain bs where "map report_backend (health (served_effects x)) @ bs = map fst (sent (served_effects x))"
    using proxy_v1_reported unfolding reported_def pending_def served_effects_def by blast
  then have "count_list (map event_backend (served_events x)) b \<le> count_list (map fst (sent (served_effects x))) b"
    by (metis served_events_backends count_list_append le_add1)
  then have "length (filter (\<lambda>e. event_backend e = b) (served_events x)) \<le> count_list (map fst (sent (served_effects x))) b"
    by (simp only: count_list_eq_length_filter filter_map length_map comp_def eq_commute [of b])
  then show ?case using Cons by (simp add: contacts_def)
qed (simp add: contacts_def)

lemma shown_status_history:
  assumes "sorted (map event_now es)"
  shows "shown_status (fold health_step es []) b = status_of_history (filter (\<lambda>e. event_backend e = b) es)"
  using health_entry_history [OF assms]
  by (simp add: shown_status_def backend_snapshot_of_def health_status_def status_of_history_def
      UNHEALTHY_FAILURE_THRESHOLD_def)

lemma recent_failures_length: "length (recent_failures_of es) \<le> length es"
proof -
  have "length (failures_since_success es) \<le> length es"
    using length_takeWhile_le [of is_failure_event "rev es"] by (simp add: failures_since_success_def)
  then show ?thesis by (auto simp: recent_failures_of_def Let_def intro: order_trans [OF length_filter_le])
qed

lemma recent_failures_empty: "recent_failures_of es = [] \<Longrightarrow> es \<noteq> [] \<Longrightarrow> \<not> is_failure_event (last es)"
proof (induction es rule: rev_induct)
  case (snoc e es)
  then show ?case
    by (auto simp: recent_failures_of_def failures_since_success_snoc FAILURE_WINDOW_def Let_def split: if_splits)
qed simp



section \<open>A run\<close>

text \<open>A request through the whole path: authenticated, routed, rewritten, answered by the backend and recorded.\<close>

definition run_env :: proxy_env where
  "run_env = \<lparr>pe_serde = two_body_serde, pe_form = \<lparr>form_parse = \<lambda>_. [], form_serialize = \<lambda>_. []\<rparr>,
     pe_header_name = Some, pe_header_value_ok = (\<lambda>_. True),
     pe_send = (\<lambda>_ _. SendOk \<lparr>ur_status = 200, ur_headers = [], ur_body = [BChunk ''ok'']\<rparr>), pe_gen_range = (\<lambda>_. 0)\<rparr>"

definition run_request :: client_request where
  "run_request = \<lparr>rqc_method = ''POST'', rqc_path = ''/v1/embeddings'', rqc_query = None,
     rqc_headers = [(''authorization'', ''Bearer k''), (''content-type'', ''application/json'')], rqc_body = ''{''\<rparr>"

lemma run_text:
  "should_parse_json (Some ''application/json'') ''{''" "\<not> is_blank ''gpt''" "\<not> looks_like_json ''ok''"
  "bearer_token [(''authorization'', ''Bearer k''), (''content-type'', ''application/json'')] = Some ''k''"
  "header_str [(''authorization'', ''Bearer k''), (''content-type'', ''application/json'')] ''content-type'' = Some ''application/json''"
  "trim_end_matches CHR ''/'' ''/v1/embeddings'' = ''/v1/embeddings''" "endpoint_kind ''/v1/embeddings'' = EkOther"
  "upstream_path ''/v1/embeddings'' = ''/v1/embeddings''"
  by code_simp+

lemma run_authenticated:
  "authenticate (rqc_headers run_request) (cfg_clients example_config) = Inr \<lparr>id_id = ''a'', id_models = [''gpt'']\<rparr>"
  using run_text(4) by (simp add: authenticate_def run_request_def example_config_def token_matches_iff ok_or_def)

definition run_shape :: request_shape where
  "run_shape = inspect_request two_body_serde (pe_form run_env) ''{'' (Some ''application/json'') None"

lemma run_shape_fields: "sh_model run_shape = Some ''gpt''" "\<not> sh_stream run_shape"
  using run_text(1,2) by (simp_all add: run_shape_def inspect_request_def inspect_body_def query_field_def query_bool_def
      inspect_json_body_def two_body_serde_def get_str_def non_blank_def json_flag_def bt_get_def Let_def)

lemma example_select:
  assumes "rq_backends rq = cfg_backends example_config" and "rq_routes rq = cfg_routes example_config"
    and "rq_strategy rq = Priority" and "rq_path rq = ''/v1/embeddings''" and "rq_model rq = Some ''gpt''"
  shows "select g rq c =
     (Some (Inr (NonEmptyVec (build_candidate (hd (cfg_backends example_config))
        (Some (hd (cfg_routes example_config))) (Some \<lparr>rb_backend_id = ''b'', rb_backend_model = ''m''\<rparr>)
        (Some ''gpt'') Native) [])), c)"
proof -
  define bk where "bk = hd (cfg_backends example_config)"
  define rt where "rt = hd (cfg_routes example_config)"
  have b: "cfg_backends example_config = [bk]" "cfg_routes example_config = [rt]"
    "be_id bk = ''b''" "rt_key rt = Public ''gpt''"
    "rt_backends rt = [\<lparr>rb_backend_id = ''b'', rb_backend_model = ''m''\<rparr>]"
    "''all'' \<in> set (be_supports bk)" "rt_expose rt = []"
    by (simp_all add: bk_def rt_def example_config_def)
  have "path_capability_candidates ''/v1/embeddings'' = [''embedding'', ''embeddings'']" by code_simp
  then have "is_eligible rq bk (Some rt) = (Some Native, False)"
    using assms(4) b(6,7) run_text(6)
    by (simp add: is_eligible_def request_mode_for_route_def request_mode_for_path_def
        supports_candidates_def has_capability_def supports_tools_def has_tool_capability_def
        route_supports_tools_def none_or_def)
  then have "collect_candidates rq =
      Inr ([build_candidate bk (Some rt) (Some \<lparr>rb_backend_id = ''b'', rb_backend_model = ''m''\<rparr>)
        (Some ''gpt'') Native], False)"
    by (simp add: collect_candidates_def find_public_route_def model_step_def consider_backend_def
        find_backend_def assms b)
  then show ?thesis
    by (simp add: select_def apply_strategy_def nev_from_vec_def assms(3) bk_def [symmetric] rt_def [symmetric])
qed

definition run_route :: selected_route where
  "run_route = build_candidate (hd (cfg_backends example_config)) (Some (hd (cfg_routes example_config)))
     (Some \<lparr>rb_backend_id = ''b'', rb_backend_model = ''m''\<rparr>) (Some ''gpt'') Native"

lemma run_forwarded:
  "proxy_v1 run_env example_config c run_request =
     forward run_env example_config run_request \<lparr>id_id = ''a'', id_models = [''gpt'']\<rparr> run_shape (NonEmptyVec run_route []) c"
proof -
  have sel: "select g (proxy_selection example_config run_request ident run_shape) c
      = (Some (Inr (NonEmptyVec run_route [])), c)" for g ident
    unfolding run_route_def
    by (rule example_select) (simp_all add: proxy_selection_def run_request_def run_shape_fields
        example_config_def default_routing_config_def)
  have shape: "inspect_request (pe_serde run_env) (pe_form run_env) (rqc_body run_request)
      (header_str (rqc_headers run_request) ''content-type'') (rqc_query run_request) = run_shape"
    using run_text(5) by (simp add: run_shape_def run_request_def run_env_def)
  have path: "rqc_path run_request = ''/v1/embeddings''" by (simp add: run_request_def)
  show ?thesis
    unfolding proxy_v1_def Let_def run_authenticated sum.case shape sel prod.case option.case
    using run_shape_fields run_text(6) by (simp add: path)
qed

lemma run_prepared: "\<exists>ob. prepare_outbound run_env (to_proxy_request run_request False) run_route = Inr ob"
proof -
  have j: "rewrite_json_object [(''model'', JString ''gpt'')] ''m'' False False (route_policies run_route) [] = example_sent"
    by (simp add: rewrite_json_object_def apply_extra_body_def example_sent_def route_policies_def run_route_def
      build_candidate_def example_config_def)
  have r: "sr_extra_body run_route = []" "sr_backend_model run_route = Some ''m''" "sr_request_mode run_route = Native"
    by (simp_all add: run_route_def build_candidate_def example_config_def)
  have "rewrite_request_body_for_mode_with_policies two_body_serde fc ''{'' (Some ''application/json'')
      (Some ''m'') ''/v1/embeddings'' Native (route_policies run_route) [] = Inr ''sent''" for fc
    by (simp add: rewrite_request_body_for_mode_with_policies_def rewrite_native_request_body_def run_text kind_defs
        rewrite_json_request_body_def two_body_serde_def bt_contains_def bt_get_def j first_some_def)
  then show ?thesis
    by (simp add: prepare_outbound_def to_proxy_request_def run_request_def run_env_def run_text r Let_def)
qed

lemma run_response:
  "\<exists>resp. po_result (proxy_v1 run_env example_config c run_request) = Some (Inr resp) \<and> cr_status resp = 200 \<and>
     cr_body resp = Buffered ''ok''"
proof -
  obtain ob where ob: "prepare_outbound run_env (to_proxy_request run_request False) run_route = Inr ob"
    using run_prepared by blast
  have send: "pe_send run_env k ob = SendOk \<lparr>ur_status = 200, ur_headers = [], ur_body = [BChunk ''ok'']\<rparr>" for k
    by (simp add: run_env_def)
  have body: "rewrite_response_body sd ''ok'' None bm pm mode = Some (''ok'', default_totals)" for sd bm pm mode
    using run_text(3) by (simp add: rewrite_response_body_def is_json_content_type_def)
  show ?thesis
    using ob send run_shape_fields(2)
    by (simp add: run_forwarded forward_def do_proxy_def attempt_loop.simps attempt_once_def to_proxy_request_def
        is_success_def is_event_stream_content_type_def header_str_def header_get_def buffered_response_def body Let_def
        emit_effects_def)
qed

section \<open>The record of an answer\<close>

text \<open>
  The stored form of a final record: the description of the request from its base, the times of each attempt, the
  timeline, and everything the request path settled.
\<close>

definition stored_final ::
  "nat \<Rightarrow> inspector_request_base \<Rightarrow> (attempt_record \<Rightarrow> inspector_attempt_record) \<Rightarrow> timeline_snapshot \<Rightarrow>
     inspector_record \<Rightarrow> inspector_request_record" where
  "stored_final now base timed timeline ir =
     request_record_new now (base\<lparr>ib_exposed_backend_error := ir_exposed_backend_error ir\<rparr>) (ir_outcome ir)
       (ir_status ir) (ir_error_kind ir) (map timed (ir_backend_attempts ir)) (map timed (ir_retried_attempts ir))
       (ir_response_body_bytes ir) (ir_tokens ir) timeline"

text \<open>Buffered and refused requests are written with \<open>record\<close>, streams and failures with \<open>upsert_final\<close>.\<close>

definition record_answer ::
  "(inspector_request_record \<Rightarrow> store_op) \<Rightarrow> (inspector_record \<Rightarrow> inspector_request_record) \<Rightarrow> effect list \<Rightarrow> store_op list" where
  "record_answer op stored es = map (\<lambda>ir. op (stored ir)) (inspected es)"

lemma stored_final_fields [simp]:
  "rr_id (stored_final now base timed timeline ir) = ib_record_id base"
  "rr_status (stored_final now base timed timeline ir) = ir_status ir"
  by (simp_all add: stored_final_def request_record_new_def)

lemma one_inspected:
  assumes "answer_recorded es (Some (Inr resp))" and "cr_body resp \<noteq> Streamed None"
  obtains ir where "inspected es = [ir]" and "ir_status ir = cr_status resp"
proof -
  have "map ir_status (inspected es) = [cr_status resp]"
    using assms by (auto simp: answer_recorded_def recorded_def split: client_body.splits option.splits)
  then show ?thesis using that by (auto simp: map_eq_Cons_conv)
qed

text \<open>
  The inspector shows what the client was told.  A request that is published live, updated and finished among
  any number of other requests is found under its id with the status of the response the client received, until
  as many records of other requests have been written as the retention allows.
\<close>

theorem inspector_shows_answer:
  assumes "po_result (proxy_v1 env cfg c q) = Some (Inr resp)" and "cr_body resp \<noteq> Streamed None"
    and "op \<in> {OpRecord True n, OpFinal True n}"
    and "rr_id live = ib_record_id base" and "rr_id live \<notin> set (record_ids (fold store_step before store_new))"
    and "list_all (\<lambda>op. op_enabled op \<and> op_retention op = n) (during @ after)"
    and "list_all (\<lambda>op. rr_id (op_record op) \<noteq> rr_id live) after"
    and "length (filter (\<lambda>op. rr_id (op_record op) \<noteq> rr_id live) (during @ after)) < clamp_retention n"
  shows "\<exists>r. store_get (rr_id live) (fold store_step (before @ OpUpsert True n live # during
      @ record_answer op (stored_final now base timed timeline) (po_effects (proxy_v1 env cfg c q)) @ after) store_new) = Some r
    \<and> rr_status r = cr_status resp"
proof -
  let ?es = "po_effects (proxy_v1 env cfg c q)"
  have "answer_recorded ?es (Some (Inr resp))" using proxy_v1_recorded [of env cfg c q] assms(1) by simp
  then obtain ir where ir: "inspected ?es = [ir]" "ir_status ir = cr_status resp"
    using one_inspected assms(2) by blast
  define fin where "fin = stored_final now base timed timeline ir"
  have op: "op_enabled (op x)" "op_retention (op x) = n" "op_record (op x) = x" for x using assms(3) by auto
  let ?ops = "during @ [op fin] @ after"
  have "list_all (\<lambda>op. op_enabled op \<and> op_retention op = n) ?ops" using assms(6) op by simp
  moreover have "length (filter (\<lambda>op. rr_id (op_record op) \<noteq> rr_id live) ?ops) < clamp_retention n"
    using assms(4,8) op by (simp add: fin_def)
  ultimately have "store_get (rr_id live) (fold store_step (OpUpsert True n live # ?ops) (fold store_step before store_new)) =
      Some (last (live # filter (\<lambda>x. rr_id x = rr_id live) (map op_record ?ops)))"
    by (rule record_latest_shown [OF store_steps_distinct [OF distinct_new] assms(5)])
  moreover have "filter (\<lambda>x. rr_id x = rr_id live) (map op_record after) = []"
    using assms(7) by (auto simp: filter_empty_conv list_all_iff)
  ultimately show ?thesis
    using ir assms(4) op by (simp add: record_answer_def fin_def)
qed

theorem inspector_shows_answer_witness:
  "\<forall>timed. \<exists>r. store_get ''a'' (fold store_step ([] @ OpUpsert True 2 (sample_record ''a'')
      # [OpUpsert True 2 (sample_record ''b'')]
      @ record_answer (OpFinal True 2) (stored_final 7 (rr_base (sample_record ''a'')) timed (rr_timeline (sample_record ''a'')))
          (po_effects (proxy_v1 run_env example_config Map.empty run_request)) @ []) store_new) = Some r
    \<and> rr_status r = 200"
proof
  fix timed
  obtain resp where resp: "po_result (proxy_v1 run_env example_config Map.empty run_request) = Some (Inr resp)"
    "cr_status resp = 200" "cr_body resp \<noteq> Streamed None"
    using run_response [of Map.empty] by auto
  have other: "length (filter (\<lambda>op. rr_id (op_record op) \<noteq> rr_id (sample_record ''a''))
      ([OpUpsert True 2 (sample_record ''b'')] @ [])) < clamp_retention 2"
    by (simp add: clamp_retention_def MAX_RETENTION_REQUESTS_def)
  show "\<exists>r. store_get ''a'' (fold store_step ([] @ OpUpsert True 2 (sample_record ''a'')
      # [OpUpsert True 2 (sample_record ''b'')]
      @ record_answer (OpFinal True 2) (stored_final 7 (rr_base (sample_record ''a'')) timed (rr_timeline (sample_record ''a'')))
          (po_effects (proxy_v1 run_env example_config Map.empty run_request)) @ []) store_new) = Some r
    \<and> rr_status r = 200"
    using inspector_shows_answer [OF resp(1,3) _ refl _ _ _ other, of "OpFinal True 2" "[]" 7 timed "rr_timeline (sample_record ''a'')"] resp(2)
    by (simp add: sample_record_id record_ids_def store_new_def store_from_parts_def)
qed

end
