(* ===== verification/Request_Captures.thy ===== *)
theory Request_Captures
  imports Request_Session_Correct Traffic
begin

text \<open>
  What the request path writes to the capture directory: nothing when captures are off, nothing for a request without a
  failure when only failures are captured, and everything in private directories below the configured one.
\<close>

section \<open>Operations that do not touch captures\<close>

definition capture_state ::
  "request_session \<Rightarrow> fs_op list \<times> request_capture option \<times> capture_request option \<times> debug_capture_config" where
  "capture_state s = (qs_files s, qs_capture s, qs_pending s, qs_capture_config s)"

lemma capture_state_tick [simp]: "capture_state (tick s) = capture_state s"
  by (simp add: capture_state_def tick_def)

lemma capture_state_ops [simp]:
  "capture_state (report_effects es s) = capture_state s" "capture_state (log_event_op e s) = capture_state s"
  "capture_state (fst (stamp env ev s)) = capture_state s" "capture_state (live_change f s) = capture_state s"
  "capture_state (live_upsert env s) = capture_state s" "capture_state (finalize_live r s) = capture_state s"
  "capture_state (record_request r s) = capture_state s"
  "capture_state (record_context_inspector env oc st k n tk s) = capture_state s"
  by (simp_all add: capture_state_def report_effects_def log_event_op_def stamp_def live_change_def live_upsert_def tick_def
      finalize_live_def record_request_def record_context_inspector_def split_beta Let_def)

lemma capture_state_updates [simp]:
  "capture_state (s\<lparr>qs_ix := ix\<rparr>) = capture_state s" "capture_state (s\<lparr>qs_attempt := n\<rparr>) = capture_state s"
  "capture_state (s\<lparr>qs_reads := n\<rparr>) = capture_state s" "capture_state (s\<lparr>qs_captured := n\<rparr>) = capture_state s"
  "capture_state (s\<lparr>qs_store := st\<rparr>) = capture_state s"
  by (simp_all add: capture_state_def)

lemma capture_state_composed [simp]:
  "capture_state (record_retried_attempt env a s) = capture_state s"
  "capture_state (record_final_attempt env st us oc k s) = capture_state s"
  "capture_state (warn_proxy_failure env st kd ev s) = capture_state s"
  "capture_state (warn_proxy_retry env r st kd ev s) = capture_state s"
  "capture_state (warn_plain fs m s) = capture_state s" "capture_state (warn_non_success ust st p s) = capture_state s"
  "capture_state (warn_exposed ust st n s) = capture_state s" "capture_state (debug_buffered st n s) = capture_state s"
  "capture_state (debug_stream_started st s) = capture_state s"
  "capture_state (debug_stream_completed st d mt s) = capture_state s"
  "capture_state (stamp_current env tev f s) = capture_state s" "capture_state (push_current g s) = capture_state s"
  "capture_state (session_arrived env b s) = capture_state s" "capture_state (fst (start_attempt env s)) = capture_state s"
  "capture_state (fst (stamp_capture env b s)) = capture_state s" "capture_state (publish_context env s) = capture_state s"
  by (simp_all add: record_retried_attempt_def record_final_attempt_def warn_proxy_failure_def warn_proxy_retry_def
      warn_plain_def warn_non_success_def warn_exposed_def debug_buffered_def debug_stream_started_def
      debug_stream_completed_def stamp_current_def push_current_def session_arrived_def start_attempt_def stamp_capture_def
      publish_context_def split_beta Let_def split: option.split)

lemma capture_state_read_body [simp]: "capture_state (fst (session_read_body env bytes es s)) = capture_state s"
  by (induction env bytes es s rule: session_read_body.induct) simp_all

lemma capture_state_read_capped [simp]: "capture_state (fst (session_read_capped env cap bytes es s)) = capture_state s"
  by (induction env cap bytes es s rule: session_read_capped.induct) (simp_all add: Let_def)

lemma capture_state_error_body [simp]: "capture_state (fst (read_error_body env r s)) = capture_state s"
proof -
  obtain s1 res where c: "session_read_capped env MAX_UPSTREAM_ERROR_CAPTURE_BYTES [] (ur_body r) s = (s1, res)" by fastforce
  then have "capture_state s1 = capture_state s" by (metis capture_state_read_capped fst_conv)
  then show ?thesis by (simp add: read_error_body_def c split: sum.split body_read_error.split)
qed

section \<open>Confinement\<close>

definition segment :: "string \<Rightarrow> bool" where
  "segment i \<longleftrightarrow> list_all storage_safe i \<and> CHR ''/'' \<notin> set i \<and> is_ascii_digit (hd i)"

definition confined_op :: "string \<Rightarrow> fs_op \<Rightarrow> bool" where
  "confined_op root op \<longleftrightarrow> (\<exists>i. segment i \<and> private_op root i op)"

definition confined_capture :: "string \<Rightarrow> request_capture \<Rightarrow> bool" where
  "confined_capture root cap \<longleftrightarrow> (\<exists>i. segment i \<and> cap_directory cap = path_join root i)"

text \<open>Holds between any two operations: everything is confined, and there is nothing at all when captures are off.\<close>

definition capture_base :: "debug_capture_config \<Rightarrow> request_session \<Rightarrow> bool" where
  "capture_base C s \<longleftrightarrow> qs_capture_config s = C \<and>
     list_all (confined_op (dc_directory C)) (qs_files s) \<and>
     pred_option (confined_capture (dc_directory C)) (qs_capture s) \<and>
     (\<not> dc_enabled C \<longrightarrow> qs_files s = [] \<and> qs_capture s = None \<and> qs_pending s = None)"

lemma capture_base_cong: "capture_state s = capture_state s' \<Longrightarrow> capture_base C s = capture_base C s'"
  by (simp add: capture_base_def capture_state_def)

lemma segment_capture_id: "segment (capture_id t pid n r)"
  using capture_id_segment by (simp add: segment_def)

lemma take_capture_confined:
  "list_all (confined_op (dc_directory (qs_capture_config s))) (fst (take_capture env s p))"
  "pred_option (confined_capture (dc_directory (qs_capture_config s))) (snd (take_capture env s p))"
proof -
  let ?i = "capture_id (wall_now env s) (qe_pid env) (qe_sequence env (qs_captured s)) (cq_request_id p)"
  have "list_all (private_op (dc_directory (qs_capture_config s)) ?i) (fst (take_capture env s p))"
    using create_capture_private by (simp add: take_capture_def capture_request_op_def)
  then show "list_all (confined_op (dc_directory (qs_capture_config s))) (fst (take_capture env s p))"
    using segment_capture_id unfolding confined_op_def list_all_iff by blast
  show "pred_option (confined_capture (dc_directory (qs_capture_config s))) (snd (take_capture env s p))"
  proof (cases "snd (take_capture env s p)")
    case (Some cap)
    then have "cap_directory cap = path_join (dc_directory (qs_capture_config s)) ?i"
      using create_capture_directory by (simp add: take_capture_def capture_request_op_def split: if_splits)
    then have "confined_capture (dc_directory (qs_capture_config s)) cap"
      using segment_capture_id unfolding confined_capture_def by blast
    then show ?thesis using Some by simp
  qed simp
qed

lemma capture_base_set:
  assumes "capture_base C s" and "pred_option (confined_capture (dc_directory (qs_capture_config s))) c"
    and "\<not> dc_enabled (qs_capture_config s) \<longrightarrow> c = None \<and> p = None"
  shows "capture_base C (set_capture c p s)"
  using assms by (simp add: capture_base_def set_capture_def)

lemma capture_base_write:
  "capture_base C s \<Longrightarrow> list_all (confined_op (dc_directory (qs_capture_config s))) ops \<Longrightarrow>
     dc_enabled (qs_capture_config s) \<or> ops = [] \<Longrightarrow> capture_base C (write_files ops s)"
  by (auto simp: capture_base_def write_files_def)

lemma capture_base_choose: "capture_base C s \<Longrightarrow> capture_base C (choose_capture env p s)"
proof -
  assume s: "capture_base C s"
  have "capture_base C (write_files (fst (take_capture env s p)) (tick (s\<lparr>qs_captured := Suc (qs_captured s)\<rparr>)))"
    if "dc_enabled (qs_capture_config s)"
    using s that take_capture_confined(1) [of s env p]
    by (intro capture_base_write) (auto simp: tick_def capture_base_def)
  then show ?thesis
    using s take_capture_confined(2) [of s env p]
    by (auto simp: choose_capture_def split_beta Let_def write_files_def tick_def intro!: capture_base_set)
qed

text \<open>Updates of a capture keep its directory and write below it.\<close>

definition confined_update :: "(request_capture \<Rightarrow> fs_op list \<times> request_capture) \<Rightarrow> bool" where
  "confined_update f \<longleftrightarrow> (\<forall>root i cap. cap_directory cap = path_join root i \<longrightarrow>
     list_all (private_op root i) (fst (f cap)) \<and> cap_directory (snd (f cap)) = path_join root i)"

lemma confined_updates:
  "confined_update (record_outcome mw x)" "confined_update (record_stream_usage mw d)"
  "confined_update (record_stream_summary mw side t)" "confined_update (record_upstream_error_response io mw st ct b tr)"
  using capture_update_private [where u = "UpOutcome x"] capture_update_private [where u = "UpUsage d"]
    capture_update_private [where u = "UpSummary side t"] capture_update_private [where u = "UpError st ct b tr"]
  unfolding confined_update_def by auto

lemma capture_base_change:
  assumes "capture_base C s" and "confined_update f"
  shows "capture_base C (change_capture f s)"
proof (cases "qs_capture s")
  case (Some cap)
  let ?root = "dc_directory (qs_capture_config s)"
  obtain i where i: "segment i" "cap_directory cap = path_join ?root i"
    using assms(1) Some by (auto simp: capture_base_def confined_capture_def)
  then have u: "list_all (private_op ?root i) (fst (f cap))" "cap_directory (snd (f cap)) = path_join ?root i"
    using assms(2) unfolding confined_update_def by blast+
  have "list_all (confined_op ?root) (fst (f cap))" using u(1) i(1) unfolding confined_op_def list_all_iff by blast
  moreover have "confined_capture ?root (snd (f cap))" using u(2) i(1) unfolding confined_capture_def by blast
  ultimately show ?thesis
    using assms(1) Some by (simp add: change_capture_def capture_base_def set_capture_def write_files_def split_beta Let_def)
qed (use assms in \<open>simp add: change_capture_def\<close>)

lemma capture_base_outcome: "capture_base C s \<Longrightarrow> capture_base C (capture_outcome_op env x s)"
  unfolding capture_outcome_op_def by (intro capture_base_change confined_updates)

lemma capture_base_error_body: "capture_base C s \<Longrightarrow> capture_base C (capture_error_body env r x s)"
  by (auto simp: capture_error_body_def intro: capture_base_change confined_updates split: option.split)

lemma late_capture_confined:
  assumes "capture_base C s"
  shows "list_all (confined_op (dc_directory (qs_capture_config s))) (late_capture env s)"
    "dc_enabled (qs_capture_config s) \<or> late_capture env s = []"
  using assms take_capture_confined(1) by (auto simp: late_capture_def capture_base_def split: option.split)

lemma ensure_failure_fields:
  "fst (ensure_failure_debug_capture f t p c tline a) = (if c = None then None else p)"
  "fst (snd (ensure_failure_debug_capture f t p c tline a)) = (if c = None then Option.bind p f else c)"
  by (simp_all add: ensure_failure_debug_capture_def split_beta Let_def split: option.split)

lemma capture_base_ensure: "capture_base C s \<Longrightarrow> capture_base C (fst (ensure_capture env a s))"
proof -
  assume s: "capture_base C s"
  let ?s = "if qs_capture s = None \<and> qs_pending s \<noteq> None
    then write_files (late_capture env s) (s\<lparr>qs_captured := Suc (qs_captured s)\<rparr>) else s"
  have "capture_base C (write_files (late_capture env s) (s\<lparr>qs_captured := Suc (qs_captured s)\<rparr>))"
    using s late_capture_confined [OF s, of env] by (auto simp: capture_base_def write_files_def)
  then have "capture_base C ?s" using s by simp
  then have w: "capture_base C (tick ?s)" "qs_capture_config (tick ?s) = qs_capture_config s"
    using capture_base_cong [of "tick ?s" ?s] by (simp_all add: tick_def write_files_def)
  let ?f = "\<lambda>p. snd (take_capture env s p)"
  have c: "pred_option (confined_capture (dc_directory (qs_capture_config s)))
      (if qs_capture s = None then Option.bind (qs_pending s) ?f else qs_capture s)"
    using s take_capture_confined(2) [of s env] by (cases "qs_pending s") (auto simp: capture_base_def)
  have "capture_base C (set_capture (if qs_capture s = None then Option.bind (qs_pending s) ?f else qs_capture s)
      (if qs_capture s = None then None else qs_pending s) (tick ?s))"
    using s w c by (intro capture_base_set) (auto simp: capture_base_def)
  then show ?thesis
    by (simp add: ensure_capture_def split_beta Let_def ensure_failure_fields capture_base_cong [OF capture_state_updates(1)]
        del: if_split)
qed

lemma capture_base_ensure_others:
  "capture_base C s \<Longrightarrow> capture_base C (ensure_current_capture env s)"
  "capture_base C s \<Longrightarrow> capture_base C (fst (ensure_attempt_capture env b s))"
  using capture_base_ensure
  by (simp_all add: ensure_current_capture_def ensure_attempt_capture_def split_beta Let_def
      capture_base_cong [OF capture_state_updates(1)])

section \<open>Captures of failures\<close>

definition failed :: "effect list \<Rightarrow> bool" where
  "failed es \<longleftrightarrow> list_ex report_failed (health es)"

text \<open>Holds wherever no failure is about to be reported: when only failures are captured, a capture implies a failure.\<close>

definition calm :: "request_session \<Rightarrow> bool" where
  "calm s \<longleftrightarrow> (dc_mode (qs_capture_config s) = CaptureFailures \<longrightarrow>
     qs_files s = [] \<and> qs_capture s = None \<or> failed (qs_effects s))"

definition capture_inv :: "debug_capture_config \<Rightarrow> request_session \<Rightarrow> bool" where
  "capture_inv C s \<longleftrightarrow> capture_base C s \<and> calm s"

lemma failed_append [simp]: "failed (es @ es') \<longleftrightarrow> failed es \<or> failed es'"
  by (simp add: failed_def)

lemma failed_cons [simp]:
  "failed [] = False" "failed (Health h # es) \<longleftrightarrow> report_failed h \<or> failed es" "failed (RequestMetric l st # es) = failed es"
  "failed (Sent b ob # es) = failed es" "failed (BackendAttempt l # es) = failed es" "failed (Inspect r # es) = failed es"
  "failed (UsageMetric l u # es) = failed es" "failed (StreamMetric l st # es) = failed es"
  by (simp_all add: failed_def)

lemma calm_cong:
  "capture_state s' = capture_state s \<Longrightarrow> failed (qs_effects s) \<longrightarrow> failed (qs_effects s') \<Longrightarrow> calm s \<Longrightarrow> calm s'"
  by (auto simp: calm_def capture_state_def)

lemma capture_inv_cong:
  "capture_state s' = capture_state s \<Longrightarrow> failed (qs_effects s) \<longrightarrow> failed (qs_effects s') \<Longrightarrow> capture_inv C s \<Longrightarrow> capture_inv C s'"
  using capture_base_cong calm_cong unfolding capture_inv_def by blast

lemma capture_inv_failed: "capture_base C s \<Longrightarrow> failed (qs_effects s) \<Longrightarrow> capture_inv C s"
  by (simp add: capture_inv_def calm_def)

lemma calm_outcome: "calm s \<Longrightarrow> calm (capture_outcome_op env x s)"
  by (auto simp: calm_def capture_outcome_op_def change_capture_def set_capture_def write_files_def split_beta Let_def
      split: option.split)

lemma capture_inv_outcome: "capture_inv C s \<Longrightarrow> capture_inv C (capture_outcome_op env x s)"
  by (simp add: capture_inv_def capture_base_outcome calm_outcome)

lemma capture_inv_choose: "capture_inv C s \<Longrightarrow> capture_inv C (choose_capture env p s)"
proof -
  have "calm s \<Longrightarrow> calm (choose_capture env p s)"
    by (auto simp: calm_def choose_capture_def set_capture_def write_files_def tick_def split_beta Let_def)
  then show "capture_inv C s \<Longrightarrow> capture_inv C (choose_capture env p s)"
    using capture_base_choose unfolding capture_inv_def by blast
qed

lemma effects_unchanged:
  "qs_effects (live_upsert env s) = qs_effects s" "qs_effects (choose_capture env p s) = qs_effects s"
  "qs_effects (fst (stamp env ev s)) = qs_effects s" "qs_effects (fst (stamp_capture env b s)) = qs_effects s"
  "qs_effects (session_arrived env b s) = qs_effects s" "qs_effects (capture_outcome_op env x s) = qs_effects s"
  "qs_effects (fst (start_attempt env s)) = qs_effects s @ [BackendAttempt (qs_labels s)]"
  "qs_effects (report_effects es s) = qs_effects s @ es" "qs_effects (warn_plain fs m s) = qs_effects s"
  "qs_effects (fst (ensure_attempt_capture env b s)) = qs_effects s" "qs_effects (ensure_current_capture env s) = qs_effects s"
  "qs_effects (warn_non_success ust st path s) = qs_effects s" "qs_effects (warn_exposed ust st n s) = qs_effects s"
  "qs_effects (warn_proxy_failure env st k e s) = qs_effects s" "qs_effects (debug_buffered st n s) = qs_effects s"
  "qs_effects (live_change f s) = qs_effects s" "qs_effects (tick s) = qs_effects s"
  "qs_effects (log_event_op le s) = qs_effects s"
  by (simp_all add: bare_fields(2,4) bare_ensure_attempt)
    (simp_all add: session_arrived_def start_attempt_def split_beta Let_def bare_context_def live_upsert_def live_change_def
      tick_def report_effects_def stamp_def)

lemma capture_inv_prepare:
  assumes "capture_inv C s"
  shows "capture_inv C (fst (session_prepare_outbound env rq s))"
proof -
  let ?s0 = "fst (start_attempt env s)"
  have s0: "capture_inv C ?s0" by (rule capture_inv_cong [OF _ _ assms]) (simp_all add: effects_unchanged)
  show ?thesis
  proof (cases "prepare_outbound (qe_proxy env) rq (qs_route ?s0)")
    case (Inl e)
    then show ?thesis using s0 by (simp add: session_prepare_outbound_def split_beta Let_def)
  next
    case (Inr ob)
    let ?s1 = "live_upsert env (fst (stamp env RequestRewritten ?s0))"
    have "capture_inv C ?s1" by (rule capture_inv_cong [OF _ _ s0]) (simp_all add: effects_unchanged)
    from capture_inv_choose [OF this, of env "capture_request_of rq ob ?s1 (qe_proxy env)"] show ?thesis
      using Inr by (simp add: session_prepare_outbound_def split_beta Let_def)
        (erule capture_inv_cong [rotated 2]; simp add: effects_unchanged)
  qed
qed

lemma capture_base_apply_route: "capture_base C s \<Longrightarrow> capture_base C (session_apply_route env route s)"
  by (simp add: session_apply_route_def Let_def capture_base_cong [OF capture_state_ops(4)])
    (auto simp: capture_base_def set_capture_def)

lemma retry_captures:
  assumes "capture_base C s"
  shows "capture_inv C (session_record_retry env kind nxt b s)"
proof (rule capture_inv_failed)
  have "qs_effects (session_record_retry env kind nxt b s) = qs_effects s @
      [Health (ReportFailure (ml_backend (qs_labels s)) (client_status kind) (error_kind kind))]"
    by (simp add: session_record_retry_def record_retried_attempt_def Let_def bare_fields(2-4) apply_route_def)
  then show "failed (qs_effects (session_record_retry env kind nxt b s))" by simp
  let ?s = "capture_outcome_op env (capture_failure kind) s"
  have "capture_base C ?s" using assms by (rule capture_base_outcome)
  then show "capture_base C (session_record_retry env kind nxt b s)"
    unfolding session_record_retry_def Let_def
    by (intro capture_base_apply_route) (erule capture_base_cong [THEN iffD1, rotated], simp)
qed

lemma final_failure_captures:
  assumes "capture_base C s"
  shows "capture_inv C (fst (session_record_final_failure env kind b s))"
proof (rule capture_inv_failed)
  show "failed (qs_effects (fst (session_record_final_failure env kind b s)))"
    by (simp add: session_record_final_failure_def Let_def bare_fields(2,4) record_context_bare)
  have "capture_base C (capture_outcome_op env (capture_failure kind) (report_effects [RequestMetric (qs_labels s) (client_status kind)] s))"
    using assms by (intro capture_base_outcome) (simp add: capture_base_cong [OF capture_state_ops(1)])
  then show "capture_base C (fst (session_record_final_failure env kind b s))"
    by (simp add: session_record_final_failure_def Let_def) (subst capture_base_cong; simp)
qed

lemma attempt_loop_captures: "capture_inv C s \<Longrightarrow> capture_inv C (fst (session_attempt_loop env rq s fallbacks))"
proof (induction "length fallbacks" arbitrary: s fallbacks rule: less_induct)
  case less
  obtain s1 res where p: "session_prepare_outbound env rq s = (s1, res)" by fastforce
  have s1: "capture_inv C s1" using capture_inv_prepare [OF less.prems, of env rq] p by simp
  note loop = session_attempt_loop.simps [of env rq s] p Let_def
  show ?case
  proof (cases res)
    case (Inl e)
    then show ?thesis using s1 by (simp add: loop)
  next
    case (Inr y)
    obtain b ob where y: "y = (b, ob)" by fastforce
    define s2 where "s2 = report_effects [Sent (sr_backend_id (qs_route s1)) ob] s1"
    have s2: "capture_inv C s2" by (rule capture_inv_cong [OF _ _ s1]) (simp_all add: s2_def effects_unchanged)
    obtain s3 b3 where e3: "ensure_attempt_capture env b s2 = (s3, b3)" by fastforce
    have s3: "capture_base C s3" using capture_base_ensure_others(2) [of C s2 env b] s2 e3 by (simp add: capture_inv_def)
    have s4: "capture_inv C (session_arrived env b s2)" "capture_inv C (warn_plain fs m s2)" for fs m
      by (rule capture_inv_cong [OF _ _ s2]; simp add: effects_unchanged)+
    show ?thesis
    proof (cases "pe_send (qe_proxy env) (qs_attempt s2) ob")
      case (SendError e)
      show ?thesis
      proof (cases "is_retryable (classify_failure e) \<and> fallbacks \<noteq> []")
        case True
        then obtain nxt rest where "fallbacks = nxt # rest" by (cases fallbacks) auto
        then show ?thesis
          using True SendError less.hyps [OF _ retry_captures [OF s3], of rest]
          by (simp add: loop Inr y s2_def [symmetric] e3)
      next
        case False
        then show ?thesis
          using SendError final_failure_captures [OF s3]
          by (cases fallbacks) (auto simp: loop Inr y s2_def [symmetric] e3 split: bool.split)
      qed
    qed (use s4 in \<open>simp_all add: loop Inr y s2_def [symmetric]\<close>)
  qed
qed

lemma capture_base_report: "capture_base C (report_effects es s) = capture_base C s"
  by (rule capture_base_cong) simp

lemma report_non_success_captures:
  "capture_base C s \<Longrightarrow> capture_base C (report_non_success env st s)" "failed (qs_effects (report_non_success env st s))"
proof -
  let ?s = "capture_outcome_op env (CapUpstreamNonSuccess st (map_upstream_status st))
    (report_effects [RequestMetric (qs_labels s) (map_upstream_status st)] s)"
  have "capture_state (report_non_success env st s) = capture_state ?s" by (simp add: report_non_success_def Let_def)
  then show "capture_base C s \<Longrightarrow> capture_base C (report_non_success env st s)"
    using capture_base_cong capture_base_outcome capture_base_report by blast
  have "qs_effects (record_final_attempt env status us oc k s) = qs_effects s" for status us oc k s
    by (simp add: record_final_attempt_def effects_unchanged tick_def)
  then show "failed (qs_effects (report_non_success env st s))"
    by (simp add: report_non_success_def Let_def effects_unchanged)
qed

lemma record_context_effects:
  "failed (qs_effects (record_context_inspector env oc st k n tk s)) = failed (qs_effects s)"
  by (simp add: bare_fields(4) record_context_bare final_record_def)

lemma non_success_captures:
  assumes "capture_base C s"
  shows "capture_inv C (fst (session_non_success env rq r s))"
proof -
  define s1 where "s1 = capture_error_body env r (snd (read_error_body env r (ensure_current_capture env s)))
    (fst (read_error_body env r (ensure_current_capture env s)))"
  have "capture_base C (fst (read_error_body env r (ensure_current_capture env s)))"
    using capture_base_ensure_others(1) [OF assms, of env] capture_base_cong [OF capture_state_error_body] by blast
  then have s1: "capture_base C s1" unfolding s1_def by (rule capture_base_error_body)
  have fwd: "capture_inv C (fst (session_forward_error env r body s1))" for body
  proof (rule capture_inv_failed)
    show "failed (qs_effects (fst (session_forward_error env r body s1)))"
      using report_non_success_captures(2)
      by (simp add: session_forward_error_def Let_def record_context_effects effects_unchanged)
    have "capture_state (fst (session_forward_error env r body s1)) = capture_state (report_non_success env (ur_status r) s1)"
      by (simp add: session_forward_error_def Let_def)
    then show "capture_base C (fst (session_forward_error env r body s1))"
      using report_non_success_captures(1) [OF s1] capture_base_cong by blast
  qed
  have san: "capture_inv C (fst (session_sanitize_error env rq r s1))"
  proof (rule capture_inv_failed)
    let ?w = "warn_non_success (ur_status r) (map_upstream_status (ur_status r)) (pr_path rq) s1"
    show "failed (qs_effects (fst (session_sanitize_error env rq r s1)))"
      using report_non_success_captures(2)
      by (simp add: session_sanitize_error_def Let_def record_context_effects effects_unchanged)
    have "capture_base C ?w" using s1 capture_base_cong [of ?w s1] by simp
    moreover have "capture_state (fst (session_sanitize_error env rq r s1)) = capture_state (report_non_success env (ur_status r) ?w)"
      by (simp add: session_sanitize_error_def Let_def)
    ultimately show "capture_base C (fst (session_sanitize_error env rq r s1))"
      using report_non_success_captures(1) capture_base_cong by blast
  qed
  show ?thesis
    using fwd san by (simp add: session_non_success_def split_beta Let_def s1_def [symmetric] split: option.split)
qed

lemma record_request_effects: "failed (qs_effects (record_request r s)) = failed (qs_effects s)"
  by (simp add: record_request_def tick_def report_effects_def)

lemma push_current_effects: "qs_effects (push_current f s) = qs_effects s"
  by (simp add: push_current_def tick_def split: option.split)

lemma buffered_failed_captures:
  assumes "capture_base C s"
  shows "capture_inv C (buffered_failed env r e s)"
proof (rule capture_inv_failed)
  show "failed (qs_effects (buffered_failed env r e s))"
    by (simp add: buffered_failed_def Let_def record_request_effects push_current_effects effects_unchanged)
  let ?s = "warn_plain [(''error_kind'', LText (upstream_error_kind e))] ''failed to read upstream body'' s"
  have "capture_base C (report_effects [RequestMetric (qs_labels ?s) 502] ?s)"
    using assms capture_base_cong [of "report_effects [RequestMetric (qs_labels ?s) 502] ?s" s] by simp
  then have "capture_base C (capture_outcome_op env (CapUpstreamBodyReadFailed 502 (upstream_error_kind e))
      (ensure_current_capture env (report_effects [RequestMetric (qs_labels ?s) 502] ?s)))"
    by (intro capture_base_outcome capture_base_ensure_others)
  then show "capture_base C (buffered_failed env r e s)"
    unfolding buffered_failed_def Let_def by (rule capture_base_cong [THEN iffD1, rotated]) simp
qed

lemma buffered_completed_captures:
  assumes "capture_inv C s"
  shows "capture_inv C (buffered_completed env r bytes usage s)"
proof -
  let ?s0 = "fst (stamp env ResponseRewritten s)"
  let ?s1 = "live_change (\<lambda>x. x\<lparr>rr_timeline := snapshot_now env ?s0\<rparr>) ?s0"
  let ?s2 = "debug_buffered (ur_status r) (length bytes)
    (report_effects [UsageMetric (qs_labels ?s1) usage, RequestMetric (qs_labels ?s1) (ur_status r)] ?s1)"
  have "capture_inv C ?s2" by (rule capture_inv_cong [OF _ _ assms]) (simp_all add: effects_unchanged)
  from capture_inv_outcome [OF this, of env "CapSuccess (ur_status r)"] show ?thesis
    unfolding buffered_completed_def Let_def split_beta
    by (rule capture_inv_cong [rotated 2])
      (simp_all add: record_request_effects push_current_effects effects_unchanged)
qed

lemma buffered_captures:
  assumes "capture_inv C s"
  shows "capture_inv C (fst (session_buffered_response env rq r s))"
proof -
  obtain s1 res where p: "session_read_body env [] (ur_body r) s = (s1, res)" by fastforce
  have "qs_effects s1 = qs_effects s" using read_body_bare(1) [of env "[]" "ur_body r" s] p by (simp add: bare_fields(4))
  moreover have "capture_state s1 = capture_state s" using capture_state_read_body [of env "[]" "ur_body r" s] p by simp
  ultimately have s1: "capture_inv C s1" using capture_inv_cong [OF _ _ assms] by simp
  have w: "capture_inv C (warn_plain fs m s1)" for fs m
    by (rule capture_inv_cong [OF _ _ s1]) (simp_all add: effects_unchanged)
  show ?thesis
    using s1 w buffered_failed_captures [of C s1] buffered_completed_captures [OF s1]
    by (simp add: session_buffered_response_def Let_def p capture_inv_def [of _ s1] split: sum.split body_read_error.split option.split prod.split)
qed

section \<open>Captures of streams\<close>

lemma confined_then:
  assumes "confined_update f" and "confined_update g"
  shows "confined_update (\<lambda>cap. then_update f (g cap))"
  using assms unfolding confined_update_def then_update_def by (simp add: split_beta Let_def)

lemma finish_capture_confined: "confined_update (finish_capture mw en m)"
proof -
  have start: "confined_update (\<lambda>cap. ([], cap))" by (simp add: confined_update_def)
  have side: "confined_update (\<lambda>cap. (case x of Some t \<Rightarrow> then_update (record_stream_summary mw side t) | None \<Rightarrow> id) (f cap))"
    if "confined_update f" for x side f
    using that by (cases x) (simp_all add: confined_then confined_updates)
  have "finish_capture mw en m = (\<lambda>cap. then_update (record_outcome mw (stream_capture_outcome (sn_status en) (sn_duration_ms en) m))
      (then_update (record_stream_usage mw (sm_usage_diagnostics m))
        ((case sn_client_timings en of Some t \<Rightarrow> then_update (record_stream_summary mw ''client_response'' t) | None \<Rightarrow> id)
          ((case sn_upstream_timings en of Some t \<Rightarrow> then_update (record_stream_summary mw ''upstream_response'' t) | None \<Rightarrow> id)
            ([], cap)))))"
    by (intro ext) (simp add: finish_capture_def)
  then show ?thesis by (simp add: confined_then confined_updates side start)
qed

text \<open>The files and the capture that the drop of a stream leaves.\<close>

lemma session_drop_captures:
  "fst (session_drop mw late en ss) =
     (case (if sm_stream_error_kind (ss_metrics ss) \<noteq> None \<and> sn_debug_capture en = None then Option.bind (sn_pending en) late
            else sn_debug_capture en) of
        Some cap \<Rightarrow> fst (finish_capture mw en (ss_metrics ss) cap) | None \<Rightarrow> [])"
  "fst (snd (session_drop mw late en ss)) =
     (case (if sm_stream_error_kind (ss_metrics ss) \<noteq> None \<and> sn_debug_capture en = None then Option.bind (sn_pending en) late
            else sn_debug_capture en) of
        Some cap \<Rightarrow> Some (snd (finish_capture mw en (ss_metrics ss) cap)) | None \<Rightarrow> None)"
proof -
  have d: "fst (drop_capture late en s) =
      (if sm_stream_error_kind (ss_metrics s) \<noteq> None \<and> sn_debug_capture en = None then Option.bind (sn_pending en) late
       else sn_debug_capture en)" for s
    by (simp add: drop_capture_def ensure_failure_fields)
  show "fst (session_drop mw late en ss) =
     (case (if sm_stream_error_kind (ss_metrics ss) \<noteq> None \<and> sn_debug_capture en = None then Option.bind (sn_pending en) late
            else sn_debug_capture en) of
        Some cap \<Rightarrow> fst (finish_capture mw en (ss_metrics ss) cap) | None \<Rightarrow> [])"
    "fst (snd (session_drop mw late en ss)) =
     (case (if sm_stream_error_kind (ss_metrics ss) \<noteq> None \<and> sn_debug_capture en = None then Option.bind (sn_pending en) late
            else sn_debug_capture en) of
        Some cap \<Rightarrow> Some (snd (finish_capture mw en (ss_metrics ss) cap)) | None \<Rightarrow> None)"
    by (simp_all add: session_drop_def drop_record_def split_beta Let_def live_timeline_store d split: option.split)
qed

lemma stream_dropped_captures:
  assumes "capture_inv C s"
  shows "capture_inv C (stream_dropped env status started ss s)"
proof -
  let ?m = "ss_metrics ss" and ?root = "dc_directory (qs_capture_config s)" and ?late = "\<lambda>p. snd (take_capture env s p)"
  let ?en = "stream_end_of env status started ss s"
  define late where "late = (if sm_stream_error_kind ?m = None then [] else late_capture env s)"
  define taken where "taken = (if sm_stream_error_kind ?m \<noteq> None \<and> qs_capture s = None then Option.bind (qs_pending s) ?late
    else qs_capture s)"
  define ops where "ops = (case taken of Some cap \<Rightarrow> fst (finish_capture (qe_metadata env) ?en ?m cap) | None \<Rightarrow> [])"
  define c where "c = (case taken of Some cap \<Rightarrow> Some (snd (finish_capture (qe_metadata env) ?en ?m cap)) | None \<Rightarrow> None)"
  let ?s = "stream_dropped env status started ss s"
  have drop: "fst (session_drop (qe_metadata env) ?late ?en ss) = ops" "fst (snd (session_drop (qe_metadata env) ?late ?en ss)) = c"
    unfolding session_drop_captures ops_def c_def taken_def by (simp_all add: stream_end_of_def)
  have st: "qs_files ?s = qs_files s @ late @ ops" "qs_capture ?s = c" "qs_pending ?s = qs_pending s"
    "qs_capture_config ?s = qs_capture_config s"
    by (simp_all add: stream_dropped_def split_beta Let_def drop late_def report_effects_def log_event_op_def write_files_def
        tick_def debug_stream_completed_def)
  have base: "capture_base C s" and calm: "calm s" using assms by (simp_all add: capture_inv_def)
  have "pred_option (confined_capture ?root) taken"
    using base take_capture_confined(2) [of s env] by (cases "qs_pending s") (auto simp: taken_def capture_base_def)
  then have fin: "list_all (confined_op ?root) ops" "pred_option (confined_capture ?root) c"
  proof (atomize (full), cases taken)
    case (Some cap)
    assume "pred_option (confined_capture ?root) taken"
    then obtain i where i: "segment i" "cap_directory cap = path_join ?root i" using Some by (auto simp: confined_capture_def)
    then show "list_all (confined_op ?root) ops \<and> pred_option (confined_capture ?root) c"
      using finish_capture_confined [of "qe_metadata env" ?en ?m] Some
      unfolding confined_update_def ops_def c_def confined_op_def confined_capture_def list_all_iff by auto
  qed (simp add: ops_def c_def)
  have off: "late = [] \<and> ops = [] \<and> c = None" if "\<not> dc_enabled (qs_capture_config s)"
    using that base by (simp add: capture_base_def late_def late_capture_def taken_def ops_def c_def)
  have "capture_base C ?s"
    using base fin off late_capture_confined(1) [OF base, of env] by (auto simp: capture_base_def st late_def)
  moreover have "calm ?s"
  proof (cases "sm_stream_error_kind ?m")
    case None
    then have "late = []" "qs_capture s = None \<Longrightarrow> ops = [] \<and> c = None" by (simp_all add: late_def taken_def ops_def c_def)
    moreover have "failed (qs_effects s) \<Longrightarrow> failed (qs_effects ?s)"
      by (simp add: stream_dropped_def split_beta Let_def effects_unchanged debug_stream_completed_def log_event_op_def
          write_files_def)
    ultimately show ?thesis using calm by (auto simp: calm_def st)
  next
    case (Some k)
    then have "failed (qs_effects ?s)"
      by (simp add: stream_dropped_def split_beta Let_def effects_unchanged debug_stream_completed_def log_event_op_def
          write_files_def stream_health_def)
    then show ?thesis by (simp add: calm_def)
  qed
  ultimately show ?thesis by (simp add: capture_inv_def)
qed

lemma streaming_captures:
  assumes "capture_inv C s"
  shows "capture_inv C (fst (session_streaming_response env rq r s))"
proof -
  let ?s1 = "debug_stream_started (ur_status r) (report_effects [RequestMetric (qs_labels s) (ur_status r)] s)"
  have d: "qs_effects (debug_stream_started st x) = qs_effects x" for st x by (simp add: debug_stream_started_def log_event_op_def)
  have s1: "capture_inv C ?s1" by (rule capture_inv_cong [OF _ _ assms]) (simp_all add: effects_unchanged d)
  have reads: "capture_inv C (?s1\<lparr>qs_reads := n\<rparr>)" "capture_inv C (warn_plain fs m (?s1\<lparr>qs_reads := n\<rparr>))" for n fs m
    by (rule capture_inv_cong [OF _ _ s1]; simp add: effects_unchanged)+
  show ?thesis
    using s1 reads stream_dropped_captures
    by (simp add: session_streaming_response_def Let_def split: option.split prod.split)
qed

lemma do_proxy_captures:
  assumes "capture_inv C s"
  shows "capture_inv C (fst (session_do_proxy env rq s fallbacks))"
proof -
  obtain s1 res where l: "session_attempt_loop env rq s fallbacks = (s1, res)" by fastforce
  then have "capture_inv C s1" using attempt_loop_captures [OF assms, of env rq fallbacks] by simp
  then show ?thesis
    using l non_success_captures streaming_captures buffered_captures
    by (simp add: session_do_proxy_def capture_inv_def [of _ s1] split: sum.split)
qed

section \<open>The handler\<close>

definition captures_ok :: "config \<Rightarrow> session_outcome \<Rightarrow> bool" where
  "captures_ok cfg out \<longleftrightarrow>
     list_all (confined_op (dc_directory (cfg_debug_capture cfg))) (so_files out) \<and>
     (\<not> dc_enabled (cfg_debug_capture cfg) \<longrightarrow> so_files out = []) \<and>
     (dc_mode (cfg_debug_capture cfg) = CaptureFailures \<longrightarrow> so_files out = [] \<or> failed (po_effects out))"

lemma forward_captures: "captures_ok cfg (session_forward env cfg q ob ident shape routes c store)"
proof -
  let ?f = "take (rc_fallback_attempts (cfg_routing cfg)) (nev_tail routes)"
  let ?s0 = "session_context env cfg q ob ident shape (nev_head routes) (1 + length ?f) store"
  let ?rq = "\<lparr>pr_method = rqc_method q, pr_path = rqc_path q, pr_query = rqc_query q,
             pr_headers = rqc_headers q, pr_content_type = header_str (rqc_headers q) ''content-type'',
             pr_stream = sh_stream shape, pr_body = rqc_body q\<rparr>"
  have c: "capture_inv (cfg_debug_capture cfg) ?s0"
    by (simp add: session_context_def Let_def capture_inv_def capture_base_def calm_def)
  have "capture_inv (cfg_debug_capture cfg) (publish_context env ?s0)"
    by (rule capture_inv_cong [OF _ _ c]) (simp_all add: publish_context_def Let_def effects_unchanged)
  from do_proxy_captures [OF this, of env ?rq ?f] show ?thesis
    by (auto simp: session_forward_def captures_ok_def capture_inv_def capture_base_def calm_def split_beta Let_def)
qed

lemma session_captures: "captures_ok cfg (session_proxy_v1 env cfg c store peer q)"
proof -
  have "captures_ok cfg (handle_preflight_failure env ob es rt i m st sg e c store)" for ob es rt i m st sg e c
    by (simp add: captures_ok_def handle_preflight_failure_def Let_def)
  then show ?thesis
    using forward_captures
    by (simp add: session_proxy_v1_def Let_def captures_ok_def [of _ "session_outcome.make _ _ _ _ _ _"]
        split: sum.split prod.split option.split)
      (simp add: captures_ok_def)
qed


end
