(* ===== verification/Request_Records.thy ===== *)
theory Request_Records
  imports Request_Captures
begin

text \<open>
  What the inspector holds when the handler returns: the live updates of the request have been replaced by its final
  record, which tells the status the client was given and the backends that were contacted.
\<close>

section \<open>Attempts and contacts\<close>

text \<open>In the proxy model: the finished attempts, and the one in progress, are the contacts.\<close>

definition attempts_told :: "proxy_context \<Rightarrow> string list \<Rightarrow> bool" where
  "attempts_told cx bs \<longleftrightarrow> labelled cx \<and> inspected (pc_effects cx) = [] \<and>
     map ar_backend (pc_backend_attempts cx) @ bs = map fst (sent (pc_effects cx))"

text \<open>A final record lists the contacts and is not a live one.\<close>

definition told :: "effect list \<Rightarrow> bool" where
  "told es \<longleftrightarrow> list_all (\<lambda>ir. ir_outcome ir \<noteq> InFlight \<and>
     map ar_backend (ir_backend_attempts ir) = map fst (sent es)) (inspected es)"

lemma final_record_inspected [simp]:
  "inspected [final_record oc st k as n tk x cx] =
     [\<lparr>ir_outcome = oc, ir_status = st, ir_error_kind = k, ir_backend_attempts = as,
       ir_retried_attempts = pc_retried_attempts cx, ir_response_body_bytes = n, ir_tokens = tk,
       ir_exposed_backend_error = x\<rparr>]"
  "sent [final_record oc st k as n tk x cx] = []"
  by (simp_all add: final_record_def)

lemma finish_attempt_backend [simp]: "ar_backend (finish_attempt cx st us oc k) = ml_backend (pc_labels cx)"
  by (simp add: finish_attempt_def)

fun loop_told :: "proxy_context \<times> (api_error + upstream_response) \<Rightarrow> bool" where
  "loop_told (cx, Inl e) = told (pc_effects cx)"
| "loop_told (cx, Inr r) = attempts_told cx [ml_backend (pc_labels cx)]"

lemma told_empty: "inspected es = [] \<Longrightarrow> told es"
  by (simp add: told_def)

lemma failure_outcome_final: "failure_inspector_outcome kind \<noteq> InFlight"
  by (cases kind) simp_all

lemma attempt_loop_told: "attempts_told cx [] \<Longrightarrow> loop_told (attempt_loop env rq cx fallbacks)"
proof (induction fallbacks arbitrary: cx)
  case Nil
  then show ?case
    by (auto simp: attempt_loop.simps [of env rq cx] attempt_once_def record_final_failure_def attempts_told_def told_def
        final_record_def labelled_def Let_def failure_outcome_final split: sum.split send_result.split bool.split)
next
  case (Cons nxt rest)
  let ?cx = "\<lambda>ob. emit_effects [Sent (sr_backend_id (pc_route cx)) ob] (emit_effects [BackendAttempt (pc_labels cx)] cx)"
  have IH: "loop_told (attempt_loop env rq (record_retry kind nxt (?cx ob)) rest)" for kind ob
    using Cons.prems
    by (intro Cons.IH) (auto simp: attempts_told_def labelled_def record_retry_def apply_route_def Let_def)
  show ?case
    using Cons.prems IH
    by (auto simp: attempt_loop.simps [of env rq cx] attempt_once_def record_final_failure_def attempts_told_def told_def
        final_record_def labelled_def Let_def failure_outcome_final split: sum.split send_result.split bool.split)
qed

lemma do_proxy_told:
  assumes "attempts_told cx []"
  shows "told (pc_effects (fst (do_proxy env rq cx fallbacks)))"
proof -
  obtain cx1 res where l: "attempt_loop env rq cx fallbacks = (cx1, res)" by fastforce
  note loop = attempt_loop_told [OF assms, of env rq fallbacks, unfolded l]
  show ?thesis
  proof (cases res)
    case (Inl e)
    then show ?thesis using l loop by (simp add: do_proxy_def)
  next
    case (Inr r)
    then have a: "attempts_told cx1 [ml_backend (pc_labels cx1)]" using loop by simp
    have "told (pc_effects (fst (non_success_response r cx1)))"
      using a by (simp add: non_success_response_def forward_upstream_error_def non_success_effects_def Let_def told_def
          attempts_told_def final_record_def split: option.split)
    moreover have "told (pc_effects (fst (streaming_response env rq r cx1)))"
      using a by (simp add: streaming_response_def stream_effects_def Let_def told_def attempts_told_def final_record_def
          stream_outcome_def split: option.split)
    moreover have "told (pc_effects (fst (buffered_response env rq r cx1)))"
      using a by (simp add: buffered_response_def Let_def told_def attempts_told_def final_record_def
          split: option.split sum.split body_read_error.split prod.split)
    ultimately show ?thesis using l Inr by (simp add: do_proxy_def)
  qed
qed

lemma proxy_v1_told: "told (po_effects (proxy_v1 env cfg c q))"
proof (rule proxy_v1_outcome [where P = "\<lambda>out. told (po_effects out)"])
  show "told (po_effects (forward env cfg q ident shape routes c))" for ident shape routes c
    by (simp add: forward_def Let_def split_beta do_proxy_told attempts_told_def labelled_def)
qed (auto simp: rejected_def preflight_effects_def told_def)

section \<open>The store\<close>

definition record_state :: "request_session \<Rightarrow> inspector_store \<times> string \<times> bool \<times> bool" where
  "record_state s = (qs_store s, ib_record_id (ix_base (qs_ix s)), qs_enabled s, lr_enabled (qs_live s))"

text \<open>The inspector is on, the ids in the store are distinct, and the request has its id.\<close>

definition recording :: "string \<Rightarrow> request_session \<Rightarrow> bool" where
  "recording k s \<longleftrightarrow> distinct (record_ids (qs_store s)) \<and> ib_record_id (ix_base (qs_ix s)) = k \<and> qs_enabled s \<and>
     lr_enabled (qs_live s)"

definition settled :: "string \<Rightarrow> request_session \<Rightarrow> bool" where
  "settled k s \<longleftrightarrow> (\<exists>r. store_get k (qs_store s) = Some r \<and> inspected (qs_effects s) = [bare_record r])"

lemma recording_cong: "record_state s' = record_state s \<Longrightarrow> recording k s' = recording k s"
  by (simp add: recording_def record_state_def)

lemma record_state_ops [simp]:
  "record_state (tick s) = record_state s" "record_state (report_effects es s) = record_state s"
  "record_state (log_event_op e s) = record_state s" "record_state (write_files ops s) = record_state s"
  "record_state (set_capture c p s) = record_state s" "record_state (fst (stamp env ev s)) = record_state s"
  "record_state (s\<lparr>qs_attempt := n\<rparr>) = record_state s" "record_state (s\<lparr>qs_reads := n\<rparr>) = record_state s"
  "record_state (s\<lparr>qs_captured := n\<rparr>) = record_state s"
  by (simp_all add: record_state_def tick_def report_effects_def log_event_op_def write_files_def set_capture_def stamp_def
      split_beta Let_def)

lemma record_state_ix [simp]:
  "record_state (s\<lparr>qs_ix := (qs_ix s)\<lparr>ix_timeline := tline\<rparr>\<rparr>) = record_state s"
  "record_state (s\<lparr>qs_ix := (qs_ix s)\<lparr>ix_current_attempt := a\<rparr>\<rparr>) = record_state s"
  "record_state (s\<lparr>qs_ix := (qs_ix s)\<lparr>ix_backend_attempts := x\<rparr>\<rparr>) = record_state s"
  "record_state (s\<lparr>qs_ix := (qs_ix s)\<lparr>ix_current_attempt := a, ix_backend_attempts := x\<rparr>\<rparr>) = record_state s"
  "record_state (s\<lparr>qs_ix := (qs_ix s)\<lparr>ix_backend_remote_addr := y, ix_current_attempt := a\<rparr>\<rparr>) = record_state s"
  "record_state (s\<lparr>qs_ix := context_record_retried_attempt at (qs_ix s)\<rparr>) = record_state s"
  "record_state (s\<lparr>qs_ix := context_record_final_attempt t st us oc kd (qs_ix s)\<rparr>) = record_state s"
  by (simp_all add: record_state_def context_record_retried_attempt_def context_record_final_attempt_def split: option.split)

lemma record_state_ensure [simp]: "record_state (fst (ensure_capture env a s)) = record_state s"
  by (simp add: ensure_capture_def split_beta Let_def)

lemma record_state_composed [simp]:
  "record_state (change_capture f s) = record_state s" "record_state (capture_outcome_op env x s) = record_state s"
  "record_state (choose_capture env p s) = record_state s" "record_state (ensure_current_capture env s) = record_state s"
  "record_state (fst (ensure_attempt_capture env b s)) = record_state s"
  "record_state (warn_plain fs m s) = record_state s" "record_state (warn_non_success ust st pth s) = record_state s"
  "record_state (warn_exposed ust st n s) = record_state s" "record_state (debug_buffered st n s) = record_state s"
  "record_state (debug_stream_started st s) = record_state s" "record_state (push_current g s) = record_state s"
  "record_state (warn_proxy_failure env st kd ev s) = record_state s"
  "record_state (warn_proxy_retry env r st kd ev s) = record_state s"
  "record_state (stamp_current env tev h s) = record_state s" "record_state (fst (start_attempt env s)) = record_state s"
  "record_state (capture_error_body env ur eb s) = record_state s"
  by (simp_all add: change_capture_def capture_outcome_op_def choose_capture_def ensure_current_capture_def
      ensure_attempt_capture_def warn_plain_def warn_non_success_def warn_exposed_def debug_buffered_def debug_stream_started_def
      push_current_def warn_proxy_failure_def warn_proxy_retry_def stamp_current_def start_attempt_def capture_error_body_def
      split_beta Let_def split: option.split)

lemma record_state_read_body [simp]: "record_state (fst (session_read_body env bytes es s)) = record_state s"
  by (induction env bytes es s rule: session_read_body.induct) simp_all

lemma record_state_read_capped [simp]: "record_state (fst (session_read_capped env cap bytes es s)) = record_state s"
  by (induction env cap bytes es s rule: session_read_capped.induct) (simp_all add: Let_def)

lemma record_state_error_body [simp]: "record_state (fst (read_error_body env r s)) = record_state s"
proof -
  obtain s1 res where c: "session_read_capped env MAX_UPSTREAM_ERROR_CAPTURE_BYTES [] (ur_body r) s = (s1, res)" by fastforce
  then have "record_state s1 = record_state s" by (metis record_state_read_capped fst_conv)
  then show ?thesis by (simp add: read_error_body_def c split: sum.split body_read_error.split)
qed

lemmas recording_same [simp] = record_state_ops [THEN recording_cong] record_state_ix [THEN recording_cong]
  record_state_ensure [THEN recording_cong] record_state_composed [THEN recording_cong]
  record_state_read_body [THEN recording_cong] record_state_error_body [THEN recording_cong]

lemma recording_live [simp]:
  "recording k s \<Longrightarrow> recording k (live_change f s)" "recording k s \<Longrightarrow> recording k (live_upsert env s)"
  by (auto simp: live_upsert_def)
    (auto simp: recording_def live_change_def live_update_def store_upsert_def record_ids_def upsert_distinct tick_def
      split_beta Let_def)

lemma recording_stamp_capture [simp]: "recording k s \<Longrightarrow> recording k (fst (stamp_capture env b s))"
  by (simp add: stamp_capture_def split_beta Let_def)

lemma recording_prepare: "recording k s \<Longrightarrow> recording k (fst (session_prepare_outbound env rq s))"
  by (simp add: session_prepare_outbound_def split_beta Let_def split: sum.split)

lemma recording_apply_route [simp]: "recording k s \<Longrightarrow> recording k (session_apply_route env route s)"
  by (simp add: session_apply_route_def Let_def) (rule recording_live,
      simp add: recording_def set_capture_def apply_route_base_def Let_def)

lemma recording_retry [simp]: "recording k s \<Longrightarrow> recording k (session_record_retry env kind nxt b s)"
  by (simp add: session_record_retry_def record_retried_attempt_def Let_def)

lemma recording_arrived [simp]: "recording k s \<Longrightarrow> recording k (session_arrived env b s)"
  by (simp add: session_arrived_def split_beta Let_def)

section \<open>Final records\<close>

lemma store_get_final:
  assumes "distinct (record_ids st)" and "rr_id r = k"
  shows "store_get k (store_upsert_final True n r st) = Some r" "store_get k (store_record True n r st) = Some r"
  using assms deque.find_put(2) [of "is_records st" r "clamp_retention n"]
  by (simp_all add: store_get_def store_upsert_final_def store_record_def record_ids_def Let_def)

lemma final_id:
  "recording k s \<Longrightarrow> rr_id (context_final_record now t (qs_ix s) oc st kd n tk) = k"
  by (simp add: recording_def context_final_record_def request_record_new_def context_base_def)

lemma settled_context:
  assumes "recording k s" and "inspected (qs_effects s) = []"
  shows "settled k (record_context_inspector env oc st kd n tk s)"
proof -
  define r where "r = context_final_record (wall_now env s) (elapsed_now env s) (qs_ix s) oc st kd n tk"
  let ?t = "ib_started_at_unix_ms (rr_base (lr_record (qs_live s)))"
  define r' where "r' = r\<lparr>rr_base := (rr_base r)\<lparr>ib_started_at_unix_ms := ?t\<rparr>,
    rr_timeline := (rr_timeline r)\<lparr>ts_started_unix_ms := ?t\<rparr>\<rparr>"
  have "rr_id r' = k" "bare_record r' = bare_record r"
    using final_id [OF assms(1)] by (simp_all add: r'_def r_def bare_record_def)
  moreover have "live_finalize r (qs_live s) (qs_store s) = store_upsert_final True (lr_retention_requests (qs_live s)) r' (qs_store s)"
    using assms(1) by (simp add: live_finalize_def recording_def r'_def Let_def)
  ultimately have "store_get k (live_finalize r (qs_live s) (qs_store s)) = Some r'"
    using store_get_final(1) assms(1) by (simp add: recording_def)
  then show ?thesis
    using assms(2) \<open>bare_record r' = bare_record r\<close>
    by (simp add: settled_def record_context_inspector_def r_def [symmetric] finalize_live_def report_effects_def tick_def)
qed

lemma settled_record:
  assumes "recording k s" and "inspected (qs_effects s) = []"
  shows "settled k (record_request (final_of env oc st kd n tk s) s)"
  using assms store_get_final(2) [OF _ final_id [OF assms(1)]]
  by (simp add: settled_def record_request_def final_of_def report_effects_def tick_def recording_def)

lemma settled_cong:
  "qs_store s' = qs_store s \<Longrightarrow> inspected (qs_effects s') = inspected (qs_effects s) \<Longrightarrow> settled k s' = settled k s"
  by (simp add: settled_def)

text \<open>Before an answer nothing is recorded; a failure of the last attempt is.\<close>

definition unrecorded :: "string \<Rightarrow> request_session \<Rightarrow> bool" where
  "unrecorded k s \<longleftrightarrow> recording k s \<and> inspected (qs_effects s) = []"

lemma settled_final_failure:
  "unrecorded k s \<Longrightarrow> settled k (fst (session_record_final_failure env kind b s))"
  by (simp add: session_record_final_failure_def Let_def unrecorded_def)
    (rule settled_context, simp_all add: effects_unchanged)

lemma unrecorded_prepare:
  assumes "unrecorded k s"
  shows "unrecorded k (fst (session_prepare_outbound env rq s))"
proof -
  have "qs_effects (fst (session_prepare_outbound env rq s)) = qs_effects s @ [BackendAttempt (qs_labels s)]"
    using prepare_bare [of env rq s]
    by (cases "prepare_outbound (qe_proxy env) rq (pc_route (bare_context s))") (auto simp: bare_fields(2,4))
  then show ?thesis using assms recording_prepare [of k s env rq] by (simp add: unrecorded_def)
qed

lemma unrecorded_retry: "unrecorded k s \<Longrightarrow> unrecorded k (session_record_retry env kind nxt b s)"
proof -
  have "qs_effects (session_record_retry env kind nxt b s) = qs_effects s @
      [Health (ReportFailure (ml_backend (qs_labels s)) (client_status kind) (error_kind kind))]"
    by (simp add: session_record_retry_def record_retried_attempt_def Let_def bare_fields(2-4) apply_route_def)
  then show "unrecorded k s \<Longrightarrow> unrecorded k (session_record_retry env kind nxt b s)" by (simp add: unrecorded_def)
qed

lemma attempt_loop_settled:
  assumes "unrecorded k s"
  shows "case session_attempt_loop env rq s fallbacks of
    (s', Inl e) \<Rightarrow> unrecorded k s' \<or> settled k s' | (s', Inr r) \<Rightarrow> unrecorded k s'"
  using assms
proof (induction "length fallbacks" arbitrary: s fallbacks rule: less_induct)
  case less
  obtain s1 res where p: "session_prepare_outbound env rq s = (s1, res)" by fastforce
  have s1: "unrecorded k s1" using unrecorded_prepare [OF less.prems, of env rq] p by simp
  note loop = session_attempt_loop.simps [of env rq s] p Let_def
  show ?case
  proof (cases res)
    case (Inl e)
    then show ?thesis using s1 by (simp add: loop)
  next
    case (Inr y)
    obtain b ob where y: "y = (b, ob)" by fastforce
    define s2 where "s2 = report_effects [Sent (sr_backend_id (qs_route s1)) ob] s1"
    have s2: "unrecorded k s2" using s1 by (simp add: s2_def unrecorded_def effects_unchanged)
    obtain s3 b3 where e3: "ensure_attempt_capture env b s2 = (s3, b3)" by fastforce
    have "record_state s3 = record_state s2" "qs_effects s3 = qs_effects s2"
      using record_state_composed(5) [of env b s2] effects_unchanged(10) [of env b s2] e3 by simp_all
    then have s3: "unrecorded k s3" using s2 recording_cong [of s3 s2 k] by (simp add: unrecorded_def)
    show ?thesis
    proof (cases "pe_send (qe_proxy env) (qs_attempt s2) ob")
      case (SendOk r)
      then show ?thesis using s2 by (simp add: loop Inr y s2_def [symmetric] unrecorded_def effects_unchanged)
    next
      case SendShutdown
      then show ?thesis using s2 by (simp add: loop Inr y s2_def [symmetric] unrecorded_def effects_unchanged)
    next
      case (SendError e)
      show ?thesis
      proof (cases "is_retryable (classify_failure e) \<and> fallbacks \<noteq> []")
        case True
        then obtain nxt rest where "fallbacks = nxt # rest" by (cases fallbacks) auto
        then show ?thesis
          using True SendError less.hyps [OF _ unrecorded_retry [OF s3], of rest]
          by (simp add: loop Inr y s2_def [symmetric] e3)
      next
        case False
        then show ?thesis
          using SendError settled_final_failure [OF s3, of env "classify_failure e" b3]
          by (cases fallbacks; cases "session_record_final_failure env (classify_failure e) b3 s3")
            (auto simp: loop Inr y s2_def [symmetric] e3 split: bool.split)
      qed
    qed
  qed
qed

lemma unrecorded_non_success:
  "unrecorded k s \<Longrightarrow> unrecorded k (report_non_success env st s)"
proof -
  have "qs_effects (record_final_attempt env status us oc kd s) = qs_effects s" for status us oc kd s
    by (simp add: record_final_attempt_def effects_unchanged)
  then show "unrecorded k s \<Longrightarrow> unrecorded k (report_non_success env st s)"
    by (simp add: report_non_success_def unrecorded_def record_final_attempt_def Let_def effects_unchanged)
qed

lemma non_success_settled:
  assumes "unrecorded k s"
  shows "settled k (fst (session_non_success env rq r s))"
proof -
  define s1 where "s1 = capture_error_body env r (snd (read_error_body env r (ensure_current_capture env s)))
    (fst (read_error_body env r (ensure_current_capture env s)))"
  have "qs_effects s1 = qs_effects s"
    by (simp add: s1_def bare_fields(4) read_error_body_bare)
  then have s1: "unrecorded k s1" using assms by (simp add: unrecorded_def s1_def)
  have w: "unrecorded k (warn_non_success ust st p s1)" for ust st p using s1 by (simp add: unrecorded_def effects_unchanged)
  have x: "recording k (s\<lparr>qs_ix := (qs_ix s)\<lparr>ix_base := (ix_base (qs_ix s))\<lparr>ib_exposed_backend_error := True\<rparr>\<rparr>\<rparr>) = recording k s" for s
    by (simp add: recording_def)
  have fwd: "settled k (fst (session_forward_error env r body s1))" for body
    using unrecorded_non_success [OF s1, of env "ur_status r"]
    by (simp add: session_forward_error_def Let_def unrecorded_def) (rule settled_context, simp_all add: x effects_unchanged)
  have san: "settled k (fst (session_sanitize_error env rq r s1))"
    using unrecorded_non_success [OF w]
    by (simp add: session_sanitize_error_def Let_def unrecorded_def) (rule settled_context, simp_all add: effects_unchanged)
  show ?thesis
    using fwd san by (simp add: session_non_success_def split_beta Let_def s1_def [symmetric] split: option.split)
qed

lemma buffered_failed_settled: "unrecorded k s \<Longrightarrow> settled k (buffered_failed env r e s)"
  unfolding buffered_failed_def Let_def unrecorded_def
  by (rule settled_record) (simp_all add: effects_unchanged push_current_effects)

lemma buffered_completed_settled:
  assumes "unrecorded k s"
  shows "settled k (buffered_completed env r bytes usage s)"
proof -
  have c: "settled k (log_event_op e (tick s)) = settled k s" for e s
    by (rule settled_cong) (simp_all add: log_event_op_def tick_def)
  define s0 where "s0 = fst (stamp env ResponseRewritten s)"
  define s1 where "s1 = live_change (\<lambda>x. x\<lparr>rr_timeline := snapshot_now env s0\<rparr>) s0"
  define s2 where "s2 = capture_outcome_op env (CapSuccess (ur_status r)) (debug_buffered (ur_status r) (length bytes)
    (report_effects [UsageMetric (qs_labels s1) usage, RequestMetric (qs_labels s1) (ur_status r)] s1))"
  define s3 where "s3 = report_effects [Health (ReportSuccess (ml_backend (qs_labels s2)) (ur_status r))] s2"
  define s4 where "s4 = push_current (finish_at_body_complete_or (ur_status r) (Some (ur_status r)) ''completed'' None
    (saturating_u64 (elapsed_now env s3))) s3"
  define s5 where "s5 = fst (stamp env ClientResponseReady s4)"
  define s6 where "s6 = live_change (\<lambda>x. x\<lparr>rr_timeline := snapshot_now env s5, rr_backend_attempts := ix_backend_attempts (qs_ix s5)\<rparr>) s5"
  have "unrecorded k s1" using assms by (simp add: s1_def s0_def unrecorded_def effects_unchanged)
  then have "unrecorded k s3" by (simp add: s3_def s2_def unrecorded_def effects_unchanged)
  then have "unrecorded k s6" by (simp add: s6_def s5_def s4_def unrecorded_def effects_unchanged push_current_effects)
  then have "settled k (record_request (final_of env Completed (ur_status r) None (Some (length bytes)) (inspector_tokens usage) s6) s6)"
    unfolding unrecorded_def by (intro settled_record) simp_all
  moreover have "buffered_completed env r bytes usage s =
      (let s = record_request (final_of env Completed (ur_status r) None (Some (length bytes)) (inspector_tokens usage) s6) s6
       in log_event_op (debug_timeline_fields (snapshot_now env s) ''buffered response timeline snapshot'') (tick s))"
    unfolding buffered_completed_def s6_def s5_def s4_def s3_def s2_def s1_def s0_def by (simp add: Let_def split_beta bare_fields(2))
  ultimately show ?thesis by (simp add: Let_def c)
qed

lemma buffered_settled:
  assumes "unrecorded k s"
  shows "unrecorded k (fst (session_buffered_response env rq r s)) \<or> settled k (fst (session_buffered_response env rq r s))"
proof -
  obtain s1 res where p: "session_read_body env [] (ur_body r) s = (s1, res)" by fastforce
  have "qs_effects s1 = qs_effects s" using read_body_bare(1) [of env "[]" "ur_body r" s] p by (simp add: bare_fields(4))
  moreover have "record_state s1 = record_state s" using record_state_read_body [of env "[]" "ur_body r" s] p by simp
  ultimately have s1: "unrecorded k s1" using assms recording_cong [of s1 s k] by (simp add: unrecorded_def)
  have w: "unrecorded k (warn_plain fs m s1)" for fs m using s1 by (simp add: unrecorded_def effects_unchanged)
  show ?thesis
    using s1 w buffered_failed_settled [OF s1] buffered_completed_settled [OF s1]
    by (simp add: session_buffered_response_def p Let_def split: sum.split body_read_error.split option.split prod.split)
qed

section \<open>Streams\<close>

abbreviation stream_distinct :: "stream_session \<Rightarrow> bool" where
  "stream_distinct ss \<equiv> distinct (record_ids (ss_store ss))"

lemma stream_distinct_ops [simp]:
  "stream_distinct (to_upstream f ss) = stream_distinct ss" "stream_distinct (to_client f ss) = stream_distinct ss"
  "stream_distinct (yield_bytes b ss) = stream_distinct ss" "stream_distinct (session_usage st ss) = stream_distinct ss"
  "stream_distinct (session_stream_error e ss) = stream_distinct ss" "stream_distinct (writers_run ev ss) = stream_distinct ss"
  by (simp_all add: to_upstream_def to_client_def yield_bytes_def session_usage_def session_stream_error_def writers_run_def)

lemma stream_distinct_marks [simp]:
  "stream_distinct ss \<Longrightarrow> stream_distinct (session_body_chunk t ss)"
  "stream_distinct ss \<Longrightarrow> stream_distinct (session_body_complete t ss)"
  "stream_distinct ss \<Longrightarrow> stream_distinct (passthrough_tail t ss)"
  by (simp_all add: passthrough_tail_def session_body_chunk_def session_body_complete_def session_mark_def live_timeline_store
      split_beta Let_def)

lemma session_tail_distinct: "session_tail sd t st ss = Some (ss', err) \<Longrightarrow> stream_distinct ss \<Longrightarrow> stream_distinct ss'"
  by (auto simp: session_tail_def Let_def split: prod.splits if_splits)

lemma session_loop_distinct: "session_loop sd ended st ss es = Some (ss', err) \<Longrightarrow> stream_distinct ss \<Longrightarrow> stream_distinct ss'"
proof (induction es arbitrary: st ss)
  case Nil
  then show ?case using session_tail_distinct by simp
next
  case (Cons e es)
  show ?case
  proof (cases "se_body e")
    case (BChunk chunk)
    obtain st' outs where p: "strategy_push sd st chunk = (st', outs)" by fastforce
    then obtain bytes where r: "render_all sd outs = Some bytes" using Cons.prems BChunk
      by (cases "render_all sd outs") (simp_all add: Let_def)
    show ?thesis using Cons.prems BChunk p r by (cases "bytes = []") (auto simp: Let_def dest!: Cons.IH)
  qed (use Cons.prems in \<open>auto dest: session_tail_distinct\<close>)
qed

lemma session_passthrough_distinct: "stream_distinct ss \<Longrightarrow> stream_distinct (fst (session_passthrough ended ss es))"
proof (induction es arbitrary: ss)
  case (Cons e es)
  then show ?case by (cases "se_body e") simp_all
qed simp

lemma session_drop_record:
  assumes "stream_distinct ss" and "sn_enabled en"
  shows "case session_drop mw late en ss of (ops, c, r, store) \<Rightarrow> store_get (ib_record_id (sn_base en)) store = Some r"
proof -
  define ss1 where "ss1 = live_timeline (sn_elapsed en)
    (ss\<lparr>ss_timeline := fst (timeline_mark StreamComplete (sn_elapsed en) (ss_timeline ss))\<rparr>)"
  have "stream_distinct ss1" using assms(1) by (simp add: ss1_def live_timeline_store)
  moreover have "rr_id (snd (snd (drop_record mw late en ss1))) = ib_record_id (sn_base en)"
    by (simp add: drop_record_def split_beta Let_def request_record_new_def)
  ultimately show ?thesis
    using assms(2) store_get_final(1) by (simp add: session_drop_def ss1_def [symmetric] split_beta Let_def)
qed

lemma stream_dropped_settled:
  assumes "unrecorded k s" and "stream_distinct ss"
  shows "settled k (stream_dropped env status started ss s)"
proof -
  let ?en = "stream_end_of env status started ss s" and ?late = "\<lambda>p. snd (take_capture env s p)"
  obtain ops c r store where d: "session_drop (qe_metadata env) ?late ?en ss = (ops, c, r, store)" by (metis prod_cases4)
  have "sn_enabled ?en" "ib_record_id (sn_base ?en) = k"
    using assms(1) by (simp_all add: stream_end_of_def unrecorded_def recording_def)
  then have "store_get k store = Some r" using session_drop_record [OF assms(2), of ?en "qe_metadata env" ?late] d by simp
  moreover have "qs_store (stream_dropped env status started ss s) = store"
    by (simp add: stream_dropped_def Let_def d report_effects_def log_event_op_def write_files_def tick_def debug_stream_completed_def)
  moreover have "inspected (map Health hs) = []" for hs by (induction hs) simp_all
  then have "inspected (qs_effects (stream_dropped env status started ss s)) = [bare_record r]"
    using assms(1)
    by (simp add: stream_dropped_def Let_def d effects_unchanged debug_stream_completed_def write_files_def unrecorded_def)
  ultimately show ?thesis by (simp add: settled_def)
qed

lemma streaming_settled:
  assumes "unrecorded k s"
  shows "unrecorded k (fst (session_streaming_response env rq r s)) \<or> settled k (fst (session_streaming_response env rq r s))"
proof -
  define s1 where "s1 = debug_stream_started (ur_status r) (report_effects [RequestMetric (qs_labels s) (ur_status r)] s)"
  have d: "qs_effects (debug_stream_started st x) = qs_effects x" for st x by (simp add: debug_stream_started_def effects_unchanged)
  have s1: "unrecorded k s1" using assms by (simp add: s1_def unrecorded_def effects_unchanged d)
  have reads: "unrecorded k (s1\<lparr>qs_reads := n\<rparr>)" "unrecorded k (warn_plain fs m (s1\<lparr>qs_reads := n\<rparr>))" for n fs m
    using s1 by (simp_all add: unrecorded_def effects_unchanged)
  have run: "stream_distinct ss'" if "session_run_stream env r s' ss = Some (ss', err)" "stream_distinct ss" for s' ss ss' err
    using that session_loop_distinct session_passthrough_distinct
    by (auto simp: session_run_stream_def Let_def split: if_splits) (metis fst_conv)
  have start: "stream_distinct (session_start en dc now st ct t tline a lr (qs_store s))" for en dc now st ct t tline a lr
    using assms by (simp add: session_start_def split_beta Let_def live_timeline_store unrecorded_def recording_def)
  have same: "qs_store (report_effects es s) = qs_store s" for es by (simp add: report_effects_def)
  show ?thesis
    using s1 reads
    by (auto simp: session_streaming_response_def Let_def same s1_def [symmetric] split: option.split prod.split
        intro!: stream_dropped_settled dest!: run [OF _ start])
qed

section \<open>The handler\<close>

lemma do_proxy_settled:
  assumes "unrecorded k s"
  shows "unrecorded k (fst (session_do_proxy env rq s fallbacks)) \<or> settled k (fst (session_do_proxy env rq s fallbacks))"
proof -
  obtain s1 res where l: "session_attempt_loop env rq s fallbacks = (s1, res)" by fastforce
  show ?thesis
  proof (cases res)
    case (Inl e)
    then show ?thesis using l attempt_loop_settled [OF assms, of env rq fallbacks] by (simp add: session_do_proxy_def)
  next
    case (Inr r)
    then have "unrecorded k s1" using l attempt_loop_settled [OF assms, of env rq fallbacks] by simp
    then show ?thesis
      using l Inr non_success_settled streaming_settled buffered_settled by (simp add: session_do_proxy_def)
  qed
qed

definition outcome_settled :: "string \<Rightarrow> session_outcome \<Rightarrow> bool" where
  "outcome_settled k out \<longleftrightarrow> inspected (po_effects out) = [] \<or>
     (\<exists>r. store_get k (so_store out) = Some r \<and> inspected (po_effects out) = [bare_record r])"

lemma forward_settled:
  assumes "distinct (record_ids store)" and "ro_inspector_enabled ob"
  shows "outcome_settled (ro_record_id ob) (session_forward env cfg q ob ident shape routes c store)"
proof -
  have "recording (ro_record_id ob) (session_context env cfg q ob ident shape route n store)"
    "qs_effects (session_context env cfg q ob ident shape route n store) = []" for route n
    using assms by (simp_all add: session_context_def recording_def live_record_new_def routed_inspector_base_def
        observed_base_def Let_def)
  moreover have "recording k s \<Longrightarrow> recording k (publish_context env s)" "qs_effects (publish_context env s) = qs_effects s" for k s
    using recording_live(1) [of k s]
    by (auto simp: publish_context_def publish_initial_def store_upsert_def record_ids_def upsert_distinct recording_def
        effects_unchanged Let_def)
  ultimately have start: "unrecorded (ro_record_id ob) (publish_context env (session_context env cfg q ob ident shape route n store))" for route n
    by (simp add: unrecorded_def)
  let ?f = "take (rc_fallback_attempts (cfg_routing cfg)) (nev_tail routes)"
  show ?thesis
    using do_proxy_settled [OF start [of "nev_head routes" "1 + length ?f"], of env "to_proxy_request q (sh_stream shape)" ?f]
    by (auto simp: session_forward_def to_proxy_request_def outcome_settled_def unrecorded_def settled_def split_beta Let_def)
qed

lemma session_settled:
  assumes "distinct (record_ids store)" and "ic_enabled (cfg_inspector cfg)"
  shows "outcome_settled (ro_record_id (observe_request env cfg q peer)) (session_proxy_v1 env cfg c store peer q)"
proof -
  let ?ob = "observe_request env cfg q peer"
  have on: "ro_inspector_enabled ?ob" using assms(2) by (simp add: observe_request_def Let_def)
  have "outcome_settled (ro_record_id ?ob) (handle_preflight_failure env ?ob es rt i m st sg e c store)" for es rt i m st sg e c
  proof -
    have "rr_id (preflight_record now t ?ob tline rt i m st status sg) = ro_record_id ?ob" for now t tline status
      by (simp add: preflight_record_def request_record_new_def preflight_inspector_base_def observed_base_def)
    from store_get_final(1) [OF assms(1) this] show ?thesis
      using on by (simp add: outcome_settled_def handle_preflight_failure_def Let_def)
  qed
  then show ?thesis
    using forward_settled [OF assms(1) on]
    by (simp add: session_proxy_v1_def Let_def split: sum.split prod.split option.split) (simp add: outcome_settled_def)
qed

fun answer_status :: "api_error + client_response \<Rightarrow> status_code" where
  "answer_status (Inl e) = err_status e"
| "answer_status (Inr resp) = cr_status resp"

fun stream_died :: "api_error + client_response \<Rightarrow> bool" where
  "stream_died (Inl e) = False"
| "stream_died (Inr resp) = (cr_body resp = Streamed None)"

lemma counted_inspected:
  assumes "answer_recorded es (Some res)" and "request_metrics es \<noteq> []" and "\<not> stream_died res"
  shows "map ir_status (inspected es) = [answer_status res]"
  using assms by (cases res) (auto simp: answer_recorded_def recorded_def split: client_body.splits option.splits)


text \<open>The run of \<open>Traffic\<close>, observed.\<close>

definition run_session :: session_env where
  "run_session =
     \<lparr>qe_proxy = run_env, qe_elapsed = (\<lambda>n. 10 * n), qe_wall = (\<lambda>n. n), qe_parse_url = (\<lambda>_. None),
      qe_remote_addr = (\<lambda>_. None), qe_io = (\<lambda>_. True), qe_metadata = (\<lambda>_. []), qe_pid = 1, qe_sequence = id,
      qe_writers = (\<lambda>_. ([], [])), qe_capture_started = 0, qe_finish = sc_timings, qe_record_sequence = 0\<rparr>"

definition observed_config :: config where
  "observed_config = example_config\<lparr>cfg_inspector := default_inspector_config\<lparr>ic_enabled := True\<rparr>\<rparr>"

lemma observed_same: "proxy_v1 env observed_config c q = proxy_v1 env example_config c q"
proof -
  have "cfg_clients observed_config = cfg_clients example_config" "proxy_selection observed_config = proxy_selection example_config"
    "forward env observed_config = forward env example_config"
    by (intro ext | simp add: observed_config_def proxy_selection_def forward_def)+
  then show ?thesis unfolding proxy_v1_def by (simp only:)
qed


end
