(* ===== verification/Context_Cache.thy ===== *)
theory Context_Cache
  imports Config
begin

text \<open>
  \<open>onair-core/src/context_size_cache.rs\<close>: the cache of live context sizes, filled by the refresh
  task and pruned to the active models, and the two views of the public models' context lengths in
  \<open>config.rs\<close> that are answered without and with it.  The mutex serialises the operations, so the
  cache is a map that each operation replaces.
\<close>

record context_size_entry =
  ce_value :: "u64 option"
  ce_last_success_unix_ms :: "u64 option"
  ce_last_failure_unix_ms :: "u64 option"
  ce_last_error_kind :: "string option"

type_synonym context_size_cache = "(string \<times> context_size_entry) list"

definition default_entry :: context_size_entry where
  "default_entry =
     \<lparr>ce_value = None, ce_last_success_unix_ms = None, ce_last_failure_unix_ms = None,
      ce_last_error_kind = None\<rparr>"

definition cache_entry :: "context_size_cache \<Rightarrow> string \<Rightarrow> context_size_entry option" where
  "cache_entry m public_model = bt_get m public_model"

definition cache_lookup :: "context_size_cache \<Rightarrow> string \<Rightarrow> u64 option" where
  "cache_lookup m public_model = Option.bind (bt_get m public_model) ce_value"

text \<open>The clock reading is the argument \<open>now\<close>.\<close>

definition cache_set ::
  "u64 \<Rightarrow> string \<Rightarrow> u64 option \<Rightarrow> string option \<Rightarrow> context_size_cache \<Rightarrow> context_size_cache" where
  "cache_set now public_model v error_kind m =
     (if v = None \<and> error_kind = None then m
      else
        let entry = (case bt_get m public_model of None \<Rightarrow> default_entry | Some e \<Rightarrow> e);
            entry = entry\<lparr>ce_value := v\<rparr>;
            entry = (case (v, error_kind) of
                (Some _, None) \<Rightarrow>
                  entry\<lparr>ce_last_success_unix_ms := Some now, ce_last_error_kind := None\<rparr>
              | (None, Some kind) \<Rightarrow>
                  entry\<lparr>ce_last_failure_unix_ms := Some now, ce_last_error_kind := Some kind\<rparr>
              | _ \<Rightarrow> entry)
        in bt_insert public_model entry m)"

definition cache_prune :: "string list \<Rightarrow> context_size_cache \<Rightarrow> context_size_cache" where
  "cache_prune active m = filter (\<lambda>e. fst e \<in> set active) m"

section \<open>Context lengths of the public models\<close>

definition public_context_step ::
  "(string \<Rightarrow> u64 option) \<Rightarrow> resolved_route \<Rightarrow> (string \<times> context_length_spec) list \<Rightarrow>
     (string \<times> context_length_spec) list" where
  "public_context_step n_ctx_of route models =
     (case rt_key route of
        Public public \<Rightarrow>
          bt_or_insert public
            (case rt_context_length route of
               SpecNone \<Rightarrow> SpecNone
             | SpecStatic n \<Rightarrow> SpecStatic n
             | SpecUpstream backend_id backend_model _ \<Rightarrow>
                 SpecUpstream backend_id backend_model (n_ctx_of public))
            models
      | Path _ \<Rightarrow> models)"

definition public_model_context_lengths :: "config \<Rightarrow> (string \<times> context_length_spec) list" where
  "public_model_context_lengths c = fold (public_context_step (\<lambda>_. None)) (cfg_routes c) []"

definition public_model_context_lengths_with_cache ::
  "config \<Rightarrow> context_size_cache \<Rightarrow> (string \<times> context_length_spec) list" where
  "public_model_context_lengths_with_cache c cache =
     fold (public_context_step (cache_lookup cache)) (cfg_routes c) []"

section \<open>Properties\<close>

lemma bt_get_filter:
  "bt_get (filter (\<lambda>e. fst e \<in> A) m) k = (if k \<in> A then bt_get m k else None)"
  unfolding bt_get_def by (induction m) auto

lemma bt_wf_filter: "bt_wf m \<Longrightarrow> bt_wf (filter P m)"
  unfolding bt_wf_def by (induction m) auto

text \<open>The sequences of operations the process performs on the cache.\<close>

inductive cache_step :: "context_size_cache \<Rightarrow> context_size_cache \<Rightarrow> bool" where
  success: "cache_step m (cache_set now p (Some v) None m)"
| failure: "cache_step m (cache_set now p None (Some kind) m)"
| prune: "cache_step m (cache_prune active m)"

inductive cache_reachable :: "context_size_cache \<Rightarrow> bool" where
  start: "cache_reachable []"
| step: "cache_reachable m \<Longrightarrow> cache_step m m' \<Longrightarrow> cache_reachable m'"

text \<open>An entry shows either a value with its success time or the last error with its time.\<close>

definition entry_consistent :: "context_size_entry \<Rightarrow> bool" where
  "entry_consistent e \<longleftrightarrow>
     (case ce_value e of
        Some _ \<Rightarrow> ce_last_success_unix_ms e \<noteq> None \<and> ce_last_error_kind e = None
      | None \<Rightarrow> ce_last_failure_unix_ms e \<noteq> None \<and> ce_last_error_kind e \<noteq> None)"

definition cache_consistent :: "context_size_cache \<Rightarrow> bool" where
  "cache_consistent m \<longleftrightarrow> bt_wf m \<and> list_all (\<lambda>e. entry_consistent (snd e)) m"

lemma cache_consistent_insert:
  "cache_consistent m \<Longrightarrow> entry_consistent e \<Longrightarrow> cache_consistent (bt_insert k e m)"
  by (auto simp: cache_consistent_def bt_wf_insert list_all_iff dest!: mem_bt_insert)

lemma cache_step_consistent:
  assumes "cache_step m m'" and "cache_consistent m"
  shows "cache_consistent m'"
  using assms(1)
proof (cases rule: cache_step.cases)
  case (success now p v)
  then show ?thesis using assms(2)
    by (auto simp: cache_set_def Let_def entry_consistent_def intro!: cache_consistent_insert)
next
  case (failure now p kind)
  then show ?thesis using assms(2)
    by (auto simp: cache_set_def Let_def entry_consistent_def intro!: cache_consistent_insert)
next
  case (prune active)
  then show ?thesis using assms(2)
    by (auto simp: cache_consistent_def cache_prune_def bt_wf_filter list_all_iff)
qed

text \<open>
  In every state the cache can reach through successful probes, failed probes and prunings, its
  keys are sorted and unique, and each entry shows either a value together with the time of its
  success and no error, or no value together with an error and the time of the failure.
\<close>

theorem cache_reachable_consistent:
  assumes "cache_reachable m"
  shows "cache_consistent m"
  using assms
proof (induction rule: cache_reachable.induct)
  case start
  show ?case by (simp add: cache_consistent_def)
next
  case (step m m')
  then show ?case by (blast intro: cache_step_consistent)
qed

theorem cache_reachable_consistent_witness:
  "cache_reachable (cache_set 7 ''m'' (Some 8192) None []) \<and>
   cache_consistent (cache_set 7 ''m'' (Some 8192) None []) \<and>
   cache_lookup (cache_set 7 ''m'' (Some 8192) None []) ''m'' = Some 8192"
proof -
  have h: "cache_reachable (cache_set 7 ''m'' (Some 8192) None [])"
    by (rule cache_reachable.step [OF cache_reachable.start cache_step.success])
  show ?thesis
    using h cache_reachable_consistent [OF h]
    by (simp add: cache_lookup_def cache_set_def Let_def bt_get_def)
qed

text \<open>
  What a lookup returns after each operation.  A probe result replaces the value of its own
  model (a failure hides a stale value) and of no other; an empty result changes nothing; pruning
  forgets exactly the models that are not active.
\<close>

theorem cache_lookup_after:
  "cache_lookup (cache_set now p v e m) q =
     (if v = None \<and> e = None then cache_lookup m q else if q = p then v else cache_lookup m q) \<and>
   cache_lookup (cache_prune active m) q =
     (if q \<in> set active then cache_lookup m q else None)"
  by (auto simp: cache_lookup_def cache_set_def cache_prune_def Let_def bt_get_insert bt_get_filter
      split: option.splits)

definition fill_spec :: "u64 option \<Rightarrow> context_length_spec \<Rightarrow> context_length_spec" where
  "fill_spec n spec =
     (case spec of SpecUpstream b bm _ \<Rightarrow> SpecUpstream b bm n | _ \<Rightarrow> spec)"

lemma bt_get_public_context_step:
  "bt_get (public_context_step f r m) k =
     (case bt_get m k of
        Some s \<Rightarrow> Some s
      | None \<Rightarrow> if rt_key r = Public k then Some (fill_spec (f k) (rt_context_length r)) else None)"
  by (auto simp: public_context_step_def bt_get_or_insert fill_spec_def
      split: option.splits route_key.splits context_length_spec.splits)

lemma public_context_fold:
  "bt_get (fold (public_context_step f) rs m) k =
     (case bt_get m k of
        Some s \<Rightarrow> Some s
      | None \<Rightarrow> map_option (\<lambda>r. fill_spec (f k) (rt_context_length r))
                  (find (\<lambda>r. rt_key r = Public k) rs))"
proof (induction rs arbitrary: m)
  case Nil
  then show ?case by (simp split: option.splits)
next
  case (Cons r rs)
  show ?case by (simp add: Cons bt_get_public_context_step split: option.splits)
qed

text \<open>
  The cached view of the context lengths is the uncached view with every upstream entry filled
  from the cache and every other entry unchanged; both list exactly the public models, each with
  the policy of its first route.
\<close>

theorem public_model_context_lengths_refine:
  "bt_get (public_model_context_lengths_with_cache c cache) k =
     map_option (fill_spec (cache_lookup cache k)) (bt_get (public_model_context_lengths c) k) \<and>
   (bt_get (public_model_context_lengths c) k \<noteq> None \<longleftrightarrow> has_public_route (cfg_routes c) k)"
proof -
  have f: "fill_spec a (fill_spec b s) = fill_spec a s" for a b s
    by (simp add: fill_spec_def split: context_length_spec.splits)
  show ?thesis
    by (auto simp: public_model_context_lengths_def public_model_context_lengths_with_cache_def
        public_context_fold f option.map_comp o_def has_public_route_def list_ex_iff find_None_iff)
qed

end
