(* ===== verification/Background_Tasks.thy ===== *)
theory Background_Tasks
  imports Context_Cache Backend_Health "HOL-Library.Multiset"
begin

text \<open>
  The two periodic tasks: the refresh of the context sizes (\<open>onair-obs/src/observe/context_sizes.rs\<close>) and the
  health probe (\<open>health_probe.rs\<close>).  One round of a task is a function of the configuration it snapshots, of
  what the HTTP client returns and, for the refresh, of the order in which its concurrent fetches complete.
  The HTTP client and the URL builder are parameters.
\<close>

section \<open>The HTTP client\<close>

text \<open>A response with its status and its body as JSON, \<open>None\<close> where it cannot be read or decoded.\<close>

datatype get_result = GetOk status_code "json option" | GetError http_error | GetPanic

record task_env =
  te_get :: "string \<Rightarrow> string option \<Rightarrow> nat \<Rightarrow> get_result"
  te_url_with_pair :: "string \<Rightarrow> string \<times> string \<Rightarrow> string option"

section \<open>Context sizes\<close>

definition FETCH_TIMEOUT :: nat where "FETCH_TIMEOUT = 5000"

datatype fetch_result = FetchOk u64 | FetchErr string | FetchPanic

definition classify_error :: "http_error \<Rightarrow> string" where
  "classify_error e =
     (if is_timeout e then ''timeout'' else if is_connect e then ''connect''
      else if is_request e then ''request'' else ''unknown'')"

definition build_props_url :: "task_env \<Rightarrow> string \<Rightarrow> string \<Rightarrow> string option" where
  "build_props_url env base_url backend_model =
     te_url_with_pair env (trim_end_matches CHR ''/'' base_url @ ''/props'') (''model'', backend_model)"

definition fetch_upstream_n_ctx :: "task_env \<Rightarrow> string \<Rightarrow> string option \<Rightarrow> string \<Rightarrow> fetch_result" where
  "fetch_upstream_n_ctx env base_url api_key backend_model =
     (case build_props_url env base_url backend_model of
        None \<Rightarrow> FetchErr ''url''
      | Some url \<Rightarrow>
          (case te_get env url api_key FETCH_TIMEOUT of
             GetPanic \<Rightarrow> FetchPanic
           | GetError e \<Rightarrow> FetchErr (classify_error e)
           | GetOk status body \<Rightarrow>
               if \<not> (200 \<le> status \<and> status < 300) then FetchErr ''status''
               else case body of
                 None \<Rightarrow> FetchErr ''decode''
               | Some v \<Rightarrow>
                   (case Option.bind (Option.bind (jget v ''default_generation_settings'') (\<lambda>s. jget s ''n_ctx'')) as_u64 of
                      Some n \<Rightarrow> FetchOk n
                    | None \<Rightarrow> FetchErr ''missing'')))"

fun target_of :: "resolved_route \<Rightarrow> (string \<times> string \<times> string) option" where
  "target_of route =
     (case (rt_key route, rt_context_length route) of
        (Public public, SpecUpstream backend_id backend_model _) \<Rightarrow> Some (public, backend_id, backend_model)
      | _ \<Rightarrow> None)"

definition collect_target ::
  "resolved_route \<Rightarrow> (string \<times> string \<times> string) list \<times> string list \<Rightarrow> (string \<times> string \<times> string) list \<times> string list" where
  "collect_target route acc =
     (case target_of route of
        Some t \<Rightarrow> if fst t \<in> set (snd acc) then acc else (fst acc @ [t], bs_insert (fst t) (snd acc))
      | None \<Rightarrow> acc)"

definition collect_upstream_targets :: "config \<Rightarrow> (string \<times> string \<times> string) list" where
  "collect_upstream_targets c = fst (fold collect_target (cfg_routes c) ([], []))"

text \<open>The fetches a round starts: one for each target whose backend exists.\<close>

definition refresh_fetches :: "task_env \<Rightarrow> config \<Rightarrow> (string \<times> fetch_result) list" where
  "refresh_fetches env c =
     List.map_filter (\<lambda>(public, backend_id, backend_model).
       map_option (\<lambda>b. (public, fetch_upstream_n_ctx env (be_base_url b) (be_api_key b) backend_model))
         (find (\<lambda>b. be_id b = backend_id) (cfg_backends c))) (collect_upstream_targets c)"

fun store_fetch :: "u64 \<Rightarrow> string \<times> fetch_result \<Rightarrow> context_size_cache \<Rightarrow> context_size_cache" where
  "store_fetch now (public, FetchOk v) m = cache_set now public (Some v) None m"
| "store_fetch now (public, FetchErr kind) m = cache_set now public None (Some kind) m"
| "store_fetch now (public, FetchPanic) m = cache_set now public None (Some ''panic'') m"

text \<open>\<open>completed\<close> lists the fetches in the order in which they complete, each with its clock.\<close>

definition refresh_once ::
  "config \<Rightarrow> (u64 \<times> string \<times> fetch_result) list \<Rightarrow> context_size_cache \<Rightarrow> context_size_cache" where
  "refresh_once c completed m =
     cache_prune (map fst (collect_upstream_targets c)) (fold (\<lambda>(now, f). store_fetch now f) completed m)"

section \<open>The health probe\<close>

definition health_url :: "string \<Rightarrow> string \<Rightarrow> string" where
  "health_url base_url path = trim_end_matches CHR ''/'' base_url @ ''/'' @ trim_start_matches CHR ''/'' path"

definition probe_error_kind :: "http_error \<Rightarrow> string" where
  "probe_error_kind e =
     (if is_timeout e then ''timeout'' else if is_connect e then ''connect'' else if is_request e then ''request''
      else if is_body e then ''body'' else if is_decode e then ''decode'' else if is_redirect e then ''redirect''
      else ''unknown'')"

definition probe_get :: "task_env \<Rightarrow> health_config \<Rightarrow> resolved_backend \<Rightarrow> get_result" where
  "probe_get env c b = te_get env (health_url (be_base_url b) (hc_path c)) (be_api_key b) (unat (hc_timeout_ms c))"

text \<open>A probe that panics would end the task; the client does not.\<close>

definition probe_backend ::
  "task_env \<Rightarrow> health_config \<Rightarrow> resolved_backend \<Rightarrow> observation \<Rightarrow> health_store \<Rightarrow> health_store" where
  "probe_backend env c b ob st =
     (case probe_get env c b of
        GetOk status _ \<Rightarrow>
          if 200 \<le> status \<and> status < 300 then record_probe_success (be_id b) status ob st
          else record_probe_failure (be_id b) status ''probe_status'' ob st
      | GetError e \<Rightarrow>
          record_probe_failure (be_id b) (if is_timeout e then 504 else 502) (probe_error_kind e) ob st
      | GetPanic \<Rightarrow> st)"

definition probe_sleep_interval :: "health_config \<Rightarrow> u64" where
  "probe_sleep_interval c = (if hc_active c then hc_interval_ms c else 1000)"

definition probe_round ::
  "task_env \<Rightarrow> (resolved_backend \<Rightarrow> observation) \<Rightarrow> config \<Rightarrow> health_store \<Rightarrow> health_store" where
  "probe_round env ob c st =
     (if hc_active (cfg_health c) then fold (\<lambda>b. probe_backend env (cfg_health c) b (ob b)) (cfg_backends c) st
      else st)"

section \<open>Properties of the refresh\<close>

lemma bs_insert_set: "set (snd (fold collect_target rs acc)) = fst ` set (fst (fold collect_target rs acc))"
  if "set (snd acc) = fst ` set (fst acc)"
  using that
proof (induction rs arbitrary: acc)
  case (Cons r rs)
  then have "set (snd (collect_target r acc)) = fst ` set (fst (collect_target r acc))"
    by (auto simp: collect_target_def simp del: target_of.simps split: option.splits)
  then show ?case using Cons.IH by (simp del: target_of.simps)
qed simp

lemma targets_distinct_from:
  "distinct (map fst (fst acc)) \<Longrightarrow> set (snd acc) = fst ` set (fst acc) \<Longrightarrow>
     distinct (map fst (fst (fold collect_target rs acc)))"
proof (induction rs arbitrary: acc)
  case (Cons r rs)
  have "distinct (map fst (fst (collect_target r acc)))"
    "set (snd (collect_target r acc)) = fst ` set (fst (collect_target r acc))"
    using Cons.prems by (auto simp: collect_target_def simp del: target_of.simps split: option.splits)
  then show ?case using Cons.IH by (simp del: target_of.simps)
qed simp

lemma targets_distinct: "distinct (map fst (collect_upstream_targets c))"
  unfolding collect_upstream_targets_def by (rule targets_distinct_from) simp_all

lemma refresh_fetches_keys:
  "set (map fst (refresh_fetches env c)) \<subseteq> set (map fst (collect_upstream_targets c))"
  "distinct (map fst (refresh_fetches env c))"
proof -
  have "map fst (List.map_filter (\<lambda>(p, i, m). map_option (\<lambda>b. (p, f b m)) (g i)) ts) =
      map fst (filter (\<lambda>(p, i, m). g i \<noteq> None) ts)" for f g and ts :: "(string \<times> string \<times> string) list"
    by (induction ts) (auto simp: map_filter_simps split: option.splits)
  then have e: "map fst (refresh_fetches env c) =
      map fst (filter (\<lambda>(p, i, m). find (\<lambda>b. be_id b = i) (cfg_backends c) \<noteq> None) (collect_upstream_targets c))"
    by (simp add: refresh_fetches_def)
  show "set (map fst (refresh_fetches env c)) \<subseteq> set (map fst (collect_upstream_targets c))" unfolding e by auto
  show "distinct (map fst (refresh_fetches env c))"
    unfolding e using targets_distinct by (rule distinct_map_filter)
qed

definition fetched_value :: "fetch_result \<Rightarrow> u64 option" where
  "fetched_value f = (case f of FetchOk v \<Rightarrow> Some v | _ \<Rightarrow> None)"

lemma lookup_store_fetch:
  "cache_lookup (store_fetch now (p, f) m) k = (if k = p then fetched_value f else cache_lookup m k)"
  by (cases f)
    (auto simp: cache_lookup_def cache_set_def fetched_value_def bt_get_insert Let_def split: option.splits)

lemma lookup_store_fetches:
  assumes "distinct (map (fst \<circ> snd) completed)"
  shows "cache_lookup (fold (\<lambda>(now, f). store_fetch now f) completed m) k =
    (case map_of (map snd completed) k of Some f \<Rightarrow> fetched_value f | None \<Rightarrow> cache_lookup m k)"
  using assms
proof (induction completed arbitrary: m)
  case (Cons e es)
  obtain now p f where e: "e = (now, p, f)" by (cases e) auto
  have "map_of (map snd es) p = None"
    using Cons.prems by (simp add: e map_of_eq_None_iff image_image)
  then show ?case
    using Cons by (auto simp: e lookup_store_fetch split: option.splits)
qed simp

lemma lookup_prune: "cache_lookup (cache_prune active m) k = (if k \<in> set active then cache_lookup m k else None)"
  by (simp add: cache_lookup_def cache_prune_def bt_get_filter)

text \<open>
  C38: the order in which concurrent fetches complete does not matter.  After a round each active model shows
  what its own fetch returned, nothing where that failed, and keeps its old value only when its backend is
  missing; models that are no longer active are forgotten, for every order of completion and every clock.
\<close>

theorem refresh_once_exact:
  assumes "mset (map snd completed) = mset (refresh_fetches env c)"
  shows "cache_lookup (refresh_once c completed m) k =
    (if k \<notin> set (map fst (collect_upstream_targets c)) then None
     else case map_of (refresh_fetches env c) k of
       Some f \<Rightarrow> fetched_value f
     | None \<Rightarrow> cache_lookup m k)"
proof -
  have "mset (map (fst \<circ> snd) completed) = mset (map fst (refresh_fetches env c))"
    using arg_cong [OF assms, of "image_mset fst"] by (simp add: multiset.map_comp)
  then have d: "distinct (map (fst \<circ> snd) completed)"
    using refresh_fetches_keys(2) [of env c] mset_eq_imp_distinct_iff by blast
  have "map_of (map snd completed) = map_of (refresh_fetches env c)"
    using d refresh_fetches_keys(2) [of env c] mset_eq_setD [OF assms]
    by (intro map_of_inject_set [THEN iffD2]) simp_all
  then show ?thesis
    by (simp add: refresh_once_def lookup_prune lookup_store_fetches [OF d])
qed

definition sample_task_env :: task_env where
  "sample_task_env =
     \<lparr>te_get = (\<lambda>_ _ _. GetOk 200 (Some (JObject [(''default_generation_settings'', JObject [(''n_ctx'', jnat 4096)])]))),
      te_url_with_pair = (\<lambda>url p. Some (url @ ''?'' @ fst p @ ''='' @ snd p))\<rparr>"

definition upstream_config :: config where
  "upstream_config =
     example_config\<lparr>cfg_routes := map (\<lambda>r. r\<lparr>rt_context_length := SpecUpstream ''b'' ''x'' None\<rparr>) (cfg_routes example_config),
       cfg_health := (cfg_health example_config)\<lparr>hc_active := True\<rparr>\<rparr>"

theorem refresh_once_exact_witness:
  "cache_lookup (refresh_once upstream_config [(7, ''gpt'', FetchOk 4096)] []) ''gpt'' = Some 4096"
proof -
  have t: "collect_upstream_targets upstream_config = [(''gpt'', ''b'', ''x'')]"
    by (simp add: collect_upstream_targets_def collect_target_def upstream_config_def example_config_def)
  have f: "refresh_fetches sample_task_env upstream_config = [(''gpt'', FetchOk 4096)]"
    unfolding refresh_fetches_def t
    by (simp add: map_filter_simps upstream_config_def example_config_def fetch_upstream_n_ctx_def
        build_props_url_def sample_task_env_def bt_get_def jnat_def)
  show ?thesis
    using refresh_once_exact [of "[(7, ''gpt'', FetchOk 4096)]" sample_task_env upstream_config "[]" "''gpt''"] f t
    by (simp add: fetched_value_def)
qed

section \<open>Properties of the probe\<close>

fun probe_event :: "string \<Rightarrow> observation \<Rightarrow> get_result \<Rightarrow> health_event list" where
  "probe_event i ob (GetOk status body) =
     [if 200 \<le> status \<and> status < 300 then HSuccess i status Probe ob else HFailure i status ''probe_status'' Probe ob]"
| "probe_event i ob (GetError e) =
     [HFailure i (if is_timeout e then 504 else 502) (probe_error_kind e) Probe ob]"
| "probe_event i ob GetPanic = []"

lemma probe_backend_events:
  "probe_backend env c b ob st = fold health_step (probe_event (be_id b) ob (probe_get env c b)) st"
  by (cases "probe_get env c b")
    (simp_all add: probe_backend_def record_probe_success_def record_probe_failure_def)

lemma probe_backend_other:
  "be_id b \<noteq> i \<Longrightarrow> health_entry (probe_backend env c b ob st) i = health_entry st i"
  by (cases "probe_get env c b")
    (simp_all add: probe_backend_def record_probe_success_def record_probe_failure_def)

lemma push_failure_not_Nil [simp]: "push_failure now ts \<noteq> []"
  by (simp add: push_failure_def FAILURE_WINDOW_def dropWhile_append)

lemma probe_backend_status:
  assumes "probe_get env c b \<noteq> GetPanic"
  shows "health_status (health_entry (probe_backend env c b ob st) (be_id b)) = ''healthy'' \<longleftrightarrow>
    (\<exists>s body. probe_get env c b = GetOk s body \<and> 200 \<le> s \<and> s < 300)"
  using assms
  by (cases "probe_get env c b")
    (auto simp: probe_backend_def record_probe_success_def record_probe_failure_def health_status_def)

text \<open>
  After a round of the active probe a backend is shown as healthy exactly when its own probe was answered
  with a success, whatever was observed of it before; an inactive probe changes nothing.
\<close>

theorem probe_round_status:
  assumes "distinct (map be_id (cfg_backends c))" and "b \<in> set (cfg_backends c)"
    and "probe_get env (cfg_health c) b \<noteq> GetPanic"
  shows "if hc_active (cfg_health c)
    then health_status (health_entry (probe_round env ob c st) (be_id b)) = ''healthy'' \<longleftrightarrow>
      (\<exists>s body. probe_get env (cfg_health c) b = GetOk s body \<and> 200 \<le> s \<and> s < 300)
    else probe_round env ob c st = st"
proof -
  let ?h = "cfg_health c"
  have keep: "health_entry (fold (\<lambda>b. probe_backend env ?h b (ob b)) bs st) i = health_entry st i"
    if "i \<notin> be_id ` set bs" for bs st i
    using that by (induction bs arbitrary: st) (auto simp: probe_backend_other)
  have "health_status (health_entry (fold (\<lambda>b. probe_backend env ?h b (ob b)) bs st) (be_id b)) = ''healthy'' \<longleftrightarrow>
      (\<exists>s body. probe_get env ?h b = GetOk s body \<and> 200 \<le> s \<and> s < 300)"
    if "distinct (map be_id bs)" "b \<in> set bs" for bs st
    using that
  proof (induction bs arbitrary: st)
    case (Cons x xs)
    show ?case
    proof (cases "x = b")
      case True
      then show ?thesis using Cons.prems keep [of "be_id b" xs] probe_backend_status [OF assms(3)] by simp
    next
      case False
      then show ?thesis using Cons by simp
    qed
  qed simp
  then show ?thesis using assms(1,2) by (simp add: probe_round_def)
qed

theorem probe_round_status_witness:
  "\<forall>ob. health_status (health_entry (probe_round sample_task_env ob upstream_config []) ''b'') = ''healthy''"
proof
  fix ob
  let ?b = "hd (cfg_backends upstream_config)"
  have g: "probe_get sample_task_env h b =
      GetOk 200 (Some (JObject [(''default_generation_settings'', JObject [(''n_ctx'', jnat 4096)])]))" for h b
    by (simp add: probe_get_def sample_task_env_def)
  have "be_id ?b = ''b''" "hc_active (cfg_health upstream_config)"
    by (simp_all add: upstream_config_def example_config_def)
  moreover have "distinct (map be_id (cfg_backends upstream_config))" "?b \<in> set (cfg_backends upstream_config)"
    by (simp_all add: upstream_config_def example_config_def)
  ultimately show "health_status (health_entry (probe_round sample_task_env ob upstream_config []) ''b'') = ''healthy''"
    using probe_round_status [of upstream_config ?b sample_task_env ob "[]"] g by simp
qed

end
