(* ===== verification/Config_Watcher.thy ===== *)
theory Config_Watcher
  imports Config
begin

text \<open>
  The configuration watcher of \<open>onair-core/src/config.rs\<close>: which notifications of the file system ask
  for a reload, the channel between the callback and the task, the debounce loop and the reload with
  its retries, as a step relation in which the file system, the callback and the task interleave.  The
  main result is that the running configuration converges to the one on disk.
\<close>

section \<open>The watched path\<close>

definition file_name :: "string \<Rightarrow> string option" where
  "file_name p = (case rev (path_components p) of Normal s # _ \<Rightarrow> Some s | _ \<Rightarrow> None)"

definition parent :: "string \<Rightarrow> path_component list option" where
  "parent p = (case rev (path_components p) of [] \<Rightarrow> None | RootDir # _ \<Rightarrow> None | _ # cs \<Rightarrow> Some (rev cs))"

definition absolute_path :: "string option \<Rightarrow> string \<Rightarrow> string option" where
  "absolute_path current_dir path =
     (if starts_with ''/'' path then Some path
      else map_option (\<lambda>d. if ends_with ''/'' d then d @ path else d @ ''/'' @ path) current_dir)"

datatype watch_error = NoCurrentDir | NoParent | NoFilename | NotifyFailed

text \<open>
  What \<open>ConfigWatcher::start\<close> settles before it spawns the task: the absolute path, the directory it
  watches and the file name it compares with.  \<open>watch_ok\<close> says whether the operating system accepts the watch.
\<close>

definition watch_target ::
  "string option \<Rightarrow> (path_component list \<Rightarrow> bool) \<Rightarrow> string \<Rightarrow>
     watch_error + (string \<times> path_component list \<times> string)" where
  "watch_target current_dir watch_ok path =
     bind_res (ok_or (absolute_path current_dir path) NoCurrentDir) (\<lambda>path.
     bind_res (ok_or (parent path) NoParent) (\<lambda>directory.
     bind_res (ok_or (file_name path) NoFilename) (\<lambda>filename.
     bind_res (guard_res (watch_ok directory) NotifyFailed) (\<lambda>_.
     Inr (path, directory, filename)))))"

section \<open>Notifications\<close>

datatype access_mode = AccessAny | AccessExecute | AccessRead | AccessWrite | AccessOther
datatype access_kind = AkAny | AkRead | AkOpen access_mode | AkClose access_mode | AkOther
datatype event_kind = EkAny | EkAccess access_kind | EkCreate | EkModify | EkRemove | EkOther

record watch_event =
  we_kind :: event_kind
  we_paths :: "string list"

definition is_reload_event :: "string \<Rightarrow> string \<Rightarrow> watch_event \<Rightarrow> bool" where
  "is_reload_event path filename event =
     (we_kind event \<in> {EkAny, EkCreate, EkModify, EkRemove, EkAccess (AkClose AccessWrite), EkAccess (AkClose AccessAny)}
      \<and> (we_paths event = []
         \<or> list_ex (\<lambda>p. path_components p = path_components path \<or> file_name p = Some filename) (we_paths event)))"

text \<open>An item of the channel is a notification, or the error that the notifier reported instead.\<close>

type_synonym watch_item = "watch_event option"

fun asks_reload :: "string \<Rightarrow> string \<Rightarrow> watch_item \<Rightarrow> bool" where
  "asks_reload path filename None = False"
| "asks_reload path filename (Some event) = is_reload_event path filename event"

definition watch_callback :: "string \<Rightarrow> string \<Rightarrow> watch_item \<Rightarrow> watch_item list \<Rightarrow> watch_item list" where
  "watch_callback path filename item queue =
     (case item of
        Some event \<Rightarrow> if is_reload_event path filename event then queue @ [Some event] else queue
      | None \<Rightarrow> queue @ [None])"

section \<open>The task\<close>

text \<open>
  The phases of \<open>process_config_watch_events\<close>: receiving; asleep in \<open>wait_for_reload_quiet\<close>; draining the channel,
  with the flag \<open>saw_reload_event\<close>; before an attempt of \<open>reload_config_with_retries\<close>, by its number; returned.
\<close>

datatype watch_phase = Waiting | Sleeping | Draining bool | Reloading nat | Stopped

record watch_state =
  ws_disk :: file_system
  ws_kernel :: "watch_item list"
  ws_queue :: "watch_item list"
  ws_open :: bool
  ws_phase :: watch_phase
  ws_store :: config

fun recv_step :: "string \<Rightarrow> string \<Rightarrow> bool \<Rightarrow> watch_item list \<Rightarrow> watch_item list \<times> watch_phase" where
  "recv_step path filename sender [] = ([], if sender then Waiting else Stopped)"
| "recv_step path filename sender (item # queue) =
     (queue, if asks_reload path filename item then Sleeping else Waiting)"

fun drain_step ::
  "string \<Rightarrow> string \<Rightarrow> bool \<Rightarrow> bool \<Rightarrow> watch_item list \<Rightarrow> watch_item list \<times> watch_phase" where
  "drain_step path filename sender saw [] =
     ([], if \<not> sender then Stopped else if saw then Sleeping else Reloading 1)"
| "drain_step path filename sender saw (item # queue) =
     (queue, Draining (asks_reload path filename item \<or> saw))"

definition attempt_step :: "host \<Rightarrow> string \<Rightarrow> file_system \<Rightarrow> nat \<Rightarrow> config \<Rightarrow> config \<times> watch_phase" where
  "attempt_step h path disk n store =
     (case try_reload_config h disk path store of
        Inr store' \<Rightarrow> (store', Waiting)
      | Inl _ \<Rightarrow> (store, if n = CONFIG_RELOAD_MAX_ATTEMPTS then Waiting else Reloading (n + 1)))"

definition task_step :: "host \<Rightarrow> string \<Rightarrow> string \<Rightarrow> watch_state \<Rightarrow> watch_state" where
  "task_step h path filename s =
     (case ws_phase s of
        Waiting \<Rightarrow> let (q, p) = recv_step path filename (ws_open s) (ws_queue s) in s\<lparr>ws_queue := q, ws_phase := p\<rparr>
      | Sleeping \<Rightarrow> s\<lparr>ws_phase := Draining False\<rparr>
      | Draining saw \<Rightarrow>
          let (q, p) = drain_step path filename (ws_open s) saw (ws_queue s) in s\<lparr>ws_queue := q, ws_phase := p\<rparr>
      | Reloading n \<Rightarrow>
          let (st, p) = attempt_step h path (ws_disk s) n (ws_store s) in s\<lparr>ws_store := st, ws_phase := p\<rparr>
      | Stopped \<Rightarrow> s)"

section \<open>Interleaving\<close>

text \<open>
  Between any two steps of the task the file system may change, the notifier may run the callback, the sender
  may be dropped and the task may be aborted (\<open>Drop for ConfigWatcher\<close>).  What the watcher relies on: a change
  after which the file loads differently is followed by a notification that names it.
\<close>

definition deliver :: "string \<Rightarrow> string \<Rightarrow> watch_state \<Rightarrow> watch_state" where
  "deliver path filename s =
     (case ws_kernel s of
        [] \<Rightarrow> s
      | item # rest \<Rightarrow> s\<lparr>ws_kernel := rest, ws_queue := watch_callback path filename item (ws_queue s)\<rparr>)"

inductive watch_step :: "host \<Rightarrow> string \<Rightarrow> string \<Rightarrow> watch_state \<Rightarrow> watch_state \<Rightarrow> bool"
  for h :: host and path :: string and filename :: string where
  change: "load h fs path = load h (ws_disk s) path \<or> list_ex (asks_reload path filename) items \<Longrightarrow>
    watch_step h path filename s (s\<lparr>ws_disk := fs, ws_kernel := ws_kernel s @ items\<rparr>)"
| notified: "ws_open s \<Longrightarrow> watch_step h path filename s (deliver path filename s)"
| task: "watch_step h path filename s (task_step h path filename s)"
| closed: "watch_step h path filename s (s\<lparr>ws_open := False\<rparr>)"
| aborted: "watch_step h path filename s (s\<lparr>ws_phase := Stopped\<rparr>)"

definition watch_start :: "file_system \<Rightarrow> config \<Rightarrow> watch_state" where
  "watch_start fs store = \<lparr>ws_disk = fs, ws_kernel = [], ws_queue = [], ws_open = True,
     ws_phase = Waiting, ws_store = store\<rparr>"

definition deliver_all :: "string \<Rightarrow> string \<Rightarrow> watch_state \<Rightarrow> watch_state" where
  "deliver_all path filename s = (deliver path filename ^^ length (ws_kernel s)) s"

section \<open>Convergence\<close>

text \<open>
  The invariant: a reload is on its way (a notification not yet consumed, or a task that will read the file), or
  the file on disk does not load, or the store holds what it loads to.
\<close>

definition reload_due :: "string \<Rightarrow> string \<Rightarrow> watch_state \<Rightarrow> bool" where
  "reload_due path filename s =
     (list_ex (asks_reload path filename) (ws_kernel s @ ws_queue s) \<or> ws_phase s \<noteq> Waiting)"

fun phase_ok :: "watch_phase \<Rightarrow> bool" where
  "phase_ok (Reloading n) = (1 \<le> n \<and> n \<le> CONFIG_RELOAD_MAX_ATTEMPTS)"
| "phase_ok _ = True"

definition watch_inv :: "host \<Rightarrow> string \<Rightarrow> string \<Rightarrow> watch_state \<Rightarrow> bool" where
  "watch_inv h path filename s =
     (config_wf (ws_store s) \<and> phase_ok (ws_phase s) \<and>
      (reload_due path filename s \<or> \<not> is_ok (load h (ws_disk s) path) \<or> load h (ws_disk s) path = Inr (ws_store s)))"

lemma watch_callback_asks [simp]:
  "list_ex (asks_reload path filename) (watch_callback path filename item queue)
     \<longleftrightarrow> asks_reload path filename item \<or> list_ex (asks_reload path filename) queue"
  by (cases item) (auto simp: watch_callback_def)

lemma reload_due_deliver [simp]: "reload_due path filename (deliver path filename s) = reload_due path filename s"
  by (auto simp: reload_due_def deliver_def split: list.splits)

lemma deliver_simps [simp]:
  "ws_disk (deliver path filename s) = ws_disk s" "ws_store (deliver path filename s) = ws_store s"
  "ws_phase (deliver path filename s) = ws_phase s" "ws_open (deliver path filename s) = ws_open s"
  "ws_kernel (deliver path filename s) = tl (ws_kernel s)"
  by (simp_all add: deliver_def split: list.splits)

lemma task_step_frame [simp]:
  "ws_disk (task_step h path filename s) = ws_disk s" "ws_kernel (task_step h path filename s) = ws_kernel s"
  "ws_open (task_step h path filename s) = ws_open s"
  by (auto simp: task_step_def Let_def split: watch_phase.splits prod.splits)

lemma attempt_step_cases:
  "attempt_step h path disk n store =
     (case load h disk path of
        Inr c \<Rightarrow> (c, Waiting)
      | Inl _ \<Rightarrow> (store, if n = CONFIG_RELOAD_MAX_ATTEMPTS then Waiting else Reloading (n + 1)))"
  by (simp add: attempt_step_def try_reload_eq_load)

lemma task_step_inv:
  assumes "watch_inv h path filename s"
  shows "watch_inv h path filename (task_step h path filename s)"
proof (cases "ws_phase s")
  case Waiting
  then show ?thesis using assms
    by (cases "ws_queue s") (auto simp: task_step_def watch_inv_def reload_due_def)
next
  case (Draining saw)
  then show ?thesis using assms
    by (cases "ws_queue s") (auto simp: task_step_def watch_inv_def reload_due_def CONFIG_RELOAD_MAX_ATTEMPTS_def)
next
  case (Reloading n)
  then show ?thesis using assms load_wf [of h "ws_disk s" path]
    by (auto simp: task_step_def watch_inv_def reload_due_def attempt_step_cases is_ok_iff Let_def
        split: sum.splits)
qed (use assms in \<open>auto simp: task_step_def watch_inv_def reload_due_def\<close>)

lemma watch_step_inv:
  "watch_step h path filename s t \<Longrightarrow> watch_inv h path filename s \<Longrightarrow> watch_inv h path filename t"
proof (induction rule: watch_step.induct)
  case (change fs s items)
  then show ?case by (auto simp: watch_inv_def reload_due_def)
next
  case (notified s)
  then show ?case by (simp add: watch_inv_def)
next
  case (task s)
  then show ?case by (rule task_step_inv)
qed (simp_all add: watch_inv_def reload_due_def)

lemma watch_reachable_inv:
  assumes "(watch_step h path filename)\<^sup>*\<^sup>* (watch_start fs c) s" and "load h fs path = Inr c"
  shows "watch_inv h path filename s"
  using assms(1)
proof (induction rule: rtranclp_induct)
  case base
  then show ?case using assms(2) load_wf by (auto simp: watch_start_def watch_inv_def)
next
  case (step s t)
  then show ?case using watch_step_inv by blast
qed


text \<open>The steps of the reloading phases are the loop of \<open>reload_config_with_retries\<close>, one attempt at a time.\<close>

lemma reload_attempts_by_steps:
  assumes "n \<le> CONFIG_RELOAD_MAX_ATTEMPTS"
  shows "reload_attempts h (map view [n ..< CONFIG_RELOAD_MAX_ATTEMPTS + 1]) path store =
    (case attempt_step h path (view n) n store of
       (store', Reloading m) \<Rightarrow> reload_attempts h (map view [m ..< CONFIG_RELOAD_MAX_ATTEMPTS + 1]) path store'
     | (store', _) \<Rightarrow> store')"
  using assms by (auto simp: upt_conv_Cons attempt_step_cases try_reload_eq_load split: sum.splits)

text \<open>The steps that the task has left when nothing else happens.\<close>

fun steps_left :: "watch_phase \<Rightarrow> nat \<Rightarrow> nat" where
  "steps_left Waiting q = (if q = 0 then 0 else q + 9)"
| "steps_left Sleeping q = (if q = 0 then 7 else q + 9)"
| "steps_left (Draining saw) q = (if q = 0 then if saw then 8 else 6 else q + 8)"
| "steps_left (Reloading n) q = (6 - n) + (if q = 0 then 0 else q + 9)"
| "steps_left Stopped q = 0"

abbreviation task_left :: "watch_state \<Rightarrow> nat" where
  "task_left s \<equiv> steps_left (ws_phase s) (length (ws_queue s))"

lemma task_left_bound: "task_left s \<le> length (ws_queue s) + 15"
  by (cases "ws_phase s") auto

lemma task_left_0: "task_left s = 0 \<Longrightarrow> phase_ok (ws_phase s) \<Longrightarrow> ws_phase s \<noteq> Stopped \<Longrightarrow> ws_phase s = Waiting \<and> ws_queue s = []"
  by (cases "ws_phase s") (auto simp: CONFIG_RELOAD_MAX_ATTEMPTS_def split: if_splits)

lemma task_step_progress:
  assumes "ws_open s" and "ws_phase s \<noteq> Stopped" and "phase_ok (ws_phase s)" and "0 < task_left s"
  shows "task_left (task_step h path filename s) < task_left s
    \<and> ws_phase (task_step h path filename s) \<noteq> Stopped \<and> phase_ok (ws_phase (task_step h path filename s))"
proof (cases "ws_phase s")
  case Waiting
  then show ?thesis using assms by (cases "ws_queue s") (auto simp: task_step_def)
next
  case (Draining saw)
  then show ?thesis using assms
    by (cases "ws_queue s") (auto simp: task_step_def CONFIG_RELOAD_MAX_ATTEMPTS_def)
next
  case (Reloading n)
  then show ?thesis using assms
    by (auto simp: task_step_def attempt_step_cases CONFIG_RELOAD_MAX_ATTEMPTS_def split: sum.splits)
qed (use assms in \<open>auto simp: task_step_def\<close>)

lemma task_step_store_failing:
  "\<not> is_ok (load h (ws_disk s) path) \<Longrightarrow> ws_store (task_step h path filename s) = ws_store s"
  by (auto simp: task_step_def attempt_step_cases is_ok_iff Let_def split: watch_phase.splits sum.splits prod.splits)

lemma task_comes_to_rest:
  assumes "ws_open s" and "ws_phase s \<noteq> Stopped" and "watch_inv h path filename s" and "ws_kernel s = []"
  shows "\<exists>n \<le> task_left s. \<exists>t. t = (task_step h path filename ^^ n) s \<and> ws_phase t = Waiting \<and> ws_queue t = []
    \<and> ws_store t = (case load h (ws_disk s) path of Inr c \<Rightarrow> c | Inl _ \<Rightarrow> ws_store s)"
  using assms
proof (induction "task_left s" arbitrary: s rule: less_induct)
  case less
  have ok: "phase_ok (ws_phase s)" using less.prems(3) by (simp add: watch_inv_def)
  show ?case
  proof (cases "task_left s = 0")
    case True
    then have rest: "ws_phase s = Waiting" "ws_queue s = []" using task_left_0 ok less.prems(2) by blast+
    then have "\<not> reload_due path filename s" using less.prems(4) by (simp add: reload_due_def)
    then have "ws_store s = (case load h (ws_disk s) path of Inr c \<Rightarrow> c | Inl _ \<Rightarrow> ws_store s)"
      using less.prems(3) by (auto simp: watch_inv_def is_ok_iff split: sum.splits)
    then show ?thesis using rest by (intro exI [of _ 0]) simp
  next
    case False
    let ?s = "task_step h path filename s"
    have step: "task_left ?s < task_left s" "ws_phase ?s \<noteq> Stopped"
      using task_step_progress [OF less.prems(1,2) ok] False by blast+
    obtain n t where n: "n \<le> task_left ?s" "t = (task_step h path filename ^^ n) ?s" "ws_phase t = Waiting"
      "ws_queue t = []" "ws_store t = (case load h (ws_disk s) path of Inr c \<Rightarrow> c | Inl _ \<Rightarrow> ws_store ?s)"
      using less.hyps [OF step(1) _ step(2) task_step_inv [OF less.prems(3)]] less.prems(1,4) by auto
    have "ws_store t = (case load h (ws_disk s) path of Inr c \<Rightarrow> c | Inl _ \<Rightarrow> ws_store s)"
      using n(5) task_step_store_failing [of h s path filename] by (auto simp: is_ok_iff split: sum.splits)
    then show ?thesis using n step(1) by (intro exI [of _ "Suc n"]) (auto simp: funpow_swap1)
  qed
qed

lemma deliver_length: "length (ws_queue (deliver path filename s)) \<le> Suc (length (ws_queue s))"
  by (auto simp: deliver_def watch_callback_def split: list.splits option.splits)

lemma deliver_many:
  "ws_disk ((deliver path filename ^^ k) s) = ws_disk s \<and> ws_store ((deliver path filename ^^ k) s) = ws_store s
   \<and> ws_phase ((deliver path filename ^^ k) s) = ws_phase s \<and> ws_open ((deliver path filename ^^ k) s) = ws_open s
   \<and> ws_kernel ((deliver path filename ^^ k) s) = drop k (ws_kernel s)
   \<and> reload_due path filename ((deliver path filename ^^ k) s) = reload_due path filename s
   \<and> length (ws_queue ((deliver path filename ^^ k) s)) \<le> length (ws_queue s) + k"
proof (induction k)
  case (Suc k)
  then show ?case using deliver_length [of path filename "(deliver path filename ^^ k) s"]
    by (simp add: drop_Suc tl_drop)
qed simp

text \<open>
  C21: the running configuration converges to the file.  Whatever changes of the file, notifications, failed
  notifications and partial reloads have interleaved since the start, the store holds a valid configuration; and
  as soon as the pending notifications are delivered and the file is left alone, a bounded number of steps of the
  task later the channel is empty, the task waits, and the store holds what the file loads to, or is unchanged
  if the file does not load.  No change is missed because it arrives during the debounce or during a reload.
\<close>

theorem config_converges:
  assumes "(watch_step h path filename)\<^sup>*\<^sup>* (watch_start fs c) s" and "load h fs path = Inr c"
    and "ws_open s" and "ws_phase s \<noteq> Stopped"
  shows "config_wf (ws_store s) \<and>
    (\<exists>n \<le> length (ws_kernel s) + length (ws_queue s) + 15.
       \<exists>t. t = (task_step h path filename ^^ n) (deliver_all path filename s)
         \<and> ws_phase t = Waiting \<and> ws_queue t = []
         \<and> ws_store t = (case load h (ws_disk s) path of Inr c' \<Rightarrow> c' | Inl _ \<Rightarrow> ws_store s))"
proof -
  let ?d = "deliver_all path filename s"
  have inv: "watch_inv h path filename s" by (rule watch_reachable_inv [OF assms(1,2)])
  note d = deliver_many [where path = path and filename = filename and k = "length (ws_kernel s)" and s = s, folded deliver_all_def, simplified]
  have "watch_inv h path filename ?d" using inv d by (simp add: watch_inv_def)
  then have "\<exists>n \<le> task_left ?d. \<exists>t. t = (task_step h path filename ^^ n) ?d \<and> ws_phase t = Waiting \<and> ws_queue t = []
      \<and> ws_store t = (case load h (ws_disk s) path of Inr c' \<Rightarrow> c' | Inl _ \<Rightarrow> ws_store s)"
    using task_comes_to_rest [of ?d h path filename] d assms(3,4) by (simp cong: sum.case_cong)
  then obtain n t where "n \<le> task_left ?d" and t: "t = (task_step h path filename ^^ n) ?d" "ws_phase t = Waiting"
    "ws_queue t = []" "ws_store t = (case load h (ws_disk s) path of Inr c' \<Rightarrow> c' | Inl _ \<Rightarrow> ws_store s)" by blast
  then have "n \<le> length (ws_kernel s) + length (ws_queue s) + 15" using task_left_bound [of ?d] d by linarith
  then show ?thesis using t inv unfolding watch_inv_def by blast
qed

theorem config_converges_witness:
  "\<exists>n t. t = (task_step example_host ''/etc/onair.toml'' ''onair.toml'' ^^ n)
      (deliver_all ''/etc/onair.toml'' ''onair.toml'' ((watch_start (example_view 3) example_config)
        \<lparr>ws_disk := example_view 1, ws_kernel := [Some \<lparr>we_kind = EkModify, we_paths = [''/etc/onair.toml'']\<rparr>]\<rparr>))
    \<and> n \<le> 16 \<and> ws_phase t = Waiting \<and> ws_store t = example_config"
proof -
  let ?e = "Some \<lparr>we_kind = EkModify, we_paths = [''/etc/onair.toml'']\<rparr>"
  let ?s = "(watch_start (example_view 3) example_config)\<lparr>ws_disk := example_view 1, ws_kernel := [?e]\<rparr>"
  have start: "load example_host (example_view 3) ''/etc/onair.toml'' = Inr example_config"
    and fails: "load example_host (example_view 1) ''/etc/onair.toml'' = Inl (ReadFailed ''/etc/onair.toml'')"
    by (simp_all add: load_def example_view_def example_resolve)
  have "asks_reload ''/etc/onair.toml'' ''onair.toml'' ?e" by (simp add: is_reload_event_def)
  then have "watch_step example_host ''/etc/onair.toml'' ''onair.toml'' (watch_start (example_view 3) example_config) ?s"
    using watch_step.change [of example_host "example_view 1" "''/etc/onair.toml''" "watch_start (example_view 3) example_config" "''onair.toml''" "[?e]"]
    by (simp add: watch_start_def)
  from config_converges [OF r_into_rtranclp [where r = "watch_step _ _ _", OF this] start]
  show ?thesis using fails by (auto simp: watch_start_def)
qed

end
