(* ===== verification/Server.thy ===== *)
theory Server
  imports Traffic Background_Tasks Config_Watcher Context_Cache
begin

text \<open>
  The server as a whole: the configuration watcher, the requests in flight and the background tasks as one step relation
  over the shared state of \<open>AppState\<close> (\<open>onair/src/app.rs\<close>) and \<open>ProxyState\<close>.  A request takes a snapshot of the
  configuration when it arrives; what it does afterwards (upstream requests, health reports, inspector records)
  interleaves with everything else, one effect at a time.
\<close>

record inflight =
  if_env :: proxy_env
  if_config :: config
  if_effects :: "effect list"

text \<open>The shared state; \<open>sy_loaded\<close> and \<open>sy_sent\<close> are histories: the configurations that were active and what was sent.\<close>

record server =
  sy_watch :: watch_state
  sy_health :: health_store
  sy_inspector :: inspector_store
  sy_context_sizes :: context_size_cache
  sy_round_robin :: rr_counters
  sy_inflight :: "inflight list"
  sy_loaded :: "config list"
  sy_sent :: "(inflight \<times> string \<times> outbound) list"

abbreviation active_config :: "server \<Rightarrow> config" where
  "active_config s \<equiv> ws_store (sy_watch s)"

definition accept_request :: "proxy_env \<Rightarrow> client_request \<Rightarrow> server \<Rightarrow> server" where
  "accept_request env q s =
     (let out = proxy_v1 env (active_config s) (sy_round_robin s) q
      in s\<lparr>sy_round_robin := po_counters out,
           sy_inflight := sy_inflight s @ [\<lparr>if_env = env, if_config = active_config s, if_effects = po_effects out\<rparr>]\<rparr>)"

definition inspector_write ::
  "(bool \<Rightarrow> nat \<Rightarrow> inspector_request_record \<Rightarrow> store_op) \<Rightarrow> inflight \<Rightarrow> inspector_request_record \<Rightarrow> server \<Rightarrow> server" where
  "inspector_write op x r s =
     s\<lparr>sy_inspector := store_step (op (ic_enabled (cfg_inspector (if_config x)))
         (ic_retention_requests (cfg_inspector (if_config x))) r) (sy_inspector s)\<rparr>"

definition apply_effect ::
  "observation \<Rightarrow> (inspector_record \<Rightarrow> inspector_request_record) \<Rightarrow> inflight \<Rightarrow> effect \<Rightarrow> server \<Rightarrow> server" where
  "apply_effect ob stored x e s =
     (case e of
        Sent b out \<Rightarrow> s\<lparr>sy_sent := sy_sent s @ [(x, b, out)]\<rparr>
      | Health h \<Rightarrow> s\<lparr>sy_health := health_step (report_event ob h) (sy_health s)\<rparr>
      | Inspect ir \<Rightarrow> inspector_write OpFinal x (stored ir) s
      | _ \<Rightarrow> s)"

definition progress :: "observation \<Rightarrow> (inspector_record \<Rightarrow> inspector_request_record) \<Rightarrow> nat \<Rightarrow> server \<Rightarrow> server" where
  "progress ob stored i s =
     (let x = sy_inflight s ! i
      in case if_effects x of
           [] \<Rightarrow> s
         | e # es \<Rightarrow> apply_effect ob stored x e (s\<lparr>sy_inflight := (sy_inflight s)[i := x\<lparr>if_effects := es\<rparr>]\<rparr>))"

inductive server_step :: "host \<Rightarrow> string \<Rightarrow> string \<Rightarrow> server \<Rightarrow> server \<Rightarrow> bool"
  for h :: host and path :: string and filename :: string where
  watching: "watch_step h path filename (sy_watch s) w \<Longrightarrow>
    server_step h path filename s (s\<lparr>sy_watch := w, sy_loaded := ws_store w # sy_loaded s\<rparr>)"
| arriving: "server_step h path filename s (accept_request env q s)"
| progressing: "i < length (sy_inflight s) \<Longrightarrow> server_step h path filename s (progress ob stored i s)"
| publishing: "x \<in> set (sy_inflight s) \<Longrightarrow> server_step h path filename s (inspector_write OpUpsert x r s)"
| probing: "server_step h path filename s (s\<lparr>sy_health := probe_round env ob (active_config s) (sy_health s)\<rparr>)"
| refreshing: "server_step h path filename s
    (s\<lparr>sy_context_sizes := refresh_once (active_config s) completed (sy_context_sizes s)\<rparr>)"

definition server_start :: "file_system \<Rightarrow> config \<Rightarrow> server" where
  "server_start fs c =
     \<lparr>sy_watch = watch_start fs c, sy_health = [], sy_inspector = store_new, sy_context_sizes = [],
      sy_round_robin = Map.empty, sy_inflight = [], sy_loaded = [c], sy_sent = []\<rparr>"

section \<open>The invariant\<close>

definition configured_ids :: "server \<Rightarrow> string set" where
  "configured_ids s = {be_id b |b cfg. cfg \<in> set (sy_loaded s) \<and> b \<in> set (cfg_backends cfg)}"

text \<open>What holds of an effect that a request still has to perform.\<close>

fun effect_ok :: "inflight \<Rightarrow> effect \<Rightarrow> bool" where
  "effect_ok x (Sent b out) = (\<exists>bk \<in> set (cfg_backends (if_config x)). addressed_to (if_env x) bk (b, out))"
| "effect_ok x (Health h) = (report_backend h \<in> be_id ` set (cfg_backends (if_config x)))"
| "effect_ok x _ = True"

definition inflight_ok :: "server \<Rightarrow> inflight \<Rightarrow> bool" where
  "inflight_ok s x \<longleftrightarrow> if_config x \<in> set (sy_loaded s) \<and> list_all (effect_ok x) (if_effects x)"

definition sent_ok :: "server \<Rightarrow> inflight \<times> string \<times> outbound \<Rightarrow> bool" where
  "sent_ok s p \<longleftrightarrow> if_config (fst p) \<in> set (sy_loaded s) \<and>
     (\<exists>b \<in> set (cfg_backends (if_config (fst p))). addressed_to (if_env (fst p)) b (snd p))"

definition server_inv :: "host \<Rightarrow> string \<Rightarrow> string \<Rightarrow> server \<Rightarrow> bool" where
  "server_inv h path filename s \<longleftrightarrow>
     watch_inv h path filename (sy_watch s) \<and> list_all config_wf (sy_loaded s) \<and> active_config s \<in> set (sy_loaded s) \<and>
     list_all (inflight_ok s) (sy_inflight s) \<and> list_all (sent_ok s) (sy_sent s) \<and>
     (\<forall>b. b \<notin> configured_ids s \<longrightarrow> health_entry (sy_health s) b = default_health_record) \<and>
     distinct (record_ids (sy_inspector s)) \<and> retained_len (sy_inspector s) \<le> 100000 \<and>
     cache_consistent (sy_context_sizes s)"

lemma effect_ok_config [simp]: "effect_ok (x\<lparr>if_effects := es\<rparr>) e = effect_ok x e"
  by (cases e) simp_all

lemma effects_sent: "Sent b out \<in> set es \<Longrightarrow> (b, out) \<in> set (sent es)"
  by (force simp: sent_def List.map_filter_def)

lemma effects_health: "Health r \<in> set es \<Longrightarrow> r \<in> set (health es)"
  by (force simp: health_def List.map_filter_def)

lemma accepted_effects:
  fixes env cfg c q
  defines "x \<equiv> \<lparr>if_env = env, if_config = cfg, if_effects = po_effects (proxy_v1 env cfg c q)\<rparr>"
  shows "list_all (effect_ok x) (if_effects x)"
proof -
  let ?es = "po_effects (proxy_v1 env cfg c q)"
  obtain bs where bs: "map report_backend (health ?es) @ bs = map fst (sent ?es)"
    using proxy_v1_reported unfolding reported_def pending_def by blast
  have "effect_ok x e" if e: "e \<in> set ?es" for e
  proof (cases e)
    case (Sent b out)
    then show ?thesis using proxy_v1_sent_configured effects_sent e by (fastforce simp: x_def)
  next
    case (Health r)
    then have "report_backend r \<in> set (map report_backend (health ?es))" using effects_health e by auto
    then have "report_backend r \<in> set (map fst (sent ?es))" using bs by (metis Un_iff set_append)
    then obtain p where "p \<in> set (sent ?es)" "fst p = report_backend r" by auto
    then show ?thesis using proxy_v1_sent_configured Health by (fastforce simp: x_def addressed_to_def)
  qed simp_all
  then show ?thesis by (simp add: x_def list_all_iff)
qed

lemma store_step_ok:
  assumes "distinct (record_ids st)" and "retained_len st \<le> 100000"
  shows "distinct (record_ids (store_step op st)) \<and> retained_len (store_step op st) \<le> 100000"
  using store_steps_distinct [OF assms(1), of "[op]"] store_steps_length [OF assms(2), of "[op]"]
  by (simp add: clamp_retention_def MAX_RETENTION_REQUESTS_def)

lemma refresh_consistent: "cache_consistent m \<Longrightarrow> cache_consistent (refresh_once cfg completed m)"
proof -
  have fetch: "cache_consistent (store_fetch now f m)" if "cache_consistent m" for now f m
    using that by (cases "(now, f, m)" rule: store_fetch.cases)
      (auto intro: cache_step_consistent [OF cache_step.success] cache_step_consistent [OF cache_step.failure])
  have "cache_consistent (fold (\<lambda>(now, f). store_fetch now f) completed m)" if "cache_consistent m" for m
    using that by (induction completed arbitrary: m) (auto intro: fetch)
  then show "cache_consistent m \<Longrightarrow> ?thesis"
    unfolding refresh_once_def by (blast intro: cache_step_consistent [OF cache_step.prune])
qed

lemma probe_round_other:
  assumes "b \<notin> be_id ` set (cfg_backends cfg)"
  shows "health_entry (probe_round env ob cfg st) b = health_entry st b"
proof -
  have "health_entry (fold (\<lambda>x. probe_backend env hc x (ob x)) bs st) b = health_entry st b"
    if "b \<notin> be_id ` set bs" for bs hc
    using that by (induction bs arbitrary: st) (auto simp: probe_backend_other)
  then show ?thesis using assms by (simp add: probe_round_def)
qed

section \<open>Every step keeps it\<close>

text \<open>What a request may do depends on the configurations that were loaded and on nothing else of the state.\<close>

lemma frame [simp]:
  "inflight_ok (s\<lparr>sy_health := v0\<rparr>) = inflight_ok s"
  "inflight_ok (s\<lparr>sy_inspector := v1\<rparr>) = inflight_ok s"
  "inflight_ok (s\<lparr>sy_context_sizes := v2\<rparr>) = inflight_ok s"
  "inflight_ok (s\<lparr>sy_round_robin := v3\<rparr>) = inflight_ok s"
  "inflight_ok (s\<lparr>sy_inflight := v4\<rparr>) = inflight_ok s"
  "inflight_ok (s\<lparr>sy_sent := v5\<rparr>) = inflight_ok s"
  "sent_ok (s\<lparr>sy_health := v0\<rparr>) = sent_ok s"
  "sent_ok (s\<lparr>sy_inspector := v1\<rparr>) = sent_ok s"
  "sent_ok (s\<lparr>sy_context_sizes := v2\<rparr>) = sent_ok s"
  "sent_ok (s\<lparr>sy_round_robin := v3\<rparr>) = sent_ok s"
  "sent_ok (s\<lparr>sy_inflight := v4\<rparr>) = sent_ok s" "sent_ok (s\<lparr>sy_sent := v5\<rparr>) = sent_ok s"
  "configured_ids (s\<lparr>sy_health := v0\<rparr>) = configured_ids s"
  "configured_ids (s\<lparr>sy_inspector := v1\<rparr>) = configured_ids s"
  "configured_ids (s\<lparr>sy_context_sizes := v2\<rparr>) = configured_ids s"
  "configured_ids (s\<lparr>sy_round_robin := v3\<rparr>) = configured_ids s"
  "configured_ids (s\<lparr>sy_inflight := v4\<rparr>) = configured_ids s"
  "configured_ids (s\<lparr>sy_sent := v5\<rparr>) = configured_ids s"
  by (auto simp: inflight_ok_def sent_ok_def configured_ids_def fun_eq_iff)

lemma watching_inv:
  assumes "server_inv h path filename s" and "watch_step h path filename (sy_watch s) w"
  shows "server_inv h path filename (s\<lparr>sy_watch := w, sy_loaded := ws_store w # sy_loaded s\<rparr>)"
proof -
  let ?t = "s\<lparr>sy_watch := w, sy_loaded := ws_store w # sy_loaded s\<rparr>"
  have w: "watch_inv h path filename w" using assms watch_step_inv by (auto simp: server_inv_def)
  have "inflight_ok s x \<Longrightarrow> inflight_ok ?t x" "sent_ok s p \<Longrightarrow> sent_ok ?t p" for x p
    by (auto simp: inflight_ok_def sent_ok_def)
  moreover have "configured_ids s \<subseteq> configured_ids ?t" by (auto simp: configured_ids_def)
  ultimately show ?thesis
    using assms(1) w unfolding server_inv_def by (auto simp: list_all_iff watch_inv_def)
qed

lemma arriving_inv:
  assumes "server_inv h path filename s"
  shows "server_inv h path filename (accept_request env q s)"
proof -
  have "inflight_ok s \<lparr>if_env = env, if_config = active_config s,
      if_effects = po_effects (proxy_v1 env (active_config s) (sy_round_robin s) q)\<rparr>"
    using assms accepted_effects [of env "active_config s" "sy_round_robin s" q]
    by (simp add: inflight_ok_def server_inv_def)
  then show ?thesis using assms unfolding server_inv_def by (simp add: accept_request_def Let_def)
qed

lemma inspector_write_inv:
  assumes "server_inv h path filename s"
  shows "server_inv h path filename (inspector_write op x r s)"
  using assms store_step_ok [of "sy_inspector s"] unfolding server_inv_def by (simp add: inspector_write_def)

lemma health_inv:
  assumes "server_inv h path filename s"
    and "\<And>b. b \<notin> configured_ids s \<Longrightarrow> health_entry st b = health_entry (sy_health s) b"
  shows "server_inv h path filename (s\<lparr>sy_health := st\<rparr>)"
proof -
  have "\<forall>b. b \<notin> configured_ids s \<longrightarrow> health_entry st b = default_health_record"
    using assms by (metis server_inv_def)
  then show ?thesis using assms(1) unfolding server_inv_def by simp
qed

lemma health_step_other: "event_backend e \<noteq> b \<Longrightarrow> health_entry (health_step e st) b = health_entry st b"
  by (cases e) auto

lemma apply_effect_inv:
  assumes "server_inv h path filename s" and "effect_ok x e" and "if_config x \<in> set (sy_loaded s)"
  shows "server_inv h path filename (apply_effect ob stored x e s)"
proof (cases e)
  case (Sent b out)
  then have "sent_ok s (x, b, out)" using assms(2,3) by (simp add: sent_ok_def)
  then show ?thesis using assms(1) Sent unfolding server_inv_def by (simp add: apply_effect_def)
next
  case (Health r)
  then have "report_backend r \<in> configured_ids s" using assms(2,3) by (auto simp: configured_ids_def)
  then have "server_inv h path filename (s\<lparr>sy_health := health_step (report_event ob r) (sy_health s)\<rparr>)"
    by (intro health_inv [OF assms(1)] health_step_other) auto
  then show ?thesis using Health by (simp add: apply_effect_def)
next
  case (Inspect ir)
  then show ?thesis using assms(1) inspector_write_inv by (simp add: apply_effect_def)
qed (use assms(1) in \<open>simp_all add: apply_effect_def\<close>)

lemma progress_inv:
  assumes "server_inv h path filename s" and "i < length (sy_inflight s)"
  shows "server_inv h path filename (progress ob stored i s)"
proof (cases "if_effects (sy_inflight s ! i)")
  case Nil
  then show ?thesis using assms(1) by (simp add: progress_def)
next
  case (Cons e es)
  define x where "x = sy_inflight s ! i"
  let ?t = "s\<lparr>sy_inflight := (sy_inflight s)[i := x\<lparr>if_effects := es\<rparr>]\<rparr>"
  have x: "inflight_ok s x" using assms by (simp add: server_inv_def list_all_iff x_def)
  have es: "if_effects x = e # es" using Cons by (simp add: x_def)
  have "inflight_ok s (x\<lparr>if_effects := es\<rparr>)" using x es by (simp add: inflight_ok_def list_all_iff)
  then have "list_all (inflight_ok s) ((sy_inflight s)[i := x\<lparr>if_effects := es\<rparr>])"
    using assms(1) set_update_subset_insert [of "sy_inflight s" i "x\<lparr>if_effects := es\<rparr>"]
    by (auto simp: server_inv_def list_all_iff)
  then have "server_inv h path filename ?t" using assms(1) unfolding server_inv_def by simp
  then have "server_inv h path filename (apply_effect ob stored x e ?t)"
    using x es by (intro apply_effect_inv) (simp_all add: inflight_ok_def)
  then show ?thesis using es by (simp add: progress_def x_def [symmetric] Let_def)
qed

lemma background_inv:
  assumes "server_inv h path filename s"
  shows "server_inv h path filename (s\<lparr>sy_health := probe_round env ob (active_config s) (sy_health s)\<rparr>)"
    and "server_inv h path filename (s\<lparr>sy_context_sizes := refresh_once (active_config s) completed (sy_context_sizes s)\<rparr>)"
proof -
  have "be_id ` set (cfg_backends (active_config s)) \<subseteq> configured_ids s"
    using assms by (auto simp: server_inv_def configured_ids_def)
  then show "server_inv h path filename (s\<lparr>sy_health := probe_round env ob (active_config s) (sy_health s)\<rparr>)"
    by (intro health_inv [OF assms] probe_round_other) auto
  show "server_inv h path filename (s\<lparr>sy_context_sizes := refresh_once (active_config s) completed (sy_context_sizes s)\<rparr>)"
    using assms refresh_consistent unfolding server_inv_def by simp
qed

lemma server_step_inv:
  "server_step h path filename s t \<Longrightarrow> server_inv h path filename s \<Longrightarrow> server_inv h path filename t"
  by (induction rule: server_step.induct)
    (auto intro: watching_inv arriving_inv progress_inv inspector_write_inv background_inv)

lemma server_inv_run:
  "(server_step h path filename)\<^sup>*\<^sup>* s t \<Longrightarrow> server_inv h path filename s \<Longrightarrow> server_inv h path filename t"
  by (induction rule: rtranclp_induct) (blast intro: server_step_inv)+

lemma server_start_inv:
  assumes "load h fs path = Inr c"
  shows "server_inv h path filename (server_start fs c)"
proof -
  have "health_entry [] b = default_health_record" for b by (simp add: health_entry_def)
  then show ?thesis using assms load_wf [OF assms] distinct_new
    by (simp add: server_start_def server_inv_def watch_inv_def watch_start_def retained_len_def store_new_def
        store_from_parts_def record_ids_def cache_consistent_def)
qed

lemma server_inv_safe:
  assumes inv: "server_inv h path filename s"
  shows "list_all config_wf (active_config s # sy_loaded s) \<and>
    list_all (\<lambda>(x, p). if_config x \<in> set (sy_loaded s) \<and>
      (\<exists>b \<in> set (cfg_backends (if_config x)). addressed_to (if_env x) b p)) (sy_sent s) \<and>
    (\<forall>b. b \<notin> configured_ids s \<longrightarrow> shown_status (sy_health s) b = ''unknown'') \<and>
    distinct (record_ids (sy_inspector s)) \<and> retained_len (sy_inspector s) \<le> 100000 \<and>
    cache_consistent (sy_context_sizes s)"
proof -
  have "shown_status st b = ''unknown''" if "health_entry st b = default_health_record" for st b
    using that by (simp add: shown_status_def backend_snapshot_of_def health_status_def default_health_record_def)
  then show ?thesis
    using inv unfolding server_inv_def sent_ok_def watch_inv_def by (auto simp: list_all_iff split_beta)
qed

text \<open>
  The server is safe at every moment.  In every state that a server started on a file that loads can reach, whatever
  requests, reloads, probes and refreshes interleave: the active configuration and every one before it are valid;
  each upstream request that was ever sent went to a backend of the configuration its request saw, under that
  backend's base URL and with its key; the health store knows nothing of backends that were never configured; the
  inspector holds at most 100000 records, no two with one id; and the context sizes are consistent.
\<close>

theorem server_safe:
  assumes "(server_step h path filename)\<^sup>*\<^sup>* (server_start fs c) s" and "load h fs path = Inr c"
  shows "list_all config_wf (active_config s # sy_loaded s) \<and>
    list_all (\<lambda>(x, p). if_config x \<in> set (sy_loaded s) \<and>
      (\<exists>b \<in> set (cfg_backends (if_config x)). addressed_to (if_env x) b p)) (sy_sent s) \<and>
    (\<forall>b. b \<notin> configured_ids s \<longrightarrow> shown_status (sy_health s) b = ''unknown'') \<and>
    distinct (record_ids (sy_inspector s)) \<and> retained_len (sy_inspector s) \<le> 100000 \<and>
    cache_consistent (sy_context_sizes s)"
  by (rule server_inv_safe [OF server_inv_run [OF assms(1) server_start_inv [OF assms(2)]]])

theorem server_safe_witness:
  "\<forall>env q. let s = accept_request env q (server_start (example_view 3) example_config)
     in config_wf (active_config s) \<and> distinct (record_ids (sy_inspector s)) \<and> length (sy_inflight s) = 1"
proof (intro allI)
  fix env q
  let ?s = "accept_request env q (server_start (example_view 3) example_config)"
  have "load example_host (example_view 3) ''onair.toml'' = Inr example_config"
    by (simp add: load_def example_view_def example_resolve)
  from server_safe [OF r_into_rtranclp [where r = "server_step example_host ''onair.toml'' ''onair.toml''", OF server_step.arriving] this]
  have "config_wf (active_config ?s)" "distinct (record_ids (sy_inspector ?s))" by simp_all
  moreover have "length (sy_inflight ?s) = 1" by (simp add: accept_request_def server_start_def Let_def)
  ultimately show "let s = ?s in config_wf (active_config s) \<and> distinct (record_ids (sy_inspector s)) \<and> length (sy_inflight s) = 1"
    by simp
qed

end
