(* ===== verification/Operator.thy ===== *)
theory Operator
  imports Context_Cache Backend_Health Inspector_Store
begin

text \<open>
  \<open>onair-proxy/src/operator.rs\<close>: the read-only views of the configuration, the public models, the health of
  the backends and the process.  A snapshot is the record that is serialised; what clocks read is an argument.
\<close>

section \<open>Snapshots\<close>

record server_snapshot =
  ss_bind :: string
  ss_request_body_limit_bytes :: nat
  ss_trusted_proxy_cidrs :: "string list"

record telemetry_snapshot =
  ty_service_name :: string
  ty_exporter :: string
  ty_otlp_endpoint_configured :: bool
  ty_export_interval_ms :: u64

record debug_capture_snapshot =
  ds_enabled :: bool
  ds_mode :: debug_capture_mode
  ds_directory :: string

record inspector_snapshot =
  in_enabled :: bool
  in_retention_requests :: nat
  in_allow_remote :: bool

record health_config_snapshot =
  hn_active :: bool
  hn_interval_ms :: u64
  hn_timeout_ms :: u64
  hn_path :: string

record routing_snapshot =
  rn_strategy :: string
  rn_fallback_attempts :: nat

record route_binding_snapshot =
  bn_backend :: string
  bn_backend_model :: string

record route_snapshot =
  rsn_public :: "string option"
  rsn_path :: "string option"
  rsn_expose :: "string list"
  rsn_context_length :: "u64 option"
  rsn_context_length_source :: string
  rsn_tool_schema_mode :: tool_schema_mode
  rsn_responses_store :: responses_store_policy
  rsn_responses_max_output_tokens :: responses_max_output_tokens_policy
  rsn_chat_stream_usage :: chat_stream_usage_policy
  rsn_backends :: "route_binding_snapshot list"

record client_snapshot =
  cs_id :: string
  cs_models :: "string list"

record backend_snapshot =
  bs_id :: string
  bs_base_url :: string
  bs_api_key_configured :: bool
  bs_timeout_ms :: u64
  bs_tool_schema_mode :: tool_schema_mode
  bs_responses_store :: responses_store_policy
  bs_responses_max_output_tokens :: responses_max_output_tokens_policy
  bs_chat_stream_usage :: chat_stream_usage_policy
  bs_supports :: "string list"
  bs_weight :: u32

record public_model_snapshot =
  pm_public :: string
  pm_context_length :: "u64 option"
  pm_context_length_source :: string
  pm_context_length_last_fetch_unix_ms :: "u64 option"
  pm_clients :: "string list"
  pm_routes :: "route_binding_snapshot list"

record operator_runtime_snapshot =
  or_now_unix_ms :: u64
  or_started_at_unix_ms :: u64
  or_uptime_ms :: u64
  or_clients :: nat
  or_backends :: nat
  or_public_models :: nat
  or_routes :: nat
  or_inspector_retained_requests :: nat
  or_telemetry :: telemetry_snapshot

record operator_config_snapshot =
  oc_server :: server_snapshot
  oc_telemetry :: telemetry_snapshot
  oc_debug_capture :: debug_capture_snapshot
  oc_inspector :: inspector_snapshot
  oc_health :: health_config_snapshot
  oc_routing :: routing_snapshot
  oc_clients :: "client_snapshot list"
  oc_backends :: "backend_snapshot list"
  oc_routes :: "route_snapshot list"

record operator_models_snapshot =
  om_public_models :: "public_model_snapshot list"
  om_clients :: "client_snapshot list"

section \<open>Views of the configuration\<close>

text \<open>\<open>Display\<close> of a network.\<close>

definition show_cidr :: "ip_cidr \<Rightarrow> string" where
  "show_cidr c = show_ip (network c) @ ''/'' @ show_nat (prefix_len c)"

definition show_bind :: "ip_addr \<times> u16 \<Rightarrow> string" where
  "show_bind b = show_socket (case fst b of V4 a \<Rightarrow> SocketV4 a (snd b) | V6 a \<Rightarrow> SocketV6 a (snd b) 0)"

definition server_snapshot_of :: "server_config \<Rightarrow> server_snapshot" where
  "server_snapshot_of c =
     \<lparr>ss_bind = show_bind (bind_addr c), ss_request_body_limit_bytes = request_body_limit_bytes c,
      ss_trusted_proxy_cidrs = map show_cidr (trusted_proxy_cidrs c)\<rparr>"

fun telemetry_exporter_name :: "telemetry_exporter \<Rightarrow> string" where
  "telemetry_exporter_name ExporterNone = ''none''"
| "telemetry_exporter_name ExporterOtlp = ''otlp''"

definition telemetry_snapshot_of :: "telemetry_config \<Rightarrow> telemetry_snapshot" where
  "telemetry_snapshot_of c =
     \<lparr>ty_service_name = service_name c, ty_exporter = telemetry_exporter_name (exporter c),
      ty_otlp_endpoint_configured = (otlp_endpoint c \<noteq> None), ty_export_interval_ms = export_interval_ms c\<rparr>"

definition debug_capture_snapshot_of :: "debug_capture_config \<Rightarrow> debug_capture_snapshot" where
  "debug_capture_snapshot_of c = \<lparr>ds_enabled = dc_enabled c, ds_mode = dc_mode c, ds_directory = dc_directory c\<rparr>"

definition inspector_snapshot_of :: "inspector_config \<Rightarrow> inspector_snapshot" where
  "inspector_snapshot_of c =
     \<lparr>in_enabled = ic_enabled c, in_retention_requests = ic_retention_requests c,
      in_allow_remote = ic_allow_remote c\<rparr>"

definition health_config_snapshot_of :: "health_config \<Rightarrow> health_config_snapshot" where
  "health_config_snapshot_of c =
     \<lparr>hn_active = hc_active c, hn_interval_ms = hc_interval_ms c, hn_timeout_ms = hc_timeout_ms c,
      hn_path = hc_path c\<rparr>"

definition routing_snapshot_of :: "routing_config \<Rightarrow> routing_snapshot" where
  "routing_snapshot_of c =
     \<lparr>rn_strategy = (case rc_strategy c of Priority \<Rightarrow> ''priority'' | Sticky \<Rightarrow> ''sticky''
         | RoundRobin \<Rightarrow> ''round_robin'' | WeightedRandom \<Rightarrow> ''weighted_random''),
      rn_fallback_attempts = rc_fallback_attempts c\<rparr>"

definition clients_snapshot :: "resolved_client list \<Rightarrow> client_snapshot list" where
  "clients_snapshot clients = map (\<lambda>c. \<lparr>cs_id = cl_id c, cs_models = cl_models c\<rparr>) clients"

definition backend_snapshot_of_config :: "resolved_backend \<Rightarrow> backend_snapshot" where
  "backend_snapshot_of_config b =
     \<lparr>bs_id = be_id b, bs_base_url = be_base_url b, bs_api_key_configured = (be_api_key b \<noteq> None),
      bs_timeout_ms = be_timeout b, bs_tool_schema_mode = be_tool_schema_mode b,
      bs_responses_store = be_responses_store b,
      bs_responses_max_output_tokens = be_responses_max_output_tokens b,
      bs_chat_stream_usage = be_chat_stream_usage b, bs_supports = be_supports b, bs_weight = be_weight b\<rparr>"

definition binding_snapshots :: "resolved_route \<Rightarrow> route_binding_snapshot list" where
  "binding_snapshots route =
     map (\<lambda>b. \<lparr>bn_backend = rb_backend_id b, bn_backend_model = rb_backend_model b\<rparr>) (rt_backends route)"

fun static_context_length :: "context_length_spec \<Rightarrow> u64 option" where
  "static_context_length SpecNone = None"
| "static_context_length (SpecStatic n) = Some n"
| "static_context_length (SpecUpstream backend model n) = None"

fun context_length_source :: "context_length_spec \<Rightarrow> string" where
  "context_length_source SpecNone = ''none''"
| "context_length_source (SpecStatic n) = ''static''"
| "context_length_source (SpecUpstream backend model n) = ''upstream''"

definition route_snapshot_of :: "resolved_route \<Rightarrow> route_snapshot" where
  "route_snapshot_of route =
     \<lparr>rsn_public = (case rt_key route of Public p \<Rightarrow> Some p | Path p \<Rightarrow> None),
      rsn_path = (case rt_key route of Public p \<Rightarrow> None | Path p \<Rightarrow> Some p),
      rsn_expose = rt_expose route, rsn_context_length = static_context_length (rt_context_length route),
      rsn_context_length_source = context_length_source (rt_context_length route),
      rsn_tool_schema_mode = rt_tool_schema_mode route, rsn_responses_store = rt_responses_store route,
      rsn_responses_max_output_tokens = rt_responses_max_output_tokens route,
      rsn_chat_stream_usage = rt_chat_stream_usage route, rsn_backends = binding_snapshots route\<rparr>"

definition config_snapshot :: "config \<Rightarrow> operator_config_snapshot" where
  "config_snapshot c =
     \<lparr>oc_server = server_snapshot_of (cfg_server c), oc_telemetry = telemetry_snapshot_of (cfg_telemetry c),
      oc_debug_capture = debug_capture_snapshot_of (cfg_debug_capture c),
      oc_inspector = inspector_snapshot_of (cfg_inspector c),
      oc_health = health_config_snapshot_of (cfg_health c), oc_routing = routing_snapshot_of (cfg_routing c),
      oc_clients = clients_snapshot (cfg_clients c),
      oc_backends = map backend_snapshot_of_config (cfg_backends c),
      oc_routes = map route_snapshot_of (cfg_routes c)\<rparr>"

definition runtime_snapshot :: "config \<Rightarrow> u64 \<Rightarrow> u64 \<Rightarrow> nat \<Rightarrow> nat \<Rightarrow> operator_runtime_snapshot" where
  "runtime_snapshot c now started uptime_ms retained =
     \<lparr>or_now_unix_ms = now, or_started_at_unix_ms = started, or_uptime_ms = saturating_u64 uptime_ms,
      or_clients = length (cfg_clients c), or_backends = length (cfg_backends c),
      or_public_models = length (public_model_context_lengths c), or_routes = length (cfg_routes c),
      or_inspector_retained_requests = retained, or_telemetry = telemetry_snapshot_of (cfg_telemetry c)\<rparr>"

section \<open>Views of the models and of health\<close>

definition model_entry :: "context_size_cache \<Rightarrow> string \<Rightarrow> context_length_spec \<Rightarrow> public_model_snapshot" where
  "model_entry cache public spec =
     \<lparr>pm_public = public,
      pm_context_length = (case spec of SpecNone \<Rightarrow> None | SpecStatic n \<Rightarrow> Some n | SpecUpstream _ _ n \<Rightarrow> n),
      pm_context_length_source = context_length_source spec,
      pm_context_length_last_fetch_unix_ms =
        (case spec of
           SpecUpstream _ _ _ \<Rightarrow> Option.bind (cache_entry cache public) ce_last_success_unix_ms
         | _ \<Rightarrow> None),
      pm_clients = [], pm_routes = []\<rparr>"

type_synonym models_map = "(string \<times> public_model_snapshot) list"

definition add_client :: "string \<Rightarrow> string \<Rightarrow> models_map \<Rightarrow> models_map" where
  "add_client client_id model m =
     (case bt_get m model of
        Some p \<Rightarrow> bt_insert model (p\<lparr>pm_clients := pm_clients p @ [client_id]\<rparr>) m
      | None \<Rightarrow> m)"

definition add_route :: "resolved_route \<Rightarrow> models_map \<Rightarrow> models_map" where
  "add_route route m =
     (case rt_key route of
        Path _ \<Rightarrow> m
      | Public public \<Rightarrow>
          (case bt_get m public of
             Some p \<Rightarrow> bt_insert public (p\<lparr>pm_routes := pm_routes p @ binding_snapshots route\<rparr>) m
           | None \<Rightarrow> m))"

definition models_snapshot :: "config \<Rightarrow> context_size_cache \<Rightarrow> operator_models_snapshot" where
  "models_snapshot c cache =
     (let m = fold (\<lambda>(public, spec). bt_insert public (model_entry cache public spec))
                (public_model_context_lengths_with_cache c cache) [];
          m = fold (\<lambda>client. fold (add_client (cl_id client)) (cl_models client)) (cfg_clients c) m;
          m = fold add_route (cfg_routes c) m
      in \<lparr>om_public_models = map snd m, om_clients = clients_snapshot (cfg_clients c)\<rparr>)"

text \<open>The health snapshot of the operator repeats the fields of the store's snapshot.\<close>

definition health_snapshot :: "config \<Rightarrow> health_store \<Rightarrow> backend_health_snapshot list" where
  "health_snapshot c st = health_store_snapshot st (map be_id (cfg_backends c))"

section \<open>Secrets\<close>

text \<open>
  The configuration with everything secret replaced: the keys of clients and backends, the headers and body
  fields the operator adds to upstream requests, and the address of the telemetry collector.
\<close>

definition redact :: "config \<Rightarrow> config" where
  "redact c =
     c\<lparr>cfg_clients := map (\<lambda>k. k\<lparr>cl_api_key := []\<rparr>) (cfg_clients c),
       cfg_backends := map (\<lambda>b. b\<lparr>be_api_key := map_option (\<lambda>_. []) (be_api_key b), be_extra_body := []\<rparr>)
         (cfg_backends c),
       cfg_routes := map (\<lambda>r. r\<lparr>rt_request_headers := [], rt_extra_body := []\<rparr>) (cfg_routes c),
       cfg_telemetry := (cfg_telemetry c)\<lparr>otlp_endpoint := map_option (\<lambda>_. []) (otlp_endpoint (cfg_telemetry c))\<rparr>\<rparr>"

lemma clients_snapshot_redact: "clients_snapshot (cfg_clients (redact c)) = clients_snapshot (cfg_clients c)"
  by (simp add: clients_snapshot_def redact_def)

lemma public_context_step_redact:
  "public_context_step f (r\<lparr>rt_request_headers := hs, rt_extra_body := b\<rparr>) = public_context_step f r"
  by (intro ext) (simp add: public_context_step_def split: route_key.splits context_length_spec.splits)

lemma add_route_redact: "add_route (r\<lparr>rt_request_headers := hs, rt_extra_body := b\<rparr>) = add_route r"
  by (intro ext) (simp add: add_route_def binding_snapshots_def split: route_key.splits option.splits)

lemma context_lengths_redact:
  "public_model_context_lengths (redact c) = public_model_context_lengths c"
  "public_model_context_lengths_with_cache (redact c) cache = public_model_context_lengths_with_cache c cache"
  by (simp_all add: public_model_context_lengths_def public_model_context_lengths_with_cache_def redact_def
      fold_map o_def public_context_step_redact)

lemma config_snapshot_redact: "config_snapshot (redact c) = config_snapshot c"
  by (simp add: config_snapshot_def clients_snapshot_redact)
    (simp add: redact_def telemetry_snapshot_of_def backend_snapshot_of_config_def route_snapshot_of_def
      binding_snapshots_def o_def)

lemma models_snapshot_redact: "models_snapshot (redact c) cache = models_snapshot c cache"
  by (simp add: models_snapshot_def clients_snapshot_redact context_lengths_redact)
    (simp add: redact_def fold_map o_def add_route_redact)

lemma runtime_snapshot_redact: "runtime_snapshot (redact c) now t u n = runtime_snapshot c now t u n"
  by (simp add: runtime_snapshot_def context_lengths_redact)
    (simp add: redact_def telemetry_snapshot_of_def)

lemma health_snapshot_redact: "health_snapshot (redact c) st = health_snapshot c st"
  by (simp add: health_snapshot_def redact_def o_def)

section \<open>The view of the models\<close>

text \<open>The reference: what the operator should see of a public model.\<close>

definition model_view :: "config \<Rightarrow> context_size_cache \<Rightarrow> string \<Rightarrow> context_length_spec \<Rightarrow> public_model_snapshot" where
  "model_view c cache public spec =
     (model_entry cache public spec)
       \<lparr>pm_clients := map cl_id (filter (\<lambda>k. public \<in> set (cl_models k)) (cfg_clients c)),
        pm_routes := concat (map binding_snapshots (filter (\<lambda>r. rt_key r = Public public) (cfg_routes c)))\<rparr>"

lemma add_client_get:
  "bt_get (add_client i model m) k =
     (if k = model then map_option (\<lambda>p. p\<lparr>pm_clients := pm_clients p @ [i]\<rparr>) (bt_get m k) else bt_get m k)"
  by (simp add: add_client_def bt_get_insert split: option.splits)

lemma add_clients_get:
  "distinct ms \<Longrightarrow> bt_get (fold (add_client i) ms m) k =
     (if k \<in> set ms then map_option (\<lambda>p. p\<lparr>pm_clients := pm_clients p @ [i]\<rparr>) (bt_get m k) else bt_get m k)"
  by (induction ms arbitrary: m) (auto simp: add_client_get)

lemma all_clients_get:
  assumes "\<forall>c \<in> set cs. distinct (cl_models c)"
  shows "bt_get (fold (\<lambda>c. fold (add_client (cl_id c)) (cl_models c)) cs m) k =
    map_option (\<lambda>p. p\<lparr>pm_clients := pm_clients p @ map cl_id (filter (\<lambda>c. k \<in> set (cl_models c)) cs)\<rparr>) (bt_get m k)"
  using assms
  by (induction cs arbitrary: m) (auto simp: add_clients_get option.map_comp o_def option.map_ident)

lemma all_routes_get:
  "bt_get (fold add_route rs m) k =
     map_option (\<lambda>p. p\<lparr>pm_routes := pm_routes p @
       concat (map binding_snapshots (filter (\<lambda>r. rt_key r = Public k) rs))\<rparr>) (bt_get m k)"
proof (induction rs arbitrary: m)
  case Nil
  then show ?case by (simp add: option.map_ident)
next
  case (Cons r rs)
  have "bt_get (add_route r m) k =
      (if rt_key r = Public k then map_option (\<lambda>p. p\<lparr>pm_routes := pm_routes p @ binding_snapshots r\<rparr>) (bt_get m k)
       else bt_get m k)"
    by (auto simp: add_route_def bt_get_insert split: route_key.splits option.splits)
  then show ?case using Cons by (auto simp: option.map_comp o_def)
qed

lemma models_map_wf:
  "bt_wf m \<Longrightarrow> bt_wf (fold add_route rs m)"
  "bt_wf m \<Longrightarrow> bt_wf (fold (\<lambda>c. fold (add_client (cl_id c)) (cl_models c)) cs m)"
proof -
  have "bt_wf m \<Longrightarrow> bt_wf (add_client i k m)" for i k m
    by (simp add: add_client_def bt_wf_insert split: option.splits)
  then have "bt_wf m \<Longrightarrow> bt_wf (fold (add_client i) ms m)" for i ms m
    by (induction ms arbitrary: m) auto
  then show "bt_wf m \<Longrightarrow> bt_wf (fold (\<lambda>c. fold (add_client (cl_id c)) (cl_models c)) cs m)"
    by (induction cs arbitrary: m) auto
  have "bt_wf m \<Longrightarrow> bt_wf (add_route r m)" for r m
    by (simp add: add_route_def bt_wf_insert split: option.splits route_key.splits)
  then show "bt_wf m \<Longrightarrow> bt_wf (fold add_route rs m)"
    by (induction rs arbitrary: m) auto
qed

lemma context_lengths_wf: "bt_wf (public_model_context_lengths_with_cache c cache)"
proof -
  have "bt_wf m \<Longrightarrow> bt_wf (fold (public_context_step f) rs m)" for f rs m
    by (induction rs arbitrary: m) (auto simp: public_context_step_def bt_wf_or_insert split: route_key.splits)
  then show ?thesis by (simp add: public_model_context_lengths_with_cache_def)
qed

lemma fold_insert_map:
  "fold (\<lambda>(k, v). bt_insert k (f k v)) xs [] = bt_of_list (map (\<lambda>(k, v). (k, f k v)) xs)"
  by (simp add: bt_of_list_def fold_map o_def case_prod_unfold)

lemma bt_of_list_wf: "bt_wf m \<Longrightarrow> bt_of_list m = m"
proof (rule bt_ext)
  assume w: "bt_wf m"
  then have "map_of (rev m) = map_of m"
    by (intro map_of_inject_set [THEN iffD2]) (simp_all add: bt_wf_distinct flip: rev_map)
  then show "bt_get (bt_of_list m) = bt_get m" by (simp add: bt_get_of_list bt_get_def fun_eq_iff)
qed (simp_all add: bt_wf_of_list)

lemma bt_get_pairs: "bt_get (map (\<lambda>(k, v). (k, f k v)) m) k = map_option (f k) (bt_get m k)"
  unfolding bt_get_def by (induction m) auto

text \<open>
  The operator sees the public models as they are.  The listing holds, in the order of their names, exactly
  the models that have a route, each with its context length and where it comes from, the clients whose
  whitelist names it and the bindings of its routes in the order of the configuration.
\<close>

theorem models_snapshot_view:
  assumes "\<forall>k \<in> set (cfg_clients c). distinct (cl_models k)"
  shows "om_public_models (models_snapshot c cache) =
    map (\<lambda>(public, spec). model_view c cache public spec) (public_model_context_lengths_with_cache c cache)"
proof -
  let ?lens = "public_model_context_lengths_with_cache c cache"
  let ?start = "map (\<lambda>(public, spec). (public, model_entry cache public spec)) ?lens"
  let ?m = "fold add_route (cfg_routes c)
    (fold (\<lambda>client. fold (add_client (cl_id client)) (cl_models client)) (cfg_clients c) ?start)"
  have w: "bt_wf (map (\<lambda>(public, spec). (public, f public spec)) ?lens)" for f :: "_ \<Rightarrow> _ \<Rightarrow> public_model_snapshot"
    using context_lengths_wf [of c cache] by (simp only: bt_wf_def map_fst_bt_map)
  have i: "fold (\<lambda>(public, spec). bt_insert public (model_entry cache public spec)) ?lens [] = ?start"
    using bt_of_list_wf [OF w] by (simp add: fold_insert_map)
  have "?m = map (\<lambda>(public, spec). (public, model_view c cache public spec)) ?lens"
  proof (rule bt_ext)
    show "bt_wf ?m" by (intro models_map_wf w)
    show "bt_wf (map (\<lambda>(public, spec). (public, model_view c cache public spec)) ?lens)" by (rule w)
    show "bt_get ?m = bt_get (map (\<lambda>(public, spec). (public, model_view c cache public spec)) ?lens)"
      using assms
      by (simp add: fun_eq_iff all_routes_get all_clients_get bt_get_pairs option.map_comp o_def model_view_def
          model_entry_def)
  qed
  then show ?thesis using i by (simp add: models_snapshot_def Let_def o_def case_prod_unfold)
qed

theorem models_snapshot_view_witness:
  "om_public_models (models_snapshot example_config []) =
     map (\<lambda>(public, spec). model_view example_config [] public spec)
       (public_model_context_lengths_with_cache example_config [])"
  by (rule models_snapshot_view) (simp add: example_config_def)

end
