(* ===== verification/Application.thy ===== *)
theory Application
  imports Operator Proxy_Correct
begin

text \<open>
  \<open>onair/src/app.rs\<close>: the handlers behind the router, with the gate of the operator endpoints, and the layer of
  \<open>onair-proxy/src/proxy.rs\<close> that echoes the request id.  Which handler a path reaches is decided by the
  \<open>axum\<close> router and is the argument \<open>endpoint\<close>; so are the decoded parts of the path.  The effects of a handler
  are those of the proxy model.
\<close>

section \<open>Model bodies\<close>

definition model_response :: "string \<Rightarrow> u64 option \<Rightarrow> model_object" where
  "model_response model context_length = model_object_new model context_length"

definition model_response_with_n_ctx_train :: "string \<Rightarrow> u64 \<Rightarrow> model_object" where
  "model_response_with_n_ctx_train model n = model_object_new_static model n"

record props_response =
  pp_params :: json
  pp_n_ctx :: u64
  pp_model_alias :: "string option"
  pp_model_path :: string
  pp_role :: "string option"

definition props_response :: "string option \<Rightarrow> string option \<Rightarrow> u64 \<Rightarrow> props_response" where
  "props_response role model_alias n =
     \<lparr>pp_params = jobj [], pp_n_ctx = n, pp_model_alias = model_alias, pp_model_path = ''none'', pp_role = role\<rparr>"

section \<open>Responses\<close>

datatype inspector_event =
    EventSnapshot inspector_request_record
  | EventRequest inspector_request_record
  | EventLagged nat

datatype app_body =
    BodyEmpty
  | BodyError json
  | BodyModels models_response
  | BodyModel model_object
  | BodyProps props_response
  | BodyHtml
  | BodyRecords "inspector_request_record list"
  | BodyRecord inspector_request_record
  | BodyEvents "inspector_event list"
  | BodyRuntime operator_runtime_snapshot
  | BodyConfig operator_config_snapshot
  | BodyModelsView operator_models_snapshot
  | BodyHealth "backend_health_snapshot list"
  | BodyProxy client_body

record app_response =
  rsp_status :: status_code
  rsp_headers :: header_map
  rsp_body :: app_body

definition json_response :: "status_code \<Rightarrow> app_body \<Rightarrow> app_response" where
  "json_response status body =
     \<lparr>rsp_status = status, rsp_headers = [(''content-type'', ''application/json'')], rsp_body = body\<rparr>"

definition error_response :: "api_error \<Rightarrow> app_response" where
  "error_response e = (let (status, body) = into_parts e in json_response status (BodyError body))"

definition add_inspector_headers :: "app_response \<Rightarrow> app_response" where
  "add_inspector_headers r =
     r\<lparr>rsp_headers := hm_insert ''x-content-type-options'' ''nosniff''
         (hm_insert ''cache-control'' ''no-store'' (rsp_headers r))\<rparr>"

definition inspector_not_found :: app_response where
  "inspector_not_found = add_inspector_headers (error_response (not_found ''The requested endpoint does not exist.''))"

definition operator_response :: "app_body \<Rightarrow> app_response" where
  "operator_response body =
     \<lparr>rsp_status = 200,
      rsp_headers = [(''content-type'', ''application/json''), (''cache-control'', ''no-store''),
        (''x-content-type-options'', ''nosniff'')],
      rsp_body = body\<rparr>"

section \<open>Requests and state\<close>

record http_request = client_request +
  hq_peer :: "socket_addr option"

record app_state =
  ap_config :: config
  ap_health :: health_store
  ap_inspector :: inspector_store
  ap_context_sizes :: context_size_cache
  ap_round_robin :: rr_counters
  ap_started_at_unix_ms :: u64

text \<open>What the handlers read from outside: the clocks, and what the event loop of the inspector receives.\<close>

datatype events_input = ShutdownChanged bool | Message inspector_request_record | Lagged nat | Closed

record app_env =
  ae_proxy :: proxy_env
  ae_now_unix_ms :: u64
  ae_uptime_ms :: nat
  ae_events :: "events_input list"

section \<open>The public model endpoints\<close>

definition model_route_labels :: "string \<Rightarrow> string \<Rightarrow> string \<Rightarrow> metric_labels" where
  "model_route_labels route ident model =
     \<lparr>ml_route = route, ml_identity = ident, ml_public_model = model, ml_backend = ''none'', ml_stream = False\<rparr>"

type_synonym available_models = "(string \<times> context_length_spec) list"

definition authed_handler ::
  "app_state \<Rightarrow> header_map \<Rightarrow> string \<Rightarrow> string \<Rightarrow> (identity \<Rightarrow> available_models \<Rightarrow> app_response) \<Rightarrow>
     app_response \<times> effect list" where
  "authed_handler app headers route_name model_label handle =
     (case authenticate headers (cfg_clients (ap_config app)) of
        Inr ident \<Rightarrow>
          (let available = public_model_context_lengths_with_cache (ap_config app) (ap_context_sizes app);
               response = handle ident available
           in (response, [RequestMetric (model_route_labels route_name (id_id ident) model_label) (rsp_status response)]))
      | Inl e \<Rightarrow>
          (error_response e, [RequestMetric (model_route_labels route_name ''unknown'' model_label) (err_status e)]))"

fun listed_model :: "string \<Rightarrow> context_length_spec \<Rightarrow> model_object" where
  "listed_model model SpecNone = model_object_new model None"
| "listed_model model (SpecStatic n) = model_object_new_static model n"
| "listed_model model (SpecUpstream _ _ (Some n)) = model_object_new model (Some n)"
| "listed_model model (SpecUpstream _ _ None) = model_object_new model None"

definition models_handler :: "app_state \<Rightarrow> header_map \<Rightarrow> app_response \<times> effect list" where
  "models_handler app headers =
     authed_handler app headers ''models'' ''none'' (\<lambda>ident available.
       json_response 200 (BodyModels (models_response
         (List.map_filter (\<lambda>model. map_option (listed_model model) (bt_get available model)) (id_models ident)))))"

definition model_handler :: "app_state \<Rightarrow> header_map \<Rightarrow> string \<Rightarrow> app_response \<times> effect list" where
  "model_handler app headers model =
     authed_handler app headers ''models_retrieve'' model (\<lambda>ident available.
       if model \<notin> set (id_models ident) then error_response (model_not_found model)
       else case bt_get available model of
         Some SpecNone \<Rightarrow> json_response 200 (BodyModel (model_response model None))
       | Some (SpecStatic n) \<Rightarrow> json_response 200 (BodyModel (model_response_with_n_ctx_train model n))
       | Some (SpecUpstream _ _ n) \<Rightarrow> json_response 200 (BodyModel (model_response model n))
       | None \<Rightarrow> error_response (model_not_found model))"

definition query_pairs :: "app_env \<Rightarrow> http_request \<Rightarrow> (string \<times> string) list" where
  "query_pairs env rq = (case rqc_query rq of Some q \<Rightarrow> form_parse (pe_form (ae_proxy env)) q | None \<Rightarrow> [])"

definition props_handler :: "app_env \<Rightarrow> app_state \<Rightarrow> http_request \<Rightarrow> app_response \<times> effect list" where
  "props_handler env app rq =
     (let query_model = map_option snd (find (\<lambda>p. fst p = ''model'') (query_pairs env rq))
      in authed_handler app (rqc_headers rq) ''props'' (str_or ''none'' query_model) (\<lambda>ident available.
           case query_model of
             None \<Rightarrow> json_response 200 (BodyProps (props_response (Some ''router'') (Some ''llama-server'') 0))
           | Some model \<Rightarrow>
               if model \<notin> set (id_models ident) then error_response (model_not_found model)
               else case bt_get available model of
                 Some spec \<Rightarrow>
                   json_response 200 (BodyProps (props_response (Some ''router'') (Some model)
                     (case spec of SpecNone \<Rightarrow> 0 | SpecStatic n \<Rightarrow> n
                      | SpecUpstream _ _ n \<Rightarrow> (case n of Some v \<Rightarrow> v | None \<Rightarrow> 0))))
               | None \<Rightarrow> error_response (model_not_found model)))"

section \<open>The proxy endpoint\<close>

definition is_messages_path :: "string \<Rightarrow> bool" where
  "is_messages_path path \<longleftrightarrow>
     (let normalized = trim_end_matches CHR ''/'' path
      in is_messages (endpoint_kind path) \<or> normalized = ''/v1/messages'' \<or> starts_with ''/v1/messages/'' normalized)"

definition v1_error_response :: "string \<Rightarrow> api_error \<Rightarrow> app_response" where
  "v1_error_response path e =
     (if is_messages_path path
      then let (status, body) = into_anthropic_parts e in json_response status (BodyError body)
      else error_response e)"

text \<open>\<open>None\<close> is a panic of the proxy.\<close>

definition v1_proxy ::
  "app_env \<Rightarrow> app_state \<Rightarrow> http_request \<Rightarrow> app_response option \<times> effect list \<times> app_state" where
  "v1_proxy env app rq =
     (let out = proxy_v1 (ae_proxy env) (ap_config app) (ap_round_robin app) (client_request.truncate rq)
      in (map_option (\<lambda>r. case r of
             Inr response \<Rightarrow> \<lparr>rsp_status = cr_status response, rsp_headers = cr_headers response,
               rsp_body = BodyProxy (cr_body response)\<rparr>
           | Inl e \<Rightarrow> v1_error_response (rqc_path rq) e) (po_result out),
          po_effects out, app\<lparr>ap_round_robin := po_counters out\<rparr>))"

section \<open>The operator endpoints\<close>

datatype operator_endpoint =
    InspectorUi
  | InspectorRequests
  | InspectorRequest string
  | InspectorEvents
  | OperatorRuntime
  | OperatorConfig
  | OperatorModels
  | OperatorHealth

definition local_operator_gate :: "config \<Rightarrow> header_map \<Rightarrow> socket_addr option \<Rightarrow> app_response option" where
  "local_operator_gate c headers peer =
     (if \<not> ic_enabled (cfg_inspector c) then Some inspector_not_found
      else if \<not> ic_allow_remote (cfg_inspector c) \<and>
        \<not> effective_client_is_loopback (from_headers headers peer (trusted_proxy_cidrs (cfg_server c)))
      then Some inspector_not_found
      else None)"

definition DEFAULT_INSPECTOR_SNAPSHOT_LIMIT :: nat where "DEFAULT_INSPECTOR_SNAPSHOT_LIMIT = 1000"

definition MAX_INSPECTOR_SNAPSHOT_LIMIT :: nat where "MAX_INSPECTOR_SNAPSHOT_LIMIT = 10000"

text \<open>\<open>str::parse::<usize>\<close>: an optional plus sign and decimal digits that fit in 64 bits.\<close>

definition parse_usize :: "string \<Rightarrow> nat option" where
  "parse_usize s =
     (let ds = (case s of c # t \<Rightarrow> if c = CHR ''+'' then t else s | [] \<Rightarrow> [])
      in if ds = [] \<or> \<not> list_all is_ascii_digit ds then None
         else if 2 ^ 64 \<le> number_value 10 ds then None
         else Some (number_value 10 ds))"

definition inspector_limit :: "(string \<times> string) list \<Rightarrow> string list \<Rightarrow> nat" where
  "inspector_limit pairs names =
     (let requested = find_map (\<lambda>(key, v). if key \<in> set names then parse_usize v else None) pairs
      in min (max (case requested of Some n \<Rightarrow> n | None \<Rightarrow> DEFAULT_INSPECTOR_SNAPSHOT_LIMIT) 1)
           MAX_INSPECTOR_SNAPSHOT_LIMIT)"

text \<open>The loop of the event stream, over what its select yields.\<close>

fun inspector_event_loop :: "events_input list \<Rightarrow> inspector_event list" where
  "inspector_event_loop [] = []"
| "inspector_event_loop (ShutdownChanged stop # inputs) = (if stop then [] else inspector_event_loop inputs)"
| "inspector_event_loop (Message r # inputs) = EventRequest r # inspector_event_loop inputs"
| "inspector_event_loop (Lagged n # inputs) = EventLagged n # inspector_event_loop inputs"
| "inspector_event_loop (Closed # inputs) = []"

definition CONTENT_SECURITY_POLICY :: string where
  "CONTENT_SECURITY_POLICY =
     ''default-src '' @ quoted ''none'' @ ''; connect-src '' @ quoted ''self'' @ ''; style-src '' @
     quoted ''unsafe-inline'' @ ''; script-src '' @ quoted ''unsafe-inline'' @ ''; img-src '' @ quoted ''self'' @
     ''; base-uri '' @ quoted ''none'' @ ''; form-action '' @ quoted ''none'' @ ''; frame-ancestors '' @ quoted ''none''"

fun operator_body :: "app_env \<Rightarrow> app_state \<Rightarrow> http_request \<Rightarrow> operator_endpoint \<Rightarrow> app_response" where
  "operator_body env app rq InspectorUi =
     (let r = add_inspector_headers \<lparr>rsp_status = 200,
            rsp_headers = [(''content-type'', ''text/html; charset=utf-8'')], rsp_body = BodyHtml\<rparr>
      in r\<lparr>rsp_headers := hm_insert ''content-security-policy'' CONTENT_SECURITY_POLICY (rsp_headers r)\<rparr>)"
| "operator_body env app rq InspectorRequests =
     add_inspector_headers (json_response 200 (BodyRecords
       (rev (records_limited (inspector_limit (query_pairs env rq) [''limit'']) (ap_inspector app)))))"
| "operator_body env app rq (InspectorRequest request_id) =
     add_inspector_headers
       (case store_get request_id (ap_inspector app) of
          Some r \<Rightarrow> json_response 200 (BodyRecord r)
        | None \<Rightarrow> error_response (not_found ''The requested inspector record does not exist.''))"
| "operator_body env app rq InspectorEvents =
     add_inspector_headers \<lparr>rsp_status = 200,
       rsp_headers = [(''content-type'', ''text/event-stream''), (''cache-control'', ''no-cache'')],
       rsp_body = BodyEvents
         (map EventSnapshot (rev (records_limited
            (inspector_limit (query_pairs env rq) [''snapshot_limit'', ''limit'']) (ap_inspector app)))
          @ inspector_event_loop (ae_events env))\<rparr>"
| "operator_body env app rq OperatorRuntime =
     operator_response (BodyRuntime (runtime_snapshot (ap_config app) (ae_now_unix_ms env)
       (ap_started_at_unix_ms app) (ae_uptime_ms env) (retained_len (ap_inspector app))))"
| "operator_body env app rq OperatorConfig = operator_response (BodyConfig (config_snapshot (ap_config app)))"
| "operator_body env app rq OperatorModels =
     operator_response (BodyModelsView (models_snapshot (ap_config app) (ap_context_sizes app)))"
| "operator_body env app rq OperatorHealth =
     operator_response (BodyHealth (health_snapshot (ap_config app) (ap_health app)))"

definition operator_handler :: "app_env \<Rightarrow> app_state \<Rightarrow> http_request \<Rightarrow> operator_endpoint \<Rightarrow> app_response" where
  "operator_handler env app rq ep =
     (case local_operator_gate (ap_config app) (rqc_headers rq) (hq_peer rq) of
        Some response \<Rightarrow> response
      | None \<Rightarrow> operator_body env app rq ep)"

section \<open>The router\<close>

datatype endpoint =
    Healthz
  | Props
  | Models
  | Model string
  | V1Proxy
  | Operator operator_endpoint
  | Fallback

definition fallback_handler :: "app_response \<times> effect list" where
  "fallback_handler =
     (let e = not_found ''The requested endpoint does not exist.''
      in (error_response e, [RequestMetric (model_route_labels ''fallback'' ''unknown'' ''none'') (err_status e)]))"

fun handle :: "app_env \<Rightarrow> app_state \<Rightarrow> http_request \<Rightarrow> endpoint \<Rightarrow> app_response option \<times> effect list \<times> app_state" where
  "handle env app rq Healthz = (Some \<lparr>rsp_status = 204, rsp_headers = [], rsp_body = BodyEmpty\<rparr>, [], app)"
| "handle env app rq Props = (let (r, es) = props_handler env app rq in (Some r, es, app))"
| "handle env app rq Models = (let (r, es) = models_handler app (rqc_headers rq) in (Some r, es, app))"
| "handle env app rq (Model m) = (let (r, es) = model_handler app (rqc_headers rq) m in (Some r, es, app))"
| "handle env app rq V1Proxy = v1_proxy env app rq"
| "handle env app rq (Operator ep) = (Some (operator_handler env app rq ep), [], app)"
| "handle env app rq Fallback = (let (r, es) = fallback_handler in (Some r, es, app))"

text \<open>The outer layer copies the request id of the client into the response.\<close>

definition propagate_request_id :: "header_map \<Rightarrow> app_response \<Rightarrow> app_response" where
  "propagate_request_id headers r =
     r\<lparr>rsp_headers := hm_insert_opt ''x-request-id'' (client_request_id headers) (rsp_headers r)\<rparr>"

definition router :: "app_env \<Rightarrow> app_state \<Rightarrow> http_request \<Rightarrow> endpoint \<Rightarrow> app_response option \<times> effect list \<times> app_state" where
  "router env app rq ep =
     (let (r, es, app) = handle env app rq ep in (map_option (propagate_request_id (rqc_headers rq)) r, es, app))"

section \<open>The operator gate\<close>

lemma gate_closed:
  assumes "\<not> ic_enabled (cfg_inspector c) \<or>
    \<not> ic_allow_remote (cfg_inspector c) \<and> \<not> trusted_peer (trusted_proxy_cidrs (cfg_server c)) (Some peer) \<and>
    \<not> is_loopback (sa_ip peer)"
  shows "local_operator_gate c headers (Some peer) = Some inspector_not_found"
  using assms by (auto simp: local_operator_gate_def untrusted_loopback)

text \<open>
  C7: the operator endpoints are closed to strangers.  With the inspector disabled, or without remote access
  and for a peer that is neither on the loopback nor a trusted proxy, every operator endpoint answers with the
  same not-found response, whatever headers the peer sends and whatever the stores hold, and changes nothing.
\<close>

theorem operator_gate_closed:
  assumes "\<not> ic_enabled (cfg_inspector (ap_config app)) \<or>
      \<not> ic_allow_remote (cfg_inspector (ap_config app)) \<and>
      \<not> trusted_peer (trusted_proxy_cidrs (cfg_server (ap_config app))) (Some peer) \<and> \<not> is_loopback (sa_ip peer)"
    and "hq_peer rq = Some peer"
  shows "handle env app rq (Operator ep) = (Some inspector_not_found, [], app)"
  using gate_closed [OF assms(1)] assms(2) by (simp add: operator_handler_def)

definition sample_app :: app_state where
  "sample_app =
     \<lparr>ap_config = example_config, ap_health = [], ap_inspector = store_new, ap_context_sizes = [],
      ap_round_robin = Map.empty, ap_started_at_unix_ms = 0\<rparr>"

definition sample_request :: http_request where
  "sample_request =
     \<lparr>rqc_method = ''GET'', rqc_path = ''/_onair/operator/config'', rqc_query = None,
      rqc_headers = [(''x-forwarded-for'', ''127.0.0.1'')], rqc_body = [], hq_peer = Some (SocketV4 0x0A000001 40000)\<rparr>"

theorem operator_gate_closed_witness:
  "\<forall>env. handle env sample_app sample_request (Operator OperatorConfig) =
     (Some inspector_not_found, [], sample_app)"
  by (intro allI operator_gate_closed [where peer = "SocketV4 0x0A000001 40000"])
    (simp_all add: sample_app_def sample_request_def example_config_def default_server_config_def
      default_inspector_config_def trusted_peer_def)

text \<open>
  C8: what the operator endpoints show does not depend on secrets.  Replacing the keys of clients and backends,
  the headers and body fields added to upstream requests and the telemetry address leaves the response of
  every operator endpoint as it was, gate included.
\<close>

theorem operator_endpoints_hide_secrets:
  "fst (handle env (app\<lparr>ap_config := redact (ap_config app)\<rparr>) rq (Operator ep)) =
     fst (handle env app rq (Operator ep))"
proof -
  have "local_operator_gate (redact c) headers peer = local_operator_gate c headers peer" for c headers peer
    by (simp add: local_operator_gate_def redact_def)
  moreover have "operator_body env (app\<lparr>ap_config := redact (ap_config app)\<rparr>) rq ep = operator_body env app rq ep"
    by (cases ep) (simp_all add: config_snapshot_redact models_snapshot_redact runtime_snapshot_redact
        health_snapshot_redact)
  ultimately show ?thesis by (simp add: operator_handler_def split: option.split)
qed

section \<open>The model listing\<close>

lemma listed_model_id [simp]: "mo_id (listed_model m spec) = m"
  by (induction m spec rule: listed_model.induct) (simp_all add: model_object_new_def model_object_new_static_def)

lemma listed_model_eq:
  "listed_model m spec =
     (case spec of SpecNone \<Rightarrow> model_response m None | SpecStatic n \<Rightarrow> model_response_with_n_ctx_train m n
      | SpecUpstream _ _ n \<Rightarrow> model_response m n)"
  by (induction m spec rule: listed_model.induct)
    (simp_all add: model_response_def model_response_with_n_ctx_train_def)

lemma available_iff:
  "bt_get (public_model_context_lengths_with_cache c cache) m \<noteq> None \<longleftrightarrow> has_public_route (cfg_routes c) m"
  by (auto simp: public_model_context_lengths_with_cache_def public_context_fold has_public_route_def list_ex_iff
      find_None_iff)

lemma map_filter_ids:
  "map mo_id (List.map_filter (\<lambda>m. map_option (listed_model m) (bt_get av m)) ms) =
     filter (\<lambda>m. bt_get av m \<noteq> None) ms"
  by (induction ms) (simp_all add: map_filter_simps split: option.splits)

text \<open>
  C20: the three views of the models agree.  For an authenticated client the listing holds, sorted, exactly the
  whitelisted models that have a route; retrieving a model succeeds exactly for the models of the listing, with
  the very object the listing shows, and is a 404 otherwise.
\<close>

theorem model_views_agree:
  assumes "authenticate headers (cfg_clients (ap_config app)) = Inr ident"
  shows "\<exists>ms. rsp_body (fst (models_handler app headers)) = BodyModels ms \<and>
    sorted (map mo_id (mr_data ms)) \<and>
    set (map mo_id (mr_data ms)) = {m \<in> set (id_models ident). has_public_route (cfg_routes (ap_config app)) m} \<and>
    (if m \<in> set (map mo_id (mr_data ms))
     then \<exists>x \<in> set (mr_data ms). mo_id x = m \<and> fst (model_handler app headers m) = json_response 200 (BodyModel x)
     else fst (model_handler app headers m) = error_response (model_not_found m))"
proof -
  let ?av = "public_model_context_lengths_with_cache (ap_config app) (ap_context_sizes app)"
  let ?xs = "List.map_filter (\<lambda>m. map_option (listed_model m) (bt_get ?av m)) (id_models ident)"
  have body: "rsp_body (fst (models_handler app headers)) = BodyModels (models_response ?xs)"
    using assms by (simp add: models_handler_def authed_handler_def json_response_def Let_def)
  have ids: "set (map mo_id ?xs) = {m \<in> set (id_models ident). has_public_route (cfg_routes (ap_config app)) m}"
    using available_iff [of "ap_config app" "ap_context_sizes app"] by (auto simp: map_filter_ids)
  have get: "fst (model_handler app headers m) =
      (if m \<in> set (id_models ident) \<and> bt_get ?av m \<noteq> None
       then json_response 200 (BodyModel (listed_model m (the (bt_get ?av m))))
       else error_response (model_not_found m))"
    using assms
    by (auto simp: model_handler_def authed_handler_def listed_model_eq Let_def split: context_length_spec.splits option.splits)
  have mem: "m \<in> set (map mo_id ?xs) \<longleftrightarrow> m \<in> set (id_models ident) \<and> bt_get ?av m \<noteq> None"
    by (auto simp: map_filter_ids)
  have "listed_model m (the (bt_get ?av m)) \<in> set ?xs" if "m \<in> set (id_models ident)" "bt_get ?av m \<noteq> None"
    using that by (auto simp: List.map_filter_def image_iff)
  then have "if m \<in> set (map mo_id ?xs)
      then \<exists>x \<in> set ?xs. mo_id x = m \<and> fst (model_handler app headers m) = json_response 200 (BodyModel x)
      else fst (model_handler app headers m) = error_response (model_not_found m)"
    unfolding mem get by (auto intro!: bexI [of _ "listed_model m (the (bt_get ?av m))"])
  then show ?thesis
    using ids by (intro exI [of _ "models_response ?xs"]) (simp add: body models_response_def)
qed

theorem model_views_agree_witness:
  "\<exists>ms. rsp_body (fst (models_handler sample_app [(''authorization'', ''Bearer k'')])) = BodyModels ms \<and>
    sorted (map mo_id (mr_data ms)) \<and> set (map mo_id (mr_data ms)) = {''gpt''}"
proof -
  let ?h = "[(''authorization'', ''Bearer k'')]"
  have "authenticate ?h (cfg_clients (ap_config sample_app)) = Inr \<lparr>id_id = ''a'', id_models = [''gpt'']\<rparr>"
    by (simp add: sample_app_def example_config_def authenticate_def bearer_token_def header_get_def to_str_def
        byte_def strip_prefix_def starts_with_def token_matches_def ok_or_def Let_def)
  from model_views_agree [OF this, of "''gpt''"] show ?thesis
    by (auto simp: sample_app_def example_config_def has_public_route_def)
qed

section \<open>The layers\<close>

text \<open>
  Every response carries the request id of the client: when the request has a valid one, the response of
  every endpoint has exactly that value, also where the handler set none or another.
\<close>

theorem request_id_echoed:
  "case fst (router env app rq ep) of
     None \<Rightarrow> True
   | Some r \<Rightarrow> client_request_id (rqc_headers rq) = None \<or>
       header_get (rsp_headers r) ''x-request-id'' = client_request_id (rqc_headers rq)"
  by (auto simp: router_def propagate_request_id_def header_get_insert_opt split: prod.splits option.splits)

text \<open>Errors of the proxy reach clients of the Messages API in their envelope, and only those.\<close>

lemma v1_proxy_errors:
  assumes "po_result (proxy_v1 (ae_proxy env) (ap_config app) (ap_round_robin app) (client_request.truncate rq)) =
    Some (Inl e)"
  shows "fst (v1_proxy env app rq) = Some (json_response (err_status e)
    (BodyError (snd (if is_messages_path (rqc_path rq) then into_anthropic_parts e else into_parts e))))"
  using assms
  by (simp add: v1_proxy_def v1_error_response_def error_response_def into_anthropic_parts_def into_parts_def Let_def)

end
