(* ===== verification/Inspector_Persistence.thy ===== *)
theory Inspector_Persistence
  imports Inspector_Store "HOL-Library.Multiset" "HOL-Library.Product_Lexorder"
begin

text \<open>
  \<open>onair-obs/src/observe/inspector_persistence.rs\<close>: the table of persisted records, the SQL statements on it
  and the loop of the writer thread.  A table is the list of its rows, newest insertion first; the meaning of
  a statement does not depend on that order.  The JSON text of a record and its reader are parameters, a
  record that cannot be written being \<open>None\<close>; the failures of the database, which the writer only logs, are the
  subject of \<open>Persistence_Database\<close>.  What \<open>recv_timeout\<close> returns, and whether the shutdown flag is seen before it, is the input of the
  loop.
\<close>

section \<open>Rows\<close>

definition CURRENT_SCHEMA_VERSION :: int where "CURRENT_SCHEMA_VERSION = 1"

record inspector_row =
  row_record_id :: string
  row_started_at_unix_ms :: int
  row_completed_at_unix_ms :: int
  row_status :: int
  row_outcome_kind :: string
  row_route :: string
  row_identity :: string
  row_public_model :: string
  row_backend :: string
  row_error_kind :: "string option"
  row_schema_version :: int
  row_record_json :: string

type_synonym inspector_table = "inspector_row list"

type_synonym record_writer = "inspector_request_record \<Rightarrow> string option"

type_synonym record_reader = "string \<Rightarrow> inspector_request_record option"

fun outcome_kind :: "inspector_outcome \<Rightarrow> string" where
  "outcome_kind InFlight = ''in_flight''"
| "outcome_kind Completed = ''completed''"
| "outcome_kind (Preflight stage) = ''preflight''"
| "outcome_kind UpstreamTimeout = ''upstream_timeout''"
| "outcome_kind UpstreamRequestFailed = ''upstream_request_failed''"
| "outcome_kind UpstreamNonSuccess = ''upstream_non_success''"
| "outcome_kind UpstreamBodyReadFailed = ''upstream_body_read_failed''"
| "outcome_kind UpstreamStreamFailed = ''upstream_stream_failed''"
| "outcome_kind StreamIncomplete = ''stream_incomplete''"
| "outcome_kind Interrupted = ''interrupted''"

text \<open>Numbers that do not fit in a signed 64-bit integer are stored as its maximum.\<close>

definition sqlite_u64 :: "u64 \<Rightarrow> int" where
  "sqlite_u64 v = min (uint v) (2 ^ 63 - 1)"

definition sqlite_usize :: "nat \<Rightarrow> nat" where
  "sqlite_usize v = min v (2 ^ 63 - 1)"

definition record_row :: "inspector_request_record \<Rightarrow> string \<Rightarrow> inspector_row" where
  "record_row r json =
     \<lparr>row_record_id = rr_id r, row_started_at_unix_ms = sqlite_u64 (ib_started_at_unix_ms (rr_base r)),
      row_completed_at_unix_ms = sqlite_u64 (rr_completed_at_unix_ms r), row_status = int (rr_status r),
      row_outcome_kind = outcome_kind (rr_outcome r), row_route = ib_route (rr_base r),
      row_identity = ib_identity (rr_base r), row_public_model = ib_public_model (rr_base r),
      row_backend = ib_backend (rr_base r), row_error_kind = rr_error_kind r,
      row_schema_version = CURRENT_SCHEMA_VERSION, row_record_json = json\<rparr>"

section \<open>Statements\<close>

text \<open>\<open>ORDER BY started_at_unix_ms DESC, record_id DESC LIMIT n\<close>; the ids are a primary key, so there are no ties.\<close>

definition row_key :: "inspector_row \<Rightarrow> int \<times> string" where
  "row_key r = (row_started_at_unix_ms r, row_record_id r)"

definition newest_rows :: "nat \<Rightarrow> inspector_table \<Rightarrow> inspector_table" where
  "newest_rows n t = take (sqlite_usize n) (rev (sort_key row_key t))"

definition insert_or_replace :: "inspector_row \<Rightarrow> inspector_table \<Rightarrow> inspector_table" where
  "insert_or_replace row t = row # filter (\<lambda>r. row_record_id r \<noteq> row_record_id row) t"

definition prune_records :: "nat \<Rightarrow> inspector_table \<Rightarrow> inspector_table" where
  "prune_records n t = filter (\<lambda>r. row_record_id r \<in> set (map row_record_id (newest_rows n t))) t"

definition persist_record :: "record_writer \<Rightarrow> inspector_request_record \<Rightarrow> nat \<Rightarrow> inspector_table \<Rightarrow> inspector_table" where
  "persist_record to_json r n t =
     (case to_json r of
        None \<Rightarrow> t
      | Some json \<Rightarrow> prune_records n (insert_or_replace (record_row r json) t))"

definition load_latest_records :: "record_reader \<Rightarrow> nat \<Rightarrow> inspector_table \<Rightarrow> inspector_request_record list" where
  "load_latest_records from_json n t =
     List.map_filter (\<lambda>row. from_json (row_record_json row))
       (sort_key row_key (newest_rows n (filter (\<lambda>r. row_schema_version r \<le> CURRENT_SCHEMA_VERSION) t)))"

definition stored_count :: "inspector_table \<Rightarrow> nat" where
  "stored_count t = length t"

text \<open>What a start finds: the pruned table and the records it holds.\<close>

definition restore_records :: "record_reader \<Rightarrow> nat \<Rightarrow> inspector_table \<Rightarrow> inspector_request_record list \<times> inspector_table" where
  "restore_records from_json n t =
     (let t = prune_records n t in (load_latest_records from_json n t, t))"

definition store_from_config ::
  "record_reader \<Rightarrow> inspector_config \<Rightarrow> (string \<Rightarrow> inspector_table) \<Rightarrow> string + inspector_store" where
  "store_from_config from_json c database =
     (if \<not> ip_enabled (ic_persistence c) then Inr store_new
      else case ip_path (ic_persistence c) of
        None \<Rightarrow> Inl ''inspector.persistence.path is required when persistence is enabled''
      | Some path \<Rightarrow>
          (let (rs, t) = restore_records from_json (clamp_retention (ic_retention_requests c)) (database path)
           in Inr (store_from_parts rs (Some \<lparr>pw_queue = [], pw_shutdown = False, pw_receiving = True\<rparr>))))"

section \<open>The writer thread\<close>

datatype received = Received persistence_message | RecvTimeout | RecvDisconnected

datatype loop_state = Running | Draining

fun writer_loop ::
  "record_writer \<Rightarrow> loop_state \<Rightarrow> inspector_table \<Rightarrow> (bool \<times> received) list \<Rightarrow> inspector_table" where
  "writer_loop to_json state t [] = t"
| "writer_loop to_json state t ((shutdown, recv) # inputs) =
     (let state = (if state = Running \<and> shutdown then Draining else state)
      in case recv of
           Received (MsgRecord r n) \<Rightarrow> writer_loop to_json state (persist_record to_json r n t) inputs
         | Received MsgShutdown \<Rightarrow> writer_loop to_json Draining t inputs
         | RecvTimeout \<Rightarrow> if state = Draining then t else writer_loop to_json state t inputs
         | RecvDisconnected \<Rightarrow> t)"

section \<open>Properties of the table\<close>

definition newest :: "nat \<Rightarrow> 'a list \<Rightarrow> 'a list" where
  "newest n xs = drop (length xs - n) xs"

lemma length_newest [simp]: "length (newest n xs) = min n (length xs)"
  by (simp add: newest_def)

lemma set_newest: "set (newest n xs) \<subseteq> set xs"
  by (simp add: newest_def set_drop_subset)

lemma newest_all [simp]: "length xs \<le> n \<Longrightarrow> newest n xs = xs"
  by (simp add: newest_def)

lemma newest_Cons: "n \<le> length xs \<Longrightarrow> newest n (x # xs) = newest n xs"
  by (simp add: newest_def Suc_diff_le)

lemma newest_map: "newest n (map f xs) = map f (newest n xs)"
  by (simp add: newest_def drop_map)

text \<open>Keeping the newest after each insertion is keeping the newest of all.\<close>

lemma newest_insort:
  "sorted (map f ys) \<Longrightarrow> newest n (insort_key f x (newest n ys)) = newest n (insort_key f x ys)"
proof (induction ys)
  case (Cons y ys)
  show ?case
  proof (cases "n \<le> length ys")
    case False
    then show ?thesis by simp
  next
    case True
    have IH: "newest n (insort_key f x (newest n ys)) = newest n (insort_key f x ys)" using Cons by simp
    have all: "f x \<le> f z" if "f x \<le> f y" "z \<in> set (newest n ys)" for z
      using that Cons.prems set_newest [of n ys] by (auto intro: order_trans)
    show ?thesis
    proof (cases "f x \<le> f y")
      case True
      then have "insort_key f x (newest n ys) = x # newest n ys"
        using all by (intro insort_is_Cons) auto
      then show ?thesis using True \<open>n \<le> length ys\<close> by (simp add: newest_Cons)
    next
      case False
      then show ?thesis using IH \<open>n \<le> length ys\<close> by (simp add: newest_Cons)
    qed
  qed
qed simp

lemma newest_rows_sorted:
  "rev (newest_rows n t) = newest (sqlite_usize n) (sort_key row_key t)"
  by (simp add: newest_rows_def newest_def rev_take)

lemma set_newest_rows: "set (newest_rows n t) = set (newest (sqlite_usize n) (sort_key row_key t))"
  using arg_cong [OF newest_rows_sorted, of set n t] by simp

lemma distinct_sort_ids: "distinct (map f t) \<Longrightarrow> distinct (map f (sort_key k t))"
  by (simp add: distinct_map)

lemma filter_newest:
  assumes "distinct (map f xs)"
  shows "filter (\<lambda>x. f x \<in> f ` set (newest n xs)) xs = newest n xs"
proof -
  let ?a = "take (length xs - n) xs"
  have xs: "xs = ?a @ newest n xs" by (simp add: newest_def)
  then have "distinct (map f (?a @ newest n xs))" using assms by simp
  then have "filter (\<lambda>x. f x \<in> f ` set (newest n xs)) ?a = []"
    by (auto simp: filter_empty_conv)
  moreover have "filter (\<lambda>x. f x \<in> f ` set (newest n xs)) (newest n xs) = newest n xs"
    by (simp add: filter_True)
  ultimately show ?thesis using arg_cong [OF xs, of "filter (\<lambda>x. f x \<in> f ` set (newest n xs))"] by simp
qed

lemma sort_prune:
  assumes "distinct (map row_record_id t)"
  shows "sort_key row_key (prune_records n t) = newest (sqlite_usize n) (sort_key row_key t)"
proof -
  have "sort_key row_key (prune_records n t) =
      filter (\<lambda>r. row_record_id r \<in> row_record_id ` set (newest (sqlite_usize n) (sort_key row_key t)))
        (sort_key row_key t)"
    by (simp add: prune_records_def filter_sort set_newest_rows)
  then show ?thesis using filter_newest [OF distinct_sort_ids [OF assms]] by simp
qed

lemma prune_distinct: "distinct (map row_record_id t) \<Longrightarrow> distinct (map row_record_id (prune_records n t))"
  by (simp add: prune_records_def distinct_map_filter)

interpretation rows: record_log row_record_id insert_or_replace
  by unfold_locales (auto simp: insert_or_replace_def distinct_map_filter)

lemma persist_distinct:
  "distinct (map row_record_id t) \<Longrightarrow> distinct (map row_record_id (persist_record to_json r n t))"
  by (simp add: persist_record_def prune_distinct rows.put_distinct split: option.splits)

lemma length_prune:
  assumes "distinct (map row_record_id t)"
  shows "length (prune_records n t) \<le> n"
  using arg_cong [OF sort_prune [OF assms], of length n] by (simp add: sqlite_usize_def)

section \<open>Restarts\<close>

text \<open>The key by which the table orders a record.\<close>

definition record_key :: "inspector_request_record \<Rightarrow> int \<times> string" where
  "record_key r = (sqlite_u64 (ib_started_at_unix_ms (rr_base r)), rr_id r)"

lemma record_row_fields [simp]:
  "row_key (record_row r json) = record_key r" "row_record_id (record_row r json) = rr_id r"
  "row_record_json (record_row r json) = json" "row_schema_version (record_row r json) = CURRENT_SCHEMA_VERSION"
  by (simp_all add: record_row_def record_key_def row_key_def)

abbreviation rows_of :: "(inspector_request_record \<Rightarrow> string) \<Rightarrow> inspector_request_record list \<Rightarrow> inspector_table" where
  "rows_of json rs \<equiv> map (\<lambda>r. record_row r (json r)) rs"

lemma insort_rows_of:
  "insort_key row_key (record_row r (json r)) (rows_of json xs) = rows_of json (insort_key record_key r xs)"
  by (induction xs) simp_all

lemma sort_reordered:
  assumes "distinct (map rr_id xs)" and "mset ys = mset xs"
  shows "sort_key record_key xs = sort_key record_key ys"
proof (rule sort_key_inj_key_eq)
  show "mset xs = mset (sort_key record_key ys)" using assms(2) by simp
  show "inj_on record_key (set xs)"
    using assms(1) by (auto simp: distinct_map record_key_def inj_on_def)
qed simp

text \<open>After any number of insertions the table holds the newest of all that were inserted.\<close>

lemma persisted_rows:
  assumes "\<And>r. r \<in> set rs \<Longrightarrow> to_json r = Some (json r)" and "distinct (map rr_id rs)"
  shows "sort_key row_key (fold (\<lambda>r. persist_record to_json r n) rs []) =
      rows_of json (newest (sqlite_usize n) (sort_key record_key rs)) \<and>
    set (map row_record_id (fold (\<lambda>r. persist_record to_json r n) rs [])) \<subseteq> rr_id ` set rs \<and>
    distinct (map row_record_id (fold (\<lambda>r. persist_record to_json r n) rs []))"
  using assms
proof (induction rs rule: rev_induct)
  case (snoc r rs)
  let ?t = "fold (\<lambda>r. persist_record to_json r n) rs []"
  let ?row = "record_row r (json r)" and ?n = "sqlite_usize n"
  have IH: "sort_key row_key ?t = rows_of json (newest ?n (sort_key record_key rs))"
    "set (map row_record_id ?t) \<subseteq> rr_id ` set rs" "distinct (map row_record_id ?t)"
    using snoc by simp_all
  have "rr_id r \<notin> rr_id ` set rs" using snoc.prems by simp
  then have "rr_id r \<notin> row_record_id ` set ?t" using IH(2) by (metis list.set_map subsetD)
  then have "filter (\<lambda>x. row_record_id x \<noteq> rr_id r) ?t = ?t" by (metis (mono_tags, lifting) filter_True imageI)
  then have ins: "insert_or_replace ?row ?t = ?row # ?t" by (simp add: insert_or_replace_def)
  have d: "distinct (map row_record_id (?row # ?t))" using IH(3) ins rows.put_distinct [of ?t ?row] by simp
  have "sort_key record_key (rs @ [r]) = insort_key record_key r (sort_key record_key rs)"
    using sort_reordered [OF snoc.prems(2), of "r # rs"] by simp
  moreover have "sort_key row_key (?row # ?t) =
      rows_of json (insort_key record_key r (newest ?n (sort_key record_key rs)))"
    using IH(1) by (simp add: insort_rows_of)
  moreover have p: "persist_record to_json r n ?t = prune_records n (?row # ?t)"
    using snoc.prems(1) ins by (simp add: persist_record_def)
  ultimately have "sort_key row_key (persist_record to_json r n ?t) =
      rows_of json (newest ?n (sort_key record_key (rs @ [r])))"
    using sort_prune [OF d, of n] newest_insort [of record_key "sort_key record_key rs" ?n r]
    by (simp add: newest_map)
  moreover have "set (map row_record_id (persist_record to_json r n ?t)) \<subseteq> rr_id ` set (rs @ [r])"
    using p IH(2) by (auto simp: prune_records_def)
  ultimately show ?case using persist_distinct [OF IH(3)] by simp
qed simp

lemma map_filter_rows:
  "(\<And>r. r \<in> set rs \<Longrightarrow> from_json (json r) = Some r) \<Longrightarrow>
     List.map_filter (\<lambda>row. from_json (row_record_json row)) (rows_of json rs) = rs"
  by (induction rs) (simp_all add: map_filter_simps)

lemma rows_current:
  assumes "sort_key row_key t = rows_of json rs"
  shows "filter (\<lambda>r. row_schema_version r \<le> CURRENT_SCHEMA_VERSION) t = t"
proof -
  have "set t = set (rows_of json rs)" using arg_cong [OF assms, of set] by simp
  then show ?thesis by (auto simp: filter_id_conv)
qed

lemma load_persisted:
  assumes "\<And>r. r \<in> set rs \<Longrightarrow> from_json (json r) = Some r" and "sort_key row_key t = rows_of json rs"
    and "distinct (map row_record_id t)"
  shows "load_latest_records from_json n t = newest (sqlite_usize n) rs"
proof -
  let ?u = "newest_rows n t"
  have r: "rev ?u = rows_of json (newest (sqlite_usize n) rs)"
    using assms(2) by (simp add: newest_rows_sorted newest_map)
  have "sorted (map row_key (rev ?u))"
    using sorted_wrt_drop [of "(\<le>)" "map row_key (sort_key row_key t)"]
    by (simp add: newest_rows_sorted newest_def drop_map sorted_wrt_drop)
  moreover have "inj_on row_key (set ?u)"
    using assms(3) set_newest [of "sqlite_usize n" "sort_key row_key t"]
    by (auto simp: distinct_map inj_on_def row_key_def set_newest_rows subset_iff)
  ultimately have "sort_key row_key ?u = rev ?u" by (intro sort_key_inj_key_eq) simp_all
  then show ?thesis
    using r assms(1) set_newest [of _ rs]
    by (auto simp: load_latest_records_def rows_current [OF assms(2)] intro!: map_filter_rows)
qed

text \<open>The writer persists everything it receives until its deadline passes after a shutdown request.\<close>

fun message_record :: "persistence_message \<Rightarrow> (inspector_request_record \<times> nat) option" where
  "message_record (MsgRecord r n) = Some (r, n)"
| "message_record MsgShutdown = None"

lemma writer_loop_drains:
  "writer_loop to_json state t (map (\<lambda>m. (flag, Received m)) ms @ [(True, RecvTimeout)]) =
     fold (\<lambda>(r, n). persist_record to_json r n) (List.map_filter message_record ms) t"
proof (induction ms arbitrary: state t)
  case (Cons m ms)
  then show ?case by (cases m) (simp_all add: Let_def map_filter_simps)
qed (simp add: map_filter_simps)

text \<open>
  Records survive a restart.  When the writer has worked off the queue that holds the final records of
  any requests, a start with the same retention restores exactly the newest of them, by start and id, oldest
  first, and no more than the retention.
\<close>

theorem persistence_restores_newest:
  assumes "\<And>r. r \<in> set rs \<Longrightarrow> to_json r = Some (json r)"
    and "\<And>r. r \<in> set rs \<Longrightarrow> from_json (json r) = Some r" and "distinct (map rr_id rs)" and "n < 2 ^ 63"
  shows "fst (restore_records from_json n
      (writer_loop to_json Running []
        (map (\<lambda>r. (False, Received (MsgRecord r n))) rs @ [(False, Received MsgShutdown), (True, RecvTimeout)]))) =
    newest n (sort_key record_key rs)"
proof -
  let ?ms = "map (\<lambda>r. MsgRecord r n) rs @ [MsgShutdown]"
  have "List.map_filter message_record ?ms = map (\<lambda>r. (r, n)) rs"
    by (induction rs) (simp_all add: map_filter_simps)
  then have "writer_loop to_json Running [] (map (\<lambda>m. (False, Received m)) ?ms @ [(True, RecvTimeout)]) =
      fold (\<lambda>r. persist_record to_json r n) rs []"
    using writer_loop_drains [of to_json Running "[]" False ?ms] by (simp add: fold_map o_def)
  moreover have n: "sqlite_usize n = n" using assms(4) by (simp add: sqlite_usize_def)
  moreover note rows = persisted_rows [of rs to_json json n, OF assms(1,3)]
  moreover have "sort_key row_key (prune_records n (fold (\<lambda>r. persist_record to_json r n) rs [])) =
      rows_of json (newest n (sort_key record_key rs))"
    using rows sort_prune [of _ n] n by simp
  ultimately show ?thesis
    using load_persisted [of "newest n (sort_key record_key rs)" from_json json] prune_distinct
      subsetD [OF set_newest [of n "sort_key record_key rs"]] assms(2)
    by (simp add: restore_records_def Let_def o_def)
qed

theorem persistence_restores_newest_witness:
  "fst (restore_records (map_of [(''a'', sample_record ''a''), (''b'', sample_record ''b'')]) 1
      (writer_loop (\<lambda>r. Some (rr_id r)) Running []
        (map (\<lambda>r. (False, Received (MsgRecord r 1))) [sample_record ''b'', sample_record ''a''] @
          [(False, Received MsgShutdown), (True, RecvTimeout)]))) =
    newest 1 (sort_key record_key [sample_record ''b'', sample_record ''a''])"
  by (rule persistence_restores_newest [where json = rr_id]) (auto simp: sample_record_id)

end
