(* ===== verification/Persistence_Database.thy ===== *)
theory Persistence_Database
  imports Inspector_Persistence
begin

text \<open>
  \<open>onair-obs/src/observe/inspector_persistence.rs\<close> with the failures of the file system and of SQLite: how a start opens,
  protects, creates and migrates the database, when the writer thread gives up, and what a statement that fails costs.
  A statement either has its effect or fails with a message; which do is the parameter \<open>fails\<close>, or, for the
  statements of the writer loop, part of its input.
\<close>

section \<open>The database file\<close>

text \<open>The permissions and the columns of the table, if the file and the table exist.\<close>

record database =
  db_mode :: "nat option"
  db_columns :: "string list option"
  db_rows :: inspector_table

datatype db_op =
    CreateParent
  | OpenFile
  | JournalMode
  | SynchronousMode
  | ReadPermissions
  | WritePermissions
  | CreateSchema
  | TableInfo
  | AddColumn
  | PruneRows
  | SelectRows
  | CountRows
  | SpawnThread

type_synonym db_failures = "db_op \<Rightarrow> string option"

text \<open>A step of a function that returns early with the first error.\<close>

definition db_try :: "db_failures \<Rightarrow> db_op \<Rightarrow> database \<Rightarrow> (database \<Rightarrow> database \<times> (string + 'a)) \<Rightarrow> database \<times> (string + 'a)" where
  "db_try fails op d k = (case fails op of Some e \<Rightarrow> (d, Inl e) | None \<Rightarrow> k d)"

definition prepare_parent_directory ::
  "db_failures \<Rightarrow> string option \<Rightarrow> database \<Rightarrow> (database \<Rightarrow> database \<times> (string + 'a)) \<Rightarrow> database \<times> (string + 'a)" where
  "prepare_parent_directory fails parent d k =
     (case parent of
        Some p \<Rightarrow> if p = [] then k d else db_try fails CreateParent d k
      | None \<Rightarrow> k d)"

text \<open>\<open>umask\<close> is the mode with which SQLite creates a file.\<close>

definition open_connection ::
  "db_failures \<Rightarrow> nat \<Rightarrow> database \<Rightarrow> (database \<Rightarrow> database \<times> (string + 'a)) \<Rightarrow> database \<times> (string + 'a)" where
  "open_connection fails umask d k =
     (let existed = (db_mode d \<noteq> None)
      in db_try fails OpenFile d (\<lambda>d.
           let d = (if existed then d else d\<lparr>db_mode := Some umask\<rparr>)
           in db_try fails JournalMode d (\<lambda>d. db_try fails SynchronousMode d (\<lambda>d.
                if existed then k d
                else db_try fails ReadPermissions d (\<lambda>d. db_try fails WritePermissions d (\<lambda>d. k (d\<lparr>db_mode := Some 384\<rparr>)))))))"

definition SCHEMA_COLUMNS :: "string list" where
  "SCHEMA_COLUMNS =
     [''record_id'', ''started_at_unix_ms'', ''completed_at_unix_ms'', ''status'', ''outcome_kind'', ''route'', ''identity'',
      ''public_model'', ''backend'', ''error_kind'', ''schema_version'', ''record_json'']"

text \<open>The table is created if it is missing; the column that older files lack is added with its default, 1.\<close>

definition create_table :: "database \<Rightarrow> database" where
  "create_table d = (if db_columns d = None then d\<lparr>db_columns := Some SCHEMA_COLUMNS, db_rows := []\<rparr> else d)"

definition add_schema_version :: "database \<Rightarrow> database" where
  "add_schema_version d =
     d\<lparr>db_columns := map_option (\<lambda>cs. cs @ [''schema_version'']) (db_columns d),
       db_rows := map (\<lambda>r. r\<lparr>row_schema_version := 1\<rparr>) (db_rows d)\<rparr>"

definition has_schema_version :: "database \<Rightarrow> bool" where
  "has_schema_version d \<longleftrightarrow> (case db_columns d of Some cs \<Rightarrow> ''schema_version'' \<in> set cs | None \<Rightarrow> False)"

definition initialize_schema ::
  "db_failures \<Rightarrow> database \<Rightarrow> (database \<Rightarrow> database \<times> (string + 'a)) \<Rightarrow> database \<times> (string + 'a)" where
  "initialize_schema fails d k =
     db_try fails CreateSchema d (\<lambda>d.
       let d = create_table d
       in db_try fails TableInfo d (\<lambda>d.
            if has_schema_version d then k d else db_try fails AddColumn d (\<lambda>d. k (add_schema_version d))))"

section \<open>Start\<close>

text \<open>What the thread finds when it opens the database again: its writer receives, or it has returned.\<close>

definition spawn_writer :: "db_failures \<Rightarrow> nat \<Rightarrow> database \<Rightarrow> database \<times> persistence_writer" where
  "spawn_writer fails umask d =
     (let (d, r) = open_connection fails umask d (\<lambda>d. initialize_schema fails d (\<lambda>d. (d, Inr ())))
      in (d, \<lparr>pw_queue = [], pw_shutdown = False, pw_receiving = (case r of Inr _ \<Rightarrow> True | Inl _ \<Rightarrow> False)\<rparr>))"

definition start_persistence ::
  "db_failures \<Rightarrow> db_failures \<Rightarrow> nat \<Rightarrow> record_reader \<Rightarrow> string option \<Rightarrow> nat \<Rightarrow> database \<Rightarrow>
     database \<times> (string + inspector_request_record list \<times> persistence_writer)" where
  "start_persistence fails thread_fails umask from_json parent n d =
     prepare_parent_directory fails parent d (\<lambda>d. open_connection fails umask d (\<lambda>d. initialize_schema fails d (\<lambda>d.
       db_try fails PruneRows d (\<lambda>d.
         let d = d\<lparr>db_rows := prune_records n (db_rows d)\<rparr>
         in db_try fails SelectRows d (\<lambda>d.
              let records = load_latest_records from_json n (db_rows d)
              in db_try fails SpawnThread d (\<lambda>d.
                   let (d, w) = spawn_writer thread_fails umask d in (d, Inr (records, w))))))))"

definition stored_count_of :: "db_failures \<Rightarrow> nat \<Rightarrow> database \<Rightarrow> database \<times> (string + nat)" where
  "stored_count_of fails umask d =
     open_connection fails umask d (\<lambda>d. initialize_schema fails d (\<lambda>d.
       db_try fails CountRows d (\<lambda>d. (d, Inr (length (db_rows d))))))"

section \<open>The writer\<close>

text \<open>\<open>persist_record\<close> inserts and prunes in two statements; an error of either is only logged.\<close>

definition try_persist ::
  "record_writer \<Rightarrow> bool \<Rightarrow> bool \<Rightarrow> inspector_request_record \<Rightarrow> nat \<Rightarrow> inspector_table \<Rightarrow> inspector_table" where
  "try_persist to_json insert_ok prune_ok r n t =
     (case to_json r of
        None \<Rightarrow> t
      | Some json \<Rightarrow>
          if \<not> insert_ok then t
          else (let t = insert_or_replace (record_row r json) t in if prune_ok then prune_records n t else t))"

record writer_input =
  wi_shutdown :: bool
  wi_received :: received
  wi_insert_ok :: bool
  wi_prune_ok :: bool

fun writer_run ::
  "record_writer \<Rightarrow> loop_state \<Rightarrow> inspector_table \<Rightarrow> nat \<Rightarrow> writer_input list \<Rightarrow> inspector_table \<times> nat" where
  "writer_run to_json state t drained [] = (t, drained)"
| "writer_run to_json state t drained (i # inputs) =
     (let state = (if state = Running \<and> wi_shutdown i then Draining else state)
      in case wi_received i of
           Received (MsgRecord r n) \<Rightarrow>
             writer_run to_json state (try_persist to_json (wi_insert_ok i) (wi_prune_ok i) r n t) (drained + 1) inputs
         | Received MsgShutdown \<Rightarrow> writer_run to_json Draining t drained inputs
         | RecvTimeout \<Rightarrow> if state = Draining then (t, drained) else writer_run to_json state t drained inputs
         | RecvDisconnected \<Rightarrow> (t, drained))"

text \<open>After the loop: the records at the head of the channel are counted as lost; a shutdown message ends the count.\<close>

definition writer_lost :: "persistence_message list \<Rightarrow> nat" where
  "writer_lost queue = length (takeWhile (\<lambda>m. m \<noteq> MsgShutdown) queue)"

section \<open>The writer without failures\<close>

lemma writer_run_ok:
  "list_all (\<lambda>i. wi_insert_ok i \<and> wi_prune_ok i) inputs \<Longrightarrow>
     fst (writer_run to_json state t drained inputs) =
       writer_loop to_json state t (map (\<lambda>i. (wi_shutdown i, wi_received i)) inputs)"
proof (induction inputs arbitrary: state t drained)
  case (Cons i inputs)
  then show ?case
    by (simp add: Let_def try_persist_def persist_record_def split: received.split persistence_message.split option.split)
qed simp

section \<open>Start, step by step\<close>

lemma db_try_cases:
  "P (d, Inl e) \<Longrightarrow> P (k d) \<Longrightarrow> fails op = None \<or> fails op = Some e \<Longrightarrow> P (db_try fails op d k)"
  by (auto simp: db_try_def)

definition migrated :: "database \<Rightarrow> database" where
  "migrated d = (let d = create_table d in if has_schema_version d then d else add_schema_version d)"

lemma initialize_schema_ok: "\<forall>op. fails op = None \<Longrightarrow> initialize_schema fails d k = k (migrated d)"
  by (simp add: initialize_schema_def db_try_def migrated_def Let_def)

lemma has_schema_version_migrated: "has_schema_version (migrated d)"
  by (auto simp: migrated_def has_schema_version_def add_schema_version_def create_table_def Let_def SCHEMA_COLUMNS_def
      split: option.splits)

lemma migrated_idempotent: "migrated (migrated d) = migrated d"
proof -
  have "db_columns (migrated d) \<noteq> None"
    using has_schema_version_migrated [of d] by (auto simp: has_schema_version_def split: option.splits)
  then have "create_table (migrated d) = migrated d" by (auto simp: create_table_def)
  then show ?thesis
    using has_schema_version_migrated [of d] unfolding migrated_def [of "migrated d"] by (simp add: Let_def)
qed

lemma migrated_mode [simp]:
  "db_mode (migrated d) = db_mode d" "migrated (d\<lparr>db_mode := m\<rparr>) = (migrated d)\<lparr>db_mode := m\<rparr>"
  by (simp_all add: migrated_def create_table_def add_schema_version_def has_schema_version_def Let_def split: option.split)

text \<open>The two results that a step can have: an error of one of its operations, or what the rest makes of its success.\<close>

definition error_of :: "db_failures \<Rightarrow> database \<times> (string + 'a) \<Rightarrow> bool" where
  "error_of fails p \<longleftrightarrow> (\<exists>op e. fails op = Some e \<and> snd p = Inl e)"

definition private_mode :: "database \<Rightarrow> database" where
  "private_mode d = d\<lparr>db_mode := Some (case db_mode d of Some m \<Rightarrow> m | None \<Rightarrow> 384)\<rparr>"

lemma db_try_result: "error_of fails (db_try fails op d k) \<or> db_try fails op d k = k d"
  by (auto simp: db_try_def error_of_def split: option.split)

lemma prepare_result: "error_of fails (prepare_parent_directory fails parent d k) \<or> prepare_parent_directory fails parent d k = k d"
  using db_try_result [of fails CreateParent d k] by (auto simp: prepare_parent_directory_def split: option.split)

lemma open_connection_result:
  "error_of fails (open_connection fails umask d k) \<or> open_connection fails umask d k = k (private_mode d)"
proof (cases "db_mode d")
  case None
  then show ?thesis
    by (auto simp: open_connection_def private_mode_def db_try_def error_of_def Let_def split: option.split)
next
  case (Some m)
  then have "private_mode d = d" by (simp add: private_mode_def)
  then show ?thesis
    using Some by (auto simp: open_connection_def db_try_def error_of_def Let_def split: option.split)
qed

lemma initialize_schema_result:
  "error_of fails (initialize_schema fails d k) \<or> initialize_schema fails d k = k (migrated d)"
  by (auto simp: initialize_schema_def migrated_def db_try_def error_of_def Let_def split: option.split)

text \<open>The thread finds the file that the start has prepared, and leaves it as it is.\<close>

lemma spawn_writer_result:
  assumes "has_schema_version d" and "db_mode d \<noteq> None"
  shows "fst (spawn_writer fails umask d) = d"
proof -
  have "create_table d = d" using assms(1) by (auto simp: create_table_def has_schema_version_def split: option.splits)
  then show ?thesis
    using assms
    by (auto simp: spawn_writer_def open_connection_def initialize_schema_def db_try_def Let_def split: option.split prod.split)
qed

lemma error_of_result: "error_of fails p \<Longrightarrow> \<exists>d' op e. p = (d', Inl e) \<and> fails op = Some e"
  by (cases p) (auto simp: error_of_def)

lemma start_steps:
  assumes "\<And>p. error_of fails p \<Longrightarrow> Q p"
  shows "Q (k d) \<Longrightarrow> Q (db_try fails op d k)" "Q (k d) \<Longrightarrow> Q (prepare_parent_directory fails parent d k)"
    "Q (k (private_mode d)) \<Longrightarrow> Q (open_connection fails umask d k)" "Q (k (migrated d)) \<Longrightarrow> Q (initialize_schema fails d k)"
  using assms db_try_result [of fails op d k] prepare_result [of fails parent d k] open_connection_result [of fails umask d k]
    initialize_schema_result [of fails d k] by metis+

text \<open>The file that a start leaves, if nothing fails.\<close>

definition started_database :: "nat \<Rightarrow> database \<Rightarrow> database" where
  "started_database n d = (migrated (private_mode d))\<lparr>db_rows := prune_records n (db_rows (migrated d))\<rparr>"

lemma started_database_fields:
  "db_mode (started_database n d) = Some (case db_mode d of Some m \<Rightarrow> m | None \<Rightarrow> 384)"
  "db_rows (started_database n d) = prune_records n (db_rows (migrated d))" "has_schema_version (started_database n d)"
  using has_schema_version_migrated [of "private_mode d"]
  by (simp_all add: started_database_def has_schema_version_def private_mode_def)

lemma start_persistence_cases:
  "error_of fails (start_persistence fails thread_fails umask from_json parent n d) \<or>
   (\<exists>w. start_persistence fails thread_fails umask from_json parent n d =
      (started_database n d, Inr (load_latest_records from_json n (db_rows (started_database n d)), w)))"
proof -
  let ?d1 = "(migrated (private_mode d))\<lparr>db_rows := prune_records n (db_rows (migrated (private_mode d)))\<rparr>"
  let ?done = "let (d, w) = spawn_writer thread_fails umask ?d1 in (d, Inr (load_latest_records from_json n (db_rows ?d1), w))"
  have d1: "?d1 = started_database n d" by (simp add: started_database_def private_mode_def)
  have "error_of fails (start_persistence fails thread_fails umask from_json parent n d) \<or>
      start_persistence fails thread_fails umask from_json parent n d = ?done"
    unfolding start_persistence_def Let_def
    by (rule start_steps(2) [where Q = "\<lambda>p. error_of fails p \<or> p = _", OF disjI1], assumption,
        rule start_steps(3) [where Q = "\<lambda>p. error_of fails p \<or> p = _", OF disjI1], assumption,
        rule start_steps(4) [where Q = "\<lambda>p. error_of fails p \<or> p = _", OF disjI1], assumption,
        (rule start_steps(1) [where Q = "\<lambda>p. error_of fails p \<or> p = _", OF disjI1], assumption)+) simp
  moreover have "fst (spawn_writer thread_fails umask (started_database n d)) = started_database n d"
    using started_database_fields by (intro spawn_writer_result) simp_all
  ultimately show ?thesis unfolding d1 by (auto simp: split_beta Let_def)
qed


section \<open>Failing statements\<close>

lemma newest_newest [simp]: "newest n (newest n xs) = newest n xs"
  by (simp add: newest_def min_def)

lemma newest_prune:
  "distinct (map row_record_id t) \<Longrightarrow>
     newest (sqlite_usize n) (sort_key row_key (prune_records n t)) = newest (sqlite_usize n) (sort_key row_key t)"
  by (simp add: sort_prune)

text \<open>The records whose insertion succeeded; the last component says whether the pruning after it did.\<close>

type_synonym attempted = "inspector_request_record \<times> bool \<times> bool"

definition inserted :: "attempted list \<Rightarrow> inspector_request_record list" where
  "inserted rs = map fst (filter (\<lambda>(r, i, p). i) rs)"

definition persist_all :: "record_writer \<Rightarrow> nat \<Rightarrow> attempted list \<Rightarrow> inspector_table" where
  "persist_all to_json n rs = fold (\<lambda>(r, i, p). try_persist to_json i p r n) rs []"

lemma inserted_snoc [simp]: "inserted (rs @ [(r, i, p)]) = inserted rs @ (if i then [r] else [])"
  by (simp add: inserted_def)

lemma inserted_subset: "set (inserted rs) \<subseteq> fst ` set rs"
  by (auto simp: inserted_def)

lemma failing_rows:
  assumes "\<And>r i p. (r, i, p) \<in> set rs \<Longrightarrow> to_json r = Some (json r)" and "distinct (map (\<lambda>x. rr_id (fst x)) rs)"
  shows "newest (sqlite_usize n) (sort_key row_key (persist_all to_json n rs)) =
      rows_of json (newest (sqlite_usize n) (sort_key record_key (inserted rs))) \<and>
    row_record_id ` set (persist_all to_json n rs) \<subseteq> rr_id ` set (inserted rs) \<and>
    distinct (map row_record_id (persist_all to_json n rs)) \<and> distinct (map rr_id (inserted rs))"
  using assms
proof (induction rs rule: rev_induct)
  case Nil
  then show ?case by (simp add: persist_all_def inserted_def newest_def)
next
  case (snoc x rs)
  obtain r i p where x: "x = (r, i, p)" by (cases x) auto
  let ?t = "persist_all to_json n rs" and ?row = "record_row r (json r)" and ?n = "sqlite_usize n"
  have IH: "newest ?n (sort_key row_key ?t) = rows_of json (newest ?n (sort_key record_key (inserted rs)))"
    "row_record_id ` set ?t \<subseteq> rr_id ` set (inserted rs)" "distinct (map row_record_id ?t)" "distinct (map rr_id (inserted rs))"
  proof -
    have "\<And>r i p. (r, i, p) \<in> set rs \<Longrightarrow> to_json r = Some (json r)" using snoc.prems(1) by force
    moreover have "distinct (map (\<lambda>x. rr_id (fst x)) rs)" using snoc.prems(2) by simp
    ultimately show "newest ?n (sort_key row_key ?t) = rows_of json (newest ?n (sort_key record_key (inserted rs)))"
      "row_record_id ` set ?t \<subseteq> rr_id ` set (inserted rs)" "distinct (map row_record_id ?t)" "distinct (map rr_id (inserted rs))"
      using snoc.IH by blast+
  qed
  have step: "persist_all to_json n (rs @ [x]) = try_persist to_json i p r n ?t" by (simp add: persist_all_def x)
  show ?case
  proof (cases i)
    case False
    have "to_json r = Some (json r)" using snoc.prems(1) [of r i p] x by simp
    then have "try_persist to_json i p r n ?t = ?t" using False by (simp add: try_persist_def)
    then show ?thesis using IH False unfolding step by (simp add: x)
  next
    case True
    have "rr_id r \<notin> rr_id ` (fst ` set rs)" using snoc.prems(2) by (auto simp: x case_prod_unfold image_image)
    then have fresh: "rr_id r \<notin> rr_id ` set (inserted rs)" using inserted_subset by blast
    then have "filter (\<lambda>y. row_record_id y \<noteq> rr_id r) ?t = ?t"
      using IH(2) unfolding filter_id_conv by (metis imageI subsetD)
    then have ins: "insert_or_replace ?row ?t = ?row # ?t" by (simp add: insert_or_replace_def)
    have d: "distinct (map row_record_id (?row # ?t))" using IH(3) ins rows.put_distinct [of ?t ?row] by simp
    have di: "distinct (map rr_id (inserted rs @ [r]))" using IH(4) fresh by simp
    have "newest ?n (sort_key row_key (?row # ?t)) = newest ?n (insort_key row_key ?row (newest ?n (sort_key row_key ?t)))"
      using newest_insort [of row_key "sort_key row_key ?t" ?n ?row] by simp
    also have "\<dots> = rows_of json (newest ?n (insort_key record_key r (newest ?n (sort_key record_key (inserted rs)))))"
      by (simp add: IH(1) insort_rows_of newest_map)
    also have "newest ?n (insort_key record_key r (newest ?n (sort_key record_key (inserted rs)))) =
        newest ?n (sort_key record_key (inserted rs @ [r]))"
      using newest_insort [of record_key "sort_key record_key (inserted rs)" ?n r] sort_reordered [OF di, of "r # inserted rs"]
      by simp
    finally have new: "newest ?n (sort_key row_key (?row # ?t)) = rows_of json (newest ?n (sort_key record_key (inserted rs @ [r])))" .
    have t: "persist_all to_json n (rs @ [x]) = (if p then prune_records n (?row # ?t) else ?row # ?t)"
      using snoc.prems(1) [of r i p] True ins unfolding step by (simp add: x try_persist_def)
    have "row_record_id ` set (prune_records n (?row # ?t)) \<subseteq> insert (rr_id r) (rr_id ` set (inserted rs))"
      using IH(2) by (auto simp: prune_records_def)
    moreover have "inserted (rs @ [x]) = inserted rs @ [r]" using True by (simp add: x)
    ultimately show ?thesis
      using new newest_prune [OF d] prune_distinct [OF d] d di IH(2) unfolding t by (cases p) auto
  qed
qed

lemma writer_run_records:
  "fst (writer_run to_json state t drained
      (map (\<lambda>(r, i, p). \<lparr>wi_shutdown = False, wi_received = Received (MsgRecord r n), wi_insert_ok = i, wi_prune_ok = p\<rparr>) rs @ inputs)) =
    fst (writer_run to_json state (fold (\<lambda>(r, i, p). try_persist to_json i p r n) rs t) (drained + length rs) inputs)"
proof (induction rs arbitrary: t drained)
  case (Cons x rs)
  then show ?case by (cases x) (simp add: Let_def)
qed simp

text \<open>
  C35: a failing statement costs no more than its record.  If any insertions and any prunings of the writer fail, a
  restart restores the newest of exactly those records whose insertion succeeded: a failed pruning is made
  up for, and no other record is lost or duplicated.
\<close>

theorem persistence_survives_failures:
  assumes "\<And>r i p. (r, i, p) \<in> set rs \<Longrightarrow> to_json r = Some (json r) \<and> from_json (json r) = Some r"
    and "distinct (map (\<lambda>x. rr_id (fst x)) rs)" and "n < 2 ^ 63"
  shows "fst (restore_records from_json n (fst (writer_run to_json Running [] 0
      (map (\<lambda>(r, i, p). \<lparr>wi_shutdown = False, wi_received = Received (MsgRecord r n), wi_insert_ok = i, wi_prune_ok = p\<rparr>) rs)))) =
    newest n (sort_key record_key (inserted rs))"
proof -
  let ?t = "persist_all to_json n rs"
  have n: "sqlite_usize n = n" using assms(3) by (simp add: sqlite_usize_def)
  have rows: "newest n (sort_key row_key ?t) = rows_of json (newest n (sort_key record_key (inserted rs)))"
    "distinct (map row_record_id ?t)"
    using failing_rows [of rs to_json json n, OF conjunct1 [OF assms(1)] assms(2)] n by simp_all
  have "sort_key row_key (prune_records n ?t) = rows_of json (newest n (sort_key record_key (inserted rs)))"
    using sort_prune [OF rows(2), of n] rows(1) n by simp
  moreover have "from_json (json r) = Some r" if "r \<in> set (newest n (sort_key record_key (inserted rs)))" for r
    using that set_newest [of n "sort_key record_key (inserted rs)"] inserted_subset [of rs] assms(1) by fastforce
  ultimately have "load_latest_records from_json n (prune_records n ?t) = newest n (sort_key record_key (inserted rs))"
    using load_persisted [of "newest n (sort_key record_key (inserted rs))" from_json json "prune_records n ?t" n]
      prune_distinct [OF rows(2)] n by simp
  then show ?thesis
    using writer_run_records [of to_json Running "[]" 0 n rs "[]"]
    by (simp add: restore_records_def Let_def persist_all_def)
qed

theorem persistence_survives_failures_witness:
  "fst (restore_records (map_of [(''a'', sample_record ''a''), (''b'', sample_record ''b'')]) 1
      (fst (writer_run (\<lambda>r. Some (rr_id r)) Running [] 0
        (map (\<lambda>(r, i, p). \<lparr>wi_shutdown = False, wi_received = Received (MsgRecord r 1), wi_insert_ok = i, wi_prune_ok = p\<rparr>)
          [(sample_record ''b'', False, True), (sample_record ''a'', True, False)])))) =
    newest 1 (sort_key record_key (inserted [(sample_record ''b'', False, True), (sample_record ''a'', True, False)]))"
  by (rule persistence_survives_failures [where json = rr_id]) (auto simp: sample_record_id)

end
