(* ===== verification/Metrics.thy ===== *)
theory Metrics
  imports Proxy_Correct
begin

text \<open>
  \<open>onair-obs/src/metrics.rs\<close>: what each report of the request path adds to the OpenTelemetry instruments, and the choice
  of an exporter.  An instrument is what it has been given: a counter the amounts, a histogram the durations in
  microseconds, each with its attributes.  What an exporter does with them is not part of the program.
\<close>

section \<open>Instruments\<close>

datatype attribute_value = AText string | AFlag bool | ANumber int

type_synonym attributes = "(string \<times> attribute_value) list"

datatype measurement =
    CounterAdd string u64 attributes
  | HistogramRecord string nat attributes

definition base_attributes :: "metric_labels \<Rightarrow> attributes" where
  "base_attributes l =
     [(''route'', AText (ml_route l)), (''identity'', AText (ml_identity l)), (''model'', AText (ml_public_model l)),
      (''backend'', AText (ml_backend l)), (''stream'', AFlag (ml_stream l))]"

definition backend_attributes :: "metric_labels \<Rightarrow> attributes" where
  "backend_attributes l = base_attributes l"

definition with_status :: "status_code \<Rightarrow> metric_labels \<Rightarrow> attributes" where
  "with_status status l = base_attributes l @ [(''status_code'', ANumber (int status))]"

section \<open>Reports\<close>

definition record_backend_attempt :: "metric_labels \<Rightarrow> measurement list" where
  "record_backend_attempt l = [CounterAdd ''onair.backend.requests'' 1 (backend_attributes l)]"

definition record_request_metric :: "metric_labels \<Rightarrow> status_code \<Rightarrow> nat \<Rightarrow> measurement list" where
  "record_request_metric l status duration =
     [CounterAdd ''onair.requests'' 1 (with_status status l),
      HistogramRecord ''onair.request.duration'' duration (with_status status l)]"

definition record_stream_metric :: "metric_labels \<Rightarrow> status_code \<Rightarrow> nat \<Rightarrow> measurement list" where
  "record_stream_metric l status duration = [HistogramRecord ''onair.stream.duration'' duration (with_status status l)]"

definition token_count :: "metric_labels \<Rightarrow> string \<Rightarrow> u64 \<Rightarrow> measurement list" where
  "token_count l direction n =
     (if 0 < n then [CounterAdd ''onair.tokens'' n (base_attributes l @ [(''direction'', AText direction)])] else [])"

definition record_usage_metric :: "metric_labels \<Rightarrow> usage_totals \<Rightarrow> measurement list" where
  "record_usage_metric l usage =
     token_count l ''input'' (ut_input usage) @ token_count l ''cached_input'' (ut_cached_input usage) @
     token_count l ''output'' (ut_output usage)"

text \<open>The measurements of a report; the duration is what the timer of the request read.\<close>

fun measure :: "nat \<Rightarrow> effect \<Rightarrow> measurement list" where
  "measure duration (BackendAttempt l) = record_backend_attempt l"
| "measure duration (RequestMetric l status) = record_request_metric l status duration"
| "measure duration (UsageMetric l usage) = record_usage_metric l usage"
| "measure duration (StreamMetric l status) = record_stream_metric l status duration"
| "measure duration (Sent b ob) = []"
| "measure duration (Health h) = []"
| "measure duration (Inspect r) = []"

definition measurements :: "(nat \<Rightarrow> nat) \<Rightarrow> effect list \<Rightarrow> measurement list" where
  "measurements clock es = concat (map (\<lambda>(i, e). measure (clock i) e) (enumerate 0 es))"

section \<open>The exporter\<close>

text \<open>The library either builds a provider for a service, an address and an interval, or fails with a message.\<close>

type_synonym 'p build_provider = "string \<Rightarrow> string option \<Rightarrow> u64 \<Rightarrow> string + 'p"

definition install_otlp :: "'p build_provider \<Rightarrow> telemetry_config \<Rightarrow> string + 'p option" where
  "install_otlp build tc =
     (case build (service_name tc) (otlp_endpoint tc) (export_interval_ms tc) of
        Inl e \<Rightarrow> Inl e
      | Inr provider \<Rightarrow> Inr (Some provider))"

definition telemetry_install :: "'p build_provider \<Rightarrow> telemetry_config \<Rightarrow> string + 'p option" where
  "telemetry_install build tc =
     (case exporter tc of
        ExporterNone \<Rightarrow> Inr None
      | ExporterOtlp \<Rightarrow> install_otlp build tc)"

text \<open>Whether a warning is logged at the end; \<open>flush\<close> is whether the provider could be shut down.\<close>

definition telemetry_shutdown :: "('p \<Rightarrow> bool) \<Rightarrow> 'p option \<Rightarrow> bool" where
  "telemetry_shutdown flush guard = (case guard of Some provider \<Rightarrow> \<not> flush provider | None \<Rightarrow> False)"

section \<open>Counters and records\<close>

definition counter_total :: "string \<Rightarrow> (attributes \<Rightarrow> bool) \<Rightarrow> measurement list \<Rightarrow> nat" where
  "counter_total name p ms =
     sum_list (List.map_filter (\<lambda>m. case m of
       CounterAdd n amount as \<Rightarrow> if n = name \<and> p as then Some (unat amount) else None | _ \<Rightarrow> None) ms)"

definition tokens_counted :: "string \<Rightarrow> measurement list \<Rightarrow> nat" where
  "tokens_counted direction = counter_total ''onair.tokens'' (\<lambda>as. (''direction'', AText direction) \<in> set as)"

lemma counter_total_append [simp]: "counter_total name p (xs @ ys) = counter_total name p xs + counter_total name p ys"
  by (simp add: counter_total_def List.map_filter_def)

lemma counter_total_simps [simp]:
  "counter_total name p [] = 0"
  "counter_total name p (CounterAdd n a as # ms) = (if n = name \<and> p as then unat a else 0) + counter_total name p ms"
  "counter_total name p (HistogramRecord n d as # ms) = counter_total name p ms"
  by (simp_all add: counter_total_def List.map_filter_def)

lemma measurements_cons: "measurements clock (e # es) = measure (clock 0) e @ measurements (\<lambda>i. clock (Suc i)) es"
proof -
  have "enumerate (Suc 0) es = map (\<lambda>(i, e). (Suc i, e)) (enumerate 0 es)"
    by (rule nth_equalityI) (simp_all add: nth_enumerate_eq)
  then show ?thesis by (simp add: measurements_def comp_def case_prod_unfold)
qed

text \<open>What an effect adds to a counter does not depend on the clock.\<close>

lemma counter_measure: "counter_total name p (measure d e) = counter_total name p (measure 0 e)"
  by (cases e) (simp_all add: record_request_metric_def record_stream_metric_def)

lemma counter_measurements: "counter_total name p (measurements clock es) = (\<Sum>e\<leftarrow>es. counter_total name p (measure 0 e))"
proof (induction es arbitrary: clock)
  case (Cons e es)
  then show ?case using counter_measure [of name p "clock 0" e] by (simp add: measurements_cons)
qed (simp add: measurements_def)

fun effect_tokens :: "(usage_totals \<Rightarrow> u64) \<Rightarrow> effect \<Rightarrow> nat" where
  "effect_tokens f (UsageMetric l u) = unat (f u)"
| "effect_tokens f e = 0"

lemma counter_token_count [simp]:
  "counter_total name p (token_count l d n) =
     (if name = ''onair.tokens'' \<and> p (base_attributes l @ [(''direction'', AText d)]) then unat n else 0)"
  by (cases "n = 0") (auto simp: token_count_def word_gt_0)

lemma no_direction: "(''direction'', AText d) \<notin> set (base_attributes l)"
  by (simp add: base_attributes_def)

lemma effect_tokens_health [simp]: "effect_tokens f \<circ> Health = (\<lambda>_. 0)"
  by auto

lemma inspected_health [simp]: "inspected (map Health hs) = []"
  by (induction hs) simp_all

lemma tokens_measure:
  "tokens_counted ''input'' (measure 0 e) = effect_tokens ut_input e"
  "tokens_counted ''cached_input'' (measure 0 e) = effect_tokens ut_cached_input e"
  "tokens_counted ''output'' (measure 0 e) = effect_tokens ut_output e"
  by (cases e; simp add: tokens_counted_def record_backend_attempt_def record_request_metric_def record_stream_metric_def
      record_usage_metric_def no_direction)+

text \<open>The tokens that go to the metrics and those of the final records.\<close>

definition balanced :: "effect list \<Rightarrow> bool" where
  "balanced es \<longleftrightarrow>
     (\<Sum>e\<leftarrow>es. effect_tokens ut_input e) = (\<Sum>r\<leftarrow>inspected es. unat (tk_input (ir_tokens r))) \<and>
     (\<Sum>e\<leftarrow>es. effect_tokens ut_cached_input e) = (\<Sum>r\<leftarrow>inspected es. unat (tk_cached_input (ir_tokens r))) \<and>
     (\<Sum>e\<leftarrow>es. effect_tokens ut_output e) = (\<Sum>r\<leftarrow>inspected es. unat (tk_output (ir_tokens r)))"

lemma balanced_append: "balanced es \<Longrightarrow> balanced es' \<Longrightarrow> balanced (es @ es')"
  by (simp add: balanced_def)

lemma balanced_quiet [simp]:
  "balanced []" "balanced (BackendAttempt l # es) = balanced es" "balanced (Sent b ob # es) = balanced es"
  "balanced (RequestMetric l s # es) = balanced es" "balanced (StreamMetric l s # es) = balanced es"
  "balanced (Health h # es) = balanced es" "balanced (map Health hs @ es) = balanced es"
  by (simp_all add: balanced_def)

lemma balanced_final [simp]:
  "balanced (final_record oc st k as n no_tokens x cx # es) = balanced es"
  "balanced (UsageMetric l u # final_record oc st k as n (inspector_tokens u) x cx # es) = balanced es"
  "balanced (UsageMetric l u # RequestMetric l st' # Health h # final_record oc st k as n (inspector_tokens u) x cx # es) = balanced es"
  by (simp_all add: balanced_def final_record_def no_tokens_def inspector_tokens_def)

lemma attempt_loop_balanced:
  "balanced (pc_effects cx) \<Longrightarrow> balanced (pc_effects (fst (attempt_loop env rq cx fallbacks)))"
proof (induction fallbacks arbitrary: cx)
  case Nil
  then show ?case
    by (auto simp: attempt_loop.simps [of env rq cx] attempt_once_def record_final_failure_def Let_def
        split: sum.split send_result.split bool.split intro: balanced_append)
next
  case (Cons nxt rest)
  let ?cx = "\<lambda>ob. emit_effects [Sent (sr_backend_id (pc_route cx)) ob] (emit_effects [BackendAttempt (pc_labels cx)] cx)"
  have IH: "balanced (pc_effects (fst (attempt_loop env rq (record_retry kind nxt (?cx ob)) rest)))" for kind ob
    using Cons.prems by (intro Cons.IH) (auto simp: record_retry_fields intro: balanced_append)
  show ?case
    using Cons.prems IH
    by (auto simp: attempt_loop.simps [of env rq cx] attempt_once_def record_final_failure_def Let_def
        split: sum.split send_result.split bool.split intro: balanced_append)
qed

lemma stream_effects_balanced: "balanced (stream_effects cx status m)"
proof (cases "is_empty (sm_usage m)")
  case True
  then have "inspector_tokens (sm_usage m) = no_tokens" by (simp add: is_empty_def inspector_tokens_def no_tokens_def)
  then show ?thesis using True by (simp add: stream_effects_def Let_def)
next
  case False
  have "balanced (UsageMetric l u # map Health hs @ [final_record oc st k as n (inspector_tokens u) x cx, StreamMetric l' st'])"
    for l u hs oc st k as n x l' st'
    by (simp add: balanced_def final_record_def inspector_tokens_def)
  then show ?thesis using False by (simp add: stream_effects_def Let_def)
qed

lemma do_proxy_balanced:
  assumes "balanced (pc_effects cx)"
  shows "balanced (pc_effects (fst (do_proxy env rq cx fallbacks)))"
proof -
  obtain cx1 res where l: "attempt_loop env rq cx fallbacks = (cx1, res)" by fastforce
  then have b: "balanced (pc_effects cx1)" using attempt_loop_balanced [OF assms, of env rq fallbacks] by simp
  have "balanced (pc_effects (fst (non_success_response r cx1)))" for r
    using b by (auto simp: non_success_response_def forward_upstream_error_def non_success_effects_def Let_def
        intro: balanced_append split: option.split)
  moreover have "balanced (pc_effects (fst (streaming_response env rq r cx1)))" for r
    using b stream_effects_balanced
    by (auto simp: streaming_response_def Let_def intro!: balanced_append split: option.split)
  moreover have "balanced (pc_effects (fst (buffered_response env rq r cx1)))" for r
    using b by (auto simp: buffered_response_def Let_def intro: balanced_append
        split: option.split sum.split body_read_error.split prod.split)
  ultimately show ?thesis using l b by (simp add: do_proxy_def split: sum.split)
qed

lemma proxy_v1_balanced: "balanced (po_effects (proxy_v1 env cfg c q))"
proof (rule proxy_v1_outcome [where P = "\<lambda>out. balanced (po_effects out)"])
  show "balanced (po_effects (forward env cfg q ident shape routes c))" for ident shape routes c
    by (simp add: forward_def Let_def split_beta do_proxy_balanced)
qed (simp_all add: rejected_def preflight_effects_def balanced_def no_tokens_def)

lemma tokens_measurements:
  "tokens_counted ''input'' (measurements clock es) = (\<Sum>e\<leftarrow>es. effect_tokens ut_input e)"
  "tokens_counted ''cached_input'' (measurements clock es) = (\<Sum>e\<leftarrow>es. effect_tokens ut_cached_input e)"
  "tokens_counted ''output'' (measurements clock es) = (\<Sum>e\<leftarrow>es. effect_tokens ut_output e)"
  using tokens_measure unfolding tokens_counted_def counter_measurements by simp_all

lemma requests_measure:
  "counter_total ''onair.requests'' (\<lambda>as. (''status_code'', ANumber (int s)) \<in> set as) (measure 0 e) =
     count_list (request_metrics [e]) s"
  by (cases e) (simp_all add: record_backend_attempt_def record_request_metric_def record_stream_metric_def
      record_usage_metric_def base_attributes_def with_status_def)

lemma requests_measurements:
  "counter_total ''onair.requests'' (\<lambda>as. (''status_code'', ANumber (int s)) \<in> set as) (measurements clock es) =
     count_list (request_metrics es) s"
proof -
  have "(\<Sum>e\<leftarrow>es. count_list (request_metrics [e]) s) = count_list (request_metrics es) s"
  proof (induction es)
    case (Cons e es)
    then show ?case by (cases e) simp_all
  qed simp
  then show ?thesis unfolding counter_measurements requests_measure .
qed

text \<open>
  C40: metrics and inspector tell the same.  For every request the token counters grow, in each direction, by exactly the
  tokens of its final inspector record, and the request counter with a given status grows as often as that status
  was reported; neither depends on the durations that were measured.
\<close>

theorem metrics_agree:
  "let es = po_effects (proxy_v1 env cfg c q); ms = measurements clock es
   in tokens_counted ''input'' ms = (\<Sum>r\<leftarrow>inspected es. unat (tk_input (ir_tokens r))) \<and>
      tokens_counted ''cached_input'' ms = (\<Sum>r\<leftarrow>inspected es. unat (tk_cached_input (ir_tokens r))) \<and>
      tokens_counted ''output'' ms = (\<Sum>r\<leftarrow>inspected es. unat (tk_output (ir_tokens r))) \<and>
      (\<forall>s. counter_total ''onair.requests'' (\<lambda>as. (''status_code'', ANumber (int s)) \<in> set as) ms =
        count_list (request_metrics es) s)"
  using proxy_v1_balanced [of env cfg c q] unfolding balanced_def Let_def tokens_measurements requests_measurements by simp

end
