(* ===== verification/Process.thy ===== *)
theory Process
  imports Server Application Persistence_Database Metrics
begin

text \<open>
  The process: \<open>main\<close>, \<open>serve\<close> and \<open>AppState::new\<close> (\<open>onair/src/main.rs\<close>, \<open>onair/src/app.rs\<close>).  A start is a sequence of
  stages, each of which can end it; what the operating system, the HTTP client and the exporter answer are fields of
  \<open>startup_env\<close>.  The shutdown is a step relation in which the signal, the connections, the clock and the two branches
  of the \<open>select!\<close> interleave.
\<close>

section \<open>Start\<close>

datatype startup_error =
    ConfigFailed load_error
  | TelemetryFailed string
  | PersistenceFailed string
  | ClientFailed string
  | WatchFailed watch_error
  | BindFailed string
  | ServeFailed string

record 'p startup_env =
  su_build :: "'p build_provider"
  su_flush :: "'p \<Rightarrow> bool"
  su_db_fails :: db_failures
  su_thread_fails :: db_failures
  su_umask :: nat
  su_from_json :: record_reader
  su_client_error :: "string option"
  su_current_dir :: "string option"
  su_watch_ok :: "path_component list \<Rightarrow> bool"
  su_bind_error :: "string option"
  su_now_unix_ms :: u64

text \<open>The parent of a path as \<open>prepare_parent_directory\<close> sees it: all it asks is whether it is empty.\<close>

definition parent_directory :: "string \<Rightarrow> string option" where
  "parent_directory path =
     map_option (\<lambda>cs. concat (map (\<lambda>c. case c of RootDir \<Rightarrow> ''/'' | CurDir \<Rightarrow> ''./'' | ParentDir \<Rightarrow> ''../'' | Normal s \<Rightarrow> s @ ''/'') cs))
       (parent path)"

definition open_inspector_store ::
  "'p startup_env \<Rightarrow> inspector_config \<Rightarrow> database \<Rightarrow> database \<times> (string + inspector_store)" where
  "open_inspector_store env c d =
     (if \<not> ip_enabled (ic_persistence c) then (d, Inr store_new)
      else case ip_path (ic_persistence c) of
        None \<Rightarrow> (d, Inl ''inspector.persistence.path is required when persistence is enabled'')
      | Some path \<Rightarrow>
          (case start_persistence (su_db_fails env) (su_thread_fails env) (su_umask env) (su_from_json env)
              (parent_directory path) (clamp_retention (ic_retention_requests c)) d of
             (d, Inl e) \<Rightarrow> (d, Inl e)
           | (d, Inr (rs, w)) \<Rightarrow> (d, Inr (store_from_parts rs (Some w)))))"

definition app_state_new :: "'p startup_env \<Rightarrow> config \<Rightarrow> database \<Rightarrow> database \<times> (startup_error + app_state)" where
  "app_state_new env cfg d =
     (case open_inspector_store env (cfg_inspector cfg) d of
        (d, Inl e) \<Rightarrow> (d, Inl (PersistenceFailed e))
      | (d, Inr store) \<Rightarrow>
          (case su_client_error env of
             Some e \<Rightarrow> (d, Inl (ClientFailed e))
           | None \<Rightarrow> (d, Inr \<lparr>ap_config = cfg, ap_health = [], ap_inspector = store, ap_context_sizes = [],
               ap_round_robin = Map.empty, ap_started_at_unix_ms = su_now_unix_ms env\<rparr>)))"

record 'p process =
  pr_guard :: "'p option"
  pr_app :: app_state
  pr_path :: string
  pr_filename :: string

definition main_start ::
  "'p startup_env \<Rightarrow> host \<Rightarrow> file_system \<Rightarrow> string \<Rightarrow> database \<Rightarrow> database \<times> (startup_error + 'p process)" where
  "main_start env h fs path d =
     (case load h fs path of
        Inl e \<Rightarrow> (d, Inl (ConfigFailed e))
      | Inr cfg \<Rightarrow>
          (case telemetry_install (su_build env) (cfg_telemetry cfg) of
             Inl e \<Rightarrow> (d, Inl (TelemetryFailed e))
           | Inr guard \<Rightarrow>
               (case app_state_new env cfg d of
                  (d, Inl e) \<Rightarrow> (d, Inl e)
                | (d, Inr app) \<Rightarrow>
                    (case watch_target (su_current_dir env) (su_watch_ok env) path of
                       Inl e \<Rightarrow> (d, Inl (WatchFailed e))
                     | Inr (target, directory, filename) \<Rightarrow>
                         (d, Inr \<lparr>pr_guard = guard, pr_app = app, pr_path = target, pr_filename = filename\<rparr>)))))"

text \<open>What \<open>main\<close> returns, and the provider it has shut down; \<open>served\<close> is what the server future gives in the end.\<close>

definition main_run ::
  "'p startup_env \<Rightarrow> host \<Rightarrow> file_system \<Rightarrow> string \<Rightarrow> string + unit \<Rightarrow> database \<Rightarrow>
     database \<times> 'p option \<times> (startup_error + unit)" where
  "main_run env h fs path served d =
     (case main_start env h fs path d of
        (d, Inl e) \<Rightarrow> (d, None, Inl e)
      | (d, Inr p) \<Rightarrow>
          (case su_bind_error env of
             Some e \<Rightarrow> (d, None, Inl (BindFailed e))
           | None \<Rightarrow>
               (case served of
                  Inl e \<Rightarrow> (d, None, Inl (ServeFailed e))
                | Inr _ \<Rightarrow> (d, pr_guard p, Inr ()))))"

text \<open>The server that the process runs: the state of the application, and the watcher on the file system it finds.\<close>

definition process_server :: "file_system \<Rightarrow> 'p process \<Rightarrow> server" where
  "process_server fs p =
     \<lparr>sy_watch = watch_start fs (ap_config (pr_app p)), sy_health = ap_health (pr_app p), sy_inspector = ap_inspector (pr_app p),
      sy_context_sizes = ap_context_sizes (pr_app p), sy_round_robin = ap_round_robin (pr_app p), sy_inflight = [],
      sy_loaded = [ap_config (pr_app p)], sy_sent = []\<rparr>"

section \<open>Shutdown\<close>

definition GRACEFUL_SHUTDOWN_TIMEOUT :: nat where "GRACEFUL_SHUTDOWN_TIMEOUT = 5000"

text \<open>The two branches of the \<open>select!\<close> in \<open>serve\<close>, the second with the deadline of its timeout, and the result.\<close>

datatype serve_phase = Selecting | Graceful nat | Served "string + unit"

text \<open>\<open>sv_signal_at\<close> is history; \<open>sv_waited\<close> is for how long a branch has been ready without being polled.\<close>

record serve_state =
  sv_now :: nat
  sv_shutdown :: bool
  sv_signal_at :: nat
  sv_waited :: nat
  sv_connections :: nat
  sv_phase :: serve_phase
  sv_warned :: bool

fun serve_ready :: "serve_phase \<Rightarrow> bool \<Rightarrow> nat \<Rightarrow> bool" where
  "serve_ready Selecting shutdown now = shutdown"
| "serve_ready (Graceful deadline) shutdown now = (deadline \<le> now)"
| "serve_ready (Served r) shutdown now = False"

fun returned :: "serve_phase \<Rightarrow> bool" where
  "returned (Served r) = True"
| "returned _ = False"

definition serve_start :: "nat \<Rightarrow> serve_state" where
  "serve_start now = \<lparr>sv_now = now, sv_shutdown = False, sv_signal_at = 0, sv_waited = 0, sv_connections = 0,
     sv_phase = Selecting, sv_warned = False\<rparr>"

text \<open>
  The server future accepts connections until the signal and then ends when all are closed.  A branch that is ready
  is polled at most \<open>delay\<close> milliseconds later.
\<close>

inductive serve_step :: "nat \<Rightarrow> serve_state \<Rightarrow> serve_state \<Rightarrow> bool" for delay :: nat where
  accepted: "\<not> sv_shutdown s \<Longrightarrow> \<not> returned (sv_phase s) \<Longrightarrow>
    serve_step delay s (s\<lparr>sv_connections := sv_connections s + 1\<rparr>)"
| closed: "0 < sv_connections s \<Longrightarrow> serve_step delay s (s\<lparr>sv_connections := sv_connections s - 1\<rparr>)"
| shutdown_signal: "\<not> sv_shutdown s \<Longrightarrow> \<not> returned (sv_phase s) \<Longrightarrow>
    serve_step delay s (s\<lparr>sv_shutdown := True, sv_signal_at := sv_now s\<rparr>)"
| server_failed: "\<not> returned (sv_phase s) \<Longrightarrow> serve_step delay s (s\<lparr>sv_phase := Served (Inl e)\<rparr>)"
| server_ended: "sv_shutdown s \<Longrightarrow> sv_connections s = 0 \<Longrightarrow> \<not> returned (sv_phase s) \<Longrightarrow>
    serve_step delay s (s\<lparr>sv_phase := Served (Inr ())\<rparr>)"
| wait_for_shutdown: "sv_phase s = Selecting \<Longrightarrow> sv_shutdown s \<Longrightarrow>
    serve_step delay s (s\<lparr>sv_phase := Graceful (sv_now s + GRACEFUL_SHUTDOWN_TIMEOUT), sv_waited := 0\<rparr>)"
| timed_out: "sv_phase s = Graceful deadline \<Longrightarrow> deadline \<le> sv_now s \<Longrightarrow>
    serve_step delay s (s\<lparr>sv_phase := Served (Inr ()), sv_warned := True\<rparr>)"
| waiting: "\<not> returned (sv_phase s) \<Longrightarrow> serve_ready (sv_phase s) (sv_shutdown s) (sv_now s) \<Longrightarrow> sv_waited s < delay \<Longrightarrow>
    serve_step delay s (s\<lparr>sv_now := sv_now s + 1, sv_waited := sv_waited s + 1\<rparr>)"
| idle: "\<not> returned (sv_phase s) \<Longrightarrow> \<not> serve_ready (sv_phase s) (sv_shutdown s) (sv_now s) \<Longrightarrow>
    serve_step delay s (s\<lparr>sv_now := sv_now s + 1\<rparr>)"

section \<open>What a start restores\<close>

text \<open>Every row of a table holds the record it is keyed by, and the ids are a primary key.\<close>

definition rows_keyed :: "record_reader \<Rightarrow> inspector_table \<Rightarrow> bool" where
  "rows_keyed from_json t \<longleftrightarrow> distinct (map row_record_id t) \<and>
     list_all (\<lambda>row. case from_json (row_record_json row) of Some r \<Rightarrow> rr_id r = row_record_id row | None \<Rightarrow> True) t"

lemma rows_keyed_filter: "rows_keyed from_json t \<Longrightarrow> rows_keyed from_json (filter p t)"
  by (auto simp: rows_keyed_def list_all_iff distinct_map_filter)

lemma rows_keyed_sort:
  assumes "rows_keyed from_json t" and "distinct (map row_record_id t')" and "set t' \<subseteq> set t"
  shows "rows_keyed from_json t'"
  using assms by (auto simp: rows_keyed_def list_all_iff)

lemma rows_keyed_newest: "rows_keyed from_json t \<Longrightarrow> rows_keyed from_json (sort_key row_key (newest_rows n t))"
proof (rule rows_keyed_sort, assumption)
  assume "rows_keyed from_json t"
  then have "distinct (map row_record_id (rev (sort_key row_key t)))"
    by (simp add: rows_keyed_def distinct_map rev_map)
  then have "distinct (map row_record_id (newest_rows n t))"
    unfolding newest_rows_def by (metis distinct_take take_map)
  then show "distinct (map row_record_id (sort_key row_key (newest_rows n t)))" by (simp add: distinct_map)
  show "set (sort_key row_key (newest_rows n t)) \<subseteq> set t" by (auto simp: newest_rows_def dest: in_set_takeD)
qed

lemma rows_keyed_records:
  "rows_keyed from_json t \<Longrightarrow>
     distinct (map rr_id (List.map_filter (\<lambda>row. from_json (row_record_json row)) t)) \<and>
     rr_id ` set (List.map_filter (\<lambda>row. from_json (row_record_json row)) t) \<subseteq> row_record_id ` set t \<and>
     length (List.map_filter (\<lambda>row. from_json (row_record_json row)) t) \<le> length t"
proof (induction t)
  case (Cons row t)
  then have IH: "distinct (map rr_id (List.map_filter (\<lambda>row. from_json (row_record_json row)) t))"
    "rr_id ` set (List.map_filter (\<lambda>row. from_json (row_record_json row)) t) \<subseteq> row_record_id ` set t"
    "length (List.map_filter (\<lambda>row. from_json (row_record_json row)) t) \<le> length t"
    by (auto simp: rows_keyed_def)
  show ?case
    using IH Cons.prems
    by (cases "from_json (row_record_json row)") (auto simp: List.map_filter_simps rows_keyed_def)
qed (simp add: List.map_filter_simps)

lemma load_latest_keyed:
  assumes "rows_keyed from_json t"
  shows "distinct (map rr_id (load_latest_records from_json n t)) \<and> length (load_latest_records from_json n t) \<le> n"
proof -
  let ?t = "sort_key row_key (newest_rows n (filter (\<lambda>r. row_schema_version r \<le> CURRENT_SCHEMA_VERSION) t))"
  have "rows_keyed from_json ?t" by (intro rows_keyed_newest rows_keyed_filter assms)
  moreover have "length ?t \<le> n" by (simp add: newest_rows_def sqlite_usize_def)
  ultimately show ?thesis using rows_keyed_records [of from_json ?t] by (simp add: load_latest_records_def)
qed

lemma migrated_keyed: "rows_keyed from_json (db_rows d) \<Longrightarrow> rows_keyed from_json (db_rows (migrated d))"
  by (auto simp: migrated_def create_table_def add_schema_version_def rows_keyed_def list_all_iff comp_def Let_def
      cong: option.case_cong)

text \<open>The records of a start, whatever happened to its writer thread.\<close>

lemma start_persistence_records:
  assumes "rows_keyed from_json (db_rows d)"
    and "start_persistence fails thread_fails umask from_json directory n d = (d', Inr (rs, w))"
  shows "distinct (map rr_id rs) \<and> length rs \<le> n"
proof -
  have "rows_keyed from_json (db_rows (started_database n d))"
    unfolding started_database_fields prune_records_def by (intro rows_keyed_filter migrated_keyed assms(1))
  moreover have "rs = load_latest_records from_json n (db_rows (started_database n d))"
    using start_persistence_cases [of fails thread_fails umask from_json directory n d] assms(2) by (auto simp: error_of_def)
  ultimately show ?thesis using load_latest_keyed by blast
qed

lemma open_inspector_store_ok:
  assumes "rows_keyed (su_from_json env) (db_rows d)" and "open_inspector_store env c d = (d', Inr store)"
  shows "distinct (record_ids store) \<and> retained_len store \<le> 100000"
  using assms start_persistence_records [OF assms(1)]
  by (fastforce simp: open_inspector_store_def store_new_def store_from_parts_def record_ids_def retained_len_def
      clamp_retention_def MAX_RETENTION_REQUESTS_def split: if_splits option.splits prod.splits sum.splits)

section \<open>A started process\<close>

lemma main_start_ok:
  assumes "main_start env h fs path d = (d', Inr p)"
  shows "load h fs path = Inr (ap_config (pr_app p)) \<and>
    (\<exists>d1. open_inspector_store env (cfg_inspector (ap_config (pr_app p))) d = (d1, Inr (ap_inspector (pr_app p)))) \<and>
    ap_health (pr_app p) = [] \<and> ap_context_sizes (pr_app p) = []"
  using assms by (auto simp: main_start_def app_state_new_def split: sum.splits prod.splits option.splits)

lemma process_server_inv:
  assumes start: "main_start env h fs path d = (d', Inr p)" and rows: "rows_keyed (su_from_json env) (db_rows d)"
    and same: "load h fs' (pr_path p) = Inr (ap_config (pr_app p))"
  shows "server_inv h (pr_path p) filename (process_server fs' p)"
proof -
  note ok = main_start_ok [OF start]
  have "distinct (record_ids (ap_inspector (pr_app p)))" "retained_len (ap_inspector (pr_app p)) \<le> 100000"
    using ok open_inspector_store_ok [OF rows] by blast+
  moreover have "health_entry [] b = default_health_record" for b by (simp add: health_entry_def)
  ultimately show ?thesis
    using ok same load_wf [OF same]
    by (simp add: process_server_def server_inv_def watch_inv_def watch_start_def cache_consistent_def)
qed

text \<open>
  C3: what \<open>main\<close> starts is safe.  If a start succeeds, with whatever records the database held, then in every state
  that its server reaches the active configuration and all before it are valid, each upstream request went to a
  backend of the configuration its request saw, the health store knows only configured backends, the inspector
  holds at most 100000 records with distinct ids, restored ones included, and the context sizes are consistent.
  The file must still load to the same configuration when the watcher starts.
\<close>

theorem started_process_safe:
  assumes "main_start env h fs path d = (d', Inr p)" and "rows_keyed (su_from_json env) (db_rows d)"
    and "load h fs' (pr_path p) = Inr (ap_config (pr_app p))"
    and "(server_step h (pr_path p) (pr_filename p))\<^sup>*\<^sup>* (process_server fs' p) s"
  shows "list_all config_wf (active_config s # sy_loaded s) \<and>
    list_all (\<lambda>(x, p). if_config x \<in> set (sy_loaded s) \<and>
      (\<exists>b \<in> set (cfg_backends (if_config x)). addressed_to (if_env x) b p)) (sy_sent s) \<and>
    (\<forall>b. b \<notin> configured_ids s \<longrightarrow> shown_status (sy_health s) b = ''unknown'') \<and>
    distinct (record_ids (sy_inspector s)) \<and> retained_len (sy_inspector s) \<le> 100000 \<and>
    cache_consistent (sy_context_sizes s)"
  by (rule server_inv_safe [OF server_inv_run [OF assms(4) process_server_inv [OF assms(1,2,3)]]])

text \<open>A start that finds one record in its database.\<close>

definition sample_inspector :: inspector_config where
  "sample_inspector = default_inspector_config\<lparr>ic_enabled := True,
     ic_persistence := \<lparr>ip_enabled = True, ip_path = Some ''inspector.db'', ip_drain_timeout_ms = 500\<rparr>\<rparr>"

definition sample_disk :: file_system where
  "sample_disk = \<lparr>read_to_string = (\<lambda>_. Some ''x''), toml_from_str = (\<lambda>_. Some (example_file\<lparr>cf_inspector := sample_inspector\<rparr>))\<rparr>"

definition sample_database :: database where
  "sample_database = \<lparr>db_mode = Some 384, db_columns = Some SCHEMA_COLUMNS, db_rows = [record_row (sample_record ''r'') ''j'']\<rparr>"

definition sample_startup :: "unit startup_env" where
  "sample_startup =
     \<lparr>su_build = (\<lambda>_ _ _. Inr ()), su_flush = (\<lambda>_. True), su_db_fails = Map.empty, su_thread_fails = Map.empty,
      su_umask = 420, su_from_json = [''j'' \<mapsto> sample_record ''r''], su_client_error = None, su_current_dir = Some ''/etc'',
      su_watch_ok = (\<lambda>_. True), su_bind_error = None, su_now_unix_ms = 0\<rparr>"

lemma resolve_inspector:
  "resolve h f = Inr c \<Longrightarrow> validate_inspector_config ic = Inr () \<Longrightarrow>
     resolve h (f\<lparr>cf_inspector := ic\<rparr>) = Inr (c\<lparr>cfg_inspector := ic\<rparr>)"
  by (auto simp: resolve_def validate_top_level_def result_simps)

lemma sample_load: "load example_host sample_disk path = Inr (example_config\<lparr>cfg_inspector := sample_inspector\<rparr>)"
proof -
  have "validate_inspector_config sample_inspector = Inr ()"
    by (simp add: validate_inspector_config_def sample_inspector_def config_defaults)
  then show ?thesis by (simp add: load_def sample_disk_def resolve_inspector [OF example_resolve])
qed

lemma sample_restored:
  "load_latest_records [''j'' \<mapsto> sample_record ''r''] 10000 (db_rows (started_database 10000 sample_database)) = [sample_record ''r'']"
proof -
  let ?row = "record_row (sample_record ''r'') ''j''"
  have "migrated sample_database = sample_database"
    by (simp add: migrated_def create_table_def has_schema_version_def sample_database_def SCHEMA_COLUMNS_def)
  moreover have "prune_records 10000 [?row] = [?row]"
    by (simp add: prune_records_def newest_rows_def sqlite_usize_def)
  ultimately have "db_rows (started_database 10000 sample_database) = [?row]"
    by (simp add: started_database_fields sample_database_def)
  moreover have "row_schema_version ?row \<le> CURRENT_SCHEMA_VERSION" "row_record_json ?row = ''j''"
    by (simp_all add: record_row_def)
  ultimately show ?thesis
    by (simp add: load_latest_records_def newest_rows_def sqlite_usize_def List.map_filter_simps)
qed

lemma sample_started:
  "\<exists>p. main_start sample_startup example_host sample_disk ''onair.toml'' sample_database = (started_database 10000 sample_database, Inr p) \<and>
     is_records (ap_inspector (pr_app p)) = [sample_record ''r''] \<and>
     ap_config (pr_app p) = example_config\<lparr>cfg_inspector := sample_inspector\<rparr>"
proof -
  obtain w where w: "start_persistence Map.empty Map.empty 420 [''j'' \<mapsto> sample_record ''r''] (parent_directory ''inspector.db'') 10000
      sample_database = (started_database 10000 sample_database, Inr ([sample_record ''r''], w))"
    using start_persistence_cases [of Map.empty Map.empty 420 "[''j'' \<mapsto> sample_record ''r'']" "parent_directory ''inspector.db''" 10000
        sample_database] sample_restored by (auto simp: error_of_def)
  have t: "watch_target (Some ''/etc'') (\<lambda>_. True) ''onair.toml'' =
      Inr (''/etc/onair.toml'', [RootDir, Normal ''etc''], ''onair.toml'')"
    by code_simp
  have r: "clamp_retention 10000 = 10000" by (simp add: clamp_retention_def MAX_RETENTION_REQUESTS_def)
  have telemetry: "telemetry_install build (cfg_telemetry example_config) = Inr None" for build :: "unit build_provider"
    by (simp add: telemetry_install_def example_config_def default_telemetry_config_def)
  show ?thesis
    by (simp add: main_start_def sample_load app_state_new_def open_inspector_store_def sample_startup_def t telemetry)
      (simp add: sample_inspector_def default_inspector_config_def r w store_from_parts_def)
qed

theorem started_process_safe_witness:
  "\<exists>p. main_start sample_startup example_host sample_disk ''onair.toml'' sample_database = (started_database 10000 sample_database, Inr p) \<and>
     (\<forall>env q. let s = accept_request env q (process_server sample_disk p)
      in is_records (sy_inspector s) = [sample_record ''r''] \<and> config_wf (active_config s) \<and>
         distinct (record_ids (sy_inspector s)) \<and> length (sy_inflight s) = 1)"
proof -
  obtain p where p: "main_start sample_startup example_host sample_disk ''onair.toml'' sample_database =
      (started_database 10000 sample_database, Inr p)" "is_records (ap_inspector (pr_app p)) = [sample_record ''r'']"
    "ap_config (pr_app p) = example_config\<lparr>cfg_inspector := sample_inspector\<rparr>"
    using sample_started by blast
  have rows: "rows_keyed (su_from_json sample_startup) (db_rows sample_database)"
    by (simp add: rows_keyed_def sample_database_def sample_startup_def record_row_def)
  have same: "load example_host sample_disk (pr_path p) = Inr (ap_config (pr_app p))" by (simp add: sample_load p)
  have "let s = accept_request env q (process_server sample_disk p)
      in is_records (sy_inspector s) = [sample_record ''r''] \<and> config_wf (active_config s) \<and>
         distinct (record_ids (sy_inspector s)) \<and> length (sy_inflight s) = 1" for env q
    using started_process_safe [OF p(1) rows same r_into_rtranclp [where r = "server_step _ _ _", OF server_step.arriving]] p(2)
    by (simp add: Let_def) (simp add: accept_request_def process_server_def Let_def)
  then show ?thesis using p(1) by blast
qed

text \<open>
  The file is read before the watcher exists: a change between the two leaves no notification, and the task then
  waits although the configuration it holds is not the one of the file.
\<close>

lemma startup_change_missed:
  assumes "load h fs' path = Inr c'" and "c' \<noteq> c"
  shows "\<forall>n. let s = (task_step h path filename ^^ n) (deliver_all path filename (watch_start fs' c))
    in ws_phase s = Waiting \<and> ws_store s = c \<and> load h (ws_disk s) path \<noteq> Inr (ws_store s)"
proof -
  have "task_step h path filename (watch_start fs' c) = watch_start fs' c"
    by (simp add: task_step_def watch_start_def)
  then have "(task_step h path filename ^^ n) (watch_start fs' c) = watch_start fs' c" for n
    by (induction n) simp_all
  moreover have "deliver_all path filename (watch_start fs' c) = watch_start fs' c"
    by (simp add: deliver_all_def watch_start_def)
  ultimately show ?thesis using assms by (simp add: watch_start_def)
qed

text \<open>\<open>main\<close> shuts the exporter down only when the server ended without an error.\<close>

lemma main_run_telemetry:
  "main_run env h fs path served d = (d', stopped, result) \<Longrightarrow>
     (case result of
        Inl e \<Rightarrow> stopped = None
      | Inr _ \<Rightarrow> served = Inr () \<and> (\<exists>cfg. load h fs path = Inr cfg \<and> telemetry_install (su_build env) (cfg_telemetry cfg) = Inr stopped))"
  by (auto simp: main_run_def main_start_def split: sum.splits prod.splits option.splits)

section \<open>The shutdown ends in time\<close>

definition serve_inv :: "nat \<Rightarrow> serve_state \<Rightarrow> bool" where
  "serve_inv delay s \<longleftrightarrow>
     (case sv_phase s of
        Selecting \<Rightarrow> sv_waited s \<le> delay \<and> \<not> sv_warned s \<and>
          (if sv_shutdown s then sv_now s = sv_signal_at s + sv_waited s else sv_waited s = 0)
      | Graceful deadline \<Rightarrow>
          sv_shutdown s \<and> \<not> sv_warned s \<and> sv_waited s \<le> delay \<and>
          sv_signal_at s + GRACEFUL_SHUTDOWN_TIMEOUT \<le> deadline \<and>
          deadline \<le> sv_signal_at s + GRACEFUL_SHUTDOWN_TIMEOUT + delay \<and>
          (if sv_now s < deadline then sv_waited s = 0 else sv_now s = deadline + sv_waited s)
      | Served r \<Rightarrow>
          (sv_shutdown s \<longrightarrow> sv_now s \<le> sv_signal_at s + GRACEFUL_SHUTDOWN_TIMEOUT + 2 * delay) \<and>
          (sv_warned s \<longrightarrow> sv_signal_at s + GRACEFUL_SHUTDOWN_TIMEOUT \<le> sv_now s) \<and>
          (r = Inr () \<longrightarrow> sv_shutdown s \<and> (sv_warned s \<or> sv_connections s = 0)))"

lemma serve_start_inv: "serve_inv delay (serve_start now)"
  by (simp add: serve_inv_def serve_start_def)

lemma serve_step_inv: "serve_step delay s t \<Longrightarrow> serve_inv delay s \<Longrightarrow> serve_inv delay t"
proof (induction rule: serve_step.induct)
  case (server_failed s e)
  then show ?case by (cases "sv_phase s") (auto simp: serve_inv_def split: if_splits)
next
  case (server_ended s)
  then show ?case by (cases "sv_phase s") (auto simp: serve_inv_def split: if_splits)
next
  case (waiting s)
  then show ?case by (cases "sv_phase s") (auto simp: serve_inv_def)
next
  case (idle s)
  then show ?case by (cases "sv_phase s") (auto simp: serve_inv_def split: if_splits)
qed (auto simp: serve_inv_def GRACEFUL_SHUTDOWN_TIMEOUT_def split: serve_phase.splits if_splits)

lemma serve_reachable_inv: "(serve_step delay)\<^sup>*\<^sup>* (serve_start now) s \<Longrightarrow> serve_inv delay s"
  by (induction rule: rtranclp_induct) (blast intro: serve_start_inv serve_step_inv)+

text \<open>A run to the end: the branch is taken, the clock runs to the deadline, the timeout fires.\<close>

lemma graceful_returns:
  "sv_phase s = Graceful deadline \<Longrightarrow> \<exists>t. (serve_step delay)\<^sup>*\<^sup>* s t \<and> sv_phase t = Served (Inr ())"
proof (induction "deadline - sv_now s" arbitrary: s)
  case 0
  then have "serve_step delay s (s\<lparr>sv_phase := Served (Inr ()), sv_warned := True\<rparr>)"
    by (intro serve_step.timed_out) simp_all
  then show ?case by (intro exI [of _ "s\<lparr>sv_phase := Served (Inr ()), sv_warned := True\<rparr>"] conjI r_into_rtranclp) simp_all
next
  case (Suc k)
  let ?t = "s\<lparr>sv_now := sv_now s + 1\<rparr>"
  have "serve_step delay s ?t" using Suc.prems Suc.hyps(2) by (intro serve_step.idle) simp_all
  moreover have "k = deadline - sv_now ?t" "sv_phase ?t = Graceful deadline" using Suc.hyps(2) Suc.prems by simp_all
  then obtain t where "(serve_step delay)\<^sup>*\<^sup>* ?t t" "sv_phase t = Served (Inr ())"
    using Suc.hyps(1) [of ?t] by blast
  ultimately show ?case by (blast intro: converse_rtranclp_into_rtranclp)
qed

lemma shutdown_returns:
  assumes "sv_shutdown s"
  shows "\<exists>t r. (serve_step delay)\<^sup>*\<^sup>* s t \<and> sv_phase t = Served r"
proof (cases "sv_phase s")
  case Selecting
  let ?t = "s\<lparr>sv_phase := Graceful (sv_now s + GRACEFUL_SHUTDOWN_TIMEOUT), sv_waited := 0\<rparr>"
  have "serve_step delay s ?t" using Selecting assms by (rule serve_step.wait_for_shutdown)
  then show ?thesis using graceful_returns [of ?t _ delay] by (auto intro: converse_rtranclp_into_rtranclp)
qed (use graceful_returns in blast)+

text \<open>
  C22: the shutdown is graceful and bounded.  However connections, the signal and the clock interleave: after the
  signal \<open>serve\<close> has returned no later than five seconds plus twice the scheduling delay, it can always go on to
  return, and when it returns without an error the signal had come and either no connection was open or the
  five seconds had passed, in which case it has warned.
\<close>

theorem shutdown_bounded:
  assumes "(serve_step delay)\<^sup>*\<^sup>* (serve_start now) s"
  shows "(sv_shutdown s \<longrightarrow> sv_now s \<le> sv_signal_at s + 5000 + 2 * delay \<and>
      (\<exists>t r. (serve_step delay)\<^sup>*\<^sup>* s t \<and> sv_phase t = Served r)) \<and>
    (sv_phase s = Served (Inr ()) \<longrightarrow> sv_shutdown s \<and>
      (if sv_warned s then sv_signal_at s + 5000 \<le> sv_now s else sv_connections s = 0))"
proof -
  have "serve_inv delay s" by (rule serve_reachable_inv [OF assms])
  then have "sv_shutdown s \<longrightarrow> sv_now s \<le> sv_signal_at s + 5000 + 2 * delay"
    by (auto simp: serve_inv_def GRACEFUL_SHUTDOWN_TIMEOUT_def split: serve_phase.splits if_splits)
  moreover have "sv_phase s = Served (Inr ()) \<longrightarrow> sv_shutdown s \<and>
      (if sv_warned s then sv_signal_at s + 5000 \<le> sv_now s else sv_connections s = 0)"
    using \<open>serve_inv delay s\<close> by (auto simp: serve_inv_def GRACEFUL_SHUTDOWN_TIMEOUT_def)
  ultimately show ?thesis using shutdown_returns by blast
qed

theorem shutdown_bounded_witness:
  "\<exists>t r. (serve_step 0)\<^sup>*\<^sup>* ((serve_start 7)\<lparr>sv_shutdown := True, sv_signal_at := 7\<rparr>) t \<and> sv_phase t = Served r"
proof -
  have "serve_step 0 (serve_start 7) ((serve_start 7)\<lparr>sv_shutdown := True, sv_signal_at := 7\<rparr>)"
    using serve_step.shutdown_signal [of "serve_start 7" 0] by (simp add: serve_start_def)
  from shutdown_bounded [of 0 7, OF r_into_rtranclp [where r = "serve_step 0", OF this]]
  show ?thesis by simp
qed

end
