(* ===== verification/Spec2Isabelle.thy ===== *)
theory Spec2Isabelle
  imports Routing_Strategies Multipart Request_Correct Response_Correct Streaming_Correct End_To_End
    Request_Records Process
begin

text \<open>
  A model of \<open>onair\<close>, an OpenAI-compatible reverse proxy in Rust, and the theorems that make it correct.

  \<^bold>\<open>The program and its parts.\<close>  A request enters \<open>proxy_v1\<close> (\<open>onair-proxy/src/proxy.rs\<close>): the client is
  authenticated against the configuration, the body is inspected for model, stream and tool fields, the router
  chooses candidate backends, the body is rewritten for the mode in which the chosen backend serves the
  endpoint, the request is sent, retried on fallback candidates when the connection fails, and the response is
  rewritten, buffered or as an event stream, so that the client sees the public model name and the API it
  called.  Metrics, backend health and the inspector learn what happened.  The configuration is resolved from a
  file and reloaded while the proxy runs.

  \<^bold>\<open>Theories and sources.\<close>  Paths are relative to \<open>src/crates\<close>.

  \<^item> \<open>Prelude\<close>, \<open>Rust_Str\<close>, \<open>Ordered_Map\<close>, \<open>Json_Value\<close>: results, the string operations of the standard library on
    byte strings, \<open>BTreeMap\<close> and \<open>BTreeSet\<close> as sorted lists, and the values of \<open>serde_json\<close> with their accessors.
  \<^item> \<open>Api_Error\<close> (\<open>onair-core/src/error.rs\<close>), \<open>Ip_Cidr\<close> (\<open>ip_cidr.rs\<close>), \<open>Endpoints\<close> (\<open>compat.rs\<close>,
    \<open>routing_markers.rs\<close>, \<open>sanitize.rs\<close>, \<open>openai/paths.rs\<close>, \<open>openai/models.rs\<close>), \<open>Context_Cache\<close>
    (\<open>context_size_cache.rs\<close>), \<open>Auth\<close> (\<open>auth.rs\<close>).
  \<^item> \<open>Config_Types\<close>, \<open>Config\<close> (\<open>config.rs\<close>): the file, its defaults, validation and resolution, the store and the
    reload loop.  \<open>config_wf\<close> is the invariant that resolution establishes.
  \<^item> \<open>Routing\<close>, \<open>Routing_Correct\<close>, \<open>Routing_Strategies\<close> (\<open>onair-proxy/src/routing.rs\<close>): request modes, eligibility, candidates
    and the four strategies; the admissible candidates of a request are the specification.
  \<^item> \<open>Request_Policy\<close>, \<open>Request\<close>, \<open>Multipart\<close>, \<open>Request_Correct\<close> (\<open>openai/request.rs\<close>); \<open>Responses_Compat\<close>,
    \<open>Responses_Compat_Correct\<close> (\<open>openai/responses_compat.rs\<close>); \<open>Anthropic_Compat\<close>, \<open>Anthropic_Compat_Correct\<close>
    (\<open>openai/anthropic_compat.rs\<close>): inspection and rewriting of request bodies.
  \<^item> \<open>Response\<close>, \<open>Response_Correct\<close> (\<open>openai/response.rs\<close>, complete bodies); \<open>Sse\<close>, \<open>Sse_Responses\<close>, \<open>Sse_Chat\<close>, \<open>Sse_Correct\<close>,
    \<open>Sse_Protocol\<close>, \<open>Sse_Responses_Correct\<close> (the event stream normalizers of the same file).  A normalizer is a
    record of its fields and a handler of one frame that returns the new record and the events it emits.
  \<^item> \<open>Streaming\<close>, \<open>Streaming_Correct\<close> (\<open>proxy/upstream.rs\<close>, the loop of \<open>proxy/response.rs\<close>); \<open>Proxy\<close>, \<open>Proxy_Correct\<close>
    (\<open>proxy.rs\<close>, \<open>proxy/context.rs\<close>, \<open>proxy/attempt.rs\<close>, \<open>proxy/response.rs\<close>): the request path, whose metrics, health
    reports, inspector records and upstream requests are a list of effects in order.
  \<^item> \<open>Config_Watcher\<close> (the watcher of \<open>config.rs\<close>): notifications, the channel, the debounce and the retries as a step
    relation in which the file system, the notifier and the task interleave.
  \<^item> \<open>Backend_Health\<close> (\<open>onair-obs/src/observe/health.rs\<close>), \<open>Background_Tasks\<close> (\<open>context_sizes.rs\<close>, \<open>health_probe.rs\<close>): the health
    store, one round of the context size refresh and one round of the health probe.
  \<^item> \<open>Ip_Text\<close>, \<open>Client_Info\<close> (\<open>client_info.rs\<close>): the text of addresses, and the address of a client behind trusted proxies.
  \<^item> \<open>Inspector_Records\<close> (\<open>timeline.rs\<close>, \<open>inspector/records.rs\<close>, \<open>proxy/attempt.rs\<close>, \<open>proxy/inspector.rs\<close>), \<open>Inspector_Store\<close>
    (\<open>inspector/store.rs\<close>, \<open>inspector/live.rs\<close>), \<open>Inspector_Persistence\<close> (\<open>inspector_persistence.rs\<close>): timelines and records, the
    bounded deque with its live records, the table and the thread that writes it.  \<open>Persistence_Database\<close> adds the file, its
    schema and migration and the failures of every statement.
  \<^item> \<open>Metrics\<close> (\<open>metrics.rs\<close>): the measurements with their attributes, and the exporter.
  \<^item> \<open>Stream_Capture\<close> (\<open>stream_capture.rs\<close>), \<open>Debug_Capture\<close> (\<open>debug_capture.rs\<close>), \<open>Stream_Session\<close> (\<open>proxy/response.rs\<close>): the
    captures of requests and streams as file operations, and a streaming response with the timeline, live record and
    captures that accompany it.
  \<^item> \<open>Request_Context\<close> (\<open>proxy/context.rs\<close>), \<open>Proxy_Logging\<close> (\<open>proxy/logging.rs\<close>), \<open>Request_Session\<close> (\<open>proxy.rs\<close>,
    \<open>proxy/response.rs\<close>): the request path once more, now the whole handler, with the clock readings, timeline marks,
    live updates, captures and log lines of every branch in order.  \<open>Request_Session_Correct\<close> shows that it refines
    \<open>Proxy\<close>; \<open>Request_Captures\<close> and \<open>Request_Records\<close> state what it leaves in the capture directory and in the inspector.
  \<^item> \<open>Operator\<close> (\<open>onair-proxy/src/operator.rs\<close>), \<open>Application\<close> (\<open>onair/src/app.rs\<close>): the views of the operator endpoints, the
    gate in front of them, the model listing and the routes of the server.
  \<^item> \<open>End_To_End\<close>, \<open>Traffic\<close>, \<open>Server\<close> and this theory: properties of the composition.  \<open>Traffic\<close> joins the request path with
    the health store and the inspector store, and holds a complete run of one request; \<open>Server\<close> is the step relation in
    which requests, the watcher and the background tasks interleave over the shared state (\<open>proxy_state.rs\<close>).
  \<^item> \<open>Process\<close> (\<open>onair/src/main.rs\<close>, \<open>AppState::new\<close>): the stages of a start with their errors, the server that a start
    gives, and the graceful shutdown as a step relation.

  \<^bold>\<open>What the theorems show.\<close>

  \<^item> Admission and forwarding: nothing is sent before a request is admitted, and what is sent afterwards refines an
    abstract failover over the first candidates of the router; under a resolved configuration every upstream
    request goes to a configured backend, with that backend's key and under its URL, at most seventeen times;
    client headers do not reach backends, backend headers and errors reach clients only through an allow list;
    the recorded status is the one the client got, once.
  \<^item> Companions: the handler with timelines, live records, captures and log lines answers and reports exactly as the
    request path without them; when it has answered, the inspector shows the final record with that status and
    one attempt for each backend contacted; captures are written only as the configuration allows; the token
    counters agree with the final records.
  \<^item> Configuration and routing: resolution establishes the invariant, the reload loop keeps it, routing is total over
    it; a selection holds exactly the admissible candidates in an order that is a rotation of the priority
    order, each refusal has its exact condition, round robin is fair and the weighted draw has the configured
    distribution.
  \<^item> Bodies: the upstream body names the bound model in every mode; tools, calls, completions and multipart bodies
    survive their conversions back and forth; no response names the backend model; usage is summed over all
    usage objects.
  \<^item> Streams: the output of a normalizer does not depend on the chunking; a chat stream is closed exactly once; the
    deltas of a Responses stream concatenate to what its final event reports; the loop delivers the frames of
    a native stream.
  \<^item> Operation: in every state that a started process can reach, configurations are valid, every upstream request went
    where the configuration its request saw sends it, and the stores are bounded; the running configuration
    converges to the file, whatever interleaves; the shutdown ends in bounded time; operator endpoints are closed to
    remote peers and show no secret; a backend is blamed only for requests sent to it, and its status is a function
    of its own history; the inspector shows the status the client received, holds a bounded number of records, and
    a start prepares the database or says why not and restores the newest of what was inserted; what is captured of a stream is what the client got, capturing does not change it,
    and captures stay in their private directory; listing and retrieving models agree.
  \<^item> Where the code does not do what it means to, a theorem of the component theory states what it does.

  \<^bold>\<open>Interfaces.\<close>  The locales state the contracts that several components share: sorted maps, strategies that
  rotate a candidate list, event steps that emit a marker once or accumulate a text, logs of identified records
  (the deque of the inspector and the table of its database); each is interpreted on the definitions of the model.

  \<^bold>\<open>Parameters.\<close>  Code outside the repository is an argument: the codec of \<open>serde_json\<close> (\<open>serde\<close>), \<open>form_urlencoded\<close>
  (\<open>form_codec\<close>), the URL parser, environment and header syntax (\<open>host\<close>), the TOML decoder and file system of a
  reload, the HTTP client, header names and the random source (\<open>proxy_env\<close>), the classification predicates of a
  transport error (\<open>http_error\<close>), the clocks, counters and file operations of a request (\<open>session_env\<close>), SQLite as the
  meaning of its statements and the failures it reports, the exporter and the operating system of a start
  (\<open>startup_env\<close>).  A value that does not serialise is a panic, the result \<open>None\<close>.

  \<^bold>\<open>Termination and bounds.\<close>  No definition uses fuel: loops over bytes and lines recur on what is left, recursion over
  JSON values on their size, the retry loop on the fallbacks, the reload loop on its five attempts.  Token
  counters, weights, timeouts and array indices are 64-bit or 32-bit words and wrap as release builds do; sizes
  of lists are natural numbers.

  \<^bold>\<open>Time and concurrency.\<close>  Clock readings are arguments of the operations that take them.  Code under a lock is a function
  on the guarded state; threads and tasks interleave as sequences of such operations (the store operations of
  requests, the sender and the writer of a capture, the reports of concurrent requests) or as a step relation (the
  watcher, the server, the shutdown, whose scheduling delay is a parameter of its bound).  The clock of a request is
  the sequence of its readings, in the order in which the handler takes them.

  \<^bold>\<open>Not modelled.\<close>  What a subscriber makes of log lines and spans; the instruments and the export of OpenTelemetry behind
  the measurements; the timers that start the rounds of the background tasks; the body limit and the connection
  handling of the HTTP framework; the command line parser; the text of the inspector page; the serialised form of
  records and snapshots beyond the round trip that the persistence relies on.
\<close>

section \<open>Configuration and routing\<close>

lemma weighted_rotate_total:
  assumes "list_all (\<lambda>c. 0 < sr_weight c) cs" and "length cs < 2 ^ 32"
  shows "weighted_rotate g cs \<noteq> None"
proof (cases "length cs \<le> 1")
  case True
  then show ?thesis by (simp add: weighted_rotate_def)
next
  case False
  then obtain x xs where cs: "cs = x # xs" by (cases cs) simp_all
  then have "0 < unat (sr_weight x)" using assms(1) by (simp add: word_gt_0 unat_gt_0)
  then have "unat (sum_list (map (\<lambda>c. ucast (sr_weight c)) cs) :: u64) \<noteq> 0"
    using weights_total(2) [OF assms(2)] cs by simp
  then show ?thesis by (auto simp: weighted_rotate_def Let_def split: option.splits)
qed

text \<open>
  C13: under a configuration that was resolved, routing always answers.  Whatever the strategy, the
  counters and the random source, a selection over the backends of a well-formed configuration
  returns a non-empty candidate list or an API error; in particular the weighted draw never asks
  for a number from an empty range.  Every candidate is a configured backend with its URL and key.
\<close>

theorem select_total:
  assumes "config_wf cfg" and "rq_backends rq = cfg_backends cfg" and "rq_routes rq = cfg_routes cfg"
    and "length (cfg_backends cfg) < 2 ^ 32"
    and "list_all (\<lambda>r. length (rt_backends r) < 2 ^ 32) (cfg_routes cfg)"
  shows "(\<exists>e. select g rq c = (Some (Inl e), c)) \<or>
    (\<exists>v c'. select g rq c = (Some (Inr v), c') \<and>
       list_all (\<lambda>cand. \<exists>b \<in> set (cfg_backends cfg). sr_backend_id cand = be_id b \<and>
          sr_base_url cand = be_base_url b \<and> sr_api_key cand = be_api_key b) (nev_iter v))"
proof -
  have len: "length cs < 2 ^ 32" if cc: "collect_candidates rq = Inr (cs, t)" for cs t
  proof -
    have one: "length (concat (map f xs)) \<le> length xs" if "\<And>x. length (f x) \<le> 1" for f :: "'z \<Rightarrow> 'y list" and xs
      using that by (induction xs) (auto intro: add_le_mono [of _ 1, simplified])
    show ?thesis
    proof (cases "rq_model rq")
      case None
      let ?r = "find_path_route (rq_routes rq) (rq_path rq)"
      have "length (path_contribution rq ?r b) \<le> 1" for b
        by (simp add: path_contribution_def split: option.splits)
      then show ?thesis using one [of "path_contribution rq ?r" "rq_backends rq"] cc None assms(2,4)
        by (simp add: collect_candidates_eq Let_def)
    next
      case (Some m)
      then obtain r where r: "find_public_route (rq_routes rq) m = Some r"
        and cs: "cs = concat (map (model_contribution rq r) (rt_backends r))"
        using cc by (auto simp: collect_candidates_eq split: option.splits)
      have "r \<in> set (cfg_routes cfg)" using r assms(3) by (auto simp: find_public_route_def dest: find_SomeD)
      then have "length (rt_backends r) < 2 ^ 32" using assms(5) by (simp add: list_all_iff)
      moreover have "length (model_contribution rq r b) \<le> 1" for b
        by (simp add: model_contribution_def split: option.splits)
      ultimately show ?thesis using one [of "model_contribution rq r" "rt_backends r"] cs by simp
    qed
  qed
  have pos: "list_all (\<lambda>c. 0 < sr_weight c) cs" if cc: "collect_candidates rq = Inr (cs, t)" for cs t
    using assms(1,2) admissible_backend collect_candidates_set [OF cc]
    by (fastforce simp: list_all_iff config_wf_def backends_wf_def backend_wf_def)
  have "fst (select g rq c) \<noteq> None"
    using select_panics_only_if_weightless [of g rq c] len pos weighted_rotate_total by blast
  then obtain r c' where s: "select g rq c = (Some r, c')" by (cases "select g rq c") auto
  show ?thesis
  proof (cases r)
    case (Inl e)
    then have "c' = c" using select_refusal_counters s by blast
    then show ?thesis using s Inl by blast
  next
    case (Inr v)
    then have "fst (select g rq c) = Some (Inr v)" using s by simp
    from selected_backend [OF this] assms(2)
    have "list_all (\<lambda>cand. \<exists>b \<in> set (cfg_backends cfg). sr_backend_id cand = be_id b \<and>
          sr_base_url cand = be_base_url b \<and> sr_api_key cand = be_api_key b) (nev_iter v)"
      by (simp add: list_all_iff)
    then show ?thesis using s Inr by blast
  qed
qed

theorem select_total_witness:
  "config_wf example_config \<and>
   (let rq = \<lparr>rq_backends = cfg_backends example_config, rq_routes = cfg_routes example_config,
      rq_strategy = WeightedRandom, rq_path = ''/v1/embeddings'', rq_model = Some ''gpt'',
      rq_stream = True, rq_tools = True, rq_sticky_key = None\<rparr>
    in (\<exists>e. select (\<lambda>_. 0) rq Map.empty = (Some (Inl e), Map.empty)) \<or> (\<exists>v c'. select (\<lambda>_. 0) rq Map.empty = (Some (Inr v), c')))"
proof -
  have wf: "config_wf example_config" by (rule resolve_establishes_wf [OF example_resolve])
  have len: "length (cfg_backends example_config) < 2 ^ 32"
    "list_all (\<lambda>r. length (rt_backends r) < 2 ^ 32) (cfg_routes example_config)"
    by (simp_all add: example_config_def)
  show ?thesis
    using wf select_total [OF wf _ _ len, of "\<lparr>rq_backends = cfg_backends example_config,
      rq_routes = cfg_routes example_config, rq_strategy = WeightedRandom, rq_path = ''/v1/embeddings'',
      rq_model = Some ''gpt'', rq_stream = True, rq_tools = True, rq_sticky_key = None\<rparr>"
      "\<lambda>_. 0" Map.empty]
    by (auto simp: Let_def)
qed

section \<open>Where the configuration and the router disagree\<close>

definition example_model_request :: selection_request where
  "example_model_request =
     \<lparr>rq_backends = cfg_backends example_config, rq_routes = cfg_routes example_config,
      rq_strategy = Priority, rq_path = ''/v1/embeddings'', rq_model = Some ''gpt'',
      rq_stream = False, rq_tools = False, rq_sticky_key = None\<rparr>"

lemma example_model_select:
  "select g example_model_request c = (Some (Inr (NonEmptyVec run_route [])), c)"
  unfolding run_route_def by (rule example_select) (simp_all add: example_model_request_def)

text \<open>
  The request policies of a backend do not reach routed requests.  The example file sets
  \<open>tool_schema_mode = llamacpp_compat\<close> on the backend and nothing on the route; it resolves, and
  the candidate selected for the route's model carries \<open>preserve\<close>.
\<close>

theorem backend_policy_not_inherited:
  "resolve example_host example_file = Inr example_config \<and>
   map be_tool_schema_mode (cfg_backends example_config) = [LlamacppCompat] \<and>
   map rcf_tool_schema_mode (cf_routes example_file) = [None] \<and>
   (\<exists>v. select g example_model_request c = (Some (Inr v), c) \<and>
      map sr_tool_schema_mode (nev_iter v) = [SchemaPreserve])"
  using example_resolve
  by (simp add: example_model_select run_route_def nev_iter_def build_candidate_def)
    (simp add: example_config_def example_file_def example_route_def)

text \<open>
  The unreachable-backend warning has false positives.  For the example route, which exposes
  everything by leaving \<open>expose\<close> empty, the warning names backend \<open>b\<close> as one that will never be
  selected, and the router selects it.
\<close>

theorem unreachable_warning_false_positive:
  "concat (map (\<lambda>r. warn_about_unreachable_backends (rt_expose r) (rt_backends r)
       (cfg_backends example_config)) (cfg_routes example_config)) = [''b''] \<and>
   (\<exists>v. select g example_model_request c = (Some (Inr v), c) \<and>
      map sr_backend_id (nev_iter v) = [''b''])"
  by (simp add: example_model_select run_route_def nev_iter_def build_candidate_def)
    (simp add: example_config_def route_can_serve_def find_backend_def)

end
